(* ===== verification/Prelude.thy ===== *)
theory Prelude
  imports Main "HOL-Library.Word" "HOL-Library.Monad_Syntax"
begin

text \<open>
  Shared vocabulary of the development: the machine integer types of the C sources, bytes and
  little-endian words, and the collections of rewrite rules that the component theories fill.
\<close>

unbundle bit_operations_syntax

named_theorems hw_simps \<open>closed forms of the drivers on the bus history\<close>
named_theorems out_simps \<open>what an operation does to the observable streams\<close>

type_synonym u8 = "8 word"
type_synonym u16 = "16 word"
type_synonym u32 = "32 word"
type_synonym u64 = "64 word"

section \<open>Bytes, characters and words\<close>

text \<open>The NUL character that ends a C string.\<close>

abbreviation (input) NUL :: char where
  "NUL \<equiv> CHR 0x00"

definition byte_of_char :: "char \<Rightarrow> u8" where
  "byte_of_char c = word_of_nat (of_char c)"

definition char_of_byte :: "u8 \<Rightarrow> char" where
  "char_of_byte w = char_of (unat w)"

text \<open>The four bytes of a 32-bit word in memory order (the Cortex-M3 is little-endian).\<close>

definition le32 :: "u32 \<Rightarrow> char list" where
  "le32 w = map (\<lambda>i. char_of (unat w div 256 ^ i)) [0, 1, 2, 3]"

definition word_of_le32 :: "char list \<Rightarrow> u32" where
  "word_of_le32 bs = word_of_nat (foldr (\<lambda>b acc. of_char b + 256 * acc) bs 0)"

lemma unat_u8_less [simp]: "unat (w :: u8) < 256"
proof -
  have "unat w < 2 ^ LENGTH(8)" by (rule unsigned_less)
  then show ?thesis by simp
qed

lemma unat_u16_less [simp]: "unat (w :: u16) < 65536"
proof -
  have "unat w < 2 ^ LENGTH(16)" by (rule unsigned_less)
  then show ?thesis by simp
qed

lemma unat_u32_less [simp]: "unat (w :: u32) < 4294967296"
proof -
  have "unat w < 2 ^ LENGTH(32)" by (rule unsigned_less)
  then show ?thesis by simp
qed

lemma unat_ucast_up [simp]:
  "unat (ucast (b :: u8) :: u16) = unat b"
  "unat (ucast (b :: u8) :: u32) = unat b"
  "unat (ucast (w :: u16) :: u32) = unat w"
  using unat_u8_less [of b] unat_u16_less [of w]
  by (auto simp: unsigned_ucast_eq take_bit_nat_eq_self_iff simp del: unat_u8_less unat_u16_less
      intro: less_trans)

lemma char_of_byte_of_char [simp]: "char_of_byte (byte_of_char c) = c"
  by (simp add: char_of_byte_def byte_of_char_def unat_of_nat)

lemma byte_of_char_of_byte [simp]: "byte_of_char (char_of_byte w) = w"
  by (simp add: char_of_byte_def byte_of_char_def)

lemma length_le32 [simp]: "length (le32 w) = 4"
  by (simp add: le32_def)

lemma digits_256: "n < 256 * k \<Longrightarrow> n mod 256 + 256 * (n div 256) = n \<and> n div 256 < (k :: nat)"
  by (simp add: less_mult_imp_div_less mult.commute)

lemma word_of_le32_le32 [simp]: "word_of_le32 (le32 w) = w"
proof -
  define n where "n = unat w"
  have n: "n < 256 * 16777216" unfolding n_def by simp
  have d: "n div 65536 = n div 256 div 256" "n div 16777216 = n div 256 div 256 div 256"
    by (simp_all flip: div_mult2_eq)
  have "n mod 256 + 256 * (n div 256 mod 256 + 256 * (n div 65536 mod 256
      + 256 * (n div 16777216 mod 256))) = n"
    using digits_256 [of n 16777216] digits_256 [of "n div 256" 65536]
      digits_256 [of "n div 256 div 256" 256] digits_256 [of "n div 256 div 256 div 256" 1] n
    by (simp add: d)
  moreover have "n div 16777216 < 256" using n by (simp add: div_less_iff_less_mult)
  ultimately have "foldr (\<lambda>b acc. of_char b + 256 * acc) (le32 w) 0 = n"
    by (simp add: le32_def flip: n_def)
  then show ?thesis
    by (simp add: word_of_le32_def n_def)
qed

lemma digit_split: "(a :: nat) < 256 \<Longrightarrow> (a + 256 * k) mod 256 = a \<and> (a + 256 * k) div 256 = k"
  by simp

lemma le32_word_of_le32: "length bs = 4 \<Longrightarrow> le32 (word_of_le32 bs) = bs"
proof -
  assume "length bs = 4"
  then obtain a b c d where bs: "bs = [a, b, c, d]"
    by (auto simp: numeral_eq_Suc length_Suc_conv)
  define n where "n = of_char a + 256 * (of_char b + 256 * (of_char c + 256 * (of_char d :: nat)))"
  have div1: "n div 256 = of_char b + 256 * (of_char c + 256 * of_char d)"
    unfolding n_def by (rule digit_split [THEN conjunct2]) simp
  have div2: "n div 65536 = of_char c + 256 * of_char d"
    using digit_split [of "of_char b" "of_char c + 256 * of_char d"] div1
      div_mult2_eq [of n 256 256] by simp
  have div3: "n div 16777216 = of_char d"
    using div2 div_mult2_eq [of n 65536 256] by simp
  note div = div1 div2 div3
  have "n div 16777216 < 256" by (simp add: div)
  then have "n < 4294967296" by (simp add: div_less_iff_less_mult)
  then have "unat (word_of_nat n :: u32) = n" by (simp add: unat_of_nat)
  moreover have low: "char_of (of_char x + 256 * k) = x" for x and k :: nat
    using digit_split [of "of_char x" k] by (simp add: char_of_eq_iff take_bit_eq_mod)
  have "char_of n = a" by (simp only: n_def low)
  moreover have "char_of (n div 256) = b" "char_of (n div 65536) = c"
    "char_of (n div 16777216) = d"
    by (simp_all only: div low char_of_char)
  moreover have "word_of_le32 bs = word_of_nat n"
    by (simp add: bs word_of_le32_def n_def)
  ultimately show ?thesis
    by (simp add: bs le32_def)
qed

section \<open>Partial correctness\<close>

text \<open>
  Partial correctness of a call: what holds of its result if it has one, with a rule for each
  construct of the model.
\<close>

definition ensures :: "('a \<Rightarrow> bool) \<Rightarrow> 'a option \<Rightarrow> bool" where
  "ensures P m \<longleftrightarrow> (\<forall>x. m = Some x \<longrightarrow> P x)"

lemma ensures_bind: "ensures Q m \<Longrightarrow> (\<And>x. Q x \<Longrightarrow> ensures P (f x)) \<Longrightarrow> ensures P (m \<bind> f)"
  by (auto simp: ensures_def bind_eq_Some_conv)

lemma ensures_any: "ensures (\<lambda>_. True) m"
  by (simp add: ensures_def)

lemma ensures_Some: "P x \<Longrightarrow> ensures P (Some x)"
  by (simp add: ensures_def)

lemma ensures_None: "ensures P None"
  by (simp add: ensures_def)

lemma ensures_if: "(b \<Longrightarrow> ensures P m) \<Longrightarrow> (\<not> b \<Longrightarrow> ensures P m') \<Longrightarrow> ensures P (if b then m else m')"
  by simp

lemma ensures_prod: "(\<And>a b. x = (a, b) \<Longrightarrow> ensures P (f a b)) \<Longrightarrow> ensures P (case x of (a, b) \<Rightarrow> f a b)"
  by (cases x) simp

lemma ensures_let: "(\<And>y. y = x \<Longrightarrow> ensures P (f y)) \<Longrightarrow> ensures P (let y = x in f y)"
  by simp

lemma ensures_option:
  "(x = None \<Longrightarrow> ensures P m) \<Longrightarrow> (\<And>y. x = Some y \<Longrightarrow> ensures P (f y)) \<Longrightarrow> ensures P (case x of None \<Rightarrow> m | Some y \<Rightarrow> f y)"
  by (cases x) simp_all

lemma ensures_mono: "ensures Q m \<Longrightarrow> (\<And>x. Q x \<Longrightarrow> P x) \<Longrightarrow> ensures P m"
  by (simp add: ensures_def)

lemmas ensures_rules = ensures_Some ensures_None ensures_if ensures_prod ensures_let ensures_option

end
