(* ===== verification/Clib.thy ===== *)
theory Clib
  imports Prelude
begin

text \<open>
  The C library functions that the sources use, on strings as lists of characters. A C string is
  the list of its characters before the terminator; an array that should hold one is the list of
  all its elements, and reading a string from an array that holds no terminator has no defined
  result. \<^verbatim>\<open>long\<close> has 32 bits on this target.
\<close>

section \<open>Digits\<close>

definition is_digit :: "char \<Rightarrow> bool" where
  "is_digit c \<longleftrightarrow> 48 \<le> (of_char c :: nat) \<and> (of_char c :: nat) \<le> 57"

text \<open>The digits of a number, most significant first.\<close>

fun radix :: "nat \<Rightarrow> nat \<Rightarrow> nat list" where
  "radix b n = (if n < b \<or> b < 2 then [n] else radix b (n div b) @ [n mod b])"

declare radix.simps [simp del]

lemma radix_length: "0 < k \<Longrightarrow> n < b ^ k \<Longrightarrow> 2 \<le> b \<Longrightarrow> length (radix b n) \<le> k"
proof (induction b n arbitrary: k rule: radix.induct)
  case (1 b n)
  show ?case
  proof (cases "n < b")
    case True
    with 1 show ?thesis by (simp add: radix.simps [of b n])
  next
    case False
    obtain j where j: "k = Suc j" using 1(2) by (cases k) auto
    with 1(3) False have k: "k = Suc j" "0 < j" by (cases j; simp)+
    have "n div b < b ^ j" using 1(3) k by (simp add: less_mult_imp_div_less mult.commute)
    with 1 False k show ?thesis by (simp add: radix.simps [of b n])
  qed
qed

lemma radix_digits: "2 \<le> b \<Longrightarrow> d \<in> set (radix b n) \<Longrightarrow> d < b"
proof (induction b n rule: radix.induct)
  case (1 b n)
  then show ?case by (auto simp: radix.simps [of b n] split: if_splits)
qed

lemma radix_value: "2 \<le> b \<Longrightarrow> foldl (\<lambda>acc d. acc * b + d) 0 (radix b n) = n"
proof (induction b n rule: radix.induct)
  case (1 b n)
  then show ?case by (auto simp: radix.simps [of b n])
qed

section \<open>Decimal text\<close>

text \<open>\<^verbatim>\<open>%u\<close> and \<^verbatim>\<open>%d\<close> of \<^verbatim>\<open>snprintf\<close>.\<close>

definition dec_text :: "nat \<Rightarrow> char list" where
  "dec_text n = map (\<lambda>d. char_of (d + 48)) (radix 10 n)"

definition dec_value :: "char list \<Rightarrow> nat" where
  "dec_value ds = foldl (\<lambda>v c. v * 10 + (of_char c - 48)) 0 ds"

lemma dec_text_ne [simp]: "dec_text n \<noteq> []"
  by (simp add: dec_text_def radix.simps [of 10])

lemma dec_text_digits: "c \<in> set (dec_text n) \<Longrightarrow> is_digit c"
  by (auto simp: dec_text_def is_digit_def dest: radix_digits [rotated])

lemma dec_value_text [simp]: "dec_value (dec_text n) = n"
proof -
  have "foldl (\<lambda>v c. v * 10 + (of_char c - 48)) a (map (\<lambda>d. char_of (d + 48)) ds)
      = foldl (\<lambda>acc d. acc * 10 + d) a ds" if "\<And>d. d \<in> set ds \<Longrightarrow> d < (10 :: nat)" for a ds
    using that
  proof (induction ds arbitrary: a)
    case (Cons d ds)
    have "d < 10" using Cons.prems [of d] by simp
    then have "(d + 48) mod 256 = d + 48" by simp
    with Cons show ?case by simp
  qed simp
  then show ?thesis
    using radix_value [of 10 n] radix_digits [of 10 _ n] by (simp add: dec_value_def dec_text_def)
qed

lemma dec_text_length: "0 < k \<Longrightarrow> n < 10 ^ k \<Longrightarrow> length (dec_text n) \<le> k"
  by (simp add: dec_text_def radix_length)

section \<open>Strings\<close>

text \<open>The string in an array.\<close>

definition c_str :: "char list \<Rightarrow> char list option" where
  "c_str a = (if NUL \<in> set a then Some (takeWhile (\<lambda>c. c \<noteq> NUL) a) else None)"

text \<open>\<^verbatim>\<open>strcmp(a, s) == 0\<close> for an array \<open>a\<close> and a string \<open>s\<close>; the comparison ends at the first difference.\<close>

fun strcmp_eq :: "char list \<Rightarrow> char list \<Rightarrow> bool option" where
  "strcmp_eq [] s = None"
| "strcmp_eq (c # a) [] = Some (c = NUL)"
| "strcmp_eq (c # a) (d # s) = (if c \<noteq> d then Some False else if c = NUL then Some True else strcmp_eq a s)"

text \<open>\<^verbatim>\<open>strncmp(s, p, n) == 0\<close> for a literal \<open>p\<close> of \<open>n\<close> characters.\<close>

definition strncmp_eq :: "char list \<Rightarrow> char list \<Rightarrow> bool" where
  "strncmp_eq s p \<longleftrightarrow> take (length p) s = p"

text \<open>\<^verbatim>\<open>strchr\<close> and \<^verbatim>\<open>strstr\<close>: the rest of the string from the place found.\<close>

definition strchr :: "char list \<Rightarrow> char \<Rightarrow> char list option" where
  "strchr s c = (if c \<in> set s then Some (dropWhile (\<lambda>x. x \<noteq> c) s) else None)"

fun strstr :: "char list \<Rightarrow> char list \<Rightarrow> char list option" where
  "strstr [] p = (if p = [] then Some [] else None)"
| "strstr (c # s) p = (if strncmp_eq (c # s) p then Some (c # s) else strstr s p)"

text \<open>What \<^verbatim>\<open>snprintf(buf, n, ...)\<close> leaves in the buffer, up to the terminator, when the text is \<open>s\<close>.\<close>

definition snprintf_text :: "nat \<Rightarrow> char list \<Rightarrow> char list" where
  "snprintf_text n s = take (n - 1) s"

text \<open>The array after \<^verbatim>\<open>snprintf\<close> with a string: the text, the terminator, and the old rest.\<close>

definition snprintf_array :: "nat \<Rightarrow> char list \<Rightarrow> char list \<Rightarrow> char list" where
  "snprintf_array n s a = snprintf_text n s @ [NUL] @ drop (length (snprintf_text n s) + 1) a"

section \<open>Conversion\<close>

definition is_space :: "char \<Rightarrow> bool" where
  "is_space c \<longleftrightarrow> c = CHR '' '' \<or> (9 \<le> (of_char c :: nat) \<and> (of_char c :: nat) \<le> 13)"

definition LONG_MAX :: int where "LONG_MAX = 2147483647"
definition LONG_MIN :: int where "LONG_MIN = - 2147483648"

text \<open>
  \<^verbatim>\<open>strtol(s, &end, 10)\<close>: the value, saturated, and the string at \<^verbatim>\<open>end\<close>; without a digit there is no
  conversion and \<^verbatim>\<open>end\<close> is \<^verbatim>\<open>s\<close>.
\<close>

definition strtol :: "char list \<Rightarrow> int \<times> char list" where
  "strtol s =
     (let t = dropWhile is_space s;
          neg = (t \<noteq> [] \<and> hd t = CHR ''-'');
          t = (if t \<noteq> [] \<and> (hd t = CHR ''-'' \<or> hd t = CHR ''+'') then tl t else t);
          ds = takeWhile is_digit t;
          v = (if neg then - int (dec_value ds) else int (dec_value ds))
      in if ds = [] then (0, s) else (max LONG_MIN (min LONG_MAX v), dropWhile is_digit t))"

definition atoi :: "char list \<Rightarrow> int" where
  "atoi s = fst (strtol s)"

section \<open>Lemmas\<close>

lemma c_str_Some: "NUL \<in> set a \<Longrightarrow> c_str a = Some (takeWhile (\<lambda>c. c \<noteq> NUL) a)"
  by (simp add: c_str_def)

lemma strcmp_eq_str:
  "NUL \<in> set a \<Longrightarrow> NUL \<notin> set s \<Longrightarrow> strcmp_eq a s = Some (takeWhile (\<lambda>c. c \<noteq> NUL) a = s)"
  by (induction a s rule: strcmp_eq.induct) auto

lemma length_snprintf_array [simp]: "0 < n \<Longrightarrow> n \<le> length a \<Longrightarrow> length (snprintf_array n s a) = length a"
  by (simp add: snprintf_array_def snprintf_text_def)

lemma snprintf_array_str:
  "NUL \<notin> set s \<Longrightarrow> takeWhile (\<lambda>c. c \<noteq> NUL) (snprintf_array n s a) = snprintf_text n s"
  unfolding snprintf_array_def snprintf_text_def
  by (subst takeWhile_append2) (auto dest: in_set_takeD)

lemma snprintf_array_NUL [simp]: "NUL \<in> set (snprintf_array n s a)"
  by (simp add: snprintf_array_def)

lemma is_digit_not_space: "is_digit c \<Longrightarrow> \<not> is_space c"
  by (auto simp: is_digit_def is_space_def)

text \<open>Reading back a printed number that is followed by something that is no digit.\<close>

lemma strtol_dec_text:
  assumes "int n \<le> LONG_MAX" "rest = [] \<or> \<not> is_digit (hd rest)"
  shows "strtol (dec_text n @ rest) = (int n, rest)"
proof -
  obtain c cs where t: "dec_text n = c # cs" by (cases "dec_text n") auto
  then have c: "is_digit c" using dec_text_digits [of c n] by simp
  then have "c \<noteq> CHR ''-''" "c \<noteq> CHR ''+''" by (auto simp: is_digit_def)
  moreover have "dropWhile is_space (dec_text n @ rest) = dec_text n @ rest"
    using is_digit_not_space [OF c] by (simp add: t)
  moreover have all: "\<forall>x \<in> set (dec_text n). is_digit x" using dec_text_digits by blast
  have "takeWhile is_digit rest = []" "dropWhile is_digit rest = rest"
    using assms(2) by (cases rest; simp)+
  then have "takeWhile is_digit (dec_text n @ rest) = dec_text n"
    "dropWhile is_digit (dec_text n @ rest) = rest"
    using all by (simp_all add: takeWhile_append dropWhile_append)
  ultimately show ?thesis
    using assms(1) dec_value_text [of n] by (simp add: strtol_def Let_def LONG_MAX_def LONG_MIN_def t)
qed

section \<open>Copying and splitting\<close>

text \<open>A string written to the start of an array.\<close>

definition strcpy_at :: "string \<Rightarrow> string \<Rightarrow> string option" where
  "strcpy_at buf s = (if length s < length buf then Some (s @ NUL # drop (length s + 1) buf) else None)"

text \<open>
  \<^verbatim>\<open>strtok\<close> on an array from an offset on: the array with the delimiter behind the token overwritten, the
  token's offset if there is one, and the offset to go on from.
\<close>

definition strtok :: "string \<Rightarrow> nat \<Rightarrow> char list \<Rightarrow> (string \<times> nat option \<times> nat) option" where
  "strtok a pos delims =
     (case c_str (drop pos a) of None \<Rightarrow> None
      | Some s \<Rightarrow>
          let i = pos + length (takeWhile (\<lambda>c. c \<in> set delims) s);
              n = length (takeWhile (\<lambda>c. c \<notin> set delims) (dropWhile (\<lambda>c. c \<in> set delims) s))
          in Some (if i = pos + length s then (a, None, i)
                   else if i + n = pos + length s then (a, Some i, i + n)
                   else (a[i + n := NUL], Some i, i + n + 1)))"

lemma strtok_word:
  assumes "set ds \<inter> {NUL} = {}" "w \<noteq> []" "set w \<inter> insert NUL (set ds) = {}" "d \<in> set ds" "NUL \<in> set r"
  shows "strtok (pre @ w @ d # r) (length pre) ds = Some (pre @ w @ NUL # r, Some (length pre), length pre + length w + 1)"
proof -
  obtain c v where w: "w = c # v" using assms(2) by (cases w) auto
  have d: "d \<noteq> NUL" using assms(1,4) by auto
  let ?s = "w @ d # takeWhile (\<lambda>c. c \<noteq> NUL) r"
  have "c_str (w @ d # r) = Some ?s"
    using assms(3,5) d unfolding c_str_def by (subst takeWhile_append2) auto
  moreover have "takeWhile (\<lambda>c. c \<in> set ds) ?s = []" "dropWhile (\<lambda>c. c \<in> set ds) ?s = ?s"
    using assms(3) by (auto simp: w)
  moreover have "takeWhile (\<lambda>c. c \<notin> set ds) ?s = w"
    using assms(3,4) by (subst takeWhile_append2) auto
  ultimately show ?thesis
    using assms(2) by (simp add: strtok_def Let_def list_update_append)
qed

end
