(* ===== verification/Mmio.thy ===== *)
theory Mmio
  imports Prelude
begin

text \<open>
  Memory-mapped I/O. The drivers under \<^verbatim>\<open>libopencm3/lib\<close> reach the hardware through the
  volatile accesses \<^verbatim>\<open>MMIO8\<close>, \<^verbatim>\<open>MMIO16\<close> and \<^verbatim>\<open>MMIO32\<close> only. Such accesses are the
  observable events of the program, so the state of the model is the history of the accesses made
  so far, the newest first, and the hardware is a parameter \<open>env\<close> of every driver: the word that
  a read of an address returns, as a function of the whole history before it. Nothing is assumed
  of \<open>env\<close> here; what a theorem relies on is a hypothesis of the theorem.

  A busy-wait \<^verbatim>\<open>while (!ready());\<close> is \<open>spin\<close>, whose value is \<open>None\<close> when it never ends.
\<close>

section \<open>Accesses\<close>

datatype bus_event =
    Rd32 u32 u32
  | Wr32 u32 u32
  | Wr16 u32 u16
  | Wr8 u32 u8

type_synonym hist = "bus_event list"
type_synonym env = "hist \<Rightarrow> u32 \<Rightarrow> u32"

definition mmio_rd :: "env \<Rightarrow> u32 \<Rightarrow> hist \<Rightarrow> u32 \<times> hist" where
  "mmio_rd env a h = (env h a, Rd32 a (env h a) # h)"

definition mmio_wr :: "u32 \<Rightarrow> u32 \<Rightarrow> hist \<Rightarrow> hist" where
  "mmio_wr a v h = Wr32 a v # h"

definition mmio_wr16 :: "u32 \<Rightarrow> u16 \<Rightarrow> hist \<Rightarrow> hist" where
  "mmio_wr16 a v h = Wr16 a v # h"

definition mmio_wr8 :: "u32 \<Rightarrow> u8 \<Rightarrow> hist \<Rightarrow> hist" where
  "mmio_wr8 a v h = Wr8 a v # h"

text \<open>The C compound assignments \<^verbatim>\<open>R |= b\<close>, \<^verbatim>\<open>R &= ~b\<close> and \<^verbatim>\<open>R = (R & ~msk) | v\<close>.\<close>

definition reg_or :: "env \<Rightarrow> u32 \<Rightarrow> u32 \<Rightarrow> hist \<Rightarrow> hist" where
  "reg_or env a b h = (let (r, h) = mmio_rd env a h in mmio_wr a (r OR b) h)"

definition reg_andnot :: "env \<Rightarrow> u32 \<Rightarrow> u32 \<Rightarrow> hist \<Rightarrow> hist" where
  "reg_andnot env a b h = (let (r, h) = mmio_rd env a h in mmio_wr a (r AND NOT b) h)"

definition reg_field :: "env \<Rightarrow> u32 \<Rightarrow> u32 \<Rightarrow> u32 \<Rightarrow> hist \<Rightarrow> hist" where
  "reg_field env a msk v h =
     (let (r, h) = mmio_rd env a h in mmio_wr a ((r AND NOT msk) OR v) h)"

section \<open>Busy waiting\<close>

partial_function (option) spin :: "('s \<Rightarrow> bool \<times> 's) \<Rightarrow> 's \<Rightarrow> 's option" where
  "spin c s = (case c s of (b, s') \<Rightarrow> if b then Some s' else spin c s')"

text \<open>The state after \<open>n\<close> evaluations of the condition, and that some evaluation succeeds.\<close>

definition spin_state :: "('s \<Rightarrow> bool \<times> 's) \<Rightarrow> nat \<Rightarrow> 's \<Rightarrow> 's" where
  "spin_state c n s = ((snd \<circ> c) ^^ n) s"

definition spin_ends :: "('s \<Rightarrow> bool \<times> 's) \<Rightarrow> 's \<Rightarrow> bool" where
  "spin_ends c s \<longleftrightarrow> (\<exists>n. fst (c (spin_state c n s)))"

section \<open>What the history shows\<close>

fun is_read :: "bus_event \<Rightarrow> bool" where
  "is_read (Rd32 _ _) = True"
| "is_read _ = False"

text \<open>The writes of a history (newest first), and the word last written to a register.\<close>

definition wr_log :: "hist \<Rightarrow> hist" where
  "wr_log h = filter (\<lambda>e. \<not> is_read e) h"

fun last_wr :: "u32 \<Rightarrow> hist \<Rightarrow> u32 option" where
  "last_wr a [] = None"
| "last_wr a (Wr32 b v # h) = (if b = a then Some v else last_wr a h)"
| "last_wr a (_ # h) = last_wr a h"

text \<open>The characters handed to the data register (offset 4) of the USART at \<open>u\<close>, oldest first.\<close>

fun uart_out :: "u32 \<Rightarrow> hist \<Rightarrow> char list" where
  "uart_out u [] = []"
| "uart_out u (Wr32 a v # h) =
     (if a = u + 4 then uart_out u h @ [char_of (unat v)] else uart_out u h)"
| "uart_out u (_ # h) = uart_out u h"

text \<open>
  The bits \<open>msk\<close> of register \<open>a\<close> are plain storage in \<open>env\<close>: a read returns what the last
  write left there, or the reset value \<open>r0\<close>.
\<close>

definition reg_val :: "u32 \<Rightarrow> u32 \<Rightarrow> hist \<Rightarrow> u32" where
  "reg_val r0 a h = (case last_wr a h of None \<Rightarrow> r0 | Some v \<Rightarrow> v)"

definition plain :: "env \<Rightarrow> u32 \<Rightarrow> u32 \<Rightarrow> bool" where
  "plain env a msk \<longleftrightarrow> (\<forall>h. env h a AND msk = reg_val (env [] a) a h AND msk)"

section \<open>Lemmas\<close>

lemmas mmio_defs = mmio_rd_def mmio_wr_def mmio_wr16_def mmio_wr8_def
  reg_or_def reg_andnot_def reg_field_def

lemma reg_or_eq [hw_simps]:
  "reg_or env a b h = Wr32 a (env h a OR b) # Rd32 a (env h a) # h"
  by (simp add: mmio_defs)

lemma reg_andnot_eq [hw_simps]:
  "reg_andnot env a b h = Wr32 a (env h a AND NOT b) # Rd32 a (env h a) # h"
  by (simp add: mmio_defs)

lemma reg_field_eq [hw_simps]:
  "reg_field env a msk v h = Wr32 a ((env h a AND NOT msk) OR v) # Rd32 a (env h a) # h"
  by (simp add: mmio_defs)

lemmas [hw_simps] = mmio_wr_def mmio_wr16_def mmio_wr8_def mmio_rd_def

lemma wr_log_simps [simp, out_simps]:
  "wr_log [] = []"
  "wr_log (Rd32 a v # h) = wr_log h"
  "wr_log (Wr32 a v # h) = Wr32 a v # wr_log h"
  "wr_log (Wr16 a w # h) = Wr16 a w # wr_log h"
  "wr_log (Wr8 a b # h) = Wr8 a b # wr_log h"
  "wr_log (h @ h') = wr_log h @ wr_log h'"
  by (simp_all add: wr_log_def)

lemma last_wr_wr_log: "last_wr a (wr_log h) = last_wr a h"
  by (induction a h rule: last_wr.induct) simp_all

lemma uart_out_wr_log: "uart_out u (wr_log h) = uart_out u h"
  by (induction u h rule: uart_out.induct) simp_all

lemma uart_out_cong: "wr_log h = wr_log h' \<Longrightarrow> uart_out u h = uart_out u h'"
  by (metis uart_out_wr_log)

lemma reg_val_wr_log: "wr_log h = wr_log h' \<Longrightarrow> reg_val r0 a h = reg_val r0 a h'"
  by (metis last_wr_wr_log reg_val_def)

lemma spin_state_0 [simp]: "spin_state c 0 s = s"
  by (simp add: spin_state_def)

lemma spin_state_Suc: "spin_state c (Suc n) s = spin_state c n (snd (c s))"
  by (simp add: spin_state_def funpow_swap1)

lemma spin_Some_state:
  assumes "fst (c (spin_state c n s))"
  shows "\<exists>m. spin c s = Some (snd (c (spin_state c m s))) \<and> fst (c (spin_state c m s))"
  using assms
proof (induction n arbitrary: s)
  case 0
  then have "fst (c s)" by simp
  then have "spin c s = Some (snd (c s))"
    by (subst spin.simps) (simp add: case_prod_beta)
  with \<open>fst (c s)\<close> show ?case by (metis spin_state_0)
next
  case (Suc n)
  show ?case
  proof (cases "fst (c s)")
    case True
    then have "spin c s = Some (snd (c s))"
      by (subst spin.simps) (simp add: case_prod_beta)
    with True show ?thesis by (metis spin_state_0)
  next
    case False
    from Suc.prems have "fst (c (spin_state c n (snd (c s))))"
      by (simp add: spin_state_Suc)
    from Suc.IH [OF this] obtain m where
      "spin c (snd (c s)) = Some (snd (c (spin_state c (Suc m) s)))"
      "fst (c (spin_state c (Suc m) s))"
      by (auto simp: spin_state_Suc)
    moreover have "spin c s = spin c (snd (c s))"
      using False by (subst spin.simps) (simp add: case_prod_beta)
    ultimately show ?thesis by metis
  qed
qed

lemma spin_ends_Some: "spin_ends c s \<Longrightarrow> \<exists>s'. spin c s = Some s'"
  unfolding spin_ends_def by (metis spin_Some_state)

lemma spin_ends_cond:
  assumes "spin_ends c s"
  shows "\<exists>n. spin c s = Some (snd (c (spin_state c n s))) \<and> fst (c (spin_state c n s))"
  using assms unfolding spin_ends_def by (metis spin_Some_state)

text \<open>A wait whose condition only reads leaves the writes as they were.\<close>

lemma spin_state_inv:
  assumes "\<And>s. g (snd (c s)) = g s"
  shows "g (spin_state c n s) = g s"
  by (induction n arbitrary: s) (simp_all add: spin_state_Suc assms)

lemma spin_rel:
  assumes step: "\<And>s. R s (snd (c s))" and trans: "\<And>s t u. R s t \<Longrightarrow> R t u \<Longrightarrow> R s u"
    and ret: "spin c s = Some s'"
  shows "R s s'"
proof -
  have "(\<forall>s. R s (snd (c s))) \<longrightarrow> R s s'"
  proof (rule spin.raw_induct [where P = "\<lambda>c s s'. (\<forall>s. R s (snd (c s))) \<longrightarrow> R s s'",
        OF _ ret], rule impI)
    fix f c s s'
    assume IH: "\<And>c s s'. f c s = Some s' \<Longrightarrow> (\<forall>s. R s (snd (c s))) \<longrightarrow> R s s'"
      and eq: "(case c s of (b, s') \<Rightarrow> if b then Some s' else f c s') = Some s'"
      and all: "\<forall>s. R s (snd (c s))"
    show "R s s'"
    proof (cases "fst (c s)")
      case True
      with eq have "s' = snd (c s)" by (simp add: case_prod_beta)
      with all show ?thesis by simp
    next
      case False
      with eq have "f c (snd (c s)) = Some s'" by (simp add: case_prod_beta)
      with IH all have "R (snd (c s)) s'" by blast
      with all show ?thesis by (blast intro: trans)
    qed
  qed
  with step show ?thesis by blast
qed

lemma spin_inv:
  assumes "\<And>s. g (snd (c s)) = g s" and "spin c s = Some s'"
  shows "g s' = g s"
  by (rule spin_rel [where R = "\<lambda>s s'. g s' = g s", OF _ _ assms(2)]) (simp_all add: assms(1))

text \<open>\<open>extends ws h h'\<close>: \<open>h'\<close> is \<open>h\<close> with more accesses, the writes among them being \<open>ws\<close>.\<close>

definition extends :: "hist \<Rightarrow> hist \<Rightarrow> hist \<Rightarrow> bool" where
  "extends ws h h' \<longleftrightarrow> (\<exists>t. h' = t @ h \<and> wr_log t = ws)"

lemma extends_refl [simp]: "extends [] h h"
  by (simp add: extends_def)

lemma extends_trans: "extends ws h h' \<Longrightarrow> extends ws' h' h'' \<Longrightarrow> extends (ws' @ ws) h h''"
  by (auto simp: extends_def)

lemma extends_Rd: "extends ws h h' \<Longrightarrow> extends ws h (Rd32 a v # h')"
  by (auto simp: extends_def intro: exI [of _ "Rd32 a v # t" for t])

lemma extends_Wr: "extends ws h h' \<Longrightarrow> extends (Wr32 a v # ws) h (Wr32 a v # h')"
  by (auto simp: extends_def intro: exI [of _ "Wr32 a v # t" for t])

lemma extends_wr_log: "extends ws h h' \<Longrightarrow> wr_log h' = ws @ wr_log h"
  by (auto simp: extends_def)

lemma spin_extends:
  assumes "\<And>s. extends [] s (snd (c s))" "spin c h = Some h'"
  shows "extends [] h h'"
proof (rule spin_rel [where R = "extends []", OF assms(1) _ assms(2)])
  show "extends [] s t \<Longrightarrow> extends [] t u \<Longrightarrow> extends [] s u" for s t u
    using extends_trans [of "[]" s t "[]" u] by simp
qed

text \<open>A wait that returns has just evaluated its condition to true.\<close>

lemma spin_exit:
  assumes ret: "spin c s = Some s'"
  shows "\<exists>t. c t = (True, s')"
proof (rule spin.raw_induct [where P = "\<lambda>c s s'. \<exists>t. c t = (True, s')", OF _ ret])
  fix f c s s'
  assume IH: "\<And>c s s'. f c s = Some s' \<Longrightarrow> \<exists>t. c t = (True, s')"
    and eq: "(case c s of (b, s') \<Rightarrow> if b then Some s' else f c s') = Some s'"
  show "\<exists>t. c t = (True, s')"
    using eq IH by (cases "c s") (auto split: if_splits)
qed

lemma plain_read:
  assumes "plain env a m" "m' AND m = m'"
  shows "env h a AND m' = reg_val (env [] a) a h AND m'"
proof -
  have sub: "x AND m' = (x AND m) AND m'" for x
    using assms(2) by (simp only: and.assoc and.commute [of m m'])
  have "env h a AND m = reg_val (env [] a) a h AND m" using assms(1) by (simp add: plain_def)
  then have "(env h a AND m) AND m' = (reg_val (env [] a) a h AND m) AND m'" by simp
  then show ?thesis by (simp only: flip: sub)
qed

lemma reg_val_simps [simp]:
  "reg_val r0 a (Rd32 b v # h) = reg_val r0 a h"
  "reg_val r0 a (Wr32 b v # h) = (if b = a then v else reg_val r0 a h)"
  "reg_val r0 a (Wr16 b w # h) = reg_val r0 a h"
  "reg_val r0 a (Wr8 b x # h) = reg_val r0 a h"
  by (simp_all add: reg_val_def)

text \<open>A field update on a plain register: the field takes its value, a disjoint field stays.\<close>

lemma field_same: "((x AND NOT m) OR v) AND m = v AND (m :: u32)"
  by (simp add: bit.conj_disj_distrib2 and.assoc)

lemma field_other:
  "m AND m' = 0 \<Longrightarrow> v AND m' = 0 \<Longrightarrow> ((x AND NOT m) OR v) AND m' = x AND (m' :: u32)"
proof -
  assume m: "m AND m' = 0" and v: "v AND m' = 0"
  have "m' = (m AND m') OR (NOT m AND m')" by (simp flip: bit.conj_disj_distrib2)
  with m have "NOT m AND m' = m'" by simp
  then show ?thesis
    using v by (simp add: bit.conj_disj_distrib2 and.assoc)
qed

end
