(* ===== verification/Flash.thy ===== *)
theory Flash
  imports Mmio
begin

text \<open>
  The flash driver: \<^verbatim>\<open>libopencm3/lib/stm32/f1/flash.c\<close> and the parts of it under
  \<^verbatim>\<open>lib/stm32/common\<close> (\<open>flash_common_all.c\<close>, \<open>flash_common_f.c\<close>, \<open>flash_common_f01.c\<close>,
  \<open>desig_common_v1.c\<close>), with the register addresses and bits of
  \<^verbatim>\<open>include/libopencm3/stm32/common/flash_common_f01.h\<close>.

  The hardware behind the registers, the flash program and erase controller (FPEC), is the
  interface \<open>fpec\<close>: what the STM32F10xxx flash programming manual promises about keys, the
  control register, page erase and half-word programming. Inside it the driver is shown to erase
  and program exactly the page and the words it is given.
\<close>

section \<open>Registers\<close>

abbreviation (input) FLASH_BASE :: u32 where "FLASH_BASE \<equiv> 0x08000000"
abbreviation (input) FLASH_ACR :: u32 where "FLASH_ACR \<equiv> 0x40022000"
abbreviation (input) FLASH_KEYR :: u32 where "FLASH_KEYR \<equiv> 0x40022004"
abbreviation (input) FLASH_OPTKEYR :: u32 where "FLASH_OPTKEYR \<equiv> 0x40022008"
abbreviation (input) FLASH_SR :: u32 where "FLASH_SR \<equiv> 0x4002200C"
abbreviation (input) FLASH_CR :: u32 where "FLASH_CR \<equiv> 0x40022010"
abbreviation (input) FLASH_AR :: u32 where "FLASH_AR \<equiv> 0x40022014"
abbreviation (input) FLASH_KEYR2 :: u32 where "FLASH_KEYR2 \<equiv> 0x40022044"
abbreviation (input) FLASH_SR2 :: u32 where "FLASH_SR2 \<equiv> 0x4002204C"
abbreviation (input) FLASH_CR2 :: u32 where "FLASH_CR2 \<equiv> 0x40022050"
abbreviation (input) FLASH_AR2 :: u32 where "FLASH_AR2 \<equiv> 0x40022054"
abbreviation (input) DESIG_FLASH_SIZE_BASE :: u32 where "DESIG_FLASH_SIZE_BASE \<equiv> 0x1FFFF7E0"

abbreviation (input) FLASH_ACR_HLFCYA :: u32 where "FLASH_ACR_HLFCYA \<equiv> 0x08"
abbreviation (input) FLASH_ACR_PRFTEN :: u32 where "FLASH_ACR_PRFTEN \<equiv> 0x10"
abbreviation (input) FLASH_ACR_LATENCY_MASK :: u32 where "FLASH_ACR_LATENCY_MASK \<equiv> 7"
abbreviation (input) FLASH_SR_EOP :: u32 where "FLASH_SR_EOP \<equiv> 0x20"
abbreviation (input) FLASH_SR_WRPRTERR :: u32 where "FLASH_SR_WRPRTERR \<equiv> 0x10"
abbreviation (input) FLASH_SR_PGERR :: u32 where "FLASH_SR_PGERR \<equiv> 0x04"
abbreviation (input) FLASH_SR_BSY :: u32 where "FLASH_SR_BSY \<equiv> 0x01"
abbreviation (input) FLASH_CR_OPTWRE :: u32 where "FLASH_CR_OPTWRE \<equiv> 0x200"
abbreviation (input) FLASH_CR_LOCK :: u32 where "FLASH_CR_LOCK \<equiv> 0x80"
abbreviation (input) FLASH_CR_STRT :: u32 where "FLASH_CR_STRT \<equiv> 0x40"
abbreviation (input) FLASH_CR_OPTER :: u32 where "FLASH_CR_OPTER \<equiv> 0x20"
abbreviation (input) FLASH_CR_OPTPG :: u32 where "FLASH_CR_OPTPG \<equiv> 0x10"
abbreviation (input) FLASH_CR_MER :: u32 where "FLASH_CR_MER \<equiv> 0x04"
abbreviation (input) FLASH_CR_PER :: u32 where "FLASH_CR_PER \<equiv> 0x02"
abbreviation (input) FLASH_CR_PG :: u32 where "FLASH_CR_PG \<equiv> 0x01"
abbreviation (input) FLASH_KEYR_KEY1 :: u32 where "FLASH_KEYR_KEY1 \<equiv> 0x45670123"
abbreviation (input) FLASH_KEYR_KEY2 :: u32 where "FLASH_KEYR_KEY2 \<equiv> 0xCDEF89AB"

section \<open>Operations\<close>

definition desig_get_flash_size :: "env \<Rightarrow> hist \<Rightarrow> u16 \<times> hist" where
  "desig_get_flash_size env h =
     (let (v, h) = mmio_rd env DESIG_FLASH_SIZE_BASE h in (ucast v, h))"

definition flash_prefetch_enable :: "env \<Rightarrow> hist \<Rightarrow> hist" where
  "flash_prefetch_enable env h = reg_or env FLASH_ACR FLASH_ACR_PRFTEN h"

definition flash_prefetch_disable :: "env \<Rightarrow> hist \<Rightarrow> hist" where
  "flash_prefetch_disable env h = reg_andnot env FLASH_ACR FLASH_ACR_PRFTEN h"

definition flash_set_ws :: "env \<Rightarrow> u32 \<Rightarrow> hist \<Rightarrow> hist" where
  "flash_set_ws env ws h =
     (let (reg32, h) = mmio_rd env FLASH_ACR h;
          reg32 = reg32 AND NOT FLASH_ACR_LATENCY_MASK;
          reg32 = reg32 OR ws
      in mmio_wr FLASH_ACR reg32 h)"

definition flash_unlock_option_bytes :: "hist \<Rightarrow> hist" where
  "flash_unlock_option_bytes h =
     (let h = mmio_wr FLASH_OPTKEYR FLASH_KEYR_KEY1 h in mmio_wr FLASH_OPTKEYR FLASH_KEYR_KEY2 h)"

definition flash_unlock :: "hist \<Rightarrow> hist" where
  "flash_unlock h =
     (let h = mmio_wr FLASH_KEYR FLASH_KEYR_KEY1 h in mmio_wr FLASH_KEYR FLASH_KEYR_KEY2 h)"

definition flash_lock :: "env \<Rightarrow> hist \<Rightarrow> hist" where
  "flash_lock env h = reg_or env FLASH_CR FLASH_CR_LOCK h"

definition flash_clear_eop_flag :: "env \<Rightarrow> hist \<Rightarrow> hist" where
  "flash_clear_eop_flag env h = reg_or env FLASH_SR FLASH_SR_EOP h"

definition flash_clear_pgerr_flag :: "env \<Rightarrow> hist \<Rightarrow> hist" where
  "flash_clear_pgerr_flag env h = reg_or env FLASH_SR FLASH_SR_PGERR h"

definition flash_clear_wrprterr_flag :: "env \<Rightarrow> hist \<Rightarrow> hist" where
  "flash_clear_wrprterr_flag env h = reg_or env FLASH_SR FLASH_SR_WRPRTERR h"

definition flash_halfcycle_enable :: "env \<Rightarrow> hist \<Rightarrow> hist" where
  "flash_halfcycle_enable env h = reg_or env FLASH_ACR FLASH_ACR_HLFCYA h"

definition flash_halfcycle_disable :: "env \<Rightarrow> hist \<Rightarrow> hist" where
  "flash_halfcycle_disable env h = reg_andnot env FLASH_ACR FLASH_ACR_HLFCYA h"

definition flash_unlock_upper :: "env \<Rightarrow> hist \<Rightarrow> hist" where
  "flash_unlock_upper env h =
     (let (size, h) = desig_get_flash_size env h in
      if size > 512 then
        let h = reg_or env FLASH_CR2 FLASH_CR_LOCK h;
            h = mmio_wr FLASH_KEYR2 FLASH_KEYR_KEY1 h
        in mmio_wr FLASH_KEYR2 FLASH_KEYR_KEY2 h
      else h)"

definition flash_lock_upper :: "env \<Rightarrow> hist \<Rightarrow> hist" where
  "flash_lock_upper env h = reg_or env FLASH_CR2 FLASH_CR_LOCK h"

definition flash_clear_pgerr_flag_upper :: "env \<Rightarrow> hist \<Rightarrow> hist" where
  "flash_clear_pgerr_flag_upper env h =
     (let (size, h) = desig_get_flash_size env h in
      if size > 512 then reg_or env FLASH_SR2 FLASH_SR_PGERR h else h)"

definition flash_clear_eop_flag_upper :: "env \<Rightarrow> hist \<Rightarrow> hist" where
  "flash_clear_eop_flag_upper env h =
     (let (size, h) = desig_get_flash_size env h in
      if size > 512 then reg_or env FLASH_SR2 FLASH_SR_EOP h else h)"

definition flash_clear_wrprterr_flag_upper :: "env \<Rightarrow> hist \<Rightarrow> hist" where
  "flash_clear_wrprterr_flag_upper env h =
     (let (size, h) = desig_get_flash_size env h in
      if size > 512 then reg_or env FLASH_SR2 FLASH_SR_WRPRTERR h else h)"

definition flash_clear_status_flags :: "env \<Rightarrow> hist \<Rightarrow> hist" where
  "flash_clear_status_flags env h =
     (let h = flash_clear_pgerr_flag env h;
          h = flash_clear_eop_flag env h;
          h = flash_clear_wrprterr_flag env h;
          (size, h) = desig_get_flash_size env h
      in if size > 512 then
           let h = flash_clear_pgerr_flag_upper env h;
               h = flash_clear_eop_flag_upper env h
           in flash_clear_wrprterr_flag_upper env h
         else h)"

definition FLASH_SR_ALL :: u32 where
  "FLASH_SR_ALL = FLASH_SR_PGERR OR FLASH_SR_EOP OR FLASH_SR_WRPRTERR OR FLASH_SR_BSY"

definition flash_get_status_flags :: "env \<Rightarrow> hist \<Rightarrow> u32 \<times> hist" where
  "flash_get_status_flags env h =
     (let (sr, h) = mmio_rd env FLASH_SR h;
          flags = sr AND FLASH_SR_ALL;
          (size, h) = desig_get_flash_size env h
      in if size > 512 then
           let (sr2, h) = mmio_rd env FLASH_SR2 h in (flags OR (sr2 AND FLASH_SR_ALL), h)
         else (flags, h))"

text \<open>The loop condition of \<^verbatim>\<open>flash_wait_for_last_operation\<close>, negated: no operation is under way.\<close>

definition flash_idle :: "env \<Rightarrow> hist \<Rightarrow> bool \<times> hist" where
  "flash_idle env h =
     (let (flags, h) = flash_get_status_flags env h in (flags AND FLASH_SR_BSY \<noteq> FLASH_SR_BSY, h))"

definition flash_wait_for_last_operation :: "env \<Rightarrow> hist \<Rightarrow> hist option" where
  "flash_wait_for_last_operation env h = spin (flash_idle env) h"

text \<open>The condition that sends an address to the second bank of an XL-density device.\<close>

definition in_upper_bank :: "env \<Rightarrow> u32 \<Rightarrow> hist \<Rightarrow> bool \<times> hist" where
  "in_upper_bank env address h =
     (let (size, h) = desig_get_flash_size env h in
      (size > 512 \<and> address \<ge> FLASH_BASE + 0x00080000, h))"

definition flash_program_half_word :: "env \<Rightarrow> u32 \<Rightarrow> u16 \<Rightarrow> hist \<Rightarrow> hist option" where
  "flash_program_half_word env address data h = do {
     h \<leftarrow> flash_wait_for_last_operation env h;
     let (upper, h) = in_upper_bank env address h;
     let h = (if upper then reg_or env FLASH_CR2 FLASH_CR_PG h
              else reg_or env FLASH_CR FLASH_CR_PG h);
     let h = mmio_wr16 address data h;
     h \<leftarrow> flash_wait_for_last_operation env h;
     let (upper, h) = in_upper_bank env address h;
     Some (if upper then reg_andnot env FLASH_CR2 FLASH_CR_PG h
           else reg_andnot env FLASH_CR FLASH_CR_PG h)
   }"

definition flash_program_word :: "env \<Rightarrow> u32 \<Rightarrow> u32 \<Rightarrow> hist \<Rightarrow> hist option" where
  "flash_program_word env address data h = do {
     h \<leftarrow> flash_program_half_word env address (ucast data) h;
     flash_program_half_word env (address + 2) (ucast (drop_bit 16 data)) h
   }"

definition flash_erase_page :: "env \<Rightarrow> u32 \<Rightarrow> hist \<Rightarrow> hist option" where
  "flash_erase_page env page_address h = do {
     h \<leftarrow> flash_wait_for_last_operation env h;
     let (upper, h) = in_upper_bank env page_address h;
     let h = (if upper then
                let h = reg_or env FLASH_CR2 FLASH_CR_PER h;
                    h = mmio_wr FLASH_AR2 page_address h
                in reg_or env FLASH_CR2 FLASH_CR_STRT h
              else
                let h = reg_or env FLASH_CR FLASH_CR_PER h;
                    h = mmio_wr FLASH_AR page_address h
                in reg_or env FLASH_CR FLASH_CR_STRT h);
     h \<leftarrow> flash_wait_for_last_operation env h;
     let (upper, h) = in_upper_bank env page_address h;
     Some (if upper then reg_andnot env FLASH_CR2 FLASH_CR_PER h
           else reg_andnot env FLASH_CR FLASH_CR_PER h)
   }"

definition flash_erase_all_pages :: "env \<Rightarrow> hist \<Rightarrow> hist option" where
  "flash_erase_all_pages env h = do {
     h \<leftarrow> flash_wait_for_last_operation env h;
     let h = reg_or env FLASH_CR FLASH_CR_MER h;
     let h = reg_or env FLASH_CR FLASH_CR_STRT h;
     h \<leftarrow> flash_wait_for_last_operation env h;
     let h = reg_andnot env FLASH_CR FLASH_CR_MER h;
     let h = reg_or env FLASH_CR2 FLASH_CR_MER h;
     let h = reg_or env FLASH_CR2 FLASH_CR_STRT h;
     h \<leftarrow> flash_wait_for_last_operation env h;
     Some (reg_andnot env FLASH_CR2 FLASH_CR_MER h)
   }"

definition flash_erase_option_bytes :: "env \<Rightarrow> hist \<Rightarrow> hist option" where
  "flash_erase_option_bytes env h = do {
     h \<leftarrow> flash_wait_for_last_operation env h;
     let (cr, h) = mmio_rd env FLASH_CR h;
     let h = (if cr AND FLASH_CR_OPTWRE = 0 then flash_unlock_option_bytes h else h);
     let h = reg_or env FLASH_CR FLASH_CR_OPTER h;
     let h = reg_or env FLASH_CR FLASH_CR_STRT h;
     h \<leftarrow> flash_wait_for_last_operation env h;
     Some (reg_andnot env FLASH_CR FLASH_CR_OPTER h)
   }"

definition flash_program_option_bytes :: "env \<Rightarrow> u32 \<Rightarrow> u16 \<Rightarrow> hist \<Rightarrow> hist option" where
  "flash_program_option_bytes env address data h = do {
     h \<leftarrow> flash_wait_for_last_operation env h;
     let (cr, h) = mmio_rd env FLASH_CR h;
     let h = (if cr AND FLASH_CR_OPTWRE = 0 then flash_unlock_option_bytes h else h);
     let h = reg_or env FLASH_CR FLASH_CR_OPTPG h;
     let h = mmio_wr16 address data h;
     h \<leftarrow> flash_wait_for_last_operation env h;
     Some (reg_andnot env FLASH_CR FLASH_CR_OPTPG h)
   }"

section \<open>The flash controller behind the registers\<close>

text \<open>The mode and lock bits of \<^verbatim>\<open>FLASH_CR\<close>, as a read after history \<open>h\<close> returns them.\<close>

definition cr_mode :: "env \<Rightarrow> hist \<Rightarrow> u32" where
  "cr_mode env h = env h FLASH_CR AND 0xB7"

definition page_erased :: "u32 \<Rightarrow> (u32 \<Rightarrow> u16) \<Rightarrow> u32 \<Rightarrow> u16" where
  "page_erased p m a = (if unat a div 1024 = unat p div 1024 then 0xFFFF else m a)"

text \<open>The 32-bit word that a read of a word-aligned flash address returns.\<close>

definition array_word :: "(u32 \<Rightarrow> u16) \<Rightarrow> u32 \<Rightarrow> u32" where
  "array_word m a = ucast (m a) OR push_bit 16 (ucast (m (a + 2)))"

text \<open>The writes that go to the flash controller or to the flash array.\<close>

fun fpec_event :: "bus_event \<Rightarrow> bool" where
  "fpec_event (Wr32 a v) = (a = FLASH_KEYR \<or> a = FLASH_CR \<or> a = FLASH_AR)"
| "fpec_event (Wr16 a v) = True"
| "fpec_event _ = False"

definition fpec_only :: "hist \<Rightarrow> hist \<Rightarrow> bool" where
  "fpec_only h h' \<longleftrightarrow> (\<exists>ws. wr_log h' = ws @ wr_log h \<and> list_all fpec_event ws)"

text \<open>
  What the programming manual (PM0075) promises of a device with one bank and 1 KB pages; \<open>mem\<close>
  is the content of the flash array, by half-word address.
\<close>

locale fpec =
  fixes env :: env and mem :: "hist \<Rightarrow> u32 \<Rightarrow> u16"
  assumes one_bank: "(ucast (env h DESIG_FLASH_SIZE_BASE) :: u16) \<le> 512"
    and op_ends: "spin_ends (flash_idle env) h"
    and idle_read: "env h FLASH_SR AND FLASH_SR_BSY = 0 \<Longrightarrow>
      env (Rd32 a v # h) FLASH_SR AND FLASH_SR_BSY = 0"
    and idle_strt: "env h FLASH_SR AND FLASH_SR_BSY = 0 \<Longrightarrow> env h FLASH_CR AND FLASH_CR_STRT = 0"
    and cr_read: "cr_mode env (Rd32 a v # h) = cr_mode env h"
    and mem_read: "mem (Rd32 a v # h) = mem h"
    and unlock: "cr_mode env h = FLASH_CR_LOCK \<Longrightarrow>
      cr_mode env (Wr32 FLASH_KEYR FLASH_KEYR_KEY2 # Wr32 FLASH_KEYR FLASH_KEYR_KEY1 # h) = 0"
    and mem_key: "mem (Wr32 FLASH_KEYR k # h) = mem h"
    and cr_write: "cr_mode env h AND FLASH_CR_LOCK = 0 \<Longrightarrow>
      cr_mode env (Wr32 FLASH_CR v # h) = v AND 0xB7"
    and cr_ar: "cr_mode env (Wr32 FLASH_AR v # h) = cr_mode env h"
    and mem_ar: "mem (Wr32 FLASH_AR v # h) = mem h"
    and cr_array: "cr_mode env (Wr16 a d # h) = cr_mode env h"
    and mem_cr: "v AND FLASH_CR_STRT = 0 \<or> v AND (FLASH_CR_PER OR FLASH_CR_MER OR FLASH_CR_OPTER) = 0 \<Longrightarrow>
      mem (Wr32 FLASH_CR v # h) = mem h"
    and erase: "cr_mode env h = FLASH_CR_PER \<Longrightarrow> v AND 0xB7 = FLASH_CR_PER \<Longrightarrow>
      v AND FLASH_CR_STRT \<noteq> 0 \<Longrightarrow> last_wr FLASH_AR h = Some p \<Longrightarrow>
      mem (Wr32 FLASH_CR v # h) = page_erased p (mem h)"
    and program: "cr_mode env h = FLASH_CR_PG \<Longrightarrow> mem h a = 0xFFFF \<Longrightarrow>
      mem (Wr16 a d # h) = (mem h)(a := d)"
    and other_regs: "\<not> fpec_event (Wr32 a v) \<Longrightarrow> a \<noteq> FLASH_OPTKEYR \<Longrightarrow>
      mem (Wr32 a v # h) = mem h \<and> cr_mode env (Wr32 a v # h) = cr_mode env h"

section \<open>Lemmas\<close>

lemma array_word_halves: "array_word (m(a := ucast w, a + 2 := ucast (drop_bit 16 w))) a = (w :: u32)"
proof -
  have "ucast (ucast w :: u16) OR push_bit 16 (ucast (ucast (drop_bit 16 w) :: u16)) = w"
    by (rule bit_word_eqI) (auto simp: bit_simps)
  then show ?thesis by (simp add: array_word_def)
qed

lemma fpec_only_refl [simp]: "fpec_only h h"
  by (simp add: fpec_only_def)

lemma fpec_only_trans [trans]: "fpec_only h h' \<Longrightarrow> fpec_only h' h'' \<Longrightarrow> fpec_only h h''"
  unfolding fpec_only_def by (metis append_assoc list_all_append)

lemma fpec_only_wr_log: "wr_log h' = wr_log h \<Longrightarrow> fpec_only h h'"
  by (simp add: fpec_only_def)

lemma fpec_only_Cons [simp]:
  "fpec_only h (Rd32 a v # h') = fpec_only h h'"
  "fpec_only h h' \<Longrightarrow> fpec_event (Wr32 a v) \<Longrightarrow> fpec_only h (Wr32 a v # h')"
  "fpec_only h h' \<Longrightarrow> fpec_only h (Wr16 a d # h')"
proof -
  show "fpec_only h (Rd32 a v # h') = fpec_only h h'" by (simp add: fpec_only_def)
next
  assume "fpec_only h h'" "fpec_event (Wr32 a v)"
  then obtain ws where "wr_log h' = ws @ wr_log h" "list_all fpec_event (Wr32 a v # ws)"
    by (auto simp: fpec_only_def)
  then show "fpec_only h (Wr32 a v # h')"
    unfolding fpec_only_def by (intro exI [of _ "Wr32 a v # ws"]) simp
next
  assume "fpec_only h h'"
  then obtain ws where "wr_log h' = ws @ wr_log h" "list_all fpec_event (Wr16 a d # ws)"
    by (auto simp: fpec_only_def)
  then show "fpec_only h (Wr16 a d # h')"
    unfolding fpec_only_def by (intro exI [of _ "Wr16 a d # ws"]) simp
qed

text \<open>Flash traffic is invisible on the serial lines.\<close>

lemma fpec_only_uart_out:
  assumes "fpec_only h h'" "u + 4 \<noteq> FLASH_KEYR" "u + 4 \<noteq> FLASH_CR" "u + 4 \<noteq> FLASH_AR"
  shows "uart_out u h' = uart_out u h"
proof -
  have "list_all fpec_event ws \<Longrightarrow> uart_out u (ws @ g) = uart_out u g" for ws g
  proof (induction ws)
    case (Cons e ws)
    then show ?case using assms(2-4) by (cases e) auto
  qed simp
  with assms(1) show ?thesis
    by (metis fpec_only_def uart_out_wr_log)
qed

lemma flash_idle_snd [simp]: "wr_log (snd (flash_idle env h)) = wr_log h"
  by (simp add: flash_idle_def flash_get_status_flags_def desig_get_flash_size_def mmio_defs
      Let_def case_prod_beta)

lemma mode_or: "(x OR b) AND (m :: u32) = (x AND m) OR (b AND m)"
  by (rule bit.conj_disj_distrib2)

lemma mode_andnot: "(x AND NOT b) AND (m :: u32) = (x AND m) AND NOT b"
  by (simp add: ac_simps)

text \<open>
  A wait, a page erase and a half-word program on a controller that keeps these promises: each
  ends, and its effect on the array and on the mode bits is exactly the intended one.
\<close>

context fpec
begin

lemma flash_idle_eq:
  "flash_idle env h = (env h FLASH_SR AND FLASH_SR_BSY = 0,
     Rd32 DESIG_FLASH_SIZE_BASE (env (Rd32 FLASH_SR (env h FLASH_SR) # h) DESIG_FLASH_SIZE_BASE) #
     Rd32 FLASH_SR (env h FLASH_SR) # h)"
proof -
  have size: "\<not> 512 < (ucast (env g DESIG_FLASH_SIZE_BASE) :: u16)" for g
    using one_bank [of g] by (simp add: not_less)
  have "(x AND FLASH_SR_ALL) AND FLASH_SR_BSY = x AND FLASH_SR_BSY" for x :: u32
    by (simp add: FLASH_SR_ALL_def and.assoc)
  moreover have "x AND FLASH_SR_BSY \<noteq> FLASH_SR_BSY \<longleftrightarrow> x AND FLASH_SR_BSY = 0" for x :: u32
    by (simp add: and_one_eq)
  ultimately show ?thesis
    by (simp add: flash_idle_def flash_get_status_flags_def desig_get_flash_size_def mmio_defs
        Let_def case_prod_beta size)
qed

lemma flash_idle_mem [simp]: "mem (snd (flash_idle env h)) = mem h"
  by (simp add: flash_idle_eq mem_read)

lemma flash_idle_cr [simp]: "cr_mode env (snd (flash_idle env h)) = cr_mode env h"
  by (simp add: flash_idle_eq cr_read)

lemma flash_idle_idle:
  "fst (flash_idle env h) \<Longrightarrow> env (snd (flash_idle env h)) FLASH_SR AND FLASH_SR_BSY = 0"
  by (simp add: flash_idle_eq idle_read)

lemma wait_ends:
  "\<exists>h'. flash_wait_for_last_operation env h = Some h' \<and> wr_log h' = wr_log h \<and> mem h' = mem h
     \<and> cr_mode env h' = cr_mode env h \<and> env h' FLASH_SR AND FLASH_SR_BSY = 0"
proof -
  from spin_ends_cond [OF op_ends] obtain n where
    ret: "spin (flash_idle env) h = Some (snd (flash_idle env (spin_state (flash_idle env) n h)))"
    and ok: "fst (flash_idle env (spin_state (flash_idle env) n h))" by blast
  have "wr_log (spin_state (flash_idle env) n h) = wr_log h"
    "mem (spin_state (flash_idle env) n h) = mem h"
    "cr_mode env (spin_state (flash_idle env) n h) = cr_mode env h"
    by (simp_all add: spin_state_inv)
  with ret flash_idle_idle [OF ok] show ?thesis
    by (simp add: flash_wait_for_last_operation_def)
qed

lemma in_upper_bank_eq:
  "in_upper_bank env a h =
     (False, Rd32 DESIG_FLASH_SIZE_BASE (env h DESIG_FLASH_SIZE_BASE) # h)"
  using one_bank [of h]
  by (simp add: in_upper_bank_def desig_get_flash_size_def mmio_defs not_less)

lemma cr_or:
  "cr_mode env h AND FLASH_CR_LOCK = 0 \<Longrightarrow>
   cr_mode env (reg_or env FLASH_CR b h) = cr_mode env h OR (b AND 0xB7)"
  by (simp add: hw_simps cr_write cr_read mode_or) (simp add: cr_mode_def)

lemma cr_andnot:
  "cr_mode env h AND FLASH_CR_LOCK = 0 \<Longrightarrow>
   cr_mode env (reg_andnot env FLASH_CR b h) = cr_mode env h AND NOT b"
  by (simp add: hw_simps cr_write cr_read mode_andnot) (simp add: cr_mode_def)

lemma mem_or_mode:
  "env h FLASH_CR AND FLASH_CR_STRT = 0 \<Longrightarrow> b AND FLASH_CR_STRT = 0 \<Longrightarrow>
   mem (reg_or env FLASH_CR b h) = mem h"
  by (simp add: hw_simps mem_cr mem_read mode_or)

lemma mem_andnot_mode:
  "env h FLASH_CR AND FLASH_CR_STRT = 0 \<Longrightarrow> mem (reg_andnot env FLASH_CR b h) = mem h"
  by (simp add: hw_simps mem_cr mem_read mode_andnot)

lemma erase_page:
  assumes cr: "cr_mode env h = 0"
  shows "\<exists>h'. flash_erase_page env p h = Some h' \<and> mem h' = page_erased p (mem h)
     \<and> cr_mode env h' = 0 \<and> fpec_only h h'"
proof -
  obtain h1 where w1: "flash_wait_for_last_operation env h = Some h1" "wr_log h1 = wr_log h"
    "mem h1 = mem h" "cr_mode env h1 = 0" "env h1 FLASH_SR AND FLASH_SR_BSY = 0"
    using wait_ends [of h] cr by auto
  define h2 where "h2 = snd (in_upper_bank env p h1)"
  have h2: "mem h2 = mem h" "cr_mode env h2 = 0" "env h2 FLASH_CR AND FLASH_CR_STRT = 0"
    "fpec_only h h2"
    using w1 by (simp_all add: h2_def in_upper_bank_eq mem_read cr_read idle_strt idle_read
        fpec_only_wr_log)
  define h3 where "h3 = mmio_wr FLASH_AR p (reg_or env FLASH_CR FLASH_CR_PER h2)"
  have h3: "mem h3 = mem h" "cr_mode env h3 = FLASH_CR_PER" "fpec_only h h3"
    "last_wr FLASH_AR h3 = Some p"
    using h2 mem_or_mode [of h2 FLASH_CR_PER] cr_or [of h2 FLASH_CR_PER]
    by (simp_all add: h3_def mmio_wr_def mem_ar cr_ar) (simp_all add: hw_simps)
  define h4 where "h4 = reg_or env FLASH_CR FLASH_CR_STRT h3"
  have h4: "mem h4 = page_erased p (mem h)" "cr_mode env h4 = FLASH_CR_PER" "fpec_only h h4"
  proof -
    have "env h3 FLASH_CR AND 0xB7 = FLASH_CR_PER" using h3(2) by (simp add: cr_mode_def)
    then show "mem h4 = page_erased p (mem h)"
      using h3 erase [of "Rd32 FLASH_CR (env h3 FLASH_CR) # h3" "env h3 FLASH_CR OR FLASH_CR_STRT" p]
      by (simp add: h4_def hw_simps cr_read mem_read mode_or)
    show "cr_mode env h4 = FLASH_CR_PER" using h3 cr_or [of h3 FLASH_CR_STRT] by (simp add: h4_def)
    show "fpec_only h h4" using h3 by (simp add: h4_def hw_simps)
  qed
  obtain h5 where w5: "flash_wait_for_last_operation env h4 = Some h5" "wr_log h5 = wr_log h4"
    "mem h5 = mem h4" "cr_mode env h5 = FLASH_CR_PER" "env h5 FLASH_SR AND FLASH_SR_BSY = 0"
    using wait_ends [of h4] h4 by auto
  define h6 where "h6 = snd (in_upper_bank env p h5)"
  define h7 where "h7 = reg_andnot env FLASH_CR FLASH_CR_PER h6"
  have h6: "mem h6 = page_erased p (mem h)" "cr_mode env h6 = FLASH_CR_PER"
    "env h6 FLASH_CR AND FLASH_CR_STRT = 0" "fpec_only h h6"
    using w5 h4 fpec_only_trans [OF h4(3) fpec_only_wr_log [OF w5(2)]]
    by (simp_all add: h6_def in_upper_bank_eq mem_read cr_read idle_strt idle_read)
  have h7: "mem h7 = page_erased p (mem h)" "cr_mode env h7 = 0" "fpec_only h h7"
    using h6 cr_andnot [of h6 FLASH_CR_PER]
    by (simp_all add: h7_def mem_andnot_mode) (simp add: hw_simps)
  have "flash_erase_page env p h = Some h7"
    unfolding flash_erase_page_def h7_def h6_def
    using w1(1) w5(1)
    by (simp add: h4_def h3_def h2_def in_upper_bank_eq)
  with h7 show ?thesis by blast
qed

lemma program_half_word:
  assumes cr: "cr_mode env h = 0" and erased: "mem h a = 0xFFFF"
  shows "\<exists>h'. flash_program_half_word env a d h = Some h' \<and> mem h' = (mem h)(a := d)
     \<and> cr_mode env h' = 0 \<and> fpec_only h h'"
proof -
  obtain h1 where w1: "flash_wait_for_last_operation env h = Some h1" "wr_log h1 = wr_log h"
    "mem h1 = mem h" "cr_mode env h1 = 0" "env h1 FLASH_SR AND FLASH_SR_BSY = 0"
    using wait_ends [of h] cr by auto
  define h2 where "h2 = snd (in_upper_bank env a h1)"
  have h2: "mem h2 = mem h" "cr_mode env h2 = 0" "env h2 FLASH_CR AND FLASH_CR_STRT = 0"
    "fpec_only h h2"
    using w1 by (simp_all add: h2_def in_upper_bank_eq mem_read cr_read idle_strt idle_read
        fpec_only_wr_log)
  define h3 where "h3 = reg_or env FLASH_CR FLASH_CR_PG h2"
  have h3: "mem h3 = mem h" "cr_mode env h3 = FLASH_CR_PG" "fpec_only h h3"
    using h2 mem_or_mode [of h2 FLASH_CR_PG] cr_or [of h2 FLASH_CR_PG]
    by (simp_all add: h3_def) (simp add: hw_simps)
  define h4 where "h4 = mmio_wr16 a d h3"
  have h4: "mem h4 = (mem h)(a := d)" "cr_mode env h4 = FLASH_CR_PG" "fpec_only h h4"
    using h3 erased by (simp_all add: h4_def mmio_wr16_def program cr_array)
  obtain h5 where w5: "flash_wait_for_last_operation env h4 = Some h5" "wr_log h5 = wr_log h4"
    "mem h5 = mem h4" "cr_mode env h5 = FLASH_CR_PG" "env h5 FLASH_SR AND FLASH_SR_BSY = 0"
    using wait_ends [of h4] h4 by auto
  define h6 where "h6 = snd (in_upper_bank env a h5)"
  define h7 where "h7 = reg_andnot env FLASH_CR FLASH_CR_PG h6"
  have h6: "mem h6 = (mem h)(a := d)" "cr_mode env h6 = FLASH_CR_PG"
    "env h6 FLASH_CR AND FLASH_CR_STRT = 0" "fpec_only h h6"
    using w5 h4 fpec_only_trans [OF h4(3) fpec_only_wr_log [OF w5(2)]]
    by (simp_all add: h6_def in_upper_bank_eq mem_read cr_read idle_strt idle_read)
  have h7: "mem h7 = (mem h)(a := d)" "cr_mode env h7 = 0" "fpec_only h h7"
    using h6 cr_andnot [of h6 FLASH_CR_PG]
    by (simp_all add: h7_def mem_andnot_mode) (simp add: hw_simps)
  have "flash_program_half_word env a d h = Some h7"
    unfolding flash_program_half_word_def h7_def h6_def
    using w1(1) w5(1) by (simp add: h4_def h3_def h2_def in_upper_bank_eq)
  with h7 show ?thesis by blast
qed

lemma program_word:
  assumes cr: "cr_mode env h = 0" and erased: "mem h a = 0xFFFF" "mem h (a + 2) = 0xFFFF"
  shows "\<exists>h'. flash_program_word env a d h = Some h'
     \<and> mem h' = (mem h)(a := ucast d, a + 2 := ucast (drop_bit 16 d))
     \<and> cr_mode env h' = 0 \<and> fpec_only h h'"
proof -
  obtain h1 where h1: "flash_program_half_word env a (ucast d) h = Some h1"
    "mem h1 = (mem h)(a := ucast d)" "cr_mode env h1 = 0" "fpec_only h h1"
    using program_half_word [OF cr erased(1)] by blast
  have "mem h1 (a + 2) = 0xFFFF" using h1 erased by simp
  then obtain h2 where "flash_program_half_word env (a + 2) (ucast (drop_bit 16 d)) h1 = Some h2"
    "mem h2 = (mem h1)(a + 2 := ucast (drop_bit 16 d))" "cr_mode env h2 = 0" "fpec_only h1 h2"
    using program_half_word [OF h1(3)] by blast
  with h1 show ?thesis
    by (auto simp: flash_program_word_def intro: fpec_only_trans)
qed

lemma unlock_key:
  "cr_mode env h = FLASH_CR_LOCK \<Longrightarrow>
   mem (flash_unlock h) = mem h \<and> cr_mode env (flash_unlock h) = 0 \<and> fpec_only h (flash_unlock h)"
  by (simp add: flash_unlock_def mmio_wr_def mem_key unlock)

lemma lock_mode:
  "cr_mode env h = 0 \<Longrightarrow>
   mem (flash_lock env h) = mem h \<and> cr_mode env (flash_lock env h) = FLASH_CR_LOCK
   \<and> fpec_only h (flash_lock env h)"
proof -
  assume cr: "cr_mode env h = 0"
  have "env h FLASH_CR AND 0x26 = cr_mode env h AND 0x26"
    by (simp add: cr_mode_def and.assoc)
  with cr have "mem (flash_lock env h) = mem h"
    by (simp add: flash_lock_def hw_simps mem_cr mem_read mode_or)
  moreover have "cr_mode env (flash_lock env h) = FLASH_CR_LOCK"
    using cr cr_or [of h FLASH_CR_LOCK] by (simp add: flash_lock_def)
  ultimately show ?thesis by (simp add: flash_lock_def hw_simps)
qed

end

end
