(* ===== verification/Rcc.thy ===== *)
theory Rcc
  imports Flash
begin

text \<open>
  Reset and clock control: \<^verbatim>\<open>libopencm3/lib/stm32/f1/rcc.c\<close> and
  \<^verbatim>\<open>lib/stm32/common/rcc_common_all.c\<close>, with the addresses and bits of
  \<^verbatim>\<open>include/libopencm3/stm32/f1/rcc.h\<close>. The three globals that record the bus frequencies are
  the record \<open>clocks\<close>. What the configurations mean and what the set-up functions leave in the
  registers is the subject of \<open>Clock\<close>.
\<close>

section \<open>Registers\<close>

abbreviation (input) RCC_BASE :: u32 where "RCC_BASE \<equiv> 0x40021000"
abbreviation (input) RCC_CR :: u32 where "RCC_CR \<equiv> 0x40021000"
abbreviation (input) RCC_CFGR :: u32 where "RCC_CFGR \<equiv> 0x40021004"
abbreviation (input) RCC_CIR :: u32 where "RCC_CIR \<equiv> 0x40021008"
abbreviation (input) RCC_BDCR :: u32 where "RCC_BDCR \<equiv> 0x40021020"
abbreviation (input) RCC_CSR :: u32 where "RCC_CSR \<equiv> 0x40021024"
abbreviation (input) RCC_CFGR2 :: u32 where "RCC_CFGR2 \<equiv> 0x4002102C"

abbreviation (input) RCC_CR_PLL3RDY :: u32 where "RCC_CR_PLL3RDY \<equiv> 0x20000000"
abbreviation (input) RCC_CR_PLL3ON :: u32 where "RCC_CR_PLL3ON \<equiv> 0x10000000"
abbreviation (input) RCC_CR_PLL2RDY :: u32 where "RCC_CR_PLL2RDY \<equiv> 0x8000000"
abbreviation (input) RCC_CR_PLL2ON :: u32 where "RCC_CR_PLL2ON \<equiv> 0x4000000"
abbreviation (input) RCC_CR_PLLRDY :: u32 where "RCC_CR_PLLRDY \<equiv> 0x2000000"
abbreviation (input) RCC_CR_PLLON :: u32 where "RCC_CR_PLLON \<equiv> 0x1000000"
abbreviation (input) RCC_CR_CSSON :: u32 where "RCC_CR_CSSON \<equiv> 0x80000"
abbreviation (input) RCC_CR_HSEBYP :: u32 where "RCC_CR_HSEBYP \<equiv> 0x40000"
abbreviation (input) RCC_CR_HSERDY :: u32 where "RCC_CR_HSERDY \<equiv> 0x20000"
abbreviation (input) RCC_CR_HSEON :: u32 where "RCC_CR_HSEON \<equiv> 0x10000"
abbreviation (input) RCC_CR_HSIRDY :: u32 where "RCC_CR_HSIRDY \<equiv> 0x2"
abbreviation (input) RCC_CR_HSION :: u32 where "RCC_CR_HSION \<equiv> 0x1"
abbreviation (input) RCC_CIR_CSSC :: u32 where "RCC_CIR_CSSC \<equiv> 0x800000"
abbreviation (input) RCC_CIR_PLL3RDYC :: u32 where "RCC_CIR_PLL3RDYC \<equiv> 0x400000"
abbreviation (input) RCC_CIR_PLL2RDYC :: u32 where "RCC_CIR_PLL2RDYC \<equiv> 0x200000"
abbreviation (input) RCC_CIR_PLLRDYC :: u32 where "RCC_CIR_PLLRDYC \<equiv> 0x100000"
abbreviation (input) RCC_CIR_HSERDYC :: u32 where "RCC_CIR_HSERDYC \<equiv> 0x80000"
abbreviation (input) RCC_CIR_HSIRDYC :: u32 where "RCC_CIR_HSIRDYC \<equiv> 0x40000"
abbreviation (input) RCC_CIR_LSERDYC :: u32 where "RCC_CIR_LSERDYC \<equiv> 0x20000"
abbreviation (input) RCC_CIR_LSIRDYC :: u32 where "RCC_CIR_LSIRDYC \<equiv> 0x10000"
abbreviation (input) RCC_CIR_PLL3RDYIE :: u32 where "RCC_CIR_PLL3RDYIE \<equiv> 0x4000"
abbreviation (input) RCC_CIR_PLL2RDYIE :: u32 where "RCC_CIR_PLL2RDYIE \<equiv> 0x2000"
abbreviation (input) RCC_CIR_PLLRDYIE :: u32 where "RCC_CIR_PLLRDYIE \<equiv> 0x1000"
abbreviation (input) RCC_CIR_HSERDYIE :: u32 where "RCC_CIR_HSERDYIE \<equiv> 0x800"
abbreviation (input) RCC_CIR_HSIRDYIE :: u32 where "RCC_CIR_HSIRDYIE \<equiv> 0x400"
abbreviation (input) RCC_CIR_LSERDYIE :: u32 where "RCC_CIR_LSERDYIE \<equiv> 0x200"
abbreviation (input) RCC_CIR_LSIRDYIE :: u32 where "RCC_CIR_LSIRDYIE \<equiv> 0x100"
abbreviation (input) RCC_CIR_CSSF :: u32 where "RCC_CIR_CSSF \<equiv> 0x80"
abbreviation (input) RCC_CIR_PLL3RDYF :: u32 where "RCC_CIR_PLL3RDYF \<equiv> 0x40"
abbreviation (input) RCC_CIR_PLL2RDYF :: u32 where "RCC_CIR_PLL2RDYF \<equiv> 0x20"
abbreviation (input) RCC_CIR_PLLRDYF :: u32 where "RCC_CIR_PLLRDYF \<equiv> 0x10"
abbreviation (input) RCC_CIR_HSERDYF :: u32 where "RCC_CIR_HSERDYF \<equiv> 0x8"
abbreviation (input) RCC_CIR_HSIRDYF :: u32 where "RCC_CIR_HSIRDYF \<equiv> 0x4"
abbreviation (input) RCC_CIR_LSERDYF :: u32 where "RCC_CIR_LSERDYF \<equiv> 0x2"
abbreviation (input) RCC_CIR_LSIRDYF :: u32 where "RCC_CIR_LSIRDYF \<equiv> 0x1"
abbreviation (input) RCC_BDCR_BDRST :: u32 where "RCC_BDCR_BDRST \<equiv> 0x10000"
abbreviation (input) RCC_BDCR_RTCEN :: u32 where "RCC_BDCR_RTCEN \<equiv> 0x8000"
abbreviation (input) RCC_BDCR_LSEBYP :: u32 where "RCC_BDCR_LSEBYP \<equiv> 0x4"
abbreviation (input) RCC_BDCR_LSERDY :: u32 where "RCC_BDCR_LSERDY \<equiv> 0x2"
abbreviation (input) RCC_BDCR_LSEON :: u32 where "RCC_BDCR_LSEON \<equiv> 0x1"
abbreviation (input) RCC_CSR_LSIRDY :: u32 where "RCC_CSR_LSIRDY \<equiv> 0x2"
abbreviation (input) RCC_CSR_LSION :: u32 where "RCC_CSR_LSION \<equiv> 0x1"
abbreviation (input) RCC_CFGR_USBPRE :: u32 where "RCC_CFGR_USBPRE \<equiv> 0x400000"
abbreviation (input) RCC_CFGR_PLLXTPRE :: u32 where "RCC_CFGR_PLLXTPRE \<equiv> 0x20000"
abbreviation (input) RCC_CFGR_PLLSRC :: u32 where "RCC_CFGR_PLLSRC \<equiv> 0x10000"
abbreviation (input) RCC_CFGR2_PREDIV1SRC :: u32 where "RCC_CFGR2_PREDIV1SRC \<equiv> 0x10000"

abbreviation (input) RCC_CFGR_PLLMUL :: u32 where "RCC_CFGR_PLLMUL \<equiv> 0x3C0000"
abbreviation (input) RCC_CFGR_ADCPRE :: u32 where "RCC_CFGR_ADCPRE \<equiv> 0xC000"
abbreviation (input) RCC_CFGR_PPRE2 :: u32 where "RCC_CFGR_PPRE2 \<equiv> 0x3800"
abbreviation (input) RCC_CFGR_PPRE1 :: u32 where "RCC_CFGR_PPRE1 \<equiv> 0x700"
abbreviation (input) RCC_CFGR_HPRE :: u32 where "RCC_CFGR_HPRE \<equiv> 0xF0"
abbreviation (input) RCC_CFGR_SWS :: u32 where "RCC_CFGR_SWS \<equiv> 0xC"
abbreviation (input) RCC_CFGR_SW :: u32 where "RCC_CFGR_SW \<equiv> 0x3"
abbreviation (input) RCC_CFGR2_PLL3MUL :: u32 where "RCC_CFGR2_PLL3MUL \<equiv> 0xF000"
abbreviation (input) RCC_CFGR2_PLL2MUL :: u32 where "RCC_CFGR2_PLL2MUL \<equiv> 0xF00"
abbreviation (input) RCC_CFGR2_PREDIV2 :: u32 where "RCC_CFGR2_PREDIV2 \<equiv> 0xF0"
abbreviation (input) RCC_CFGR2_PREDIV1 :: u32 where "RCC_CFGR2_PREDIV1 \<equiv> 0xF"

text \<open>Field values, of type \<^verbatim>\<open>uint8_t\<close> in the configuration tables and \<^verbatim>\<open>uint32_t\<close> in calls.\<close>

abbreviation (input) RCC_CFGR_PLLMUL_PLL_CLK_MUL3 :: "'a::len word" where "RCC_CFGR_PLLMUL_PLL_CLK_MUL3 \<equiv> 1"
abbreviation (input) RCC_CFGR_PLLMUL_PLL_CLK_MUL6 :: "'a::len word" where "RCC_CFGR_PLLMUL_PLL_CLK_MUL6 \<equiv> 4"
abbreviation (input) RCC_CFGR_PLLMUL_PLL_CLK_MUL9 :: "'a::len word" where "RCC_CFGR_PLLMUL_PLL_CLK_MUL9 \<equiv> 7"
abbreviation (input) RCC_CFGR_PLLMUL_PLL_CLK_MUL12 :: "'a::len word" where "RCC_CFGR_PLLMUL_PLL_CLK_MUL12 \<equiv> 10"
abbreviation (input) RCC_CFGR_PLLMUL_PLL_CLK_MUL16 :: "'a::len word" where "RCC_CFGR_PLLMUL_PLL_CLK_MUL16 \<equiv> 14"
abbreviation (input) RCC_CFGR_PLLXTPRE_HSE_CLK :: "'a::len word" where "RCC_CFGR_PLLXTPRE_HSE_CLK \<equiv> 0"
abbreviation (input) RCC_CFGR_PLLXTPRE_HSE_CLK_DIV2 :: "'a::len word" where "RCC_CFGR_PLLXTPRE_HSE_CLK_DIV2 \<equiv> 1"
abbreviation (input) RCC_CFGR_PLLSRC_HSI_CLK_DIV2 :: "'a::len word" where "RCC_CFGR_PLLSRC_HSI_CLK_DIV2 \<equiv> 0"
abbreviation (input) RCC_CFGR_PLLSRC_HSE_CLK :: "'a::len word" where "RCC_CFGR_PLLSRC_HSE_CLK \<equiv> 1"
abbreviation (input) RCC_CFGR_PLLSRC_PREDIV1_CLK :: "'a::len word" where "RCC_CFGR_PLLSRC_PREDIV1_CLK \<equiv> 1"
abbreviation (input) RCC_CFGR_ADCPRE_DIV2 :: "'a::len word" where "RCC_CFGR_ADCPRE_DIV2 \<equiv> 0"
abbreviation (input) RCC_CFGR_ADCPRE_DIV6 :: "'a::len word" where "RCC_CFGR_ADCPRE_DIV6 \<equiv> 2"
abbreviation (input) RCC_CFGR_ADCPRE_DIV8 :: "'a::len word" where "RCC_CFGR_ADCPRE_DIV8 \<equiv> 3"
abbreviation (input) RCC_CFGR_PPRE_NODIV :: "'a::len word" where "RCC_CFGR_PPRE_NODIV \<equiv> 0"
abbreviation (input) RCC_CFGR_PPRE_DIV2 :: "'a::len word" where "RCC_CFGR_PPRE_DIV2 \<equiv> 4"
abbreviation (input) RCC_CFGR_HPRE_NODIV :: "'a::len word" where "RCC_CFGR_HPRE_NODIV \<equiv> 0"
abbreviation (input) RCC_CFGR_USBPRE_PLL_CLK_NODIV :: "'a::len word" where "RCC_CFGR_USBPRE_PLL_CLK_NODIV \<equiv> 1"
abbreviation (input) RCC_CFGR_USBPRE_PLL_VCO_CLK_DIV3 :: "'a::len word" where "RCC_CFGR_USBPRE_PLL_VCO_CLK_DIV3 \<equiv> 0"
abbreviation (input) RCC_CFGR2_PREDIV1SRC_PLL2_CLK :: "'a::len word" where "RCC_CFGR2_PREDIV1SRC_PLL2_CLK \<equiv> 1"
abbreviation (input) RCC_CFGR2_PLL2MUL_PLL2_CLK_MUL8 :: "'a::len word" where "RCC_CFGR2_PLL2MUL_PLL2_CLK_MUL8 \<equiv> 6"
abbreviation (input) RCC_CFGR2_PREDIV_NODIV :: "'a::len word" where "RCC_CFGR2_PREDIV_NODIV \<equiv> 0"
abbreviation (input) RCC_CFGR2_PREDIV_DIV2 :: "'a::len word" where "RCC_CFGR2_PREDIV_DIV2 \<equiv> 1"
abbreviation (input) RCC_CFGR2_PREDIV_DIV5 :: "'a::len word" where "RCC_CFGR2_PREDIV_DIV5 \<equiv> 4"
abbreviation (input) RCC_CFGR2_PREDIV2_DIV5 :: "'a::len word" where "RCC_CFGR2_PREDIV2_DIV5 \<equiv> 4"
abbreviation (input) RCC_CFGR_SW_SYSCLKSEL_HSICLK :: "'a::len word" where "RCC_CFGR_SW_SYSCLKSEL_HSICLK \<equiv> 0"
abbreviation (input) RCC_CFGR_SW_SYSCLKSEL_HSECLK :: "'a::len word" where "RCC_CFGR_SW_SYSCLKSEL_HSECLK \<equiv> 1"
abbreviation (input) RCC_CFGR_SW_SYSCLKSEL_PLLCLK :: "'a::len word" where "RCC_CFGR_SW_SYSCLKSEL_PLLCLK \<equiv> 2"

section \<open>Data\<close>

datatype rcc_osc = RCC_PLL | RCC_PLL2 | RCC_PLL3 | RCC_HSE | RCC_HSI | RCC_LSE | RCC_LSI

record rcc_clock_scale =
  pll_mul :: u8
  pll_source :: u8
  hpre :: u8
  ppre1 :: u8
  ppre2 :: u8
  adcpre :: u8
  flash_waitstates :: u8
  prediv1 :: u8
  prediv1_source :: u8
  prediv2 :: u8
  pll2_mul :: u8
  pll3_mul :: u8
  usbpre :: u8
  ahb_frequency :: u32
  apb1_frequency :: u32
  apb2_frequency :: u32

text \<open>Members that a C initialiser leaves out are zero.\<close>

definition scale0 :: rcc_clock_scale where
  "scale0 = \<lparr>pll_mul = 0, pll_source = 0, hpre = 0, ppre1 = 0, ppre2 = 0, adcpre = 0,
     flash_waitstates = 0, prediv1 = 0, prediv1_source = 0, prediv2 = 0, pll2_mul = 0,
     pll3_mul = 0, usbpre = 0, ahb_frequency = 0, apb1_frequency = 0, apb2_frequency = 0\<rparr>"

record clocks =
  rcc_apb1_frequency :: u32
  rcc_apb2_frequency :: u32
  rcc_ahb_frequency :: u32

definition clocks_reset :: clocks where
  "clocks_reset = \<lparr>rcc_apb1_frequency = 8000000, rcc_apb2_frequency = 8000000,
     rcc_ahb_frequency = 8000000\<rparr>"

definition rcc_hse_configs :: "rcc_clock_scale list" where
  "rcc_hse_configs = [
     scale0\<lparr>pll_source := RCC_CFGR_PLLSRC_HSE_CLK,
       pll_mul := RCC_CFGR_PLLMUL_PLL_CLK_MUL6,
       prediv1 := RCC_CFGR2_PREDIV_NODIV,
       hpre := RCC_CFGR_HPRE_NODIV,
       ppre1 := RCC_CFGR_PPRE_DIV2,
       ppre2 := RCC_CFGR_PPRE_NODIV,
       adcpre := RCC_CFGR_ADCPRE_DIV6,
       flash_waitstates := 2,
       ahb_frequency := 72000000,
       apb1_frequency := 36000000,
       apb2_frequency := 72000000\<rparr>,
     scale0\<lparr>pll_mul := RCC_CFGR_PLLMUL_PLL_CLK_MUL9,
       pll_source := RCC_CFGR_PLLSRC_HSE_CLK,
       hpre := RCC_CFGR_HPRE_NODIV,
       ppre1 := RCC_CFGR_PPRE_DIV2,
       ppre2 := RCC_CFGR_PPRE_NODIV,
       adcpre := RCC_CFGR_ADCPRE_DIV6,
       flash_waitstates := 2,
       prediv1 := RCC_CFGR2_PREDIV_DIV2,
       ahb_frequency := 72000000,
       apb1_frequency := 36000000,
       apb2_frequency := 72000000\<rparr>,
     scale0\<lparr>pll_mul := RCC_CFGR_PLLMUL_PLL_CLK_MUL9,
       pll_source := RCC_CFGR_PLLSRC_PREDIV1_CLK,
       hpre := RCC_CFGR_HPRE_NODIV,
       ppre1 := RCC_CFGR_PPRE_DIV2,
       ppre2 := RCC_CFGR_PPRE_NODIV,
       adcpre := RCC_CFGR_ADCPRE_DIV6,
       flash_waitstates := 2,
       prediv1 := RCC_CFGR2_PREDIV_DIV5,
       prediv1_source := RCC_CFGR2_PREDIV1SRC_PLL2_CLK,
       pll2_mul := RCC_CFGR2_PLL2MUL_PLL2_CLK_MUL8,
       prediv2 := RCC_CFGR2_PREDIV2_DIV5,
       usbpre := RCC_CFGR_USBPRE_PLL_VCO_CLK_DIV3,
       ahb_frequency := 72000000,
       apb1_frequency := 36000000,
       apb2_frequency := 72000000\<rparr>,
     scale0\<lparr>pll_mul := RCC_CFGR_PLLMUL_PLL_CLK_MUL3,
       pll_source := RCC_CFGR_PLLSRC_HSE_CLK,
       hpre := RCC_CFGR_HPRE_NODIV,
       ppre1 := RCC_CFGR_PPRE_NODIV,
       ppre2 := RCC_CFGR_PPRE_NODIV,
       adcpre := RCC_CFGR_ADCPRE_DIV2,
       flash_waitstates := 0,
       prediv1 := RCC_CFGR2_PREDIV_NODIV,
       ahb_frequency := 24000000,
       apb1_frequency := 24000000,
       apb2_frequency := 24000000\<rparr>,
     scale0\<lparr>pll_mul := RCC_CFGR_PLLMUL_PLL_CLK_MUL9,
       pll_source := RCC_CFGR_PLLSRC_HSE_CLK,
       hpre := RCC_CFGR_HPRE_NODIV,
       ppre1 := RCC_CFGR_PPRE_DIV2,
       ppre2 := RCC_CFGR_PPRE_NODIV,
       adcpre := RCC_CFGR_ADCPRE_DIV8,
       flash_waitstates := 2,
       prediv1 := RCC_CFGR2_PREDIV_NODIV,
       ahb_frequency := 72000000,
       apb1_frequency := 36000000,
       apb2_frequency := 72000000\<rparr>]"

definition rcc_hsi_configs :: "rcc_clock_scale list" where
  "rcc_hsi_configs = [
     scale0\<lparr>pll_source := RCC_CFGR_PLLSRC_HSI_CLK_DIV2,
       pll_mul := RCC_CFGR_PLLMUL_PLL_CLK_MUL6,
       prediv1 := RCC_CFGR2_PREDIV_NODIV,
       hpre := RCC_CFGR_HPRE_NODIV,
       ppre1 := RCC_CFGR_PPRE_NODIV,
       ppre2 := RCC_CFGR_PPRE_NODIV,
       adcpre := RCC_CFGR_ADCPRE_DIV2,
       flash_waitstates := 0,
       ahb_frequency := 24000000,
       apb1_frequency := 24000000,
       apb2_frequency := 24000000\<rparr>,
     scale0\<lparr>pll_source := RCC_CFGR_PLLSRC_HSI_CLK_DIV2,
       pll_mul := RCC_CFGR_PLLMUL_PLL_CLK_MUL12,
       prediv1 := RCC_CFGR2_PREDIV_NODIV,
       hpre := RCC_CFGR_HPRE_NODIV,
       ppre1 := RCC_CFGR_PPRE_DIV2,
       ppre2 := RCC_CFGR_PPRE_NODIV,
       adcpre := RCC_CFGR_ADCPRE_DIV8,
       usbpre := RCC_CFGR_USBPRE_PLL_CLK_NODIV,
       flash_waitstates := 1,
       ahb_frequency := 48000000,
       apb1_frequency := 24000000,
       apb2_frequency := 48000000\<rparr>,
     scale0\<lparr>pll_source := RCC_CFGR_PLLSRC_HSI_CLK_DIV2,
       pll_mul := RCC_CFGR_PLLMUL_PLL_CLK_MUL16,
       prediv1 := RCC_CFGR2_PREDIV_NODIV,
       hpre := RCC_CFGR_HPRE_NODIV,
       ppre1 := RCC_CFGR_PPRE_DIV2,
       ppre2 := RCC_CFGR_PPRE_NODIV,
       adcpre := RCC_CFGR_ADCPRE_DIV8,
       flash_waitstates := 2,
       ahb_frequency := 64000000,
       apb1_frequency := 32000000,
       apb2_frequency := 64000000\<rparr>]"

section \<open>Operations\<close>

fun rcc_osc_ready_int_clear :: "env \<Rightarrow> rcc_osc \<Rightarrow> hist \<Rightarrow> hist" where
  "rcc_osc_ready_int_clear env RCC_PLL h = reg_or env RCC_CIR RCC_CIR_PLLRDYC h"
| "rcc_osc_ready_int_clear env RCC_PLL2 h = reg_or env RCC_CIR RCC_CIR_PLL2RDYC h"
| "rcc_osc_ready_int_clear env RCC_PLL3 h = reg_or env RCC_CIR RCC_CIR_PLL3RDYC h"
| "rcc_osc_ready_int_clear env RCC_HSE h = reg_or env RCC_CIR RCC_CIR_HSERDYC h"
| "rcc_osc_ready_int_clear env RCC_HSI h = reg_or env RCC_CIR RCC_CIR_HSIRDYC h"
| "rcc_osc_ready_int_clear env RCC_LSE h = reg_or env RCC_CIR RCC_CIR_LSERDYC h"
| "rcc_osc_ready_int_clear env RCC_LSI h = reg_or env RCC_CIR RCC_CIR_LSIRDYC h"

fun rcc_osc_ready_int_enable :: "env \<Rightarrow> rcc_osc \<Rightarrow> hist \<Rightarrow> hist" where
  "rcc_osc_ready_int_enable env RCC_PLL h = reg_or env RCC_CIR RCC_CIR_PLLRDYIE h"
| "rcc_osc_ready_int_enable env RCC_PLL2 h = reg_or env RCC_CIR RCC_CIR_PLL2RDYIE h"
| "rcc_osc_ready_int_enable env RCC_PLL3 h = reg_or env RCC_CIR RCC_CIR_PLL3RDYIE h"
| "rcc_osc_ready_int_enable env RCC_HSE h = reg_or env RCC_CIR RCC_CIR_HSERDYIE h"
| "rcc_osc_ready_int_enable env RCC_HSI h = reg_or env RCC_CIR RCC_CIR_HSIRDYIE h"
| "rcc_osc_ready_int_enable env RCC_LSE h = reg_or env RCC_CIR RCC_CIR_LSERDYIE h"
| "rcc_osc_ready_int_enable env RCC_LSI h = reg_or env RCC_CIR RCC_CIR_LSIRDYIE h"

fun rcc_osc_ready_int_disable :: "env \<Rightarrow> rcc_osc \<Rightarrow> hist \<Rightarrow> hist" where
  "rcc_osc_ready_int_disable env RCC_PLL h = reg_andnot env RCC_CIR RCC_CIR_PLLRDYIE h"
| "rcc_osc_ready_int_disable env RCC_PLL2 h = reg_andnot env RCC_CIR RCC_CIR_PLL2RDYIE h"
| "rcc_osc_ready_int_disable env RCC_PLL3 h = reg_andnot env RCC_CIR RCC_CIR_PLL3RDYIE h"
| "rcc_osc_ready_int_disable env RCC_HSE h = reg_andnot env RCC_CIR RCC_CIR_HSERDYIE h"
| "rcc_osc_ready_int_disable env RCC_HSI h = reg_andnot env RCC_CIR RCC_CIR_HSIRDYIE h"
| "rcc_osc_ready_int_disable env RCC_LSE h = reg_andnot env RCC_CIR RCC_CIR_LSERDYIE h"
| "rcc_osc_ready_int_disable env RCC_LSI h = reg_andnot env RCC_CIR RCC_CIR_LSIRDYIE h"

text \<open>\<^verbatim>\<open>(REG & bits) != 0\<close>, with the access.\<close>

definition reg_flag :: "env \<Rightarrow> u32 \<Rightarrow> u32 \<Rightarrow> hist \<Rightarrow> bool \<times> hist" where
  "reg_flag env a b h = (let (r, h) = mmio_rd env a h in (r AND b \<noteq> 0, h))"

fun rcc_osc_ready_int_flag :: "env \<Rightarrow> rcc_osc \<Rightarrow> hist \<Rightarrow> bool \<times> hist" where
  "rcc_osc_ready_int_flag env RCC_PLL h = reg_flag env RCC_CIR RCC_CIR_PLLRDYF h"
| "rcc_osc_ready_int_flag env RCC_PLL2 h = reg_flag env RCC_CIR RCC_CIR_PLL2RDYF h"
| "rcc_osc_ready_int_flag env RCC_PLL3 h = reg_flag env RCC_CIR RCC_CIR_PLL3RDYF h"
| "rcc_osc_ready_int_flag env RCC_HSE h = reg_flag env RCC_CIR RCC_CIR_HSERDYF h"
| "rcc_osc_ready_int_flag env RCC_HSI h = reg_flag env RCC_CIR RCC_CIR_HSIRDYF h"
| "rcc_osc_ready_int_flag env RCC_LSE h = reg_flag env RCC_CIR RCC_CIR_LSERDYF h"
| "rcc_osc_ready_int_flag env RCC_LSI h = reg_flag env RCC_CIR RCC_CIR_LSIRDYF h"

definition rcc_css_int_clear :: "env \<Rightarrow> hist \<Rightarrow> hist" where
  "rcc_css_int_clear env h = reg_or env RCC_CIR RCC_CIR_CSSC h"

definition rcc_css_int_flag :: "env \<Rightarrow> hist \<Rightarrow> bool \<times> hist" where
  "rcc_css_int_flag env h = reg_flag env RCC_CIR RCC_CIR_CSSF h"

fun rcc_is_osc_ready :: "env \<Rightarrow> rcc_osc \<Rightarrow> hist \<Rightarrow> bool \<times> hist" where
  "rcc_is_osc_ready env RCC_PLL h = reg_flag env RCC_CR RCC_CR_PLLRDY h"
| "rcc_is_osc_ready env RCC_PLL2 h = reg_flag env RCC_CR RCC_CR_PLL2RDY h"
| "rcc_is_osc_ready env RCC_PLL3 h = reg_flag env RCC_CR RCC_CR_PLL3RDY h"
| "rcc_is_osc_ready env RCC_HSE h = reg_flag env RCC_CR RCC_CR_HSERDY h"
| "rcc_is_osc_ready env RCC_HSI h = reg_flag env RCC_CR RCC_CR_HSIRDY h"
| "rcc_is_osc_ready env RCC_LSE h = reg_flag env RCC_BDCR RCC_BDCR_LSERDY h"
| "rcc_is_osc_ready env RCC_LSI h = reg_flag env RCC_CSR RCC_CSR_LSIRDY h"

definition rcc_wait_for_osc_ready :: "env \<Rightarrow> rcc_osc \<Rightarrow> hist \<Rightarrow> hist option" where
  "rcc_wait_for_osc_ready env osc h = spin (rcc_is_osc_ready env osc) h"

fun rcc_osc_on :: "env \<Rightarrow> rcc_osc \<Rightarrow> hist \<Rightarrow> hist" where
  "rcc_osc_on env RCC_PLL h = reg_or env RCC_CR RCC_CR_PLLON h"
| "rcc_osc_on env RCC_PLL2 h = reg_or env RCC_CR RCC_CR_PLL2ON h"
| "rcc_osc_on env RCC_PLL3 h = reg_or env RCC_CR RCC_CR_PLL3ON h"
| "rcc_osc_on env RCC_HSE h = reg_or env RCC_CR RCC_CR_HSEON h"
| "rcc_osc_on env RCC_HSI h = reg_or env RCC_CR RCC_CR_HSION h"
| "rcc_osc_on env RCC_LSE h = reg_or env RCC_BDCR RCC_BDCR_LSEON h"
| "rcc_osc_on env RCC_LSI h = reg_or env RCC_CSR RCC_CSR_LSION h"

fun rcc_osc_off :: "env \<Rightarrow> rcc_osc \<Rightarrow> hist \<Rightarrow> hist" where
  "rcc_osc_off env RCC_PLL h = reg_andnot env RCC_CR RCC_CR_PLLON h"
| "rcc_osc_off env RCC_PLL2 h = reg_andnot env RCC_CR RCC_CR_PLL2ON h"
| "rcc_osc_off env RCC_PLL3 h = reg_andnot env RCC_CR RCC_CR_PLL3ON h"
| "rcc_osc_off env RCC_HSE h = reg_andnot env RCC_CR RCC_CR_HSEON h"
| "rcc_osc_off env RCC_HSI h = reg_andnot env RCC_CR RCC_CR_HSION h"
| "rcc_osc_off env RCC_LSE h = reg_andnot env RCC_BDCR RCC_BDCR_LSEON h"
| "rcc_osc_off env RCC_LSI h = reg_andnot env RCC_CSR RCC_CSR_LSION h"

definition rcc_css_enable :: "env \<Rightarrow> hist \<Rightarrow> hist" where
  "rcc_css_enable env h = reg_or env RCC_CR RCC_CR_CSSON h"

definition rcc_css_disable :: "env \<Rightarrow> hist \<Rightarrow> hist" where
  "rcc_css_disable env h = reg_andnot env RCC_CR RCC_CR_CSSON h"

definition rcc_set_sysclk_source :: "env \<Rightarrow> u32 \<Rightarrow> hist \<Rightarrow> hist" where
  "rcc_set_sysclk_source env clk h = reg_field env RCC_CFGR RCC_CFGR_SW (push_bit 0 clk) h"

definition rcc_set_pll_multiplication_factor :: "env \<Rightarrow> u32 \<Rightarrow> hist \<Rightarrow> hist" where
  "rcc_set_pll_multiplication_factor env mul h = reg_field env RCC_CFGR RCC_CFGR_PLLMUL (push_bit 18 mul) h"

definition rcc_set_pll2_multiplication_factor :: "env \<Rightarrow> u32 \<Rightarrow> hist \<Rightarrow> hist" where
  "rcc_set_pll2_multiplication_factor env mul h = reg_field env RCC_CFGR2 RCC_CFGR2_PLL2MUL (push_bit 8 mul) h"

definition rcc_set_pll3_multiplication_factor :: "env \<Rightarrow> u32 \<Rightarrow> hist \<Rightarrow> hist" where
  "rcc_set_pll3_multiplication_factor env mul h = reg_field env RCC_CFGR2 RCC_CFGR2_PLL3MUL (push_bit 12 mul) h"

definition rcc_set_pll_source :: "env \<Rightarrow> u32 \<Rightarrow> hist \<Rightarrow> hist" where
  "rcc_set_pll_source env pllsrc h = reg_field env RCC_CFGR RCC_CFGR_PLLSRC (push_bit 16 pllsrc) h"

definition rcc_set_pllxtpre :: "env \<Rightarrow> u32 \<Rightarrow> hist \<Rightarrow> hist" where
  "rcc_set_pllxtpre env pllxtpre h = reg_field env RCC_CFGR RCC_CFGR_PLLXTPRE (push_bit 17 pllxtpre) h"

definition rcc_rtc_clock_enabled_flag :: "env \<Rightarrow> hist \<Rightarrow> u32 \<times> hist" where
  "rcc_rtc_clock_enabled_flag env h = (let (r, h) = mmio_rd env RCC_BDCR h in (r AND RCC_BDCR_RTCEN, h))"

definition rcc_enable_rtc_clock :: "env \<Rightarrow> hist \<Rightarrow> hist" where
  "rcc_enable_rtc_clock env h = reg_or env RCC_BDCR RCC_BDCR_RTCEN h"

text \<open>The wait for the oscillator, then the two RTCSEL bits (8 and 9) of \<^verbatim>\<open>RCC_BDCR\<close>.\<close>

definition rtc_select :: "env \<Rightarrow> u32 \<Rightarrow> hist \<Rightarrow> hist" where
  "rtc_select env sel h = reg_or env RCC_BDCR sel (reg_andnot env RCC_BDCR 0x300 h)"

fun rcc_set_rtc_clock_source :: "env \<Rightarrow> rcc_osc \<Rightarrow> hist \<Rightarrow> hist option" where
  "rcc_set_rtc_clock_source env RCC_LSE h = do {
     let h = reg_or env RCC_BDCR RCC_BDCR_LSEON h;
     h \<leftarrow> spin (reg_flag env RCC_BDCR RCC_BDCR_LSERDY) h;
     Some (rtc_select env 0x100 h)
   }"
| "rcc_set_rtc_clock_source env RCC_LSI h = do {
     let h = reg_or env RCC_CSR RCC_CSR_LSION h;
     h \<leftarrow> spin (reg_flag env RCC_CSR RCC_CSR_LSIRDY) h;
     Some (rtc_select env 0x200 h)
   }"
| "rcc_set_rtc_clock_source env RCC_HSE h = do {
     let h = reg_or env RCC_CR RCC_CR_HSEON h;
     h \<leftarrow> spin (reg_flag env RCC_CR RCC_CR_HSERDY) h;
     Some (rtc_select env 0x300 h)
   }"
| "rcc_set_rtc_clock_source env _ h = Some (reg_andnot env RCC_BDCR 0x300 h)"

definition rcc_set_adcpre :: "env \<Rightarrow> u32 \<Rightarrow> hist \<Rightarrow> hist" where
  "rcc_set_adcpre env v h = reg_field env RCC_CFGR RCC_CFGR_ADCPRE (push_bit 14 v) h"

definition rcc_set_ppre2 :: "env \<Rightarrow> u32 \<Rightarrow> hist \<Rightarrow> hist" where
  "rcc_set_ppre2 env v h = reg_field env RCC_CFGR RCC_CFGR_PPRE2 (push_bit 11 v) h"

definition rcc_set_ppre1 :: "env \<Rightarrow> u32 \<Rightarrow> hist \<Rightarrow> hist" where
  "rcc_set_ppre1 env v h = reg_field env RCC_CFGR RCC_CFGR_PPRE1 (push_bit 8 v) h"

definition rcc_set_hpre :: "env \<Rightarrow> u32 \<Rightarrow> hist \<Rightarrow> hist" where
  "rcc_set_hpre env v h = reg_field env RCC_CFGR RCC_CFGR_HPRE (push_bit 4 v) h"

definition rcc_set_usbpre :: "env \<Rightarrow> u32 \<Rightarrow> hist \<Rightarrow> hist" where
  "rcc_set_usbpre env v h = 
     (if v \<noteq> 0 then reg_or env RCC_CFGR RCC_CFGR_USBPRE h
      else reg_andnot env RCC_CFGR RCC_CFGR_USBPRE h)"

definition rcc_set_prediv1 :: "env \<Rightarrow> u32 \<Rightarrow> hist \<Rightarrow> hist" where
  "rcc_set_prediv1 env v h = reg_field env RCC_CFGR2 RCC_CFGR2_PREDIV1 v h"

definition rcc_set_prediv2 :: "env \<Rightarrow> u32 \<Rightarrow> hist \<Rightarrow> hist" where
  "rcc_set_prediv2 env v h = reg_field env RCC_CFGR2 RCC_CFGR2_PREDIV2 (push_bit 4 v) h"

definition rcc_set_prediv1_source :: "env \<Rightarrow> u32 \<Rightarrow> hist \<Rightarrow> hist" where
  "rcc_set_prediv1_source env v h = 
     (if v \<noteq> 0 then reg_or env RCC_CFGR2 RCC_CFGR2_PREDIV1SRC h
      else reg_andnot env RCC_CFGR2 RCC_CFGR2_PREDIV1SRC h)"

definition rcc_system_clock_source :: "env \<Rightarrow> hist \<Rightarrow> u32 \<times> hist" where
  "rcc_system_clock_source env h = (let (r, h) = mmio_rd env RCC_CFGR h in (drop_bit 2 (r AND RCC_CFGR_SWS), h))"

section \<open>Clock set-up\<close>

definition rcc_clock_setup_in_hsi_out_64mhz :: "env \<Rightarrow> hist \<Rightarrow> (clocks \<times> hist) option" where
  "rcc_clock_setup_in_hsi_out_64mhz env h = do {
     let h = rcc_osc_on env RCC_HSI h;
     h \<leftarrow> rcc_wait_for_osc_ready env RCC_HSI h;
     let h = rcc_set_sysclk_source env RCC_CFGR_SW_SYSCLKSEL_HSICLK h;
     let h = rcc_set_hpre env RCC_CFGR_HPRE_NODIV h;
     let h = rcc_set_adcpre env RCC_CFGR_ADCPRE_DIV8 h;
     let h = rcc_set_ppre1 env RCC_CFGR_PPRE_DIV2 h;
     let h = rcc_set_ppre2 env RCC_CFGR_PPRE_NODIV h;
     let h = flash_set_ws env 2 h;
     let h = rcc_set_pll_multiplication_factor env RCC_CFGR_PLLMUL_PLL_CLK_MUL16 h;
     let h = rcc_set_pll_source env RCC_CFGR_PLLSRC_HSI_CLK_DIV2 h;
     let h = rcc_osc_on env RCC_PLL h;
     h \<leftarrow> rcc_wait_for_osc_ready env RCC_PLL h;
     let h = rcc_set_sysclk_source env RCC_CFGR_SW_SYSCLKSEL_PLLCLK h;
     Some (\<lparr>rcc_apb1_frequency = 32000000, rcc_apb2_frequency = 64000000,
       rcc_ahb_frequency = 64000000\<rparr>, h)
   }"

definition rcc_clock_setup_in_hsi_out_48mhz :: "env \<Rightarrow> hist \<Rightarrow> (clocks \<times> hist) option" where
  "rcc_clock_setup_in_hsi_out_48mhz env h = do {
     let h = rcc_osc_on env RCC_HSI h;
     h \<leftarrow> rcc_wait_for_osc_ready env RCC_HSI h;
     let h = rcc_set_sysclk_source env RCC_CFGR_SW_SYSCLKSEL_HSICLK h;
     let h = rcc_set_hpre env RCC_CFGR_HPRE_NODIV h;
     let h = rcc_set_adcpre env RCC_CFGR_ADCPRE_DIV8 h;
     let h = rcc_set_ppre1 env RCC_CFGR_PPRE_DIV2 h;
     let h = rcc_set_ppre2 env RCC_CFGR_PPRE_NODIV h;
     let h = rcc_set_usbpre env RCC_CFGR_USBPRE_PLL_CLK_NODIV h;
     let h = flash_set_ws env 1 h;
     let h = rcc_set_pll_multiplication_factor env RCC_CFGR_PLLMUL_PLL_CLK_MUL12 h;
     let h = rcc_set_pll_source env RCC_CFGR_PLLSRC_HSI_CLK_DIV2 h;
     let h = rcc_osc_on env RCC_PLL h;
     h \<leftarrow> rcc_wait_for_osc_ready env RCC_PLL h;
     let h = rcc_set_sysclk_source env RCC_CFGR_SW_SYSCLKSEL_PLLCLK h;
     Some (\<lparr>rcc_apb1_frequency = 24000000, rcc_apb2_frequency = 48000000,
       rcc_ahb_frequency = 48000000\<rparr>, h)
   }"

definition rcc_clock_setup_in_hsi_out_24mhz :: "env \<Rightarrow> hist \<Rightarrow> (clocks \<times> hist) option" where
  "rcc_clock_setup_in_hsi_out_24mhz env h = do {
     let h = rcc_osc_on env RCC_HSI h;
     h \<leftarrow> rcc_wait_for_osc_ready env RCC_HSI h;
     let h = rcc_set_sysclk_source env RCC_CFGR_SW_SYSCLKSEL_HSICLK h;
     let h = rcc_set_hpre env RCC_CFGR_HPRE_NODIV h;
     let h = rcc_set_adcpre env RCC_CFGR_ADCPRE_DIV2 h;
     let h = rcc_set_ppre1 env RCC_CFGR_PPRE_NODIV h;
     let h = rcc_set_ppre2 env RCC_CFGR_PPRE_NODIV h;
     let h = flash_set_ws env 0 h;
     let h = rcc_set_pll_multiplication_factor env RCC_CFGR_PLLMUL_PLL_CLK_MUL6 h;
     let h = rcc_set_pll_source env RCC_CFGR_PLLSRC_HSI_CLK_DIV2 h;
     let h = rcc_osc_on env RCC_PLL h;
     h \<leftarrow> rcc_wait_for_osc_ready env RCC_PLL h;
     let h = rcc_set_sysclk_source env RCC_CFGR_SW_SYSCLKSEL_PLLCLK h;
     Some (\<lparr>rcc_apb1_frequency = 24000000, rcc_apb2_frequency = 24000000,
       rcc_ahb_frequency = 24000000\<rparr>, h)
   }"

definition rcc_clock_setup_in_hse_8mhz_out_24mhz :: "env \<Rightarrow> hist \<Rightarrow> (clocks \<times> hist) option" where
  "rcc_clock_setup_in_hse_8mhz_out_24mhz env h = do {
     let h = rcc_osc_on env RCC_HSI h;
     h \<leftarrow> rcc_wait_for_osc_ready env RCC_HSI h;
     let h = rcc_set_sysclk_source env RCC_CFGR_SW_SYSCLKSEL_HSICLK h;
     let h = rcc_osc_on env RCC_HSE h;
     h \<leftarrow> rcc_wait_for_osc_ready env RCC_HSE h;
     let h = rcc_set_sysclk_source env RCC_CFGR_SW_SYSCLKSEL_HSECLK h;
     let h = rcc_set_hpre env RCC_CFGR_HPRE_NODIV h;
     let h = rcc_set_adcpre env RCC_CFGR_ADCPRE_DIV2 h;
     let h = rcc_set_ppre1 env RCC_CFGR_PPRE_NODIV h;
     let h = rcc_set_ppre2 env RCC_CFGR_PPRE_NODIV h;
     let h = flash_set_ws env 0 h;
     let h = rcc_set_pll_multiplication_factor env RCC_CFGR_PLLMUL_PLL_CLK_MUL3 h;
     let h = rcc_set_pll_source env RCC_CFGR_PLLSRC_HSE_CLK h;
     let h = rcc_set_pllxtpre env RCC_CFGR_PLLXTPRE_HSE_CLK h;
     let h = rcc_osc_on env RCC_PLL h;
     h \<leftarrow> rcc_wait_for_osc_ready env RCC_PLL h;
     let h = rcc_set_sysclk_source env RCC_CFGR_SW_SYSCLKSEL_PLLCLK h;
     Some (\<lparr>rcc_apb1_frequency = 24000000, rcc_apb2_frequency = 24000000,
       rcc_ahb_frequency = 24000000\<rparr>, h)
   }"

definition rcc_clock_setup_in_hse_8mhz_out_72mhz :: "env \<Rightarrow> hist \<Rightarrow> (clocks \<times> hist) option" where
  "rcc_clock_setup_in_hse_8mhz_out_72mhz env h = do {
     let h = rcc_osc_on env RCC_HSI h;
     h \<leftarrow> rcc_wait_for_osc_ready env RCC_HSI h;
     let h = rcc_set_sysclk_source env RCC_CFGR_SW_SYSCLKSEL_HSICLK h;
     let h = rcc_osc_on env RCC_HSE h;
     h \<leftarrow> rcc_wait_for_osc_ready env RCC_HSE h;
     let h = rcc_set_sysclk_source env RCC_CFGR_SW_SYSCLKSEL_HSECLK h;
     let h = rcc_set_hpre env RCC_CFGR_HPRE_NODIV h;
     let h = rcc_set_adcpre env RCC_CFGR_ADCPRE_DIV8 h;
     let h = rcc_set_ppre1 env RCC_CFGR_PPRE_DIV2 h;
     let h = rcc_set_ppre2 env RCC_CFGR_PPRE_NODIV h;
     let h = flash_set_ws env 2 h;
     let h = rcc_set_pll_multiplication_factor env RCC_CFGR_PLLMUL_PLL_CLK_MUL9 h;
     let h = rcc_set_pll_source env RCC_CFGR_PLLSRC_HSE_CLK h;
     let h = rcc_set_pllxtpre env RCC_CFGR_PLLXTPRE_HSE_CLK h;
     let h = rcc_osc_on env RCC_PLL h;
     h \<leftarrow> rcc_wait_for_osc_ready env RCC_PLL h;
     let h = rcc_set_sysclk_source env RCC_CFGR_SW_SYSCLKSEL_PLLCLK h;
     Some (\<lparr>rcc_apb1_frequency = 36000000, rcc_apb2_frequency = 72000000,
       rcc_ahb_frequency = 72000000\<rparr>, h)
   }"

definition rcc_clock_setup_in_hse_12mhz_out_72mhz :: "env \<Rightarrow> hist \<Rightarrow> (clocks \<times> hist) option" where
  "rcc_clock_setup_in_hse_12mhz_out_72mhz env h = do {
     let h = rcc_osc_on env RCC_HSI h;
     h \<leftarrow> rcc_wait_for_osc_ready env RCC_HSI h;
     let h = rcc_set_sysclk_source env RCC_CFGR_SW_SYSCLKSEL_HSICLK h;
     let h = rcc_osc_on env RCC_HSE h;
     h \<leftarrow> rcc_wait_for_osc_ready env RCC_HSE h;
     let h = rcc_set_sysclk_source env RCC_CFGR_SW_SYSCLKSEL_HSECLK h;
     let h = rcc_set_hpre env RCC_CFGR_HPRE_NODIV h;
     let h = rcc_set_adcpre env RCC_CFGR_ADCPRE_DIV6 h;
     let h = rcc_set_ppre1 env RCC_CFGR_PPRE_DIV2 h;
     let h = rcc_set_ppre2 env RCC_CFGR_PPRE_NODIV h;
     let h = flash_set_ws env 2 h;
     let h = rcc_set_pll_multiplication_factor env RCC_CFGR_PLLMUL_PLL_CLK_MUL6 h;
     let h = rcc_set_pll_source env RCC_CFGR_PLLSRC_HSE_CLK h;
     let h = rcc_set_pllxtpre env RCC_CFGR_PLLXTPRE_HSE_CLK h;
     let h = rcc_osc_on env RCC_PLL h;
     h \<leftarrow> rcc_wait_for_osc_ready env RCC_PLL h;
     let h = rcc_set_sysclk_source env RCC_CFGR_SW_SYSCLKSEL_PLLCLK h;
     Some (\<lparr>rcc_apb1_frequency = 36000000, rcc_apb2_frequency = 72000000,
       rcc_ahb_frequency = 72000000\<rparr>, h)
   }"

definition rcc_clock_setup_in_hse_16mhz_out_72mhz :: "env \<Rightarrow> hist \<Rightarrow> (clocks \<times> hist) option" where
  "rcc_clock_setup_in_hse_16mhz_out_72mhz env h = do {
     let h = rcc_osc_on env RCC_HSI h;
     h \<leftarrow> rcc_wait_for_osc_ready env RCC_HSI h;
     let h = rcc_set_sysclk_source env RCC_CFGR_SW_SYSCLKSEL_HSICLK h;
     let h = rcc_osc_on env RCC_HSE h;
     h \<leftarrow> rcc_wait_for_osc_ready env RCC_HSE h;
     let h = rcc_set_sysclk_source env RCC_CFGR_SW_SYSCLKSEL_HSECLK h;
     let h = rcc_set_hpre env RCC_CFGR_HPRE_NODIV h;
     let h = rcc_set_adcpre env RCC_CFGR_ADCPRE_DIV6 h;
     let h = rcc_set_ppre1 env RCC_CFGR_PPRE_DIV2 h;
     let h = rcc_set_ppre2 env RCC_CFGR_PPRE_NODIV h;
     let h = flash_set_ws env 2 h;
     let h = rcc_set_pll_multiplication_factor env RCC_CFGR_PLLMUL_PLL_CLK_MUL9 h;
     let h = rcc_set_pll_source env RCC_CFGR_PLLSRC_HSE_CLK h;
     let h = rcc_set_pllxtpre env RCC_CFGR_PLLXTPRE_HSE_CLK_DIV2 h;
     let h = rcc_osc_on env RCC_PLL h;
     h \<leftarrow> rcc_wait_for_osc_ready env RCC_PLL h;
     let h = rcc_set_sysclk_source env RCC_CFGR_SW_SYSCLKSEL_PLLCLK h;
     Some (\<lparr>rcc_apb1_frequency = 36000000, rcc_apb2_frequency = 72000000,
       rcc_ahb_frequency = 72000000\<rparr>, h)
   }"

definition rcc_clock_setup_in_hse_25mhz_out_72mhz :: "env \<Rightarrow> hist \<Rightarrow> (clocks \<times> hist) option" where
  "rcc_clock_setup_in_hse_25mhz_out_72mhz env h = do {
     let h = rcc_osc_on env RCC_HSE h;
     h \<leftarrow> rcc_wait_for_osc_ready env RCC_HSE h;
     let h = rcc_set_sysclk_source env RCC_CFGR_SW_SYSCLKSEL_HSECLK h;
     let h = flash_set_ws env 2 h;
     let h = rcc_set_hpre env RCC_CFGR_HPRE_NODIV h;
     let h = rcc_set_adcpre env RCC_CFGR_ADCPRE_DIV6 h;
     let h = rcc_set_ppre1 env RCC_CFGR_PPRE_DIV2 h;
     let h = rcc_set_ppre2 env RCC_CFGR_PPRE_NODIV h;
     let h = rcc_set_prediv2 env RCC_CFGR2_PREDIV2_DIV5 h;
     let h = rcc_set_pll2_multiplication_factor env RCC_CFGR2_PLL2MUL_PLL2_CLK_MUL8 h;
     let h = rcc_osc_on env RCC_PLL2 h;
     h \<leftarrow> rcc_wait_for_osc_ready env RCC_PLL2 h;
     let h = rcc_set_pllxtpre env RCC_CFGR_PLLXTPRE_HSE_CLK h;
     let h = rcc_set_prediv1_source env RCC_CFGR2_PREDIV1SRC_PLL2_CLK h;
     let h = rcc_set_prediv1 env RCC_CFGR2_PREDIV_DIV5 h;
     let h = rcc_set_pll_multiplication_factor env RCC_CFGR_PLLMUL_PLL_CLK_MUL9 h;
     let h = rcc_set_pll_source env RCC_CFGR_PLLSRC_PREDIV1_CLK h;
     let h = rcc_set_usbpre env RCC_CFGR_USBPRE_PLL_VCO_CLK_DIV3 h;
     let h = rcc_osc_on env RCC_PLL h;
     h \<leftarrow> rcc_wait_for_osc_ready env RCC_PLL h;
     let h = rcc_set_sysclk_source env RCC_CFGR_SW_SYSCLKSEL_PLLCLK h;
     Some (\<lparr>rcc_apb1_frequency = 36000000, rcc_apb2_frequency = 72000000,
       rcc_ahb_frequency = 72000000\<rparr>, h)
   }"

definition rcc_clock_setup_pll :: "env \<Rightarrow> rcc_clock_scale \<Rightarrow> hist \<Rightarrow> (clocks \<times> hist) option" where
  "rcc_clock_setup_pll env clock h = do {
     h \<leftarrow> (if pll_source clock = RCC_CFGR_PLLSRC_HSE_CLK
          then rcc_wait_for_osc_ready env RCC_HSE (rcc_osc_on env RCC_HSE h)
          else rcc_wait_for_osc_ready env RCC_HSI (rcc_osc_on env RCC_HSI h));
     let h = rcc_set_hpre env (ucast (hpre clock)) h;
     let h = rcc_set_ppre1 env (ucast (ppre1 clock)) h;
     let h = rcc_set_ppre2 env (ucast (ppre2 clock)) h;
     let h = rcc_set_adcpre env (ucast (adcpre clock)) h;
     let h = rcc_set_usbpre env (ucast (usbpre clock)) h;
     let h = flash_set_ws env (ucast (flash_waitstates clock)) h;
     let h = rcc_set_pll_multiplication_factor env (ucast (pll_mul clock)) h;
     let h = rcc_set_pll_source env (ucast (pll_source clock)) h;
     let h = (if prediv1 clock > RCC_CFGR2_PREDIV_DIV2 then rcc_set_prediv1 env (ucast (prediv1 clock)) h
              else rcc_set_pllxtpre env (ucast (prediv1 clock)) h);
     let h = (if prediv1_source clock \<noteq> 0
              then rcc_set_prediv1_source env (ucast (prediv1_source clock)) h else h);
     let h = (if prediv2 clock \<noteq> 0 then rcc_set_prediv2 env (ucast (prediv2 clock)) h else h);
     h \<leftarrow> (if pll2_mul clock \<noteq> 0
          then rcc_wait_for_osc_ready env RCC_PLL2 (rcc_osc_on env RCC_PLL2
                 (rcc_set_pll2_multiplication_factor env (ucast (pll2_mul clock)) h))
          else Some h);
     h \<leftarrow> (if pll3_mul clock \<noteq> 0
          then rcc_wait_for_osc_ready env RCC_PLL3 (rcc_osc_on env RCC_PLL3
                 (rcc_set_pll3_multiplication_factor env (ucast (pll3_mul clock)) h))
          else Some h);
     let h = rcc_osc_on env RCC_PLL h;
     h \<leftarrow> rcc_wait_for_osc_ready env RCC_PLL h;
     let h = rcc_set_sysclk_source env RCC_CFGR_SW_SYSCLKSEL_PLLCLK h;
     Some (\<lparr>rcc_apb1_frequency = apb1_frequency clock, rcc_apb2_frequency = apb2_frequency clock,
       rcc_ahb_frequency = ahb_frequency clock\<rparr>, h)
   }"

definition rcc_backupdomain_reset :: "env \<Rightarrow> hist \<Rightarrow> hist" where
  "rcc_backupdomain_reset env h =
     reg_andnot env RCC_BDCR RCC_BDCR_BDRST (reg_or env RCC_BDCR RCC_BDCR_BDRST h)"

abbreviation (input) USART1_BASE :: u32 where "USART1_BASE \<equiv> 0x40013800"
abbreviation (input) TIM2_BASE :: u32 where "TIM2_BASE \<equiv> 0x40000000"
abbreviation (input) TIM14_BASE :: u32 where "TIM14_BASE \<equiv> 0x40002000"

definition rcc_get_usart_clk_freq :: "clocks \<Rightarrow> u32 \<Rightarrow> u32" where
  "rcc_get_usart_clk_freq clk usart =
     (if usart = USART1_BASE then rcc_apb2_frequency clk else rcc_apb1_frequency clk)"

definition rcc_get_timer_clk_freq :: "env \<Rightarrow> clocks \<Rightarrow> u32 \<Rightarrow> hist \<Rightarrow> u32 \<times> hist" where
  "rcc_get_timer_clk_freq env clk timer h =
     (if timer \<ge> TIM2_BASE \<and> timer \<le> TIM14_BASE then
        let (r, h) = mmio_rd env RCC_CFGR h; ppre1 = (ucast (drop_bit 8 r AND 7) :: u8)
        in (if ppre1 = 0 then rcc_apb1_frequency clk else 2 * rcc_apb1_frequency clk, h)
      else
        let (r, h) = mmio_rd env RCC_CFGR h; ppre2 = (ucast (drop_bit 11 r AND 7) :: u8)
        in (if ppre2 = 0 then rcc_apb2_frequency clk else 2 * rcc_apb2_frequency clk, h))"

definition rcc_get_i2c_clk_freq :: "clocks \<Rightarrow> u32 \<Rightarrow> u32" where
  "rcc_get_i2c_clk_freq clk i2c = rcc_apb1_frequency clk"

section \<open>Operations common to all STM32 families\<close>

definition rcc_peripheral_enable_clock :: "env \<Rightarrow> u32 \<Rightarrow> u32 \<Rightarrow> hist \<Rightarrow> hist" where
  "rcc_peripheral_enable_clock env reg en h = reg_or env reg en h"

definition rcc_peripheral_disable_clock :: "env \<Rightarrow> u32 \<Rightarrow> u32 \<Rightarrow> hist \<Rightarrow> hist" where
  "rcc_peripheral_disable_clock env reg en h = reg_andnot env reg en h"

definition rcc_peripheral_reset :: "env \<Rightarrow> u32 \<Rightarrow> u32 \<Rightarrow> hist \<Rightarrow> hist" where
  "rcc_peripheral_reset env reg reset h = reg_or env reg reset h"

definition rcc_peripheral_clear_reset :: "env \<Rightarrow> u32 \<Rightarrow> u32 \<Rightarrow> hist \<Rightarrow> hist" where
  "rcc_peripheral_clear_reset env reg clear_reset h = reg_andnot env reg clear_reset h"

text \<open>\<^verbatim>\<open>_RCC_REG(i)\<close> and \<^verbatim>\<open>_RCC_BIT(i)\<close>: a peripheral is the register offset times 32 plus the bit.\<close>

definition rcc_reg :: "u32 \<Rightarrow> u32" where
  "rcc_reg i = RCC_BASE + drop_bit 5 i"

definition rcc_bit :: "u32 \<Rightarrow> u32" where
  "rcc_bit i = push_bit (unat (i AND 0x1F)) 1"

definition reg_bit :: "u32 \<Rightarrow> u32 \<Rightarrow> u32" where
  "reg_bit base b = push_bit 5 base + b"

definition RCC_GPIOA :: u32 where "RCC_GPIOA = reg_bit 0x18 2"
definition RCC_USART1 :: u32 where "RCC_USART1 = reg_bit 0x18 14"
definition RCC_USART2 :: u32 where "RCC_USART2 = reg_bit 0x1C 17"

definition rcc_periph_clock_enable :: "env \<Rightarrow> u32 \<Rightarrow> hist \<Rightarrow> hist" where
  "rcc_periph_clock_enable env clken h = reg_or env (rcc_reg clken) (rcc_bit clken) h"

definition rcc_periph_clock_disable :: "env \<Rightarrow> u32 \<Rightarrow> hist \<Rightarrow> hist" where
  "rcc_periph_clock_disable env clken h = reg_andnot env (rcc_reg clken) (rcc_bit clken) h"

definition rcc_periph_reset_pulse :: "env \<Rightarrow> u32 \<Rightarrow> hist \<Rightarrow> hist" where
  "rcc_periph_reset_pulse env rst h =
     reg_andnot env (rcc_reg rst) (rcc_bit rst) (reg_or env (rcc_reg rst) (rcc_bit rst) h)"

definition rcc_periph_reset_hold :: "env \<Rightarrow> u32 \<Rightarrow> hist \<Rightarrow> hist" where
  "rcc_periph_reset_hold env rst h = reg_or env (rcc_reg rst) (rcc_bit rst) h"

definition rcc_periph_reset_release :: "env \<Rightarrow> u32 \<Rightarrow> hist \<Rightarrow> hist" where
  "rcc_periph_reset_release env rst h = reg_andnot env (rcc_reg rst) (rcc_bit rst) h"

definition rcc_set_mco :: "env \<Rightarrow> u32 \<Rightarrow> hist \<Rightarrow> hist" where
  "rcc_set_mco env mcosrc h = reg_field env RCC_CFGR (push_bit 24 0xF) (push_bit 24 mcosrc) h"

fun rcc_osc_bypass_enable :: "env \<Rightarrow> rcc_osc \<Rightarrow> hist \<Rightarrow> hist" where
  "rcc_osc_bypass_enable env RCC_HSE h = reg_or env RCC_CR RCC_CR_HSEBYP h"
| "rcc_osc_bypass_enable env RCC_LSE h = reg_or env RCC_BDCR RCC_BDCR_LSEBYP h"
| "rcc_osc_bypass_enable env _ h = h"

fun rcc_osc_bypass_disable :: "env \<Rightarrow> rcc_osc \<Rightarrow> hist \<Rightarrow> hist" where
  "rcc_osc_bypass_disable env RCC_HSE h = reg_andnot env RCC_CR RCC_CR_HSEBYP h"
| "rcc_osc_bypass_disable env RCC_LSE h = reg_andnot env RCC_BDCR RCC_BDCR_LSEBYP h"
| "rcc_osc_bypass_disable env _ h = h"

definition rcc_get_div_from_hpre :: "u8 \<Rightarrow> u16" where
  "rcc_get_div_from_hpre div_val =
     (if div_val < 8 then 1
      else if div_val \<le> 0x0B then push_bit (unat (div_val - 7)) 1
      else push_bit (unat (div_val - 6)) 1)"

end
