(* ===== verification/Usart.thy ===== *)
theory Usart
  imports Rcc
begin

text \<open>
  Serial ports: \<^verbatim>\<open>libopencm3/lib/stm32/common/usart_common_all.c\<close> and
  \<^verbatim>\<open>usart_common_f124.c\<close>, the driver both UART users of the firmware (the logger and the WiFi
  module) go through. The interface \<open>usart_tx\<close> is what its clients rely on: a port whose
  transmit buffer becomes empty again, on which sending a character ends and appends exactly that
  character to the output.
\<close>

section \<open>Registers\<close>

abbreviation (input) USART1 :: u32 where "USART1 \<equiv> 0x40013800"
abbreviation (input) USART2 :: u32 where "USART2 \<equiv> 0x40004400"
abbreviation (input) USART3 :: u32 where "USART3 \<equiv> 0x40004800"

abbreviation (input) USART_SR :: "u32 \<Rightarrow> u32" where "USART_SR u \<equiv> u + 0x00"
abbreviation (input) USART_DR :: "u32 \<Rightarrow> u32" where "USART_DR u \<equiv> u + 0x04"
abbreviation (input) USART_BRR :: "u32 \<Rightarrow> u32" where "USART_BRR u \<equiv> u + 0x08"
abbreviation (input) USART_CR1 :: "u32 \<Rightarrow> u32" where "USART_CR1 u \<equiv> u + 0x0C"
abbreviation (input) USART_CR2 :: "u32 \<Rightarrow> u32" where "USART_CR2 u \<equiv> u + 0x10"
abbreviation (input) USART_CR3 :: "u32 \<Rightarrow> u32" where "USART_CR3 u \<equiv> u + 0x14"

abbreviation (input) USART_SR_TXE :: u32 where "USART_SR_TXE \<equiv> 0x80"
abbreviation (input) USART_SR_RXNE :: u32 where "USART_SR_RXNE \<equiv> 0x20"
abbreviation (input) USART_DR_MASK :: "'a::len word" where "USART_DR_MASK \<equiv> 0x1FF"
abbreviation (input) USART_CR1_UE :: u32 where "USART_CR1_UE \<equiv> 0x2000"
abbreviation (input) USART_CR1_M :: u32 where "USART_CR1_M \<equiv> 0x1000"
abbreviation (input) USART_CR1_PCE :: u32 where "USART_CR1_PCE \<equiv> 0x400"
abbreviation (input) USART_CR1_PS :: u32 where "USART_CR1_PS \<equiv> 0x200"
abbreviation (input) USART_CR1_TXEIE :: u32 where "USART_CR1_TXEIE \<equiv> 0x80"
abbreviation (input) USART_CR1_TCIE :: u32 where "USART_CR1_TCIE \<equiv> 0x40"
abbreviation (input) USART_CR1_RXNEIE :: u32 where "USART_CR1_RXNEIE \<equiv> 0x20"
abbreviation (input) USART_CR1_IDLEIE :: u32 where "USART_CR1_IDLEIE \<equiv> 0x10"
abbreviation (input) USART_CR1_TE :: u32 where "USART_CR1_TE \<equiv> 0x08"
abbreviation (input) USART_CR1_RE :: u32 where "USART_CR1_RE \<equiv> 0x04"
abbreviation (input) USART_CR3_CTSE :: u32 where "USART_CR3_CTSE \<equiv> 0x200"
abbreviation (input) USART_CR3_RTSE :: u32 where "USART_CR3_RTSE \<equiv> 0x100"
abbreviation (input) USART_CR3_DMAT :: u32 where "USART_CR3_DMAT \<equiv> 0x80"
abbreviation (input) USART_CR3_DMAR :: u32 where "USART_CR3_DMAR \<equiv> 0x40"
abbreviation (input) USART_CR3_EIE :: u32 where "USART_CR3_EIE \<equiv> 0x01"
abbreviation (input) USART_CR2_STOPBITS_MASK :: u32 where "USART_CR2_STOPBITS_MASK \<equiv> 0x3000"
abbreviation (input) USART_STOPBITS_1 :: u32 where "USART_STOPBITS_1 \<equiv> 0"
abbreviation (input) USART_PARITY_NONE :: u32 where "USART_PARITY_NONE \<equiv> 0"
abbreviation (input) USART_PARITY_MASK :: u32 where "USART_PARITY_MASK \<equiv> 0x600"
abbreviation (input) USART_MODE_TX_RX :: u32 where "USART_MODE_TX_RX \<equiv> 0x0C"
abbreviation (input) USART_MODE_MASK :: u32 where "USART_MODE_MASK \<equiv> 0x0C"
abbreviation (input) USART_FLOWCONTROL_NONE :: u32 where "USART_FLOWCONTROL_NONE \<equiv> 0"
abbreviation (input) USART_FLOWCONTROL_MASK :: u32 where "USART_FLOWCONTROL_MASK \<equiv> 0x300"

section \<open>Configuration\<close>

definition usart_set_baudrate :: "clocks \<Rightarrow> u32 \<Rightarrow> u32 \<Rightarrow> hist \<Rightarrow> hist" where
  "usart_set_baudrate clk usart baud h =
     (let clock = rcc_get_usart_clk_freq clk usart
      in mmio_wr (USART_BRR usart) ((clock + baud div 2) div baud) h)"

definition usart_set_databits :: "env \<Rightarrow> u32 \<Rightarrow> u32 \<Rightarrow> hist \<Rightarrow> hist" where
  "usart_set_databits env usart bits h =
     (if bits = 8 then reg_andnot env (USART_CR1 usart) USART_CR1_M h
      else reg_or env (USART_CR1 usart) USART_CR1_M h)"

definition usart_get_databits :: "env \<Rightarrow> u32 \<Rightarrow> hist \<Rightarrow> u32 \<times> hist" where
  "usart_get_databits env usart h =
     (let (r, h) = mmio_rd env (USART_CR1 usart) h
      in (if r AND USART_CR1_M \<noteq> 0 then 9 else 8, h))"

definition usart_set_stopbits :: "env \<Rightarrow> u32 \<Rightarrow> u32 \<Rightarrow> hist \<Rightarrow> hist" where
  "usart_set_stopbits env usart stopbits h =
     reg_field env (USART_CR2 usart) USART_CR2_STOPBITS_MASK stopbits h"

definition usart_get_stopbits :: "env \<Rightarrow> u32 \<Rightarrow> hist \<Rightarrow> u32 \<times> hist" where
  "usart_get_stopbits env usart h =
     (let (r, h) = mmio_rd env (USART_CR2 usart) h in (r AND USART_CR2_STOPBITS_MASK, h))"

definition usart_set_parity :: "env \<Rightarrow> u32 \<Rightarrow> u32 \<Rightarrow> hist \<Rightarrow> hist" where
  "usart_set_parity env usart parity h =
     reg_field env (USART_CR1 usart) USART_PARITY_MASK parity h"

definition usart_get_parity :: "env \<Rightarrow> u32 \<Rightarrow> hist \<Rightarrow> u32 \<times> hist" where
  "usart_get_parity env usart h =
     (let (r, h) = mmio_rd env (USART_CR1 usart) h in (r AND USART_PARITY_MASK, h))"

definition usart_set_mode :: "env \<Rightarrow> u32 \<Rightarrow> u32 \<Rightarrow> hist \<Rightarrow> hist" where
  "usart_set_mode env usart mode h = reg_field env (USART_CR1 usart) USART_MODE_MASK mode h"

definition usart_set_flow_control :: "env \<Rightarrow> u32 \<Rightarrow> u32 \<Rightarrow> hist \<Rightarrow> hist" where
  "usart_set_flow_control env usart flowcontrol h =
     reg_field env (USART_CR3 usart) USART_FLOWCONTROL_MASK flowcontrol h"

definition usart_enable :: "env \<Rightarrow> u32 \<Rightarrow> hist \<Rightarrow> hist" where
  "usart_enable env usart h = reg_or env (USART_CR1 usart) USART_CR1_UE h"

definition usart_disable :: "env \<Rightarrow> u32 \<Rightarrow> hist \<Rightarrow> hist" where
  "usart_disable env usart h = reg_andnot env (USART_CR1 usart) USART_CR1_UE h"

definition usart_enable_rx_dma :: "env \<Rightarrow> u32 \<Rightarrow> hist \<Rightarrow> hist" where
  "usart_enable_rx_dma env usart h = reg_or env (USART_CR3 usart) USART_CR3_DMAR h"

definition usart_disable_rx_dma :: "env \<Rightarrow> u32 \<Rightarrow> hist \<Rightarrow> hist" where
  "usart_disable_rx_dma env usart h = reg_andnot env (USART_CR3 usart) USART_CR3_DMAR h"

definition usart_enable_tx_dma :: "env \<Rightarrow> u32 \<Rightarrow> hist \<Rightarrow> hist" where
  "usart_enable_tx_dma env usart h = reg_or env (USART_CR3 usart) USART_CR3_DMAT h"

definition usart_disable_tx_dma :: "env \<Rightarrow> u32 \<Rightarrow> hist \<Rightarrow> hist" where
  "usart_disable_tx_dma env usart h = reg_andnot env (USART_CR3 usart) USART_CR3_DMAT h"

definition usart_enable_rx_interrupt :: "env \<Rightarrow> u32 \<Rightarrow> hist \<Rightarrow> hist" where
  "usart_enable_rx_interrupt env usart h = reg_or env (USART_CR1 usart) USART_CR1_RXNEIE h"

definition usart_disable_rx_interrupt :: "env \<Rightarrow> u32 \<Rightarrow> hist \<Rightarrow> hist" where
  "usart_disable_rx_interrupt env usart h = reg_andnot env (USART_CR1 usart) USART_CR1_RXNEIE h"

definition usart_enable_tx_interrupt :: "env \<Rightarrow> u32 \<Rightarrow> hist \<Rightarrow> hist" where
  "usart_enable_tx_interrupt env usart h = reg_or env (USART_CR1 usart) USART_CR1_TXEIE h"

definition usart_disable_tx_interrupt :: "env \<Rightarrow> u32 \<Rightarrow> hist \<Rightarrow> hist" where
  "usart_disable_tx_interrupt env usart h = reg_andnot env (USART_CR1 usart) USART_CR1_TXEIE h"

definition usart_enable_tx_complete_interrupt :: "env \<Rightarrow> u32 \<Rightarrow> hist \<Rightarrow> hist" where
  "usart_enable_tx_complete_interrupt env usart h = reg_or env (USART_CR1 usart) USART_CR1_TCIE h"

definition usart_disable_tx_complete_interrupt :: "env \<Rightarrow> u32 \<Rightarrow> hist \<Rightarrow> hist" where
  "usart_disable_tx_complete_interrupt env usart h =
     reg_andnot env (USART_CR1 usart) USART_CR1_TCIE h"

definition usart_enable_idle_interrupt :: "env \<Rightarrow> u32 \<Rightarrow> hist \<Rightarrow> hist" where
  "usart_enable_idle_interrupt env usart h = reg_or env (USART_CR1 usart) USART_CR1_IDLEIE h"

definition usart_disable_idle_interrupt :: "env \<Rightarrow> u32 \<Rightarrow> hist \<Rightarrow> hist" where
  "usart_disable_idle_interrupt env usart h = reg_andnot env (USART_CR1 usart) USART_CR1_IDLEIE h"

definition usart_enable_error_interrupt :: "env \<Rightarrow> u32 \<Rightarrow> hist \<Rightarrow> hist" where
  "usart_enable_error_interrupt env usart h = reg_or env (USART_CR3 usart) USART_CR3_EIE h"

definition usart_disable_error_interrupt :: "env \<Rightarrow> u32 \<Rightarrow> hist \<Rightarrow> hist" where
  "usart_disable_error_interrupt env usart h = reg_andnot env (USART_CR3 usart) USART_CR3_EIE h"

section \<open>Data transfer\<close>

definition usart_send :: "u32 \<Rightarrow> u16 \<Rightarrow> hist \<Rightarrow> hist" where
  "usart_send usart data h = mmio_wr (USART_DR usart) (ucast (data AND USART_DR_MASK)) h"

definition usart_recv :: "env \<Rightarrow> u32 \<Rightarrow> hist \<Rightarrow> u16 \<times> hist" where
  "usart_recv env usart h =
     (let (r, h) = mmio_rd env (USART_DR usart) h in (ucast (r AND USART_DR_MASK), h))"

definition usart_get_flag :: "env \<Rightarrow> u32 \<Rightarrow> u32 \<Rightarrow> hist \<Rightarrow> bool \<times> hist" where
  "usart_get_flag env usart flag h =
     (let (r, h) = mmio_rd env (USART_SR usart) h in (r AND flag \<noteq> 0, h))"

definition usart_wait_send_ready :: "env \<Rightarrow> u32 \<Rightarrow> hist \<Rightarrow> hist option" where
  "usart_wait_send_ready env usart h = spin (reg_flag env (USART_SR usart) USART_SR_TXE) h"

definition usart_wait_recv_ready :: "env \<Rightarrow> u32 \<Rightarrow> hist \<Rightarrow> hist option" where
  "usart_wait_recv_ready env usart h = spin (reg_flag env (USART_SR usart) USART_SR_RXNE) h"

definition usart_send_blocking :: "env \<Rightarrow> u32 \<Rightarrow> u16 \<Rightarrow> hist \<Rightarrow> hist option" where
  "usart_send_blocking env usart data h = do {
     h \<leftarrow> usart_wait_send_ready env usart h;
     Some (usart_send usart data h)
   }"

definition usart_recv_blocking :: "env \<Rightarrow> u32 \<Rightarrow> hist \<Rightarrow> (u16 \<times> hist) option" where
  "usart_recv_blocking env usart h = do {
     h \<leftarrow> usart_wait_recv_ready env usart h;
     Some (usart_recv env usart h)
   }"

section \<open>The transmitter as its clients see it\<close>

locale usart_tx =
  fixes env :: env and usart :: u32
  assumes tx_ready: "spin_ends (reg_flag env (USART_SR usart) USART_SR_TXE) h"

section \<open>Lemmas\<close>

lemma reg_flag_snd [simp]: "wr_log (snd (reg_flag env a b h)) = wr_log h"
  by (simp add: reg_flag_def mmio_defs)

lemma wait_send_ready_extends:
  "usart_wait_send_ready env u h = Some h' \<Longrightarrow> extends [] h h'"
  unfolding usart_wait_send_ready_def
  by (rule spin_extends) (simp_all add: reg_flag_def mmio_defs extends_Rd)

lemmas wait_send_ready_wr_log = wait_send_ready_extends [THEN extends_wr_log, simplified]

lemma send_blocking_Some:
  assumes "usart_send_blocking env u d h = Some h'"
  shows "extends [Wr32 (USART_DR u) (ucast (d AND USART_DR_MASK))] h h'"
  using assms wait_send_ready_extends
  by (auto simp: usart_send_blocking_def usart_send_def mmio_defs bind_eq_Some_conv intro: extends_Wr)

text \<open>The low nine bits of a 16-bit word that holds a character are the character.\<close>

lemma dr_of_char: "unat (ucast (ucast (byte_of_char c) AND 0x1FF :: u16) :: u32) = of_char c"
proof -
  have "(ucast (byte_of_char c) AND 0x1FF :: u16) = ucast (byte_of_char c)"
  proof (rule bit_word_eqI)
    fix n
    have "bit (byte_of_char c) n \<Longrightarrow> n < 8" using bit_imp_le_length [of "byte_of_char c" n] by simp
    moreover have "bit (0x1FF :: int) n \<longleftrightarrow> n < 9"
      using bit_mask_iff [of 9 n, where ?'a = int] by (simp add: mask_eq_exp_minus_1)
    ultimately show "n < LENGTH(16) \<Longrightarrow>
        bit (ucast (byte_of_char c) AND 0x1FF :: u16) n = bit (ucast (byte_of_char c) :: u16) n"
      by (auto simp: bit_simps)
  qed
  moreover have "of_char c < (256 :: nat)" by simp
  ultimately show ?thesis
    by (simp add: byte_of_char_def unat_of_nat)
qed

lemma uart_out_char [simp]:
  "uart_out u (Wr32 (USART_DR u) (ucast (ucast (byte_of_char c) AND USART_DR_MASK :: u16)) # h) =
   uart_out u h @ [c]"
  using dr_of_char [of c] by (simp del: unat_ucast_up)

text \<open>\<open>sent u s h h'\<close>: the writes from \<open>h\<close> to \<open>h'\<close> are those of sending \<open>s\<close> on port \<open>u\<close>.\<close>

definition tx_event :: "u32 \<Rightarrow> char \<Rightarrow> bus_event" where
  "tx_event u c = Wr32 (USART_DR u) (ucast (ucast (byte_of_char c) AND USART_DR_MASK :: u16))"

definition sent :: "u32 \<Rightarrow> char list \<Rightarrow> hist \<Rightarrow> hist \<Rightarrow> bool" where
  "sent u s h h' \<longleftrightarrow> extends (rev (map (tx_event u) s)) h h'"

lemma sent_Nil [simp]: "sent u [] h h"
  by (simp add: sent_def)

lemma sent_append: "sent u s h h' \<Longrightarrow> sent u t h' h'' \<Longrightarrow> sent u (s @ t) h h''"
  using extends_trans [of "rev (map (tx_event u) s)" h h'] by (simp add: sent_def)

lemma uart_out_tx_event [simp]:
  "uart_out u (tx_event u c # h) = uart_out u h @ [c]"
  "u' \<noteq> u \<Longrightarrow> uart_out u' (tx_event u c # h) = uart_out u' h"
  by (simp_all only: tx_event_def uart_out_char) simp

lemma uart_out_tx_events: "uart_out u (rev (map (tx_event u) s) @ h) = uart_out u h @ s"
  by (induction s rule: rev_induct) simp_all

lemma uart_out_tx_events_other: "u' \<noteq> u \<Longrightarrow> uart_out u' (rev (map (tx_event u) s) @ h) = uart_out u' h"
  by (induction s rule: rev_induct) simp_all

lemma sent_uart_out: "sent u s h h' \<Longrightarrow> uart_out u h' = uart_out u h @ s"
  using uart_out_tx_events [of u s "wr_log h"] uart_out_wr_log [of u] by (metis sent_def extends_wr_log)

lemma sent_uart_out_other: "sent u s h h' \<Longrightarrow> u' \<noteq> u \<Longrightarrow> uart_out u' h' = uart_out u' h"
  using uart_out_tx_events_other [of u' u s "wr_log h"] uart_out_wr_log [of u'] by (metis sent_def extends_wr_log)

context usart_tx
begin

lemma send_ends:
  "\<exists>h'. usart_send_blocking env usart d h = Some h' \<and>
     extends [Wr32 (USART_DR usart) (ucast (d AND USART_DR_MASK))] h h'"
proof -
  obtain h1 where "usart_wait_send_ready env usart h = Some h1"
    unfolding usart_wait_send_ready_def using spin_ends_Some [OF tx_ready] by blast
  then obtain h' where "usart_send_blocking env usart d h = Some h'"
    by (simp add: usart_send_blocking_def)
  with send_blocking_Some show ?thesis by blast
qed

lemma send_char_sent:
  "\<exists>h'. usart_send_blocking env usart (ucast (byte_of_char c)) h = Some h' \<and> sent usart [c] h h'"
  using send_ends by (simp add: sent_def tx_event_def)

text \<open>Sending a character is the append of that character, and no other write.\<close>

lemma send_char:
  "\<exists>h'. usart_send_blocking env usart (ucast (byte_of_char c)) h = Some h' \<and>
     uart_out usart h' = uart_out usart h @ [c]"
  using send_char_sent sent_uart_out by blast

end

section \<open>Properties\<close>

text \<open>
  Whatever the hardware does, when \<open>usart_send_blocking\<close> returns it has made exactly one
  write, of the low nine bits of the data to the data register, and the access just before it was
  a read of the status register that showed the transmit buffer empty.
\<close>

theorem usart_send_blocking_after_txe:
  assumes "usart_send_blocking env u d h = Some h'"
  shows "\<exists>t sr. h' = Wr32 (USART_DR u) (ucast (d AND USART_DR_MASK)) # Rd32 (USART_SR u) sr # t
     \<and> sr AND USART_SR_TXE \<noteq> 0 \<and> wr_log t = wr_log h"
proof -
  obtain h1 where h1: "usart_wait_send_ready env u h = Some h1" and h': "h' = usart_send u d h1"
    using assms by (auto simp: usart_send_blocking_def bind_eq_Some_conv)
  obtain t where t: "reg_flag env (USART_SR u) USART_SR_TXE t = (True, h1)"
    using h1 unfolding usart_wait_send_ready_def by (auto dest: spin_exit)
  then have "h1 = Rd32 (USART_SR u) (env t (USART_SR u)) # t" "env t (USART_SR u) AND USART_SR_TXE \<noteq> 0"
    by (simp_all add: reg_flag_def mmio_defs)
  with wait_send_ready_wr_log [OF h1] h' show ?thesis
    by (auto simp: usart_send_def mmio_defs)
qed

theorem usart_send_blocking_after_txe_witness:
  "\<exists>h' t sr. usart_send_blocking (\<lambda>_ _. 0xC0) USART1 0x141 [] = Some h'
     \<and> h' = Wr32 (USART_DR USART1) 0x141 # Rd32 (USART_SR USART1) sr # t \<and> sr AND USART_SR_TXE \<noteq> 0"
proof -
  have "usart_send_blocking (\<lambda>_ _. 0xC0) USART1 0x141 []
      = Some [Wr32 (USART_DR USART1) 0x141, Rd32 (USART_SR USART1) 0xC0]"
    by (simp add: usart_send_blocking_def usart_wait_send_ready_def spin.simps [of "reg_flag _ _ _"]
        reg_flag_def mmio_defs usart_send_def)
  from usart_send_blocking_after_txe [OF this] show ?thesis
    using \<open>usart_send_blocking _ _ _ _ = _\<close> by simp
qed

text \<open>
  The divisor that \<open>usart_set_baudrate\<close> programs is the rounded one: provided the peripheral
  clock plus half the baud rate does not pass \<^verbatim>\<open>UINT32_MAX\<close>, the single write goes to the
  baud-rate register and the clock differs from divisor times baud rate by at most half a baud.
\<close>

theorem usart_set_baudrate_rounds:
  assumes "0 < baud" "unat (rcc_get_usart_clk_freq clk u) + unat baud div 2 < 2 ^ 32"
  shows "\<exists>brr. usart_set_baudrate clk u baud h = Wr32 (USART_BRR u) brr # h
     \<and> 2 * \<bar>int (unat (rcc_get_usart_clk_freq clk u)) - int (unat brr) * int (unat baud)\<bar>
        \<le> int (unat baud)"
proof -
  define c where "c = unat (rcc_get_usart_clk_freq clk u)"
  define b where "b = unat baud"
  let ?brr = "(rcc_get_usart_clk_freq clk u + baud div 2) div baud"
  have b: "0 < b" using assms(1) by (simp add: b_def word_greater_zero_iff unat_gt_0)
  have brr: "unat ?brr = (c + b div 2) div b"
    using assms(2) by (simp add: c_def b_def unat_div unat_word_ariths)
  define q r where "q = (c + b div 2) div b" and "r = (c + b div 2) mod b"
  have "c + b div 2 = q * b + r" "r < b" using b by (simp_all add: q_def r_def)
  then have "int c + int (b div 2) = int q * int b + int r"
    by (metis of_nat_add of_nat_mult)
  moreover have "int r < int b" using \<open>r < b\<close> by simp
  moreover have "2 * int (b div 2) \<le> int b" "int b \<le> 2 * int (b div 2) + 1" by linarith+
  ultimately have "2 * \<bar>int c - int q * int b\<bar> \<le> int b"
    by (simp add: abs_le_iff abs_if)
  then have "2 * \<bar>int c - int (unat ?brr) * int b\<bar> \<le> int b"
    by (simp only: brr q_def)
  then show ?thesis
    unfolding usart_set_baudrate_def mmio_defs Let_def c_def b_def by blast
qed

theorem usart_set_baudrate_rounds_witness:
  "0 < (115200 :: u32) \<and> unat (rcc_get_usart_clk_freq clocks_reset USART2) + unat (115200 :: u32) div 2 < 2 ^ 32
   \<and> (\<exists>brr. usart_set_baudrate clocks_reset USART2 115200 [] = [Wr32 (USART_BRR USART2) brr]
     \<and> 2 * \<bar>8000000 - int (unat brr) * 115200\<bar> \<le> 115200)"
  using usart_set_baudrate_rounds [of 115200 clocks_reset USART2 "[]"]
  by (simp add: clocks_reset_def rcc_get_usart_clk_freq_def)

end
