(* ===== verification/Sim.thy ===== *)
theory Sim
  imports Usart
begin

text \<open>
  An executable reference model of the microcontroller behind the registers: the flash program and
  erase controller with its key, mode and lock logic and the array, the oscillators with their
  ready flags, two serial ports with scripted input, and plain storage for every other register.
  The drivers are stated for an arbitrary \<open>env\<close>; this one shows that the interfaces they rely on
  can be met, and it is the device on which the whole firmware is run.
\<close>

section \<open>Flash controller\<close>

record fpec_state =
  fs_cr :: u32
  fs_key :: bool
  fs_ar :: u32
  fs_mem :: "u32 \<Rightarrow> u16"

definition fpec_reset :: fpec_state where
  "fpec_reset = \<lparr>fs_cr = FLASH_CR_LOCK, fs_key = False, fs_ar = 0, fs_mem = (\<lambda>_. 0xFFFF)\<rparr>"

definition fpec_cr :: "u32 \<Rightarrow> fpec_state \<Rightarrow> fpec_state" where
  "fpec_cr v s =
     (if fs_cr s AND FLASH_CR_LOCK \<noteq> 0 then s
      else let s = (if v AND FLASH_CR_STRT = 0 then s
                    else if v AND FLASH_CR_PER \<noteq> 0 then s\<lparr>fs_mem := page_erased (fs_ar s) (fs_mem s)\<rparr>
                    else if v AND FLASH_CR_MER \<noteq> 0 then s\<lparr>fs_mem := (\<lambda>_. 0xFFFF)\<rparr>
                    else s)
           in s\<lparr>fs_cr := v AND NOT FLASH_CR_STRT\<rparr>)"

fun fpec_step :: "bus_event \<Rightarrow> fpec_state \<Rightarrow> fpec_state" where
  "fpec_step (Wr32 a v) s =
     (if a = FLASH_KEYR then
        if v = FLASH_KEYR_KEY1 then s\<lparr>fs_key := True\<rparr>
        else if v = FLASH_KEYR_KEY2 \<and> fs_key s
          then s\<lparr>fs_cr := fs_cr s AND NOT FLASH_CR_LOCK, fs_key := False\<rparr>
        else s\<lparr>fs_key := False\<rparr>
      else if a = FLASH_CR then fpec_cr v s
      else if a = FLASH_AR then s\<lparr>fs_ar := v\<rparr>
      else s)"
| "fpec_step (Wr16 a d) s =
     (if fs_cr s AND FLASH_CR_LOCK = 0 \<and> fs_cr s AND FLASH_CR_PG \<noteq> 0 \<and> fs_mem s a = 0xFFFF
      then s\<lparr>fs_mem := (fs_mem s)(a := d)\<rparr> else s)"
| "fpec_step _ s = s"

definition fpec_of :: "hist \<Rightarrow> fpec_state" where
  "fpec_of h = foldr fpec_step h fpec_reset"

definition flash_mem :: "hist \<Rightarrow> u32 \<Rightarrow> u16" where
  "flash_mem h = fs_mem (fpec_of h)"

section \<open>Serial input\<close>

definition rx_reads :: "u32 \<Rightarrow> hist \<Rightarrow> nat" where
  "rx_reads u h = length (filter (\<lambda>e. case e of Rd32 a _ \<Rightarrow> a = USART_DR u | _ \<Rightarrow> False) h)"

definition sim_sr :: "char list \<Rightarrow> u32 \<Rightarrow> hist \<Rightarrow> u32" where
  "sim_sr rx u h = (if rx_reads u h < length rx then 0xE0 else 0xC0)"

definition sim_dr :: "char list \<Rightarrow> u32 \<Rightarrow> hist \<Rightarrow> u32" where
  "sim_dr rx u h = (if rx_reads u h < length rx then of_char (rx ! rx_reads u h) else 0)"

section \<open>The device\<close>

text \<open>Each ready flag of the clock registers is the bit above its enable bit.\<close>

definition sim_osc :: "u32 \<Rightarrow> u32 \<Rightarrow> u32" where
  "sim_osc on v = v OR push_bit 1 (v AND on)"

abbreviation (input) RCC_CR_ON_BITS :: u32 where "RCC_CR_ON_BITS \<equiv> 0x15010001"

definition sim :: "char list \<Rightarrow> env" where
  "sim rx h a =
     (if a = FLASH_SR then 0
      else if a = FLASH_CR then fs_cr (fpec_of h)
      else if a = DESIG_FLASH_SIZE_BASE then 64
      else if FLASH_BASE \<le> a \<and> a < 0x08010000 then array_word (flash_mem h) a
      else if a = RCC_CR then sim_osc RCC_CR_ON_BITS (reg_val 0x83 RCC_CR h)
      else if a = RCC_BDCR then sim_osc 1 (reg_val 0 RCC_BDCR h)
      else if a = RCC_CSR then sim_osc 1 (reg_val 0 RCC_CSR h)
      else if a = RCC_CFGR then
        (let v = reg_val 0 RCC_CFGR h
         in (v AND NOT RCC_CFGR_SWS) OR push_bit 2 (v AND RCC_CFGR_SW))
      else if a = USART_SR USART1 then 0xC0
      else if a = USART_SR USART2 then sim_sr rx USART2 h
      else if a = USART_DR USART2 then sim_dr rx USART2 h
      else reg_val 0 a h)"

section \<open>The interfaces hold\<close>

lemma fpec_of_Cons [simp]: "fpec_of (e # h) = fpec_step e (fpec_of h)"
  by (simp add: fpec_of_def)

lemma flash_mem_Cons: "flash_mem (e # h) = fs_mem (fpec_step e (fpec_of h))"
  by (simp add: flash_mem_def)

lemma sim_flash_regs [simp]:
  "sim rx h FLASH_SR = 0"
  "sim rx h FLASH_CR = fs_cr (fpec_of h)"
  "sim rx h DESIG_FLASH_SIZE_BASE = 64"
  by (simp_all add: sim_def)

text \<open>The start bit reads as zero: the operations of the model take no time.\<close>

lemma fs_cr_strt: "fs_cr (fpec_of h) AND FLASH_CR_STRT = 0"
proof (induction h)
  case (Cons e h)
  have "(fs_cr (fpec_of h) AND NOT FLASH_CR_LOCK) AND FLASH_CR_STRT = 0"
    using Cons.IH by (simp add: and.assoc)
  moreover have "(v AND NOT FLASH_CR_STRT) AND FLASH_CR_STRT = 0" for v :: u32
    by (rule bit_word_eqI) (simp add: bit_simps)
  ultimately show ?case
    using Cons.IH by (cases e) (auto simp: fpec_cr_def Let_def)
qed (simp add: fpec_of_def fpec_reset_def)

lemma fs_cr_ar: "last_wr FLASH_AR h = Some p \<Longrightarrow> fs_ar (fpec_of h) = p"
  by (induction FLASH_AR h rule: last_wr.induct)
    (auto simp: fpec_cr_def Let_def split: if_splits)

lemma sub_mask: "x AND m = y \<Longrightarrow> b AND m = b \<Longrightarrow> x AND b = y AND (b :: u32)"
proof -
  assume xm: "x AND m = y" and b: "b AND m = b"
  have "x AND b = (x AND m) AND b" by (metis and.assoc and.commute b)
  then show ?thesis by (simp only: xm)
qed

lemma sim_cr_mode: "cr_mode (sim rx) h = fs_cr (fpec_of h) AND 0xB7"
  by (simp add: cr_mode_def)

lemma sim_idle: "spin_ends (flash_idle (sim rx)) h"
  unfolding spin_ends_def
  by (rule exI [of _ 0]) (simp add: flash_idle_def flash_get_status_flags_def desig_get_flash_size_def mmio_defs Let_def)

interpretation sim_fpec: fpec "sim rx" flash_mem for rx
proof
  fix h a v d p k
  show "(ucast (sim rx h DESIG_FLASH_SIZE_BASE) :: u16) \<le> 512" by simp
  show "spin_ends (flash_idle (sim rx)) h" by (rule sim_idle)
  show "sim rx (Rd32 a v # h) FLASH_SR AND FLASH_SR_BSY = 0" by simp
  show "sim rx h FLASH_CR AND FLASH_CR_STRT = 0" by (simp add: fs_cr_strt)
  show "cr_mode (sim rx) (Rd32 a v # h) = cr_mode (sim rx) h" by (simp add: sim_cr_mode)
  show "flash_mem (Rd32 a v # h) = flash_mem h" by (simp add: flash_mem_def)
  show "flash_mem (Wr32 FLASH_KEYR k # h) = flash_mem h" by (simp add: flash_mem_def)
  show "cr_mode (sim rx) (Wr32 FLASH_KEYR FLASH_KEYR_KEY2 # Wr32 FLASH_KEYR FLASH_KEYR_KEY1 # h) = 0"
    if "cr_mode (sim rx) h = FLASH_CR_LOCK"
    using that sub_mask [of "fs_cr (fpec_of h)" "0xB7" "FLASH_CR_LOCK" "0x37"]
    by (simp add: sim_cr_mode and.assoc)
  show "cr_mode (sim rx) (Wr32 FLASH_CR v # h) = v AND 0xB7"
    if "cr_mode (sim rx) h AND FLASH_CR_LOCK = 0"
  proof -
    have "fs_cr (fpec_of h) AND FLASH_CR_LOCK = 0" using that by (simp add: sim_cr_mode and.assoc)
    moreover have "(v AND NOT FLASH_CR_STRT) AND 0xB7 = v AND 0xB7" by (simp add: and.assoc)
    ultimately show ?thesis by (simp add: sim_cr_mode fpec_cr_def Let_def)
  qed
  show "cr_mode (sim rx) (Wr32 FLASH_AR v # h) = cr_mode (sim rx) h" by (simp add: sim_cr_mode)
  show "flash_mem (Wr32 FLASH_AR v # h) = flash_mem h" by (simp add: flash_mem_def)
  show "cr_mode (sim rx) (Wr16 a d # h) = cr_mode (sim rx) h" for a d by (simp add: sim_cr_mode)
  show "flash_mem (Wr32 FLASH_CR v # h) = flash_mem h"
    if "v AND FLASH_CR_STRT = 0 \<or> v AND (FLASH_CR_PER OR FLASH_CR_MER OR FLASH_CR_OPTER) = 0"
    using that sub_mask [of v "0x26" 0 2] sub_mask [of v "0x26" 0 4]
    by (auto simp: flash_mem_def fpec_cr_def Let_def)
  show "flash_mem (Wr32 FLASH_CR v # h) = page_erased p (flash_mem h)"
    if "cr_mode (sim rx) h = FLASH_CR_PER" "v AND 0xB7 = FLASH_CR_PER" "v AND FLASH_CR_STRT \<noteq> 0"
      "last_wr FLASH_AR h = Some p"
    using that sub_mask [of v "0xB7" 2 2] sub_mask [of "fs_cr (fpec_of h)" "0xB7" 2 "0x80"]
    by (simp add: flash_mem_def fpec_cr_def Let_def sim_cr_mode fs_cr_ar)
  show "flash_mem (Wr16 a d # h) = (flash_mem h)(a := d)"
    if "cr_mode (sim rx) h = FLASH_CR_PG" "flash_mem h a = 0xFFFF" for a d
    using that sub_mask [of "fs_cr (fpec_of h)" "0xB7" 1 "0x80"] sub_mask [of "fs_cr (fpec_of h)" "0xB7" 1 1]
    by (simp add: flash_mem_def sim_cr_mode)
  show "flash_mem (Wr32 a v # h) = flash_mem h \<and> cr_mode (sim rx) (Wr32 a v # h) = cr_mode (sim rx) h"
    if "\<not> fpec_event (Wr32 a v)"
    using that by (simp add: flash_mem_def sim_cr_mode)
qed

lemma sim_tx: "u = USART1 \<or> u = USART2 \<Longrightarrow> spin_ends (reg_flag (sim rx) (USART_SR u) USART_SR_TXE) h"
  unfolding spin_ends_def
  by (rule exI [of _ 0]) (auto simp: reg_flag_def mmio_defs sim_def sim_sr_def)

interpretation sim_usart1: usart_tx "sim rx" USART1 for rx
  by unfold_locales (rule sim_tx, simp)

interpretation sim_usart2: usart_tx "sim rx" USART2 for rx
  by unfold_locales (rule sim_tx, simp)

end
