(* ===== verification/Eeprom.thy ===== *)
theory Eeprom
  imports Sim
begin

text \<open>
  \<^verbatim>\<open>sylib/flash/eeprom.c\<close>: one flash page used as non-volatile storage. \<open>eeprom_write\<close> erases
  the page and programs the object word by word; \<open>eeprom_read\<close> returns the word at an offset.
  \<open>None\<close> is the absence of a defined result: a busy-wait that never ends, or a read of
  \<^verbatim>\<open>p_words[i]\<close> past the end of the object.
\<close>

section \<open>Operations\<close>

abbreviation (input) EEPROM_BASE_ADDR :: u32 where
  "EEPROM_BASE_ADDR \<equiv> 0x0800F800"

text \<open>\<^verbatim>\<open>p_words[i]\<close>, where \<^verbatim>\<open>p_data\<close> points to an object of the bytes \<open>obj\<close>.\<close>

definition word_at :: "char list \<Rightarrow> u32 \<Rightarrow> u32 option" where
  "word_at obj i =
     (if 4 * unat i + 4 \<le> length obj then Some (word_of_le32 (take 4 (drop (4 * unat i) obj)))
      else None)"

fun eeprom_program :: "env \<Rightarrow> char list \<Rightarrow> nat \<Rightarrow> u32 \<Rightarrow> hist \<Rightarrow> hist option" where
  "eeprom_program env obj 0 i h = Some h"
| "eeprom_program env obj (Suc n) i h = do {
     w \<leftarrow> word_at obj i;
     h \<leftarrow> flash_program_word env (EEPROM_BASE_ADDR + i * 4) w h;
     eeprom_program env obj n (i + 1) h
   }"

definition eeprom_write :: "env \<Rightarrow> char list \<Rightarrow> u32 \<Rightarrow> hist \<Rightarrow> hist option" where
  "eeprom_write env obj data_len h = do {
     let mult = data_len div 4;
     let mult = (if data_len mod 4 \<noteq> 0 then mult + 1 else mult);
     let h = flash_unlock h;
     h \<leftarrow> flash_erase_page env EEPROM_BASE_ADDR h;
     h \<leftarrow> eeprom_program env obj (unat mult) 0 h;
     Some (flash_lock env h)
   }"

definition eeprom_read :: "env \<Rightarrow> u32 \<Rightarrow> hist \<Rightarrow> u32 \<times> hist" where
  "eeprom_read env offset h = mmio_rd env (EEPROM_BASE_ADDR + offset) h"

section \<open>The intended effect on the array\<close>

fun program_words :: "u32 \<Rightarrow> u32 list \<Rightarrow> (u32 \<Rightarrow> u16) \<Rightarrow> (u32 \<Rightarrow> u16)" where
  "program_words a [] m = m"
| "program_words a (w # ws) m =
     program_words (a + 4) ws (m(a := ucast w, a + 2 := ucast (drop_bit 16 w)))"

text \<open>The words of an object whose length is a multiple of four.\<close>

fun words_of :: "char list \<Rightarrow> u32 list" where
  "words_of (a # b # c # d # bs) = word_of_le32 [a, b, c, d] # words_of bs"
| "words_of _ = []"

definition eeprom_image :: "char list \<Rightarrow> (u32 \<Rightarrow> u16) \<Rightarrow> (u32 \<Rightarrow> u16)" where
  "eeprom_image obj m = program_words EEPROM_BASE_ADDR (words_of obj) (page_erased EEPROM_BASE_ADDR m)"

text \<open>On a 64 KB part, a read in the flash region returns the content of the array.\<close>

locale eeprom_dev = fpec +
  assumes array_read: "FLASH_BASE \<le> a \<Longrightarrow> a < 0x08010000 \<Longrightarrow> env h a = array_word (mem h) a"

section \<open>Lemmas\<close>

lemma words_of_length [simp]: "length (words_of bs) = length bs div 4"
  by (induction bs rule: words_of.induct) simp_all

lemma words_of_nth:
  "4 * i + 4 \<le> length bs \<Longrightarrow> words_of bs ! i = word_of_le32 (take 4 (drop (4 * i) bs))"
proof (induction bs arbitrary: i rule: words_of.induct)
  case (1 a b c d bs)
  then show ?case by (cases i) (simp_all add: numeral_eq_Suc)
qed simp_all

lemma unat_base_offset: "n < 1024 \<Longrightarrow> unat (EEPROM_BASE_ADDR + word_of_nat n) = 0x0800F800 + n"
  by (simp add: unat_word_ariths unat_of_nat)

lemma word_of_nat_eq_small: "m < 4294967296 \<Longrightarrow> n < 4294967296 \<Longrightarrow>
  (word_of_nat m :: u32) = word_of_nat n \<longleftrightarrow> m = n"
  by (simp add: word_of_nat_eq_iff take_bit_eq_mod)

lemma program_words_other:
  "(\<And>j. j < 2 * length ws \<Longrightarrow> x \<noteq> a + word_of_nat (2 * j)) \<Longrightarrow> program_words a ws m x = m x"
proof (induction ws arbitrary: a m)
  case (Cons w ws)
  have "x \<noteq> a + 4 + word_of_nat (2 * j)" if "j < 2 * length ws" for j
    using Cons.prems [of "j + 2"] that by (simp add: algebra_simps)
  then have "program_words a (w # ws) m x = (m(a := ucast w, a + 2 := ucast (drop_bit 16 w))) x"
    by (simp add: Cons.IH)
  moreover have "x \<noteq> a" "x \<noteq> a + 2"
    using Cons.prems [of 0] Cons.prems [of 1] by simp_all
  ultimately show ?case by simp
qed simp

lemma program_words_in:
  assumes "i < length ws" "length ws < 0x10000000"
  shows "program_words a ws m (a + word_of_nat (4 * i)) = ucast (ws ! i)"
    and "program_words a ws m (a + word_of_nat (4 * i + 2)) = ucast (drop_bit 16 (ws ! i))"
proof -
  have "program_words a ws m (a + word_of_nat (4 * i)) = ucast (ws ! i) \<and>
    program_words a ws m (a + word_of_nat (4 * i + 2)) = ucast (drop_bit 16 (ws ! i))"
    using assms
  proof (induction ws arbitrary: a m i)
    case (Cons w ws)
    show ?case
    proof (cases i)
      case 0
      have ne: "word_of_nat k \<noteq> (word_of_nat (2 * j + 4) :: u32)"
        if "j < 2 * length ws" "k < 4" for j k
        using word_of_nat_eq_small [of k "2 * j + 4"] Cons.prems that by simp
      have lo: "program_words (a + 4) ws m' a = m' a" for m'
        by (rule program_words_other) (use ne [of _ 0] in \<open>simp add: algebra_simps\<close>)
      have hi: "program_words (a + 4) ws m' (a + 2) = m' (a + 2)" for m'
        by (rule program_words_other) (use ne [of _ 2] in \<open>simp add: algebra_simps\<close>)
      show ?thesis using 0 by (simp add: lo hi)
    next
      case (Suc n)
      then show ?thesis using Cons.IH [of n "a + 4"] Cons.prems by (simp add: algebra_simps)
    qed
  qed simp
  then show "program_words a ws m (a + word_of_nat (4 * i)) = ucast (ws ! i)"
    "program_words a ws m (a + word_of_nat (4 * i + 2)) = ucast (drop_bit 16 (ws ! i))"
    by blast+
qed

lemma array_word_program_words:
  assumes "i < length ws" "length ws < 0x10000000"
  shows "array_word (program_words a ws m) (a + word_of_nat (4 * i)) = ws ! i"
proof -
  let ?m = "program_words a ws m" and ?a = "a + word_of_nat (4 * i)"
  have "?m ?a = ucast (ws ! i)" "?m (?a + 2) = ucast (drop_bit 16 (ws ! i))"
    using program_words_in [OF assms, of a m] by (simp_all add: algebra_simps)
  then show ?thesis
    using array_word_halves [of "\<lambda>_. 0" ?a "ws ! i"] by (simp add: array_word_def)
qed

lemma eeprom_image_word:
  assumes "4 * i + 4 \<le> length obj" "length obj \<le> 1024"
  shows "array_word (eeprom_image obj m) (EEPROM_BASE_ADDR + word_of_nat (4 * i)) = words_of obj ! i"
  unfolding eeprom_image_def using assms by (intro array_word_program_words) auto

lemma eeprom_image_outside:
  assumes "unat a div 1024 \<noteq> unat EEPROM_BASE_ADDR div 1024" "length obj \<le> 1024"
  shows "eeprom_image obj m a = m a"
proof -
  have "a \<noteq> EEPROM_BASE_ADDR + word_of_nat (2 * j)" if "j < 2 * length (words_of obj)" for j
    using that assms unat_base_offset [of "2 * j"] by auto
  then have "eeprom_image obj m a = page_erased EEPROM_BASE_ADDR m a"
    unfolding eeprom_image_def by (rule program_words_other)
  with assms show ?thesis by (simp add: page_erased_def)
qed

lemma eeprom_image_tail:
  assumes "length obj mod 4 = 0" "length obj \<le> 1024" "length obj \<le> k" "k < 1024"
  shows "eeprom_image obj m (EEPROM_BASE_ADDR + word_of_nat k) = 0xFFFF"
proof -
  have "(word_of_nat k :: u32) \<noteq> word_of_nat (2 * j)" if "j < 2 * length (words_of obj)" for j
    using that assms word_of_nat_eq_small [of k "2 * j"] by auto
  then have "eeprom_image obj m (EEPROM_BASE_ADDR + word_of_nat k)
      = page_erased EEPROM_BASE_ADDR m (EEPROM_BASE_ADDR + word_of_nat k)"
    unfolding eeprom_image_def by (intro program_words_other) simp
  also have "\<dots> = 0xFFFF"
    using assms(4) unat_base_offset [OF assms(4)] div_nat_eqI [of 1024 131134 "134281216 + k"]
    by (simp add: page_erased_def)
  finally show ?thesis .
qed

lemma word_at_words_of:
  assumes "i < length obj div 4" "length obj \<le> 1024"
  shows "word_at obj (word_of_nat i) = Some (words_of obj ! i)"
  using assms words_of_nth [of i obj] by (simp add: word_at_def unat_of_nat)

context fpec
begin

text \<open>The programming loop, from word \<open>i\<close> on, on words that are still erased.\<close>

lemma program_loop:
  assumes "cr_mode env h = 0" "i + n = length obj div 4" "length obj \<le> 1024"
    and "\<And>j. i \<le> j \<Longrightarrow> j < i + n \<Longrightarrow> mem h (EEPROM_BASE_ADDR + word_of_nat (4 * j)) = 0xFFFF
       \<and> mem h (EEPROM_BASE_ADDR + word_of_nat (4 * j + 2)) = 0xFFFF"
  shows "\<exists>h'. eeprom_program env obj n (word_of_nat i) h = Some h'
     \<and> mem h' = program_words (EEPROM_BASE_ADDR + word_of_nat (4 * i)) (drop i (words_of obj)) (mem h)
     \<and> cr_mode env h' = 0 \<and> fpec_only h h'"
  using assms
proof (induction n arbitrary: i h)
  case 0
  then show ?case by simp
next
  case (Suc n)
  let ?a = "EEPROM_BASE_ADDR + word_of_nat (4 * i)" and ?w = "words_of obj ! i"
  have w: "word_at obj (word_of_nat i) = Some ?w"
    using Suc.prems by (intro word_at_words_of) auto
  have er: "mem h ?a = 0xFFFF" "mem h (?a + 2) = 0xFFFF"
    using Suc.prems(4) [of i] by (simp_all add: algebra_simps)
  from program_word [OF Suc.prems(1) er] obtain h1 where
    h1: "flash_program_word env ?a ?w h = Some h1" "cr_mode env h1 = 0" "fpec_only h h1"
    and m1: "mem h1 = (mem h)(?a := ucast ?w, ?a + 2 := ucast (drop_bit 16 ?w))" by blast
  have "mem h1 (EEPROM_BASE_ADDR + word_of_nat (4 * j)) = 0xFFFF
     \<and> mem h1 (EEPROM_BASE_ADDR + word_of_nat (4 * j + 2)) = 0xFFFF"
    if "Suc i \<le> j" "j < Suc i + n" for j
  proof -
    have ne: "(word_of_nat (4 * j + k) :: u32) \<noteq> word_of_nat (4 * i + l)"
      if "k = 0 \<or> k = 2" "l = 0 \<or> l = 2" for k l
      using word_of_nat_eq_small [of "4 * j + k" "4 * i + l"] Suc.prems(2,3) \<open>Suc i \<le> j\<close>
        \<open>j < Suc i + n\<close> that by auto
    show ?thesis
      using Suc.prems(4) [of j] that ne [of 0 0] ne [of 0 2] ne [of 2 0] ne [of 2 2]
      unfolding m1 by (simp add: algebra_simps)
  qed
  with Suc.IH [of h1 "Suc i"] h1 Suc.prems obtain h2 where
    h2: "eeprom_program env obj n (word_of_nat (Suc i)) h1 = Some h2" "cr_mode env h2 = 0"
      "fpec_only h1 h2"
    and m2: "mem h2 = program_words (EEPROM_BASE_ADDR + word_of_nat (4 * Suc i))
       (drop (Suc i) (words_of obj)) (mem h1)" by auto
  have "drop i (words_of obj) = ?w # drop (Suc i) (words_of obj)"
    using Suc.prems by (simp add: Cons_nth_drop_Suc)
  then have "mem h2 = program_words ?a (drop i (words_of obj)) (mem h)"
    using m2 m1 by (simp add: algebra_simps)
  moreover have "eeprom_program env obj (Suc n) (word_of_nat i) h = Some h2"
    using w h1(1) h2(1) by (simp add: algebra_simps)
  ultimately show ?case
    using h2 fpec_only_trans [OF h1(3) h2(3)] by blast
qed

lemma eeprom_write_effect:
  assumes lock: "cr_mode env h = FLASH_CR_LOCK" and len: "unat data_len = length obj"
    and mult: "length obj mod 4 = 0" and fits: "length obj \<le> 1024"
  shows "\<exists>h'. eeprom_write env obj data_len h = Some h' \<and> mem h' = eeprom_image obj (mem h)
     \<and> cr_mode env h' = FLASH_CR_LOCK \<and> fpec_only h h'"
proof -
  have n: "unat (data_len div 4) = length obj div 4" "data_len mod 4 = 0"
    using len mult by (simp_all add: unat_div word_arith_nat_mod)
  from unlock_key [OF lock] have u: "mem (flash_unlock h) = mem h" "cr_mode env (flash_unlock h) = 0"
    "fpec_only h (flash_unlock h)" by auto
  from erase_page [OF u(2), of EEPROM_BASE_ADDR] u obtain h1 where
    h1: "flash_erase_page env EEPROM_BASE_ADDR (flash_unlock h) = Some h1"
      "mem h1 = page_erased EEPROM_BASE_ADDR (mem h)" "cr_mode env h1 = 0" "fpec_only h h1"
    by (auto intro: fpec_only_trans)
  have er: "mem h1 (EEPROM_BASE_ADDR + word_of_nat k) = 0xFFFF" if "k < 1024" for k
  proof -
    have "(134281216 + k) div 1024 = 131134"
      using that by (intro div_nat_eqI) simp_all
    then show ?thesis
      using unat_base_offset [OF that] by (simp add: h1(2) page_erased_def)
  qed
  have "\<exists>h'. eeprom_program env obj (length obj div 4) (word_of_nat 0) h1 = Some h'
     \<and> mem h' = program_words (EEPROM_BASE_ADDR + word_of_nat (4 * 0)) (drop 0 (words_of obj)) (mem h1)
     \<and> cr_mode env h' = 0 \<and> fpec_only h1 h'"
  proof (rule program_loop)
    fix j assume "j < 0 + length obj div 4"
    with fits have "4 * j < 1024" "4 * j + 2 < 1024" by simp_all
    then show "mem h1 (EEPROM_BASE_ADDR + word_of_nat (4 * j)) = 0xFFFF
        \<and> mem h1 (EEPROM_BASE_ADDR + word_of_nat (4 * j + 2)) = 0xFFFF"
      using er by blast
  qed (use h1 fits in simp_all)
  then obtain h2 where h2: "eeprom_program env obj (length obj div 4) 0 h1 = Some h2"
      "mem h2 = eeprom_image obj (mem h)" "cr_mode env h2 = 0" "fpec_only h h2"
    using h1 by (auto simp: eeprom_image_def intro: fpec_only_trans)
  from lock_mode [OF h2(3)] h2 have "mem (flash_lock env h2) = eeprom_image obj (mem h)"
    "cr_mode env (flash_lock env h2) = FLASH_CR_LOCK" "fpec_only h (flash_lock env h2)"
    by (auto intro: fpec_only_trans)
  with h1(1) h2(1) n show ?thesis
    by (auto simp: eeprom_write_def)
qed

end

text \<open>A length that is not a multiple of four makes the last \<^verbatim>\<open>p_words[i]\<close> run past the object.\<close>

lemma eeprom_program_overrun:
  "length obj < 4 * (unat i + n) \<Longrightarrow> unat i + n < 4294967296 \<Longrightarrow> 0 < n \<Longrightarrow>
   eeprom_program env obj n i h = None"
proof (induction n arbitrary: i h)
  case (Suc n)
  show ?case
  proof (cases "4 * unat i + 4 \<le> length obj")
    case True
    then have "0 < n" using Suc.prems by (cases n) auto
    moreover have "unat (i + 1) = unat i + 1"
      using Suc.prems by (simp add: unat_word_ariths)
    ultimately have "eeprom_program env obj n (i + 1) g = None" for g
      using Suc.prems by (intro Suc.IH) auto
    then show ?thesis by (simp add: bind_eq_None_conv)
  qed (simp add: word_at_def)
qed simp

section \<open>The device has the interface\<close>

interpretation sim_eeprom: eeprom_dev "sim rx" flash_mem for rx
proof
  fix h a
  assume "FLASH_BASE \<le> a" "a < 0x08010000"
  then have "a \<noteq> FLASH_SR" "a \<noteq> FLASH_CR" "a \<noteq> DESIG_FLASH_SIZE_BASE" by auto
  with \<open>FLASH_BASE \<le> a\<close> \<open>a < 0x08010000\<close> show "sim rx h a = array_word (flash_mem h) a"
    by (simp add: sim_def)
qed

context eeprom_dev
begin

lemma eeprom_read_word:
  assumes "mem h = eeprom_image obj m" "4 * i + 4 \<le> length obj" "length obj \<le> 1024"
  shows "fst (eeprom_read env (word_of_nat (4 * i)) h) = word_of_le32 (take 4 (drop (4 * i) obj))"
proof -
  let ?a = "EEPROM_BASE_ADDR + word_of_nat (4 * i) :: u32"
  have "unat ?a = 0x0800F800 + 4 * i" using assms(2,3) by (intro unat_base_offset) simp
  then have "FLASH_BASE \<le> ?a" "?a < 0x08010000"
    using assms(2,3) by (simp_all add: word_le_nat_alt word_less_nat_alt)
  then show ?thesis
    using assms eeprom_image_word [of i obj m] words_of_nth [of i obj]
    by (simp add: eeprom_read_def mmio_defs array_read)
qed

end

section \<open>Properties\<close>

text \<open>
  C5. Write then read: on any flash controller that keeps the promises of its manual and is locked,
  \<open>eeprom_write\<close> of an object of a multiple of four bytes, at most a page, returns, and afterwards
  \<open>eeprom_read\<close> at the offset of each of its words returns exactly that word, in memory order. The
  controller is locked again.
\<close>

theorem eeprom_write_read:
  assumes "eeprom_dev env mem" "cr_mode env h = FLASH_CR_LOCK"
    and "unat data_len = length obj" "length obj mod 4 = 0" "length obj \<le> 1024"
    and "4 * i + 4 \<le> length obj"
  shows "\<exists>h'. eeprom_write env obj data_len h = Some h'
     \<and> fst (eeprom_read env (word_of_nat (4 * i)) h') = word_of_le32 (take 4 (drop (4 * i) obj))
     \<and> cr_mode env h' = FLASH_CR_LOCK"
  using fpec.eeprom_write_effect [OF eeprom_dev.axioms(1) [OF assms(1)] assms(2-5)]
    eeprom_dev.eeprom_read_word [OF assms(1) _ assms(6,5)] by blast

theorem eeprom_write_read_witness:
  "\<exists>h'. eeprom_write (sim []) ''stm32f1!'' 8 [] = Some h'
     \<and> fst (eeprom_read (sim []) 4 h') = word_of_le32 ''2f1!''
     \<and> cr_mode (sim []) h' = FLASH_CR_LOCK"
  using eeprom_write_read [OF sim_eeprom.eeprom_dev_axioms, of "[]" "[]" 8 "''stm32f1!''" 1]
  by (simp add: sim_cr_mode fpec_of_def fpec_reset_def)

text \<open>
  Frame: \<open>eeprom_write\<close> changes no half-word outside its own 1 KB page, leaves the part of the
  page behind the object erased, and makes no register write other than to the flash controller
  and the array.
\<close>

theorem eeprom_write_frame:
  assumes "fpec env mem" "cr_mode env h = FLASH_CR_LOCK"
    and "unat data_len = length obj" "length obj mod 4 = 0" "length obj \<le> 1024"
  shows "\<exists>h'. eeprom_write env obj data_len h = Some h' \<and> fpec_only h h'
     \<and> (\<forall>a. unat a div 1024 \<noteq> unat EEPROM_BASE_ADDR div 1024 \<longrightarrow> mem h' a = mem h a)
     \<and> (\<forall>k. length obj \<le> k \<and> k < 1024 \<longrightarrow> mem h' (EEPROM_BASE_ADDR + word_of_nat k) = 0xFFFF)"
proof -
  obtain h' where h': "eeprom_write env obj data_len h = Some h'" "fpec_only h h'"
    and m: "mem h' = eeprom_image obj (mem h)"
    using fpec.eeprom_write_effect [OF assms] by blast
  have "mem h' a = mem h a" if "unat a div 1024 \<noteq> unat EEPROM_BASE_ADDR div 1024" for a
    unfolding m using eeprom_image_outside [OF that assms(5)] .
  moreover have "mem h' (EEPROM_BASE_ADDR + word_of_nat k) = 0xFFFF" if "length obj \<le> k" "k < 1024" for k
    unfolding m using eeprom_image_tail [OF assms(4,5) that] .
  ultimately show ?thesis using h' by blast
qed

theorem eeprom_write_frame_witness:
  "\<exists>h'. eeprom_write (sim []) ''abcd'' 4 [] = Some h' \<and> fpec_only [] h'
     \<and> (\<forall>a. unat a div 1024 \<noteq> 131134 \<longrightarrow> flash_mem h' a = flash_mem [] a)
     \<and> (\<forall>k. length ''abcd'' \<le> k \<and> k < 1024 \<longrightarrow> flash_mem h' (EEPROM_BASE_ADDR + word_of_nat k) = 0xFFFF)"
  using eeprom_write_frame [OF sim_fpec.fpec_axioms, of "[]" "[]" 4 "''abcd''"]
  by (simp add: sim_cr_mode fpec_of_def fpec_reset_def)

text \<open>
  A length that is not a multiple of four is not handled: the word count is rounded up and the
  last word is read past the end of the object, so for an object of exactly \<open>data_len\<close> bytes there
  is no defined result, whatever the hardware does.
\<close>

theorem eeprom_write_odd_length:
  assumes "unat data_len = length obj" "length obj mod 4 \<noteq> 0"
  shows "eeprom_write env obj data_len h = None"
proof -
  let ?m = "data_len div 4"
  have "unat (data_len mod 4) \<noteq> 0" using assms by (simp only: unat_mod) simp
  then have "data_len mod 4 \<noteq> 0" by (metis unat_0)
  then have up: "(data_len mod 4 \<noteq> 0) = True" by blast
  have d: "unat ?m = length obj div 4"
    using assms(1) by (simp add: unat_div)
  have len: "length obj < 4294967296" using assms(1) unat_u32_less [of data_len] by simp
  then have "unat (?m + 1) = length obj div 4 + 1"
    using d by (simp add: unat_word_ariths)
  moreover have "length obj < 4 * (length obj div 4 + 1)" by simp
  ultimately have "eeprom_program env obj (unat (?m + 1)) 0 g = None" for g
    using len by (intro eeprom_program_overrun) auto
  then show ?thesis
    by (simp only: eeprom_write_def Let_def up if_True bind_eq_None_conv) blast
qed

theorem eeprom_write_odd_length_witness:
  "unat (6 :: u32) = length ''abcdef'' \<and> length ''abcdef'' mod 4 \<noteq> 0
   \<and> eeprom_write (sim []) ''abcdef'' 6 [] = None"
  using eeprom_write_odd_length [of 6 "''abcdef''" "sim []" "[]"] by simp

end
