(* ===== verification/Credentials.thy ===== *)
theory Credentials
  imports Clib Eeprom
begin

text \<open>
  The credential store of \<^verbatim>\<open>sylib/esp8266\<close>: the structures of \<^verbatim>\<open>esp8266.h\<close> with their layout in
  flash, \<^verbatim>\<open>READ_FLASH\<close> of \<^verbatim>\<open>eeprom.h\<close>, and \<^verbatim>\<open>esp8266_update_credential_list\<close>. The abstract store
  is the list of the slots as pairs of strings; updating it replaces the password of a known
  network or overwrites the slots in turn.
\<close>

section \<open>Data\<close>

abbreviation (input) MAX_CREDENTIAL :: nat where "MAX_CREDENTIAL \<equiv> 10"
abbreviation (input) SIZEOF_FLASH_DATA :: nat where "SIZEOF_FLASH_DATA \<equiv> 976"

record wifi_credential_t =
  password :: "char list"
  ssid :: "char list"

text \<open>The two padding bytes at the end of the structure are copied with it.\<close>

record flash_data_t =
  next_update :: u32
  cred_list :: "wifi_credential_t list"
  padding :: "char list"

definition encode_credential :: "wifi_credential_t \<Rightarrow> char list" where
  "encode_credential c = password c @ ssid c"

definition encode_flash_data :: "flash_data_t \<Rightarrow> char list" where
  "encode_flash_data d = le32 (next_update d) @ concat (map encode_credential (cred_list d)) @ padding d"

definition decode_credential :: "char list \<Rightarrow> wifi_credential_t" where
  "decode_credential b = \<lparr>password = take 64 b, ssid = drop 64 b\<rparr>"

definition decode_flash_data :: "char list \<Rightarrow> flash_data_t" where
  "decode_flash_data b =
     \<lparr>next_update = word_of_le32 (take 4 b),
      cred_list = map (\<lambda>i. decode_credential (take 97 (drop (4 + 97 * i) b))) [0..<MAX_CREDENTIAL],
      padding = drop 974 b\<rparr>"

section \<open>Operations\<close>

text \<open>\<^verbatim>\<open>READ_FLASH(flash_data_t)\<close>: a copy of the structure out of the page, word by word.\<close>

fun read_words :: "env \<Rightarrow> nat \<Rightarrow> u32 \<Rightarrow> hist \<Rightarrow> u32 list \<times> hist" where
  "read_words env 0 off h = ([], h)"
| "read_words env (Suc n) off h =
     (let (w, h) = eeprom_read env off h; (ws, h) = read_words env n (off + 4) h in (w # ws, h))"

definition READ_FLASH :: "env \<Rightarrow> hist \<Rightarrow> flash_data_t \<times> hist" where
  "READ_FLASH env h =
     (let (ws, h) = read_words env (SIZEOF_FLASH_DATA div 4) 0 h
      in (decode_flash_data (concat (map le32 ws)), h))"

text \<open>The loop over the slots: the first whose SSID compares equal.\<close>

fun find_ssid :: "wifi_credential_t list \<Rightarrow> nat \<Rightarrow> char list \<Rightarrow> nat option option" where
  "find_ssid [] i s = Some None"
| "find_ssid (c # cs) i s = do {
     eq \<leftarrow> strcmp_eq (ssid c) s;
     if eq then Some (Some i) else find_ssid cs (i + 1) s
   }"

text \<open>The new contents of the structure; \<open>s\<close> and \<open>p\<close> are the strings passed.\<close>

definition update_flash_data :: "char list \<Rightarrow> char list \<Rightarrow> flash_data_t \<Rightarrow> flash_data_t option" where
  "update_flash_data s p d = do {
     found \<leftarrow> find_ssid (cred_list d) 0 s;
     Some (case found of
       Some i \<Rightarrow>
         d\<lparr>cred_list := (cred_list d)
             [i := (cred_list d ! i)\<lparr>password := snprintf_array 64 p (password (cred_list d ! i))\<rparr>]\<rparr>
     | None \<Rightarrow>
         let n = (if next_update d \<ge> 10 then 0 else next_update d);
             c = cred_list d ! unat n
         in d\<lparr>cred_list := (cred_list d)
               [unat n := \<lparr>password = snprintf_array 64 p (password c),
                           ssid = snprintf_array 33 s (ssid c)\<rparr>],
              next_update := n + 1\<rparr>)
   }"

definition esp8266_update_credential_list ::
    "env \<Rightarrow> char list \<Rightarrow> char list \<Rightarrow> hist \<Rightarrow> (flash_data_t \<times> hist) option" where
  "esp8266_update_credential_list env s p h = do {
     let (d, h) = READ_FLASH env h;
     d \<leftarrow> update_flash_data s p d;
     h \<leftarrow> eeprom_write env (encode_flash_data d) (word_of_nat SIZEOF_FLASH_DATA) h;
     Some (d, h)
   }"

section \<open>Well-formed stores\<close>

definition wf_credential :: "wifi_credential_t \<Rightarrow> bool" where
  "wf_credential c \<longleftrightarrow> length (password c) = 64 \<and> length (ssid c) = 33"

definition wf_flash_data :: "flash_data_t \<Rightarrow> bool" where
  "wf_flash_data d \<longleftrightarrow> length (cred_list d) = MAX_CREDENTIAL \<and> list_all wf_credential (cred_list d)
     \<and> length (padding d) = 2"

text \<open>A slot holds two terminated strings, or is still erased.\<close>

definition erased_credential :: "wifi_credential_t \<Rightarrow> bool" where
  "erased_credential c \<longleftrightarrow> password c = replicate 64 (CHR 0xFF) \<and> ssid c = replicate 33 (CHR 0xFF)"

definition slot_ok :: "wifi_credential_t \<Rightarrow> bool" where
  "slot_ok c \<longleftrightarrow> NUL \<in> set (password c) \<and> NUL \<in> set (ssid c) \<or> erased_credential c"

definition store_ok :: "flash_data_t \<Rightarrow> bool" where
  "store_ok d \<longleftrightarrow> wf_flash_data d \<and> list_all slot_ok (cred_list d)"

section \<open>The abstract store\<close>

definition slot :: "wifi_credential_t \<Rightarrow> (char list \<times> char list) option" where
  "slot c = (case (c_str (ssid c), c_str (password c)) of
     (Some s, Some p) \<Rightarrow> Some (s, p) | _ \<Rightarrow> None)"

definition saved :: "flash_data_t \<Rightarrow> (char list \<times> char list) option list" where
  "saved d = map slot (cred_list d)"

fun slot_index :: "(char list \<times> char list) option list \<Rightarrow> char list \<Rightarrow> nat option" where
  "slot_index [] s = None"
| "slot_index (x # xs) s = (if map_option fst x = Some s then Some 0 else map_option Suc (slot_index xs s))"

definition lookup :: "(char list \<times> char list) option list \<Rightarrow> char list \<Rightarrow> char list option" where
  "lookup xs s = (case slot_index xs s of None \<Rightarrow> None | Some i \<Rightarrow> map_option snd (xs ! i))"

text \<open>What the update promises: known networks in place, new ones round robin.\<close>

definition store_update ::
    "char list \<Rightarrow> char list \<Rightarrow> nat \<Rightarrow> (char list \<times> char list) option list \<Rightarrow>
     (char list \<times> char list) option list" where
  "store_update s p n xs =
     (case slot_index xs s of Some i \<Rightarrow> xs[i := Some (s, p)]
      | None \<Rightarrow> xs[(if n \<ge> MAX_CREDENTIAL then 0 else n) := Some (s, p)])"

section \<open>Layout\<close>

lemma length_encode_credential: "wf_credential c \<Longrightarrow> length (encode_credential c) = 97"
  by (simp add: wf_credential_def encode_credential_def)

lemma length_encode_list:
  "list_all wf_credential cs \<Longrightarrow> length (concat (map encode_credential cs)) = 97 * length cs"
  by (induction cs) (simp_all add: length_encode_credential)

lemma length_encode_flash_data: "wf_flash_data d \<Longrightarrow> length (encode_flash_data d) = SIZEOF_FLASH_DATA"
  by (simp add: wf_flash_data_def encode_flash_data_def length_encode_list)

lemma decode_encode_credential: "wf_credential c \<Longrightarrow> decode_credential (encode_credential c) = c"
  by (simp add: wf_credential_def decode_credential_def encode_credential_def)

lemma nth_encode_list:
  "list_all wf_credential cs \<Longrightarrow> i < length cs \<Longrightarrow>
   take 97 (drop (97 * i) (concat (map encode_credential cs) @ rest)) = encode_credential (cs ! i)"
proof (induction cs arbitrary: i)
  case (Cons c cs)
  show ?case
  proof (cases i)
    case 0
    with Cons.prems show ?thesis by (simp add: length_encode_credential)
  next
    case (Suc j)
    with Cons show ?thesis by (simp add: length_encode_credential)
  qed
qed simp

lemma decode_encode_flash_data: "wf_flash_data d \<Longrightarrow> decode_flash_data (encode_flash_data d) = d"
proof -
  assume wf: "wf_flash_data d"
  then have cs: "list_all wf_credential (cred_list d)" "length (cred_list d) = 10" "length (padding d) = 2"
    by (simp_all add: wf_flash_data_def)
  have "decode_credential (take 97 (drop (4 + 97 * i) (encode_flash_data d))) = cred_list d ! i"
    if "i < 10" for i
    using that cs nth_encode_list [OF cs(1), of i "padding d"]
    by (simp add: encode_flash_data_def decode_encode_credential list_all_length)
  then have "map (\<lambda>i. decode_credential (take 97 (drop (4 + 97 * i) (encode_flash_data d)))) [0..<10]
      = cred_list d"
    using cs(2) by (intro nth_equalityI) (simp_all del: upt_rec_numeral)
  moreover have "drop 974 (encode_flash_data d) = padding d"
    using cs length_encode_list [OF cs(1)] by (simp add: encode_flash_data_def)
  moreover have "take 4 (encode_flash_data d) = le32 (next_update d)"
    by (simp add: encode_flash_data_def)
  ultimately show ?thesis by (simp add: decode_flash_data_def del: upt_rec_numeral)
qed

section \<open>The update implements the abstract one\<close>

lemma strcmp_eq_replicate:
  "c \<noteq> NUL \<Longrightarrow> length s < n \<Longrightarrow> strcmp_eq (replicate n c) s = Some False"
proof (induction s arbitrary: n)
  case Nil
  then show ?case by (cases n) simp_all
next
  case (Cons d s)
  then show ?case by (cases n) auto
qed

lemma slot_erased: "erased_credential c \<Longrightarrow> slot c = None"
  by (simp add: erased_credential_def slot_def c_str_def)

lemma strcmp_slot:
  assumes "slot_ok c" "NUL \<notin> set s" "length s \<le> 32"
  shows "strcmp_eq (ssid c) s = Some (map_option fst (slot c) = Some s)"
proof (cases "erased_credential c")
  case True
  then show ?thesis
    using assms(3) strcmp_eq_replicate [of "CHR 0xFF" s 33]
    by (simp add: slot_erased) (simp add: erased_credential_def)
next
  case False
  then show ?thesis
    using assms by (auto simp: slot_ok_def strcmp_eq_str slot_def c_str_Some)
qed

lemma find_ssid_slot_index:
  assumes "list_all slot_ok cs" "NUL \<notin> set s" "length s \<le> 32"
  shows "find_ssid cs i s = Some (map_option ((+) i) (slot_index (map slot cs) s))"
  using assms(1)
proof (induction cs arbitrary: i)
  case (Cons c cs)
  then show ?case
    using strcmp_slot [of c s] assms(2,3)
    by (auto simp: option.map_comp comp_def intro: option.map_cong)
qed simp

lemma slot_index_bound:
  "slot_index xs s = Some i \<Longrightarrow> i < length xs \<and> map_option fst (xs ! i) = Some s"
  by (induction xs arbitrary: i) (auto split: if_splits)

lemma slot_snprintf:
  assumes "NUL \<notin> set p" "length p \<le> 63" "NUL \<notin> set s" "length s \<le> 32"
  shows "slot \<lparr>password = snprintf_array 64 p a, ssid = snprintf_array 33 s b\<rparr> = Some (s, p)"
  using assms snprintf_array_str [of p 64 a] snprintf_array_str [of s 33 b]
  by (simp add: slot_def c_str_Some snprintf_text_def)

lemma store_ok_update:
  assumes "store_ok d" "wf_credential c" "slot_ok c"
  shows "store_ok (d\<lparr>cred_list := (cred_list d)[i := c]\<rparr>)"
  using assms by (auto simp: store_ok_def wf_flash_data_def list_all_iff dest: set_update_subset_insert [THEN subsetD])

lemma store_ok_next: "store_ok (d\<lparr>next_update := n\<rparr>) = store_ok d"
  by (simp add: store_ok_def wf_flash_data_def)

text \<open>The two branches.\<close>

lemma update_known:
  assumes "store_ok d" "NUL \<notin> set p" "length p \<le> 63" "slot_index (saved d) s = Some i"
  defines "c \<equiv> cred_list d ! i"
  defines "d' \<equiv> d\<lparr>cred_list := (cred_list d)[i := c\<lparr>password := snprintf_array 64 p (password c)\<rparr>]\<rparr>"
  shows "store_ok d' \<and> saved d' = (saved d)[i := Some (s, p)]"
proof -
  have i: "i < length (cred_list d)" "map_option fst (slot c) = Some s"
    using slot_index_bound [OF assms(4)] by (auto simp: saved_def c_def)
  have c: "wf_credential c" "slot_ok c"
    using assms(1) i(1) by (simp_all add: c_def store_ok_def wf_flash_data_def list_all_length)
  have ss: "NUL \<in> set (ssid c)" "takeWhile (\<lambda>x. x \<noteq> NUL) (ssid c) = s"
    using i(2) by (auto simp: slot_def c_str_def split: option.splits if_splits)
  have "slot (c\<lparr>password := snprintf_array 64 p (password c)\<rparr>) = Some (s, p)"
    using ss assms(2,3) snprintf_array_str [of p 64 "password c"]
    by (simp add: slot_def c_str_Some snprintf_text_def)
  moreover have "store_ok d'"
    unfolding d'_def using assms(1) c ss(1)
    by (intro store_ok_update) (simp_all add: wf_credential_def slot_ok_def)
  ultimately show ?thesis
    by (simp add: d'_def saved_def map_update)
qed

lemma update_new:
  fixes n :: u32
  assumes "store_ok d" "NUL \<notin> set p" "length p \<le> 63" "NUL \<notin> set s" "length s \<le> 32" "i < 10"
  defines "c \<equiv> cred_list d ! i"
  defines "d' \<equiv> d\<lparr>cred_list := (cred_list d)[i := \<lparr>password = snprintf_array 64 p (password c),
      ssid = snprintf_array 33 s (ssid c)\<rparr>], next_update := n\<rparr>"
  shows "store_ok d' \<and> saved d' = (saved d)[i := Some (s, p)]"
proof -
  have "wf_credential c"
    using assms(1,6) by (simp add: c_def store_ok_def wf_flash_data_def list_all_length)
  then have "store_ok d'"
    unfolding d'_def store_ok_next using assms(1)
    by (intro store_ok_update) (simp_all add: wf_credential_def slot_ok_def)
  then show ?thesis
    using slot_snprintf [OF assms(2-5)] by (simp add: d'_def saved_def map_update)
qed

lemma update_flash_data_refines:
  assumes "store_ok d" "NUL \<notin> set p" "length p \<le> 63" "NUL \<notin> set s" "length s \<le> 32"
  shows "\<exists>d'. update_flash_data s p d = Some d' \<and> store_ok d'
     \<and> saved d' = store_update s p (unat (next_update d)) (saved d)"
proof -
  have find: "find_ssid (cred_list d) 0 s = Some (slot_index (saved d) s)"
    using find_ssid_slot_index [of "cred_list d" s 0] assms 
    by (cases "slot_index (saved d) s") (simp_all add: store_ok_def saved_def)
  show ?thesis
  proof (cases "slot_index (saved d) s")
    case None
    let ?n = "if next_update d \<ge> 10 then 0 else next_update d"
    have "unat ?n < 10" "unat ?n = (if unat (next_update d) \<ge> 10 then 0 else unat (next_update d))"
      by (auto simp: word_le_nat_alt)
    then show ?thesis
      using None find update_new [OF assms, of "unat ?n" "?n + 1"]
      by (auto simp: update_flash_data_def Let_def store_update_def)
  next
    case (Some i)
    then show ?thesis
      using find update_known [OF assms(1-3) Some]
      by (simp add: update_flash_data_def store_update_def)
  qed
qed

lemma slot_index_update_same:
  "i < length xs \<Longrightarrow> slot_index xs s = None \<or> slot_index xs s = Some i \<Longrightarrow>
   slot_index (xs[i := Some (s, p)]) s = Some i"
proof (induction xs arbitrary: i)
  case (Cons x xs)
  then show ?case by (cases i) (auto split: if_splits)
qed simp

lemma slot_index_update_other:
  "t \<noteq> s \<Longrightarrow> map_option fst (xs ! i) = Some s \<Longrightarrow> i < length xs \<Longrightarrow>
   slot_index (xs[i := Some (s, p)]) t = slot_index xs t"
proof (induction xs arbitrary: i)
  case (Cons x xs)
  then show ?case by (cases i) auto
qed simp

lemma lookup_store_update:
  "length xs = MAX_CREDENTIAL \<Longrightarrow> lookup (store_update s p n xs) s = Some p"
  using slot_index_update_same [of _ xs s p] slot_index_bound [of xs s]
  by (cases "slot_index xs s") (auto simp: store_update_def lookup_def)

lemma lookup_store_update_other:
  "t \<noteq> s \<Longrightarrow> slot_index xs s = Some i \<Longrightarrow> lookup (store_update s p n xs) t = lookup xs t"
  using slot_index_update_other [of t s xs i p] slot_index_bound [of xs s i] slot_index_bound [of xs t]
  by (auto simp: store_update_def lookup_def nth_list_update split: option.splits)

section \<open>The store in flash\<close>

lemma concat_le32_words_of: "length b mod 4 = 0 \<Longrightarrow> concat (map le32 (words_of b)) = b"
  by (induction b rule: words_of.induct) (simp_all add: le32_word_of_le32)

lemma le32_ones: "le32 0xFFFFFFFF = replicate 4 (CHR 0xFF)"
proof -
  have "word_of_le32 [CHR 0xFF, CHR 0xFF, CHR 0xFF, CHR 0xFF] = 0xFFFFFFFF"
    by (simp add: word_of_le32_def)
  then show ?thesis
    using le32_word_of_le32 [of "[CHR 0xFF, CHR 0xFF, CHR 0xFF, CHR 0xFF]"]
    by (simp add: numeral_eq_Suc)
qed

context eeprom_dev
begin

lemma read_words_keep:
  "mem (snd (read_words env n off h)) = mem h \<and> cr_mode env (snd (read_words env n off h)) = cr_mode env h"
  by (induction n arbitrary: off h)
    (simp_all add: case_prod_beta eeprom_read_def mmio_defs mem_read cr_read)

lemma READ_FLASH_keep:
  "mem (snd (READ_FLASH env h)) = mem h" "cr_mode env (snd (READ_FLASH env h)) = cr_mode env h"
  using read_words_keep [of 244 0 h] by (simp_all add: READ_FLASH_def case_prod_beta)

lemma read_words_image:
  assumes "mem h = eeprom_image obj m" "i + n = length obj div 4" "length obj \<le> 1024"
  shows "fst (read_words env n (word_of_nat (4 * i)) h) = drop i (words_of obj)"
  using assms
proof (induction n arbitrary: i h)
  case (Suc n)
  let ?w = "eeprom_read env (word_of_nat (4 * i)) h"
  have "4 * i + 4 \<le> length obj" using Suc.prems(2) by linarith
  then have w: "fst ?w = words_of obj ! i"
    using eeprom_read_word [OF Suc.prems(1) _ Suc.prems(3)] words_of_nth [of i obj] by simp
  have "mem (snd ?w) = eeprom_image obj m"
    using Suc.prems(1) by (simp add: eeprom_read_def mmio_defs mem_read)
  then have "fst (read_words env n (word_of_nat (4 * Suc i)) (snd ?w)) = drop (Suc i) (words_of obj)"
    using Suc.prems by (intro Suc.IH) auto
  moreover have "(word_of_nat (4 * i) + 4 :: u32) = word_of_nat (4 * Suc i)" by simp
  ultimately show ?case
    using w Suc.prems(2) by (simp add: case_prod_beta Cons_nth_drop_Suc add.commute)
qed simp

lemma READ_FLASH_image:
  assumes "mem h = eeprom_image (encode_flash_data d) m" "wf_flash_data d"
  shows "fst (READ_FLASH env h) = d"
  using read_words_image [OF assms(1), of 0 244] length_encode_flash_data [OF assms(2)]
    concat_le32_words_of [of "encode_flash_data d"] decode_encode_flash_data [OF assms(2)]
  by (simp add: READ_FLASH_def case_prod_beta)

lemma read_words_erased:
  assumes "mem h = (\<lambda>_. 0xFFFF)" "i + n \<le> 256"
  shows "fst (read_words env n (word_of_nat (4 * i)) h) = replicate n 0xFFFFFFFF"
  using assms
proof (induction n arbitrary: i h)
  case (Suc n)
  let ?a = "EEPROM_BASE_ADDR + word_of_nat (4 * i) :: u32"
  have "unat ?a = 0x0800F800 + 4 * i" using Suc.prems(2) by (intro unat_base_offset) simp
  then have "FLASH_BASE \<le> ?a" "?a < 0x08010000"
    using Suc.prems(2) by (simp_all add: word_le_nat_alt word_less_nat_alt)
  then have "fst (eeprom_read env (word_of_nat (4 * i)) h) = 0xFFFFFFFF"
    using Suc.prems(1) by (simp add: eeprom_read_def mmio_defs array_read array_word_def)
  moreover have "mem (snd (eeprom_read env (word_of_nat (4 * i)) h)) = (\<lambda>_. 0xFFFF)"
    using Suc.prems(1) by (simp add: eeprom_read_def mmio_defs mem_read)
  then have "fst (read_words env n (word_of_nat (4 * Suc i)) (snd (eeprom_read env (word_of_nat (4 * i)) h)))
      = replicate n 0xFFFFFFFF"
    using Suc.prems by (intro Suc.IH) auto
  moreover have "(word_of_nat (4 * i) + 4 :: u32) = word_of_nat (4 * Suc i)" by simp
  ultimately show ?case by (simp add: case_prod_beta add.commute)
qed simp

lemma READ_FLASH_erased:
  assumes "mem h = (\<lambda>_. 0xFFFF)"
  shows "store_ok (fst (READ_FLASH env h)) \<and> saved (fst (READ_FLASH env h)) = replicate 10 None"
proof -
  have "concat (replicate n (replicate 4 (CHR 0xFF))) = replicate (4 * n) (CHR 0xFF)" for n
    by (induction n) (simp_all flip: replicate_add)
  from this [of 244] have d: "fst (READ_FLASH env h) = decode_flash_data (replicate 976 (CHR 0xFF))"
    using read_words_erased [OF assms, of 0 244] by (simp add: READ_FLASH_def case_prod_beta le32_ones)
  have "erased_credential (decode_credential (take 97 (drop (4 + 97 * i) (replicate 976 (CHR 0xFF)))))"
    if "i < 10" for i
    using that by (simp add: decode_credential_def erased_credential_def min_def)
  then have cs: "\<forall>c \<in> set (cred_list (fst (READ_FLASH env h))). erased_credential c"
    by (auto simp: d decode_flash_data_def simp del: upt_rec_numeral)
  have len: "length (cred_list (fst (READ_FLASH env h))) = 10" "length (padding (fst (READ_FLASH env h))) = 2"
    by (simp_all add: d decode_flash_data_def)
  have "store_ok (fst (READ_FLASH env h))"
    using cs len by (auto simp: store_ok_def wf_flash_data_def list_all_iff slot_ok_def wf_credential_def
        erased_credential_def)
  moreover have "saved (fst (READ_FLASH env h)) = replicate 10 None"
    using cs len by (simp add: saved_def map_replicate_const slot_erased cong: map_cong)
  ultimately show ?thesis by blast
qed

lemma update_credential_list:
  assumes "cr_mode env h = FLASH_CR_LOCK" "store_ok (fst (READ_FLASH env h))"
    and "NUL \<notin> set s" "length s \<le> 32" "NUL \<notin> set p" "length p \<le> 63"
  shows "\<exists>d' h'. esp8266_update_credential_list env s p h = Some (d', h')
     \<and> fst (READ_FLASH env h') = d' \<and> store_ok d'
     \<and> saved d' = store_update s p (unat (next_update (fst (READ_FLASH env h)))) (saved (fst (READ_FLASH env h)))
     \<and> cr_mode env h' = FLASH_CR_LOCK \<and> fpec_only (snd (READ_FLASH env h)) h'"
proof -
  obtain d' where d': "update_flash_data s p (fst (READ_FLASH env h)) = Some d'" "store_ok d'"
    "saved d' = store_update s p (unat (next_update (fst (READ_FLASH env h)))) (saved (fst (READ_FLASH env h)))"
    using update_flash_data_refines [OF assms(2,5,6,3,4)] by blast
  have wf: "wf_flash_data d'" using d'(2) by (simp add: store_ok_def)
  then have len: "length (encode_flash_data d') = 976" by (rule length_encode_flash_data)
  obtain h' where h': "eeprom_write env (encode_flash_data d') (word_of_nat 976) (snd (READ_FLASH env h)) = Some h'"
    "mem h' = eeprom_image (encode_flash_data d') (mem (snd (READ_FLASH env h)))"
    "cr_mode env h' = FLASH_CR_LOCK" "fpec_only (snd (READ_FLASH env h)) h'"
    using eeprom_write_effect [of "snd (READ_FLASH env h)" "word_of_nat 976" "encode_flash_data d'"]
      assms(1) len READ_FLASH_keep [of h] by auto
  then have "esp8266_update_credential_list env s p h = Some (d', h')"
    using d'(1) by (simp add: esp8266_update_credential_list_def case_prod_beta)
  with h' d' READ_FLASH_image [OF h'(2) wf] show ?thesis by blast
qed

end

section \<open>Properties\<close>

text \<open>
  C4. Saving a network works: on a locked flash controller whose page holds a valid store (which an
  erased page is), \<open>esp8266_update_credential_list\<close> of an SSID of at most 32 and a password of at
  most 63 characters returns, the structure read back from flash is the one it computed, that
  structure is again a valid store, and looking up the SSID in it gives the password.
\<close>

theorem credential_saved:
  assumes "eeprom_dev env mem" "cr_mode env h = FLASH_CR_LOCK" "store_ok (fst (READ_FLASH env h))"
    and "NUL \<notin> set s" "length s \<le> 32" "NUL \<notin> set p" "length p \<le> 63"
  shows "\<exists>d' h'. esp8266_update_credential_list env s p h = Some (d', h')
     \<and> fst (READ_FLASH env h') = d' \<and> store_ok d' \<and> lookup (saved d') s = Some p
     \<and> cr_mode env h' = FLASH_CR_LOCK"
proof -
  have "length (saved (fst (READ_FLASH env h))) = MAX_CREDENTIAL"
    using assms(3) by (simp add: store_ok_def wf_flash_data_def saved_def)
  then show ?thesis
    using eeprom_dev.update_credential_list [OF assms] lookup_store_update by fastforce
qed

theorem credential_saved_witness:
  "\<exists>d' h'. esp8266_update_credential_list (sim []) ''HomeWiFi'' ''homepassword'' [] = Some (d', h')
     \<and> fst (READ_FLASH (sim []) h') = d' \<and> store_ok d' \<and> lookup (saved d') ''HomeWiFi'' = Some ''homepassword''
     \<and> cr_mode (sim []) h' = FLASH_CR_LOCK"
proof -
  have "flash_mem [] = (\<lambda>_. 0xFFFF)" "cr_mode (sim []) [] = FLASH_CR_LOCK"
    by (simp_all add: flash_mem_def fpec_of_def fpec_reset_def sim_cr_mode)
  with sim_eeprom.READ_FLASH_erased [of "[]" "[]"] show ?thesis
    by (intro credential_saved [OF sim_eeprom.eeprom_dev_axioms]) simp_all
qed

text \<open>
  Saving a network that is already in the store disturbs no other: the password of every other
  SSID, as read back from flash afterwards, is what it was.
\<close>

theorem credential_others_kept:
  assumes "eeprom_dev env mem" "cr_mode env h = FLASH_CR_LOCK" "store_ok (fst (READ_FLASH env h))"
    and "NUL \<notin> set s" "length s \<le> 32" "NUL \<notin> set p" "length p \<le> 63"
    and "lookup (saved (fst (READ_FLASH env h))) s \<noteq> None" "t \<noteq> s"
  shows "\<exists>d' h'. esp8266_update_credential_list env s p h = Some (d', h')
     \<and> lookup (saved (fst (READ_FLASH env h'))) t = lookup (saved (fst (READ_FLASH env h))) t"
proof -
  obtain i where "slot_index (saved (fst (READ_FLASH env h))) s = Some i"
    using assms(8) by (auto simp: lookup_def split: option.splits)
  from lookup_store_update_other [OF assms(9) this] eeprom_dev.update_credential_list [OF assms(1-7)]
  show ?thesis by fastforce
qed

theorem credential_others_kept_witness:
  "\<exists>h d' h'. lookup (saved (fst (READ_FLASH (sim []) h))) ''HomeWiFi'' \<noteq> None
     \<and> esp8266_update_credential_list (sim []) ''HomeWiFi'' ''new password'' h = Some (d', h')
     \<and> lookup (saved (fst (READ_FLASH (sim []) h'))) ''Office'' = lookup (saved (fst (READ_FLASH (sim []) h))) ''Office''"
proof -
  have "flash_mem [] = (\<lambda>_. 0xFFFF)" "cr_mode (sim []) [] = FLASH_CR_LOCK"
    by (simp_all add: flash_mem_def fpec_of_def fpec_reset_def sim_cr_mode)
  with sim_eeprom.READ_FLASH_erased [of "[]" "[]"]
    sim_eeprom.update_credential_list [of "[]" "[]" "''HomeWiFi''" "''homepassword''"]
  obtain h where h: "cr_mode (sim []) h = FLASH_CR_LOCK" "store_ok (fst (READ_FLASH (sim []) h))"
    "lookup (saved (fst (READ_FLASH (sim []) h))) ''HomeWiFi'' = Some ''homepassword''"
    by (auto simp: lookup_store_update)
  from credential_others_kept [OF sim_eeprom.eeprom_dev_axioms h(1,2), of "''HomeWiFi''" "''new password''" "''Office''"] h(3)
  show ?thesis by (intro exI [of _ h]) simp
qed

text \<open>
  The layout of the store is a round trip and fits the page: a well-formed structure encodes to
  \<^verbatim>\<open>sizeof(flash_data_t)\<close> = 976 bytes, a multiple of four within the 1 KB page, and decoding those
  bytes gives the structure back.
\<close>

theorem flash_data_layout:
  assumes "wf_flash_data d"
  shows "decode_flash_data (encode_flash_data d) = d \<and> length (encode_flash_data d) = 976
     \<and> length (encode_flash_data d) mod 4 = 0 \<and> length (encode_flash_data d) \<le> 1024"
  using decode_encode_flash_data [OF assms] length_encode_flash_data [OF assms] by simp

theorem flash_data_layout_witness:
  "\<exists>d. wf_flash_data d \<and> decode_flash_data (encode_flash_data d) = d \<and> length (encode_flash_data d) = 976"
proof -
  let ?d = "\<lparr>next_update = 3, cred_list = replicate 10 \<lparr>password = replicate 64 NUL, ssid = replicate 33 NUL\<rparr>,
    padding = replicate 2 NUL\<rparr>"
  have "wf_flash_data ?d" by (simp add: wf_flash_data_def wf_credential_def list_all_iff)
  with flash_data_layout [OF this] show ?thesis by blast
qed

end
