(* ===== verification/Gpio.thy ===== *)
theory Gpio
  imports Mmio
begin

text \<open>
  General-purpose I/O: \<^verbatim>\<open>libopencm3/lib/stm32/f1/gpio.c\<close> and
  \<^verbatim>\<open>lib/stm32/common/gpio_common_all.c\<close>. \<open>gpio_set_mode\<close> is shown to change exactly the
  four-bit fields of the pins it is given.
\<close>

section \<open>Registers\<close>

abbreviation (input) GPIOA :: u32 where "GPIOA \<equiv> 0x40010800"
abbreviation (input) GPIOB :: u32 where "GPIOB \<equiv> 0x40010C00"
abbreviation (input) GPIOC :: u32 where "GPIOC \<equiv> 0x40011000"

abbreviation (input) GPIO_CRL :: "u32 \<Rightarrow> u32" where "GPIO_CRL port \<equiv> port + 0x00"
abbreviation (input) GPIO_CRH :: "u32 \<Rightarrow> u32" where "GPIO_CRH port \<equiv> port + 0x04"
abbreviation (input) GPIO_IDR :: "u32 \<Rightarrow> u32" where "GPIO_IDR port \<equiv> port + 0x08"
abbreviation (input) GPIO_ODR :: "u32 \<Rightarrow> u32" where "GPIO_ODR port \<equiv> port + 0x0C"
abbreviation (input) GPIO_BSRR :: "u32 \<Rightarrow> u32" where "GPIO_BSRR port \<equiv> port + 0x10"
abbreviation (input) GPIO_LCKR :: "u32 \<Rightarrow> u32" where "GPIO_LCKR port \<equiv> port + 0x18"
abbreviation (input) GPIO_LCKK :: u32 where "GPIO_LCKK \<equiv> 0x10000"

abbreviation (input) AFIO_EVCR :: u32 where "AFIO_EVCR \<equiv> 0x40010000"
abbreviation (input) AFIO_MAPR :: u32 where "AFIO_MAPR \<equiv> 0x40010004"
abbreviation (input) AFIO_MAPR2 :: u32 where "AFIO_MAPR2 \<equiv> 0x4001001C"
abbreviation (input) AFIO_EVCR_EVOE :: u32 where "AFIO_EVCR_EVOE \<equiv> 0x80"
abbreviation (input) AFIO_MAPR_SWJ_MASK :: u32 where "AFIO_MAPR_SWJ_MASK \<equiv> 0x7000000"

abbreviation (input) GPIO_MODE_INPUT :: u8 where "GPIO_MODE_INPUT \<equiv> 0"
abbreviation (input) GPIO_MODE_OUTPUT_2_MHZ :: u8 where "GPIO_MODE_OUTPUT_2_MHZ \<equiv> 2"
abbreviation (input) GPIO_MODE_OUTPUT_50_MHZ :: u8 where "GPIO_MODE_OUTPUT_50_MHZ \<equiv> 3"
abbreviation (input) GPIO_CNF_INPUT_FLOAT :: u8 where "GPIO_CNF_INPUT_FLOAT \<equiv> 1"
abbreviation (input) GPIO_CNF_OUTPUT_PUSHPULL :: u8 where "GPIO_CNF_OUTPUT_PUSHPULL \<equiv> 0"
abbreviation (input) GPIO_CNF_OUTPUT_ALTFN_PUSHPULL :: u8 where "GPIO_CNF_OUTPUT_ALTFN_PUSHPULL \<equiv> 2"

section \<open>Operations\<close>

text \<open>One round of the loop over the pins: \<^verbatim>\<open>crl\<close> and \<^verbatim>\<open>crh\<close> after bit \<open>i\<close>.\<close>

definition gpio_mode_step :: "u8 \<Rightarrow> u8 \<Rightarrow> u16 \<Rightarrow> nat \<Rightarrow> u32 \<times> u32 \<Rightarrow> u32 \<times> u32" where
  "gpio_mode_step mode cnf gpios i = (\<lambda>(crl, crh).
     if push_bit i 1 AND gpios = 0 then (crl, crh)
     else
       let offset = (if i < 8 then i * 4 else (i - 8) * 4);
           tmp32 = (if i < 8 then crl else crh);
           tmp32 = tmp32 AND NOT (push_bit offset 0xF);
           tmp32 = tmp32 OR (push_bit offset (ucast mode) OR push_bit (offset + 2) (ucast cnf))
       in (if i < 8 then tmp32 else crl, if i \<ge> 8 then tmp32 else crh))"

definition gpio_set_mode :: "env \<Rightarrow> u32 \<Rightarrow> u8 \<Rightarrow> u8 \<Rightarrow> u16 \<Rightarrow> hist \<Rightarrow> hist" where
  "gpio_set_mode env gpioport mode cnf gpios h =
     (let (crl, h) = mmio_rd env (GPIO_CRL gpioport) h;
          (crh, h) = mmio_rd env (GPIO_CRH gpioport) h;
          (crl, crh) = fold (gpio_mode_step mode cnf gpios) [0..<16] (crl, crh)
      in mmio_wr (GPIO_CRH gpioport) crh (mmio_wr (GPIO_CRL gpioport) crl h))"

definition gpio_set_eventout :: "u8 \<Rightarrow> u8 \<Rightarrow> hist \<Rightarrow> hist" where
  "gpio_set_eventout evoutport evoutpin h =
     mmio_wr AFIO_EVCR (AFIO_EVCR_EVOE OR ucast evoutport OR ucast evoutpin) h"

definition gpio_primary_remap :: "env \<Rightarrow> u32 \<Rightarrow> u32 \<Rightarrow> hist \<Rightarrow> hist" where
  "gpio_primary_remap env swjdisable maps h =
     (let (r, h) = mmio_rd env AFIO_MAPR h; r = r AND NOT AFIO_MAPR_SWJ_MASK
      in mmio_wr AFIO_MAPR (r OR swjdisable OR maps) h)"

definition gpio_secondary_remap :: "env \<Rightarrow> u32 \<Rightarrow> hist \<Rightarrow> hist" where
  "gpio_secondary_remap env maps h = reg_or env AFIO_MAPR2 maps h"

definition gpio_set :: "u32 \<Rightarrow> u16 \<Rightarrow> hist \<Rightarrow> hist" where
  "gpio_set gpioport gpios h = mmio_wr (GPIO_BSRR gpioport) (ucast gpios) h"

definition gpio_clear :: "u32 \<Rightarrow> u16 \<Rightarrow> hist \<Rightarrow> hist" where
  "gpio_clear gpioport gpios h = mmio_wr (GPIO_BSRR gpioport) (push_bit 16 (ucast gpios)) h"

definition gpio_port_read :: "env \<Rightarrow> u32 \<Rightarrow> hist \<Rightarrow> u16 \<times> hist" where
  "gpio_port_read env gpioport h =
     (let (v, h) = mmio_rd env (GPIO_IDR gpioport) h in (ucast v, h))"

definition gpio_get :: "env \<Rightarrow> u32 \<Rightarrow> u16 \<Rightarrow> hist \<Rightarrow> u16 \<times> hist" where
  "gpio_get env gpioport gpios h =
     (let (v, h) = gpio_port_read env gpioport h in (v AND gpios, h))"

definition gpio_toggle :: "env \<Rightarrow> u32 \<Rightarrow> u16 \<Rightarrow> hist \<Rightarrow> hist" where
  "gpio_toggle env gpioport gpios h =
     (let (port, h) = mmio_rd env (GPIO_ODR gpioport) h
      in mmio_wr (GPIO_BSRR gpioport)
           (push_bit 16 (port AND ucast gpios) OR (NOT port AND ucast gpios)) h)"

definition gpio_port_write :: "u32 \<Rightarrow> u16 \<Rightarrow> hist \<Rightarrow> hist" where
  "gpio_port_write gpioport data h = mmio_wr (GPIO_ODR gpioport) (ucast data) h"

definition gpio_port_config_lock :: "env \<Rightarrow> u32 \<Rightarrow> u16 \<Rightarrow> hist \<Rightarrow> hist" where
  "gpio_port_config_lock env gpioport gpios h =
     (let h = mmio_wr (GPIO_LCKR gpioport) (GPIO_LCKK OR ucast gpios) h;
          h = mmio_wr (GPIO_LCKR gpioport) (NOT GPIO_LCKK AND ucast gpios) h;
          h = mmio_wr (GPIO_LCKR gpioport) (GPIO_LCKK OR ucast gpios) h;
          (_, h) = mmio_rd env (GPIO_LCKR gpioport) h;
          (_, h) = mmio_rd env (GPIO_LCKR gpioport) h
      in h)"

section \<open>What the port registers mean\<close>

text \<open>The configuration of pin \<open>p\<close>: MODE in the low two bits, CNF in the high two.\<close>

definition pin_config :: "u32 \<times> u32 \<Rightarrow> nat \<Rightarrow> u32" where
  "pin_config cr p = take_bit 4 (drop_bit (4 * (p mod 8)) (if p < 8 then fst cr else snd cr))"

text \<open>The output data register after a write \<open>v\<close> to the bit set and reset register.\<close>

definition odr_after_bsrr :: "u32 \<Rightarrow> u32 \<Rightarrow> u32" where
  "odr_after_bsrr v odr = (odr AND NOT (drop_bit 16 v)) OR take_bit 16 v"

section \<open>Lemmas\<close>

lemma bit_and_pin: "push_bit i 1 AND gpios = (0 :: u16) \<longleftrightarrow> \<not> bit gpios i"
proof
  assume z: "push_bit i 1 AND gpios = 0"
  show "\<not> bit gpios i"
  proof
    assume b: "bit gpios i"
    have "i < 16" using bit_imp_le_length [OF b] by simp
    with b have "bit (push_bit i 1 AND gpios) i"
      by (simp add: bit_and_iff bit_push_bit_iff del: push_bit_of_1)
    with z show False by simp
  qed
qed (auto intro!: bit_word_eqI simp: bit_simps simp del: push_bit_of_1)

lemma u8_less_4_bit: "(m :: u8) < 4 \<Longrightarrow> bit m n \<Longrightarrow> n < 2"
proof (rule ccontr)
  assume "m < 4" "bit m n" "\<not> n < 2"
  then have m: "unat m < 4" by (simp add: word_less_nat_alt)
  have "bit (unat m) n" using \<open>bit m n\<close> by (simp add: bit_unsigned_iff bit_imp_le_length)
  then have odd: "odd (unat m div 2 ^ n)" by (simp add: bit_iff_odd)
  have "(2 :: nat) ^ 2 \<le> 2 ^ n" using \<open>\<not> n < 2\<close> by (intro power_increasing) auto
  with m have "unat m div 2 ^ n = 0" by simp
  with odd show False by simp
qed

lemma bit_15_int: "bit (0xF :: int) j \<longleftrightarrow> j < 4"
  using bit_mask_iff [of 4 j, where ?'a = int] by (simp add: mask_eq_exp_minus_1)

lemma nibble_same:
  assumes "(m :: u8) < 4" "c < (4 :: u8)" "k \<le> 28"
  shows "take_bit 4 (drop_bit k ((x AND NOT (push_bit k 0xF)) OR
      (push_bit k (ucast m) OR push_bit (k + 2) (ucast c))))
    = (ucast m OR push_bit 2 (ucast c) :: u32)"
proof (rule bit_word_eqI)
  fix n
  have "bit m i \<Longrightarrow> i < 2" "bit c i \<Longrightarrow> i < 2" for i
    using u8_less_4_bit [of m i] u8_less_4_bit [of c i] assms(1,2) by simp_all
  then show "bit (take_bit 4 (drop_bit k ((x AND NOT (push_bit k 0xF)) OR
      (push_bit k (ucast m) OR push_bit (k + 2) (ucast c))))) n
    = bit (ucast m OR push_bit 2 (ucast c) :: u32) n" if "n < LENGTH(32)"
    using assms(3) that
    by (auto simp: bit_simps bit_15_int simp del: add_2_eq_Suc' push_bit_Suc) fastforce+
qed

lemma nibble_other:
  assumes "(m :: u8) < 4" "c < (4 :: u8)" "j < 8" "k < 8" "j \<noteq> k"
  shows "take_bit 4 (drop_bit (4 * j) ((x AND NOT (push_bit (4 * k) 0xF)) OR
      (push_bit (4 * k) (ucast m) OR push_bit (4 * k + 2) (ucast c)))) =
    (take_bit 4 (drop_bit (4 * j) x) :: u32)"
proof (rule bit_word_eqI)
  fix n
  have b: "bit m i \<Longrightarrow> i < 2" "bit c i \<Longrightarrow> i < 2" for i
    using u8_less_4_bit [of m i] u8_less_4_bit [of c i] assms(1,2) by simp_all
  have "\<not> (4 * k \<le> 4 * j + n \<and> 4 * j + n < 4 * k + 4)" if "n < 4"
    using that assms by linarith
  then show "bit (take_bit 4 (drop_bit (4 * j) ((x AND NOT (push_bit (4 * k) 0xF)) OR
      (push_bit (4 * k) (ucast m) OR push_bit (4 * k + 2) (ucast c))))) n
    = bit (take_bit 4 (drop_bit (4 * j) x) :: u32) n" if "n < LENGTH(32)"
    using assms(3-4) that by (auto simp: bit_simps bit_15_int dest!: b simp del: add_2_eq_Suc' push_bit_Suc)
qed

lemma pin_config_step:
  assumes "mode < 4" "cnf < 4" "i < 16" "p < 16"
  shows "pin_config (gpio_mode_step mode cnf gpios i cr) p =
    (if i = p \<and> bit gpios p then ucast mode OR push_bit 2 (ucast cnf) else pin_config cr p)"
proof -
  obtain crl crh where cr: "cr = (crl, crh)" by (cases cr)
  show ?thesis
  proof (cases "bit gpios i")
    case False
    then show ?thesis by (auto simp: gpio_mode_step_def bit_and_pin cr simp del: push_bit_of_1)
  next
    case True
    then have step: "gpio_mode_step mode cnf gpios i cr =
      (if i < 8 then (crl AND NOT (push_bit (4 * (i mod 8)) 0xF)) OR
         (push_bit (4 * (i mod 8)) (ucast mode) OR push_bit (4 * (i mod 8) + 2) (ucast cnf)) else crl,
       if i < 8 then crh else (crh AND NOT (push_bit (4 * (i mod 8)) 0xF)) OR
         (push_bit (4 * (i mod 8)) (ucast mode) OR push_bit (4 * (i mod 8) + 2) (ucast cnf)))"
      using assms(3)
      by (auto simp: gpio_mode_step_def bit_and_pin cr Let_def mult.commute le_mod_geq not_less
          simp del: push_bit_of_1 add_2_eq_Suc')
    show ?thesis
    proof (cases "i = p")
      case eq: True
      show ?thesis
        using True nibble_same [OF assms(1,2), of "4 * (p mod 8)" crl]
          nibble_same [OF assms(1,2), of "4 * (p mod 8)" crh] assms(4)
        by (cases "p < 8") (simp_all add: step [unfolded eq] pin_config_def eq
            del: push_bit_of_1 add_2_eq_Suc' take_bit_or take_bit_and drop_bit_or drop_bit_and)
    next
      case False
      have "p mod 8 \<noteq> i mod 8" if "(p < 8) = (i < 8)"
        using that False assms(3,4) by (auto simp: le_mod_geq not_less)
      then show ?thesis
        using False nibble_other [OF assms(1,2), of "p mod 8" "i mod 8"]
        by (cases "p < 8"; cases "i < 8") (simp_all add: step [unfolded cr] pin_config_def cr
            del: push_bit_of_1 add_2_eq_Suc' take_bit_or take_bit_and drop_bit_or drop_bit_and)
    qed
  qed
qed

lemma pin_config_fold:
  assumes "mode < 4" "cnf < 4" "p < 16" "set is \<subseteq> {..<16}"
  shows "pin_config (fold (gpio_mode_step mode cnf gpios) is cr) p =
    (if p \<in> set is \<and> bit gpios p then ucast mode OR push_bit 2 (ucast cnf) else pin_config cr p)"
  using assms(4)
  by (induction "is" arbitrary: cr) (auto simp: pin_config_step [OF assms(1,2) _ assms(3)])

lemma gpio_set_mode_eq [hw_simps]:
  "gpio_set_mode env port mode cnf gpios h =
    (let crs = fold (gpio_mode_step mode cnf gpios) [0..<16]
           (env h port, env (Rd32 port (env h port) # h) (GPIO_CRH port))
     in Wr32 (GPIO_CRH port) (snd crs) # Wr32 port (fst crs)
        # Rd32 (GPIO_CRH port) (env (Rd32 port (env h port) # h) (GPIO_CRH port))
        # Rd32 port (env h port) # h)"
  by (simp add: gpio_set_mode_def mmio_defs case_prod_beta Let_def)

section \<open>Properties\<close>

text \<open>
  \<open>gpio_set_mode\<close> writes the two configuration registers once each, and what it writes gives
  every pin named in \<open>gpios\<close> exactly the requested MODE and CNF bits while the four configuration
  bits of every other pin of the port keep the value that was read.
\<close>

theorem gpio_set_mode_pins:
  assumes "mode < 4" "cnf < 4" "p < 16"
  shows "\<exists>crl crh. wr_log (gpio_set_mode env port mode cnf gpios h)
         = Wr32 (GPIO_CRH port) crh # Wr32 (GPIO_CRL port) crl # wr_log h
     \<and> pin_config (crl, crh) p =
        (if bit gpios p then ucast mode OR push_bit 2 (ucast cnf)
         else pin_config (env h (GPIO_CRL port),
           env (Rd32 (GPIO_CRL port) (env h (GPIO_CRL port)) # h) (GPIO_CRH port)) p)"
proof -
  let ?crs = "fold (gpio_mode_step mode cnf gpios) [0..<16]
    (env h port, env (Rd32 port (env h port) # h) (GPIO_CRH port))"
  have "wr_log (gpio_set_mode env port mode cnf gpios h)
      = Wr32 (GPIO_CRH port) (snd ?crs) # Wr32 (GPIO_CRL port) (fst ?crs) # wr_log h"
    by (simp add: gpio_set_mode_eq Let_def)
  moreover have "pin_config (fst ?crs, snd ?crs) p =
      (if bit gpios p then ucast mode OR push_bit 2 (ucast cnf)
       else pin_config (env h port, env (Rd32 port (env h port) # h) (GPIO_CRH port)) p)"
    using pin_config_fold [OF assms, of "[0..<16]" gpios
      "(env h port, env (Rd32 port (env h port) # h) (GPIO_CRH port))"] assms(3)
    by (simp add: lessThan_atLeast0)
  ultimately show ?thesis by auto
qed

theorem gpio_set_mode_pins_witness:
  "(3 :: u8) < 4 \<and> (2 :: u8) < 4 \<and> (9 :: nat) < 16 \<and>
   (\<exists>crl crh. wr_log (gpio_set_mode (\<lambda>_ _. 0x44444444) GPIOA 3 2 0x200 [])
         = [Wr32 (GPIO_CRH GPIOA) crh, Wr32 (GPIO_CRL GPIOA) crl]
     \<and> pin_config (crl, crh) 9 = 0xB)"
  using gpio_set_mode_pins [of 3 2 9 "\<lambda>_ _. 0x44444444" GPIOA "0x200" "[]"]
  by (simp add: bit_iff_odd)

text \<open>
  \<open>gpio_toggle\<close> inverts exactly the pins it is given: the single write it makes to the bit
  set/reset register turns the output data register that was read into one that differs from it
  in the bits of \<open>gpios\<close> and nowhere else, provided the reserved upper half reads as zero.
\<close>

theorem gpio_toggle_inverts:
  assumes "take_bit 16 (env h (GPIO_ODR port)) = env h (GPIO_ODR port)"
  shows "\<exists>v. wr_log (gpio_toggle env port gpios h) = Wr32 (GPIO_BSRR port) v # wr_log h
     \<and> odr_after_bsrr v (env h (GPIO_ODR port)) = env h (GPIO_ODR port) XOR ucast gpios"
proof -
  let ?o = "env h (GPIO_ODR port)"
  let ?v = "push_bit 16 (?o AND ucast gpios) OR (NOT ?o AND ucast gpios)"
  have o: "bit ?o n \<Longrightarrow> n < 16" for n using assms by (metis bit_take_bit_iff)
  have g: "bit gpios n \<Longrightarrow> n < 16" for n using bit_imp_le_length [of gpios n] by simp
  have "odr_after_bsrr ?v ?o = ?o XOR ucast gpios"
    by (rule bit_word_eqI) (auto simp: odr_after_bsrr_def bit_simps dest: o g)
  then show ?thesis by (auto simp: gpio_toggle_def mmio_defs)
qed

theorem gpio_toggle_inverts_witness:
  "take_bit 16 (0x2001 :: u32) = 0x2001 \<and>
   (\<exists>v. wr_log (gpio_toggle (\<lambda>_ _. 0x2001) GPIOC 0x2000 []) = [Wr32 (GPIO_BSRR GPIOC) v]
     \<and> odr_after_bsrr v 0x2001 = 1)"
  using gpio_toggle_inverts [of "\<lambda>_ _. 0x2001" "[]" GPIOC "0x2000"] by simp

end
