(* ===== verification/Debug.thy ===== *)
theory Debug
  imports Clib Gpio Sim
begin

text \<open>
  \<^verbatim>\<open>sylib/debug/debug.c\<close>: the printf-style logger on USART1. The first half is the code, with
  \<open>None\<close> for the executions that have no defined result (an argument of the wrong kind or missing,
  a store past the 24-byte buffer, a read past the end of the format, signed overflow). The second
  half is a reference semantics of format strings, \<open>parse_fmt\<close> and \<open>render\<close>, that knows nothing of
  buffers or ports; the logger is shown to send exactly the rendered text, and to have no defined
  result exactly where the reference has none.
\<close>

section \<open>Set-up\<close>

abbreviation (input) DEBUG_USART :: u32 where "DEBUG_USART \<equiv> USART1"

definition RCC_GPIOB :: u32 where "RCC_GPIOB = reg_bit 0x18 3"
definition RCC_USART3 :: u32 where "RCC_USART3 = reg_bit 0x1C 18"

abbreviation (input) GPIO2 :: u16 where "GPIO2 \<equiv> 0x4"
abbreviation (input) GPIO3 :: u16 where "GPIO3 \<equiv> 0x8"
abbreviation (input) GPIO9 :: u16 where "GPIO9 \<equiv> 0x200"
abbreviation (input) GPIO10 :: u16 where "GPIO10 \<equiv> 0x400"
abbreviation (input) GPIO11 :: u16 where "GPIO11 \<equiv> 0x800"

text \<open>The clocks and pins of each choice of \<^verbatim>\<open>DEBUG_USART\<close> (a preprocessor conditional).\<close>

definition debug_pins :: "env \<Rightarrow> u32 \<Rightarrow> hist \<Rightarrow> hist" where
  "debug_pins env usart h =
     (if usart = USART1 then
        let h = rcc_periph_clock_enable env RCC_GPIOA h;
            h = rcc_periph_clock_enable env RCC_USART1 h;
            h = gpio_set_mode env GPIOA GPIO_MODE_OUTPUT_50_MHZ GPIO_CNF_OUTPUT_ALTFN_PUSHPULL GPIO9 h
        in gpio_set_mode env GPIOA GPIO_MODE_INPUT GPIO_CNF_INPUT_FLOAT GPIO10 h
      else if usart = USART2 then
        let h = rcc_periph_clock_enable env RCC_GPIOA h;
            h = rcc_periph_clock_enable env RCC_USART2 h;
            h = gpio_set_mode env GPIOA GPIO_MODE_OUTPUT_50_MHZ GPIO_CNF_OUTPUT_ALTFN_PUSHPULL GPIO2 h
        in gpio_set_mode env GPIOA GPIO_MODE_INPUT GPIO_CNF_INPUT_FLOAT GPIO3 h
      else
        let h = rcc_periph_clock_enable env RCC_GPIOB h;
            h = rcc_periph_clock_enable env RCC_USART3 h;
            h = gpio_set_mode env GPIOB GPIO_MODE_OUTPUT_50_MHZ GPIO_CNF_OUTPUT_ALTFN_PUSHPULL GPIO10 h
        in gpio_set_mode env GPIOB GPIO_MODE_INPUT GPIO_CNF_INPUT_FLOAT GPIO11 h)"

definition debug_setup :: "env \<Rightarrow> clocks \<Rightarrow> hist \<Rightarrow> hist" where
  "debug_setup env clk h =
     (let h = debug_pins env DEBUG_USART h;
          h = usart_set_baudrate clk DEBUG_USART 115200 h;
          h = usart_set_databits env DEBUG_USART 8 h;
          h = usart_set_stopbits env DEBUG_USART USART_STOPBITS_1 h;
          h = usart_set_mode env DEBUG_USART USART_MODE_TX_RX h;
          h = usart_set_parity env DEBUG_USART USART_PARITY_NONE h;
          h = usart_set_flow_control env DEBUG_USART USART_FLOWCONTROL_NONE h
      in usart_enable env DEBUG_USART h)"

section \<open>Characters and strings\<close>

definition uart_send_char :: "env \<Rightarrow> char \<Rightarrow> hist \<Rightarrow> hist option" where
  "uart_send_char env c h = usart_send_blocking env DEBUG_USART (ucast (byte_of_char c)) h"

text \<open>The loop \<^verbatim>\<open>while (*str)\<close>; a string is the list of its characters before the terminator.\<close>

fun uart_send_chars :: "env \<Rightarrow> char list \<Rightarrow> hist \<Rightarrow> hist option" where
  "uart_send_chars env [] h = Some h"
| "uart_send_chars env (c # cs) h =
     (if c = NUL then Some h
      else do { h \<leftarrow> uart_send_char env c h; uart_send_chars env cs h })"

definition uart_send_string :: "env \<Rightarrow> char list option \<Rightarrow> hist \<Rightarrow> hist option" where
  "uart_send_string env str h =
     (case str of None \<Rightarrow> uart_send_chars env ''(null)'' h | Some s \<Rightarrow> uart_send_chars env s h)"

section \<open>Numbers\<close>

text \<open>\<^verbatim>\<open>buffer[i++] = c\<close> on the buffer of 24 bytes, of which \<open>buf\<close> is the filled part.\<close>

definition buf_push :: "char \<Rightarrow> char list \<Rightarrow> char list option" where
  "buf_push c buf = (if length buf < 24 then Some (buf @ [c]) else None)"

text \<open>The loop \<^verbatim>\<open>while (unum > 0)\<close>: it ends because the buffer does.\<close>

function int_digits :: "u32 \<Rightarrow> char list \<Rightarrow> char list option" where
  "int_digits unum buf =
     (if unum > 0 then
        if length buf < 24
        then int_digits (unum div 10) (buf @ [char_of (unat (unum mod 10) + 48)])
        else None
      else Some buf)"
  by pat_completeness auto
termination
  by (relation "measure (\<lambda>(_, buf). 24 - length buf)") auto

declare int_digits.simps [simp del]

definition digits_lower :: string where "digits_lower = ''0123456789abcdef''"
definition digits_upper :: string where "digits_upper = ''0123456789ABCDEF''"

text \<open>The loop \<^verbatim>\<open>while (num > 0)\<close>; a zero base divides by zero, one above 16 leaves the table.\<close>

function uint_digits :: "char list \<Rightarrow> u32 \<Rightarrow> u32 \<Rightarrow> char list \<Rightarrow> char list option" where
  "uint_digits digits base num buf =
     (if num > 0 then
        if base \<noteq> 0 \<and> unat (num mod base) < length digits \<and> length buf < 24
        then uint_digits digits base (num div base) (buf @ [digits ! unat (num mod base)])
        else None
      else Some buf)"
  by pat_completeness auto
termination
  by (relation "measure (\<lambda>(_, _, _, buf). 24 - length buf)") auto

declare uint_digits.simps [simp del]

text \<open>The loop \<^verbatim>\<open>for (int pad = i; pad < width; pad++)\<close>, with the rounds left.\<close>

fun uart_pad :: "env \<Rightarrow> nat \<Rightarrow> bool \<Rightarrow> hist \<Rightarrow> hist option" where
  "uart_pad env 0 zero_pad h = Some h"
| "uart_pad env (Suc n) zero_pad h = do {
     h \<leftarrow> uart_send_char env (if zero_pad then CHR ''0'' else CHR '' '') h;
     uart_pad env n zero_pad h
   }"

text \<open>The loop \<^verbatim>\<open>while (i > 0) uart_send_char(buffer[--i])\<close>.\<close>

fun uart_send_buffer :: "env \<Rightarrow> char list \<Rightarrow> hist \<Rightarrow> hist option" where
  "uart_send_buffer env [] h = Some h"
| "uart_send_buffer env (c # cs) h =
     do { h \<leftarrow> uart_send_char env c h; uart_send_buffer env cs h }"

definition uart_send_int :: "env \<Rightarrow> u32 \<Rightarrow> nat \<Rightarrow> bool \<Rightarrow> hist \<Rightarrow> hist option" where
  "uart_send_int env num width zero_pad h =
     (let neg = sint num < 0 in
      if num = 0x80000000 then None
      else do {
        let unum = (if neg then - num else num);
        buf \<leftarrow> (if unum = 0 then buf_push (CHR ''0'') [] else int_digits unum []);
        buf \<leftarrow> (if neg then buf_push (CHR ''-'') buf else Some buf);
        h \<leftarrow> uart_pad env (width - length buf) zero_pad h;
        uart_send_buffer env (rev buf) h
      })"

definition uart_send_uint :: "env \<Rightarrow> u32 \<Rightarrow> u32 \<Rightarrow> bool \<Rightarrow> nat \<Rightarrow> bool \<Rightarrow> hist \<Rightarrow> hist option" where
  "uart_send_uint env num base upper width zero_pad h = do {
     let digits = (if upper then digits_upper else digits_lower);
     buf \<leftarrow> (if num = 0 then buf_push (CHR ''0'') [] else uint_digits digits base num []);
     h \<leftarrow> uart_pad env (width - length buf) zero_pad h;
     uart_send_buffer env (rev buf) h
   }"

section \<open>The format loop\<close>

text \<open>
  The arguments of the call: on this target \<^verbatim>\<open>int\<close>, \<^verbatim>\<open>long\<close>, their unsigned variants and
  pointers are all one 32-bit word; a string argument is the string it points to, or null.
\<close>

datatype va_arg = VWord u32 | VStr "char list option"

text \<open>The loop that reads the field width, an \<^verbatim>\<open>int\<close>; \<open>None\<close> when it overflows.\<close>

fun scan_width :: "nat \<Rightarrow> char list \<Rightarrow> (nat \<times> char list) option" where
  "scan_width width [] = Some (width, [])"
| "scan_width width (c # f) =
     (if is_digit c then
        let width = width * 10 + (of_char c - 48)
        in if width < 2 ^ 31 then scan_width width f else None
      else Some (width, c # f))"

definition scan_zero :: "char list \<Rightarrow> bool \<times> char list" where
  "scan_zero f = (case f of c # f' \<Rightarrow> if c = CHR ''0'' then (True, f') else (False, f) | [] \<Rightarrow> (False, f))"

definition scan_long :: "char list \<Rightarrow> char list" where
  "scan_long f = (case f of c # f' \<Rightarrow> if c = CHR ''l'' then f' else f | [] \<Rightarrow> f)"

text \<open>\<^verbatim>\<open>va_arg\<close> for the integer and pointer types, and for a string.\<close>

fun va_word :: "va_arg list \<Rightarrow> (u32 \<times> va_arg list) option" where
  "va_word (VWord w # args) = Some (w, args)"
| "va_word _ = None"

fun va_str :: "va_arg list \<Rightarrow> (char list option \<times> va_arg list) option" where
  "va_str (VStr s # args) = Some (s, args)"
| "va_str _ = None"

text \<open>Fetch the next argument, and send it.\<close>

definition va_send :: "(va_arg list \<Rightarrow> ('a \<times> va_arg list) option) \<Rightarrow> ('a \<Rightarrow> hist \<Rightarrow> hist option) \<Rightarrow>
    va_arg list \<Rightarrow> hist \<Rightarrow> (va_arg list \<times> hist) option" where
  "va_send va send args h = do {
     (x, args) \<leftarrow> va args;
     h \<leftarrow> send x h;
     Some (args, h)
   }"

definition debug_conv ::
  "env \<Rightarrow> char \<Rightarrow> nat \<Rightarrow> bool \<Rightarrow> va_arg list \<Rightarrow> hist \<Rightarrow> (va_arg list \<times> hist) option" where
  "debug_conv env c width zero_pad args h =
     (if c = CHR ''d'' \<or> c = CHR ''i'' then
        va_send va_word (\<lambda>w. uart_send_int env w width zero_pad) args h
      else if c = CHR ''u'' then
        va_send va_word (\<lambda>w. uart_send_uint env w 10 False width zero_pad) args h
      else if c = CHR ''x'' then
        va_send va_word (\<lambda>w. uart_send_uint env w 16 False width zero_pad) args h
      else if c = CHR ''X'' then
        va_send va_word (\<lambda>w. uart_send_uint env w 16 True width zero_pad) args h
      else if c = CHR ''o'' then
        va_send va_word (\<lambda>w. uart_send_uint env w 8 False width zero_pad) args h
      else if c = CHR ''p'' then do {
        h \<leftarrow> uart_send_string env (Some ''0x'') h;
        va_send va_word (\<lambda>w. uart_send_uint env w 16 False 8 True) args h
      }
      else if c = CHR ''s'' then va_send va_str (uart_send_string env) args h
      else if c = CHR ''c'' then
        va_send va_word (\<lambda>w. uart_send_char env (char_of_byte (ucast w))) args h
      else if c = CHR ''%'' then do {
        h \<leftarrow> uart_send_char env (CHR ''%'') h;
        Some (args, h)
      } else do {
        h \<leftarrow> uart_send_char env (CHR ''?'') h;
        Some (args, h)
      })"

lemma scan_width_length: "scan_width w f = Some (w', f') \<Longrightarrow> length f' \<le> length f"
  by (induction w f rule: scan_width.induct) (auto simp: Let_def split: if_splits)

lemma scan_zero_length: "length (snd (scan_zero f)) \<le> length f"
  by (auto simp: scan_zero_def split: list.splits)

lemma scan_long_length: "length (scan_long f) \<le> length f"
  by (auto simp: scan_long_def split: list.splits)

text \<open>
  The loop \<^verbatim>\<open>while (*format)\<close>. When the format ends inside a conversion the code prints \<^verbatim>\<open>?\<close> and
  then steps over the terminator, which leaves the object: there is no defined result.
\<close>

function debug_write :: "env \<Rightarrow> char list \<Rightarrow> va_arg list \<Rightarrow> hist \<Rightarrow> hist option" where
  "debug_write env [] args h = Some h"
| "debug_write env (c # f) args h =
     (if c = CHR ''%'' then
        case scan_width 0 (snd (scan_zero f)) of
          None \<Rightarrow> None
        | Some (width, f') \<Rightarrow>
            (case scan_long f' of
               [] \<Rightarrow> None
             | c' # f'' \<Rightarrow>
                 do { (args, h) \<leftarrow> debug_conv env c' width (fst (scan_zero f)) args h;
                      debug_write env f'' args h })
      else do { h \<leftarrow> uart_send_char env c h; debug_write env f args h })"
  by pat_completeness auto
termination
proof (relation "measure (\<lambda>(_, f, _, _). length f)")
  fix env c f args h a width f' c' f'' b args' h'
  assume "scan_width 0 (snd (scan_zero f)) = Some a" "(width, f') = a" "scan_long f' = c' # f''"
  then show "((env, f'', args', h'), env, c # f, args, h) \<in> measure (\<lambda>(_, f, _, _). length f)"
    using scan_width_length [of 0 "snd (scan_zero f)" width f'] scan_zero_length [of f]
      scan_long_length [of f'] by simp
qed auto

section \<open>Reference semantics of format strings\<close>

text \<open>The number that a digit string denotes.\<close>

definition digit_value :: "char \<Rightarrow> nat" where
  "digit_value c = (if is_digit c then of_char c - 48
     else if 97 \<le> (of_char c :: nat) then of_char c - 87 else of_char c - 55)"

definition number_of_text :: "nat \<Rightarrow> char list \<Rightarrow> nat" where
  "number_of_text b s = foldl (\<lambda>acc c. acc * b + digit_value c) 0 s"

definition pad_left :: "nat \<Rightarrow> bool \<Rightarrow> char list \<Rightarrow> char list" where
  "pad_left width zero s = replicate (width - length s) (if zero then CHR ''0'' else CHR '' '') @ s"

definition text_of_uint :: "char list \<Rightarrow> nat \<Rightarrow> u32 \<Rightarrow> char list" where
  "text_of_uint digits b w = map (\<lambda>d. digits ! d) (radix b (unat w))"

definition text_of_int :: "u32 \<Rightarrow> char list" where
  "text_of_int w = (if sint w < 0 then ''-'' @ text_of_uint digits_lower 10 (- w)
     else text_of_uint digits_lower 10 w)"

definition text_of_str :: "char list option \<Rightarrow> char list" where
  "text_of_str s = (case s of None \<Rightarrow> ''(null)'' | Some s \<Rightarrow> takeWhile (\<lambda>c. c \<noteq> NUL) s)"

datatype directive = Literal char | Conv bool nat char

text \<open>What a conversion consumes and the text it stands for.\<close>

definition render_arg :: "(va_arg list \<Rightarrow> ('a \<times> va_arg list) option) \<Rightarrow> ('a \<Rightarrow> char list option) \<Rightarrow>
    va_arg list \<Rightarrow> (char list \<times> va_arg list) option" where
  "render_arg va text args = (case va args of None \<Rightarrow> None
     | Some (x, args) \<Rightarrow> map_option (\<lambda>s. (s, args)) (text x))"

definition render_conv :: "bool \<Rightarrow> nat \<Rightarrow> char \<Rightarrow> va_arg list \<Rightarrow> (char list \<times> va_arg list) option" where
  "render_conv zero width c args =
     (if c = CHR ''d'' \<or> c = CHR ''i'' then render_arg va_word
        (\<lambda>w. if w = 0x80000000 then None else Some (pad_left width zero (text_of_int w))) args
      else if c = CHR ''u'' then
        render_arg va_word (\<lambda>w. Some (pad_left width zero (text_of_uint digits_lower 10 w))) args
      else if c = CHR ''x'' then
        render_arg va_word (\<lambda>w. Some (pad_left width zero (text_of_uint digits_lower 16 w))) args
      else if c = CHR ''X'' then
        render_arg va_word (\<lambda>w. Some (pad_left width zero (text_of_uint digits_upper 16 w))) args
      else if c = CHR ''o'' then
        render_arg va_word (\<lambda>w. Some (pad_left width zero (text_of_uint digits_lower 8 w))) args
      else if c = CHR ''p'' then
        render_arg va_word (\<lambda>w. Some (''0x'' @ pad_left 8 True (text_of_uint digits_lower 16 w))) args
      else if c = CHR ''s'' then render_arg va_str (\<lambda>s. Some (text_of_str s)) args
      else if c = CHR ''c'' then render_arg va_word (\<lambda>w. Some [char_of_byte (ucast w)]) args
      else if c = CHR ''%'' then Some (''%'', args)
      else Some (''?'', args))"

fun render :: "directive list \<Rightarrow> va_arg list \<Rightarrow> char list option" where
  "render [] args = Some []"
| "render (Literal c # ds) args = map_option ((#) c) (render ds args)"
| "render (Conv zero width c # ds) args =
     (case render_conv zero width c args of None \<Rightarrow> None
      | Some (s, args) \<Rightarrow> map_option ((@) s) (render ds args))"

text \<open>
  The directives of a format: after a percent sign an optional zero, the width, an optional
  \<^verbatim>\<open>l\<close>, and the conversion character. \<open>None\<close>: a format that ends inside a directive, or a width that is no
  \<^verbatim>\<open>int\<close>.
\<close>

definition width_of :: "char list \<Rightarrow> nat" where
  "width_of ds = foldl (\<lambda>w c. w * 10 + (of_char c - 48)) 0 ds"

function parse_fmt :: "char list \<Rightarrow> directive list option" where
  "parse_fmt [] = Some []"
| "parse_fmt (c # f) =
     (if c \<noteq> CHR ''%'' then map_option ((#) (Literal c)) (parse_fmt f)
      else
        let zero = (f \<noteq> [] \<and> hd f = CHR ''0'');
            f = (if zero then tl f else f);
            width = width_of (takeWhile is_digit f);
            f = dropWhile is_digit f;
            f = (if f \<noteq> [] \<and> hd f = CHR ''l'' then tl f else f)
        in if f = [] \<or> width \<ge> 2 ^ 31 then None
           else map_option ((#) (Conv zero width (hd f))) (parse_fmt (tl f)))"
  by pat_completeness auto
termination
proof (relation "measure length")
  fix c f x xa xb xc xd
  assume "xa = (if x then tl f else f)" "xc = dropWhile is_digit xa"
    "xd = (if xc \<noteq> [] \<and> hd xc = CHR ''l'' then tl xc else xc)"
  then have "length xd \<le> length f"
    using length_dropWhile_le [of is_digit xa] by (auto split: if_splits)
  then show "(tl xd, c # f) \<in> measure length" by simp
qed auto

declare parse_fmt.simps(2) [simp del]

definition render_fmt :: "char list \<Rightarrow> va_arg list \<Rightarrow> char list option" where
  "render_fmt f args = (case parse_fmt f of None \<Rightarrow> None | Some ds \<Rightarrow> render ds args)"

section \<open>The scanner\<close>

lemma foldl_width_ge: "(w :: nat) \<le> foldl (\<lambda>w c. w * 10 + (of_char c - 48)) w ds"
proof (induction ds arbitrary: w)
  case (Cons c ds)
  have "w \<le> w * 10 + (of_char c - 48)" by simp
  with Cons.IH [of "w * 10 + (of_char c - 48)"] show ?case by simp
qed simp

lemma scan_width_eq:
  "w < 2 ^ 31 \<Longrightarrow> scan_width w f =
    (let n = foldl (\<lambda>w c. w * 10 + (of_char c - 48)) w (takeWhile is_digit f)
     in if n < 2 ^ 31 then Some (n, dropWhile is_digit f) else None)"
proof (induction w f rule: scan_width.induct)
  case (2 w c f)
  show ?case
  proof (cases "is_digit c \<and> \<not> w * 10 + (of_char c - 48) < 2 ^ 31")
    case True
    then show ?thesis
      using foldl_width_ge [of "w * 10 + (of_char c - 48)" "takeWhile is_digit f"]
      by (simp add: Let_def)
  next
    case False
    with 2 show ?thesis by (auto simp: Let_def)
  qed
qed simp

lemma scan_width_parse:
  "scan_width 0 f = (if width_of (takeWhile is_digit f) < 2 ^ 31
     then Some (width_of (takeWhile is_digit f), dropWhile is_digit f) else None)"
  using scan_width_eq [of 0 f] by (simp add: width_of_def Let_def)

lemma scan_zero_eq: "scan_zero f = (let z = f \<noteq> [] \<and> hd f = CHR ''0'' in (z, if z then tl f else f))"
  by (simp add: scan_zero_def split: list.split)

lemma scan_long_eq: "scan_long f = (if f \<noteq> [] \<and> hd f = CHR ''l'' then tl f else f)"
  by (simp add: scan_long_def split: list.split)

text \<open>The reference, one directive at a time, in the terms of the scanner.\<close>

lemma render_fmt_literal:
  "c \<noteq> CHR ''%'' \<Longrightarrow> render_fmt (c # f) args = map_option ((#) c) (render_fmt f args)"
  by (simp add: render_fmt_def parse_fmt.simps(2) split: option.split)

lemma render_fmt_conv:
  "render_fmt (CHR ''%'' # f) args =
    (case scan_width 0 (snd (scan_zero f)) of None \<Rightarrow> None
     | Some (width, f') \<Rightarrow> (case scan_long f' of [] \<Rightarrow> None
       | c # f'' \<Rightarrow> (case render_conv (fst (scan_zero f)) width c args of None \<Rightarrow> None
         | Some (s, args) \<Rightarrow> map_option ((@) s) (render_fmt f'' args))))"
proof -
  define f1 where "f1 = snd (scan_zero f)"
  define w where "w = width_of (takeWhile is_digit f1)"
  define f3 where "f3 = scan_long (dropWhile is_digit f1)"
  have parse: "parse_fmt (CHR ''%'' # f) = (if f3 = [] \<or> w \<ge> 2 ^ 31 then None
      else map_option ((#) (Conv (fst (scan_zero f)) w (hd f3))) (parse_fmt (tl f3)))"
    unfolding f3_def w_def f1_def scan_long_eq scan_zero_eq Let_def fst_conv snd_conv
    by (subst parse_fmt.simps(2)) (simp only: Let_def simp_thms if_False)
  have scan: "scan_width 0 f1 = (if w < 2 ^ 31 then Some (w, dropWhile is_digit f1) else None)"
    by (simp add: scan_width_parse w_def)
  show ?thesis
  proof (cases "w < 2 ^ 31")
    case True
    then show ?thesis
      unfolding f1_def [symmetric] render_fmt_def parse scan
      by (cases f3) (auto simp: f3_def [symmetric] split: option.split)
  qed (simp add: scan parse render_fmt_def flip: f1_def)
qed

section \<open>Digits\<close>

lemma uint_digits_radix:
  assumes "2 \<le> unat base" "unat base \<le> length digits"
  shows "0 < num \<Longrightarrow> length buf + length (radix (unat base) (unat num)) \<le> 24 \<Longrightarrow>
    uint_digits digits base num buf
     = Some (buf @ rev (map (\<lambda>d. digits ! d) (radix (unat base) (unat num))))"
  using assms
proof (induction digits base num buf rule: uint_digits.induct)
  case (1 digits base num buf)
  let ?b = "unat base" and ?n = "unat num"
  have "length (radix ?b ?n) > 0" by (subst radix.simps) simp
  with 1(3) have room: "length buf < 24" by linarith
  have m: "unat (num mod base) = ?n mod ?b" "?n mod ?b < length digits" "unat (num div base) = ?n div ?b"
    using 1(4,5) by (simp_all add: unat_mod unat_div less_le_trans [OF mod_less_divisor])
  have base: "base \<noteq> 0" using 1(4) by auto
  then have step: "uint_digits digits base num buf
      = uint_digits digits base (num div base) (buf @ [digits ! (?n mod ?b)])"
    using 1(2) room m by (subst uint_digits.simps) simp
  show ?case
  proof (cases "?n < ?b")
    case True
    then have "num div base = 0" using m by (simp add: word_unat_eq_iff)
    then show ?thesis
      using True by (simp add: step uint_digits.simps [of _ _ 0] radix.simps [of ?b ?n])
  next
    case False
    then have "0 < num div base"
      using m(3) 1(4) by (simp add: word_less_nat_alt div_greater_zero_iff)
    moreover have rad: "radix ?b ?n = radix ?b (?n div ?b) @ [?n mod ?b]"
      using False 1(4) by (simp add: radix.simps [of ?b ?n])
    ultimately show ?thesis
      using 1(1) [OF 1(2)] 1(3-5) room m base by (simp add: step)
  qed
qed

lemma digits_lower_decimal: "d < 10 \<Longrightarrow> digits_lower ! d = char_of (d + 48)"
proof -
  assume "d < 10"
  then have "d \<in> set [0..<10]" by simp
  moreover have "list_all (\<lambda>d. digits_lower ! d = char_of (d + 48)) [0..<10]"
    by code_simp
  ultimately show ?thesis by (simp only: list_all_iff)
qed

lemma int_digits_uint: "int_digits unum buf = uint_digits digits_lower 10 unum buf"
proof (induction unum buf rule: int_digits.induct)
  case (1 unum buf)
  have "unat (unum mod 10) < 10" by (simp add: unat_mod)
  moreover have "length digits_lower = 16" by (simp add: digits_lower_def)
  ultimately show ?case
    using 1 digits_lower_decimal [of "unat (unum mod 10)"]
    by (subst int_digits.simps, subst uint_digits.simps) simp
qed

lemma digits_table [simp]: "length digits_lower = 16" "length digits_upper = 16"
  "digits_lower ! 0 = CHR ''0''" "digits_upper ! 0 = CHR ''0''"
  by (simp_all add: digits_lower_def digits_upper_def)

lemma uint_text_length: "8 \<le> b \<Longrightarrow> length (text_of_uint digits b w) \<le> 11"
proof -
  assume b: "8 \<le> b"
  have "(8 :: nat) ^ 11 \<le> b ^ 11" using b by (rule power_mono) simp
  moreover have "unat w < 8 ^ 11" by (rule less_le_trans [OF unat_u32_less]) simp
  ultimately have "unat w < b ^ 11" by simp
  with b show ?thesis by (simp add: text_of_uint_def radix_length)
qed

text \<open>What is in the buffer before it is sent backwards.\<close>

lemma uint_buffer:
  assumes "8 \<le> unat base" "unat base \<le> 16" "length digits = 16" "digits ! 0 = CHR ''0''"
  shows "(if num = 0 then buf_push (CHR ''0'') [] else uint_digits digits base num [])
     = Some (rev (text_of_uint digits (unat base) num))"
proof (cases "num = 0")
  case True
  with assms show ?thesis by (simp add: buf_push_def text_of_uint_def radix.simps [of "unat base" 0])
next
  case False
  have "length (radix (unat base) (unat num)) \<le> 11"
    using uint_text_length [of "unat base" digits num] assms by (simp add: text_of_uint_def)
  with False assms show ?thesis
    using uint_digits_radix [of base digits num "[]"]
    by (simp add: text_of_uint_def rev_map word_greater_zero_iff)
qed

section \<open>The logger sends what the reference renders\<close>

text \<open>
  The relation between a step of the logger and the text it should send: both have no result, or
  the step returns and its writes are those of sending the text on the port.
\<close>

definition emits :: "hist \<Rightarrow> char list option \<Rightarrow> hist option \<Rightarrow> bool" where
  "emits h out r = (case out of None \<Rightarrow> r = None
     | Some s \<Rightarrow> \<exists>h'. r = Some h' \<and> sent DEBUG_USART s h h')"

lemma emits_None [simp]: "emits h None r \<longleftrightarrow> r = None"
  by (simp add: emits_def)

lemma emits_Nil [simp]: "emits h (Some []) (Some h)"
  by (simp add: emits_def)

lemma emits_bind:
  assumes "emits h (Some s) r" "\<And>h'. emits h' out (f h')"
  shows "emits h (map_option ((@) s) out) (r \<bind> f)"
proof -
  obtain h1 where h1: "r = Some h1" "sent DEBUG_USART s h h1"
    using assms(1) by (auto simp: emits_def)
  then show ?thesis using assms(2) [of h1] by (cases out) (auto simp: emits_def intro: sent_append)
qed

lemma emits_seq:
  assumes "emits h (Some s) r" "\<And>h'. emits h' (Some t) (f h')"
  shows "emits h (Some (s @ t)) (r \<bind> f)"
  using emits_bind [OF assms] by simp

definition emits_args ::
    "hist \<Rightarrow> (char list \<times> va_arg list) option \<Rightarrow> (va_arg list \<times> hist) option \<Rightarrow> bool" where
  "emits_args h out r = (case out of None \<Rightarrow> r = None
     | Some (s, args) \<Rightarrow> \<exists>h'. r = Some (args, h') \<and> sent DEBUG_USART s h h')"

lemma emits_args_if:
  "emits_args h x y \<Longrightarrow> emits_args h x' y' \<Longrightarrow>
   emits_args h (if b then x else x') (if b then y else y')"
  by simp

lemma append_Cons_fun: "(@) [c] = (#) c"
  by (rule ext) simp

locale debug_port = usart_tx env DEBUG_USART for env
begin

lemma emits_char: "emits h (Some [c]) (uart_send_char env c h)"
  using send_char_sent [of c h] by (auto simp: emits_def uart_send_char_def)

lemma emits_chars: "emits h (Some (takeWhile (\<lambda>c. c \<noteq> NUL) s)) (uart_send_chars env s h)"
proof (induction s arbitrary: h)
  case (Cons c s)
  show ?case
    using emits_seq [OF emits_char Cons.IH, of h c] by simp
qed simp

lemma emits_string: "emits h (Some (text_of_str s)) (uart_send_string env s h)"
  using emits_chars [of h "''(null)''"] emits_chars [of h]
  by (auto simp: uart_send_string_def text_of_str_def split: option.split)

lemma emits_buffer: "emits h (Some s) (uart_send_buffer env s h)"
proof (induction s arbitrary: h)
  case (Cons c s)
  show ?case using emits_seq [OF emits_char Cons.IH, of h c] by simp
qed simp

lemma emits_pad: "emits h (Some (replicate n (if z then CHR ''0'' else CHR '' ''))) (uart_pad env n z h)"
proof (induction n arbitrary: h)
  case (Suc n)
  show ?case
    using emits_seq [OF emits_char Suc.IH, of h "if z then CHR ''0'' else CHR '' ''"] by simp
qed simp

lemma emits_padded:
  "emits h (Some (pad_left width z s))
    (uart_pad env (width - length s) z h \<bind> uart_send_buffer env s)"
  unfolding pad_left_def by (rule emits_seq [OF emits_pad emits_buffer])

lemma emits_uint:
  assumes "8 \<le> unat base" "unat base \<le> 16"
  shows "emits h (Some (pad_left width z
      (text_of_uint (if upper then digits_upper else digits_lower) (unat base) w)))
    (uart_send_uint env w base upper width z h)"
proof -
  have "(if w = 0 then buf_push (CHR ''0'') []
      else uint_digits (if upper then digits_upper else digits_lower) base w [])
    = Some (rev (text_of_uint (if upper then digits_upper else digits_lower) (unat base) w))"
    using assms by (intro uint_buffer) simp_all
  then show ?thesis
    unfolding uart_send_uint_def Let_def by (simp add: emits_padded)
qed

lemma emits_int:
  assumes "w \<noteq> 0x80000000"
  shows "emits h (Some (pad_left width z (text_of_int w))) (uart_send_int env w width z h)"
proof -
  let ?u = "if sint w < 0 then - w else w"
  have buf: "(if ?u = 0 then buf_push (CHR ''0'') [] else int_digits ?u [])
    = Some (rev (text_of_uint digits_lower 10 ?u))"
    using uint_buffer [of 10 digits_lower ?u] by (simp only: int_digits_uint) simp
  have "length (text_of_uint digits_lower 10 ?u) < 24"
    using uint_text_length [of 10 digits_lower ?u] by simp
  then show ?thesis
    unfolding uart_send_int_def Let_def buf
    using assms emits_padded [of h width z "text_of_int w"]
    by (cases "sint w < 0") (simp_all add: buf_push_def text_of_int_def)
qed

text \<open>A conversion, with the arguments it leaves.\<close>

lemma emits_va:
  assumes "\<And>x h. emits h (text x) (send x h)"
  shows "emits_args h (render_arg va text args) (va_send va send args h)"
proof (cases "va args")
  case (Some p)
  then show ?thesis
    using assms [of h "fst p"]
    by (cases p; cases "text (fst p)") (auto simp: emits_args_def emits_def va_send_def render_arg_def)
qed (simp add: emits_args_def va_send_def render_arg_def)

lemma emits_args_bind:
  assumes "emits h (Some s) r" "\<And>h'. emits_args h' (render_arg va text args) (f h')"
  shows "emits_args h (render_arg va (\<lambda>x. map_option ((@) s) (text x)) args) (r \<bind> f)"
proof -
  obtain h1 where h1: "r = Some h1" "sent DEBUG_USART s h h1"
    using assms(1) by (auto simp: emits_def)
  then show ?thesis
    using assms(2) [of h1]
    by (auto simp: emits_args_def render_arg_def intro: sent_append split: option.splits)
qed

lemma emits_args_const:
  "emits h (Some s) r \<Longrightarrow> emits_args h (Some (s, args)) (r \<bind> (\<lambda>h. Some (args, h)))"
  by (auto simp: emits_def emits_args_def)

lemma conv_renders: "emits_args h (render_conv z width c args) (debug_conv env c width z args h)"
proof -
  have int: "emits h (if w = 0x80000000 then None else Some (pad_left width z (text_of_int w)))
      (uart_send_int env w width z h)" for w h
    using emits_int [of w h width z] by (simp add: uart_send_int_def Let_def)
  have ptr: "emits_args h (render_arg va_word
      (\<lambda>w. Some (''0x'' @ pad_left 8 True (text_of_uint digits_lower 16 w))) args)
    (uart_send_string env (Some ''0x'') h \<bind>
      va_send va_word (\<lambda>w. uart_send_uint env w 16 False 8 True) args)"
    using emits_args_bind [OF emits_string [of h "Some ''0x''"]
        emits_va [of "\<lambda>w. Some (pad_left 8 True (text_of_uint digits_lower 16 w))"]]
      emits_uint [of 16 _ 8 True False] by (simp add: text_of_str_def)
  note uint = emits_uint [of 10 _ width z False, simplified] emits_uint [of 16 _ width z False, simplified]
    emits_uint [of 16 _ width z True, simplified] emits_uint [of 8 _ width z False, simplified]
  show ?thesis
    unfolding render_conv_def debug_conv_def
    by (intro emits_args_if emits_va int uint ptr emits_string emits_char emits_args_const)
qed

lemma emits_args_write:
  assumes "emits_args h (render_conv z width c args) r"
    and "\<And>args h. emits h (render_fmt f args) (debug_write env f args h)"
  shows "emits h (case render_conv z width c args of None \<Rightarrow> None
      | Some (s, args) \<Rightarrow> map_option ((@) s) (render_fmt f args))
    (r \<bind> (\<lambda>(args, h). debug_write env f args h))"
proof (cases "render_conv z width c args")
  case (Some p)
  obtain s args' where p: "p = (s, args')" by (cases p)
  obtain h1 where h1: "r = Some (args', h1)" "sent DEBUG_USART s h h1"
    using assms(1) by (auto simp: emits_args_def Some p)
  then show ?thesis
    using assms(2) [of h1 args'] by (auto simp: Some p emits_def intro: sent_append split: option.splits)
qed (use assms(1) in \<open>simp add: emits_args_def\<close>)

lemma write_renders: "emits h (render_fmt f args) (debug_write env f args h)"
proof (induction f arbitrary: args h rule: length_induct)
  case (1 f)
  show ?case
  proof (cases f)
    case (Cons c g)
    show ?thesis
    proof (cases "c = CHR ''%''")
      case False
      have "emits h (map_option ((@) [c]) (render_fmt g args)) (debug_write env f args h)"
        using emits_bind [OF emits_char [of h c], of "render_fmt g args" "debug_write env g args"] 1
        by (simp add: Cons False)
      then show ?thesis
        by (simp add: Cons False render_fmt_literal append_Cons_fun)
    next
      case True
      let ?w = "scan_width 0 (snd (scan_zero g))"
      show ?thesis
      proof (cases ?w)
        case None
        then show ?thesis by (simp add: Cons True render_fmt_conv)
      next
        case w: (Some p)
        obtain width g' where p: "p = (width, g')" by (cases p)
        show ?thesis
        proof (cases "scan_long g'")
          case Nil
          then show ?thesis by (simp add: Cons True render_fmt_conv w p)
        next
          case (Cons c' k)
          have "length k < length f"
            using w p scan_width_length [of 0 "snd (scan_zero g)" width g'] scan_zero_length [of g]
              scan_long_length [of g'] \<open>f = c # g\<close> Cons by simp
          with 1 have "emits h (render_fmt k args) (debug_write env k args h)" for args h by blast
          from emits_args_write [OF conv_renders this, of h "fst (scan_zero g)" width c' args]
          show ?thesis by (simp add: \<open>f = c # g\<close> True render_fmt_conv w p Cons)
        qed
      qed
    qed
  qed (simp add: render_fmt_def)
qed

end

interpretation sim_debug: debug_port "sim rx" for rx
  by unfold_locales

section \<open>Digit strings denote their number\<close>

lemma digit_value_table:
  "d < 16 \<Longrightarrow> digit_value (digits_lower ! d) = d" "d < 16 \<Longrightarrow> digit_value (digits_upper ! d) = d"
proof -
  have "list_all (\<lambda>d. digit_value (digits_lower ! d) = d \<and> digit_value (digits_upper ! d) = d) [0..<16]"
    by code_simp
  then show "d < 16 \<Longrightarrow> digit_value (digits_lower ! d) = d" "d < 16 \<Longrightarrow> digit_value (digits_upper ! d) = d"
    by (simp_all only: list_all_iff) simp_all
qed

lemma number_of_text_uint:
  assumes "2 \<le> b" "b \<le> 16" "digits = digits_lower \<or> digits = digits_upper"
  shows "number_of_text b (text_of_uint digits b w) = unat w"
proof -
  have "foldl (\<lambda>acc c. acc * b + digit_value c) a (map (\<lambda>d. digits ! d) ds) = foldl (\<lambda>acc d. acc * b + d) a ds"
    if "\<And>d. d \<in> set ds \<Longrightarrow> d < b" for a ds
    using that
  proof (induction ds arbitrary: a)
    case (Cons d ds)
    then have "d < 16" using assms(2) by fastforce
    with Cons assms(3) digit_value_table show ?case by auto
  qed simp
  then show ?thesis
    using radix_value [OF assms(1), of "unat w"] radix_digits [OF assms(1)]
    by (simp add: number_of_text_def text_of_uint_def)
qed

text \<open>The integer that a decimal text with an optional sign denotes.\<close>

definition integer_of_text :: "char list \<Rightarrow> int" where
  "integer_of_text s = (if s \<noteq> [] \<and> hd s = CHR ''-'' then - int (number_of_text 10 (tl s))
     else int (number_of_text 10 s))"

lemma uint_of_sint:
  "0 \<le> sint (w :: u32) \<Longrightarrow> int (unat w) = sint w"
  "sint (w :: u32) < 0 \<Longrightarrow> int (unat (- w)) = - sint w"
proof -
  have range: "- (2 ^ 31) \<le> sint w" "sint w < 2 ^ 31" using sint_ge [of w] sint_lt [of w] by simp_all
  have w: "w = word_of_int (sint w)" "- w = word_of_int (- sint w)" by simp_all
  have mod: "uint (word_of_int k :: u32) = k" if "0 \<le> k" "k < 2 ^ 32" for k
    using that by (simp add: unsigned_of_int take_bit_eq_mod)
  show "int (unat w) = sint w" if "0 \<le> sint w"
    using mod [of "sint w"] that range by (subst w(1)) simp
  show "int (unat (- w)) = - sint w" if "sint w < 0"
    using mod [of "- sint w"] that range by (subst w(2)) simp
qed

lemma text_of_uint_digits:
  "c \<in> set (text_of_uint digits_lower 10 w) \<Longrightarrow> is_digit c"
proof -
  assume "c \<in> set (text_of_uint digits_lower 10 w)"
  then obtain d :: nat where "d < 10" "c = char_of (d + 48)"
    using radix_digits [of 10 _ "unat w"] by (auto simp: text_of_uint_def digits_lower_decimal)
  then show ?thesis by (simp add: is_digit_def)
qed

lemma text_of_uint_ne [simp]: "text_of_uint digits b w \<noteq> []"
  by (simp add: text_of_uint_def radix.simps [of b])

lemma integer_of_text_int: "integer_of_text (text_of_int w) = sint w"
proof -
  have "is_digit (hd (text_of_uint digits_lower 10 w))"
    by (rule text_of_uint_digits [of _ w]) simp
  moreover have "\<not> is_digit (CHR ''-'')" by (simp add: is_digit_def)
  ultimately have "hd (text_of_uint digits_lower 10 w) \<noteq> CHR ''-''" by metis
  then show ?thesis
    using uint_of_sint [of w]
    by (auto simp: integer_of_text_def text_of_int_def number_of_text_uint)
qed

section \<open>Properties\<close>

text \<open>
  C16. The logger implements its reference semantics: on a port whose transmitter becomes ready, for
  every format and every argument list, \<open>debug_write\<close> returns exactly when the format and the
  arguments have a rendering, and then it has sent that rendering and nothing else; in particular
  the 24-byte digit buffers never overflow.
\<close>

theorem debug_write_renders:
  assumes "debug_port env"
  shows "case render_fmt f args of
      None \<Rightarrow> debug_write env f args h = None
    | Some s \<Rightarrow> \<exists>h'. debug_write env f args h = Some h'
        \<and> uart_out DEBUG_USART h' = uart_out DEBUG_USART h @ s"
  using debug_port.write_renders [OF assms, of h f args]
  by (cases "render_fmt f args") (auto simp: emits_def dest!: sent_uart_out)

theorem debug_write_renders_witness:
  "\<exists>h'. debug_write (sim []) ''v%02x:%s'' [VWord 10, VStr (Some ''ok'')] [] = Some h'
     \<and> uart_out DEBUG_USART h' = ''v0a:ok''"
proof -
  have "render_fmt ''v%02x:%s'' [VWord 10, VStr (Some ''ok'')]
      = Some ''v0a:ok''"
    by (simp add: render_fmt_def parse_fmt.simps(2) is_digit_def width_of_def render_conv_def
        render_arg_def pad_left_def text_of_uint_def radix.simps digits_lower_def text_of_str_def)
  then show ?thesis
    using debug_write_renders [OF sim_debug.debug_port_axioms, where f = "''v%02x:%s''"
        and args = "[VWord 10, VStr (Some ''ok'')]" and h = "[]"] by simp
qed

text \<open>
  Numbers survive printing: the text that \<^verbatim>\<open>%u\<close>, \<^verbatim>\<open>%x\<close>, \<^verbatim>\<open>%X\<close> and \<^verbatim>\<open>%o\<close> send, read back in the
  base of the conversion, is the argument, for every 32-bit value.
\<close>

theorem debug_write_unsigned_roundtrip:
  assumes "debug_port env" "(c, b) \<in> {(CHR ''u'', 10), (CHR ''x'', 16), (CHR ''X'', 16), (CHR ''o'', 8)}"
  shows "\<exists>h' s. debug_write env [CHR ''%'', c] [VWord w] h = Some h'
     \<and> uart_out DEBUG_USART h' = uart_out DEBUG_USART h @ s \<and> number_of_text b s = unat w"
proof -
  let ?s = "text_of_uint (if c = CHR ''X'' then digits_upper else digits_lower) b w"
  have "render_fmt [CHR ''%'', c] [VWord w] = Some ?s"
    using assms(2)
    by (auto simp: render_fmt_def parse_fmt.simps(2) is_digit_def width_of_def render_conv_def
        render_arg_def pad_left_def)
  moreover have "number_of_text b ?s = unat w"
    using assms(2) by (intro number_of_text_uint) auto
  ultimately show ?thesis
    using debug_port.write_renders [OF assms(1), of h "[CHR ''%'', c]" "[VWord w]"]
    by (auto simp: emits_def dest!: sent_uart_out)
qed

theorem debug_write_unsigned_roundtrip_witness:
  "\<exists>h' s. debug_write (sim []) ''%x'' [VWord 0xCAFE] [] = Some h'
     \<and> uart_out DEBUG_USART h' = s \<and> number_of_text 16 s = 0xCAFE"
  using debug_write_unsigned_roundtrip [OF sim_debug.debug_port_axioms, of "CHR ''x''" 16 "[]" "0xCAFE" "[]"]
  by simp

text \<open>
  The text that \<^verbatim>\<open>%d\<close> sends, read back as a signed decimal, is the argument, for every
  \<^verbatim>\<open>int\<close> except the smallest, whose negation overflows.
\<close>

theorem debug_write_signed_roundtrip:
  assumes "debug_port env" "w \<noteq> 0x80000000"
  shows "\<exists>h' s. debug_write env ''%d'' [VWord w] h = Some h'
     \<and> uart_out DEBUG_USART h' = uart_out DEBUG_USART h @ s \<and> integer_of_text s = sint w"
proof -
  have "render_fmt ''%d'' [VWord w] = Some (text_of_int w)"
    using assms(2) by (simp add: render_fmt_def parse_fmt.simps(2) is_digit_def width_of_def
        render_conv_def render_arg_def pad_left_def)
  then show ?thesis
    using debug_port.write_renders [OF assms(1), of h "''%d''" "[VWord w]"] integer_of_text_int [of w]
    by (auto simp: emits_def dest!: sent_uart_out)
qed

theorem debug_write_signed_roundtrip_witness:
  "(- 42 :: u32) \<noteq> 0x80000000 \<and> (\<exists>h' s. debug_write (sim []) ''%d'' [VWord (- 42)] [] = Some h'
     \<and> uart_out DEBUG_USART h' = s \<and> integer_of_text s = - 42)"
  using debug_write_signed_roundtrip [OF sim_debug.debug_port_axioms, of "- 42" "[]" "[]"] by simp

text \<open>
  Zero padding goes in front of the sign: a negative number that is narrower than a zero-padded
  field is sent with its zeros before the minus, so that \<^verbatim>\<open>%04d\<close> of -5 reads \<^verbatim>\<open>00-5\<close>.
\<close>

theorem debug_write_zero_pad_sign:
  assumes "debug_port env" "w \<noteq> 0x80000000" "sint w < 0"
  shows "\<exists>h' s. debug_write env ''%09d'' [VWord w] h = Some h' \<and> hd s = CHR ''-''
     \<and> uart_out DEBUG_USART h' = uart_out DEBUG_USART h @ replicate (9 - length s) (CHR ''0'') @ s"
proof -
  have "render_fmt ''%09d'' [VWord w] = Some (pad_left 9 True (text_of_int w))"
    using assms(2) by (simp add: render_fmt_def parse_fmt.simps(2) is_digit_def width_of_def
        render_conv_def render_arg_def)
  moreover have "hd (text_of_int w) = CHR ''-''" using assms(3) by (simp add: text_of_int_def)
  ultimately show ?thesis
    using debug_port.write_renders [OF assms(1), of h "''%09d''" "[VWord w]"]
    by (auto simp: emits_def pad_left_def dest!: sent_uart_out)
qed

theorem debug_write_zero_pad_sign_witness:
  "(- 5 :: u32) \<noteq> 0x80000000 \<and> sint (- 5 :: u32) < 0 \<and>
   (\<exists>h' s. debug_write (sim []) ''%09d'' [VWord (- 5)] [] = Some h' \<and> hd s = CHR ''-''
     \<and> uart_out DEBUG_USART h' = replicate (9 - length s) (CHR ''0'') @ s)"
  using debug_write_zero_pad_sign [OF sim_debug.debug_port_axioms, of "- 5" "[]" "[]"] by simp

text \<open>
  A format that ends in a percent sign has no defined result, whatever the arguments and the
  hardware: after printing a question mark the loop steps over the terminator of the string.
\<close>

theorem debug_write_trailing_percent:
  assumes "CHR ''%'' \<notin> set f"
  shows "debug_write env (f @ ''%'') args h = None"
  using assms
  by (induction f arbitrary: h)
    (auto simp: scan_zero_def scan_long_def bind_eq_None_conv)

theorem debug_write_trailing_percent_witness:
  "CHR ''%'' \<notin> set ''battery 80'' \<and> debug_write (sim []) ''battery 80%'' [] [] = None"
  using debug_write_trailing_percent [of "''battery 80''" "sim []" "[]" "[]"] by simp

end
