(* ===== verification/Nvic.thy ===== *)
theory Nvic
  imports Mmio
begin

text \<open>
  The interrupt controller: \<^verbatim>\<open>libopencm3/lib/cm3/nvic.c\<close> on ARMv7-M. Interrupt numbers are those
  that \<^verbatim>\<open>include/libopencm3/stm32/f1/irq.json\<close> assigns.
\<close>

section \<open>Registers\<close>

abbreviation (input) NVIC_BASE :: u32 where "NVIC_BASE \<equiv> 0xE000E100"
abbreviation (input) SCS_BASE :: u32 where "SCS_BASE \<equiv> 0xE000E000"
abbreviation (input) NVIC_STIR :: u32 where "NVIC_STIR \<equiv> 0xE000EF00"

text \<open>The set-enable, clear-enable, set-pending, clear-pending and active banks.\<close>

abbreviation (input) NVIC_ISER :: "u32 \<Rightarrow> u32" where "NVIC_ISER i \<equiv> NVIC_BASE + 0x00 + i * 4"
abbreviation (input) NVIC_ICER :: "u32 \<Rightarrow> u32" where "NVIC_ICER i \<equiv> NVIC_BASE + 0x80 + i * 4"
abbreviation (input) NVIC_ISPR :: "u32 \<Rightarrow> u32" where "NVIC_ISPR i \<equiv> NVIC_BASE + 0x100 + i * 4"
abbreviation (input) NVIC_ICPR :: "u32 \<Rightarrow> u32" where "NVIC_ICPR i \<equiv> NVIC_BASE + 0x180 + i * 4"
abbreviation (input) NVIC_IABR :: "u32 \<Rightarrow> u32" where "NVIC_IABR i \<equiv> NVIC_BASE + 0x200 + i * 4"
abbreviation (input) NVIC_IPR :: "u32 \<Rightarrow> u32" where "NVIC_IPR i \<equiv> NVIC_BASE + 0x300 + i"
abbreviation (input) SCB_SHPR :: "u32 \<Rightarrow> u32" where "SCB_SHPR i \<equiv> SCS_BASE + 0xD18 + i"

abbreviation (input) NVIC_USART1_IRQ :: u8 where "NVIC_USART1_IRQ \<equiv> 37"
abbreviation (input) NVIC_USART2_IRQ :: u8 where "NVIC_USART2_IRQ \<equiv> 38"
abbreviation (input) NVIC_IRQ_COUNT :: u8 where "NVIC_IRQ_COUNT \<equiv> 68"

text \<open>\<^verbatim>\<open>irqn / 32\<close> and \<^verbatim>\<open>1 << (irqn % 32)\<close>.\<close>

definition irq_word :: "u8 \<Rightarrow> u32" where
  "irq_word irqn = ucast (irqn div 32)"

definition irq_bit :: "u8 \<Rightarrow> u32" where
  "irq_bit irqn = push_bit (unat (irqn mod 32)) 1"

section \<open>Operations\<close>

definition nvic_enable_irq :: "u8 \<Rightarrow> hist \<Rightarrow> hist" where
  "nvic_enable_irq irqn h = mmio_wr (NVIC_ISER (irq_word irqn)) (irq_bit irqn) h"

definition nvic_disable_irq :: "u8 \<Rightarrow> hist \<Rightarrow> hist" where
  "nvic_disable_irq irqn h = mmio_wr (NVIC_ICER (irq_word irqn)) (irq_bit irqn) h"

definition nvic_get_pending_irq :: "env \<Rightarrow> u8 \<Rightarrow> hist \<Rightarrow> u8 \<times> hist" where
  "nvic_get_pending_irq env irqn h =
     (let (r, h) = mmio_rd env (NVIC_ISPR (irq_word irqn)) h
      in (if r AND irq_bit irqn \<noteq> 0 then 1 else 0, h))"

definition nvic_set_pending_irq :: "u8 \<Rightarrow> hist \<Rightarrow> hist" where
  "nvic_set_pending_irq irqn h = mmio_wr (NVIC_ISPR (irq_word irqn)) (irq_bit irqn) h"

definition nvic_clear_pending_irq :: "u8 \<Rightarrow> hist \<Rightarrow> hist" where
  "nvic_clear_pending_irq irqn h = mmio_wr (NVIC_ICPR (irq_word irqn)) (irq_bit irqn) h"

definition nvic_get_irq_enabled :: "env \<Rightarrow> u8 \<Rightarrow> hist \<Rightarrow> u8 \<times> hist" where
  "nvic_get_irq_enabled env irqn h =
     (let (r, h) = mmio_rd env (NVIC_ISER (irq_word irqn)) h
      in (if r AND irq_bit irqn \<noteq> 0 then 1 else 0, h))"

definition nvic_set_priority :: "u8 \<Rightarrow> u8 \<Rightarrow> hist \<Rightarrow> hist" where
  "nvic_set_priority irqn priority h =
     (if irqn \<ge> NVIC_IRQ_COUNT
      then mmio_wr8 (SCB_SHPR (ucast (irqn AND 0xF) - 4)) priority h
      else mmio_wr8 (NVIC_IPR (ucast irqn)) priority h)"

definition nvic_get_active_irq :: "env \<Rightarrow> u8 \<Rightarrow> hist \<Rightarrow> u8 \<times> hist" where
  "nvic_get_active_irq env irqn h =
     (let (r, h) = mmio_rd env (NVIC_IABR (irq_word irqn)) h
      in (if r AND irq_bit irqn \<noteq> 0 then 1 else 0, h))"

definition nvic_generate_software_interrupt :: "env \<Rightarrow> u16 \<Rightarrow> hist \<Rightarrow> hist" where
  "nvic_generate_software_interrupt env irqn h =
     (if irqn \<le> 239 then reg_or env NVIC_STIR (ucast irqn) h else h)"

section \<open>The enabled interrupts\<close>

text \<open>
  The write-one-to-set and write-one-to-clear registers keep one set of enabled interrupts; an
  interrupt is enabled when its set-enable bit was written after its clear-enable bit.
\<close>

fun irq_on :: "u8 \<Rightarrow> hist \<Rightarrow> bool" where
  "irq_on irqn [] = False"
| "irq_on irqn (Wr32 a v # h) =
     (if a = NVIC_ISER (irq_word irqn) \<and> v AND irq_bit irqn \<noteq> 0 then True
      else if a = NVIC_ICER (irq_word irqn) \<and> v AND irq_bit irqn \<noteq> 0 then False
      else irq_on irqn h)"
| "irq_on irqn (_ # h) = irq_on irqn h"

lemma irq_bit_and: "irq_bit i AND irq_bit j = 0 \<longleftrightarrow> i mod 32 \<noteq> j mod 32"
proof -
  have lt: "unat (i mod 32) < 32" for i :: u8
    by (simp add: unat_mod)
  show ?thesis
  proof (cases "i mod 32 = j mod 32")
    case True
    have "bit (irq_bit j) (unat (j mod 32))"
      using lt [of j] by (simp add: irq_bit_def bit_push_bit_iff del: push_bit_of_1)
    then have "irq_bit j \<noteq> 0" by auto
    moreover have "irq_bit i = irq_bit j" using True by (simp add: irq_bit_def)
    ultimately show ?thesis using True by simp
  next
    case False
    then have ne: "unat (i mod 32) \<noteq> unat (j mod 32)" by (simp add: word_unat_eq_iff)
    have "irq_bit i AND irq_bit j = 0"
      by (rule bit_word_eqI) (use ne in \<open>auto simp: irq_bit_def bit_simps simp del: push_bit_of_1\<close>)
    with False show ?thesis by simp
  qed
qed

lemma irq_word_eq: "irq_word i = irq_word j \<longleftrightarrow> i div 32 = j div 32"
proof
  assume "irq_word i = irq_word j"
  then have "unat (ucast (i div 32) :: u32) = unat (ucast (j div 32) :: u32)"
    by (simp only: irq_word_def)
  then show "i div 32 = j div 32" by (simp add: word_unat_eq_iff)
qed (simp add: irq_word_def)

lemma irq_word_less: "unat (irq_word i) < 8"
  by (simp add: irq_word_def unat_div less_mult_imp_div_less)

lemma irq_same: "i div 32 = j div 32 \<Longrightarrow> i mod 32 = j mod 32 \<Longrightarrow> i = (j :: u8)"
  by (metis word_mod_div_equality)

lemma unat_bank: "b < 0x300 \<Longrightarrow>
  unat (word_of_nat b + irq_word i * 4) = b + unat (irq_word i) * 4"
  using irq_word_less [of i] by (simp add: unat_word_ariths unat_of_nat)

text \<open>The registers of two banks never coincide.\<close>

lemma bank_eq [simp]:
  "irq_word i * 4 = irq_word j * 4 \<longleftrightarrow> irq_word i = irq_word j"
  "irq_word i * 4 \<noteq> 0x80 + irq_word j * 4"
  "0x80 + irq_word i * 4 \<noteq> irq_word j * 4"
  using unat_bank [of 0 i] unat_bank [of 0 j] unat_bank [of "0x80" i] unat_bank [of "0x80" j]
    irq_word_less [of i] irq_word_less [of j]
  by (auto simp: word_unat_eq_iff)

section \<open>Properties\<close>

text \<open>
  \<open>nvic_enable_irq\<close> and \<open>nvic_disable_irq\<close> act on the interrupt they are given and on no
  other: with the write-one semantics of the enable registers, afterwards the enabled interrupts are
  those of before with that one added, respectively removed, for every interrupt number.
\<close>

theorem nvic_irq_set:
  "irq_on j (nvic_enable_irq i h) = (j = i \<or> irq_on j h)
   \<and> irq_on j (nvic_disable_irq i h) = (j \<noteq> i \<and> irq_on j h)"
proof -
  have "irq_word i = irq_word j \<and> irq_bit i AND irq_bit j \<noteq> 0 \<longleftrightarrow> i = j"
    by (auto simp: irq_bit_and irq_word_eq intro: irq_same)
  then show ?thesis
    by (auto simp: nvic_enable_irq_def nvic_disable_irq_def mmio_defs)
qed

end
