(* ===== verification/Esp8266.thy ===== *)
theory Esp8266
  imports Credentials Debug Nvic
begin

text \<open>
  \<^verbatim>\<open>sylib/esp8266/esp8266.c\<close>: the driver of the ESP8266 WiFi module on USART2, in the build with
  \<^verbatim>\<open>ESP8266_MULTI_CONNECTION\<close> set (its default) and the single-connection variants beside it. The
  statics of the file are the record \<open>esp8266\<close>; its last field is the history of register accesses.
  Every function is a state transformer with \<open>None\<close> for an execution that has no defined result
  (an access outside an array, a string without terminator, a wait that never ends). The handler
  that the application registers is a function pointer; what it does is the parameter \<open>call\<close>.
\<close>

section \<open>State\<close>

abbreviation (input) WIFI_USART :: u32 where "WIFI_USART \<equiv> USART2"
abbreviation (input) ESP8266_MAX_LINK_ID :: u8 where "ESP8266_MAX_LINK_ID \<equiv> 4"
abbreviation (input) ESP8266_HTTP_REQUEST_MAX_LEN :: nat where "ESP8266_HTTP_REQUEST_MAX_LEN \<equiv> 256"

abbreviation (input) CR :: char where "CR \<equiv> CHR 0x0D"
abbreviation (input) LF :: char where "LF \<equiv> CHR 0x0A"
abbreviation (input) CRLF :: "char list" where "CRLF \<equiv> [CR, LF]"
abbreviation (input) DQUOTE :: char where "DQUOTE \<equiv> CHR 0x22"

datatype esp8266_pending_cmd_t =
    ESP8266_CMD_NONE
  | ESP8266_CMD_CHECK
  | ESP8266_CMD_SET_MODE
  | ESP8266_CMD_CONNECT
  | ESP8266_CMD_DISCONNECT
  | ESP8266_CMD_RESET
  | ESP8266_CMD_GET_IP
  | ESP8266_CMD_GET_CONNECTION_STATUS
  | ESP8266_CMD_SCAN_WIFI
  | ESP8266_CMD_AP

record esp8266 =
  flash_data :: flash_data_t
  g_ssid :: "char list"
  g_password :: "char list"
  buffer_isr :: "char list"
  buffer_handle :: "char list"
  terminated :: bool
  receiving_ipd_payload :: bool
  ipd_bytes_remaining :: u16
  ipd_link_id :: u8
  ipd_payload :: "char list"
  ipd_payload_len :: u16
  http_request_handler :: "nat option"
  esp8266_pending_cmd :: esp8266_pending_cmd_t
  char_index :: u16
  bus :: hist

text \<open>The statics before \<^verbatim>\<open>main\<close>: everything is zero.\<close>

definition flash_data_zero :: flash_data_t where
  "flash_data_zero = \<lparr>next_update = 0,
     cred_list = replicate MAX_CREDENTIAL \<lparr>password = replicate 64 NUL, ssid = replicate 33 NUL\<rparr>,
     padding = replicate 2 NUL\<rparr>"

definition esp8266_init :: "hist \<Rightarrow> esp8266" where
  "esp8266_init h = \<lparr>flash_data = flash_data_zero, g_ssid = replicate 33 NUL,
     g_password = replicate 64 NUL, buffer_isr = replicate 512 NUL, buffer_handle = replicate 512 NUL,
     terminated = False, receiving_ipd_payload = False, ipd_bytes_remaining = 0, ipd_link_id = 0,
     ipd_payload = replicate ESP8266_HTTP_REQUEST_MAX_LEN NUL, ipd_payload_len = 0,
     http_request_handler = None, esp8266_pending_cmd = ESP8266_CMD_NONE, char_index = 0, bus = h\<rparr>"

type_synonym http_call = "nat \<Rightarrow> u8 \<Rightarrow> char list \<Rightarrow> u16 \<Rightarrow> esp8266 \<Rightarrow> esp8266 option"

section \<open>Sending\<close>

definition wifi_send_char :: "env \<Rightarrow> char \<Rightarrow> esp8266 \<Rightarrow> esp8266 option" where
  "wifi_send_char env c st = do {
     h \<leftarrow> usart_send_blocking env WIFI_USART (ucast (byte_of_char c)) (bus st);
     Some (st\<lparr>bus := h\<rparr>)
   }"

fun wifi_send_string :: "env \<Rightarrow> char list \<Rightarrow> esp8266 \<Rightarrow> esp8266 option" where
  "wifi_send_string env [] st = Some st"
| "wifi_send_string env (c # s) st =
     (if c = NUL then Some st
      else do { st \<leftarrow> wifi_send_char env c st; wifi_send_string env s st })"

text \<open>\<^verbatim>\<open>snprintf\<close> into a command buffer of \<open>n\<close> bytes, then send it.\<close>

definition at_send :: "env \<Rightarrow> nat \<Rightarrow> char list \<Rightarrow> esp8266 \<Rightarrow> esp8266 option" where
  "at_send env n s st = wifi_send_string env (snprintf_text n s) st"

definition esp_debug :: "env \<Rightarrow> char list \<Rightarrow> va_arg list \<Rightarrow> esp8266 \<Rightarrow> esp8266 option" where
  "esp_debug env f args st = do {
     h \<leftarrow> debug_write env f args (bus st);
     Some (st\<lparr>bus := h\<rparr>)
   }"

section \<open>Set-up\<close>

abbreviation (input) NVIC_USART3_IRQ :: u8 where "NVIC_USART3_IRQ \<equiv> 39"

definition wifi_pins :: "env \<Rightarrow> u32 \<Rightarrow> hist \<Rightarrow> hist" where
  "wifi_pins env usart h =
     (if usart = USART1 then
        let h = rcc_periph_clock_enable env RCC_GPIOA h;
            h = rcc_periph_clock_enable env RCC_USART1 h;
            h = gpio_set_mode env GPIOA GPIO_MODE_OUTPUT_50_MHZ GPIO_CNF_OUTPUT_ALTFN_PUSHPULL GPIO9 h;
            h = gpio_set_mode env GPIOA GPIO_MODE_INPUT GPIO_CNF_INPUT_FLOAT GPIO10 h
        in nvic_enable_irq NVIC_USART1_IRQ h
      else if usart = USART2 then
        let h = rcc_periph_clock_enable env RCC_GPIOA h;
            h = rcc_periph_clock_enable env RCC_USART2 h;
            h = gpio_set_mode env GPIOA GPIO_MODE_OUTPUT_50_MHZ GPIO_CNF_OUTPUT_ALTFN_PUSHPULL GPIO2 h;
            h = gpio_set_mode env GPIOA GPIO_MODE_INPUT GPIO_CNF_INPUT_FLOAT GPIO3 h
        in nvic_enable_irq NVIC_USART2_IRQ h
      else
        let h = rcc_periph_clock_enable env RCC_GPIOB h;
            h = rcc_periph_clock_enable env RCC_USART3 h;
            h = gpio_set_mode env GPIOB GPIO_MODE_OUTPUT_50_MHZ GPIO_CNF_OUTPUT_ALTFN_PUSHPULL GPIO10 h;
            h = gpio_set_mode env GPIOB GPIO_MODE_INPUT GPIO_CNF_INPUT_FLOAT GPIO11 h
        in nvic_enable_irq NVIC_USART3_IRQ h)"

definition esp8266_setup :: "env \<Rightarrow> clocks \<Rightarrow> bool \<Rightarrow> esp8266 \<Rightarrow> esp8266 option" where
  "esp8266_setup env clk multi st =
     (let h = wifi_pins env WIFI_USART (bus st);
          h = usart_set_baudrate clk WIFI_USART 115200 h;
          h = usart_set_databits env WIFI_USART 8 h;
          h = usart_set_stopbits env WIFI_USART USART_STOPBITS_1 h;
          h = usart_set_mode env WIFI_USART USART_MODE_TX_RX h;
          h = usart_set_parity env WIFI_USART USART_PARITY_NONE h;
          h = usart_set_flow_control env WIFI_USART USART_FLOWCONTROL_NONE h;
          h = usart_enable_rx_interrupt env WIFI_USART h;
          h = usart_enable env WIFI_USART h
      in wifi_send_string env (if multi then ''AT+CIPMUX=1'' @ CRLF else ''AT+CIPMUX=0'' @ CRLF)
           (st\<lparr>bus := h\<rparr>))"

section \<open>Commands\<close>

definition esp8266_check :: "env \<Rightarrow> esp8266 \<Rightarrow> esp8266 option" where
  "esp8266_check env st =
     wifi_send_string env (''AT'' @ CRLF) (st\<lparr>esp8266_pending_cmd := ESP8266_CMD_CHECK\<rparr>)"

text \<open>The modes are 0 to 3; any other value of the enumeration type takes the default branch.\<close>

definition esp8266_set_mode :: "env \<Rightarrow> nat \<Rightarrow> esp8266 \<Rightarrow> esp8266 option" where
  "esp8266_set_mode env mode st =
     (if mode \<le> 3 then
        at_send env 16 (''AT+CWMODE='' @ dec_text mode @ CRLF)
          (st\<lparr>esp8266_pending_cmd := ESP8266_CMD_SET_MODE\<rparr>)
      else Some st)"

definition cwjap_text :: "char list \<Rightarrow> char list \<Rightarrow> char list" where
  "cwjap_text s p = ''AT+CWJAP='' @ [DQUOTE] @ s @ [DQUOTE, CHR '','', DQUOTE] @ p @ [DQUOTE] @ CRLF"

definition esp8266_connect :: "env \<Rightarrow> char list \<Rightarrow> char list \<Rightarrow> esp8266 \<Rightarrow> esp8266 option" where
  "esp8266_connect env s p st =
     at_send env 128 (cwjap_text s p) (st\<lparr>esp8266_pending_cmd := ESP8266_CMD_CONNECT\<rparr>)"

definition connect_no_update :: "env \<Rightarrow> char list \<Rightarrow> char list \<Rightarrow> esp8266 \<Rightarrow> esp8266 option" where
  "connect_no_update env s p st = at_send env 128 (cwjap_text s p) st"

definition esp8266_disconnect :: "env \<Rightarrow> esp8266 \<Rightarrow> esp8266 option" where
  "esp8266_disconnect env st =
     wifi_send_string env (''AT+CWQAP'' @ CRLF) (st\<lparr>esp8266_pending_cmd := ESP8266_CMD_DISCONNECT\<rparr>)"

definition esp8266_reset :: "env \<Rightarrow> esp8266 \<Rightarrow> esp8266 option" where
  "esp8266_reset env st =
     wifi_send_string env (''AT+RST'' @ CRLF) (st\<lparr>esp8266_pending_cmd := ESP8266_CMD_RESET\<rparr>)"

definition esp8266_get_ip :: "env \<Rightarrow> esp8266 \<Rightarrow> esp8266 option" where
  "esp8266_get_ip env st =
     wifi_send_string env (''AT+CIFSR'' @ CRLF) (st\<lparr>esp8266_pending_cmd := ESP8266_CMD_GET_IP\<rparr>)"

definition esp8266_get_connection_status :: "env \<Rightarrow> esp8266 \<Rightarrow> esp8266 option" where
  "esp8266_get_connection_status env st =
     wifi_send_string env (''AT+CWJAP?'' @ CRLF)
       (st\<lparr>esp8266_pending_cmd := ESP8266_CMD_GET_CONNECTION_STATUS\<rparr>)"

definition esp8266_scan_connect_wifi :: "env \<Rightarrow> esp8266 \<Rightarrow> esp8266 option" where
  "esp8266_scan_connect_wifi env st =
     (let (d, h) = READ_FLASH env (bus st)
      in wifi_send_string env (''AT+CWLAP'' @ CRLF)
           (st\<lparr>flash_data := d, bus := h, esp8266_pending_cmd := ESP8266_CMD_SCAN_WIFI\<rparr>))"

text \<open>\<^verbatim>\<open>esp8266_update_credential_list\<close> as it is called from the handlers, on the statics.\<close>

definition esp_update_credentials :: "env \<Rightarrow> char list \<Rightarrow> char list \<Rightarrow> esp8266 \<Rightarrow> esp8266 option" where
  "esp_update_credentials env s p st = do {
     (d, h) \<leftarrow> esp8266_update_credential_list env s p (bus st);
     Some (st\<lparr>flash_data := d, bus := h\<rparr>)
   }"

section \<open>Connections\<close>

definition esp8266_tcp_connect :: "env \<Rightarrow> u8 \<Rightarrow> char list \<Rightarrow> u16 \<Rightarrow> esp8266 \<Rightarrow> esp8266 option" where
  "esp8266_tcp_connect env link_id ip port st =
     (if link_id > ESP8266_MAX_LINK_ID then Some st
      else at_send env 64
        (''AT+CIPSTART='' @ dec_text (unat link_id) @ '','' @ [DQUOTE] @ ''TCP'' @ [DQUOTE, CHR '','', DQUOTE]
         @ ip @ [DQUOTE] @ '','' @ dec_text (unat port) @ CRLF) st)"

fun wifi_send_data :: "env \<Rightarrow> char list \<Rightarrow> esp8266 \<Rightarrow> esp8266 option" where
  "wifi_send_data env [] st = Some st"
| "wifi_send_data env (c # s) st = do { st \<leftarrow> wifi_send_char env c st; wifi_send_data env s st }"

text \<open>\<open>data\<close> is the array passed; reading it past its end has no defined result.\<close>

definition esp8266_tcp_send :: "env \<Rightarrow> u8 \<Rightarrow> char list \<Rightarrow> u16 \<Rightarrow> esp8266 \<Rightarrow> esp8266 option" where
  "esp8266_tcp_send env link_id data len st =
     (if link_id > ESP8266_MAX_LINK_ID then Some st
      else do {
        st \<leftarrow> at_send env 32
          (''AT+CIPSEND='' @ dec_text (unat link_id) @ '','' @ dec_text (unat len) @ CRLF) st;
        if unat len \<le> length data then wifi_send_data env (take (unat len) data) st else None
      })"

definition esp8266_tcp_close :: "env \<Rightarrow> u8 \<Rightarrow> esp8266 \<Rightarrow> esp8266 option" where
  "esp8266_tcp_close env link_id st =
     (if link_id > ESP8266_MAX_LINK_ID then Some st
      else at_send env 24 (''AT+CIPCLOSE='' @ dec_text (unat link_id) @ CRLF) st)"

definition esp8266_server_start :: "env \<Rightarrow> u16 \<Rightarrow> esp8266 \<Rightarrow> esp8266 option" where
  "esp8266_server_start env port st =
     at_send env 32 (''AT+CIPSERVER=1,'' @ dec_text (unat port) @ CRLF) st"

definition esp8266_server_stop :: "env \<Rightarrow> esp8266 \<Rightarrow> esp8266 option" where
  "esp8266_server_stop env st = wifi_send_string env (''AT+CIPSERVER=0'' @ CRLF) st"

definition cwsap_text :: "char list \<Rightarrow> char list \<Rightarrow> u8 \<Rightarrow> u8 \<Rightarrow> char list" where
  "cwsap_text s p channel encryption =
     ''AT+CWSAP='' @ [DQUOTE] @ s @ [DQUOTE, CHR '','', DQUOTE] @ p @ [DQUOTE] @ '',''
     @ dec_text (unat channel) @ '','' @ dec_text (unat encryption) @ CRLF"

definition esp8266_set_ap_config ::
    "env \<Rightarrow> char list \<Rightarrow> char list \<Rightarrow> u8 \<Rightarrow> u8 \<Rightarrow> esp8266 \<Rightarrow> esp8266 option" where
  "esp8266_set_ap_config env s p channel encryption st =
     at_send env 96 (cwsap_text s p channel encryption) st"

definition esp8266_set_http_request_handler :: "nat option \<Rightarrow> esp8266 \<Rightarrow> esp8266" where
  "esp8266_set_http_request_handler f st = st\<lparr>http_request_handler := f\<rparr>"

definition http_status_text :: "u16 \<Rightarrow> char list" where
  "http_status_text status_code =
     (if status_code = 200 then ''OK''
      else if status_code = 204 then ''No Content''
      else if status_code = 400 then ''Bad Request''
      else if status_code = 404 then ''Not Found''
      else if status_code = 500 then ''Internal Server Error''
      else '''')"

definition http_header :: "u16 \<Rightarrow> char list \<Rightarrow> nat \<Rightarrow> char list" where
  "http_header status_code content_type body_len =
     ''HTTP/1.1 '' @ dec_text (unat status_code) @ '' '' @ http_status_text status_code @ CRLF
     @ ''Content-Type: '' @ content_type @ CRLF
     @ ''Content-Length: '' @ dec_text body_len @ CRLF
     @ ''Connection: close'' @ CRLF @ CRLF"

definition esp8266_http_send_response ::
    "env \<Rightarrow> u8 \<Rightarrow> u16 \<Rightarrow> char list option \<Rightarrow> char list option \<Rightarrow> esp8266 \<Rightarrow> esp8266 option" where
  "esp8266_http_send_response env link_id status_code content_type body st = do {
     let content_type = (case content_type of None \<Rightarrow> ''text/html'' | Some t \<Rightarrow> t);
     let body = (case body of None \<Rightarrow> [] | Some b \<Rightarrow> b);
     let hdr = http_header status_code content_type (length body);
     let header_len = length hdr;
     st \<leftarrow> at_send env 32
       (''AT+CIPSEND='' @ dec_text (unat link_id) @ '','' @ dec_text (header_len + length body) @ CRLF) st;
     st \<leftarrow> wifi_send_string env (snprintf_text 128 hdr) st;
     st \<leftarrow> wifi_send_string env body st;
     esp8266_tcp_close env link_id st
   }"

section \<open>The single-connection build\<close>

definition esp8266_tcp_connect_single :: "env \<Rightarrow> char list \<Rightarrow> u16 \<Rightarrow> esp8266 \<Rightarrow> esp8266 option" where
  "esp8266_tcp_connect_single env ip port st =
     at_send env 64 (''AT+CIPSTART='' @ [DQUOTE] @ ''TCP'' @ [DQUOTE, CHR '','', DQUOTE] @ ip @ [DQUOTE]
       @ '','' @ dec_text (unat port) @ CRLF) st"

definition esp8266_tcp_send_single :: "env \<Rightarrow> char list \<Rightarrow> u16 \<Rightarrow> esp8266 \<Rightarrow> esp8266 option" where
  "esp8266_tcp_send_single env data len st = do {
     st \<leftarrow> at_send env 24 (''AT+CIPSEND='' @ dec_text (unat len) @ CRLF) st;
     if unat len \<le> length data then wifi_send_data env (take (unat len) data) st else None
   }"

definition esp8266_tcp_close_single :: "env \<Rightarrow> esp8266 \<Rightarrow> esp8266 option" where
  "esp8266_tcp_close_single env st = wifi_send_string env (''AT+CIPCLOSE'' @ CRLF) st"

section \<open>Response lines\<close>

text \<open>The first quoted field, cut to the size of the buffer.\<close>

definition extract_quoted :: "char list \<Rightarrow> nat \<Rightarrow> char list option" where
  "extract_quoted line out_len = do {
     start \<leftarrow> strchr line DQUOTE;
     let start = tl start;
     end \<leftarrow> strchr start DQUOTE;
     let len = length start - length end;
     let len = (if len \<ge> out_len then out_len - 1 else len);
     Some (take len start)
   }"

definition is_terminal_line :: "char list \<Rightarrow> bool" where
  "is_terminal_line line \<longleftrightarrow> line = ''OK'' \<or> strncmp_eq line ''ERROR'' \<or> strncmp_eq line ''FAIL''"

text \<open>The loop over the saved credentials: the first slot in use whose SSID compares equal.\<close>

fun scan_match :: "wifi_credential_t list \<Rightarrow> char list \<Rightarrow> wifi_credential_t option option" where
  "scan_match [] s = Some None"
| "scan_match (c # cs) s =
     (if hd (ssid c) \<noteq> NUL then do {
        eq \<leftarrow> strcmp_eq (ssid c) s;
        if eq then Some (Some c) else scan_match cs s
      } else scan_match cs s)"

definition handle_scan_line :: "env \<Rightarrow> char list \<Rightarrow> esp8266 \<Rightarrow> esp8266 option" where
  "handle_scan_line env line st =
     (if strncmp_eq line ''+CWLAP:('' then
        (case extract_quoted line 33 of
           None \<Rightarrow> Some st
         | Some s \<Rightarrow> do {
             m \<leftarrow> scan_match (cred_list (flash_data st)) s;
             case m of
               None \<Rightarrow> Some st
             | Some c \<Rightarrow> do {
                 s' \<leftarrow> c_str (ssid c);
                 p' \<leftarrow> c_str (password c);
                 connect_no_update env s' p' st
               }
           })
      else if is_terminal_line line then Some (st\<lparr>esp8266_pending_cmd := ESP8266_CMD_NONE\<rparr>)
      else Some st)"

definition connect_error_text :: "u8 \<Rightarrow> char list" where
  "connect_error_text error_code =
     (if error_code = 1 then ''connect timeout'' @ [LF]
      else if error_code = 2 then ''wrong password'' @ [LF]
      else if error_code = 3 then ''AP not found'' @ [LF]
      else if error_code = 4 then ''Connect Fail'' @ [LF]
      else ''Unknown Error'' @ [LF])"

definition handle_connect_line :: "env \<Rightarrow> char list \<Rightarrow> esp8266 \<Rightarrow> esp8266 option" where
  "handle_connect_line env line st =
     (if line = ''OK'' then do {
        s \<leftarrow> c_str (g_ssid st);
        p \<leftarrow> c_str (g_password st);
        st \<leftarrow> esp_update_credentials env s p st;
        Some (st\<lparr>esp8266_pending_cmd := ESP8266_CMD_NONE\<rparr>)
      } else do {
        st \<leftarrow> (case strstr line ''+CWJAP:'' of
                None \<Rightarrow> Some st
              | Some p \<Rightarrow> esp_debug env (connect_error_text (word_of_int (atoi (drop 7 p)))) [] st);
        Some (st\<lparr>esp8266_pending_cmd := ESP8266_CMD_NONE\<rparr>)
      })"

definition handle_simple_ack :: "char list \<Rightarrow> esp8266 \<Rightarrow> esp8266" where
  "handle_simple_ack line st =
     (if is_terminal_line line then st\<lparr>esp8266_pending_cmd := ESP8266_CMD_NONE\<rparr> else st)"

definition esp8266_handle_return :: "env \<Rightarrow> esp8266 \<Rightarrow> esp8266 option" where
  "esp8266_handle_return env st = do {
     line \<leftarrow> c_str (buffer_handle st);
     case esp8266_pending_cmd st of
       ESP8266_CMD_SCAN_WIFI \<Rightarrow> handle_scan_line env line st
     | ESP8266_CMD_CHECK \<Rightarrow> handle_connect_line env line st
     | ESP8266_CMD_SET_MODE \<Rightarrow> handle_connect_line env line st
     | ESP8266_CMD_CONNECT \<Rightarrow> handle_connect_line env line st
     | ESP8266_CMD_DISCONNECT \<Rightarrow> Some (handle_simple_ack line st)
     | ESP8266_CMD_RESET \<Rightarrow> Some (handle_simple_ack line st)
     | ESP8266_CMD_GET_IP \<Rightarrow> Some (handle_simple_ack line st)
     | ESP8266_CMD_GET_CONNECTION_STATUS \<Rightarrow> Some (handle_simple_ack line st)
     | _ \<Rightarrow> Some st
   }"

section \<open>The receive interrupt\<close>

definition parse_ipd_header :: "char list \<Rightarrow> (u8 \<times> u16) option" where
  "parse_ipd_header hdr =
     (let p = drop 5 hdr;
          (id, after_id) = strtol p
      in if after_id = p \<or> take 1 after_id \<noteq> '','' then None
         else
           let (len, after_len) = strtol (tl after_id)
           in if after_len = tl after_id \<or> take 1 after_len \<noteq> '':'' then None
              else if id < 0 \<or> id > 4 \<or> len < 0 then None
              else Some (word_of_int id, word_of_int len))"

definition handle_ipd_frame :: "http_call \<Rightarrow> esp8266 \<Rightarrow> esp8266 option" where
  "handle_ipd_frame call st =
     (case http_request_handler st of
        None \<Rightarrow> Some st
      | Some f \<Rightarrow> call f (ipd_link_id st) (ipd_payload st) (ipd_payload_len st) st)"

text \<open>\<^verbatim>\<open>a[i] = c\<close> on an array.\<close>

definition arr_set :: "char list \<Rightarrow> nat \<Rightarrow> char \<Rightarrow> char list option" where
  "arr_set a i c = (if i < length a then Some (a[i := c]) else None)"

text \<open>A byte of an \<^verbatim>\<open>+IPD\<close> payload.\<close>

definition isr_ipd_byte :: "http_call \<Rightarrow> char \<Rightarrow> esp8266 \<Rightarrow> esp8266 option" where
  "isr_ipd_byte call c st = do {
     st \<leftarrow> (if unat (ipd_payload_len st) < ESP8266_HTTP_REQUEST_MAX_LEN - 1 then do {
             a \<leftarrow> arr_set (ipd_payload st) (unat (ipd_payload_len st)) c;
             Some (st\<lparr>ipd_payload := a, ipd_payload_len := ipd_payload_len st + 1\<rparr>)
           } else Some st);
     let st = st\<lparr>ipd_bytes_remaining := ipd_bytes_remaining st - 1\<rparr>;
     if ipd_bytes_remaining st = 0 then do {
       a \<leftarrow> arr_set (ipd_payload st) (unat (ipd_payload_len st)) NUL;
       st \<leftarrow> handle_ipd_frame call (st\<lparr>ipd_payload := a, receiving_ipd_payload := False\<rparr>);
       Some (st\<lparr>ipd_payload_len := 0\<rparr>)
     } else Some st
   }"

text \<open>The end of a line.\<close>

definition isr_eol :: "env \<Rightarrow> esp8266 \<Rightarrow> esp8266 option" where
  "isr_eol env st =
     (if \<not> terminated st then do {
        a \<leftarrow> arr_set (buffer_isr st) (unat (char_index st)) NUL;
        let n = min (unat (char_index st) + 1) 512;
        b \<leftarrow> arr_set (take n a @ drop n (buffer_handle st)) 511 NUL;
        st \<leftarrow> esp8266_handle_return env (st\<lparr>buffer_isr := a, terminated := True, buffer_handle := b\<rparr>);
        Some (st\<lparr>char_index := 0\<rparr>)
      } else Some st)"

text \<open>A character of a line, and the detection of an \<^verbatim>\<open>+IPD\<close> header.\<close>

definition isr_char :: "char \<Rightarrow> esp8266 \<Rightarrow> esp8266 option" where
  "isr_char c st = do {
     st \<leftarrow> (if unat (char_index st) < 511 then do {
             a \<leftarrow> arr_set (buffer_isr st) (unat (char_index st)) c;
             Some (st\<lparr>buffer_isr := a, char_index := char_index st + 1\<rparr>)
           } else Some st);
     let st = st\<lparr>terminated := False\<rparr>;
     if c = CHR '':'' \<and> unat (char_index st) \<ge> 5 \<and> strncmp_eq (buffer_isr st) ''+IPD,'' then do {
       a \<leftarrow> arr_set (buffer_isr st) (unat (char_index st)) NUL;
       hdr \<leftarrow> c_str a;
       let st = st\<lparr>buffer_isr := a\<rparr>;
       let st = (case parse_ipd_header hdr of
           Some (link_id, len) \<Rightarrow>
             if len > 0 then st\<lparr>ipd_link_id := link_id, ipd_bytes_remaining := len, ipd_payload_len := 0,
                                receiving_ipd_payload := True\<rparr>
             else st
         | None \<Rightarrow> st);
       Some (st\<lparr>char_index := 0\<rparr>)
     } else Some st
   }"

definition isr_byte :: "env \<Rightarrow> http_call \<Rightarrow> char \<Rightarrow> esp8266 \<Rightarrow> esp8266 option" where
  "isr_byte env call c st =
     (if receiving_ipd_payload st then isr_ipd_byte call c st
      else if c = CR \<or> c = LF then isr_eol env st
      else isr_char c st)"

definition usart2_isr :: "env \<Rightarrow> http_call \<Rightarrow> esp8266 \<Rightarrow> esp8266 option" where
  "usart2_isr env call st =
     (let (rxne, h) = usart_get_flag env WIFI_USART USART_SR_RXNE (bus st)
      in if rxne then do {
           let (d, h) = usart_recv env WIFI_USART h;
           let c = (ucast d :: u8);
           st \<leftarrow> esp_debug env ''%c'' [VWord (ucast c)] (st\<lparr>bus := h\<rparr>);
           isr_byte env call (char_of_byte c) st
         } else Some (st\<lparr>bus := h\<rparr>))"

end
