(* ===== verification/Esp_Commands.thy ===== *)
theory Esp_Commands
  imports Esp8266
begin

text \<open>
  What the command functions of \<^verbatim>\<open>esp8266.c\<close> put on the wire. \<open>wifi_sent st s st'\<close> says that between
  two states nothing changed but the bus, and that the writes made are those of sending \<open>s\<close> on the
  module's port; on a port that becomes ready every command returns and sends its AT line.
\<close>

section \<open>Sending\<close>

definition wifi_sent :: "esp8266 \<Rightarrow> char list \<Rightarrow> esp8266 \<Rightarrow> bool" where
  "wifi_sent st s st' \<longleftrightarrow> (\<exists>h'. st' = st\<lparr>bus := h'\<rparr> \<and> sent WIFI_USART s (bus st) h')"

lemma wifi_sent_Nil [simp]: "wifi_sent st [] st"
  by (auto simp: wifi_sent_def intro: exI [of _ "bus st"])

lemma wifi_sent_append: "wifi_sent st s st' \<Longrightarrow> wifi_sent st' t st'' \<Longrightarrow> wifi_sent st (s @ t) st''"
proof -
  assume "wifi_sent st s st'" "wifi_sent st' t st''"
  then obtain h1 h2 where "st' = st\<lparr>bus := h1\<rparr>" "st'' = st'\<lparr>bus := h2\<rparr>"
    "sent WIFI_USART s (bus st) h1" "sent WIFI_USART t h1 h2"
    by (auto simp: wifi_sent_def)
  then have "st'' = st\<lparr>bus := h2\<rparr>" "sent WIFI_USART (s @ t) (bus st) h2"
    using sent_append by auto
  then show ?thesis unfolding wifi_sent_def by blast
qed

lemma wifi_sent_out: "wifi_sent st s st' \<Longrightarrow> uart_out WIFI_USART (bus st') = uart_out WIFI_USART (bus st) @ s"
  by (auto simp: wifi_sent_def sent_uart_out)

lemma wifi_sent_debug: "wifi_sent st s st' \<Longrightarrow> uart_out DEBUG_USART (bus st') = uart_out DEBUG_USART (bus st)"
  by (auto simp: wifi_sent_def sent_uart_out_other)

text \<open>A step that returns and sends \<open>s\<close>.\<close>

definition sends :: "esp8266 \<Rightarrow> char list \<Rightarrow> esp8266 option \<Rightarrow> bool" where
  "sends st s r \<longleftrightarrow> (\<exists>st'. r = Some st' \<and> wifi_sent st s st')"

lemma sends_Nil [simp]: "sends st [] (Some st)"
  by (simp add: sends_def)

lemma sends_bind:
  assumes "sends st s r" "\<And>st'. sends st' t (f st')"
  shows "sends st (s @ t) (r \<bind> f)"
  using assms wifi_sent_append by (fastforce simp: sends_def)

locale wifi_port = usart_tx env WIFI_USART for env
begin

lemma sends_char: "sends st [c] (wifi_send_char env c st)"
  using send_char_sent [of c "bus st"]
  by (auto simp: sends_def wifi_send_char_def wifi_sent_def)

lemma sends_string: "NUL \<notin> set s \<Longrightarrow> sends st s (wifi_send_string env s st)"
proof (induction s arbitrary: st)
  case (Cons c s)
  then have "sends st ([c] @ s) (wifi_send_char env c st \<bind> wifi_send_string env s)"
    by (intro sends_bind sends_char) auto
  with Cons.prems show ?case by auto
qed simp

lemma sends_data: "sends st s (wifi_send_data env s st)"
proof (induction s arbitrary: st)
  case (Cons c s)
  then have "sends st ([c] @ s) (wifi_send_char env c st \<bind> wifi_send_data env s)"
    by (intro sends_bind sends_char) auto
  then show ?case by simp
qed simp

lemma sends_at: "NUL \<notin> set s \<Longrightarrow> sends st (take (n - 1) s) (at_send env n s st)"
  unfolding at_send_def snprintf_text_def by (rule sends_string) (auto dest: in_set_takeD)

lemma sends_at_fits: "NUL \<notin> set s \<Longrightarrow> length s < n \<Longrightarrow> sends st s (at_send env n s st)"
  using sends_at [of s st n] by simp

end

declare wifi_send_string.simps(2) [simp del]

interpretation sim_wifi: wifi_port "sim rx" for rx
  by unfold_locales

lemma dec_text_no_NUL [simp]: "NUL \<notin> set (dec_text n)"
  using dec_text_digits [of NUL n] by (auto simp: is_digit_def)

lemma dec_text_u8: "length (dec_text (unat (w :: u8))) \<le> 3"
  by (rule dec_text_length) (simp_all add: less_trans [OF unat_u8_less])

lemma dec_text_u16: "length (dec_text (unat (w :: u16))) \<le> 5"
  by (rule dec_text_length) (simp_all add: less_trans [OF unat_u16_less])

lemma dec_text_digit: "n < 10 \<Longrightarrow> length (dec_text n) = 1"
  by (simp add: dec_text_def radix.simps [of 10])

section \<open>The lines\<close>

lemma length_cwjap_text: "length (cwjap_text s p) = length s + length p + 16"
  by (simp add: cwjap_text_def)

lemma cwjap_no_NUL: "NUL \<notin> set s \<Longrightarrow> NUL \<notin> set p \<Longrightarrow> NUL \<notin> set (cwjap_text s p)"
  by (simp add: cwjap_text_def)

context wifi_port
begin

lemma sends_cwjap:
  assumes "NUL \<notin> set s" "NUL \<notin> set p" "length s \<le> 32" "length p \<le> 63"
  shows "sends st (cwjap_text s p) (at_send env 128 (cwjap_text s p) st)"
  using assms by (intro sends_at_fits cwjap_no_NUL) (simp_all add: length_cwjap_text)

lemma sends_close:
  "sends st (if link_id > ESP8266_MAX_LINK_ID then []
     else ''AT+CIPCLOSE='' @ dec_text (unat link_id) @ CRLF) (esp8266_tcp_close env link_id st)"
proof -
  have "length (dec_text (unat link_id)) \<le> 3" by (rule dec_text_u8)
  then show ?thesis by (auto simp: esp8266_tcp_close_def intro!: sends_at_fits)
qed

lemma sends_cipsend:
  assumes "n < 10 ^ 9"
  shows "sends st (''AT+CIPSEND='' @ dec_text (unat link_id) @ '','' @ dec_text n @ CRLF)
    (at_send env 32 (''AT+CIPSEND='' @ dec_text (unat (link_id :: u8)) @ '','' @ dec_text n @ CRLF) st)"
proof (rule sends_at_fits)
  have "length (dec_text n) \<le> 9" using assms by (intro dec_text_length) simp_all
  with dec_text_u8 [of link_id]
  show "length (''AT+CIPSEND='' @ dec_text (unat link_id) @ '','' @ dec_text n @ CRLF) < 32" by simp
qed simp

text \<open>The four pieces of an HTTP response.\<close>

lemma sends_http:
  assumes "link_id \<le> ESP8266_MAX_LINK_ID" "NUL \<notin> set t" "NUL \<notin> set b"
    and "length (http_header code t (length b)) + length b < 10 ^ 9"
  shows "sends st ((''AT+CIPSEND='' @ dec_text (unat link_id) @ '',''
        @ dec_text (length (http_header code t (length b)) + length b) @ CRLF)
      @ take 127 (http_header code t (length b)) @ b @ ''AT+CIPCLOSE='' @ dec_text (unat link_id) @ CRLF)
    (esp8266_http_send_response env link_id code (Some t) (Some b) st)"
proof -
  let ?h = "http_header code t (length b)"
  have "NUL \<notin> set ?h" using assms(2) by (simp add: http_header_def http_status_text_def)
  then have "NUL \<notin> set (take 127 ?h)" by (auto dest: in_set_takeD)
  then have hdr: "sends st' (take 127 ?h) (wifi_send_string env (snprintf_text 128 ?h) st')" for st'
    using sends_string by (simp add: snprintf_text_def)
  have close: "sends st' (''AT+CIPCLOSE='' @ dec_text (unat link_id) @ CRLF) (esp8266_tcp_close env link_id st')" for st'
  proof -
    have "\<not> ESP8266_MAX_LINK_ID < link_id" using assms(1) by simp
    with sends_close [of st' link_id] show ?thesis by (simp only: if_False)
  qed
  from sends_bind [OF sends_cipsend [OF assms(4)] sends_bind [OF hdr sends_bind [OF sends_string [OF assms(3)] close]]]
  show ?thesis
    unfolding esp8266_http_send_response_def Let_def option.case .
qed

end

section \<open>Properties\<close>

text \<open>
  The commands without arguments return, send exactly their AT line including the final CR LF,
  and change nothing else of the driver's state than the pending command they announce.
\<close>

theorem esp8266_simple_commands:
  assumes "wifi_port env"
  shows "list_all (\<lambda>(f, cmd, line). \<exists>st'. f env st = Some st' \<and>
       wifi_sent (st\<lparr>esp8266_pending_cmd := cmd\<rparr>) (line @ CRLF) st')
     [(esp8266_check, ESP8266_CMD_CHECK, ''AT''),
      (esp8266_disconnect, ESP8266_CMD_DISCONNECT, ''AT+CWQAP''),
      (esp8266_reset, ESP8266_CMD_RESET, ''AT+RST''),
      (esp8266_get_ip, ESP8266_CMD_GET_IP, ''AT+CIFSR''),
      (esp8266_get_connection_status, ESP8266_CMD_GET_CONNECTION_STATUS, ''AT+CWJAP?''),
      (esp8266_server_stop, esp8266_pending_cmd st, ''AT+CIPSERVER=0''),
      (esp8266_tcp_close_single, esp8266_pending_cmd st, ''AT+CIPCLOSE'')]"
  using wifi_port.sends_string [OF assms]
  by (simp add: sends_def esp8266_check_def esp8266_disconnect_def esp8266_reset_def esp8266_get_ip_def
      esp8266_get_connection_status_def esp8266_server_stop_def esp8266_tcp_close_single_def)

text \<open>
  Connecting sends the whole command: for an SSID of at most 32 and a password of at most 63
  characters, \<open>esp8266_connect\<close> returns and sends the complete \<^verbatim>\<open>AT+CWJAP\<close> line, closing quote and
  CR LF included, with the connect command pending; the 128-byte buffer never cuts it.
\<close>

theorem esp8266_connect_complete:
  assumes "wifi_port env" "NUL \<notin> set s" "NUL \<notin> set p" "length s \<le> 32" "length p \<le> 63"
  shows "\<exists>st'. esp8266_connect env s p st = Some st'
     \<and> wifi_sent (st\<lparr>esp8266_pending_cmd := ESP8266_CMD_CONNECT\<rparr>) (cwjap_text s p) st'"
  using wifi_port.sends_cwjap [OF assms] by (simp add: sends_def esp8266_connect_def)

theorem esp8266_connect_complete_witness:
  "\<exists>st'. esp8266_connect (sim []) ''HomeWiFi'' ''homepassword'' (esp8266_init []) = Some st'
     \<and> uart_out WIFI_USART (bus st') = cwjap_text ''HomeWiFi'' ''homepassword''"
  using esp8266_connect_complete [OF sim_wifi.wifi_port_axioms, of "''HomeWiFi''" "''homepassword''" "[]" "esp8266_init []"]
    wifi_sent_out by (fastforce simp: esp8266_init_def)

theorem esp8266_simple_commands_witness:
  "\<exists>st'. esp8266_reset (sim []) (esp8266_init []) = Some st' \<and>
     wifi_sent ((esp8266_init [])\<lparr>esp8266_pending_cmd := ESP8266_CMD_RESET\<rparr>) (''AT+RST'' @ CRLF) st'"
  using esp8266_simple_commands [OF sim_wifi.wifi_port_axioms, of "[]" "esp8266_init []"] by simp

text \<open>
  Configuring the access point does not: \<open>esp8266_set_ap_config\<close> sends only the first 95
  characters of the \<^verbatim>\<open>AT+CWSAP\<close> line, so that for an SSID and a password that together have more
  than 75 characters (both within the limits of the standard) the CR LF that would end the command
  is not sent.
\<close>

theorem esp8266_set_ap_config_truncates:
  assumes "wifi_port env" "NUL \<notin> set s" "NUL \<notin> set p" "LF \<notin> set s" "LF \<notin> set p"
    and "75 < length s + length p"
  shows "\<exists>st' line. esp8266_set_ap_config env s p channel encryption st = Some st'
     \<and> wifi_sent st line st' \<and> line = take 95 (cwsap_text s p channel encryption) \<and> LF \<notin> set line"
proof -
  let ?t = "cwsap_text s p channel encryption"
  have nul: "NUL \<notin> set ?t" using assms(2,3) by (simp add: cwsap_text_def)
  have dec: "LF \<notin> set (dec_text n)" for n
    using dec_text_digits [of LF n] by (auto simp: is_digit_def)
  obtain u where t: "?t = u @ [LF]" and u: "LF \<notin> set u" "95 \<le> length u"
  proof
    let ?u = "''AT+CWSAP='' @ [DQUOTE] @ s @ [DQUOTE, CHR '','', DQUOTE] @ p @ [DQUOTE] @ '',''
      @ dec_text (unat channel) @ '','' @ dec_text (unat encryption) @ [CR]"
    show "?t = ?u @ [LF]" by (simp add: cwsap_text_def)
    show "LF \<notin> set ?u" using assms(4,5) dec by simp
    have "1 \<le> length (dec_text n)" for n by (simp add: Suc_le_eq)
    from this [of "unat channel"] this [of "unat encryption"] assms(6)
    have "78 \<le> length s + length p + length (dec_text (unat channel)) + length (dec_text (unat encryption))"
      by linarith
    then show "95 \<le> length ?u" by simp
  qed
  then have "take 95 ?t = take 95 u" by simp
  then have "LF \<notin> set (take 95 ?t)" using u(1) by (auto dest: in_set_takeD)
  with wifi_port.sends_at [OF assms(1) nul, of st 96] show ?thesis
    by (auto simp: sends_def esp8266_set_ap_config_def)
qed

theorem esp8266_set_ap_config_truncates_witness:
  "\<exists>st' line. esp8266_set_ap_config (sim []) (replicate 32 (CHR ''s'')) (replicate 63 (CHR ''p'')) 6 3
       (esp8266_init []) = Some st'
     \<and> wifi_sent (esp8266_init []) line st' \<and> LF \<notin> set line"
proof -
  have "(75 :: nat) < length (replicate 32 (CHR ''s'')) + length (replicate 63 (CHR ''p''))" by simp
  from esp8266_set_ap_config_truncates [OF sim_wifi.wifi_port_axioms [of "[]"] _ _ _ _ this,
      where channel = 6 and encryption = 3 and st = "esp8266_init []"]
  show ?thesis by simp blast
qed

text \<open>
  An HTTP response on an open link, whose header fits the 127 characters of its buffer, is sent
  as one \<^verbatim>\<open>AT+CIPSEND\<close> announcing exactly the number of bytes that follow (header and body), then
  the header with the body's length in \<^verbatim>\<open>Content-Length\<close>, the body, and the close of the link.
\<close>

theorem esp8266_http_response_framed:
  assumes "wifi_port env" "link_id \<le> ESP8266_MAX_LINK_ID" "NUL \<notin> set t" "NUL \<notin> set b"
    and "length (http_header code t (length b)) \<le> 127" "length b < 10 ^ 8"
  shows "\<exists>st' payload. esp8266_http_send_response env link_id code (Some t) (Some b) st = Some st'
     \<and> payload = http_header code t (length b) @ b
     \<and> wifi_sent st (''AT+CIPSEND='' @ dec_text (unat link_id) @ '','' @ dec_text (length payload) @ CRLF
         @ payload @ ''AT+CIPCLOSE='' @ dec_text (unat link_id) @ CRLF) st'"
  using wifi_port.sends_http [OF assms(1-4), of code st] assms(5,6) by (simp add: sends_def)

theorem esp8266_http_response_framed_witness:
  "\<exists>st' payload. esp8266_http_send_response (sim []) 2 404 (Some ''text/plain'') (Some ''Not Found'') (esp8266_init []) = Some st'
     \<and> payload = http_header 404 ''text/plain'' (length ''Not Found'') @ ''Not Found''
     \<and> wifi_sent (esp8266_init []) (''AT+CIPSEND='' @ dec_text 2 @ '','' @ dec_text (length payload) @ CRLF
         @ payload @ ''AT+CIPCLOSE='' @ dec_text 2 @ CRLF) st'"
proof -
  have "length (http_header 404 ''text/plain'' (length ''Not Found'')) \<le> 127"
    by (simp add: http_header_def http_status_text_def dec_text_def radix.simps)
  from esp8266_http_response_framed [OF sim_wifi.wifi_port_axioms _ _ _ this, of 2 "[]" "esp8266_init []"]
  show ?thesis by simp
qed

text \<open>
  A header that does not fit breaks the framing: when it has more than 127 characters, the bytes
  sent after the \<^verbatim>\<open>AT+CIPSEND\<close> line are fewer than the number announced in it, since the count is
  taken from the untruncated header.
\<close>

theorem esp8266_http_response_overlong:
  assumes "wifi_port env" "link_id \<le> ESP8266_MAX_LINK_ID" "NUL \<notin> set t" "NUL \<notin> set b"
    and "127 < length (http_header code t (length b))" "length (http_header code t (length b)) + length b < 10 ^ 9"
  shows "\<exists>st' n payload. esp8266_http_send_response env link_id code (Some t) (Some b) st = Some st'
     \<and> length payload < n
     \<and> wifi_sent st (''AT+CIPSEND='' @ dec_text (unat link_id) @ '','' @ dec_text n @ CRLF
         @ payload @ ''AT+CIPCLOSE='' @ dec_text (unat link_id) @ CRLF) st'"
proof -
  let ?h = "http_header code t (length b)"
  have "length (take 127 ?h @ b) < length ?h + length b" using assms(5) by simp
  moreover have "\<exists>st'. esp8266_http_send_response env link_id code (Some t) (Some b) st = Some st'
     \<and> wifi_sent st (''AT+CIPSEND='' @ dec_text (unat link_id) @ '','' @ dec_text (length ?h + length b) @ CRLF
         @ (take 127 ?h @ b) @ ''AT+CIPCLOSE='' @ dec_text (unat link_id) @ CRLF) st'"
    using wifi_port.sends_http [OF assms(1-4,6), of st] by (simp add: sends_def)
  ultimately show ?thesis by blast
qed

theorem esp8266_http_response_overlong_witness:
  "\<exists>st' n payload. esp8266_http_send_response (sim []) 0 200 (Some (replicate 80 (CHR ''x''))) (Some []) (esp8266_init []) = Some st'
     \<and> length payload < n
     \<and> wifi_sent (esp8266_init []) (''AT+CIPSEND='' @ dec_text 0 @ '','' @ dec_text n @ CRLF
         @ payload @ ''AT+CIPCLOSE='' @ dec_text 0 @ CRLF) st'"
proof -
  have "127 < length (http_header 200 (replicate 80 (CHR ''x'')) (length ([] :: char list)))"
    "length (http_header 200 (replicate 80 (CHR ''x'')) (length ([] :: char list))) + length ([] :: char list) < 10 ^ 9"
    by (simp_all add: http_header_def http_status_text_def dec_text_def radix.simps)
  from esp8266_http_response_overlong [OF sim_wifi.wifi_port_axioms _ _ _ this, of 0 "[]" "esp8266_init []"]
  show ?thesis by simp
qed

end
