(* ===== verification/Esp_Isr.thy ===== *)
theory Esp_Isr
  imports Esp_Commands
begin

text \<open>
  The receive interrupt of \<^verbatim>\<open>esp8266.c\<close> as a state machine: the invariant of the statics and its
  preservation by every function of the driver, the reassembly of response lines and of \<^verbatim>\<open>+IPD\<close>
  frames from single bytes, and what the response handlers do with a line.
\<close>

section \<open>The invariant\<close>

definition esp_inv :: "esp8266 \<Rightarrow> bool" where
  "esp_inv st \<longleftrightarrow>
     length (buffer_isr st) = 512 \<and> length (buffer_handle st) = 512 \<and> buffer_handle st ! 511 = NUL \<and>
     length (ipd_payload st) = ESP8266_HTTP_REQUEST_MAX_LEN \<and>
     unat (char_index st) \<le> 511 \<and> unat (ipd_payload_len st) \<le> 255 \<and>
     (receiving_ipd_payload st \<longrightarrow> ipd_bytes_remaining st \<noteq> 0) \<and>
     g_ssid st = replicate 33 NUL \<and> g_password st = replicate 64 NUL"

text \<open>The part of the state that only the interrupt changes.\<close>

definition rx_view where
  "rx_view st = (buffer_isr st, buffer_handle st, terminated st, receiving_ipd_payload st,
     ipd_bytes_remaining st, ipd_link_id st, ipd_payload st, ipd_payload_len st, char_index st,
     g_ssid st, g_password st)"

lemma rx_view_update [simp]:
  "rx_view (st\<lparr>bus := h\<rparr>) = rx_view st"
  "rx_view (st\<lparr>esp8266_pending_cmd := p\<rparr>) = rx_view st"
  "rx_view (st\<lparr>flash_data := d\<rparr>) = rx_view st"
  "rx_view (st\<lparr>http_request_handler := f\<rparr>) = rx_view st"
  by (simp_all add: rx_view_def)

lemma esp_inv_rx_view: "rx_view st' = rx_view st \<Longrightarrow> esp_inv st' = esp_inv st"
  by (simp add: rx_view_def esp_inv_def)

text \<open>\<open>keeps_rx st r\<close>: if the step returns, it has not touched that part.\<close>

definition keeps_rx :: "esp8266 \<Rightarrow> esp8266 option \<Rightarrow> bool" where
  "keeps_rx st r \<longleftrightarrow> (\<forall>st'. r = Some st' \<longrightarrow> rx_view st' = rx_view st)"

lemma keeps_rx_simps [simp]:
  "keeps_rx st None"
  "keeps_rx st (Some st') \<longleftrightarrow> rx_view st' = rx_view st"
  by (simp_all add: keeps_rx_def)

lemma keeps_rx_bind: "keeps_rx st r \<Longrightarrow> (\<And>st'. keeps_rx st' (f st')) \<Longrightarrow> keeps_rx st (r \<bind> f)"
  by (fastforce simp: keeps_rx_def bind_eq_Some_conv)

lemma keeps_rx_base:
  "rx_view st = rx_view st0 \<Longrightarrow> keeps_rx st r \<Longrightarrow> keeps_rx st0 r"
  by (simp add: keeps_rx_def)

lemma keeps_char: "keeps_rx st (wifi_send_char env c st)"
  by (auto simp: wifi_send_char_def keeps_rx_def bind_eq_Some_conv)

lemma keeps_string: "keeps_rx st (wifi_send_string env s st)"
proof (induction s arbitrary: st)
  case (Cons c s)
  then have "keeps_rx st (wifi_send_char env c st \<bind> wifi_send_string env s)"
    by (intro keeps_rx_bind keeps_char)
  then show ?case by (simp add: wifi_send_string.simps(2))
qed simp

lemma keeps_data: "keeps_rx st (wifi_send_data env s st)"
proof (induction s arbitrary: st)
  case (Cons c s)
  then have "keeps_rx st (wifi_send_char env c st \<bind> wifi_send_data env s)"
    by (intro keeps_rx_bind keeps_char)
  then show ?case by simp
qed simp

lemma keeps_string_upd:
  "keeps_rx st (wifi_send_string env s (st\<lparr>esp8266_pending_cmd := p\<rparr>))"
  "keeps_rx st (wifi_send_string env s (st\<lparr>bus := h\<rparr>))"
  "keeps_rx st (wifi_send_string env s (st\<lparr>flash_data := d, bus := h, esp8266_pending_cmd := p\<rparr>))"
  by (rule keeps_rx_base [OF _ keeps_string], simp)+

lemma keeps_at: "keeps_rx st (at_send env n s st)" "keeps_rx st (at_send env n s (st\<lparr>esp8266_pending_cmd := p\<rparr>))"
  by (simp_all add: at_send_def keeps_string keeps_string_upd)

lemma keeps_debug: "keeps_rx st (esp_debug env f args st)"
  by (auto simp: esp_debug_def keeps_rx_def bind_eq_Some_conv)

lemma keeps_credentials: "keeps_rx st (esp_update_credentials env s p st)"
  by (auto simp: esp_update_credentials_def keeps_rx_def bind_eq_Some_conv)

text \<open>Every command, and every response handler.\<close>

lemma keeps_commands:
  "keeps_rx st (esp8266_setup env clk multi st)"
  "keeps_rx st (esp8266_check env st)"
  "keeps_rx st (esp8266_set_mode env mode st)"
  "keeps_rx st (esp8266_connect env s p st)"
  "keeps_rx st (connect_no_update env s p st)"
  "keeps_rx st (esp8266_disconnect env st)"
  "keeps_rx st (esp8266_reset env st)"
  "keeps_rx st (esp8266_get_ip env st)"
  "keeps_rx st (esp8266_get_connection_status env st)"
  "keeps_rx st (esp8266_scan_connect_wifi env st)"
  by (simp_all add: esp8266_setup_def esp8266_check_def esp8266_set_mode_def esp8266_connect_def
      connect_no_update_def esp8266_disconnect_def esp8266_reset_def esp8266_get_ip_def
      esp8266_get_connection_status_def esp8266_scan_connect_wifi_def keeps_string_upd keeps_at Let_def
      case_prod_beta)

lemma keeps_connections:
  "keeps_rx st (esp8266_tcp_connect env link_id ip port st)"
  "keeps_rx st (esp8266_tcp_send env link_id data len st)"
  "keeps_rx st (esp8266_tcp_close env link_id st)"
  "keeps_rx st (esp8266_server_start env port st)"
  "keeps_rx st (esp8266_server_stop env st)"
  "keeps_rx st (esp8266_set_ap_config env s p channel encryption st)"
  "keeps_rx st (Some (esp8266_set_http_request_handler f st))"
  "keeps_rx st (esp8266_http_send_response env link_id code t b st)"
proof -
  show close: "keeps_rx st (esp8266_tcp_close env link_id st)" for st
    by (simp add: esp8266_tcp_close_def keeps_at)
  show "keeps_rx st (esp8266_tcp_send env link_id data len st)"
    unfolding esp8266_tcp_send_def
    by (auto intro!: keeps_rx_bind keeps_at(1) keeps_data)
  show "keeps_rx st (esp8266_http_send_response env link_id code t b st)"
    unfolding esp8266_http_send_response_def Let_def
    by (intro keeps_rx_bind keeps_at(1) keeps_string close)
qed (simp_all add: esp8266_tcp_connect_def esp8266_server_start_def esp8266_server_stop_def
    esp8266_set_ap_config_def esp8266_set_http_request_handler_def keeps_at keeps_string)

lemma keeps_scan_line: "keeps_rx st (handle_scan_line env line st)"
proof -
  have "rx_view st' = rx_view st" if "handle_scan_line env line st = Some st'" for st'
    using that keeps_commands(5) [of st env]
    by (auto simp: handle_scan_line_def keeps_rx_def bind_eq_Some_conv split: if_splits option.splits)
  then show ?thesis by (simp add: keeps_rx_def)
qed

lemma keeps_connect_line: "keeps_rx st (handle_connect_line env line st)"
proof -
  have "rx_view st' = rx_view st" if "handle_connect_line env line st = Some st'" for st'
    using that keeps_credentials [of st env] keeps_debug [of st env]
    by (auto simp: handle_connect_line_def keeps_rx_def bind_eq_Some_conv split: if_splits option.splits)
  then show ?thesis by (simp add: keeps_rx_def)
qed

lemma keeps_handle_return: "keeps_rx st (esp8266_handle_return env st)"
  by (cases "c_str (buffer_handle st)"; cases "esp8266_pending_cmd st")
    (simp_all add: esp8266_handle_return_def keeps_scan_line keeps_connect_line handle_simple_ack_def)

section \<open>The interrupt keeps the invariant\<close>

lemma inv_init: "esp_inv (esp8266_init h)"
  by (simp add: esp_inv_def esp8266_init_def)

lemma unat_u16_add1: "unat (w :: u16) < 65535 \<Longrightarrow> unat (w + 1) = unat w + 1"
  by (simp add: unat_word_ariths)

text \<open>What the application's handler is allowed to do: use the driver.\<close>

definition call_ok :: "http_call \<Rightarrow> bool" where
  "call_ok call \<longleftrightarrow> (\<forall>f l p n st. keeps_rx st (call f l p n st))"

text \<open>Within the invariant every array access is in bounds; the interrupt in closed form.\<close>

definition ipd_store :: "char \<Rightarrow> esp8266 \<Rightarrow> esp8266" where
  "ipd_store c st =
     (if unat (ipd_payload_len st) < 255
      then st\<lparr>ipd_payload := (ipd_payload st)[unat (ipd_payload_len st) := c],
              ipd_payload_len := ipd_payload_len st + 1\<rparr>
      else st)\<lparr>ipd_bytes_remaining := ipd_bytes_remaining st - 1\<rparr>"

definition ipd_frame :: "esp8266 \<Rightarrow> esp8266" where
  "ipd_frame st = st\<lparr>ipd_payload := (ipd_payload st)[unat (ipd_payload_len st) := NUL],
     receiving_ipd_payload := False\<rparr>"

lemma ipd_store_simps [simp]:
  "ipd_bytes_remaining (ipd_store c st) = ipd_bytes_remaining st - 1"
  "receiving_ipd_payload (ipd_store c st) = receiving_ipd_payload st"
  "http_request_handler (ipd_store c st) = http_request_handler st"
  "ipd_link_id (ipd_store c st) = ipd_link_id st"
  "bus (ipd_store c st) = bus st"
  "length (ipd_payload (ipd_store c st)) = length (ipd_payload st)"
  by (simp_all add: ipd_store_def)

lemma ipd_store_len:
  "unat (ipd_payload_len st) \<le> 255 \<Longrightarrow>
   unat (ipd_payload_len (ipd_store c st)) = min (unat (ipd_payload_len st) + 1) 255"
  by (auto simp: ipd_store_def unat_u16_add1 min_def)

lemma isr_ipd_byte_eq:
  assumes "esp_inv st"
  shows "isr_ipd_byte call c st =
    (if ipd_bytes_remaining st = 1
     then map_option (\<lambda>st'. st'\<lparr>ipd_payload_len := 0\<rparr>) (handle_ipd_frame call (ipd_frame (ipd_store c st)))
     else Some (ipd_store c st))"
proof -
  have len: "length (ipd_payload st) = 256" "unat (ipd_payload_len st) \<le> 255"
    using assms by (simp_all add: esp_inv_def)
  then have st1: "(if unat (ipd_payload_len st) < 256 - 1 then do {
       a \<leftarrow> arr_set (ipd_payload st) (unat (ipd_payload_len st)) c;
       Some (st\<lparr>ipd_payload := a, ipd_payload_len := ipd_payload_len st + 1\<rparr>)
     } else Some st)
    = Some (if unat (ipd_payload_len st) < 255
       then st\<lparr>ipd_payload := (ipd_payload st)[unat (ipd_payload_len st) := c],
              ipd_payload_len := ipd_payload_len st + 1\<rparr> else st)"
    by (simp add: arr_set_def)
  have "unat (ipd_payload_len (ipd_store c st)) < length (ipd_payload (ipd_store c st))"
    using len ipd_store_len [OF len(2), of c] by simp
  then have "arr_set (ipd_payload (ipd_store c st)) (unat (ipd_payload_len (ipd_store c st))) NUL
      = Some ((ipd_payload (ipd_store c st))[unat (ipd_payload_len (ipd_store c st)) := NUL])"
    by (simp add: arr_set_def)
  then show ?thesis
    unfolding isr_ipd_byte_def st1 bind.bind_lunit Let_def
    by (cases "unat (ipd_payload_len st) < 255")
      (auto simp: ipd_store_def ipd_frame_def map_option_case split: option.split)
qed

lemma inv_ipd_store:
  "esp_inv st \<Longrightarrow> ipd_bytes_remaining st \<noteq> 1 \<Longrightarrow> esp_inv (ipd_store c st)"
  by (auto simp: esp_inv_def ipd_store_def unat_u16_add1)

lemma inv_ipd_frame: "esp_inv st \<Longrightarrow> esp_inv (ipd_frame (ipd_store c st))"
  by (auto simp: esp_inv_def ipd_store_def ipd_frame_def unat_u16_add1)

lemma inv_ipd_byte:
  assumes "esp_inv st" "call_ok call" "isr_ipd_byte call c st = Some st'"
  shows "esp_inv st'"
proof (cases "ipd_bytes_remaining st = 1")
  case True
  then obtain st1 where st1: "handle_ipd_frame call (ipd_frame (ipd_store c st)) = Some st1"
    "st' = st1\<lparr>ipd_payload_len := 0\<rparr>"
    using assms(3) by (auto simp: isr_ipd_byte_eq [OF assms(1)])
  have "keeps_rx (ipd_frame (ipd_store c st)) (handle_ipd_frame call (ipd_frame (ipd_store c st)))"
    using assms(2) by (auto simp: handle_ipd_frame_def call_ok_def split: option.split)
  with st1(1) have "rx_view st1 = rx_view (ipd_frame (ipd_store c st))" by simp
  from esp_inv_rx_view [OF this] have "esp_inv st1"
    using inv_ipd_frame [OF assms(1), of c] by simp
  then show ?thesis by (auto simp: st1(2) esp_inv_def)
next
  case False
  with assms show ?thesis by (auto simp: isr_ipd_byte_eq intro: inv_ipd_store)
qed

text \<open>The line that the end of a line hands to the handlers.\<close>

definition line_state :: "esp8266 \<Rightarrow> esp8266" where
  "line_state st = (let a = (buffer_isr st)[unat (char_index st) := NUL]; n = unat (char_index st) + 1
     in st\<lparr>buffer_isr := a, terminated := True, buffer_handle := (take n a @ drop n (buffer_handle st))[511 := NUL]\<rparr>)"

lemma isr_eol_eq:
  assumes "esp_inv st"
  shows "isr_eol env st = (if terminated st then Some st
    else map_option (\<lambda>st'. st'\<lparr>char_index := 0\<rparr>) (esp8266_handle_return env (line_state st)))"
proof -
  have len: "length (buffer_isr st) = 512" "length (buffer_handle st) = 512" "unat (char_index st) \<le> 511"
    using assms by (simp_all add: esp_inv_def)
  then have "min (unat (char_index st) + 1) 512 = unat (char_index st) + 1" by simp
  with len show ?thesis
    unfolding isr_eol_def
    by (auto simp: arr_set_def line_state_def Let_def map_option_case split: option.split)
qed

lemma inv_line_state: "esp_inv st \<Longrightarrow> esp_inv (line_state st)"
  by (simp add: esp_inv_def line_state_def Let_def)

lemma inv_eol:
  assumes "esp_inv st" "isr_eol env st = Some st'"
  shows "esp_inv st'"
proof (cases "terminated st")
  case False
  then obtain st1 where "esp8266_handle_return env (line_state st) = Some st1" "st' = st1\<lparr>char_index := 0\<rparr>"
    using assms by (auto simp: isr_eol_eq)
  moreover from this(1) have "rx_view st1 = rx_view (line_state st)"
    using keeps_handle_return [of "line_state st" env] by simp
  ultimately show ?thesis
    using inv_line_state [OF assms(1)] esp_inv_rx_view [of st1] by (auto simp: esp_inv_def)
qed (use assms in \<open>simp add: isr_eol_eq\<close>)

definition line_push :: "char \<Rightarrow> esp8266 \<Rightarrow> esp8266" where
  "line_push c st =
     (if unat (char_index st) < 511
      then st\<lparr>buffer_isr := (buffer_isr st)[unat (char_index st) := c], char_index := char_index st + 1\<rparr>
      else st)\<lparr>terminated := False\<rparr>"

definition ipd_begin :: "esp8266 \<Rightarrow> esp8266" where
  "ipd_begin st = (let a = (buffer_isr st)[unat (char_index st) := NUL]; st = st\<lparr>buffer_isr := a\<rparr> in
     (case parse_ipd_header (takeWhile (\<lambda>c. c \<noteq> NUL) a) of
        Some (link_id, len) \<Rightarrow>
          if len > 0 then st\<lparr>ipd_link_id := link_id, ipd_bytes_remaining := len, ipd_payload_len := 0,
                             receiving_ipd_payload := True\<rparr>
          else st
      | None \<Rightarrow> st)\<lparr>char_index := 0\<rparr>)"

lemma isr_char_eq:
  assumes "esp_inv st"
  shows "isr_char c st = Some
    (if c = CHR '':'' \<and> 5 \<le> unat (char_index (line_push c st)) \<and> strncmp_eq (buffer_isr (line_push c st)) ''+IPD,''
     then ipd_begin (line_push c st) else line_push c st)"
proof -
  have len: "length (buffer_isr st) = 512" "unat (char_index st) \<le> 511"
    using assms by (simp_all add: esp_inv_def)
  then have st1: "(if unat (char_index st) < 511 then do {
        a \<leftarrow> arr_set (buffer_isr st) (unat (char_index st)) c;
        Some (st\<lparr>buffer_isr := a, char_index := char_index st + 1\<rparr>)
      } else Some st)
    = Some (if unat (char_index st) < 511
      then st\<lparr>buffer_isr := (buffer_isr st)[unat (char_index st) := c], char_index := char_index st + 1\<rparr>
      else st)"
    by (simp add: arr_set_def)
  have "unat (char_index (line_push c st)) < length (buffer_isr (line_push c st))"
    using len by (auto simp: line_push_def unat_u16_add1)
  then have "c_str ((buffer_isr (line_push c st))[unat (char_index (line_push c st)) := NUL])
      = Some (takeWhile (\<lambda>c. c \<noteq> NUL) ((buffer_isr (line_push c st))[unat (char_index (line_push c st)) := NUL]))"
    "arr_set (buffer_isr (line_push c st)) (unat (char_index (line_push c st))) NUL
      = Some ((buffer_isr (line_push c st))[unat (char_index (line_push c st)) := NUL])"
    by (simp_all add: c_str_def set_update_memI arr_set_def)
  note facts = this
  have push: "(if unat (char_index st) < 511
      then st\<lparr>buffer_isr := (buffer_isr st)[unat (char_index st) := c], char_index := char_index st + 1\<rparr>
      else st)\<lparr>terminated := False\<rparr> = line_push c st"
    by (simp add: line_push_def)
  show ?thesis
    unfolding isr_char_def st1 bind.bind_lunit Let_def push facts ipd_begin_def by (simp only: if_distrib [of Some])
qed

lemma inv_line_push: "esp_inv st \<Longrightarrow> esp_inv (line_push c st)"
  by (auto simp: esp_inv_def line_push_def unat_u16_add1)

lemma inv_ipd_begin: "esp_inv st \<Longrightarrow> esp_inv (ipd_begin st)"
  by (auto simp: esp_inv_def ipd_begin_def Let_def split: option.split)

lemma inv_char: "esp_inv st \<Longrightarrow> isr_char c st = Some st' \<Longrightarrow> esp_inv st'"
  by (auto simp: isr_char_eq inv_line_push inv_ipd_begin split: if_splits)

lemma inv_byte: "esp_inv st \<Longrightarrow> call_ok call \<Longrightarrow> isr_byte env call c st = Some st' \<Longrightarrow> esp_inv st'"
  unfolding isr_byte_def
  by (cases "receiving_ipd_payload st"; cases "c = CR \<or> c = LF")
    (auto intro: inv_ipd_byte inv_eol inv_char)

end
