(* ===== verification/Esp_Safety.thy ===== *)
theory Esp_Safety
  imports Esp_Isr
begin

text \<open>
  The ESP8266 driver on a board whose serial ports become ready and whose flash controller works:
  every function of the driver, and the interrupt, returns from every state that any sequence of
  calls and interrupts can reach, without an access outside an array or an unterminated string.
\<close>

section \<open>The board\<close>

locale esp_board = wifi_port env + debug_port env + eeprom_dev env mem for env mem

interpretation sim_board: esp_board "sim rx" flash_mem for rx
  by unfold_locales

text \<open>The flash controller is locked, and the page and the copy of it in memory are valid stores.\<close>

definition dev_ok :: "env \<Rightarrow> esp8266 \<Rightarrow> bool" where
  "dev_ok env st \<longleftrightarrow> cr_mode env (bus st) = FLASH_CR_LOCK \<and> store_ok (fst (READ_FLASH env (bus st)))
     \<and> store_ok (flash_data st)"

definition esp_ok :: "env \<Rightarrow> esp8266 \<Rightarrow> bool" where
  "esp_ok env st \<longleftrightarrow> esp_inv st \<and> dev_ok env st"

text \<open>\<open>runs env st r\<close>: from a state with a working device, the step returns with it still working.\<close>

definition runs :: "env \<Rightarrow> esp8266 \<Rightarrow> esp8266 option \<Rightarrow> bool" where
  "runs env st r \<longleftrightarrow> (dev_ok env st \<longrightarrow> (\<exists>st'. r = Some st' \<and> dev_ok env st'))"

lemma dev_ok_update [simp]:
  "dev_ok env (st\<lparr>esp8266_pending_cmd := p\<rparr>) = dev_ok env st"
  "dev_ok env (st\<lparr>http_request_handler := f\<rparr>) = dev_ok env st"
  "dev_ok env (st\<lparr>char_index := i\<rparr>) = dev_ok env st"
  "dev_ok env (st\<lparr>ipd_payload_len := n\<rparr>) = dev_ok env st"
  by (simp_all add: dev_ok_def)

lemma runs_Some [simp]: "runs env st (Some st)"
  by (simp add: runs_def)

lemma runs_bind: "runs env st r \<Longrightarrow> (\<And>st'. runs env st' (f st')) \<Longrightarrow> runs env st (r \<bind> f)"
  by (fastforce simp: runs_def)

lemma runs_base: "dev_ok env st = dev_ok env st0 \<Longrightarrow> runs env st r \<Longrightarrow> runs env st0 r"
  by (simp add: runs_def)

lemma runs_pending: "runs env st r \<Longrightarrow> runs env st (r \<bind> (\<lambda>st. Some (st\<lparr>esp8266_pending_cmd := p\<rparr>)))"
  by (fastforce simp: runs_def)

section \<open>Traffic outside the flash controller\<close>

fun flash_reg :: "bus_event \<Rightarrow> bool" where
  "flash_reg (Rd32 _ _) = False"
| "flash_reg (Wr32 a _) = (a = FLASH_KEYR \<or> a = FLASH_CR \<or> a = FLASH_AR \<or> a = FLASH_OPTKEYR)"
| "flash_reg _ = True"

lemma flash_reg_wr_log: "(\<exists>e \<in> set t. flash_reg e) = (\<exists>e \<in> set (wr_log t). flash_reg e)"
proof -
  have "\<not> is_read e" if "flash_reg e" for e using that by (cases e) simp_all
  then show ?thesis by (auto simp: wr_log_def)
qed

lemma tx_not_flash: "u = USART1 \<or> u = USART2 \<Longrightarrow> \<not> flash_reg (tx_event u c)"
  by (auto simp: tx_event_def)

context eeprom_dev
begin

lemma off_flash_app: "\<not> (\<exists>e \<in> set t. flash_reg e) \<Longrightarrow> mem (t @ h) = mem h \<and> cr_mode env (t @ h) = cr_mode env h"
proof (induction t)
  case (Cons e t)
  then show ?case
    by (cases e) (auto simp: mem_read cr_read other_regs)
qed simp

lemma off_flash:
  assumes "extends ws h h'" "\<not> (\<exists>e \<in> set ws. flash_reg e)"
  shows "mem h' = mem h" "cr_mode env h' = cr_mode env h"
proof -
  obtain t where t: "h' = t @ h" "wr_log t = ws" using assms(1) by (auto simp: extends_def)
  with assms(2) have "\<not> (\<exists>e \<in> set t. flash_reg e)" by (simp add: flash_reg_wr_log [of t])
  then show "mem h' = mem h" "cr_mode env h' = cr_mode env h" using off_flash_app t(1) by simp_all
qed

lemma sent_keeps:
  assumes "sent u s h h'" "u = USART1 \<or> u = USART2"
  shows "mem h' = mem h" "cr_mode env h' = cr_mode env h"
proof -
  have "\<not> (\<exists>e \<in> set (rev (map (tx_event u) s)). flash_reg e)" using tx_not_flash [OF assms(2)] by simp
  with assms(1) show "mem h' = mem h" "cr_mode env h' = cr_mode env h"
    unfolding sent_def by (simp_all add: off_flash)
qed

lemma read_words_mem:
  "mem h = mem h' \<Longrightarrow> i + n \<le> 256 \<Longrightarrow>
   fst (read_words env n (word_of_nat (4 * i)) h) = fst (read_words env n (word_of_nat (4 * i)) h')"
proof (induction n arbitrary: i h h')
  case (Suc n)
  let ?a = "EEPROM_BASE_ADDR + word_of_nat (4 * i) :: u32"
  have "unat ?a = 0x0800F800 + 4 * i" using Suc.prems(2) by (intro unat_base_offset) simp
  then have "FLASH_BASE \<le> ?a" "?a < 0x08010000"
    using Suc.prems(2) by (simp_all add: word_le_nat_alt word_less_nat_alt)
  then have "fst (eeprom_read env (word_of_nat (4 * i)) h) = fst (eeprom_read env (word_of_nat (4 * i)) h')"
    using Suc.prems(1) by (simp add: eeprom_read_def mmio_defs array_read)
  moreover have "mem (snd (eeprom_read env (word_of_nat (4 * i)) h)) = mem (snd (eeprom_read env (word_of_nat (4 * i)) h'))"
    using Suc.prems(1) by (simp add: eeprom_read_def mmio_defs mem_read)
  then have "fst (read_words env n (word_of_nat (4 * Suc i)) (snd (eeprom_read env (word_of_nat (4 * i)) h)))
      = fst (read_words env n (word_of_nat (4 * Suc i)) (snd (eeprom_read env (word_of_nat (4 * i)) h')))"
    using Suc.prems by (intro Suc.IH) auto
  moreover have "(word_of_nat (4 * i) + 4 :: u32) = word_of_nat (4 * Suc i)" by simp
  ultimately show ?case by (simp add: case_prod_beta add.commute)
qed simp

lemma READ_FLASH_mem: "mem h = mem h' \<Longrightarrow> fst (READ_FLASH env h) = fst (READ_FLASH env h')"
  using read_words_mem [of h h' 0 244] by (simp add: READ_FLASH_def case_prod_beta)

lemma dev_ok_bus:
  assumes "mem h' = mem (bus st)" "cr_mode env h' = cr_mode env (bus st)" "store_ok (flash_data st)" "dev_ok env st"
  shows "dev_ok env (st\<lparr>bus := h'\<rparr>)"
  using assms READ_FLASH_mem [OF assms(1)] by (simp add: dev_ok_def)

end

section \<open>Every function returns\<close>

context esp_board
begin

lemma runs_sends:
  assumes "sends st s r"
  shows "runs env st r"
proof -
  obtain h' where h': "r = Some (st\<lparr>bus := h'\<rparr>)" "sent WIFI_USART s (bus st) h'"
    using assms by (auto simp: sends_def wifi_sent_def)
  have "dev_ok env (st\<lparr>bus := h'\<rparr>)" if "dev_ok env st"
    using that sent_keeps [OF h'(2)] by (intro dev_ok_bus) (simp_all add: dev_ok_def)
  with h'(1) show ?thesis by (simp add: runs_def)
qed

lemma runs_string: "runs env st (wifi_send_string env s st)"
proof (induction s arbitrary: st)
  case (Cons c s)
  then have "runs env st (wifi_send_char env c st \<bind> wifi_send_string env s)"
    by (intro runs_bind runs_sends [OF sends_char])
  then show ?case by (simp add: wifi_send_string.simps(2))
qed simp

lemma runs_at: "runs env st (at_send env n s st)"
  unfolding at_send_def by (rule runs_string)

lemma runs_debug:
  assumes "render_fmt f args = Some s"
  shows "runs env st (esp_debug env f args st)"
proof -
  obtain h' where h': "debug_write env f args (bus st) = Some h'" "sent DEBUG_USART s (bus st) h'"
    using write_renders [of "bus st" f args] assms by (auto simp: emits_def)
  have "dev_ok env (st\<lparr>bus := h'\<rparr>)" if "dev_ok env st"
    using that sent_keeps [OF h'(2)] by (intro dev_ok_bus) (simp_all add: dev_ok_def)
  with h'(1) show ?thesis by (simp add: runs_def esp_debug_def)
qed

lemma runs_credentials:
  assumes "NUL \<notin> set s" "length s \<le> 32" "NUL \<notin> set p" "length p \<le> 63"
  shows "runs env st (esp_update_credentials env s p st)"
proof -
  have "\<exists>st'. esp_update_credentials env s p st = Some st' \<and> dev_ok env st'" if ok: "dev_ok env st"
  proof -
    obtain d' h' where "esp8266_update_credential_list env s p (bus st) = Some (d', h')"
      "fst (READ_FLASH env h') = d'" "store_ok d'" "cr_mode env h' = FLASH_CR_LOCK"
      using update_credential_list [of "bus st" s p] ok assms by (auto simp: dev_ok_def)
    then show ?thesis by (simp add: esp_update_credentials_def dev_ok_def)
  qed
  then show ?thesis by (simp add: runs_def)
qed

end

section \<open>Calls\<close>

text \<open>The functions that \<^verbatim>\<open>esp8266.h\<close> offers to the application.\<close>

datatype esp_call =
    Setup bool
  | Check
  | Set_mode nat
  | Connect "char list" "char list"
  | Disconnect
  | Reset
  | Get_ip
  | Get_connection_status
  | Scan_connect_wifi
  | Update_credential_list "char list" "char list"
  | Tcp_connect u8 "char list" u16
  | Tcp_send u8 "char list" u16
  | Tcp_close u8
  | Server_start u16
  | Server_stop
  | Set_ap_config "char list" "char list" u8 u8
  | Set_http_request_handler "nat option"
  | Http_send_response u8 u16 "char list option" "char list option"

primrec esp_exec :: "env \<Rightarrow> clocks \<Rightarrow> esp_call \<Rightarrow> esp8266 \<Rightarrow> esp8266 option" where
  "esp_exec env clk (Setup multi) st = esp8266_setup env clk multi st"
| "esp_exec env clk Check st = esp8266_check env st"
| "esp_exec env clk (Set_mode m) st = esp8266_set_mode env m st"
| "esp_exec env clk (Connect s p) st = esp8266_connect env s p st"
| "esp_exec env clk Disconnect st = esp8266_disconnect env st"
| "esp_exec env clk Reset st = esp8266_reset env st"
| "esp_exec env clk Get_ip st = esp8266_get_ip env st"
| "esp_exec env clk Get_connection_status st = esp8266_get_connection_status env st"
| "esp_exec env clk Scan_connect_wifi st = esp8266_scan_connect_wifi env st"
| "esp_exec env clk (Update_credential_list s p) st = esp_update_credentials env s p st"
| "esp_exec env clk (Tcp_connect l ip port) st = esp8266_tcp_connect env l ip port st"
| "esp_exec env clk (Tcp_send l data len) st = esp8266_tcp_send env l data len st"
| "esp_exec env clk (Tcp_close l) st = esp8266_tcp_close env l st"
| "esp_exec env clk (Server_start port) st = esp8266_server_start env port st"
| "esp_exec env clk Server_stop st = esp8266_server_stop env st"
| "esp_exec env clk (Set_ap_config s p c e) st = esp8266_set_ap_config env s p c e st"
| "esp_exec env clk (Set_http_request_handler f) st = Some (esp8266_set_http_request_handler f st)"
| "esp_exec env clk (Http_send_response l code t b) st = esp8266_http_send_response env l code t b st"

text \<open>What the caller owes: the bytes it announces, and strings that fit the structures in flash.\<close>

fun call_valid :: "esp_call \<Rightarrow> bool" where
  "call_valid (Tcp_send l data len) = (unat len \<le> length data)"
| "call_valid (Update_credential_list s p) =
     (NUL \<notin> set s \<and> length s \<le> 32 \<and> NUL \<notin> set p \<and> length p \<le> 63)"
| "call_valid _ = True"

lemma keeps_call: "keeps_rx st (esp_exec env clk c st)"
  by (cases c) (simp_all add: keeps_commands keeps_connections keeps_credentials
      keeps_connections(7) [simplified])

section \<open>Register traffic of the set-up\<close>

definition calm :: "hist \<Rightarrow> hist \<Rightarrow> bool" where
  "calm h h' \<longleftrightarrow> (\<exists>ws. extends ws h h' \<and> \<not> (\<exists>e \<in> set ws. flash_reg e))"

lemma calm_refl: "calm h h"
  by (auto simp: calm_def intro: exI [of _ "[]"])

lemma calm_rd: "calm h h' \<Longrightarrow> calm h (Rd32 a v # h')"
  unfolding calm_def using extends_Rd by blast

lemma calm_wr: "\<not> flash_reg (Wr32 a 0) \<Longrightarrow> calm h h' \<Longrightarrow> calm h (Wr32 a v # h')"
proof -
  assume "\<not> flash_reg (Wr32 a 0)" "calm h h'"
  then obtain ws where "extends ws h h'" "\<not> (\<exists>e \<in> set (Wr32 a v # ws). flash_reg e)"
    by (auto simp: calm_def)
  then show ?thesis unfolding calm_def using extends_Wr by blast
qed

lemma calm_regs:
  "\<not> flash_reg (Wr32 a 0) \<Longrightarrow> calm h h' \<Longrightarrow> calm h (reg_or env a b h')"
  "\<not> flash_reg (Wr32 a 0) \<Longrightarrow> calm h h' \<Longrightarrow> calm h (reg_andnot env a b h')"
  "\<not> flash_reg (Wr32 a 0) \<Longrightarrow> calm h h' \<Longrightarrow> calm h (reg_field env a b w h')"
  "\<not> flash_reg (Wr32 a 0) \<Longrightarrow> calm h h' \<Longrightarrow> calm h (mmio_wr a w h')"
  by (simp_all add: hw_simps calm_rd calm_wr)

lemma calm_pins:
  "calm h h' \<Longrightarrow> calm h (rcc_periph_clock_enable env RCC_GPIOA h')"
  "calm h h' \<Longrightarrow> calm h (rcc_periph_clock_enable env RCC_USART2 h')"
  "calm h h' \<Longrightarrow> calm h (gpio_set_mode env GPIOA mode cnf pins h')"
  "calm h h' \<Longrightarrow> calm h (nvic_enable_irq NVIC_USART2_IRQ h')"
proof -
  assume h: "calm h h'"
  show "calm h (rcc_periph_clock_enable env RCC_GPIOA h')" "calm h (rcc_periph_clock_enable env RCC_USART2 h')"
    unfolding rcc_periph_clock_enable_def using h
    by (intro calm_regs; simp add: RCC_GPIOA_def RCC_USART2_def rcc_reg_def reg_bit_def)+
  show "calm h (gpio_set_mode env GPIOA mode cnf pins h')"
    using h by (simp add: gpio_set_mode_def mmio_rd_def mmio_wr_def case_prod_beta calm_wr calm_rd del: upt_rec_numeral)
  show "calm h (nvic_enable_irq NVIC_USART2_IRQ h')"
    unfolding nvic_enable_irq_def using h by (intro calm_regs) (simp_all add: irq_word_def)
qed

lemma calm_usart:
  "calm h h' \<Longrightarrow> calm h (usart_set_baudrate clk WIFI_USART b h')"
  "calm h h' \<Longrightarrow> calm h (usart_set_databits env WIFI_USART b h')"
  "calm h h' \<Longrightarrow> calm h (usart_set_stopbits env WIFI_USART b h')"
  "calm h h' \<Longrightarrow> calm h (usart_set_mode env WIFI_USART b h')"
  "calm h h' \<Longrightarrow> calm h (usart_set_parity env WIFI_USART b h')"
  "calm h h' \<Longrightarrow> calm h (usart_set_flow_control env WIFI_USART b h')"
  "calm h h' \<Longrightarrow> calm h (usart_enable_rx_interrupt env WIFI_USART h')"
  "calm h h' \<Longrightarrow> calm h (usart_enable env WIFI_USART h')"
  by (simp_all add: usart_set_baudrate_def usart_set_databits_def usart_set_stopbits_def usart_set_mode_def
      usart_set_parity_def usart_set_flow_control_def usart_enable_rx_interrupt_def usart_enable_def calm_regs)

section \<open>Every call returns\<close>

context esp_board
begin

lemma runs_setup: "runs env st (esp8266_setup env clk multi st)"
proof -
  have pins: "wifi_pins env WIFI_USART h = nvic_enable_irq NVIC_USART2_IRQ
      (gpio_set_mode env GPIOA GPIO_MODE_INPUT GPIO_CNF_INPUT_FLOAT GPIO3
      (gpio_set_mode env GPIOA GPIO_MODE_OUTPUT_50_MHZ GPIO_CNF_OUTPUT_ALTFN_PUSHPULL GPIO2
      (rcc_periph_clock_enable env RCC_USART2 (rcc_periph_clock_enable env RCC_GPIOA h))))" for h
    by (simp add: wifi_pins_def)
  have "\<exists>h s. calm (bus st) h \<and> esp8266_setup env clk multi st = wifi_send_string env s (st\<lparr>bus := h\<rparr>)"
    unfolding esp8266_setup_def Let_def
    by (rule exI, rule exI, rule conjI [rotated], rule refl)
      (simp only: pins calm_usart calm_pins calm_refl)
  then obtain h s ws where h: "esp8266_setup env clk multi st = wifi_send_string env s (st\<lparr>bus := h\<rparr>)"
    "extends ws (bus st) h" "\<not> (\<exists>e \<in> set ws. flash_reg e)"
    by (auto simp: calm_def)
  have "dev_ok env (st\<lparr>bus := h\<rparr>)" if "dev_ok env st"
    using that off_flash [OF h(2,3)] by (intro dev_ok_bus) (simp_all add: dev_ok_def)
  then show ?thesis using runs_string [of "st\<lparr>bus := h\<rparr>" s] by (auto simp: h(1) runs_def)
qed

lemma runs_scan: "runs env st (esp8266_scan_connect_wifi env st)"
proof -
  let ?st = "st\<lparr>flash_data := fst (READ_FLASH env (bus st)), bus := snd (READ_FLASH env (bus st)),
    esp8266_pending_cmd := ESP8266_CMD_SCAN_WIFI\<rparr>"
  have "dev_ok env ?st" if "dev_ok env st"
    using that READ_FLASH_keep [of "bus st"] READ_FLASH_mem [OF READ_FLASH_keep(1) [of "bus st"]]
    by (simp add: dev_ok_def)
  then show ?thesis
    using runs_string [of ?st] by (auto simp: esp8266_scan_connect_wifi_def case_prod_beta runs_def)
qed

lemma runs_data: "runs env st (wifi_send_data env s st)"
  using sends_data by (rule runs_sends)

lemma runs_pend:
  "runs env st (wifi_send_string env s (st\<lparr>esp8266_pending_cmd := p\<rparr>))"
  "runs env st (at_send env n s (st\<lparr>esp8266_pending_cmd := p\<rparr>))"
  by (rule runs_base [OF _ runs_string], simp) (rule runs_base [OF _ runs_at], simp)

lemma runs_close: "runs env st (esp8266_tcp_close env link_id st)"
  by (simp add: esp8266_tcp_close_def runs_at)

lemma runs_http: "runs env st (esp8266_http_send_response env link_id code t b st)"
  unfolding esp8266_http_send_response_def Let_def
  by (intro runs_bind runs_at runs_string runs_close)

lemma runs_call:
  assumes "call_valid c"
  shows "runs env st (esp_exec env clk c st)"
proof (cases c)
  case (Update_credential_list s p)
  with assms show ?thesis by (simp add: runs_credentials)
next
  case (Tcp_send l data len)
  with assms have "runs env st (esp8266_tcp_send env l data len st)"
    by (auto simp: esp8266_tcp_send_def intro!: runs_bind runs_at runs_data)
  with Tcp_send show ?thesis by simp
next
  case (Set_http_request_handler f)
  then show ?thesis by (simp add: runs_def esp8266_set_http_request_handler_def)
qed (simp_all add: runs_setup runs_scan runs_pend runs_at runs_string runs_close runs_http
    esp8266_check_def esp8266_set_mode_def esp8266_connect_def esp8266_disconnect_def esp8266_reset_def
    esp8266_get_ip_def esp8266_get_connection_status_def esp8266_tcp_connect_def esp8266_server_start_def
    esp8266_server_stop_def esp8266_set_ap_config_def)

end

section \<open>The interrupt returns\<close>

lemma scan_match_ok:
  assumes "list_all slot_ok cs" "NUL \<notin> set s" "length s \<le> 32"
  shows "\<exists>m. scan_match cs s = Some m \<and> (\<forall>c. m = Some c \<longrightarrow> c \<in> set cs \<and> map_option fst (slot c) = Some s)"
  using assms(1)
proof (induction cs)
  case (Cons c cs)
  then obtain m where m: "scan_match cs s = Some m"
    "\<forall>c. m = Some c \<longrightarrow> c \<in> set cs \<and> map_option fst (slot c) = Some s" by auto
  moreover have "strcmp_eq (ssid c) s = Some (map_option fst (slot c) = Some s)"
    using Cons.prems assms(2,3) by (intro strcmp_slot) simp_all
  ultimately show ?case by auto
qed simp

lemma extract_quoted_ok:
  assumes "extract_quoted line n = Some s" "0 < n" "NUL \<notin> set line"
  shows "NUL \<notin> set s" "length s \<le> n - 1"
proof -
  obtain start and "end" :: "char list" where start: "strchr line DQUOTE = Some start"
    and "Some (take (if length (tl start) - length end \<ge> n then n - 1 else length (tl start) - length end)
      (tl start)) = Some s"
    using assms(1) unfolding extract_quoted_def bind_eq_Some_conv Let_def by blast
  then have s: "s = take (if length (tl start) - length end \<ge> n then n - 1 else length (tl start) - length end)
      (tl start)" by simp
  have "set start \<subseteq> set line" using start by (auto simp: strchr_def dest: set_dropWhileD split: if_splits)
  moreover have "set (tl start) \<subseteq> set start" by (cases start) auto
  moreover have "set s \<subseteq> set (tl start)" unfolding s by (rule set_take_subset)
  ultimately show "NUL \<notin> set s" using assms(3) by blast
  show "length s \<le> n - 1" unfolding s using assms(2) by auto
qed

lemma c_str_no_NUL: "c_str a = Some s \<Longrightarrow> NUL \<notin> set s"
  by (auto simp: c_str_def dest: set_takeWhileD split: if_splits)

context esp_board
begin

lemma runs_scan_line:
  assumes "NUL \<notin> set line" "dev_ok env st"
  shows "runs env st (handle_scan_line env line st)"
proof (cases "strncmp_eq line ''+CWLAP:(''")
  case True
  show ?thesis
  proof (cases "extract_quoted line 33")
    case (Some s)
    then have s: "NUL \<notin> set s" "length s \<le> 32" using extract_quoted_ok [OF Some] assms(1) by simp_all
    have "list_all slot_ok (cred_list (flash_data st))" using assms(2) by (simp add: dev_ok_def store_ok_def)
    from scan_match_ok [OF this s] obtain m where m: "scan_match (cred_list (flash_data st)) s = Some m"
      "\<forall>c. m = Some c \<longrightarrow> map_option fst (slot c) = Some s" by blast
    show ?thesis
    proof (cases m)
      case c: (Some c)
      then obtain p where "c_str (ssid c) = Some s" "c_str (password c) = Some p"
        using m(2) by (auto simp: slot_def split: option.splits)
      with m c Some True show ?thesis by (simp add: handle_scan_line_def connect_no_update_def runs_at)
    qed (use m Some True in \<open>simp add: handle_scan_line_def\<close>)
  qed (use True in \<open>simp add: handle_scan_line_def\<close>)
next
  case False
  then show ?thesis by (simp add: handle_scan_line_def runs_def)
qed

lemma connect_error_renders: "\<exists>s. render_fmt (connect_error_text e) [] = Some s"
  by (simp add: connect_error_text_def render_fmt_literal) (simp add: render_fmt_def)

lemma runs_connect_line:
  assumes "esp_inv st"
  shows "runs env st (handle_connect_line env line st)"
proof (cases "line = ''OK''")
  case True
  have "c_str (g_ssid st) = Some []" "c_str (g_password st) = Some []"
    using assms by (simp_all add: esp_inv_def c_str_def)
  then show ?thesis
    using True runs_pending [OF runs_credentials [of "[]" "[]" st]] by (simp add: handle_connect_line_def)
next
  case False
  show ?thesis
  proof (cases "strstr line ''+CWJAP:''")
    case None
    with False show ?thesis by (simp add: handle_connect_line_def runs_def)
  next
    case (Some p)
    let ?e = "connect_error_text (word_of_int (atoi (drop 7 p)))"
    obtain s where "render_fmt ?e [] = Some s" using connect_error_renders by blast
    from runs_pending [OF runs_debug [OF this]] False Some show ?thesis
      by (simp add: handle_connect_line_def)
  qed
qed

lemma runs_handle_return:
  assumes "esp_inv st" "dev_ok env st"
  shows "runs env st (esp8266_handle_return env st)"
proof -
  have "buffer_handle st ! 511 = NUL" "511 < length (buffer_handle st)"
    using assms(1) by (simp_all add: esp_inv_def)
  then have "NUL \<in> set (buffer_handle st)" using nth_mem by metis
  then obtain line where line: "c_str (buffer_handle st) = Some line" using c_str_Some by blast
  then have nul: "NUL \<notin> set line" by (rule c_str_no_NUL)
  have "runs env st (Some (handle_simple_ack line st))" by (simp add: runs_def handle_simple_ack_def)
  then show ?thesis
    using runs_scan_line [OF nul assms(2)] runs_connect_line [OF assms(1)]
    by (cases "esp8266_pending_cmd st") (simp_all add: esp8266_handle_return_def line)
qed

lemma isr_byte_returns:
  assumes "esp_ok env st" "call_ok call" "\<And>f l p n st. runs env st (call f l p n st)"
  shows "\<exists>st'. isr_byte env call c st = Some st' \<and> esp_ok env st'"
proof -
  have inv: "esp_inv st" and dev: "dev_ok env st" using assms(1) by (simp_all add: esp_ok_def)
  have "\<exists>st'. isr_byte env call c st = Some st' \<and> dev_ok env st'"
  proof -
    consider "receiving_ipd_payload st" | "\<not> receiving_ipd_payload st" "c = CR \<or> c = LF"
      | "\<not> receiving_ipd_payload st" "\<not> (c = CR \<or> c = LF)" by blast
    then show ?thesis
    proof cases
      case 1
      have "dev_ok env (ipd_store c st)" "dev_ok env (ipd_frame (ipd_store c st))"
        using dev by (simp_all add: dev_ok_def ipd_store_def ipd_frame_def)
      moreover have "runs env (ipd_frame (ipd_store c st)) (handle_ipd_frame call (ipd_frame (ipd_store c st)))"
        using assms(3) by (simp add: handle_ipd_frame_def split: option.split)
      ultimately show ?thesis
        using 1 by (auto simp: isr_byte_def isr_ipd_byte_eq [OF inv] runs_def)
    next
      case 2
      have "dev_ok env (line_state st)" using dev by (simp add: dev_ok_def line_state_def Let_def)
      with runs_handle_return [OF inv_line_state [OF inv]] 2 dev show ?thesis
        by (auto simp: isr_byte_def isr_eol_eq [OF inv] runs_def)
    next
      case 3
      have "dev_ok env (line_push c st)" "dev_ok env (ipd_begin (line_push c st))"
        using dev by (auto simp: dev_ok_def line_push_def ipd_begin_def Let_def split: option.split)
      with 3 show ?thesis by (auto simp: isr_byte_def isr_char_eq [OF inv])
    qed
  qed
  then show ?thesis using inv_byte [OF inv assms(2)] by (auto simp: esp_ok_def)
qed

lemma isr_returns:
  assumes "esp_ok env st" "call_ok call" "\<And>f l p n st. runs env st (call f l p n st)"
  shows "\<exists>st'. usart2_isr env call st = Some st' \<and> esp_ok env st'"
proof -
  have rd: "esp_ok env (st\<lparr>bus := Rd32 a v # bus st\<rparr>)" if "esp_ok env st" for a v st
  proof -
    have "dev_ok env (st\<lparr>bus := Rd32 a v # bus st\<rparr>)"
      using that by (intro dev_ok_bus) (simp_all add: esp_ok_def dev_ok_def mem_read cr_read)
    with that show ?thesis by (simp add: esp_ok_def esp_inv_def)
  qed
  have dbg: "\<exists>st'. esp_debug env ''%c'' [VWord w] st = Some st' \<and> esp_ok env st'" if "esp_ok env st" for st w
  proof -
    have "\<exists>s. render_fmt ''%c'' [VWord w] = Some s"
      by (simp add: render_fmt_def parse_fmt.simps width_of_def render_conv_def render_arg_def is_digit_def)
    then obtain s where "render_fmt ''%c'' [VWord w] = Some s" by blast
    from runs_debug [OF this, of st] that obtain st'
      where st': "esp_debug env ''%c'' [VWord w] st = Some st'" "dev_ok env st'"
      by (auto simp: esp_ok_def runs_def)
    with keeps_debug [of st env "''%c''" "[VWord w]"] have "rx_view st' = rx_view st" by simp
    from esp_inv_rx_view [OF this] st' that show ?thesis by (simp add: esp_ok_def)
  qed
  let ?h1 = "Rd32 (USART_SR WIFI_USART) (env (bus st) (USART_SR WIFI_USART)) # bus st"
  let ?h2 = "Rd32 (USART_DR WIFI_USART) (env ?h1 (USART_DR WIFI_USART)) # ?h1"
  let ?c = "ucast (ucast (env ?h1 (USART_DR WIFI_USART) AND USART_DR_MASK) :: u16) :: u8"
  have ok: "esp_ok env (st\<lparr>bus := ?h1\<rparr>)" "esp_ok env (st\<lparr>bus := ?h2\<rparr>)"
    using rd [OF assms(1)] rd [OF rd [OF assms(1)]] by simp_all
  obtain st1 where "esp_debug env ''%c'' [VWord (ucast ?c)] (st\<lparr>bus := ?h2\<rparr>) = Some st1" "esp_ok env st1"
    using dbg [OF ok(2)] by blast
  moreover obtain st2 where "isr_byte env call (char_of_byte ?c) st1 = Some st2" "esp_ok env st2"
    using isr_byte_returns [OF \<open>esp_ok env st1\<close> assms(2,3)] by blast
  ultimately show ?thesis
    using ok(1) by (simp add: usart2_isr_def usart_get_flag_def usart_recv_def mmio_rd_def Let_def)
qed

end

section \<open>Reachable states\<close>

text \<open>What the driver needs of the handler that the application registers.\<close>

definition handler_ok :: "env \<Rightarrow> http_call \<Rightarrow> bool" where
  "handler_ok env call \<longleftrightarrow> call_ok call \<and> (\<forall>f l p n st. runs env st (call f l p n st))"

text \<open>
  The states that a run passes through: the statics at reset on a device whose page holds a valid
  store, then calls of the application and interrupts in any order.
\<close>

inductive esp_reach :: "env \<Rightarrow> clocks \<Rightarrow> http_call \<Rightarrow> esp8266 \<Rightarrow> bool" for env clk call where
  boot: "cr_mode env h = FLASH_CR_LOCK \<Longrightarrow> store_ok (fst (READ_FLASH env h)) \<Longrightarrow>
    esp_reach env clk call (esp8266_init h)"
| exec: "esp_reach env clk call st \<Longrightarrow> call_valid c \<Longrightarrow> esp_exec env clk c st = Some st' \<Longrightarrow>
    esp_reach env clk call st'"
| irq: "esp_reach env clk call st \<Longrightarrow> usart2_isr env call st = Some st' \<Longrightarrow> esp_reach env clk call st'"

lemma flash_data_zero_ok: "store_ok flash_data_zero"
  by (simp add: store_ok_def wf_flash_data_def flash_data_zero_def wf_credential_def slot_ok_def list_all_iff)

lemma boot_ok:
  "cr_mode env h = FLASH_CR_LOCK \<Longrightarrow> store_ok (fst (READ_FLASH env h)) \<Longrightarrow> esp_ok env (esp8266_init h)"
  by (simp add: esp_ok_def inv_init dev_ok_def) (simp add: esp8266_init_def flash_data_zero_ok)

context esp_board
begin

lemma call_returns:
  assumes "esp_ok env st" "call_valid c"
  shows "\<exists>st'. esp_exec env clk c st = Some st' \<and> esp_ok env st'"
proof -
  obtain st' where st': "esp_exec env clk c st = Some st'" "dev_ok env st'"
    using runs_call [OF assms(2), of st] assms(1) by (auto simp: runs_def esp_ok_def)
  with keeps_call [of st env clk c] have "rx_view st' = rx_view st" by simp
  from esp_inv_rx_view [OF this] st' assms(1) show ?thesis by (simp add: esp_ok_def)
qed

lemma reach_ok:
  assumes "esp_reach env clk call st" "handler_ok env call"
  shows "esp_ok env st"
  using assms(1)
proof induction
  case (boot h)
  then show ?case by (rule boot_ok)
next
  case (exec st c st')
  then show ?case using call_returns [of st c clk] by auto
next
  case (irq st st')
  then show ?case using isr_returns [of st call] assms(2) by (auto simp: handler_ok_def)
qed

end

section \<open>Properties\<close>

text \<open>
  C1. The driver never gets stuck. On a board whose serial ports become ready and whose flash
  controller works, started with a valid store in the page, and with an application handler that
  returns: after any sequence of calls and interrupts the invariant of the statics holds (indices
  within their buffers, the line buffer terminated, a payload in reception has bytes left), the
  receive interrupt returns whatever byte arrives, and so does every call whose arguments are
  valid; no array is accessed out of bounds and no unterminated string is read.
\<close>

theorem esp8266_never_stuck:
  assumes "esp_board env mem" "handler_ok env call" "esp_reach env clk call st"
  shows "esp_inv st \<and> (\<exists>st'. usart2_isr env call st = Some st')
     \<and> (\<forall>c. call_valid c \<longrightarrow> (\<exists>st'. esp_exec env clk c st = Some st'))"
proof -
  have ok: "esp_ok env st" by (rule esp_board.reach_ok [OF assms(1,3,2)])
  then show ?thesis
    using esp_board.isr_returns [OF assms(1) ok] esp_board.call_returns [OF assms(1) ok] assms(2)
    by (fastforce simp: handler_ok_def esp_ok_def)
qed

lemma sim_erased: "cr_mode (sim rx) [] = FLASH_CR_LOCK" "store_ok (fst (READ_FLASH (sim rx) []))"
  using sim_eeprom.READ_FLASH_erased [of "[]" rx]
  by (simp_all add: sim_cr_mode fpec_of_def fpec_reset_def flash_mem_def)

theorem esp8266_never_stuck_witness:
  "\<exists>st'. usart2_isr (sim ''OK'') (\<lambda>f l p n st. Some st) (esp8266_init []) = Some st'"
proof -
  have "esp_reach (sim ''OK'') clocks_reset (\<lambda>f l p n st. Some st) (esp8266_init [])"
    by (rule esp_reach.boot) (rule sim_erased)+
  moreover have "handler_ok (sim ''OK'') (\<lambda>f l p n st. Some st)"
    by (simp add: handler_ok_def call_ok_def)
  ultimately show ?thesis
    using esp8266_never_stuck [OF sim_board.esp_board_axioms] by blast
qed

end
