(* ===== verification/Esp_Frames.thy ===== *)
theory Esp_Frames
  imports Esp_Safety
begin

text \<open>
  What the receive interrupt of \<^verbatim>\<open>esp8266.c\<close> makes of a stream of bytes: response lines are
  reassembled and handed to the handlers once each, \<^verbatim>\<open>+IPD\<close> frames are cut out by their announced
  length and handed to the application once each.
\<close>

fun isr_bytes :: "env \<Rightarrow> http_call \<Rightarrow> char list \<Rightarrow> esp8266 \<Rightarrow> esp8266 option" where
  "isr_bytes env call [] st = Some st"
| "isr_bytes env call (c # cs) st = isr_byte env call c st \<bind> isr_bytes env call cs"

lemma isr_bytes_append: "isr_bytes env call (xs @ ys) st = isr_bytes env call xs st \<bind> isr_bytes env call ys"
proof (induction xs arbitrary: st)
  case (Cons c xs)
  then show ?case by (cases "isr_byte env call c st") simp_all
qed simp

lemma take_prefix: "take n xs = ys \<Longrightarrow> k \<le> n \<Longrightarrow> take k xs = take k ys"
  by (auto simp: min_absorb1)

lemma take_snoc_append: "length q \<le> n \<Longrightarrow> take n (take n (q @ [c]) @ p) = take n (q @ c # p)"
proof (cases "length q = n")
  case False
  assume "length q \<le> n"
  with False have "take n (q @ [c]) = q @ [c]" by simp
  then show ?thesis by (simp only: append_assoc append_Cons append_Nil)
qed simp

lemma is_ipd_eq: "strncmp_eq b ''+IPD,'' \<longleftrightarrow> take 5 b = ''+IPD,''"
  by (simp add: strncmp_eq_def numeral_eq_Suc)

lemma isr_bytes_Nil [simp]: "r \<bind> isr_bytes env call [] = r"
  by (cases r) simp_all

text \<open>The part of the state that the reassembly leaves alone.\<close>

definition app_view where
  "app_view st = (flash_data st, g_ssid st, g_password st, http_request_handler st, esp8266_pending_cmd st, bus st)"

text \<open>The interrupt is between frames and has the characters \<open>s\<close> of a line.\<close>

definition line_in :: "char list \<Rightarrow> esp8266 \<Rightarrow> bool" where
  "line_in s st \<longleftrightarrow> esp_inv st \<and> \<not> receiving_ipd_payload st \<and> unat (char_index st) = length s
     \<and> take (length s) (buffer_isr st) = s"

section \<open>Characters of a line\<close>

lemma line_in_push:
  assumes "line_in s st"
  shows "line_in (take 511 (s @ [c])) (line_push c st)"
proof -
  have len: "length s \<le> 511" "length (buffer_isr st) = 512" using assms by (auto simp: line_in_def esp_inv_def)
  have inv: "esp_inv (line_push c st)" using assms inv_line_push by (simp add: line_in_def)
  show ?thesis
  proof (cases "length s < 511")
    case True
    with assms have i: "unat (char_index st) = length s" "unat (char_index st + 1) = length s + 1"
      by (simp_all add: line_in_def unat_u16_add1)
    have "take (Suc (length s)) ((buffer_isr st)[length s := c]) = s @ [c]"
      using assms True len by (simp add: line_in_def take_Suc_conv_app_nth)
    with True i assms inv show ?thesis by (simp add: line_in_def line_push_def)
  next
    case False
    with len have "length s = 511" by simp
    with assms inv show ?thesis by (simp add: line_in_def line_push_def)
  qed
qed

lemma line_in_char:
  assumes "line_in s st" "c \<noteq> CR" "c \<noteq> LF" "c \<noteq> CHR '':'' \<or> take 5 (take 511 (s @ [c])) \<noteq> ''+IPD,''"
  shows "isr_byte env call c st = Some (line_push c st)"
proof -
  let ?s = "take 511 (s @ [c])"
  have push: "line_in ?s (line_push c st)" by (rule line_in_push [OF assms(1)])
  have "\<not> strncmp_eq (buffer_isr (line_push c st)) ''+IPD,''"
    if "c = CHR '':''" "5 \<le> unat (char_index (line_push c st))"
  proof -
    from push that(2) have "5 \<le> length ?s" and eq: "take (length ?s) (buffer_isr (line_push c st)) = ?s"
      unfolding line_in_def by simp_all
    then have "take 5 (buffer_isr (line_push c st)) = take 5 ?s" by (intro take_prefix)
    with assms(4) that(1) show ?thesis by (auto simp only: is_ipd_eq)
  qed
  moreover have "esp_inv st" "\<not> receiving_ipd_payload st" using assms(1) by (simp_all add: line_in_def)
  ultimately show ?thesis using assms(2,3) by (auto simp: isr_byte_def isr_char_eq)
qed

lemma line_push_simps [simp]: "app_view (line_push c st) = app_view st" "\<not> terminated (line_push c st)"
  by (simp_all add: app_view_def line_push_def)

lemma line_chars:
  assumes "line_in s st" "CR \<notin> set l" "LF \<notin> set l" "CHR '':'' \<notin> set l \<or> take 5 (s @ l) \<noteq> ''+IPD,''"
  shows "\<exists>st'. isr_bytes env call l st = Some st' \<and> line_in (take 511 (s @ l)) st' \<and> app_view st' = app_view st
     \<and> (l \<noteq> [] \<longrightarrow> \<not> terminated st')"
  using assms
proof (induction l arbitrary: s st)
  case Nil
  then have "length s \<le> 511" by (auto simp: line_in_def esp_inv_def)
  with Nil show ?case by simp
next
  case (Cons c l)
  let ?s = "take 511 (s @ [c])"
  have len: "length s \<le> 511" using Cons.prems(1) by (auto simp: line_in_def esp_inv_def)
  have app: "take 511 (?s @ l) = take 511 (s @ c # l)" "take 5 (?s @ l) = take 5 (s @ c # l)"
    using len by (cases "length s = 511"; simp)+
  have "take 5 ?s = ''+IPD,'' \<Longrightarrow> take 5 (s @ c # l) = ''+IPD,''"
  proof -
    assume pre: "take 5 ?s = ''+IPD,''"
    then have "length (take 5 ?s) = 5" by (simp only:) simp
    then have "5 \<le> length ?s" by simp
    then have "take 5 (?s @ l) = take 5 ?s" by simp
    with pre app(2) show ?thesis by simp
  qed
  then have byte: "isr_byte env call c st = Some (line_push c st)"
    using Cons.prems by (intro line_in_char) auto
  have "CHR '':'' \<notin> set l \<or> take 5 (?s @ l) \<noteq> ''+IPD,''" unfolding app(2) using Cons.prems(4) by auto
  with Cons.IH [OF line_in_push [OF Cons.prems(1)], of c] Cons.prems(2,3)
  obtain st' where "isr_bytes env call l (line_push c st) = Some st'" "line_in (take 511 (?s @ l)) st'"
    "app_view st' = app_view st" "l \<noteq> [] \<longrightarrow> \<not> terminated st'" by auto
  with app(1) byte show ?case by (cases l) auto
qed

section \<open>The end of a line\<close>

lemma line_state_str:
  assumes "line_in s st" "NUL \<notin> set s"
  shows "c_str (buffer_handle (line_state st)) = Some s"
proof -
  have len: "length s \<le> 511" "length (buffer_isr st) = 512" "length (buffer_handle st) = 512"
    "unat (char_index st) = length s" "take (length s) (buffer_isr st) = s"
    using assms(1) by (auto simp: line_in_def esp_inv_def)
  have "take (Suc (length s)) ((buffer_isr st)[length s := NUL]) = s @ [NUL]"
    using len by (simp add: take_Suc_conv_app_nth)
  then have "buffer_handle (line_state st) = ((s @ [NUL]) @ drop (Suc (length s)) (buffer_handle st))[511 := NUL]"
    using len by (simp add: line_state_def Let_def)
  also have "\<dots> = s @ [NUL] @ (drop (Suc (length s)) (buffer_handle st))[510 - length s := NUL]"
  proof (cases "length s = 511")
    case False
    then have "511 - length s = Suc (510 - length s)" "\<not> 511 < length s" using len(1) by simp_all
    then show ?thesis by (simp add: list_update_append)
  qed (use len in \<open>simp add: list_update_append\<close>)
  finally show ?thesis using assms(2) by (simp add: c_str_def takeWhile_append)
qed

lemma line_end:
  assumes "line_in s st" "\<not> terminated st"
  shows "isr_bytes env call [CR, LF] st
    = map_option (\<lambda>st'. st'\<lparr>char_index := 0\<rparr>) (esp8266_handle_return env (line_state st))"
proof -
  have inv: "esp_inv st" "\<not> receiving_ipd_payload st" using assms(1) by (simp_all add: line_in_def)
  show ?thesis
  proof (cases "esp8266_handle_return env (line_state st)")
    case None
    with inv assms(2) show ?thesis by (simp add: isr_byte_def isr_eol_eq)
  next
    case (Some st')
    with keeps_handle_return [of "line_state st" env] have v: "rx_view st' = rx_view (line_state st)" by simp
    have "esp_inv st'" using esp_inv_rx_view [OF v] inv_line_state [OF inv(1)] by simp
    then have "esp_inv (st'\<lparr>char_index := 0\<rparr>)" by (auto simp: esp_inv_def)
    moreover have "terminated st'" "\<not> receiving_ipd_payload st'"
      using v inv(2) by (simp_all add: rx_view_def line_state_def Let_def)
    ultimately show ?thesis using Some inv assms(2) by (simp add: isr_byte_def isr_eol_eq)
  qed
qed

section \<open>Headers and payloads\<close>

lemma parse_ipd_dec:
  assumes "link \<le> 4" "int n \<le> LONG_MAX"
  shows "parse_ipd_header (''+IPD,'' @ dec_text link @ '','' @ dec_text n @ '':'')
     = Some (word_of_nat link, word_of_nat n)"
proof -
  have "strtol (dec_text link @ '','' @ dec_text n @ '':'') = (int link, '','' @ dec_text n @ '':'')"
    using assms(1) by (intro strtol_dec_text) (simp_all add: LONG_MAX_def is_digit_def)
  moreover have "strtol (dec_text n @ '':'') = (int n, '':'')"
    using assms(2) by (intro strtol_dec_text) (simp_all add: is_digit_def)
  moreover have "'','' @ dec_text n @ '':'' \<noteq> dec_text link @ '','' @ dec_text n @ '':''"
    "'':'' \<noteq> dec_text n @ '':''"
    using dec_text_ne by (auto simp: append_eq_Cons_conv Cons_eq_append_conv)
  ultimately show ?thesis using assms(1) by (simp add: parse_ipd_header_def Let_def)
qed

lemma line_in_header:
  assumes "line_in hdr st" "NUL \<notin> set hdr" "length hdr < 510" "take 5 hdr = ''+IPD,''"
  shows "isr_byte env call (CHR '':'') st = Some (ipd_begin (line_push (CHR '':'') st))"
    and "ipd_begin (line_push (CHR '':'') st) = (let st' = line_push (CHR '':'') st;
           st' = st'\<lparr>buffer_isr := (buffer_isr st')[unat (char_index st') := NUL]\<rparr> in
      (case parse_ipd_header (hdr @ '':'') of
        Some (link_id, len) \<Rightarrow>
          if len > 0 then st'\<lparr>ipd_link_id := link_id, ipd_bytes_remaining := len, ipd_payload_len := 0,
                             receiving_ipd_payload := True\<rparr>
          else st'
      | None \<Rightarrow> st')\<lparr>char_index := 0\<rparr>)"
proof -
  let ?st = "line_push (CHR '':'') st"
  have push: "line_in (hdr @ '':'') ?st"
    using line_in_push [OF assms(1), of "CHR '':''"] assms(3) by simp
  then have buf: "unat (char_index ?st) = Suc (length hdr)" "take (Suc (length hdr)) (buffer_isr ?st) = hdr @ '':''"
    "length (buffer_isr ?st) = 512"
    by (simp_all add: line_in_def esp_inv_def)
  have len: "5 \<le> length hdr" using arg_cong [OF assms(4), of length] by simp
  then have "take 5 (buffer_isr ?st) = take 5 (hdr @ '':'')" using take_prefix [OF buf(2)] by simp
  with len assms(4) have "strncmp_eq (buffer_isr ?st) ''+IPD,''" by (simp add: is_ipd_eq)
  with assms(1) len buf(1) show "isr_byte env call (CHR '':'') st = Some (ipd_begin ?st)"
    by (simp add: isr_byte_def isr_char_eq line_in_def)
  have "(buffer_isr ?st)[Suc (length hdr) := NUL] = (hdr @ '':'') @ NUL # drop (Suc (Suc (length hdr))) (buffer_isr ?st)"
    using buf(2,3) assms(3) by (simp add: upd_conv_take_nth_drop)
  then have "takeWhile (\<lambda>c. c \<noteq> NUL) ((buffer_isr ?st)[Suc (length hdr) := NUL]) = hdr @ '':''"
    using assms(2) by (simp add: takeWhile_append)
  then show "ipd_begin ?st = (let st' = ?st; st' = st'\<lparr>buffer_isr := (buffer_isr st')[unat (char_index st') := NUL]\<rparr> in
      (case parse_ipd_header (hdr @ '':'') of
        Some (link_id, len) \<Rightarrow>
          if len > 0 then st'\<lparr>ipd_link_id := link_id, ipd_bytes_remaining := len, ipd_payload_len := 0,
                             receiving_ipd_payload := True\<rparr>
          else st'
      | None \<Rightarrow> st')\<lparr>char_index := 0\<rparr>)"
    unfolding ipd_begin_def Let_def buf(1) by simp
qed

text \<open>The bytes \<open>q\<close> of a payload have been stored.\<close>

definition payload_in :: "char list \<Rightarrow> esp8266 \<Rightarrow> bool" where
  "payload_in q st \<longleftrightarrow> esp_inv st \<and> unat (ipd_payload_len st) = length q \<and> take (length q) (ipd_payload st) = q"

lemma payload_store:
  assumes "payload_in q st"
  shows "unat (ipd_payload_len (ipd_store c st)) = length (take 255 (q @ [c]))"
    and "take (length (take 255 (q @ [c]))) (ipd_payload (ipd_store c st)) = take 255 (q @ [c])"
    and "length (ipd_payload (ipd_store c st)) = 256"
proof -
  have q: "length q \<le> 255" "unat (ipd_payload_len st) = length q" "length (ipd_payload st) = 256"
    "take (length q) (ipd_payload st) = q"
    using assms by (auto simp: payload_in_def esp_inv_def)
  then show "unat (ipd_payload_len (ipd_store c st)) = length (take 255 (q @ [c]))"
    using ipd_store_len [of st c] by simp
  show "take (length (take 255 (q @ [c]))) (ipd_payload (ipd_store c st)) = take 255 (q @ [c])"
  proof (cases "length q < 255")
    case True
    then have "take (Suc (length q)) ((ipd_payload st)[length q := c]) = q @ [c]"
      using q by (simp add: take_Suc_conv_app_nth)
    with True q show ?thesis by (simp add: ipd_store_def)
  next
    case False
    with q show ?thesis by (simp add: ipd_store_def)
  qed
  show "length (ipd_payload (ipd_store c st)) = 256" using q by simp
qed

lemma app_view_ipd [simp]: "app_view (ipd_store c st) = app_view st" "app_view (ipd_frame st) = app_view st"
  by (simp_all add: app_view_def ipd_store_def ipd_frame_def)

text \<open>The state in which a complete frame is handed over.\<close>

definition frame_ready :: "char list \<Rightarrow> u8 \<Rightarrow> esp8266 \<Rightarrow> bool" where
  "frame_ready p link st \<longleftrightarrow> \<not> receiving_ipd_payload st \<and> ipd_link_id st = link
     \<and> unat (ipd_payload_len st) = length p \<and> take (length p + 1) (ipd_payload st) = p @ [NUL]"

lemma payload_frame:
  assumes "payload_in q st"
  shows "frame_ready (take 255 (q @ [c])) (ipd_link_id st) (ipd_frame (ipd_store c st))"
proof -
  let ?q = "take 255 (q @ [c])" and ?st = "ipd_store c st"
  note store = payload_store [OF assms, of c]
  have "length ?q < length (ipd_payload ?st)" using store(3) by simp
  then have "take (Suc (length ?q)) ((ipd_payload ?st)[length ?q := NUL])
      = take (length ?q) (ipd_payload ?st) @ [NUL]"
    by (simp only: take_Suc_conv_app_nth length_list_update take_update_cancel [OF order_refl] nth_list_update_eq)
  with store(2) have "take (Suc (length ?q)) ((ipd_payload ?st)[length ?q := NUL]) = ?q @ [NUL]" by (simp only:)
  then show ?thesis
    unfolding frame_ready_def ipd_frame_def by (simp add: store(1) del: length_take take_append)
qed

lemma payload_bytes:
  assumes "payload_in q st" "receiving_ipd_payload st" "p \<noteq> []" "unat (ipd_bytes_remaining st) = length p"
  shows "\<exists>st1. isr_bytes env call p st = map_option (\<lambda>st'. st'\<lparr>ipd_payload_len := 0\<rparr>) (handle_ipd_frame call st1)
     \<and> app_view st1 = app_view st \<and> frame_ready (take 255 (q @ p)) (ipd_link_id st) st1"
  using assms
proof (induction p arbitrary: q st)
  case (Cons c p)
  have inv: "esp_inv st" using Cons.prems(1) by (simp add: payload_in_def)
  show ?case
  proof (cases "p = []")
    case True
    then have "ipd_bytes_remaining st = 1" using Cons.prems(4) by (simp add: word_unat_eq_iff)
    then have "isr_bytes env call [c] st
        = map_option (\<lambda>st'. st'\<lparr>ipd_payload_len := 0\<rparr>) (handle_ipd_frame call (ipd_frame (ipd_store c st)))"
      using Cons.prems(2) by (simp add: isr_byte_def isr_ipd_byte_eq [OF inv])
    with payload_frame [OF Cons.prems(1), of c] True show ?thesis
      by (intro exI [of _ "ipd_frame (ipd_store c st)"]) simp
  next
    case False
    let ?q = "take 255 (q @ [c])" and ?st = "ipd_store c st"
    have "length p \<noteq> 0" using False by simp
    then have rem: "ipd_bytes_remaining st \<noteq> 1" using Cons.prems(4) by (auto simp: word_unat_eq_iff)
    then have byte: "isr_byte env call c st = Some ?st"
      using Cons.prems(2) by (simp add: isr_byte_def isr_ipd_byte_eq [OF inv])
    have "payload_in ?q ?st"
      using payload_store [OF Cons.prems(1), of c] inv_ipd_store [OF inv rem] by (simp add: payload_in_def)
    moreover have "unat (ipd_bytes_remaining ?st) = length p"
      using Cons.prems(4) by (simp add: unat_sub_if')
    ultimately obtain st1 where
      "isr_bytes env call p ?st = map_option (\<lambda>st'. st'\<lparr>ipd_payload_len := 0\<rparr>) (handle_ipd_frame call st1)"
      "app_view st1 = app_view st" "frame_ready (take 255 (?q @ p)) (ipd_link_id st) st1"
      using Cons.IH [of ?q ?st] Cons.prems(2) False by auto
    moreover have "take 255 (?q @ p) = take 255 (q @ c # p)"
      using Cons.prems(1) by (intro take_snoc_append) (auto simp: payload_in_def esp_inv_def)
    ultimately show ?thesis using byte by (intro exI [of _ st1]) simp
  qed
qed simp

lemma ipd_header_bytes:
  assumes "line_in [] st" "link \<le> 4" "int n \<le> LONG_MAX" "n < 10 ^ 10"
  shows "\<exists>st1. isr_bytes env call (''+IPD,'' @ dec_text link @ '','' @ dec_text n @ '':'') st = Some st1
     \<and> app_view st1 = app_view st \<and> esp_inv st1 \<and> char_index st1 = 0
     \<and> receiving_ipd_payload st1 = ((word_of_nat n :: u16) \<noteq> 0)
     \<and> ((word_of_nat n :: u16) \<noteq> 0 \<longrightarrow> ipd_link_id st1 = word_of_nat link
          \<and> ipd_bytes_remaining st1 = word_of_nat n \<and> ipd_payload_len st1 = 0)"
proof -
  let ?hdr = "''+IPD,'' @ dec_text link @ '','' @ dec_text n"
  have digits: "c \<notin> set (dec_text m)" if "\<not> is_digit c" for c m using that dec_text_digits by blast
  have no: "CR \<notin> set ?hdr" "LF \<notin> set ?hdr" "CHR '':'' \<notin> set ?hdr" "NUL \<notin> set ?hdr"
    by (simp_all add: digits is_digit_def)
  have "length (dec_text link) \<le> 1" "length (dec_text n) \<le> 10"
    using assms(2,4) by (intro dec_text_length; simp)+
  then have len: "length ?hdr < 510" by simp
  have "take 511 ([] @ ?hdr) = ?hdr" using len by (simp only: append_Nil) (rule take_all, simp)
  with line_chars [OF assms(1) no(1,2), of env call] no(3)
  obtain st0 where st0: "isr_bytes env call ?hdr st = Some st0" "line_in ?hdr st0" "app_view st0 = app_view st"
    by (auto simp del: take_append)
  let ?st1 = "ipd_begin (line_push (CHR '':'') st0)"
  have hd5: "take 5 ?hdr = ''+IPD,''" by simp
  note hdr = line_in_header [OF st0(2) no(4) len hd5]
  have inv: "esp_inv ?st1" using st0(2) by (simp add: line_in_def inv_line_push inv_ipd_begin)
  have rec: "\<not> receiving_ipd_payload (line_push (CHR '':'') st0)"
    using st0(2) by (simp add: line_in_def line_push_def)
  have parse: "parse_ipd_header (?hdr @ '':'') = Some (word_of_nat link, word_of_nat n)"
    using parse_ipd_dec [OF assms(2,3)] by simp
  have "isr_bytes env call (?hdr @ '':'') st = Some ?st1"
    using isr_bytes_append [of env call ?hdr "'':''" st] by (simp only: st0(1) bind.bind_lunit) (simp add: hdr(1))
  moreover have "app_view ?st1 = app_view st"
    using st0(3) by (simp add: ipd_begin_def Let_def app_view_def line_push_def split: option.split)
  moreover have "char_index ?st1 = 0" by (simp add: ipd_begin_def Let_def)
  moreover have "receiving_ipd_payload ?st1 = ((word_of_nat n :: u16) \<noteq> 0)"
    "(word_of_nat n :: u16) \<noteq> 0 \<longrightarrow> ipd_link_id ?st1 = word_of_nat link
      \<and> ipd_bytes_remaining ?st1 = word_of_nat n \<and> ipd_payload_len ?st1 = 0"
    unfolding hdr(2) parse using rec by (auto simp: Let_def word_gt_0)
  ultimately show ?thesis using inv by simp
qed

section \<open>Scan results\<close>

lemma c_str_length: "c_str a = Some s \<Longrightarrow> length s < length a"
proof -
  assume "c_str a = Some s"
  then have s: "NUL \<in> set a" "s = takeWhile (\<lambda>c. c \<noteq> NUL) a" by (auto simp: c_str_def split: if_splits)
  have "length s \<noteq> length a"
  proof
    assume "length s = length a"
    then have "s = a" using s(2) takeWhile_eq_take [of "\<lambda>c. c \<noteq> NUL" a] by simp
    then show False using s set_takeWhileD [of NUL "\<lambda>c. c \<noteq> NUL" a] by auto
  qed
  with length_takeWhile_le [of "\<lambda>c. c \<noteq> NUL" a] s(2) show ?thesis by simp
qed

lemma scan_match_lookup:
  assumes "list_all slot_ok cs" "NUL \<notin> set s" "length s \<le> 32" "s \<noteq> []"
  shows "\<exists>m. scan_match cs s = Some m \<and>
    (case m of None \<Rightarrow> lookup (map slot cs) s = None
     | Some c \<Rightarrow> \<exists>p. slot c = Some (s, p) \<and> lookup (map slot cs) s = Some p)"
  using assms(1)
proof (induction cs)
  case (Cons c cs)
  have eq: "strcmp_eq (ssid c) s = Some (map_option fst (slot c) = Some s)"
    using Cons.prems assms(2,3) by (intro strcmp_slot) simp_all
  show ?case
  proof (cases "map_option fst (slot c) = Some s")
    case True
    then obtain p where p: "slot c = Some (s, p)" by auto
    then have "takeWhile (\<lambda>c. c \<noteq> NUL) (ssid c) = s"
      by (auto simp: slot_def c_str_def split: option.splits if_splits)
    then have "hd (ssid c) \<noteq> NUL" using assms(4) by (cases "ssid c") auto
    with eq p show ?thesis by (simp add: lookup_def)
  next
    case False
    have "lookup (map slot (c # cs)) s = lookup (map slot cs) s"
      using False by (auto simp: lookup_def split: option.split)
    with Cons eq False show ?thesis by (auto split: option.splits)
  qed
qed (simp add: lookup_def)

lemma dr_low_byte: "(ucast (ucast ((r :: u32) AND USART_DR_MASK) :: u16) :: u8) = ucast r"
proof (rule bit_word_eqI)
  fix n
  have "bit (0x1FF :: int) n \<longleftrightarrow> n < 9"
    using bit_mask_iff [of 9 n, where ?'a = int] by (simp add: mask_eq_exp_minus_1)
  then show "n < LENGTH(8) \<Longrightarrow> bit (ucast (ucast (r AND USART_DR_MASK) :: u16) :: u8) n = bit (ucast r :: u8) n"
    by (auto simp: bit_simps)
qed

lemma ucast_up_down_u8 [simp]: "(ucast (ucast (b :: u8) :: u32) :: u8) = b"
  by (rule bit_word_eqI) (auto simp: bit_simps)

section \<open>Properties\<close>

text \<open>
  C3. Response lines are delivered exactly. With the interrupt between frames and an empty line
  buffer, the bytes of a line followed by CR LF make the driver call its response handler once,
  with the line itself (cut to 511 characters) in \<open>buffer_handle\<close> and the rest of the driver's
  state as it was; the LF after the CR does nothing. The line must be non-empty, hold no CR, LF or
  NUL, and not be an \<^verbatim>\<open>+IPD\<close> header.
\<close>

theorem esp8266_line_delivered:
  assumes "esp_inv st" "\<not> receiving_ipd_payload st" "char_index st = 0"
    and "l \<noteq> []" "CR \<notin> set l" "LF \<notin> set l" "NUL \<notin> set l" "CHR '':'' \<notin> set l \<or> take 5 l \<noteq> ''+IPD,''"
  shows "\<exists>st1. c_str (buffer_handle st1) = Some (take 511 l) \<and> app_view st1 = app_view st \<and> esp_inv st1
     \<and> isr_bytes env call (l @ CRLF) st
       = map_option (\<lambda>st'. st'\<lparr>char_index := 0\<rparr>) (esp8266_handle_return env st1)"
proof -
  have "line_in [] st" using assms(1-3) by (simp add: line_in_def)
  from line_chars [OF this assms(5,6), of env call] assms(4,8)
  obtain st' where st': "isr_bytes env call l st = Some st'" "line_in (take 511 l) st'"
    "app_view st' = app_view st" "\<not> terminated st'" by auto
  have "NUL \<notin> set (take 511 l)" using assms(7) by (auto dest: in_set_takeD)
  then have "c_str (buffer_handle (line_state st')) = Some (take 511 l)" by (rule line_state_str [OF st'(2)])
  moreover have "app_view (line_state st') = app_view st"
    using st'(3) by (simp add: app_view_def line_state_def Let_def)
  moreover have "esp_inv (line_state st')" using st'(2) by (simp add: line_in_def inv_line_state)
  ultimately show ?thesis using line_end [OF st'(2,4), of env call] st'(1) by (auto simp: isr_bytes_append)
qed

theorem esp8266_line_delivered_witness:
  "\<exists>st1. c_str (buffer_handle st1) = Some ''OK'' \<and>
     isr_bytes (sim []) (\<lambda>f l p n st. Some st) (''OK'' @ CRLF) (esp8266_init [])
       = map_option (\<lambda>st'. st'\<lparr>char_index := 0\<rparr>) (esp8266_handle_return (sim []) st1)"
proof -
  have "\<not> receiving_ipd_payload (esp8266_init [])" "char_index (esp8266_init []) = 0"
    by (simp_all add: esp8266_init_def)
  from esp8266_line_delivered [OF inv_init this, of "''OK''" "sim []" "\<lambda>f l p n st. Some st"]
  show ?thesis by auto
qed

text \<open>
  C2. Incoming connection data is delivered exactly. The bytes of \<^verbatim>\<open>+IPD,<link>,<n>:\<close> and of a
  payload of \<open>n\<close> arbitrary bytes (CR, LF and NUL included) make the driver call the registered
  handler once, with that link, the payload cut to 255 bytes and terminated by NUL, and its
  length; the driver is then between frames again.
\<close>

theorem esp8266_ipd_delivered:
  assumes "esp_inv st" "\<not> receiving_ipd_payload st" "char_index st = 0"
    and "link \<le> 4" "length p = n" "0 < n" "n < 65536"
  shows "\<exists>st1. frame_ready (take 255 p) (word_of_nat link) st1 \<and> app_view st1 = app_view st
     \<and> isr_bytes env call (''+IPD,'' @ dec_text link @ '','' @ dec_text n @ '':'' @ p) st
       = map_option (\<lambda>st'. st'\<lparr>ipd_payload_len := 0\<rparr>) (handle_ipd_frame call st1)"
proof -
  have n: "unat (word_of_nat n :: u16) = n" using assms(7) by (simp add: unat_of_nat)
  then have n0: "(word_of_nat n :: u16) \<noteq> 0" using assms(6) by (metis less_irrefl unat_0)
  have "line_in [] st" using assms(1-3) by (simp add: line_in_def)
  from ipd_header_bytes [OF this assms(4), of n env call] assms(7) n0 obtain st0 where st0:
    "isr_bytes env call (''+IPD,'' @ dec_text link @ '','' @ dec_text n @ '':'') st = Some st0"
    "app_view st0 = app_view st" "esp_inv st0" "receiving_ipd_payload st0"
    "ipd_link_id st0 = word_of_nat link" "ipd_bytes_remaining st0 = word_of_nat n" "ipd_payload_len st0 = 0"
    by (auto simp: LONG_MAX_def)
  have "payload_in [] st0" using st0 by (simp add: payload_in_def)
  moreover have "p \<noteq> []" using assms(5,6) by auto
  ultimately obtain st1 where
    "isr_bytes env call p st0 = map_option (\<lambda>st'. st'\<lparr>ipd_payload_len := 0\<rparr>) (handle_ipd_frame call st1)"
    "app_view st1 = app_view st0" "frame_ready (take 255 ([] @ p)) (ipd_link_id st0) st1"
    using payload_bytes [of "[]" st0 p env call] st0 n assms(5) by auto
  moreover have "isr_bytes env call (''+IPD,'' @ dec_text link @ '','' @ dec_text n @ '':'' @ p) st
      = isr_bytes env call p st0"
    using isr_bytes_append [of env call "''+IPD,'' @ dec_text link @ '','' @ dec_text n @ '':''" p st]
    by (simp only: st0(1) bind.bind_lunit append_assoc)
  ultimately show ?thesis using st0(2,5) by auto
qed

theorem esp8266_ipd_delivered_witness:
  "\<exists>st1. frame_ready ''GET /'' 2 st1 \<and>
     isr_bytes (sim []) (\<lambda>f l p n st. Some st)
       (''+IPD,'' @ dec_text 2 @ '','' @ dec_text 5 @ '':'' @ ''GET /'') (esp8266_init [])
     = map_option (\<lambda>st'. st'\<lparr>ipd_payload_len := 0\<rparr>) (handle_ipd_frame (\<lambda>f l p n st. Some st) st1)"
proof -
  have "\<not> receiving_ipd_payload (esp8266_init [])" "char_index (esp8266_init []) = 0"
    by (simp_all add: esp8266_init_def)
  from esp8266_ipd_delivered [OF inv_init this, of 2 "''GET /''" 5 "sim []" "\<lambda>f l p n st. Some st"]
  show ?thesis by auto
qed

text \<open>
  The length of a frame is taken modulo 65536: a frame announced with a multiple of 65536 bytes
  (below \<^verbatim>\<open>LONG_MAX\<close>) is not received as a payload, and the driver goes on reading the bytes
  that follow as response lines.
\<close>

theorem esp8266_ipd_length_wraps:
  assumes "esp_inv st" "\<not> receiving_ipd_payload st" "char_index st = 0"
    and "link \<le> 4" "int n \<le> LONG_MAX" "65536 dvd n"
  shows "\<exists>st1. isr_bytes env call (''+IPD,'' @ dec_text link @ '','' @ dec_text n @ '':'') st = Some st1
     \<and> app_view st1 = app_view st \<and> \<not> receiving_ipd_payload st1 \<and> char_index st1 = 0"
proof -
  have "(word_of_nat n :: u16) = 0" using assms(6) by (simp add: word_of_nat_eq_0_iff)
  moreover have "line_in [] st" using assms(1-3) by (simp add: line_in_def)
  moreover have "n < 10 ^ 10" using assms(5) by (simp add: LONG_MAX_def)
  ultimately show ?thesis using ipd_header_bytes [OF _ assms(4,5), of st env call] by blast
qed

theorem esp8266_ipd_length_wraps_witness:
  "\<exists>st1. isr_bytes (sim []) (\<lambda>f l p n st. Some st)
       (''+IPD,'' @ dec_text 0 @ '','' @ dec_text 65536 @ '':'') (esp8266_init []) = Some st1
     \<and> \<not> receiving_ipd_payload st1"
proof -
  have "\<not> receiving_ipd_payload (esp8266_init [])" "char_index (esp8266_init []) = 0"
    by (simp_all add: esp8266_init_def)
  from esp8266_ipd_length_wraps [OF inv_init this, of 0 65536 "sim []" "\<lambda>f l p n st. Some st"]
  show ?thesis by (auto simp: LONG_MAX_def)
qed

text \<open>
  C40. Acknowledging a command stores an empty network: when \<^verbatim>\<open>OK\<close> arrives while a check, a change
  of mode or a connect is pending, the driver returns with no command pending and has updated the
  store in flash with the empty SSID and the empty password, whatever network the connect named,
  since nothing ever sets \<^verbatim>\<open>g_ssid\<close> and \<^verbatim>\<open>g_password\<close>.
\<close>

theorem esp8266_ok_stores_empty:
  assumes "esp_board env mem" "esp_ok env st" "c_str (buffer_handle st) = Some ''OK''"
    and "esp8266_pending_cmd st \<in> {ESP8266_CMD_CHECK, ESP8266_CMD_SET_MODE, ESP8266_CMD_CONNECT}"
  defines "d \<equiv> fst (READ_FLASH env (bus st))"
  shows "\<exists>st'. esp8266_handle_return env st = Some st' \<and> esp8266_pending_cmd st' = ESP8266_CMD_NONE
     \<and> saved (fst (READ_FLASH env (bus st'))) = store_update [] [] (unat (next_update d)) (saved d)"
proof -
  have dev: "eeprom_dev env mem" using assms(1) by (simp add: esp_board_def)
  have g: "c_str (g_ssid st) = Some []" "c_str (g_password st) = Some []"
    using assms(2) by (simp_all add: esp_ok_def esp_inv_def c_str_def)
  obtain d' h' where upd: "esp8266_update_credential_list env [] [] (bus st) = Some (d', h')"
    "fst (READ_FLASH env h') = d'" "saved d' = store_update [] [] (unat (next_update d)) (saved d)"
    using eeprom_dev.update_credential_list [OF dev, of "bus st" "[]" "[]"] assms(2)
    by (auto simp: esp_ok_def dev_ok_def d_def)
  have "handle_connect_line env ''OK'' st
      = Some (st\<lparr>flash_data := d', bus := h', esp8266_pending_cmd := ESP8266_CMD_NONE\<rparr>)"
    by (simp add: handle_connect_line_def g esp_update_credentials_def upd(1))
  with assms(3,4) upd(2,3) show ?thesis by (auto simp: esp8266_handle_return_def)
qed

theorem esp8266_ok_stores_empty_witness:
  "\<exists>st st'. esp8266_pending_cmd st = ESP8266_CMD_CHECK \<and> esp8266_handle_return (sim []) st = Some st'
     \<and> lookup (saved (fst (READ_FLASH (sim []) (bus st')))) [] = Some []"
proof -
  let ?st = "(esp8266_init [])\<lparr>esp8266_pending_cmd := ESP8266_CMD_CHECK,
    buffer_handle := ''OK'' @ replicate 510 NUL\<rparr>"
  have ok: "esp_ok (sim []) (esp8266_init [])" by (rule boot_ok [OF sim_erased])
  then have "esp_ok (sim []) ?st"
    by (simp add: esp_ok_def esp_inv_def dev_ok_def nth_append)
  moreover have "c_str (buffer_handle ?st) = Some ''OK''" by (simp add: c_str_def)
  ultimately obtain st' where st': "esp8266_handle_return (sim []) ?st = Some st'"
    "saved (fst (READ_FLASH (sim []) (bus st'))) = store_update [] []
      (unat (next_update (fst (READ_FLASH (sim []) (bus ?st))))) (saved (fst (READ_FLASH (sim []) (bus ?st))))"
    using esp8266_ok_stores_empty [OF sim_board.esp_board_axioms, of "[]" ?st] by auto
  have "length (saved (fst (READ_FLASH (sim []) (bus ?st)))) = MAX_CREDENTIAL"
    using sim_erased(2) by (simp add: store_ok_def wf_flash_data_def saved_def esp8266_init_def)
  then have "lookup (saved (fst (READ_FLASH (sim []) (bus st')))) [] = Some []"
    unfolding st'(2) by (rule lookup_store_update)
  with st'(1) show ?thesis by (intro exI [of _ ?st] exI [of _ st']) simp
qed

text \<open>
  A scan result of a saved network joins it. For a \<^verbatim>\<open>+CWLAP\<close> line whose quoted SSID is a saved
  network, the driver sends one complete \<^verbatim>\<open>AT+CWJAP\<close> command with that SSID and the password saved
  for it; for one that is not saved it sends nothing. In both cases nothing else changes, so the
  scan stays pending and a second matching line sends a second command.
\<close>

theorem esp8266_scan_joins_saved:
  assumes "wifi_port env" "store_ok (flash_data st)" "strncmp_eq line ''+CWLAP:(''" "NUL \<notin> set line"
    and "extract_quoted line 33 = Some s" "s \<noteq> []"
  shows "\<exists>st'. handle_scan_line env line st = Some st'
     \<and> wifi_sent st (case lookup (saved (flash_data st)) s of None \<Rightarrow> [] | Some p \<Rightarrow> cwjap_text s p) st'"
proof -
  have s: "NUL \<notin> set s" "length s \<le> 32" using extract_quoted_ok [OF assms(5) _ assms(4)] by simp_all
  have cs: "list_all slot_ok (cred_list (flash_data st))" "list_all wf_credential (cred_list (flash_data st))"
    using assms(2) by (simp_all add: store_ok_def wf_flash_data_def)
  obtain m where m: "scan_match (cred_list (flash_data st)) s = Some m"
    "case m of None \<Rightarrow> lookup (saved (flash_data st)) s = None
     | Some c \<Rightarrow> \<exists>p. slot c = Some (s, p) \<and> lookup (saved (flash_data st)) s = Some p"
    using scan_match_lookup [OF cs(1) s assms(6)] unfolding saved_def by blast
  show ?thesis
  proof (cases m)
    case None
    with m assms(3,5) show ?thesis by (simp add: handle_scan_line_def)
  next
    case (Some c)
    with m obtain p where p: "slot c = Some (s, p)" "lookup (saved (flash_data st)) s = Some p" by auto
    then have str: "c_str (ssid c) = Some s" "c_str (password c) = Some p"
      by (auto simp: slot_def split: option.splits)
    have "c \<in> set (cred_list (flash_data st))" using scan_match_ok [OF cs(1) s] m(1) Some by auto
    then have "length (password c) = 64" using cs(2) by (auto simp: list_all_iff wf_credential_def)
    then have "NUL \<notin> set p" "length p \<le> 63" using c_str_no_NUL [OF str(2)] c_str_length [OF str(2)] by simp_all
    with wifi_port.sends_cwjap [OF assms(1) s(1) _ s(2)] m Some p str assms(3,5) show ?thesis
      by (simp add: handle_scan_line_def connect_no_update_def sends_def)
  qed
qed

theorem esp8266_scan_joins_saved_witness:
  "\<exists>st st'. handle_scan_line (sim []) (''+CWLAP:(3,'' @ [DQUOTE] @ ''Home'' @ [DQUOTE] @ '',-40)'') st = Some st'
     \<and> wifi_sent st (cwjap_text ''Home'' ''secret'') st'"
proof -
  define line where "line = ''+CWLAP:(3,'' @ [DQUOTE] @ ''Home'' @ [DQUOTE] @ '',-40)''"
  define c where "c = \<lparr>password = ''secret'' @ replicate 58 NUL, ssid = ''Home'' @ replicate 29 NUL\<rparr>"
  define st where "st = (esp8266_init [])\<lparr>flash_data := flash_data_zero\<lparr>cred_list := (cred_list flash_data_zero)[0 := c]\<rparr>\<rparr>"
  have "store_ok (flash_data st)"
    using store_ok_update [OF flash_data_zero_ok, of c 0] by (simp add: st_def c_def wf_credential_def slot_ok_def)
  moreover have "slot c = Some (''Home'', ''secret'')" by (simp add: slot_def c_def c_str_def)
  then have "lookup (saved (flash_data st)) ''Home'' = Some ''secret''"
    by (simp add: st_def flash_data_zero_def saved_def lookup_def numeral_eq_Suc)
  moreover have "strncmp_eq line ''+CWLAP:(''" "NUL \<notin> set line" "extract_quoted line 33 = Some ''Home''"
    by (simp_all add: line_def strncmp_eq_def extract_quoted_def strchr_def)
  ultimately have "\<exists>st'. handle_scan_line (sim []) line st = Some st' \<and> wifi_sent st (cwjap_text ''Home'' ''secret'') st'"
    using esp8266_scan_joins_saved [OF sim_wifi.wifi_port_axioms [of "[]"], of st line "''Home''"] by auto
  then show ?thesis unfolding line_def by blast
qed

text \<open>
  The interrupt handles the byte that arrived. When the receive flag is set, \<open>usart2_isr\<close> reads
  the data register once, echoes the byte on the debug port, sends nothing else, and goes on with
  the byte; when it is clear it only reads the status register.
\<close>

theorem usart2_isr_byte:
  fixes st :: esp8266
  assumes "debug_port env"
  defines "h1 \<equiv> Rd32 (USART_SR WIFI_USART) (env (bus st) (USART_SR WIFI_USART)) # bus st"
  defines "c \<equiv> char_of_byte (ucast (env h1 (USART_DR WIFI_USART)))"
  shows "if env (bus st) (USART_SR WIFI_USART) AND USART_SR_RXNE = 0
     then usart2_isr env call st = Some (st\<lparr>bus := h1\<rparr>)
     else \<exists>h2. sent DEBUG_USART [c] (Rd32 (USART_DR WIFI_USART) (env h1 (USART_DR WIFI_USART)) # h1) h2
       \<and> usart2_isr env call st = isr_byte env call c (st\<lparr>bus := h2\<rparr>)"
proof -
  let ?d = "env h1 (USART_DR WIFI_USART)"
  let ?h2 = "Rd32 (USART_DR WIFI_USART) ?d # h1"
  have c: "char_of_byte (ucast (ucast (?d AND USART_DR_MASK) :: u16)) = c" by (simp only: c_def dr_low_byte)
  have "render_fmt ''%c'' [VWord (ucast (byte_of_char c))] = Some [c]"
    by (simp add: render_fmt_def parse_fmt.simps width_of_def render_conv_def render_arg_def is_digit_def
        ucast_up_down_u8)
  with debug_port.write_renders [OF assms(1), of ?h2 "''%c''" "[VWord (ucast (byte_of_char c))]"]
  obtain h3 where "debug_write env ''%c'' [VWord (ucast (byte_of_char c))] ?h2 = Some h3" "sent DEBUG_USART [c] ?h2 h3"
    by (auto simp: emits_def)
  moreover have "(ucast (ucast (?d AND USART_DR_MASK) :: u16) :: u8) = byte_of_char c" by (simp add: flip: c)
  ultimately show ?thesis
    by (auto simp: usart2_isr_def usart_get_flag_def usart_recv_def mmio_rd_def Let_def esp_debug_def
        h1_def [symmetric, simplified] simp del: debug_write.simps)
qed

theorem usart2_isr_byte_witness:
  "\<exists>h2. sent DEBUG_USART ''O'' [Rd32 (USART_DR USART2) (sim ''O'' [Rd32 (USART_SR USART2) 0xE0] (USART_DR USART2)),
       Rd32 (USART_SR USART2) 0xE0] h2
     \<and> usart2_isr (sim ''O'') (\<lambda>f l p n st. Some st) (esp8266_init [])
       = isr_byte (sim ''O'') (\<lambda>f l p n st. Some st) (CHR ''O'') ((esp8266_init [])\<lparr>bus := h2\<rparr>)"
  using usart2_isr_byte [OF sim_debug.debug_port_axioms [of "''O''"], of "esp8266_init []" "\<lambda>f l p n st. Some st"]
    char_of_char [of "CHR ''O''", where ?'a = nat]
  by (simp add: esp8266_init_def sim_def sim_sr_def sim_dr_def rx_reads_def char_of_byte_def)

end
