(* ===== verification/Clock.thy ===== *)
theory Clock
  imports Sim
begin

text \<open>
  The clock set-up functions of \<^verbatim>\<open>libopencm3/lib/stm32/f1/rcc.c\<close>: the frequencies that a
  configuration produces according to the clock tree of the reference manual (RM0008), the promises
  of the clock hardware as the interface \<open>rcc_env\<close>, and what the set-up functions leave in the
  registers.
\<close>

section \<open>What a configuration means\<close>

text \<open>
  The clock tree of RM0008: the input of the main PLL for a crystal of \<open>hse\<close> Hz, the system
  clock, and the bus and ADC clocks derived from it by the prescalers.
\<close>

definition pll_input :: "nat \<Rightarrow> rcc_clock_scale \<Rightarrow> nat" where
  "pll_input hse c =
     (if pll_source c = RCC_CFGR_PLLSRC_HSI_CLK_DIV2 then 8000000 div 2
      else if prediv1_source c \<noteq> 0
        then hse div (unat (prediv2 c) + 1) * (unat (pll2_mul c) + 2) div (unat (prediv1 c) + 1)
      else hse div (unat (prediv1 c) + 1))"

definition pll_output :: "nat \<Rightarrow> rcc_clock_scale \<Rightarrow> nat" where
  "pll_output hse c = pll_input hse c * (unat (pll_mul c) + 2)"

definition apb_div :: "u8 \<Rightarrow> nat" where
  "apb_div p = (if p < 4 then 1 else 2 ^ (unat p - 3))"

text \<open>The recorded frequencies are those of the clock tree, and no limit of the part is passed.\<close>

definition scale_ok :: "nat \<Rightarrow> rcc_clock_scale \<Rightarrow> bool" where
  "scale_ok hse c \<longleftrightarrow>
     unat (ahb_frequency c) = pll_output hse c div unat (rcc_get_div_from_hpre (hpre c)) \<and>
     unat (apb1_frequency c) = unat (ahb_frequency c) div apb_div (ppre1 c) \<and>
     unat (apb2_frequency c) = unat (ahb_frequency c) div apb_div (ppre2 c) \<and>
     unat (ahb_frequency c) \<le> 72000000 \<and> unat (apb1_frequency c) \<le> 36000000 \<and>
     unat (apb2_frequency c) div (2 * (unat (adcpre c) + 1)) \<le> 14000000 \<and>
     unat (flash_waitstates c) = (unat (ahb_frequency c) - 1) div 24000000"

text \<open>Every member fits the register field it is written to.\<close>

definition in_field :: "u32 \<Rightarrow> u32 \<Rightarrow> bool" where
  "in_field v m \<longleftrightarrow> v AND NOT m = 0"

definition scale_wf :: "rcc_clock_scale \<Rightarrow> bool" where
  "scale_wf c \<longleftrightarrow>
     in_field (push_bit 4 (ucast (hpre c))) RCC_CFGR_HPRE \<and>
     in_field (push_bit 8 (ucast (ppre1 c))) RCC_CFGR_PPRE1 \<and>
     in_field (push_bit 11 (ucast (ppre2 c))) RCC_CFGR_PPRE2 \<and>
     in_field (push_bit 14 (ucast (adcpre c))) RCC_CFGR_ADCPRE \<and>
     (usbpre c = 0 \<or> usbpre c = 1) \<and>
     in_field (push_bit 18 (ucast (pll_mul c))) RCC_CFGR_PLLMUL \<and>
     in_field (push_bit 16 (ucast (pll_source c))) RCC_CFGR_PLLSRC \<and>
     in_field (ucast (prediv1 c)) RCC_CFGR2_PREDIV1 \<and>
     in_field (push_bit 4 (ucast (prediv2 c))) RCC_CFGR2_PREDIV2 \<and>
     in_field (push_bit 8 (ucast (pll2_mul c))) RCC_CFGR2_PLL2MUL \<and>
     in_field (push_bit 12 (ucast (pll3_mul c))) RCC_CFGR2_PLL3MUL \<and>
     in_field (ucast (flash_waitstates c)) FLASH_ACR_LATENCY_MASK"

definition clocks_of :: "rcc_clock_scale \<Rightarrow> clocks" where
  "clocks_of c = \<lparr>rcc_apb1_frequency = apb1_frequency c, rcc_apb2_frequency = apb2_frequency c,
     rcc_ahb_frequency = ahb_frequency c\<rparr>"

text \<open>
  Every field of the clock configuration registers holds the entry's value, as far as the entry has one (the
  dividers of connectivity line parts are left alone when the entry has zero), and the PLL is the system
  clock. A prescaler of the PLL input above 2 is in \<^verbatim>\<open>RCC_CFGR2\<close>, a smaller one in \<^verbatim>\<open>RCC_CFGR\<close>.
\<close>

definition pll_settings :: "env \<Rightarrow> rcc_clock_scale \<Rightarrow> hist \<Rightarrow> bool" where
  "pll_settings env c h \<longleftrightarrow>
     env h RCC_CFGR AND RCC_CFGR_HPRE = push_bit 4 (ucast (hpre c)) \<and>
     env h RCC_CFGR AND RCC_CFGR_PPRE1 = push_bit 8 (ucast (ppre1 c)) \<and>
     env h RCC_CFGR AND RCC_CFGR_PPRE2 = push_bit 11 (ucast (ppre2 c)) \<and>
     env h RCC_CFGR AND RCC_CFGR_ADCPRE = push_bit 14 (ucast (adcpre c)) \<and>
     env h RCC_CFGR AND RCC_CFGR_USBPRE = push_bit 22 (ucast (usbpre c)) \<and>
     env h RCC_CFGR AND RCC_CFGR_PLLMUL = push_bit 18 (ucast (pll_mul c)) \<and>
     env h RCC_CFGR AND RCC_CFGR_PLLSRC = push_bit 16 (ucast (pll_source c)) \<and>
     env h RCC_CFGR AND RCC_CFGR_SW = RCC_CFGR_SW_SYSCLKSEL_PLLCLK \<and>
     env h FLASH_ACR AND FLASH_ACR_LATENCY_MASK = ucast (flash_waitstates c) \<and>
     (if prediv1 c > 1 then env h RCC_CFGR2 AND RCC_CFGR2_PREDIV1 = ucast (prediv1 c)
      else env h RCC_CFGR AND RCC_CFGR_PLLXTPRE = push_bit 17 (ucast (prediv1 c))) \<and>
     (prediv1_source c \<noteq> 0 \<longrightarrow>
        env h RCC_CFGR2 AND RCC_CFGR2_PREDIV1SRC = RCC_CFGR2_PREDIV1SRC) \<and>
     (prediv2 c \<noteq> 0 \<longrightarrow> env h RCC_CFGR2 AND RCC_CFGR2_PREDIV2 = push_bit 4 (ucast (prediv2 c))) \<and>
     (pll2_mul c \<noteq> 0 \<longrightarrow>
        env h RCC_CFGR2 AND RCC_CFGR2_PLL2MUL = push_bit 8 (ucast (pll2_mul c))) \<and>
     (pll3_mul c \<noteq> 0 \<longrightarrow>
        env h RCC_CFGR2 AND RCC_CFGR2_PLL3MUL = push_bit 12 (ucast (pll3_mul c)))"

section \<open>The clock hardware\<close>

text \<open>The register and the enable bit of an oscillator.\<close>

fun osc_reg :: "rcc_osc \<Rightarrow> u32" where
  "osc_reg RCC_LSE = RCC_BDCR"
| "osc_reg RCC_LSI = RCC_CSR"
| "osc_reg _ = RCC_CR"

fun osc_on_bit :: "rcc_osc \<Rightarrow> u32" where
  "osc_on_bit RCC_PLL = RCC_CR_PLLON"
| "osc_on_bit RCC_PLL2 = RCC_CR_PLL2ON"
| "osc_on_bit RCC_PLL3 = RCC_CR_PLL3ON"
| "osc_on_bit RCC_HSE = RCC_CR_HSEON"
| "osc_on_bit RCC_HSI = RCC_CR_HSION"
| "osc_on_bit RCC_LSE = RCC_BDCR_LSEON"
| "osc_on_bit RCC_LSI = RCC_CSR_LSION"

text \<open>
  Documented behaviour: the configuration registers store what is written (the SWS bits of
  \<^verbatim>\<open>RCC_CFGR\<close> apart, which the hardware drives), and an oscillator that has been switched on
  becomes ready.
\<close>

locale rcc_env =
  fixes env :: env
  assumes cfgr_plain: "plain env RCC_CFGR (NOT RCC_CFGR_SWS)"
    and cfgr2_plain: "plain env RCC_CFGR2 0x7FFFF"
    and acr_plain: "plain env FLASH_ACR FLASH_ACR_LATENCY_MASK"
    and osc_starts: "last_wr (osc_reg osc) h = Some v \<Longrightarrow> v AND osc_on_bit osc \<noteq> 0 \<Longrightarrow>
      spin_ends (rcc_is_osc_ready env osc) h"

text \<open>
  Two states in which the clock registers agree outside the bits \<open>m\<close> of \<^verbatim>\<open>RCC_CFGR\<close> (and outside its status
  bits SWS).
\<close>

definition same_clock :: "env \<Rightarrow> u32 \<Rightarrow> hist \<Rightarrow> hist \<Rightarrow> bool" where
  "same_clock env m h1 h2 \<longleftrightarrow>
     env h1 RCC_CFGR AND NOT (RCC_CFGR_SWS OR m) = env h2 RCC_CFGR AND NOT (RCC_CFGR_SWS OR m) \<and>
     env h1 RCC_CFGR2 AND 0x7FFFF = env h2 RCC_CFGR2 AND 0x7FFFF \<and>
     env h1 FLASH_ACR AND FLASH_ACR_LATENCY_MASK = env h2 FLASH_ACR AND FLASH_ACR_LATENCY_MASK"

text \<open>
  The oscillators that an entry needs, and that a history has grown by writes one of which switched an
  oscillator on.
\<close>

definition oscillators :: "rcc_clock_scale \<Rightarrow> rcc_osc set" where
  "oscillators c = {if pll_source c = RCC_CFGR_PLLSRC_HSE_CLK then RCC_HSE else RCC_HSI, RCC_PLL} \<union>
     (if pll2_mul c \<noteq> 0 then {RCC_PLL2} else {}) \<union> (if pll3_mul c \<noteq> 0 then {RCC_PLL3} else {})"

definition switched_on :: "hist \<Rightarrow> rcc_osc \<Rightarrow> hist \<Rightarrow> bool" where
  "switched_on h osc h' \<longleftrightarrow>
     (\<exists>ws v. wr_log h' = ws @ wr_log h \<and> Wr32 (osc_reg osc) v \<in> set ws \<and> v AND osc_on_bit osc \<noteq> 0)"

section \<open>Lemmas\<close>

lemma in_field_and: "in_field v m \<Longrightarrow> v AND m = v"
proof -
  assume "in_field v m"
  moreover have "v = (v AND m) OR (v AND NOT m)" by (simp flip: bit.conj_disj_distrib)
  ultimately show ?thesis by (simp add: in_field_def)
qed

lemma in_field_disjoint: "in_field v m \<Longrightarrow> m AND m' = 0 \<Longrightarrow> v AND m' = 0"
proof -
  assume v: "in_field v m" and m: "m AND m' = 0"
  have "v AND m' = (v AND m) AND m'" by (simp only: in_field_and [OF v])
  then show ?thesis by (simp only: and.assoc m and_zero_eq)
qed

lemma rcc_tables_wf: "list_all scale_wf (rcc_hse_configs @ rcc_hsi_configs)"
  by (simp add: rcc_hse_configs_def rcc_hsi_configs_def scale0_def scale_wf_def in_field_def)

lemma rcc_is_osc_ready_snd [simp]: "wr_log (snd (rcc_is_osc_ready env osc h)) = wr_log h"
  by (cases osc) (simp_all add: reg_flag_def mmio_defs)

lemma rcc_wait_wr_log:
  "rcc_wait_for_osc_ready env osc h = Some h' \<Longrightarrow> wr_log h' = wr_log h"
  unfolding rcc_wait_for_osc_ready_def by (rule spin_inv [where g = wr_log]) simp_all

text \<open>The value of a register that the program wrote last, under the setters.\<close>

abbreviation stored :: "env \<Rightarrow> u32 \<Rightarrow> hist \<Rightarrow> u32" where
  "stored env a h \<equiv> reg_val (env [] a) a h"

lemma rcc_wait_stored:
  "rcc_wait_for_osc_ready env osc h = Some h' \<Longrightarrow> reg_val r0 a h' = reg_val r0 a h"
  by (rule reg_val_wr_log) (rule rcc_wait_wr_log)

lemma rcc_osc_on_eq: "rcc_osc_on env osc h = reg_or env (osc_reg osc) (osc_on_bit osc) h"
  by (cases osc) simp_all

declare rcc_osc_on.simps [simp del] rcc_is_osc_ready.simps [simp del]

lemma stored_osc_on [simp]:
  "osc_reg osc \<noteq> a \<Longrightarrow> reg_val r0 a (rcc_osc_on env osc h) = reg_val r0 a h"
  by (simp add: rcc_osc_on_eq reg_or_eq)

lemma stored_field_other_reg [simp]:
  "b \<noteq> a \<Longrightarrow> reg_val r0 a (reg_field env b m v h) = reg_val r0 a h"
  by (simp add: reg_field_eq)

lemma reg_or_field: "reg_or env a b h = reg_field env a b b h"
proof -
  have "(x AND NOT b) OR b = x OR b" for x :: u32
    by (rule bit_word_eqI) (auto simp: bit_and_iff bit_or_iff bit_not_iff)
  then show ?thesis by (simp add: reg_or_eq reg_field_eq)
qed

lemma reg_andnot_field: "reg_andnot env a b h = reg_field env a b 0 h"
  by (simp add: reg_andnot_eq reg_field_eq)

lemma in_field_refl [simp]: "in_field b b" "in_field 0 b"
  by (simp_all add: in_field_def)

lemma flash_set_ws_field: "flash_set_ws env ws h = reg_field env FLASH_ACR FLASH_ACR_LATENCY_MASK ws h"
  by (simp add: flash_set_ws_def mmio_defs)

lemma stored_field_same [simp]:
  "in_field v m \<Longrightarrow> reg_val r0 a (reg_field env a m v h) AND m = v"
  by (simp add: reg_field_eq field_same in_field_and)

lemma stored_field_other:
  assumes "plain env a p" "m' AND p = m'" "in_field v m" "m AND m' = 0"
  shows "stored env a (reg_field env a m v h) AND m' = stored env a h AND m'"
  using assms plain_read [OF assms(1,2)]
  by (simp add: reg_field_eq field_other in_field_disjoint)


lemma ucast_u8_eq_0 [simp]: "(ucast (w :: u8) :: u32) = 0 \<longleftrightarrow> w = 0"
proof
  assume "(ucast w :: u32) = 0"
  then have "bit (ucast w :: u32) n = False" for n by simp
  then have "\<not> bit w n" if "n < 8" for n using that by (auto simp: bit_simps)
  then show "w = 0" by (intro bit_word_eqI) simp
qed simp

definition osc_started :: "env \<Rightarrow> rcc_osc \<Rightarrow> hist \<Rightarrow> hist" where
  "osc_started env osc h = the (rcc_wait_for_osc_ready env osc (rcc_osc_on env osc h))"

lemmas rcc_setters = rcc_set_hpre_def rcc_set_ppre1_def rcc_set_ppre2_def rcc_set_adcpre_def
  rcc_set_usbpre_def rcc_set_pll_multiplication_factor_def rcc_set_pll_source_def
  rcc_set_prediv1_def rcc_set_pllxtpre_def rcc_set_prediv1_source_def rcc_set_prediv2_def
  rcc_set_pll2_multiplication_factor_def rcc_set_pll3_multiplication_factor_def
  rcc_set_sysclk_source_def flash_set_ws_field reg_or_field reg_andnot_field

lemma in_field_def_num:
  "in_field (numeral v) (numeral m) \<longleftrightarrow> numeral v AND NOT (numeral m) = (0 :: u32)"
  "in_field 1 (numeral m) \<longleftrightarrow> 1 AND NOT (numeral m) = (0 :: u32)"
  by (simp_all add: in_field_def)

definition pll_final :: "env \<Rightarrow> rcc_clock_scale \<Rightarrow> hist \<Rightarrow> hist" where
  "pll_final env c h =
    (let h = osc_started env (if pll_source c = RCC_CFGR_PLLSRC_HSE_CLK then RCC_HSE else RCC_HSI) h;
         h = rcc_set_hpre env (ucast (hpre c)) h;
         h = rcc_set_ppre1 env (ucast (ppre1 c)) h;
         h = rcc_set_ppre2 env (ucast (ppre2 c)) h;
         h = rcc_set_adcpre env (ucast (adcpre c)) h;
         h = rcc_set_usbpre env (ucast (usbpre c)) h;
         h = flash_set_ws env (ucast (flash_waitstates c)) h;
         h = rcc_set_pll_multiplication_factor env (ucast (pll_mul c)) h;
         h = rcc_set_pll_source env (ucast (pll_source c)) h;
         h = (if prediv1 c > RCC_CFGR2_PREDIV_DIV2 then rcc_set_prediv1 env (ucast (prediv1 c)) h
              else rcc_set_pllxtpre env (ucast (prediv1 c)) h);
         h = (if prediv1_source c \<noteq> 0
              then rcc_set_prediv1_source env (ucast (prediv1_source c)) h else h);
         h = (if prediv2 c \<noteq> 0 then rcc_set_prediv2 env (ucast (prediv2 c)) h else h);
         h = (if pll2_mul c \<noteq> 0 then osc_started env RCC_PLL2
                 (rcc_set_pll2_multiplication_factor env (ucast (pll2_mul c)) h) else h);
         h = (if pll3_mul c \<noteq> 0 then osc_started env RCC_PLL3
                 (rcc_set_pll3_multiplication_factor env (ucast (pll3_mul c)) h) else h);
         h = osc_started env RCC_PLL h
     in rcc_set_sysclk_source env RCC_CFGR_SW_SYSCLKSEL_PLLCLK h)"

lemma masked_field:
  assumes "e AND p = s AND (p :: u32)"
  shows "((e AND NOT m) OR v) AND p = (((s AND p) AND NOT m) OR v) AND p"
proof -
  have "(e AND NOT m) AND p = (e AND p) AND NOT m" "((s AND p) AND NOT m) AND p = (s AND p) AND NOT m"
    by (simp_all only: ac_simps and.left_idem and.idem)
  then show ?thesis by (simp only: bit.conj_disj_distrib2 assms)
qed

lemma mask_value:
  "(x AND (numeral a :: u32)) AND numeral b = x AND (numeral a AND numeral b)"
  "(x AND (numeral a :: u32)) AND - numeral b = x AND (numeral a AND - numeral b)"
  "(x AND (- numeral a :: u32)) AND numeral b = x AND (- numeral a AND numeral b)"
  "(x AND (- numeral a :: u32)) AND - numeral b = x AND (- numeral a AND - numeral b)"
  "(x OR y) AND (numeral b :: u32) = (x AND numeral b) OR (y AND numeral b)"
  "(x OR y) AND (- numeral b :: u32) = (x AND - numeral b) OR (y AND - numeral b)"
  "(x OR (numeral a :: u32)) OR numeral b = x OR (numeral a OR numeral b)"
  "(x OR (1 :: u32)) OR numeral b = x OR (1 OR numeral b)"
  by (simp_all add: and.assoc or.assoc bit.conj_disj_distrib2)

context rcc_env
begin

text \<open>A field of \<^verbatim>\<open>RCC_CFGR\<close> or \<^verbatim>\<open>RCC_CFGR2\<close> survives an update of a disjoint field.\<close>

lemmas cfgr_keep = stored_field_other [OF cfgr_plain]
lemmas cfgr2_keep = stored_field_other [OF cfgr2_plain]

lemma osc_on_waits: "\<exists>h'. rcc_wait_for_osc_ready env osc (rcc_osc_on env osc h) = Some h'"
proof -
  have "last_wr (osc_reg osc) (rcc_osc_on env osc h) = Some (env h (osc_reg osc) OR osc_on_bit osc)"
    by (simp add: rcc_osc_on_eq reg_or_eq)
  moreover have "(x OR osc_on_bit osc) AND osc_on_bit osc \<noteq> 0" for x
  proof -
    have "(x OR osc_on_bit osc) AND osc_on_bit osc = osc_on_bit osc"
      by (rule bit_word_eqI) (auto simp: bit_and_iff bit_or_iff)
    then show ?thesis by (cases osc) simp_all
  qed
  ultimately have "spin_ends (rcc_is_osc_ready env osc) (rcc_osc_on env osc h)"
    by (rule osc_starts)
  then show ?thesis
    unfolding rcc_wait_for_osc_ready_def by (rule spin_ends_Some)
qed

text \<open>Switching an oscillator on and waiting for it, as one step.\<close>

lemma osc_up [hw_simps]:
  "rcc_wait_for_osc_ready env osc (rcc_osc_on env osc h) = Some (osc_started env osc h)"
  using osc_on_waits [of osc h] by (auto simp: osc_started_def)

lemma stored_osc_started [simp]:
  "osc_reg osc \<noteq> a \<Longrightarrow> reg_val r0 a (osc_started env osc h) = reg_val r0 a h"
  using rcc_wait_stored [OF osc_up, of r0 a osc h] by simp

lemma setup_pll_returns:
  "rcc_clock_setup_pll env c h = Some (clocks_of c, pll_final env c h)"
  by (simp add: rcc_clock_setup_pll_def pll_final_def clocks_of_def Let_def osc_up)

lemma prediv1_field: "\<not> 1 < prediv1 c \<Longrightarrow> in_field (push_bit 17 (ucast (prediv1 c))) RCC_CFGR_PLLXTPRE"
proof -
  assume "\<not> 1 < prediv1 c"
  then have "prediv1 c = 0 \<or> prediv1 c = 1" by (metis not_less word_le_less_eq word_less_1)
  then show ?thesis by (auto simp: in_field_def)
qed

lemma pll_final_cfgr:
  assumes "scale_wf c"
  shows "stored env RCC_CFGR (pll_final env c h) AND RCC_CFGR_HPRE = push_bit 4 (ucast (hpre c))"
    "stored env RCC_CFGR (pll_final env c h) AND RCC_CFGR_PPRE1 = push_bit 8 (ucast (ppre1 c))"
    "stored env RCC_CFGR (pll_final env c h) AND RCC_CFGR_PPRE2 = push_bit 11 (ucast (ppre2 c))"
    "stored env RCC_CFGR (pll_final env c h) AND RCC_CFGR_ADCPRE = push_bit 14 (ucast (adcpre c))"
    "stored env RCC_CFGR (pll_final env c h) AND RCC_CFGR_USBPRE = push_bit 22 (ucast (usbpre c))"
    "stored env RCC_CFGR (pll_final env c h) AND RCC_CFGR_PLLMUL = push_bit 18 (ucast (pll_mul c))"
    "stored env RCC_CFGR (pll_final env c h) AND RCC_CFGR_PLLSRC = push_bit 16 (ucast (pll_source c))"
    "stored env RCC_CFGR (pll_final env c h) AND RCC_CFGR_SW = RCC_CFGR_SW_SYSCLKSEL_PLLCLK"
    "\<not> 1 < prediv1 c \<Longrightarrow>
      stored env RCC_CFGR (pll_final env c h) AND RCC_CFGR_PLLXTPRE = push_bit 17 (ucast (prediv1 c))"
    "stored env FLASH_ACR (pll_final env c h) AND FLASH_ACR_LATENCY_MASK = ucast (flash_waitstates c)"
  using assms prediv1_field [of c]
  by (simp_all add: scale_wf_def pll_final_def Let_def rcc_setters cfgr_keep in_field_def_num) auto

lemma pll_final_cfgr2:
  assumes "scale_wf c"
  shows "prediv1_source c \<noteq> 0 \<Longrightarrow>
      stored env RCC_CFGR2 (pll_final env c h) AND RCC_CFGR2_PREDIV1SRC = RCC_CFGR2_PREDIV1SRC"
    "1 < prediv1 c \<Longrightarrow> stored env RCC_CFGR2 (pll_final env c h) AND RCC_CFGR2_PREDIV1 = ucast (prediv1 c)"
    "prediv2 c \<noteq> 0 \<Longrightarrow>
      stored env RCC_CFGR2 (pll_final env c h) AND RCC_CFGR2_PREDIV2 = push_bit 4 (ucast (prediv2 c))"
    "pll2_mul c \<noteq> 0 \<Longrightarrow>
      stored env RCC_CFGR2 (pll_final env c h) AND RCC_CFGR2_PLL2MUL = push_bit 8 (ucast (pll2_mul c))"
    "pll3_mul c \<noteq> 0 \<Longrightarrow>
      stored env RCC_CFGR2 (pll_final env c h) AND RCC_CFGR2_PLL3MUL = push_bit 12 (ucast (pll3_mul c))"
  using assms by (simp_all add: scale_wf_def pll_final_def Let_def rcc_setters cfgr2_keep)

lemma setup_pll:
  assumes "scale_wf c"
  shows "pll_settings env c (pll_final env c h)"
  unfolding pll_settings_def
  using pll_final_cfgr [OF assms, of h] pll_final_cfgr2 [OF assms, of h]
  by (simp add: plain_read [OF cfgr_plain] plain_read [OF cfgr2_plain] plain_read [OF acr_plain] not_less)

text \<open>Every oscillator that is needed has been switched on.\<close>

lemma wr_log_field: "wr_log (reg_field env a m v h) = Wr32 a ((env h a AND NOT m) OR v) # wr_log h"
  by (simp add: reg_field_eq)

lemma wr_log_started: "wr_log (osc_started env osc h) = Wr32 (osc_reg osc) (env h (osc_reg osc) OR osc_on_bit osc) # wr_log h"
  using rcc_wait_wr_log [OF osc_up, of osc h] by (simp add: rcc_osc_on_eq reg_or_eq)

lemma osc_bit_set: "(x OR osc_on_bit osc) AND osc_on_bit osc \<noteq> 0"
proof -
  have "(x OR osc_on_bit osc) AND osc_on_bit osc = osc_on_bit osc"
    by (rule bit_word_eqI) (auto simp: bit_and_iff bit_or_iff)
  then show ?thesis by (cases osc) simp_all
qed

definition grown :: "hist \<Rightarrow> hist \<Rightarrow> bool" where
  "grown h h' \<longleftrightarrow> (\<exists>ws. wr_log h' = ws @ wr_log h)"

lemma grown_steps:
  "grown h h" "grown h g \<Longrightarrow> grown h (reg_field env a m v g)" "grown h g \<Longrightarrow> grown h (osc_started env osc g)"
proof -
  show "grown h h" by (simp add: grown_def)
  show "grown h (reg_field env a m v g)" "grown h (osc_started env osc g)" if "grown h g"
    using that by (auto simp: grown_def wr_log_field wr_log_started intro: exI [of _ "_ # _"])
qed

lemma switched_steps:
  "grown h g \<Longrightarrow> switched_on h osc (osc_started env osc g)"
  "switched_on h osc g \<Longrightarrow> switched_on h osc (reg_field env a m v g)"
  "switched_on h osc g \<Longrightarrow> switched_on h osc (osc_started env osc' g)"
proof -
  show "switched_on h osc (osc_started env osc g)" if "grown h g"
  proof -
    from that obtain ws where ws: "wr_log g = ws @ wr_log h" by (auto simp: grown_def)
    let ?v = "env g (osc_reg osc) OR osc_on_bit osc"
    have "wr_log (osc_started env osc g) = (Wr32 (osc_reg osc) ?v # ws) @ wr_log h" by (simp add: wr_log_started ws)
    then show ?thesis
      unfolding switched_on_def using osc_bit_set [of "env g (osc_reg osc)" osc] by (metis list.set_intros(1))
  qed
  show "switched_on h osc (reg_field env a m v g)" "switched_on h osc (osc_started env osc' g)" if sw: "switched_on h osc g"
  proof -
    obtain ws v' where ws: "wr_log g = ws @ wr_log h" "Wr32 (osc_reg osc) v' \<in> set ws" "v' AND osc_on_bit osc \<noteq> 0"
      using sw by (auto simp: switched_on_def)
    then have "\<exists>us v. e # wr_log g = us @ wr_log h \<and> Wr32 (osc_reg osc) v \<in> set us \<and> v AND osc_on_bit osc \<noteq> 0" for e
      by (intro exI [of _ "e # ws"] exI [of _ v']) simp
    then show "switched_on h osc (reg_field env a m v g)" "switched_on h osc (osc_started env osc' g)"
      by (simp_all only: switched_on_def wr_log_field wr_log_started)
  qed
qed

lemma steps_if:
  "(b \<Longrightarrow> grown h x) \<Longrightarrow> (\<not> b \<Longrightarrow> grown h y) \<Longrightarrow> grown h (if b then x else y)"
  "(b \<Longrightarrow> switched_on h osc x) \<Longrightarrow> (\<not> b \<Longrightarrow> switched_on h osc y) \<Longrightarrow> switched_on h osc (if b then x else y)"
  by simp_all

lemma pll_final_switched:
  assumes "osc \<in> oscillators c"
  shows "switched_on h osc (pll_final env c h)"
proof -
  consider "osc = (if pll_source c = RCC_CFGR_PLLSRC_HSE_CLK then RCC_HSE else RCC_HSI)" | "osc = RCC_PLL"
    | "osc = RCC_PLL2" "pll2_mul c \<noteq> 0" | "osc = RCC_PLL3" "pll3_mul c \<noteq> 0"
    using assms by (auto simp: oscillators_def split: if_splits)
  then show ?thesis
  proof cases
    case 1
    show ?thesis unfolding 1 pll_final_def Let_def rcc_setters
      by (rule switched_steps(1) switched_steps(2,3) steps_if grown_steps)+
  next
    case 2
    show ?thesis unfolding 2 pll_final_def Let_def rcc_setters
      by (rule switched_steps(1) | rule switched_steps(2,3) steps_if grown_steps)+
  next
    case 3
    show ?thesis unfolding 3(1) pll_final_def Let_def rcc_setters if_P [OF 3(2)]
      by (rule switched_steps(1) | rule switched_steps(2,3) steps_if grown_steps)+
  next
    case 4
    show ?thesis unfolding 4(1) pll_final_def Let_def rcc_setters if_P [OF 4(2)]
      by (rule switched_steps(1) | rule switched_steps(2,3) steps_if grown_steps)+
  qed
qed

text \<open>
  What a chain of updates leaves of \<^verbatim>\<open>RCC_CFGR\<close> (the SWS bits apart) and of \<^verbatim>\<open>RCC_CFGR2\<close>, as a mask and a
  value.
\<close>

lemma cfgr_step: "stored env RCC_CFGR (reg_field env RCC_CFGR m v h) AND 0xFFFFFFF3 =
   (((stored env RCC_CFGR h AND 0xFFFFFFF3) AND NOT m) OR v) AND 0xFFFFFFF3"
proof -
  have "env h RCC_CFGR AND 0xFFFFFFF3 = stored env RCC_CFGR h AND 0xFFFFFFF3"
    by (rule plain_read [OF cfgr_plain]) simp
  from masked_field [OF this, of m v] show ?thesis by (simp add: reg_field_eq)
qed

lemma cfgr2_step: "stored env RCC_CFGR2 (reg_field env RCC_CFGR2 m v h) AND 0x7FFFF =
   (((stored env RCC_CFGR2 h AND 0x7FFFF) AND NOT m) OR v) AND 0x7FFFF"
proof -
  have "env h RCC_CFGR2 AND 0x7FFFF = stored env RCC_CFGR2 h AND 0x7FFFF"
    by (rule plain_read [OF cfgr2_plain]) simp
  from masked_field [OF this, of m v] show ?thesis by (simp add: reg_field_eq)
qed

lemma agree_stored:
  assumes "(stored env RCC_CFGR h1 AND 0xFFFFFFF3) AND NOT m = (stored env RCC_CFGR h2 AND 0xFFFFFFF3) AND NOT m"
    "stored env RCC_CFGR2 h1 AND 0x7FFFF = stored env RCC_CFGR2 h2 AND 0x7FFFF"
    "stored env FLASH_ACR h1 AND FLASH_ACR_LATENCY_MASK = stored env FLASH_ACR h2 AND FLASH_ACR_LATENCY_MASK"
  shows "same_clock env m h1 h2"
proof -
  have c: "env g RCC_CFGR AND 0xFFFFFFF3 = stored env RCC_CFGR g AND 0xFFFFFFF3" for g
    by (rule plain_read [OF cfgr_plain]) simp
  have "env g RCC_CFGR2 AND 0x7FFFF = stored env RCC_CFGR2 g AND 0x7FFFF" for g
    by (rule plain_read [OF cfgr2_plain]) simp
  moreover have "env g FLASH_ACR AND FLASH_ACR_LATENCY_MASK = stored env FLASH_ACR g AND FLASH_ACR_LATENCY_MASK" for g
    by (rule plain_read [OF acr_plain]) simp
  moreover have "env g RCC_CFGR AND NOT (RCC_CFGR_SWS OR m) = (stored env RCC_CFGR g AND 0xFFFFFFF3) AND NOT m" for g
  proof -
    have "NOT RCC_CFGR_SWS = (0xFFFFFFF3 :: u32)" by simp
    then show ?thesis unfolding c [symmetric] by (simp only: bit.de_Morgan_disj and.assoc)
  qed
  ultimately show ?thesis using assms by (simp add: same_clock_def)
qed

end







section \<open>The device has the interface\<close>

lemma sim_plain: "plain (sim rx) RCC_CFGR2 m" "plain (sim rx) FLASH_ACR m"
  by (simp_all add: plain_def sim_def reg_val_def)

lemma sim_cfgr: "plain (sim rx) RCC_CFGR (NOT RCC_CFGR_SWS)"
proof -
  have "(((v AND NOT RCC_CFGR_SWS) OR push_bit 2 (v AND RCC_CFGR_SW)) AND NOT RCC_CFGR_SWS)
      = v AND NOT RCC_CFGR_SWS" for v :: u32
  proof -
    have "push_bit 2 (v AND RCC_CFGR_SW) AND NOT RCC_CFGR_SWS = 0"
      by (simp add: push_bit_and and.assoc)
    then show ?thesis by (simp add: bit.conj_disj_distrib2 and.assoc)
  qed
  moreover have "reg_val 0 RCC_CFGR [] = 0" by (simp add: reg_val_def)
  ultimately show ?thesis by (simp add: plain_def sim_def Let_def)
qed

text \<open>A ready flag of the device is set as soon as its oscillator is enabled.\<close>

lemma sim_osc_ready:
  assumes "v AND 2 ^ n \<noteq> 0" "on AND 2 ^ n \<noteq> 0" "Suc n < 32"
  shows "sim_osc on v AND 2 ^ Suc n \<noteq> 0"
proof -
  have "bit v n" "bit on n" using assms(1,2) by (simp_all add: and_exp_eq_0_iff_not_bit)
  with assms(3) have "bit (sim_osc on v) (Suc n)"
    by (simp only: sim_osc_def bit_or_iff bit_push_bit_iff bit_and_iff) simp
  then show ?thesis by (simp only: and_exp_eq_0_iff_not_bit not_not)
qed

lemma sim_osc_starts:
  assumes "last_wr (osc_reg osc) h = Some v" "v AND osc_on_bit osc \<noteq> 0"
  shows "fst (rcc_is_osc_ready (sim rx) osc h)"
  using assms sim_osc_ready [of v 24 "0x15010001"] sim_osc_ready [of v 26 "0x15010001"]
    sim_osc_ready [of v 28 "0x15010001"] sim_osc_ready [of v 16 "0x15010001"]
    sim_osc_ready [of v 0 "0x15010001"] sim_osc_ready [of v 0 1]
  by (cases osc) (simp_all add: rcc_is_osc_ready.simps reg_flag_def mmio_defs sim_def reg_val_def)

interpretation sim_rcc: rcc_env "sim rx" for rx
proof
  fix osc h v
  assume "last_wr (osc_reg osc) h = Some v" "v AND osc_on_bit osc \<noteq> 0"
  then show "spin_ends (rcc_is_osc_ready (sim rx) osc) h"
    unfolding spin_ends_def using sim_osc_starts by (intro exI [of _ 0]) simp
qed (rule sim_cfgr sim_plain)+

section \<open>Properties\<close>

text \<open>
  The configuration tables are right: for its crystal (12, 16, 25, 8 and 8 MHz), every entry of
  \<^verbatim>\<open>rcc_hse_configs\<close>, and every entry of \<^verbatim>\<open>rcc_hsi_configs\<close>, records the AHB, APB1 and APB2
  frequencies that its own PLL and prescaler fields produce in the clock tree, stays within the
  limits of the part (72 MHz, 36 MHz on APB1, 14 MHz for the ADC), and sets the flash wait states
  that its frequency needs.
\<close>

theorem rcc_tables_consistent:
  "list_all2 scale_ok [12000000, 16000000, 25000000, 8000000, 8000000] rcc_hse_configs
   \<and> list_all (scale_ok 8000000) rcc_hsi_configs"
  by (simp add: rcc_hse_configs_def rcc_hsi_configs_def scale0_def scale_ok_def pll_output_def
      pll_input_def apb_div_def rcc_get_div_from_hpre_def flip: numeral_2_eq_2)

text \<open>
  C13. For every entry of the two tables \<open>rcc_clock_setup_pll\<close> returns, records the frequencies of the entry
  and leaves every field of the clock configuration registers and the flash latency at the value of the entry,
  with the PLL as the system clock; every oscillator that the entry needs has been switched on.
\<close>

theorem rcc_clock_setup_pll_settings:
  assumes "rcc_env env" "c \<in> set (rcc_hse_configs @ rcc_hsi_configs)"
  shows "\<exists>h'. rcc_clock_setup_pll env c h = Some (clocks_of c, h') \<and> pll_settings env c h'
     \<and> (\<forall>osc \<in> oscillators c. switched_on h osc h')"
proof -
  have "scale_wf c" using rcc_tables_wf assms(2) by (simp only: list_all_iff)
  with rcc_env.setup_pll_returns [OF assms(1)] rcc_env.setup_pll [OF assms(1)] rcc_env.pll_final_switched [OF assms(1)]
  show ?thesis by blast
qed

theorem rcc_clock_setup_pll_settings_witness:
  "\<exists>h'. rcc_clock_setup_pll (sim []) (rcc_hse_configs ! 4) []
      = Some (\<lparr>rcc_apb1_frequency = 36000000, rcc_apb2_frequency = 72000000,
              rcc_ahb_frequency = 72000000\<rparr>, h')
     \<and> pll_settings (sim []) (rcc_hse_configs ! 4) h' \<and> switched_on [] RCC_PLL h'"
proof -
  have "rcc_hse_configs ! 4 \<in> set (rcc_hse_configs @ rcc_hsi_configs)"
    by (simp add: rcc_hse_configs_def)
  from rcc_clock_setup_pll_settings [OF sim_rcc.rcc_env_axioms this, of "[]" "[]"]
  show ?thesis by (auto simp: clocks_of_def rcc_hse_configs_def oscillators_def)
qed

text \<open>
  A fixed set-up function and \<open>rcc_clock_setup_pll\<close> on an entry, from the same state: both return the same
  frequencies and leave the same registers outside the bits \<open>m\<close>, which the one of them does not write (the
  fixed function, if \<open>own\<close> holds, otherwise the general one).
\<close>

definition setups_agree ::
    "env \<Rightarrow> hist \<Rightarrow> (env \<Rightarrow> hist \<Rightarrow> (clocks \<times> hist) option) \<Rightarrow> rcc_clock_scale \<Rightarrow> u32 \<Rightarrow> bool \<Rightarrow> bool" where
  "setups_agree env h f c m own \<longleftrightarrow> (\<exists>h1 h2 clk. f env h = Some (clk, h1) \<and> rcc_clock_setup_pll env c h = Some (clk, h2) \<and>
     same_clock env m h1 h2 \<and> env (if own then h1 else h2) RCC_CFGR AND m = env h RCC_CFGR AND m \<and>
     (\<forall>osc \<in> oscillators c. switched_on h osc h1 \<and> switched_on h osc h2))"

context rcc_env
begin

lemma keeps_bits:
  "m AND 0xFFFFFFF3 = m \<Longrightarrow> (stored env RCC_CFGR g AND 0xFFFFFFF3) AND m = (stored env RCC_CFGR h AND 0xFFFFFFF3) AND m \<Longrightarrow>
    env g RCC_CFGR AND m = env h RCC_CFGR AND m"
proof -
  assume m: "m AND 0xFFFFFFF3 = m" and e: "(stored env RCC_CFGR g AND 0xFFFFFFF3) AND m = (stored env RCC_CFGR h AND 0xFFFFFFF3) AND m"
  have c: "env g RCC_CFGR AND 0xFFFFFFF3 = stored env RCC_CFGR g AND 0xFFFFFFF3" for g
    by (rule plain_read [OF cfgr_plain]) simp
  have "x AND m = (x AND 0xFFFFFFF3) AND m" for x
    using m by (simp only: and.assoc and.commute [of "0xFFFFFFF3"])
  then show ?thesis using e unfolding c [symmetric] by (simp only:)
qed

lemmas agree_eval = Let_def osc_up setup_pll_returns pll_final_def clocks_of_def scale0_def oscillators_def rcc_setters

text \<open>Either the last step switches the oscillator on or one before it does.\<close>

lemma switch_step:
  "grown h g \<and> osc = osc' \<or> switched_on h osc g \<Longrightarrow> switched_on h osc (osc_started env osc' g)"
  using switched_steps by blast

lemmas switch_steps = switch_step grown_steps switched_steps(2)

lemma agree_hse_12mhz_out_72mhz:
  "setups_agree env h rcc_clock_setup_in_hse_12mhz_out_72mhz (rcc_hse_configs ! 0) RCC_CFGR_USBPRE True"
  unfolding setups_agree_def rcc_clock_setup_in_hse_12mhz_out_72mhz_def
  by (simp add: agree_eval rcc_hse_configs_def)
    (intro conjI agree_stored keeps_bits; simp add: switch_steps cfgr_step cfgr2_step mask_value in_field_def_num)

lemma agree_hse_16mhz_out_72mhz:
  "setups_agree env h rcc_clock_setup_in_hse_16mhz_out_72mhz (rcc_hse_configs ! 1) RCC_CFGR_USBPRE True"
  unfolding setups_agree_def rcc_clock_setup_in_hse_16mhz_out_72mhz_def
  by (simp add: agree_eval rcc_hse_configs_def)
    (intro conjI agree_stored keeps_bits; simp add: switch_steps cfgr_step cfgr2_step mask_value in_field_def_num)

lemma agree_hse_25mhz_out_72mhz:
  "setups_agree env h rcc_clock_setup_in_hse_25mhz_out_72mhz (rcc_hse_configs ! 2) RCC_CFGR_PLLXTPRE False"
  unfolding setups_agree_def rcc_clock_setup_in_hse_25mhz_out_72mhz_def
  by (simp add: agree_eval rcc_hse_configs_def)
    (intro conjI agree_stored keeps_bits; simp add: switch_steps cfgr_step cfgr2_step mask_value in_field_def_num)

lemma agree_hse_8mhz_out_24mhz:
  "setups_agree env h rcc_clock_setup_in_hse_8mhz_out_24mhz (rcc_hse_configs ! 3) RCC_CFGR_USBPRE True"
  unfolding setups_agree_def rcc_clock_setup_in_hse_8mhz_out_24mhz_def
  by (simp add: agree_eval rcc_hse_configs_def)
    (intro conjI agree_stored keeps_bits; simp add: switch_steps cfgr_step cfgr2_step mask_value in_field_def_num)

lemma agree_hse_8mhz_out_72mhz:
  "setups_agree env h rcc_clock_setup_in_hse_8mhz_out_72mhz (rcc_hse_configs ! 4) RCC_CFGR_USBPRE True"
  unfolding setups_agree_def rcc_clock_setup_in_hse_8mhz_out_72mhz_def
  by (simp add: agree_eval rcc_hse_configs_def)
    (intro conjI agree_stored keeps_bits; simp add: switch_steps cfgr_step cfgr2_step mask_value in_field_def_num)

lemma agree_hsi_out_24mhz:
  "setups_agree env h rcc_clock_setup_in_hsi_out_24mhz (rcc_hsi_configs ! 0) (RCC_CFGR_USBPRE OR RCC_CFGR_PLLXTPRE) True"
  unfolding setups_agree_def rcc_clock_setup_in_hsi_out_24mhz_def
  by (simp add: agree_eval rcc_hsi_configs_def)
    (intro conjI agree_stored keeps_bits; simp add: switch_steps cfgr_step cfgr2_step mask_value in_field_def_num)

lemma agree_hsi_out_48mhz:
  "setups_agree env h rcc_clock_setup_in_hsi_out_48mhz (rcc_hsi_configs ! 1) RCC_CFGR_PLLXTPRE True"
  unfolding setups_agree_def rcc_clock_setup_in_hsi_out_48mhz_def
  by (simp add: agree_eval rcc_hsi_configs_def)
    (intro conjI agree_stored keeps_bits; simp add: switch_steps cfgr_step cfgr2_step mask_value in_field_def_num)

lemma agree_hsi_out_64mhz:
  "setups_agree env h rcc_clock_setup_in_hsi_out_64mhz (rcc_hsi_configs ! 2) (RCC_CFGR_USBPRE OR RCC_CFGR_PLLXTPRE) True"
  unfolding setups_agree_def rcc_clock_setup_in_hsi_out_64mhz_def
  by (simp add: agree_eval rcc_hsi_configs_def)
    (intro conjI agree_stored keeps_bits; simp add: switch_steps cfgr_step cfgr2_step mask_value in_field_def_num)

end

text \<open>
  C15. Each of the eight set-up functions for a fixed crystal is equivalent to \<open>rcc_clock_setup_pll\<close> on its
  table entry, except for the bits of \<^verbatim>\<open>RCC_CFGR\<close> that only one of them writes: from any state both return,
  record the same frequencies, have switched the same needed oscillators on and leave the same
  \<^verbatim>\<open>RCC_CFGR\<close> outside these bits, the same \<^verbatim>\<open>RCC_CFGR2\<close> and the same flash latency; the excepted bits are
  the USB prescaler and the divider of the PLL input, and the function that does not write them leaves them
  as they were.
\<close>

theorem rcc_fixed_setups_agree:
  assumes "rcc_env env"
  shows "list_all (\<lambda>(f, c, m, own). setups_agree env h f c m own)
     [(rcc_clock_setup_in_hse_12mhz_out_72mhz, rcc_hse_configs ! 0, RCC_CFGR_USBPRE, True),
      (rcc_clock_setup_in_hse_16mhz_out_72mhz, rcc_hse_configs ! 1, RCC_CFGR_USBPRE, True),
      (rcc_clock_setup_in_hse_25mhz_out_72mhz, rcc_hse_configs ! 2, RCC_CFGR_PLLXTPRE, False),
      (rcc_clock_setup_in_hse_8mhz_out_24mhz, rcc_hse_configs ! 3, RCC_CFGR_USBPRE, True),
      (rcc_clock_setup_in_hse_8mhz_out_72mhz, rcc_hse_configs ! 4, RCC_CFGR_USBPRE, True),
      (rcc_clock_setup_in_hsi_out_24mhz, rcc_hsi_configs ! 0, RCC_CFGR_USBPRE OR RCC_CFGR_PLLXTPRE, True),
      (rcc_clock_setup_in_hsi_out_48mhz, rcc_hsi_configs ! 1, RCC_CFGR_PLLXTPRE, True),
      (rcc_clock_setup_in_hsi_out_64mhz, rcc_hsi_configs ! 2, RCC_CFGR_USBPRE OR RCC_CFGR_PLLXTPRE, True)]"
  using rcc_env.agree_hse_12mhz_out_72mhz [OF assms] rcc_env.agree_hse_16mhz_out_72mhz [OF assms]
    rcc_env.agree_hse_25mhz_out_72mhz [OF assms] rcc_env.agree_hse_8mhz_out_24mhz [OF assms]
    rcc_env.agree_hse_8mhz_out_72mhz [OF assms] rcc_env.agree_hsi_out_24mhz [OF assms]
    rcc_env.agree_hsi_out_48mhz [OF assms] rcc_env.agree_hsi_out_64mhz [OF assms]
  by simp

theorem rcc_fixed_setups_agree_witness:
  "setups_agree (sim []) [] rcc_clock_setup_in_hse_8mhz_out_72mhz (rcc_hse_configs ! 4) RCC_CFGR_USBPRE True"
  using rcc_fixed_setups_agree [OF sim_rcc.rcc_env_axioms, of "[]" "[]"] by simp



end
