(* ===== verification/Apps.thy ===== *)
theory Apps
  imports Esp_Frames Clock
begin

text \<open>
  The applications: \<^verbatim>\<open>utc_clock\<close>, which serves one page over the ESP8266, and \<^verbatim>\<open>zex_flash_data\<close>,
  which stores a word in flash; with the helpers of \<^verbatim>\<open>my-common-code\<close>. A \<^verbatim>\<open>main\<close> that ends in
  \<^verbatim>\<open>while (1);\<close> is modelled up to that loop, in which only interrupts run.
\<close>

section \<open>Helpers\<close>

text \<open>Signed arithmetic at 32 bits; an overflow has no defined result.\<close>

definition int32 :: "int \<Rightarrow> int option" where
  "int32 x = (if - (2 ^ 31) \<le> x \<and> x < 2 ^ 31 then Some x else None)"

definition my_func :: "int \<Rightarrow> int option" where
  "my_func a = int32 (a * 3)"

definition tambah :: "int \<Rightarrow> int \<Rightarrow> int option" where
  "tambah a b = int32 (a + b)"

text \<open>The instruction \<^verbatim>\<open>rev\<close>: the bytes of the word in reverse order.\<close>

definition rev_bytes :: "u32 \<Rightarrow> u32" where
  "rev_bytes w = word_of_le32 (rev (le32 w))"

section \<open>utc_clock\<close>

definition on_http_request :: "env \<Rightarrow> u8 \<Rightarrow> char list \<Rightarrow> u16 \<Rightarrow> esp8266 \<Rightarrow> esp8266 option" where
  "on_http_request env link_id request len st =
     (if strncmp_eq request ''GET / '' then
        esp8266_http_send_response env link_id 200 (Some ''text/html'') (Some ''<h1>Hello from STM32</h1>'') st
      else esp8266_http_send_response env link_id 404 (Some ''text/plain'') (Some ''Not Found'') st)"

text \<open>The only function the program registers; its address is 0 in the model.\<close>

definition utc_call :: "env \<Rightarrow> http_call" where
  "utc_call env f = on_http_request env"

abbreviation (input) RCC_CLOCK_HSE8_72MHZ :: nat where "RCC_CLOCK_HSE8_72MHZ \<equiv> 4"
abbreviation (input) ESP8266_MODE_CLIENT_HOST :: nat where "ESP8266_MODE_CLIENT_HOST \<equiv> 3"

definition utc_main :: "env \<Rightarrow> esp8266 \<Rightarrow> (clocks \<times> esp8266) option" where
  "utc_main env st = do {
     (clk, h) \<leftarrow> rcc_clock_setup_pll env (rcc_hse_configs ! RCC_CLOCK_HSE8_72MHZ) (bus st);
     let h = debug_setup env clk h;
     st \<leftarrow> esp8266_setup env clk True (st\<lparr>bus := h\<rparr>);
     st \<leftarrow> esp8266_check env st;
     st \<leftarrow> esp8266_connect env ''NabilaSubri_5G'' ''19971109@'' st;
     st \<leftarrow> esp8266_set_mode env ESP8266_MODE_CLIENT_HOST st;
     st \<leftarrow> esp8266_connect env ''HomeWiFi'' ''homepassword'' st;
     st \<leftarrow> esp8266_set_ap_config env ''MyESP32'' ''esp8266pass'' 6 3 st;
     let st = esp8266_set_http_request_handler (Some 0) st;
     st \<leftarrow> esp8266_server_start env 80 st;
     Some (clk, st)
   }"

section \<open>zex_flash_data\<close>

abbreviation (input) EEPROM_ADDR :: u32 where "EEPROM_ADDR \<equiv> 0x0800F800"

definition zex_eeprom_write :: "env \<Rightarrow> u32 \<Rightarrow> hist \<Rightarrow> hist option" where
  "zex_eeprom_write env v h = do {
     let h = flash_unlock h;
     h \<leftarrow> flash_erase_page env EEPROM_ADDR h;
     h \<leftarrow> flash_program_word env EEPROM_ADDR v h;
     Some (flash_lock env h)
   }"

definition zex_eeprom_read :: "env \<Rightarrow> hist \<Rightarrow> u32 \<times> hist" where
  "zex_eeprom_read env h = mmio_rd env EEPROM_ADDR h"

definition zex_main :: "env \<Rightarrow> esp8266 \<Rightarrow> (int \<times> esp8266) option" where
  "zex_main env st = do {
     (clk, h) \<leftarrow> rcc_clock_setup_pll env (rcc_hse_configs ! RCC_CLOCK_HSE8_72MHZ) (bus st);
     let h = debug_setup env clk h;
     st \<leftarrow> esp8266_setup env clk True (st\<lparr>bus := h\<rparr>);
     st \<leftarrow> esp8266_check env st;
     st \<leftarrow> esp8266_connect env ''NabilaSubri_5G'' ''19971109@'' st;
     let rev = rev_bytes 0xAABBCCDD;
     _ \<leftarrow> tambah 15 10;
     h \<leftarrow> zex_eeprom_write env 0x12345678 (bus st);
     let (stored, h) = zex_eeprom_read env h;
     x \<leftarrow> my_func (sint rev);
     x \<leftarrow> int32 (x + sint stored);
     Some (x, st\<lparr>bus := h\<rparr>)
   }"

section \<open>zex_rtos\<close>

definition zex_rtos_main :: "int \<Rightarrow> int option" where
  "zex_rtos_main x = int32 (x + 1)"

section \<open>Lemmas\<close>

lemma rev_bytes_involutive: "rev_bytes (rev_bytes w) = w"
  by (simp add: rev_bytes_def le32_word_of_le32)

lemma zex_eeprom_write_eq: "zex_eeprom_write env v h = eeprom_write env (le32 v) 4 h"
proof -
  have w: "word_at (le32 v) 0 = Some v" by (simp add: word_at_def)
  have "eeprom_program env (le32 v) (Suc 0) 0 h = flash_program_word env EEPROM_ADDR v h" for h
    by (cases "flash_program_word env EEPROM_ADDR v h") (simp_all add: w)
  then show ?thesis by (simp add: zex_eeprom_write_def eeprom_write_def)
qed

lemma rcc_wait_extends: "rcc_wait_for_osc_ready env osc h = Some h' \<Longrightarrow> extends [] h h'"
  unfolding rcc_wait_for_osc_ready_def
  by (rule spin_extends) (cases osc, simp_all add: rcc_is_osc_ready.simps reg_flag_def mmio_defs extends_Rd)

lemma calm_trans: "calm h h' \<Longrightarrow> calm h' h'' \<Longrightarrow> calm h h''"
proof -
  assume "calm h h'" "calm h' h''"
  then obtain ws ws' where "extends (ws' @ ws) h h''" "\<not> (\<exists>e \<in> set (ws' @ ws). flash_reg e)"
    unfolding calm_def using extends_trans by fastforce
  then show ?thesis unfolding calm_def by blast
qed

context rcc_env
begin

lemma calm_osc_started: "calm h h' \<Longrightarrow> calm h (osc_started env osc h')"
proof -
  assume h: "calm h h'"
  have "\<not> flash_reg (Wr32 (osc_reg osc) 0)" by (cases osc) simp_all
  from calm_regs(1) [OF this h] have "calm h (rcc_osc_on env osc h')" by (simp only: rcc_osc_on_eq)
  moreover have "calm (rcc_osc_on env osc h') (osc_started env osc h')"
    using rcc_wait_extends [OF osc_up, of osc h'] by (auto simp: calm_def intro: exI [of _ "[]"])
  ultimately show ?thesis by (rule calm_trans)
qed

lemma calm_setters:
  "calm h h' \<Longrightarrow> calm h (rcc_set_hpre env v h')"
  "calm h h' \<Longrightarrow> calm h (rcc_set_ppre1 env v h')"
  "calm h h' \<Longrightarrow> calm h (rcc_set_ppre2 env v h')"
  "calm h h' \<Longrightarrow> calm h (rcc_set_adcpre env v h')"
  "calm h h' \<Longrightarrow> calm h (rcc_set_usbpre env v h')"
  "calm h h' \<Longrightarrow> calm h (flash_set_ws env v h')"
  "calm h h' \<Longrightarrow> calm h (rcc_set_pll_multiplication_factor env v h')"
  "calm h h' \<Longrightarrow> calm h (rcc_set_pll_source env v h')"
  "calm h h' \<Longrightarrow> calm h (rcc_set_sysclk_source env v h')"
  by (simp_all add: rcc_setters calm_regs)

lemma calm_optional:
  "calm h h' \<Longrightarrow> calm h (if b then rcc_set_prediv1 env v h' else rcc_set_pllxtpre env v h')"
  "calm h h' \<Longrightarrow> calm h (if b then rcc_set_prediv1_source env v h' else h')"
  "calm h h' \<Longrightarrow> calm h (if b then rcc_set_prediv2 env v h' else h')"
  "calm h h' \<Longrightarrow> calm h (if b then osc_started env osc (rcc_set_pll2_multiplication_factor env v h') else h')"
  "calm h h' \<Longrightarrow> calm h (if b then osc_started env osc (rcc_set_pll3_multiplication_factor env v h') else h')"
  by (simp_all add: rcc_setters calm_regs calm_osc_started)

lemma calm_pll_final: "calm h (pll_final env c h)"
  unfolding pll_final_def Let_def
  by (intro calm_setters calm_optional calm_osc_started calm_refl)

end

lemma calm_debug_setup:
  assumes "calm h h'"
  shows "calm h (debug_setup env clk h')"
proof -
  have pins: "debug_pins env DEBUG_USART h = gpio_set_mode env GPIOA GPIO_MODE_INPUT GPIO_CNF_INPUT_FLOAT GPIO10
      (gpio_set_mode env GPIOA GPIO_MODE_OUTPUT_50_MHZ GPIO_CNF_OUTPUT_ALTFN_PUSHPULL GPIO9
      (reg_or env (rcc_reg RCC_USART1) (rcc_bit RCC_USART1) (rcc_periph_clock_enable env RCC_GPIOA h)))" for h
    by (simp add: debug_pins_def rcc_periph_clock_enable_def)
  have "\<not> flash_reg (Wr32 (rcc_reg RCC_USART1) 0)"
    by (simp add: RCC_USART1_def rcc_reg_def reg_bit_def)
  then have "calm h (debug_pins env DEBUG_USART h')"
    unfolding pins using assms by (intro calm_pins calm_regs)
  then show ?thesis
    unfolding debug_setup_def Let_def
    by (simp add: usart_set_baudrate_def usart_set_databits_def usart_set_stopbits_def usart_set_mode_def
        usart_set_parity_def usart_set_flow_control_def usart_enable_def calm_regs)
qed

section \<open>Start-up\<close>

fun esp_calls :: "env \<Rightarrow> clocks \<Rightarrow> esp_call list \<Rightarrow> esp8266 \<Rightarrow> esp8266 option" where
  "esp_calls env clk [] st = Some st"
| "esp_calls env clk (c # cs) st = esp_exec env clk c st \<bind> esp_calls env clk cs"

text \<open>The board with its clock tree.\<close>

locale app_board = esp_board env mem + rcc_env env for env mem
begin

lemma power_up:
  assumes "esp_ok env st"
  shows "\<exists>clk h. rcc_clock_setup_pll env c (bus st) = Some (clk, h) \<and> esp_ok env (st\<lparr>bus := debug_setup env clk h\<rparr>)"
proof -
  let ?h = "debug_setup env (clocks_of c) (pll_final env c (bus st))"
  have "calm (bus st) ?h" by (intro calm_debug_setup calm_pll_final)
  then obtain ws where "extends ws (bus st) ?h" "\<not> (\<exists>e \<in> set ws. flash_reg e)" by (auto simp: calm_def)
  note keep = off_flash [OF this]
  have "dev_ok env (st\<lparr>bus := ?h\<rparr>)"
    using assms by (intro dev_ok_bus keep) (simp_all add: esp_ok_def dev_ok_def)
  then show ?thesis
    using assms by (simp add: setup_pll_returns esp_ok_def esp_inv_def)
qed

text \<open>A sequence of valid calls returns.\<close>

lemma calls_return:
  assumes "esp_ok env st" "list_all call_valid cs"
  shows "\<exists>st'. esp_calls env clk cs st = Some st' \<and> esp_ok env st'"
  using assms
proof (induction cs arbitrary: st)
  case (Cons c cs)
  then obtain st1 where "esp_exec env clk c st = Some st1" "esp_ok env st1"
    using call_returns [of st c clk] by auto
  with Cons show ?case by simp
qed simp

lemma utc_handler_ok: "handler_ok env (utc_call env)"
  by (simp add: handler_ok_def call_ok_def utc_call_def on_http_request_def runs_http keeps_connections)

lemma isr_any_number:
  assumes "esp_ok env st"
  shows "\<exists>st'. ((\<lambda>r. r \<bind> usart2_isr env (utc_call env)) ^^ n) (Some st) = Some st' \<and> esp_ok env st'"
proof (induction n)
  case (Suc n)
  then obtain st1 where st1: "((\<lambda>r. r \<bind> usart2_isr env (utc_call env)) ^^ n) (Some st) = Some st1" "esp_ok env st1"
    by blast
  with isr_returns [OF st1(2), of "utc_call env"] utc_handler_ok show ?case by (auto simp: handler_ok_def)
qed (simp add: assms)

lemma utc_main_returns:
  assumes "esp_ok env st"
  shows "\<exists>clk st'. utc_main env st = Some (clk, st') \<and> esp_ok env st' \<and> http_request_handler st' = Some 0"
proof -
  let ?c = "rcc_hse_configs ! RCC_CLOCK_HSE8_72MHZ"
  obtain clk h where up: "rcc_clock_setup_pll env ?c (bus st) = Some (clk, h)"
    "esp_ok env (st\<lparr>bus := debug_setup env clk h\<rparr>)"
    using power_up [OF assms, of ?c] by blast
  obtain st1 where st1: "esp_calls env clk [Setup True, Check, Connect ''NabilaSubri_5G'' ''19971109@'',
      Set_mode ESP8266_MODE_CLIENT_HOST, Connect ''HomeWiFi'' ''homepassword'',
      Set_ap_config ''MyESP32'' ''esp8266pass'' 6 3, Set_http_request_handler (Some 0)]
      (st\<lparr>bus := debug_setup env clk h\<rparr>) = Some st1" "esp_ok env st1"
    using calls_return [OF up(2)] by (metis (no_types, lifting) call_valid.simps list.pred_inject)
  then have handler: "http_request_handler st1 = Some 0"
    by (auto simp: bind_eq_Some_conv esp8266_set_http_request_handler_def)
  obtain st2 where st2: "esp8266_server_start env 80 st1 = Some st2" "esp_ok env st2"
    using call_returns [OF st1(2), of "Server_start 80" clk] by auto
  have "sends st1 (take 31 (''AT+CIPSERVER=1,'' @ dec_text (unat (80 :: u16)) @ CRLF)) (esp8266_server_start env 80 st1)"
    unfolding esp8266_server_start_def using sends_at [of "''AT+CIPSERVER=1,'' @ dec_text (unat (80 :: u16)) @ CRLF" st1 32] by simp
  with st2(1) handler have "http_request_handler st2 = Some 0" by (auto simp: sends_def wifi_sent_def)
  moreover have "utc_main env st = Some (clk, st2)"
    using up(1) st1(1) st2(1) by (auto simp: utc_main_def bind_eq_Some_conv esp8266_set_http_request_handler_def)
  ultimately show ?thesis using st2(2) by blast
qed

lemma zex_main_returns:
  assumes "esp_ok env st"
  shows "\<exists>st'. zex_main env st = Some (- 1415935626, st')"
proof -
  let ?c = "rcc_hse_configs ! RCC_CLOCK_HSE8_72MHZ"
  obtain clk h where up: "rcc_clock_setup_pll env ?c (bus st) = Some (clk, h)"
    "esp_ok env (st\<lparr>bus := debug_setup env clk h\<rparr>)"
    using power_up [OF assms, of ?c] by blast
  obtain st1 where st1: "esp_calls env clk [Setup True, Check, Connect ''NabilaSubri_5G'' ''19971109@'']
      (st\<lparr>bus := debug_setup env clk h\<rparr>) = Some st1" "esp_ok env st1"
    using calls_return [OF up(2)] by (metis (no_types, lifting) call_valid.simps list.pred_inject)
  have lock: "cr_mode env (bus st1) = FLASH_CR_LOCK" using st1(2) by (simp add: esp_ok_def dev_ok_def)
  obtain h' where h': "zex_eeprom_write env 0x12345678 (bus st1) = Some h'"
    "mem h' = eeprom_image (le32 0x12345678) (mem (bus st1))"
    using eeprom_write_effect [OF lock, of 4 "le32 0x12345678"] by (auto simp: zex_eeprom_write_eq)
  have "fst (zex_eeprom_read env h') = 0x12345678"
    using eeprom_read_word [OF h'(2), of 0] by (simp add: zex_eeprom_read_def eeprom_read_def)
  then obtain h2 where rd: "zex_eeprom_read env h' = (0x12345678, h2)" by (cases "zex_eeprom_read env h'") simp
  have rev: "rev_bytes 0xAABBCCDD = 0xDDCCBBAA"
    by (simp add: rev_bytes_def le32_def word_of_le32_def)
  have "sint (0xDDCCBBAA :: u32) = - 573785174" "sint (0x12345678 :: u32) = 305419896" by simp_all
  with up(1) st1(1) h'(1) rd rev show ?thesis
    by (auto simp: zex_main_def bind_eq_Some_conv tambah_def my_func_def int32_def)
qed

end

interpretation sim_app: app_board "sim rx" flash_mem for rx
  by unfold_locales

section \<open>Properties\<close>

text \<open>
  C6. \<^verbatim>\<open>utc_clock\<close> comes up and stays up. On a board with working clocks, serial ports and flash
  whose page holds a valid store, \<^verbatim>\<open>main\<close> reaches its idle loop with the request handler
  registered, and from then on every receive interrupt returns, however many there are and
  whatever bytes arrive, including those that make the application answer a request.
\<close>

theorem utc_clock_stays_up:
  assumes "app_board env mem" "cr_mode env h = FLASH_CR_LOCK" "store_ok (fst (READ_FLASH env h))"
  shows "\<exists>clk st. utc_main env (esp8266_init h) = Some (clk, st) \<and> http_request_handler st = Some 0
     \<and> (\<forall>n. \<exists>st'. ((\<lambda>r. r \<bind> usart2_isr env (utc_call env)) ^^ n) (Some st) = Some st')"
  using app_board.utc_main_returns [OF assms(1) boot_ok [OF assms(2,3)]]
    app_board.isr_any_number [OF assms(1)] by blast

theorem utc_clock_stays_up_witness:
  "\<exists>clk st. utc_main (sim ''OK'') (esp8266_init []) = Some (clk, st) \<and> http_request_handler st = Some 0
     \<and> (\<forall>n. \<exists>st'. ((\<lambda>r. r \<bind> usart2_isr (sim ''OK'') (utc_call (sim ''OK''))) ^^ n) (Some st) = Some st')"
  by (rule utc_clock_stays_up [OF sim_app.app_board_axioms sim_erased])

text \<open>
  \<^verbatim>\<open>zex_flash_data\<close> computes its result: on such a board \<^verbatim>\<open>main\<close> returns, the word it
  reads back from flash is the one it stored, no signed operation overflows, and the value it
  returns is three times the byte-reversed constant plus the stored word, that is -1415935626.
\<close>

theorem zex_main_result:
  assumes "app_board env mem" "cr_mode env h = FLASH_CR_LOCK" "store_ok (fst (READ_FLASH env h))"
  shows "\<exists>st'. zex_main env (esp8266_init h) = Some (- 1415935626, st')"
  by (rule app_board.zex_main_returns [OF assms(1) boot_ok [OF assms(2,3)]])

theorem zex_main_result_witness: "\<exists>st'. zex_main (sim []) (esp8266_init []) = Some (- 1415935626, st')"
  by (rule zex_main_result [OF sim_app.app_board_axioms sim_erased])

text \<open>
  Request routing: for a request on an open link, the server answers 200 with the greeting page
  exactly when the request starts with \<^verbatim>\<open>GET / \<close>, and 404 otherwise; the response is complete,
  its announced length is the number of bytes sent, and the link is closed after it.
\<close>

theorem on_http_request_routes:
  assumes "wifi_port env" "link_id \<le> ESP8266_MAX_LINK_ID"
  shows "\<exists>st' payload. on_http_request env link_id request len st = Some st'
     \<and> payload = (if take 6 request = ''GET / ''
         then http_header 200 ''text/html'' 25 @ ''<h1>Hello from STM32</h1>''
         else http_header 404 ''text/plain'' 9 @ ''Not Found'')
     \<and> wifi_sent st (''AT+CIPSEND='' @ dec_text (unat link_id) @ '','' @ dec_text (length payload) @ CRLF
         @ payload @ ''AT+CIPCLOSE='' @ dec_text (unat link_id) @ CRLF) st'"
proof -
  have dec: "length (dec_text 200) = 3" "length (dec_text 404) = 3" "length (dec_text 25) = 2" "length (dec_text 9) = 1"
    by (simp_all add: dec_text_def radix.simps)
  have ok: "sends st (''AT+CIPSEND='' @ dec_text (unat link_id) @ '','' @ dec_text (length (hdr @ b)) @ CRLF
        @ (hdr @ b) @ ''AT+CIPCLOSE='' @ dec_text (unat link_id) @ CRLF)
      (esp8266_http_send_response env link_id code (Some t) (Some b) st)"
    if "hdr = http_header code t (length b)" "length hdr \<le> 127" "length b < 100" "NUL \<notin> set t" "NUL \<notin> set b"
    for hdr code t b
    using wifi_port.sends_http [OF assms that(4,5), of code st] that(1-3) by simp
  have h: "length (http_header 200 ''text/html'' 25) \<le> 127" "length (http_header 404 ''text/plain'' 9) \<le> 127"
    by (simp_all add: http_header_def http_status_text_def dec)
  show ?thesis
    using ok [of "http_header 200 ''text/html'' 25" 200 "''text/html''" "''<h1>Hello from STM32</h1>''"]
      ok [of "http_header 404 ''text/plain'' 9" 404 "''text/plain''" "''Not Found''"] h
    by (simp add: on_http_request_def strncmp_eq_def sends_def numeral_eq_Suc)
qed

theorem on_http_request_routes_witness:
  "\<exists>st' payload. on_http_request (sim []) 1 ''GET /x HTTP/1.1'' 15 (esp8266_init []) = Some st'
     \<and> payload = http_header 404 ''text/plain'' 9 @ ''Not Found''
     \<and> wifi_sent (esp8266_init []) (''AT+CIPSEND='' @ dec_text 1 @ '','' @ dec_text (length payload) @ CRLF
         @ payload @ ''AT+CIPCLOSE='' @ dec_text 1 @ CRLF) st'"
  using on_http_request_routes [OF sim_wifi.wifi_port_axioms [of "[]"], of 1 "''GET /x HTTP/1.1''" 15 "esp8266_init []"]
  by simp

end
