(* ===== verification/Mqtt_Packet.thy ===== *)
theory Mqtt_Packet
  imports Prelude "HOL-Library.Signed_Division"
begin

text \<open>
  \<^verbatim>\<open>MQTTPacket.c\<close> of \<^verbatim>\<open>sylib/ioLibrary_Driver/Internet/MQTT/MQTTPacket/src\<close>: the primitives of the
  MQTT codec. A buffer is the list of the bytes of the object that the pointer points to, a pointer
  into it is an index, and an access outside the object has no defined result (\<open>None\<close>). \<^verbatim>\<open>char\<close>
  is unsigned on this target; the C \<^verbatim>\<open>int\<close>s of the codec are lengths and counts, modelled as
  integers (they stay far below \<^verbatim>\<open>INT_MAX\<close> for every packet the format can express).
\<close>

section \<open>Data\<close>

abbreviation (input) MQTTPACKET_BUFFER_TOO_SHORT :: int where "MQTTPACKET_BUFFER_TOO_SHORT \<equiv> - 2"
abbreviation (input) MQTTPACKET_READ_ERROR :: int where "MQTTPACKET_READ_ERROR \<equiv> - 1"

abbreviation (input) CONNECT :: nat where "CONNECT \<equiv> 1"
abbreviation (input) CONNACK :: nat where "CONNACK \<equiv> 2"
abbreviation (input) PUBLISH :: nat where "PUBLISH \<equiv> 3"
abbreviation (input) PUBACK :: nat where "PUBACK \<equiv> 4"
abbreviation (input) PUBREC :: nat where "PUBREC \<equiv> 5"
abbreviation (input) PUBREL :: nat where "PUBREL \<equiv> 6"
abbreviation (input) PUBCOMP :: nat where "PUBCOMP \<equiv> 7"
abbreviation (input) SUBSCRIBE :: nat where "SUBSCRIBE \<equiv> 8"
abbreviation (input) SUBACK :: nat where "SUBACK \<equiv> 9"
abbreviation (input) UNSUBSCRIBE :: nat where "UNSUBSCRIBE \<equiv> 10"
abbreviation (input) UNSUBACK :: nat where "UNSUBACK \<equiv> 11"
abbreviation (input) PINGREQ :: nat where "PINGREQ \<equiv> 12"
abbreviation (input) PINGRESP :: nat where "PINGRESP \<equiv> 13"
abbreviation (input) DISCONNECT :: nat where "DISCONNECT \<equiv> 14"

text \<open>The union \<^verbatim>\<open>MQTTHeader\<close>: the byte of four bit-fields, and the fields of a byte.\<close>

definition header_byte :: "nat \<Rightarrow> nat \<Rightarrow> nat \<Rightarrow> nat \<Rightarrow> u8" where
  "header_byte type dup qos retain =
     word_of_nat ((type mod 16) * 16 + (dup mod 2) * 8 + (qos mod 4) * 2 + retain mod 2)"

definition header_type :: "u8 \<Rightarrow> nat" where "header_type b = unat b div 16"
definition header_dup :: "u8 \<Rightarrow> nat" where "header_dup b = unat b div 8 mod 2"
definition header_qos :: "u8 \<Rightarrow> nat" where "header_qos b = unat b div 2 mod 4"
definition header_retain :: "u8 \<Rightarrow> nat" where "header_retain b = unat b mod 2"

text \<open>
  \<^verbatim>\<open>MQTTString\<close>: a C string (its characters) or a length and a pointer to bytes; \<open>None\<close> is a null
  pointer, and \<open>ls_data\<close> the bytes of the object from the pointer on.
\<close>

record mqtt_string =
  cstring :: "u8 list option"
  ls_len :: int
  ls_data :: "u8 list option"

definition MQTTString_initializer :: mqtt_string where
  "MQTTString_initializer = \<lparr>cstring = None, ls_len = 0, ls_data = None\<rparr>"

text \<open>An output pointer: the buffer and the position in it. An input pointer is a position.\<close>

type_synonym wbuf = "u8 list \<times> nat"

section \<open>Writing\<close>

definition writeChar :: "wbuf \<Rightarrow> u8 \<Rightarrow> wbuf option" where
  "writeChar p c = (case p of (b, i) \<Rightarrow> if i < length b then Some (b[i := c], i + 1) else None)"

definition writeInt :: "wbuf \<Rightarrow> int \<Rightarrow> wbuf option" where
  "writeInt p n = do {
     p \<leftarrow> writeChar p (word_of_int (n sdiv 256));
     writeChar p (word_of_int (n smod 256))
   }"

text \<open>\<^verbatim>\<open>memcpy\<close> of \<open>n\<close> bytes from the object \<open>src\<close>, and the step of the pointer past them.\<close>

definition mem_copy :: "wbuf \<Rightarrow> u8 list \<Rightarrow> nat \<Rightarrow> wbuf option" where
  "mem_copy p src n = (case p of (b, i) \<Rightarrow>
     if n \<le> length src \<and> i + n \<le> length b then Some (take i b @ take n src @ drop (i + n) b, i + n) else None)"

definition writeCString :: "wbuf \<Rightarrow> u8 list \<Rightarrow> wbuf option" where
  "writeCString p s = do {
     p \<leftarrow> writeInt p (int (length s));
     mem_copy p s (length s)
   }"

definition writeMQTTString :: "wbuf \<Rightarrow> mqtt_string \<Rightarrow> wbuf option" where
  "writeMQTTString p s =
     (if ls_len s > 0 then do {
        p \<leftarrow> writeInt p (ls_len s);
        d \<leftarrow> ls_data s;
        mem_copy p d (nat (ls_len s))
      } else case cstring s of
          Some c \<Rightarrow> writeCString p c
        | None \<Rightarrow> writeInt p 0)"

lemma sdiv_128_less: "0 < (n :: int) sdiv 128 \<Longrightarrow> 0 < n \<and> n sdiv 128 < n"
proof -
  assume pos: "0 < n sdiv 128"
  have "0 < n"
  proof (rule ccontr)
    assume "\<not> 0 < n"
    then have "n sdiv 128 \<le> 0" by (cases "n = 0") (simp_all add: signed_divide_int_def)
    with pos show False by simp
  qed
  then show ?thesis by (simp add: signed_divide_int_def)
qed

text \<open>The remaining length, seven bits a byte; the value is the number of bytes written.\<close>

function encode_loop :: "wbuf \<Rightarrow> int \<Rightarrow> int \<Rightarrow> (int \<times> wbuf) option" where
  "encode_loop p len rc =
     (let d = word_of_int (len smod 128); len = len sdiv 128;
          d = (if len > 0 then d OR 0x80 else d)
      in do {
        p \<leftarrow> writeChar p d;
        if len > 0 then encode_loop p len (rc + 1) else Some (rc + 1, p)
      })"
  by pat_completeness auto
termination
  by (relation "measure (\<lambda>(p, len, rc). nat len)") (auto dest: sdiv_128_less)

declare encode_loop.simps [simp del]

definition MQTTPacket_encode :: "wbuf \<Rightarrow> int \<Rightarrow> (int \<times> wbuf) option" where
  "MQTTPacket_encode p len = encode_loop p len 0"

definition MQTTPacket_len :: "int \<Rightarrow> int" where
  "MQTTPacket_len rem_len =
     (let rem_len = rem_len + 1
      in if rem_len < 128 then rem_len + 1
         else if rem_len < 16384 then rem_len + 2
         else if rem_len < 2097151 then rem_len + 3
         else rem_len + 4)"

definition MQTTstrlen :: "mqtt_string \<Rightarrow> int" where
  "MQTTstrlen s = (case cstring s of Some c \<Rightarrow> int (length c) | None \<Rightarrow> ls_len s)"

section \<open>Reading\<close>

definition readChar :: "u8 list \<Rightarrow> nat \<Rightarrow> (u8 \<times> nat) option" where
  "readChar b i = (if i < length b then Some (b ! i, i + 1) else None)"

definition readInt :: "u8 list \<Rightarrow> nat \<Rightarrow> (int \<times> nat) option" where
  "readInt b i = (if i + 1 < length b then Some (256 * uint (b ! i) + uint (b ! (i + 1)), i + 2) else None)"

definition getLenStringLen :: "u8 list \<Rightarrow> int option" where
  "getLenStringLen b = map_option fst (readInt b 0)"

text \<open>The string read so far, whether it succeeded, and the pointer after it.\<close>

definition readMQTTLenString :: "mqtt_string \<Rightarrow> u8 list \<Rightarrow> nat \<Rightarrow> nat \<Rightarrow> (bool \<times> mqtt_string \<times> nat) option" where
  "readMQTTLenString s b i enddata =
     (if int enddata - int i > 1 then do {
        (len, i) \<leftarrow> readInt b i;
        if int i + len \<le> int enddata
        then Some (True, \<lparr>cstring = None, ls_len = len, ls_data = Some (drop i b)\<rparr>, i + nat len)
        else Some (False, s\<lparr>cstring := None, ls_len := len\<rparr>, i)
      } else Some (False, s\<lparr>cstring := None\<rparr>, i))"

text \<open>
  A source of bytes: asked for \<open>n\<close> bytes it gives a return code, the bytes it stored in the buffer
  passed, and its next state.
\<close>

type_synonym 's getfn = "int \<Rightarrow> 's \<Rightarrow> (int \<times> u8 list \<times> 's) option"

abbreviation (input) MAX_NO_OF_REMAINING_LENGTH_BYTES :: nat where "MAX_NO_OF_REMAINING_LENGTH_BYTES \<equiv> 4"

text \<open>The number of bytes read, the value, and the source afterwards.\<close>

function decode_loop :: "'s getfn \<Rightarrow> nat \<Rightarrow> int \<Rightarrow> int \<Rightarrow> 's \<Rightarrow> (int \<times> int \<times> 's) option" where
  "decode_loop getcharfn len multiplier v s =
     (let len = len + 1
      in if len > MAX_NO_OF_REMAINING_LENGTH_BYTES then Some (int len, v, s)
         else do {
           (rc, cs, s) \<leftarrow> getcharfn 1 s;
           if rc \<noteq> 1 then Some (int len, v, s)
           else case cs of [] \<Rightarrow> None
             | c # _ \<Rightarrow>
                 let v = v + uint (c AND 127) * multiplier; multiplier = multiplier * 128
                 in if c AND 128 \<noteq> 0 then decode_loop getcharfn len multiplier v s else Some (int len, v, s)
         })"
  by pat_completeness auto
termination
  by (relation "measure (\<lambda>(g, len, m, v, s). 4 - len)") auto

declare decode_loop.simps [simp del]

definition MQTTPacket_decode :: "'s getfn \<Rightarrow> 's \<Rightarrow> (int \<times> int \<times> 's) option" where
  "MQTTPacket_decode getcharfn s = decode_loop getcharfn 0 1 0 s"

text \<open>\<^verbatim>\<open>bufchar\<close>: every byte goes to the same place, so the last one stays.\<close>

fun bufchar_loop :: "nat \<Rightarrow> u8 list \<Rightarrow> u8 list \<times> nat \<Rightarrow> (u8 list \<times> (u8 list \<times> nat)) option" where
  "bufchar_loop 0 c p = Some (c, p)"
| "bufchar_loop (Suc n) c (b, i) = (if i < length b then bufchar_loop n [b ! i] (b, i + 1) else None)"

definition bufchar :: "(u8 list \<times> nat) getfn" where
  "bufchar count p = do {
     (c, p) \<leftarrow> bufchar_loop (nat count) [] p;
     Some (count, c, p)
   }"

definition MQTTPacket_decodeBuf :: "u8 list \<Rightarrow> nat \<Rightarrow> (int \<times> int) option" where
  "MQTTPacket_decodeBuf b i = do {
     (rc, v, _) \<leftarrow> MQTTPacket_decode bufchar (b, i);
     Some (rc, v)
   }"

definition MQTTPacket_equals :: "mqtt_string \<Rightarrow> u8 list \<Rightarrow> bool option" where
  "MQTTPacket_equals a b =
     (case cstring a of
        Some c \<Rightarrow> Some (length c = length b \<and> c = b)
      | None \<Rightarrow>
          if ls_len a = int (length b)
          then if b = [] then Some True
               else do { d \<leftarrow> ls_data a; if length b \<le> length d then Some (take (length b) d = b) else None }
          else Some False)"

section \<open>Reading a packet\<close>

text \<open>Storing the bytes a source returned into the buffer at \<open>i\<close>.\<close>

definition store :: "u8 list \<Rightarrow> nat \<Rightarrow> u8 list \<Rightarrow> u8 list option" where
  "store b i bs = map_option fst (mem_copy (b, i) bs (length bs))"

definition MQTTPacket_read :: "u8 list \<Rightarrow> int \<Rightarrow> 's getfn \<Rightarrow> 's \<Rightarrow> (int \<times> u8 list \<times> 's) option" where
  "MQTTPacket_read buf buflen getfn s = do {
     (rc, bs, s) \<leftarrow> getfn 1 s;
     buf \<leftarrow> store buf 0 bs;
     if rc \<noteq> 1 then Some (- 1, buf, s)
     else do {
       (_, rem_len, s) \<leftarrow> MQTTPacket_decode getfn s;
       (n, p) \<leftarrow> MQTTPacket_encode (buf, 1) rem_len;
       let buf = fst p;
       let len = 1 + n;
       if rem_len + len > buflen then Some (- 1, buf, s)
       else do {
         (rc, bs, s) \<leftarrow> getfn rem_len s;
         buf \<leftarrow> store buf (nat len) bs;
         if rc \<noteq> rem_len then Some (- 1, buf, s)
         else do {
           (h, _) \<leftarrow> readChar buf 0;
           Some (int (header_type h), buf, s)
         }
       }
     }
   }"

text \<open>The non-blocking reader keeps its state between calls in a \<^verbatim>\<open>MQTTTransport\<close>.\<close>

record mqtt_transport =
  multiplier :: int
  rem_len :: int
  trp_len :: nat
  trp_state :: nat

function decodenb_loop :: "'s getfn \<Rightarrow> mqtt_transport \<Rightarrow> 's \<Rightarrow> (int \<times> mqtt_transport \<times> 's) option" where
  "decodenb_loop getfn trp s =
     (let trp = trp\<lparr>trp_len := trp_len trp + 1\<rparr>
      in if trp_len trp > MAX_NO_OF_REMAINING_LENGTH_BYTES then Some (MQTTPACKET_READ_ERROR, trp, s)
         else do {
           (frc, cs, s) \<leftarrow> getfn 1 s;
           if frc = - 1 then Some (MQTTPACKET_READ_ERROR, trp, s)
           else if frc = 0 then Some (0, trp, s)
           else case cs of [] \<Rightarrow> None
             | c # _ \<Rightarrow>
                 let trp = trp\<lparr>rem_len := rem_len trp + uint (c AND 127) * multiplier trp,
                               multiplier := multiplier trp * 128\<rparr>
                 in if c AND 128 \<noteq> 0 then decodenb_loop getfn trp s
                    else Some (int (trp_len trp), trp, s)
         })"
  by pat_completeness auto
termination
  by (relation "measure (\<lambda>(g, trp, s). 4 - trp_len trp)") auto

declare decodenb_loop.simps [simp del]

definition MQTTPacket_decodenb :: "'s getfn \<Rightarrow> mqtt_transport \<Rightarrow> 's \<Rightarrow> (int \<times> mqtt_transport \<times> 's) option" where
  "MQTTPacket_decodenb getfn trp s =
     decodenb_loop getfn (if trp_len trp = 0 then trp\<lparr>multiplier := 1, rem_len := 0\<rparr> else trp) s"

text \<open>The three states, each falling through to the next.\<close>

definition readnb_2 :: "u8 list \<Rightarrow> 's getfn \<Rightarrow> mqtt_transport \<Rightarrow> 's \<Rightarrow> (int \<times> u8 list \<times> mqtt_transport \<times> 's) option" where
  "readnb_2 buf getfn trp s = do {
     (frc, bs, s) \<leftarrow> getfn (rem_len trp) s;
     buf \<leftarrow> store buf (trp_len trp) bs;
     if frc = - 1 then Some (- 1, buf, trp\<lparr>trp_state := 0\<rparr>, s)
     else if frc = 0 then Some (0, buf, trp, s)
     else do {
       let trp = trp\<lparr>rem_len := rem_len trp - frc, trp_len := nat (int (trp_len trp) + frc)\<rparr>;
       if rem_len trp \<noteq> 0 then Some (0, buf, trp, s)
       else do {
         (h, _) \<leftarrow> readChar buf 0;
         Some (int (header_type h), buf, trp\<lparr>trp_state := 0\<rparr>, s)
       }
     }
   }"

definition readnb_1 ::
    "u8 list \<Rightarrow> int \<Rightarrow> 's getfn \<Rightarrow> mqtt_transport \<Rightarrow> 's \<Rightarrow> (int \<times> u8 list \<times> mqtt_transport \<times> 's) option" where
  "readnb_1 buf buflen getfn trp s = do {
     (frc, trp, s) \<leftarrow> MQTTPacket_decodenb getfn trp s;
     if frc = MQTTPACKET_READ_ERROR then Some (- 1, buf, trp\<lparr>trp_state := 0\<rparr>, s)
     else if frc = 0 then Some (0, buf, trp, s)
     else do {
       (n, p) \<leftarrow> MQTTPacket_encode (buf, 1) (rem_len trp);
       let buf = fst p;
       let trp = trp\<lparr>trp_len := nat (1 + n)\<rparr>;
       if rem_len trp + int (trp_len trp) > buflen then Some (- 1, buf, trp\<lparr>trp_state := 0\<rparr>, s)
       else readnb_2 buf getfn (trp\<lparr>trp_state := 2\<rparr>) s
     }
   }"

definition MQTTPacket_readnb ::
    "u8 list \<Rightarrow> int \<Rightarrow> 's getfn \<Rightarrow> mqtt_transport \<Rightarrow> 's \<Rightarrow> (int \<times> u8 list \<times> mqtt_transport \<times> 's) option" where
  "MQTTPacket_readnb buf buflen getfn trp s =
     (if trp_state trp = 1 then readnb_1 buf buflen getfn trp s
      else if trp_state trp = 2 then readnb_2 buf getfn trp s
      else do {
        let trp = trp\<lparr>trp_state := 0\<rparr>;
        (frc, bs, s) \<leftarrow> getfn 1 s;
        buf \<leftarrow> store buf 0 bs;
        if frc = - 1 then Some (- 1, buf, trp, s)
        else if frc = 0 then Some (0, buf, trp, s)
        else readnb_1 buf buflen getfn (trp\<lparr>trp_len := 0, trp_state := 1\<rparr>) s
      })"

text \<open>
  The lines \<^verbatim>\<open>curdata += (rc = MQTTPacket_decodeBuf(curdata, &mylen)); enddata = curdata + mylen\<close> that
  every deserializer has: the pointer after the length, \<^verbatim>\<open>rc\<close> and the end of the packet.
\<close>

definition read_length :: "u8 list \<Rightarrow> nat \<Rightarrow> (nat \<times> int \<times> nat) option" where
  "read_length buf i = do {
     (rc, mylen) \<leftarrow> MQTTPacket_decodeBuf buf i;
     Some (i + nat rc, rc, i + nat rc + nat mylen)
   }"

section \<open>Sequences of bytes in a buffer\<close>

text \<open>\<open>put p bs\<close> stores the bytes \<open>bs\<close> at the pointer; every write of the codec is one.\<close>

definition put :: "wbuf \<Rightarrow> u8 list \<Rightarrow> wbuf option" where
  "put p bs = mem_copy p bs (length bs)"

lemma put_eq:
  "put (b, i) bs = (if i + length bs \<le> length b
     then Some (take i b @ bs @ drop (i + length bs) b, i + length bs) else None)"
  by (simp add: put_def mem_copy_def)

lemma writeChar_put: "writeChar p c = put p [c]"
  by (cases p) (auto simp: writeChar_def put_eq upd_conv_take_nth_drop)

lemma mem_copy_put: "n \<le> length src \<Longrightarrow> mem_copy p src n = put p (take n src)"
  by (cases p) (simp add: put_eq mem_copy_def)

lemma put_append: "put p xs \<bind> (\<lambda>p. put p ys) = put p (xs @ ys)"
proof (cases p)
  case (Pair b i)
  show ?thesis
  proof (cases "i + length (xs @ ys) \<le> length b")
    case True
    then show ?thesis by (simp add: Pair put_eq add.assoc) (simp add: add.commute add.left_commute)
  qed (auto simp: Pair put_eq)
qed

lemma put_append_bind: "put p xs \<bind> (\<lambda>p. put p ys \<bind> f) = put p (xs @ ys) \<bind> f"
  by (simp add: bind_assoc [symmetric] put_append)

lemma put_fits: "i + length bs \<le> length b \<Longrightarrow>
  put (b, i) bs = Some (take i b @ bs @ drop (i + length bs) b, i + length bs)"
  by (simp add: put_eq)

definition be16 :: "int \<Rightarrow> u8 list" where
  "be16 n = [word_of_int (n sdiv 256), word_of_int (n smod 256)]"

lemma length_be16 [simp]: "length (be16 n) = 2"
  by (simp add: be16_def)

lemma writeInt_put: "writeInt p n = put p (be16 n)"
  by (simp add: writeInt_def writeChar_put put_append be16_def)

text \<open>\<open>bytes_at b i bs\<close>: the bytes \<open>bs\<close> are in the buffer from \<open>i\<close> on.\<close>

definition bytes_at :: "u8 list \<Rightarrow> nat \<Rightarrow> u8 list \<Rightarrow> bool" where
  "bytes_at b i bs \<longleftrightarrow> i + length bs \<le> length b \<and> take (length bs) (drop i b) = bs"

lemma bytes_at_append:
  "bytes_at b i (xs @ ys) \<longleftrightarrow> bytes_at b i xs \<and> bytes_at b (i + length xs) ys"
proof
  assume *: "bytes_at b i (xs @ ys)"
  then have eq: "take (length xs + length ys) (drop i b) = xs @ ys" and len: "i + length xs + length ys \<le> length b"
    by (simp_all add: bytes_at_def)
  have "take (length xs) (drop i b) = xs" using arg_cong [OF eq, of "take (length xs)"] by simp
  moreover have "take (length ys) (drop (i + length xs) b) = ys"
    using arg_cong [OF eq, of "drop (length xs)"] by (simp add: drop_take add.commute)
  ultimately show "bytes_at b i xs \<and> bytes_at b (i + length xs) ys" using len by (simp add: bytes_at_def)
qed (auto simp: bytes_at_def take_add add.commute)

lemma bytes_at_Cons: "bytes_at b i (x # xs) \<longleftrightarrow> i < length b \<and> b ! i = x \<and> bytes_at b (i + 1) xs"
proof -
  have "bytes_at b i [x] \<longleftrightarrow> i < length b \<and> b ! i = x"
    by (auto simp: bytes_at_def take_Suc_conv_app_nth)
  then show ?thesis using bytes_at_append [of b i "[x]" xs] by simp
qed

lemma put_bytes_at: "put (b, i) bs = Some (b', j) \<Longrightarrow> bytes_at b' i bs \<and> j = i + length bs \<and> length b' = length b"
  by (auto simp: put_eq bytes_at_def split: if_splits)

lemma readChar_at: "bytes_at b i (c # cs) \<Longrightarrow> readChar b i = Some (c, i + 1)"
  by (simp add: bytes_at_Cons readChar_def)

lemma uint_be16:
  assumes "0 \<le> n" "n < 65536"
  shows "256 * uint (word_of_int (n sdiv 256) :: u8) + uint (word_of_int (n smod 256) :: u8) = n"
proof -
  have "n sdiv 256 = n div 256" "n smod 256 = n mod 256"
    using assms by (simp_all add: signed_divide_int_def signed_modulo_int_def sgn_if minus_div_mult_eq_mod [symmetric])
  moreover have "n div 256 < 256" using assms by simp
  ultimately show ?thesis using assms by (simp add: uint_word_of_int take_bit_eq_mod)
qed

lemma readInt_at:
  "bytes_at b i (be16 n @ cs) \<Longrightarrow> 0 \<le> n \<Longrightarrow> n < 65536 \<Longrightarrow> readInt b i = Some (n, i + 2)"
  using uint_be16 [of n] by (simp add: be16_def bytes_at_Cons readInt_def)

section \<open>The remaining length\<close>

fun enc :: "nat \<Rightarrow> u8 list" where
  "enc n = (if n < 128 then [word_of_nat n] else (word_of_nat (n mod 128) OR 0x80) # enc (n div 128))"

declare enc.simps [simp del]

lemma enc_length: "0 < k \<Longrightarrow> n < 128 ^ k \<Longrightarrow> length (enc n) \<le> k"
proof (induction n arbitrary: k rule: enc.induct)
  case (1 n)
  show ?case
  proof (cases "n < 128")
    case True
    with 1 show ?thesis by (simp add: enc.simps [of n])
  next
    case False
    obtain j where k: "k = Suc j" using 1(2) by (cases k) auto
    have j: "0 < j" using False 1(3) k by (cases j) auto
    have "n div 128 < 128 ^ j" using 1(3) k by (simp add: less_mult_imp_div_less mult.commute)
    with 1(1) [OF False j] False k show ?thesis by (simp add: enc.simps [of n])
  qed
qed

lemma encode_loop_put:
  "encode_loop p (int n) rc = map_option (\<lambda>p. (rc + int (length (enc n)), p)) (put p (enc n))"
proof (induction n arbitrary: p rc rule: enc.induct)
  case (1 n)
  have div: "int n sdiv 128 = int (n div 128)" "int n smod 128 = int (n mod 128)"
    by (simp_all add: signed_divide_int_def signed_modulo_int_def sgn_if zdiv_int zmod_int
        minus_div_mult_eq_mod [symmetric])
  show ?case
  proof (cases "n < 128")
    case True
    then have "n div 128 = 0" by simp
    then show ?thesis using True
      by (simp add: encode_loop.simps [of p] div writeChar_put enc.simps [of n] map_option_case
          split: option.split)
  next
    case False
    then have "0 < n div 128" by (simp add: div_greater_zero_iff)
    then have "encode_loop p (int n) rc
        = put p [word_of_nat (n mod 128) OR 0x80] \<bind> (\<lambda>p. encode_loop p (int (n div 128)) (rc + 1))"
      by (simp add: encode_loop.simps [of p] div writeChar_put)
    also have "\<dots> = put p [word_of_nat (n mod 128) OR 0x80]
        \<bind> (\<lambda>p. map_option (\<lambda>p. (rc + int (length (enc n)), p)) (put p (enc (n div 128))))"
      using 1(1) [OF False] False by (simp add: enc.simps [of n] add.assoc)
    also have "\<dots> = map_option (\<lambda>p. (rc + int (length (enc n)), p))
        (put p [word_of_nat (n mod 128) OR 0x80] \<bind> (\<lambda>p. put p (enc (n div 128))))"
      by (cases "put p [word_of_nat (n mod 128) OR 0x80]") simp_all
    finally show ?thesis using False by (simp add: put_append enc.simps [of n])
  qed
qed

lemma encode_put:
  "MQTTPacket_encode p (int n) = map_option (\<lambda>p. (int (length (enc n)), p)) (put p (enc n))"
  by (simp add: MQTTPacket_encode_def encode_loop_put)

lemma digit_bits:
  assumes "d < 128"
  shows "uint (word_of_nat d AND 127 :: u8) = int d" "(word_of_nat d :: u8) AND 128 = 0"
    "uint ((word_of_nat d OR 0x80) AND 127 :: u8) = int d" "(word_of_nat d OR 0x80 :: u8) AND 128 \<noteq> 0"
proof -
  have mask: "(127 :: u8) = mask 7" "(128 :: u8) = 2 ^ 7" by (simp_all add: mask_eq_exp_minus_1)
  have d: "unat (word_of_nat d :: u8) = d" using assms by (simp add: unat_of_nat)
  have nb: "\<not> bit (word_of_nat d :: u8) 7"
  proof -
    have "\<not> bit d 7" using assms by (simp add: bit_iff_odd)
    then show ?thesis by (simp add: bit_of_nat_iff)
  qed
  show u: "uint (word_of_nat d AND 127 :: u8) = int d"
    unfolding mask(1) take_bit_eq_mask [symmetric] using assms d
    by (simp add: unsigned_take_bit_eq take_bit_nat_eq_self_iff take_bit_int_eq_self_iff uint_nat)
  show "(word_of_nat d :: u8) AND 128 = 0"
    unfolding mask(2) using nb by (simp only: and_exp_eq_0_iff_not_bit not_False_eq_True)
  have "(word_of_nat d OR 0x80 :: u8) AND 127 = word_of_nat d AND 127"
    by (simp add: bit.conj_disj_distrib2)
  with u show "uint ((word_of_nat d OR 0x80) AND 127 :: u8) = int d" by simp
  show "(word_of_nat d OR 0x80 :: u8) AND 128 \<noteq> 0"
    by (simp add: bit.conj_disj_distrib2)
qed

text \<open>A source that hands out the bytes of \<open>rest s\<close> one by one when asked for one.\<close>

locale byte_source =
  fixes getfn :: "'s getfn" and rest :: "'s \<Rightarrow> u8 list"
  assumes next_byte: "rest s = c # cs \<Longrightarrow> \<exists>s'. getfn 1 s = Some (1, [c], s') \<and> rest s' = cs"
begin

lemma decode_loop_rest:
  assumes "rest s = enc n @ cs" "len + length (enc n) \<le> 4"
  shows "\<exists>s'. decode_loop getfn len m v s = Some (int (len + length (enc n)), v + int n * m, s') \<and> rest s' = cs"
  using assms
proof (induction n arbitrary: len m v s rule: enc.induct)
  case (1 n)
  have len: "\<not> 4 < len + 1" using 1(3) by (simp add: enc.simps [of n] split: if_splits)
  show ?case
  proof (cases "n < 128")
    case True
    then obtain s' where s': "getfn 1 s = Some (1, [word_of_nat n], s')" "rest s' = cs"
      using 1(2) next_byte [of s "word_of_nat n" cs] by (auto simp: enc.simps [of n])
    show ?thesis
      using True s' len digit_bits(1,2) [OF True]
      by (simp add: decode_loop.simps [of getfn len] enc.simps [of n] Let_def)
  next
    case False
    let ?d = "word_of_nat (n mod 128) OR 0x80 :: u8"
    obtain s' where s': "getfn 1 s = Some (1, [?d], s')" "rest s' = enc (n div 128) @ cs"
      using 1(2) False next_byte [of s ?d "enc (n div 128) @ cs"] by (auto simp: enc.simps [of n])
    have "n mod 128 < 128" by simp
    note d = digit_bits(3,4) [OF this]
    have le: "len + 1 + length (enc (n div 128)) \<le> 4" using 1(3) False by (simp add: enc.simps [of n])
    have "decode_loop getfn len m v s
        = decode_loop getfn (len + 1) (m * 128) (v + int (n mod 128) * m) s'"
      using s' len d by (simp add: decode_loop.simps [of getfn len] Let_def)
    moreover obtain s2 where "decode_loop getfn (len + 1) (m * 128) (v + int (n mod 128) * m) s'
        = Some (int (len + 1 + length (enc (n div 128))),
            v + int (n mod 128) * m + int (n div 128) * (m * 128), s2)" "rest s2 = cs"
      using 1(1) [OF False s'(2) le] by blast
    moreover have "v + int (n mod 128) * m + int (n div 128) * (m * 128) = v + int n * m"
    proof -
      have "int n = int (n mod 128 + 128 * (n div 128))" by (simp only: mod_mult_div_eq)
      then have "int n = int (n mod 128) + 128 * int (n div 128)" by (simp only: of_nat_add of_nat_mult of_nat_numeral)
      then have "int n * m = (int (n mod 128) + 128 * int (n div 128)) * m" by (rule arg_cong)
      also have "\<dots> = int (n mod 128) * m + int (n div 128) * (m * 128)" by (simp only: distrib_left distrib_right mult_ac)
      finally show ?thesis by linarith
    qed
    ultimately show ?thesis
      using False by (simp add: enc.simps [of n])
  qed
qed

lemma decode_rest:
  assumes "rest s = enc n @ cs" "n < 268435456"
  shows "\<exists>s'. MQTTPacket_decode getfn s = Some (int (length (enc n)), int n, s') \<and> rest s' = cs"
proof -
  have "length (enc n) \<le> 4" using assms(2) by (intro enc_length) simp_all
  with decode_loop_rest [OF assms(1), of 0 1 0] show ?thesis by (simp add: MQTTPacket_decode_def)
qed

end

interpretation buf_source: byte_source bufchar "\<lambda>(b, i). drop i b"
proof
  fix s :: wbuf and c cs
  assume *: "(case s of (b, i) \<Rightarrow> drop i b) = c # cs"
  obtain b i where s: "s = (b, i)" by (cases s)
  with * have "i < length b" by (metis case_prod_conv drop_all leI list.distinct(1))
  moreover from this have "b ! i = c" "drop (i + 1) b = cs"
    using * s Cons_nth_drop_Suc [of i b] by auto
  ultimately show "\<exists>s'. bufchar 1 s = Some (1, [c], s') \<and> (case s' of (b, i) \<Rightarrow> drop i b) = cs"
    by (simp add: s bufchar_def)
qed

lemma bytes_at_drop: "bytes_at b i bs \<Longrightarrow> drop i b = bs @ drop (i + length bs) b"
  by (metis add.commute append_take_drop_id bytes_at_def drop_drop)

lemma decodeBuf_at:
  assumes "bytes_at b i (enc n @ cs)" "n < 268435456"
  shows "MQTTPacket_decodeBuf b i = Some (int (length (enc n)), int n)"
proof -
  have "bytes_at b i (enc n)" using assms(1) by (simp add: bytes_at_append)
  then have "drop i b = enc n @ drop (i + length (enc n)) b" by (rule bytes_at_drop)
  with buf_source.decode_rest [of "(b, i)" n] assms(2) show ?thesis
    by (auto simp: MQTTPacket_decodeBuf_def)
qed

section \<open>Lengths\<close>

lemma enc_length_eq:
  "length (enc n) = (if n < 128 then 1 else if n < 16384 then 2 else if n < 2097152 then 3
     else 1 + length (enc (n div 128 div 128)) + 1)"
proof -
  have "n div 128 < 128 \<longleftrightarrow> n < 16384" "n div 128 div 128 < 128 \<longleftrightarrow> n < 2097152"
    by (simp_all add: div_less_iff_less_mult flip: div_mult2_eq)
  then show ?thesis
    by (simp add: enc.simps [of n] enc.simps [of "n div 128"] enc.simps [of "n div 128 div 128"])
qed

lemma packet_len_bounds:
  assumes "n < 268435456"
  shows "1 + int (length (enc n)) + int n \<le> MQTTPacket_len (int n)"
    "MQTTPacket_len (int n) \<le> 2 + int (length (enc n)) + int n"
proof -
  have "length (enc n) \<le> 4" using assms by (intro enc_length) simp_all
  moreover have "2097152 \<le> n \<Longrightarrow> 4 \<le> length (enc n)"
  proof -
    assume n: "2097152 \<le> n"
    then have "128 \<le> n div 128 div 128" by (simp add: less_eq_div_iff_mult_less_eq flip: div_mult2_eq)
    then have "2 \<le> length (enc (n div 128 div 128))"
      by (simp add: enc.simps [of "n div 128 div 128"] enc.simps [of "n div 128 div 128 div 128"])
    with n show ?thesis by (simp add: enc_length_eq [of n])
  qed
  ultimately show "1 + int (length (enc n)) + int n \<le> MQTTPacket_len (int n)"
    "MQTTPacket_len (int n) \<le> 2 + int (length (enc n)) + int n"
    unfolding MQTTPacket_len_def Let_def by (auto simp: enc_length_eq [of n] split: if_splits)
qed

section \<open>Strings\<close>

text \<open>A string whose two representations do not conflict and whose bytes exist.\<close>

definition str_wf :: "mqtt_string \<Rightarrow> bool" where
  "str_wf s \<longleftrightarrow> 0 \<le> ls_len s \<and> MQTTstrlen s < 65536 \<and>
     (0 < ls_len s \<longrightarrow> cstring s = None \<and> (\<exists>d. ls_data s = Some d \<and> ls_len s \<le> int (length d)))"

definition str_bytes :: "mqtt_string \<Rightarrow> u8 list" where
  "str_bytes s = (case cstring s of Some c \<Rightarrow> c
     | None \<Rightarrow> (case ls_data s of None \<Rightarrow> [] | Some d \<Rightarrow> take (nat (ls_len s)) d))"

definition wire_str :: "u8 list \<Rightarrow> u8 list" where
  "wire_str bs = be16 (int (length bs)) @ bs"

lemma length_wire_str [simp]: "length (wire_str bs) = length bs + 2"
  by (simp add: wire_str_def)

lemma strlen_bytes: "str_wf s \<Longrightarrow> MQTTstrlen s = int (length (str_bytes s))"
  by (cases "0 < ls_len s") (auto simp: str_wf_def MQTTstrlen_def str_bytes_def split: option.splits)

lemma writeCString_put: "writeCString p s = put p (wire_str s)"
  by (simp add: writeCString_def writeInt_put mem_copy_put put_append wire_str_def)

lemma writeMQTTString_put:
  assumes "str_wf s"
  shows "writeMQTTString p s = put p (wire_str (str_bytes s))"
proof (cases "0 < ls_len s")
  case True
  then obtain d where d: "ls_data s = Some d" "ls_len s \<le> int (length d)" "cstring s = None"
    using assms by (auto simp: str_wf_def)
  then have "int (length (take (nat (ls_len s)) d)) = ls_len s" using True by simp
  with True d show ?thesis
    by (simp add: writeMQTTString_def writeInt_put mem_copy_put put_append wire_str_def str_bytes_def)
next
  case False
  then have "ls_len s = 0" using assms by (simp add: str_wf_def)
  then show ?thesis
    by (cases "cstring s")
      (simp_all add: writeMQTTString_def writeCString_put writeInt_put str_bytes_def wire_str_def split: option.split)
qed

definition read_str :: "u8 list \<Rightarrow> nat \<Rightarrow> u8 list \<Rightarrow> mqtt_string" where
  "read_str b i bs = \<lparr>cstring = None, ls_len = int (length bs), ls_data = Some (drop (i + 2) b)\<rparr>"

lemma readLenString_at:
  assumes "bytes_at b i (wire_str bs @ cs)" "length bs < 65536" "i + 2 + length bs \<le> enddata"
  shows "readMQTTLenString s b i enddata = Some (True, read_str b i bs, i + length (wire_str bs))"
proof -
  have "readInt b i = Some (int (length bs), i + 2)"
    using assms(1,2) readInt_at [of b i "int (length bs)" "bs @ cs"] by (simp add: wire_str_def)
  with assms(3) show ?thesis by (simp add: readMQTTLenString_def read_str_def)
qed

lemma str_bytes_read: "bytes_at b i (wire_str bs @ cs) \<Longrightarrow> str_bytes (read_str b i bs) = bs"
proof -
  assume "bytes_at b i (wire_str bs @ cs)"
  then have "bytes_at b (i + 2) bs" by (simp add: bytes_at_append wire_str_def)
  then show ?thesis by (simp add: read_str_def str_bytes_def bytes_at_def)
qed

section \<open>Header byte\<close>

lemma uint_u16: "uint (w :: u16) < 65536"
  using unsigned_less [of w] by simp

lemma word_of_nat_unat8: "n < 256 \<Longrightarrow> unat (word_of_nat n :: u8) = n"
  by (simp add: unat_of_nat)

lemma header_fields [simp]:
  "type < 16 \<Longrightarrow> header_type (header_byte type dup qos retain) = type"
  "type < 16 \<Longrightarrow> header_dup (header_byte type dup qos retain) = dup mod 2"
  "type < 16 \<Longrightarrow> header_qos (header_byte type dup qos retain) = qos mod 4"
  "type < 16 \<Longrightarrow> header_retain (header_byte type dup qos retain) = retain mod 2"
proof -
  assume t: "type < 16"
  define d q r where "d = dup mod 2" and "q = qos mod 4" and "r = retain mod 2"
  have b: "d < 2" "q < 4" "r < 2" by (simp_all add: d_def q_def r_def)
  have u: "unat (header_byte type dup qos retain) = type * 16 + d * 8 + q * 2 + r"
  proof -
    have "type * 16 + d * 8 + q * 2 + r < 256" using t b by simp
    then have "unat (word_of_nat (type * 16 + d * 8 + q * 2 + r) :: u8) = type * 16 + d * 8 + q * 2 + r"
      by (intro word_of_nat_unat8)
    then show ?thesis using t by (simp only: header_byte_def mod_less flip: d_def q_def r_def)
  qed
  show "header_type (header_byte type dup qos retain) = type"
    unfolding header_type_def u using b by (intro div_nat_eqI) simp_all
  have "(type * 16 + d * 8 + q * 2 + r) div 8 = type * 2 + d" using b by (intro div_nat_eqI) simp_all
  then show "header_dup (header_byte type dup qos retain) = dup mod 2"
    unfolding header_dup_def u by (simp add: d_def)
  have "(type * 16 + d * 8 + q * 2 + r) div 2 = q + 4 * (type * 2 + d)" using b by (intro div_nat_eqI) simp_all
  then show "header_qos (header_byte type dup qos retain) = qos mod 4"
    unfolding header_qos_def u by (simp only: mod_mult_self2) (simp add: q_def)
  have "type * 16 + d * 8 + q * 2 + r = r + 2 * (type * 8 + d * 4 + q)" by simp
  then show "header_retain (header_byte type dup qos retain) = retain mod 2"
    unfolding header_retain_def u by (simp only: mod_mult_self2) (simp add: r_def)
qed

section \<open>Whole packets\<close>

definition packet :: "u8 \<Rightarrow> u8 list \<Rightarrow> u8 list" where
  "packet h body = h # enc (length body) @ body"

text \<open>
  What every serializer does after its length check: the header byte, the remaining length, and
  a body that \<open>f\<close> writes as one sequence of bytes.
\<close>

lemma serialize_packet_if:
  assumes "\<And>p. f p = put p body \<bind> (\<lambda>p. Some (int (snd p), fst p))" "n = int (length body)"
  shows "writeChar (buf, 0) h \<bind> (\<lambda>p. MQTTPacket_encode p n \<bind> (\<lambda>(_, p). f p))
    = (if length (packet h body) \<le> length buf
       then Some (int (length (packet h body)), packet h body @ drop (length (packet h body)) buf) else None)"
proof -
  have f: "f = (\<lambda>p. put p body \<bind> (\<lambda>p. Some (int (snd p), fst p)))" using assms(1) by (rule ext)
  have "map_option (\<lambda>p. (k, p)) q \<bind> (\<lambda>(_, p). f p) = q \<bind> f" for q and k :: int
    by (cases q) simp_all
  then have "writeChar (buf, 0) h \<bind> (\<lambda>p. MQTTPacket_encode p n \<bind> (\<lambda>(_, p). f p))
      = put (buf, 0) (packet h body) \<bind> (\<lambda>p. Some (int (snd p), fst p))"
    unfolding f using assms(2) by (simp add: writeChar_put encode_put put_append_bind packet_def)
  then show ?thesis by (simp add: put_eq)
qed

lemma serialize_packet:
  assumes "\<And>p. f p = put p body \<bind> (\<lambda>p. Some (int (snd p), fst p))"
    and "n = int (length body)" "length (packet h body) \<le> length buf"
  shows "writeChar (buf, 0) h \<bind> (\<lambda>p. MQTTPacket_encode p n \<bind> (\<lambda>(_, p). f p))
    = Some (int (length (packet h body)), packet h body @ drop (length (packet h body)) buf)"
  using serialize_packet_if [OF assms(1,2), of buf h] assms(3) by simp

lemma bytes_at_start: "bytes_at (bs @ cs) 0 bs"
  by (simp add: bytes_at_def)

lemma packet_fits:
  "length body < 268435456 \<Longrightarrow> int (length (packet h body)) \<le> MQTTPacket_len (int (length body))"
  using packet_len_bounds(1) [of "length body"] by (simp add: packet_def)

lemma read_packet_start:
  assumes "length body < 268435456"
  shows "readChar (packet h body @ cs) 0 = Some (h, 1)"
    and "read_length (packet h body @ cs) 1
       = Some (1 + length (enc (length body)), int (length (enc (length body))), length (packet h body))"
    and "bytes_at (packet h body @ cs) (1 + length (enc (length body))) body"
proof -
  have at: "bytes_at (packet h body @ cs) 0 ([h] @ enc (length body) @ body)"
    using bytes_at_start [of "packet h body" cs] by (simp add: packet_def)
  then show "readChar (packet h body @ cs) 0 = Some (h, 1)" by (simp add: readChar_at)
  have at1: "bytes_at (packet h body @ cs) 1 (enc (length body) @ body)"
    using at [unfolded bytes_at_append [of _ _ "[h]"]] by simp
  show "read_length (packet h body @ cs) 1
       = Some (1 + length (enc (length body)), int (length (enc (length body))), length (packet h body))"
    using decodeBuf_at [OF at1 assms] by (simp add: read_length_def packet_def)
  show "bytes_at (packet h body @ cs) (1 + length (enc (length body))) body"
    using at1 by (simp only: bytes_at_append)
qed

section \<open>Properties\<close>

text \<open>
  The variable-length encoding of the remaining length: for every length the format can
  express, \<^verbatim>\<open>MQTTPacket_encode\<close> writes at most four bytes (in a buffer that has them after the
  pointer), changes nothing else, and \<^verbatim>\<open>MQTTPacket_decodeBuf\<close> reads the same length back and consumes
  exactly the bytes written.
\<close>

theorem mqtt_length_roundtrip:
  assumes "n < 268435456" "i + 4 \<le> length b"
  shows "\<exists>k b'. MQTTPacket_encode (b, i) (int n) = Some (int k, (b', i + k)) \<and> 1 \<le> k \<and> k \<le> 4
    \<and> length b' = length b \<and> take i b' = take i b \<and> drop (i + k) b' = drop (i + k) b
    \<and> MQTTPacket_decodeBuf b' i = Some (int k, int n)"
proof -
  let ?k = "length (enc n)"
  have k: "?k \<le> 4" using assms(1) by (intro enc_length) simp_all
  have k1: "1 \<le> ?k" by (simp add: enc.simps [of n])
  define b' where "b' = take i b @ enc n @ drop (i + ?k) b"
  have e: "MQTTPacket_encode (b, i) (int n) = Some (int ?k, (b', i + ?k))"
    using assms(2) k by (simp add: encode_put put_fits b'_def)
  have "bytes_at b' i (enc n @ [])" using assms(2) k by (simp add: b'_def bytes_at_def)
  then have "MQTTPacket_decodeBuf b' i = Some (int ?k, int n)" using assms(1) by (rule decodeBuf_at)
  moreover have "length b' = length b" "take i b' = take i b" "drop (i + ?k) b' = drop (i + ?k) b"
    using assms(2) k by (simp_all add: b'_def)
  ultimately show ?thesis using e k k1 by blast
qed

theorem mqtt_length_roundtrip_witness:
  "\<exists>k b'. MQTTPacket_encode (replicate 6 0, 1) (int 321) = Some (int k, (b', 1 + k)) \<and> 1 \<le> k \<and> k \<le> 4
    \<and> length b' = length (replicate 6 (0 :: u8)) \<and> take 1 b' = take 1 (replicate 6 0)
    \<and> drop (1 + k) b' = drop (1 + k) (replicate 6 0)
    \<and> MQTTPacket_decodeBuf b' 1 = Some (int k, int 321)"
  by (rule mqtt_length_roundtrip [of 321 1 "replicate 6 0"]) simp_all

text \<open>
  \<^verbatim>\<open>MQTTPacket_len\<close>, which every serializer compares with the size of its buffer, is a safe bound
  and nearly tight: it is never below the bytes that the header byte, the encoded remaining
  length and the rest need together, and above them by at most one.
\<close>

theorem mqtt_packet_len_bound:
  assumes "n < 268435456" "MQTTPacket_encode (b, i) (int n) = Some (k, p)"
  shows "1 + k + int n \<le> MQTTPacket_len (int n) \<and> MQTTPacket_len (int n) \<le> 1 + (1 + k + int n)"
proof -
  have "k = int (length (enc n))" using assms(2) by (auto simp: encode_put)
  with packet_len_bounds [OF assms(1)] show ?thesis by simp
qed

theorem mqtt_packet_len_bound_witness:
  "1 + 1 + int 127 \<le> MQTTPacket_len (int 127) \<and> MQTTPacket_len (int 127) \<le> 1 + (1 + 1 + int 127)"
proof (rule mqtt_packet_len_bound)
  show "127 < (268435456 :: nat)" by simp
  show "MQTTPacket_encode ([0, 0], 1) (int 127) = Some (1, ([0, 127], 2))"
    using encode_put [of "([0, 0], 1)" 127] by (simp add: enc.simps put_eq)
qed

text \<open>
  C10. \<^verbatim>\<open>MQTTPacket_read\<close> on a blocking byte stream, that is, a source that hands out as many bytes of
  the stream as it is asked for: when the stream starts with a packet that fits the buffer, the
  call returns the packet's type, the buffer holds exactly the packet's bytes (the rest of it
  unchanged) and the stream goes on right after them; a packet longer than \<^verbatim>\<open>buflen\<close> is refused
  with -1 as soon as its length is known.
\<close>

theorem mqtt_packet_read:
  assumes src: "\<And>s bs cs. rest s = bs @ cs \<Longrightarrow> \<exists>s'. getfn (int (length bs)) s = Some (int (length bs), bs, s') \<and> rest s' = cs"
    and stream: "rest s = h # enc (length body) @ body @ cs" and n: "length body < 268435456"
    and buf: "5 \<le> length buf" "buflen \<le> int (length buf)"
  defines "pkt \<equiv> h # enc (length body) @ body"
  shows "if int (length pkt) \<le> buflen
     then \<exists>s'. MQTTPacket_read buf buflen getfn s = Some (int (header_type h), pkt @ drop (length pkt) buf, s') \<and> rest s' = cs
     else \<exists>buf' s'. MQTTPacket_read buf buflen getfn s = Some (- 1, buf', s') \<and> rest s' = body @ cs"
proof -
  let ?n = "length body" let ?k = "length (enc ?n)"
  have k: "?k \<le> 4" using n by (intro enc_length) simp_all
  have bs: "byte_source getfn rest"
    by unfold_locales (use src [of _ "[c]" for c] in simp)
  obtain s1 where s1: "getfn 1 s = Some (1, [h], s1)" "rest s1 = enc ?n @ body @ cs"
    using src [of s "[h]"] stream by auto
  obtain s2 where s2: "MQTTPacket_decode getfn s1 = Some (int ?k, int ?n, s2)" "rest s2 = body @ cs"
    using byte_source.decode_rest [OF bs s1(2) n] by auto
  obtain s3 where s3: "getfn (int ?n) s2 = Some (int ?n, body, s3)" "rest s3 = cs"
    using src [OF s2(2)] by auto
  define b1 where "b1 = h # drop 1 buf"
  define b2 where "b2 = h # enc ?n @ drop (1 + ?k) buf"
  have st1: "store buf 0 [h] = Some b1" using buf(1) by (cases buf) (simp_all add: store_def mem_copy_def b1_def)
  have e: "MQTTPacket_encode (b1, 1) (int ?n) = Some (int ?k, (b2, 1 + ?k))"
    using buf k by (simp add: encode_put put_eq b1_def b2_def)
  have nat: "nat (1 + int ?k) = 1 + ?k" by simp
  show ?thesis
  proof (cases "int (length pkt) \<le> buflen")
    case True
    then have fit: "\<not> int ?n + (1 + int ?k) > buflen" by (simp add: pkt_def)
    have "?k + ?n \<le> length buf - 1" using True buf by (simp add: pkt_def)
    then have "store b2 (1 + ?k) body = Some (pkt @ drop (length pkt) buf)"
      using buf k by (simp add: store_def mem_copy_def b2_def pkt_def add.commute)
    moreover have "readChar (pkt @ drop (length pkt) buf) 0 = Some (h, 1)"
      by (simp add: readChar_def pkt_def)
    ultimately have "MQTTPacket_read buf buflen getfn s = Some (int (header_type h), pkt @ drop (length pkt) buf, s3)"
      using s1(1) s2(1) s3(1) st1 e fit by (simp add: MQTTPacket_read_def nat del: of_nat_Suc)
    with True s3(2) show ?thesis by simp
  next
    case False
    then have fit: "int ?n + (1 + int ?k) > buflen" by (simp add: pkt_def)
    have "MQTTPacket_read buf buflen getfn s = Some (- 1, b2, s2)"
      using s1(1) s2(1) st1 e fit by (simp add: MQTTPacket_read_def)
    with False s2(2) show ?thesis by simp
  qed
qed

text \<open>A source that reads a list of bytes from the front.\<close>

definition list_source :: "u8 list getfn" where
  "list_source n s = (if n \<le> int (length s) then Some (n, take (nat n) s, drop (nat n) s) else Some (- 1, [], s))"

theorem mqtt_packet_read_witness:
  "if int (length (0x40 # enc (length [0, 7 :: u8]) @ [0, 7])) \<le> 5
     then \<exists>s'. MQTTPacket_read (replicate 5 0) 5 list_source [0x40, 2, 0, 7, 0xC0] =
        Some (int (header_type 0x40), (0x40 # enc (length [0, 7 :: u8]) @ [0, 7])
          @ drop (length (0x40 # enc (length [0, 7 :: u8]) @ [0, 7])) (replicate 5 0), s') \<and> id s' = [0xC0]
     else \<exists>buf' s'. MQTTPacket_read (replicate 5 0) 5 list_source [0x40, 2, 0, 7, 0xC0] = Some (- 1, buf', s')
        \<and> id s' = [0, 7] @ [0xC0]"
  by (rule mqtt_packet_read [where rest = id]) (auto simp: list_source_def enc.simps)

end
