(* ===== verification/Mqtt_Connect.thy ===== *)
theory Mqtt_Connect
  imports Mqtt_Packet
begin

text \<open>
  \<^verbatim>\<open>MQTTConnect.h\<close>, \<^verbatim>\<open>MQTTConnectClient.c\<close> and \<^verbatim>\<open>MQTTConnectServer.c\<close>: the connect packet with its
  flags, will and credentials, the connect acknowledgement, and the packets without a body. A serializer gives its return value and the
  buffer afterwards, a deserializer its return value and the objects its output pointers point
  to; both are \<open>None\<close> when the code reads or writes outside one of its objects.
\<close>

section \<open>Operations\<close>

record will_options =
  topicName :: mqtt_string
  message :: mqtt_string
  retained :: u8
  will_qos :: u8

text \<open>
  \<^verbatim>\<open>MQTTPacket_connectData\<close>; the eyecatchers and structure versions of the two structures, which the
  codec neither reads nor writes, are left out.
\<close>

record connect_data =
  MQTTVersion :: u8
  clientID :: mqtt_string
  keepAliveInterval :: u16
  cleansession :: u8
  willFlag :: u8
  will :: will_options
  username :: mqtt_string
  password :: mqtt_string

definition MQTTPacket_willOptions_initializer :: will_options where
  "MQTTPacket_willOptions_initializer =
     \<lparr>topicName = MQTTString_initializer, message = MQTTString_initializer, retained = 0, will_qos = 0\<rparr>"

definition MQTTPacket_connectData_initializer :: connect_data where
  "MQTTPacket_connectData_initializer =
     \<lparr>MQTTVersion = 4, clientID = MQTTString_initializer, keepAliveInterval = 60, cleansession = 1,
      willFlag = 0, will = MQTTPacket_willOptions_initializer,
      username = MQTTString_initializer, password = MQTTString_initializer\<rparr>"

text \<open>The test \<^verbatim>\<open>s.cstring || s.lenstring.data\<close>.\<close>

definition str_given :: "mqtt_string \<Rightarrow> bool" where
  "str_given s \<longleftrightarrow> cstring s \<noteq> None \<or> ls_data s \<noteq> None"

text \<open>The union \<^verbatim>\<open>MQTTConnectFlags\<close>, from the lowest bit-field up (bit 0 is unused).\<close>

definition connect_flags :: "nat \<Rightarrow> nat \<Rightarrow> nat \<Rightarrow> nat \<Rightarrow> nat \<Rightarrow> nat \<Rightarrow> u8" where
  "connect_flags cs wl wqos wret pw un =
     word_of_nat ((cs mod 2) * 2 + (wl mod 2) * 4 + (wqos mod 4) * 8 + (wret mod 2) * 32 + (pw mod 2) * 64 + (un mod 2) * 128)"

definition flag_cleansession :: "u8 \<Rightarrow> nat" where "flag_cleansession f = unat f div 2 mod 2"
definition flag_will :: "u8 \<Rightarrow> nat" where "flag_will f = unat f div 4 mod 2"
definition flag_willQoS :: "u8 \<Rightarrow> nat" where "flag_willQoS f = unat f div 8 mod 4"
definition flag_willRetain :: "u8 \<Rightarrow> nat" where "flag_willRetain f = unat f div 32 mod 2"
definition flag_password :: "u8 \<Rightarrow> nat" where "flag_password f = unat f div 64 mod 2"
definition flag_username :: "u8 \<Rightarrow> nat" where "flag_username f = unat f div 128 mod 2"

text \<open>The union \<^verbatim>\<open>MQTTConnackFlags\<close>: the session-present flag is the highest bit.\<close>

definition connack_flags :: "nat \<Rightarrow> u8" where "connack_flags sp = word_of_nat ((sp mod 2) * 128)"
definition flag_sessionpresent :: "u8 \<Rightarrow> nat" where "flag_sessionpresent f = unat f div 128 mod 2"

definition MQTTSerialize_connectLength :: "connect_data \<Rightarrow> int" where
  "MQTTSerialize_connectLength d =
     (let len = (if MQTTVersion d = 3 then 12 else if MQTTVersion d = 4 then 10 else 0);
          len = len + (MQTTstrlen (clientID d) + 2);
          len = (if willFlag d \<noteq> 0
                 then len + (MQTTstrlen (topicName (will d)) + 2 + MQTTstrlen (message (will d)) + 2) else len);
          len = (if str_given (username d) then len + (MQTTstrlen (username d) + 2) else len)
      in if str_given (password d) then len + (MQTTstrlen (password d) + 2) else len)"

definition connect_flag_byte :: "connect_data \<Rightarrow> u8" where
  "connect_flag_byte d =
     (let wl = (if willFlag d \<noteq> 0 then 1 else 0)
      in connect_flags (unat (cleansession d)) wl
           (if wl \<noteq> 0 then unat (will_qos (will d)) else 0) (if wl \<noteq> 0 then unat (retained (will d)) else 0)
           (if str_given (password d) then 1 else 0) (if str_given (username d) then 1 else 0))"

definition MQTTSerialize_connect :: "u8 list \<Rightarrow> int \<Rightarrow> connect_data \<Rightarrow> (int \<times> u8 list) option" where
  "MQTTSerialize_connect buf buflen options =
     (let len = MQTTSerialize_connectLength options
      in if MQTTPacket_len len > buflen then Some (MQTTPACKET_BUFFER_TOO_SHORT, buf)
         else do {
           p \<leftarrow> writeChar (buf, 0) (header_byte CONNECT 0 0 0);
           (_, p) \<leftarrow> MQTTPacket_encode p len;
           p \<leftarrow> writeCString p (map byte_of_char (if MQTTVersion options = 4 then ''MQTT'' else ''MQIsdp''));
           p \<leftarrow> writeChar p (if MQTTVersion options = 4 then 4 else 3);
           let flags = connect_flag_byte options;
           p \<leftarrow> writeChar p flags;
           p \<leftarrow> writeInt p (uint (keepAliveInterval options));
           p \<leftarrow> writeMQTTString p (clientID options);
           p \<leftarrow> (if willFlag options \<noteq> 0 then do {
                   p \<leftarrow> writeMQTTString p (topicName (will options));
                   writeMQTTString p (message (will options))
                 } else Some p);
           p \<leftarrow> (if flag_username flags \<noteq> 0 then writeMQTTString p (username options) else Some p);
           p \<leftarrow> (if flag_password flags \<noteq> 0 then writeMQTTString p (password options) else Some p);
           Some (int (snd p), fst p)
         })"

definition MQTTDeserialize_connack :: "u8 \<times> u8 \<Rightarrow> u8 list \<Rightarrow> int \<Rightarrow> (int \<times> u8 \<times> u8) option" where
  "MQTTDeserialize_connack out buf buflen = do {
     (h, i) \<leftarrow> readChar buf 0;
     if header_type h \<noteq> CONNACK then Some (0, out)
     else do {
       (i, rc, enddata) \<leftarrow> read_length buf i;
       if int enddata - int i < 2 then Some (rc, out)
       else do {
         (flags, i) \<leftarrow> readChar buf i;
         (crc, i) \<leftarrow> readChar buf i;
         Some (1, word_of_nat (flag_sessionpresent flags), crc)
       }
     }
   }"

definition MQTTSerialize_zero :: "u8 list \<Rightarrow> int \<Rightarrow> nat \<Rightarrow> (int \<times> u8 list) option" where
  "MQTTSerialize_zero buf buflen packettype =
     (if buflen < 2 then Some (MQTTPACKET_BUFFER_TOO_SHORT, buf)
      else do {
        p \<leftarrow> writeChar (buf, 0) (header_byte packettype 0 0 0);
        (_, p) \<leftarrow> MQTTPacket_encode p 0;
        Some (int (snd p), fst p)
      })"

definition MQTTSerialize_disconnect :: "u8 list \<Rightarrow> int \<Rightarrow> (int \<times> u8 list) option" where
  "MQTTSerialize_disconnect buf buflen = MQTTSerialize_zero buf buflen DISCONNECT"

definition MQTTSerialize_pingreq :: "u8 list \<Rightarrow> int \<Rightarrow> (int \<times> u8 list) option" where
  "MQTTSerialize_pingreq buf buflen = MQTTSerialize_zero buf buflen PINGREQ"

text \<open>
  \<^verbatim>\<open>memcmp\<close> of the protocol name with the literal, over the smaller of the two lengths.
\<close>

definition name_matches :: "mqtt_string \<Rightarrow> u8 list \<Rightarrow> bool option" where
  "name_matches protocol name =
     (let n = nat (min (int (length name)) (ls_len protocol))
      in case ls_data protocol of None \<Rightarrow> None
         | Some d \<Rightarrow> if n \<le> length d then Some (take n d = take n name) else None)"

definition MQTTPacket_checkVersion :: "mqtt_string \<Rightarrow> int \<Rightarrow> bool option" where
  "MQTTPacket_checkVersion protocol version =
     (if version = 3 then name_matches protocol (map byte_of_char ''MQIsdp'')
      else if version = 4 then name_matches protocol (map byte_of_char ''MQTT'')
      else Some False)"

text \<open>
  The end of \<^verbatim>\<open>MQTTDeserialize_connect\<close>, from the user name on: the pointer is at \<open>i\<close>.
\<close>

definition connect_credentials :: "connect_data \<Rightarrow> u8 list \<Rightarrow> u8 \<Rightarrow> nat \<Rightarrow> nat \<Rightarrow> (int \<times> connect_data) option" where
  "connect_credentials data buf flags i enddata =
     (if flag_username flags \<noteq> 0 then
        if int enddata - int i < 3 then Some (0, data)
        else do {
          (ok, s, i) \<leftarrow> readMQTTLenString (username data) buf i enddata;
          let data = data\<lparr>username := s\<rparr>;
          if \<not> ok then Some (0, data)
          else if flag_password flags \<noteq> 0 then
            if int enddata - int i < 3 then Some (0, data)
            else do {
              (ok, s, i) \<leftarrow> readMQTTLenString (password data) buf i enddata;
              let data = data\<lparr>password := s\<rparr>;
              Some (if ok then 1 else 0, data)
            }
          else Some (1, data)
        }
      else if flag_password flags \<noteq> 0 then Some (0, data)
      else Some (1, data))"

definition MQTTDeserialize_connect :: "connect_data \<Rightarrow> u8 list \<Rightarrow> nat \<Rightarrow> (int \<times> connect_data) option" where
  "MQTTDeserialize_connect data buf len = do {
     (h, i) \<leftarrow> readChar buf 0;
     if header_type h \<noteq> CONNECT then Some (0, data)
     else do {
       (i, _, _) \<leftarrow> read_length buf i;
       (ok, protocol, i) \<leftarrow> readMQTTLenString MQTTString_initializer buf i len;
       if \<not> ok \<or> int len - int i < 0 then Some (0, data)
       else do {
         (version, i) \<leftarrow> readChar buf i;
         ok \<leftarrow> MQTTPacket_checkVersion protocol (uint version);
         if \<not> ok then Some (0, data)
         else do {
           (flags, i) \<leftarrow> readChar buf i;
           (ka, i) \<leftarrow> readInt buf i;
           let data = data\<lparr>cleansession := word_of_nat (flag_cleansession flags), keepAliveInterval := word_of_int ka\<rparr>;
           (ok, s, i) \<leftarrow> readMQTTLenString (clientID data) buf i len;
           let data = data\<lparr>clientID := s\<rparr>;
           if \<not> ok then Some (0, data)
           else do {
             let data = data\<lparr>willFlag := word_of_nat (flag_will flags)\<rparr>;
             if flag_will flags \<noteq> 0 then do {
               let w = (will data)\<lparr>will_qos := word_of_nat (flag_willQoS flags), retained := word_of_nat (flag_willRetain flags)\<rparr>;
               (ok, s, i) \<leftarrow> readMQTTLenString (topicName w) buf i len;
               let w = w\<lparr>topicName := s\<rparr>;
               if \<not> ok then Some (0, data\<lparr>will := w\<rparr>)
               else do {
                 (ok, s, i) \<leftarrow> readMQTTLenString (message w) buf i len;
                 let data = data\<lparr>will := w\<lparr>message := s\<rparr>\<rparr>;
                 if \<not> ok then Some (0, data) else connect_credentials data buf flags i len
               }
             } else connect_credentials data buf flags i len
           }
         }
       }
     }
   }"

definition MQTTSerialize_connack :: "u8 list \<Rightarrow> int \<Rightarrow> u8 \<Rightarrow> u8 \<Rightarrow> (int \<times> u8 list) option" where
  "MQTTSerialize_connack buf buflen connack_rc sessionPresent =
     (if buflen < 2 then Some (MQTTPACKET_BUFFER_TOO_SHORT, buf)
      else do {
        p \<leftarrow> writeChar (buf, 0) (header_byte CONNACK 0 0 0);
        (_, p) \<leftarrow> MQTTPacket_encode p 2;
        p \<leftarrow> writeChar p (connack_flags (unat sessionPresent));
        p \<leftarrow> writeChar p connack_rc;
        Some (int (snd p), fst p)
      })"

section \<open>The connect packet on the wire\<close>

lemma connect_flags_fields [simp]:
  "flag_cleansession (connect_flags cs wl wqos wret pw un) = cs mod 2"
  "flag_will (connect_flags cs wl wqos wret pw un) = wl mod 2"
  "flag_willQoS (connect_flags cs wl wqos wret pw un) = wqos mod 4"
  "flag_willRetain (connect_flags cs wl wqos wret pw un) = wret mod 2"
  "flag_password (connect_flags cs wl wqos wret pw un) = pw mod 2"
  "flag_username (connect_flags cs wl wqos wret pw un) = un mod 2"
proof -
  define c w q r p u where "c = cs mod 2" and "w = wl mod 2" and "q = wqos mod 4" and "r = wret mod 2"
    and "p = pw mod 2" and "u = un mod 2"
  note defs = c_def w_def q_def r_def p_def u_def
  define n where "n = c * 2 + w * 4 + q * 8 + r * 32 + p * 64 + u * 128"
  have b: "c < 2" "w < 2" "q < 4" "r < 2" "p < 2" "u < 2" by (simp_all add: defs)
  then have "n < 256" by (simp add: n_def)
  then have "unat (word_of_nat n :: u8) = n" by (rule word_of_nat_unat8)
  then have u: "unat (connect_flags cs wl wqos wret pw un) = n"
    by (simp only: connect_flags_def n_def flip: defs)
  have "n div 2 = c + 2 * (w + q * 2 + r * 8 + p * 16 + u * 32)" "n div 4 = w + 2 * (q + r * 4 + p * 8 + u * 16)"
    "n div 8 = q + 4 * (r + p * 2 + u * 4)" "n div 32 = r + 2 * (p + u * 2)" "n div 64 = p + 2 * u" "n div 128 = u"
    unfolding n_def using b by (intro div_nat_eqI; simp)+
  then show "flag_cleansession (connect_flags cs wl wqos wret pw un) = cs mod 2"
    "flag_will (connect_flags cs wl wqos wret pw un) = wl mod 2"
    "flag_willQoS (connect_flags cs wl wqos wret pw un) = wqos mod 4"
    "flag_willRetain (connect_flags cs wl wqos wret pw un) = wret mod 2"
    "flag_password (connect_flags cs wl wqos wret pw un) = pw mod 2"
    "flag_username (connect_flags cs wl wqos wret pw un) = un mod 2"
    unfolding flag_cleansession_def flag_will_def flag_willQoS_def flag_willRetain_def flag_password_def flag_username_def u
    using b by (simp_all only: mod_mult_self2 mod_less defs)
qed

definition proto_name :: "connect_data \<Rightarrow> u8 list" where
  "proto_name d = map byte_of_char (if MQTTVersion d = 4 then ''MQTT'' else ''MQIsdp'')"

definition will_wire :: "connect_data \<Rightarrow> u8 list" where
  "will_wire d = (if willFlag d \<noteq> 0 then wire_str (str_bytes (topicName (will d))) @ wire_str (str_bytes (message (will d))) else [])"

definition given_wire :: "mqtt_string \<Rightarrow> u8 list" where
  "given_wire s = (if str_given s then wire_str (str_bytes s) else [])"

definition connect_body :: "connect_data \<Rightarrow> u8 list" where
  "connect_body d = wire_str (proto_name d) @ [if MQTTVersion d = 4 then 4 else 3] @ [connect_flag_byte d]
     @ be16 (uint (keepAliveInterval d)) @ wire_str (str_bytes (clientID d)) @ will_wire d
     @ given_wire (username d) @ given_wire (password d)"

text \<open>The options a connect packet can carry: a known version and well-formed strings.\<close>

definition connect_wf :: "connect_data \<Rightarrow> bool" where
  "connect_wf d \<longleftrightarrow> (MQTTVersion d = 3 \<or> MQTTVersion d = 4) \<and> str_wf (clientID d)
     \<and> (willFlag d \<noteq> 0 \<longrightarrow> str_wf (topicName (will d)) \<and> str_wf (message (will d)))
     \<and> (str_given (username d) \<longrightarrow> str_wf (username d)) \<and> (str_given (password d) \<longrightarrow> str_wf (password d))"

lemma connect_length_body:
  assumes "connect_wf d"
  shows "MQTTSerialize_connectLength d = int (length (connect_body d))"
proof -
  have "MQTTVersion d = 3 \<Longrightarrow> MQTTVersion d \<noteq> 4" by simp
  then show ?thesis
    using assms by (auto simp: connect_wf_def MQTTSerialize_connectLength_def Let_def connect_body_def will_wire_def
        given_wire_def proto_name_def strlen_bytes)
qed

lemma connect_flag_given [simp]:
  "flag_username (connect_flag_byte d) = (if str_given (username d) then 1 else 0)"
  "flag_password (connect_flag_byte d) = (if str_given (password d) then 1 else 0)"
  "flag_will (connect_flag_byte d) = (if willFlag d \<noteq> 0 then 1 else 0)"
  "flag_cleansession (connect_flag_byte d) = unat (cleansession d) mod 2"
  "willFlag d \<noteq> 0 \<Longrightarrow> flag_willQoS (connect_flag_byte d) = unat (will_qos (will d)) mod 4"
  "willFlag d \<noteq> 0 \<Longrightarrow> flag_willRetain (connect_flag_byte d) = unat (retained (will d)) mod 2"
  by (simp_all add: connect_flag_byte_def Let_def)

lemma put_if_bind:
  "put p xs \<bind> (\<lambda>p. (if c then put p ys else Some p) \<bind> f) = put p (xs @ (if c then ys else [])) \<bind> f"
  by (simp add: put_append_bind)

lemma serialize_connect:
  assumes "connect_wf d" "MQTTSerialize_connectLength d < 268435456"
    and "MQTTPacket_len (MQTTSerialize_connectLength d) \<le> buflen" "buflen \<le> int (length buf)"
    and pkt: "pkt = packet (header_byte CONNECT 0 0 0) (connect_body d)"
  shows "MQTTSerialize_connect buf buflen d = Some (int (length pkt), pkt @ drop (length pkt) buf)" "int (length pkt) \<le> buflen"
proof -
  note len = connect_length_body [OF assms(1)]
  show fits: "int (length pkt) \<le> buflen"
    using packet_fits [of "connect_body d" "header_byte CONNECT 0 0 0"] assms(2,3) by (simp add: len pkt)
  have nl: "\<not> MQTTPacket_len (int (length (connect_body d))) > buflen" using assms(3) by (simp add: len)
  have body: "writeCString p (map byte_of_char (if MQTTVersion d = 4 then ''MQTT'' else ''MQIsdp''))
      \<bind> (\<lambda>p. writeChar p (if MQTTVersion d = 4 then 4 else 3)
      \<bind> (\<lambda>p. writeChar p (connect_flag_byte d)
      \<bind> (\<lambda>p. writeInt p (uint (keepAliveInterval d))
      \<bind> (\<lambda>p. writeMQTTString p (clientID d)
      \<bind> (\<lambda>p. (if willFlag d \<noteq> 0 then writeMQTTString p (topicName (will d)) \<bind> (\<lambda>p. writeMQTTString p (message (will d))) else Some p)
      \<bind> (\<lambda>p. (if flag_username (connect_flag_byte d) \<noteq> 0 then writeMQTTString p (username d) else Some p)
      \<bind> (\<lambda>p. (if flag_password (connect_flag_byte d) \<noteq> 0 then writeMQTTString p (password d) else Some p) \<bind> g)))))))
    = put p (connect_body d) \<bind> g" for p g
  proof -
    have w: "(if willFlag d \<noteq> 0 then writeMQTTString p (topicName (will d)) \<bind> (\<lambda>p. writeMQTTString p (message (will d))) else Some p)
        = (if willFlag d \<noteq> 0 then put p (will_wire d) else Some p)" for p
      using assms(1) by (simp add: connect_wf_def writeMQTTString_put put_append will_wire_def)
    have u: "(if flag_username (connect_flag_byte d) \<noteq> 0 then writeMQTTString p (username d) else Some p)
        = (if str_given (username d) then put p (given_wire (username d)) else Some p)" for p
      using assms(1) by (simp add: connect_wf_def writeMQTTString_put given_wire_def)
    have pw: "(if flag_password (connect_flag_byte d) \<noteq> 0 then writeMQTTString p (password d) else Some p)
        = (if str_given (password d) then put p (given_wire (password d)) else Some p)" for p
      using assms(1) by (simp add: connect_wf_def writeMQTTString_put given_wire_def)
    have "str_wf (clientID d)" using assms(1) by (simp add: connect_wf_def)
    then show ?thesis
      unfolding w u pw writeCString_put writeChar_put writeInt_put proto_name_def [symmetric]
      by (simp only: writeMQTTString_put put_append_bind put_if_bind append_assoc connect_body_def)
        (simp add: will_wire_def given_wire_def)
  qed
  have "length pkt \<le> length buf" using fits assms(4) by simp
  then show "MQTTSerialize_connect buf buflen d = Some (int (length pkt), pkt @ drop (length pkt) buf)"
    unfolding MQTTSerialize_connect_def Let_def len if_not_P [OF nl] pkt
    by (intro serialize_packet) (simp_all only: body)
qed

text \<open>What the deserializer can read back: a password only with a user name, and neither of them empty at the end.\<close>

definition credentials_ok :: "connect_data \<Rightarrow> bool" where
  "credentials_ok d \<longleftrightarrow> (str_given (password d) \<longrightarrow> str_given (username d) \<and> str_bytes (password d) \<noteq> [])
     \<and> (str_given (username d) \<longrightarrow> str_given (password d) \<or> str_bytes (username d) \<noteq> [])"

lemma str_wf_length: "str_wf s \<Longrightarrow> length (str_bytes s) < 65536"
  using strlen_bytes [of s] by (simp add: str_wf_def)

lemma credentials_at:
  assumes at: "bytes_at b i (given_wire (username d) @ given_wire (password d))"
    and e: "e = i + length (given_wire (username d)) + length (given_wire (password d))"
    and "connect_wf d" "credentials_ok d"
  shows "connect_credentials data b (connect_flag_byte d) i e = Some (1, data
    \<lparr>username := (if str_given (username d) then read_str b i (str_bytes (username d)) else username data),
     password := (if str_given (password d) then read_str b (i + length (given_wire (username d))) (str_bytes (password d))
                  else password data)\<rparr>)"
proof (cases "str_given (username d)")
  case False
  then show ?thesis using assms(4) by (simp add: connect_credentials_def credentials_ok_def)
next
  case True
  let ?u = "str_bytes (username d)" let ?p = "str_bytes (password d)" let ?j = "i + length (wire_str ?u)"
  have u: "length ?u < 65536" using assms(3) True by (simp add: connect_wf_def str_wf_length)
  have at1: "bytes_at b i (wire_str ?u @ given_wire (password d))" using at True by (simp add: given_wire_def)
  have ru: "readMQTTLenString s b i e = Some (True, read_str b i ?u, ?j)" for s
    using readLenString_at [OF at1 u, of e s] e True by (simp add: given_wire_def)
  have "0 < length ?u \<or> 0 < length (given_wire (password d))"
  proof (cases "str_given (password d)")
    case pw: True
    then show ?thesis by (simp add: given_wire_def del: length_greater_0_conv)
  qed (use assms(4) True in \<open>simp add: credentials_ok_def\<close>)
  then have n: "\<not> int e - int i < 3" using e True by (auto simp: given_wire_def)
  show ?thesis
  proof (cases "str_given (password d)")
    case False
    with True n ru show ?thesis by (simp add: connect_credentials_def)
  next
    case pw: True
    have p: "length ?p < 65536" "0 < length ?p" using assms(3,4) pw by (simp_all add: connect_wf_def str_wf_length credentials_ok_def)
    have at2: "bytes_at b ?j (wire_str ?p @ [])" using at1 pw by (simp add: bytes_at_append given_wire_def)
    have rp: "readMQTTLenString s b ?j e = Some (True, read_str b ?j ?p, ?j + length (wire_str ?p))" for s
      using readLenString_at [OF at2 p(1), of e s] e True pw by (simp add: given_wire_def)
    have "\<not> int e - int ?j < 3" using p(2) e True pw by (simp add: given_wire_def)
    with True pw n ru rp show ?thesis by (simp add: connect_credentials_def given_wire_def)
  qed
qed

lemma version_check:
  assumes "connect_wf d" "bytes_at b i (wire_str (proto_name d) @ cs)"
  shows "MQTTPacket_checkVersion (read_str b i (proto_name d)) (uint (if MQTTVersion d = 4 then 4 else 3 :: u8)) = Some True"
proof -
  have "bytes_at b (i + 2) (proto_name d)" using assms(2) by (simp add: bytes_at_append wire_str_def)
  then have t: "take (length (proto_name d)) (drop (i + 2) b) = proto_name d" "length (proto_name d) \<le> length (drop (i + 2) b)"
    by (auto simp: bytes_at_def)
  have "name_matches (read_str b i (proto_name d)) (proto_name d) = Some True"
    using t by (simp add: name_matches_def read_str_def)
  then show ?thesis by (cases "MQTTVersion d = 4") (simp_all add: MQTTPacket_checkVersion_def proto_name_def)
qed

definition connect_read :: "u8 list \<Rightarrow> nat \<Rightarrow> connect_data \<Rightarrow> connect_data \<Rightarrow> connect_data" where
  "connect_read b i d data =
     (let j = i + length (wire_str (proto_name d)) + 4; k = j + length (wire_str (str_bytes (clientID d)));
          l = k + length (wire_str (str_bytes (topicName (will d)))); m = k + length (will_wire d)
      in data\<lparr>cleansession := word_of_nat (unat (cleansession d) mod 2), keepAliveInterval := keepAliveInterval d,
           clientID := read_str b j (str_bytes (clientID d)), willFlag := (if willFlag d \<noteq> 0 then 1 else 0),
           will := (if willFlag d \<noteq> 0
             then \<lparr>topicName = read_str b k (str_bytes (topicName (will d))), message = read_str b l (str_bytes (message (will d))),
                   retained = word_of_nat (unat (retained (will d)) mod 2), will_qos = word_of_nat (unat (will_qos (will d)) mod 4)\<rparr>
             else will data),
           username := (if str_given (username d) then read_str b m (str_bytes (username d)) else username data),
           password := (if str_given (password d) then read_str b (m + length (given_wire (username d))) (str_bytes (password d))
                        else password data)\<rparr>)"

text \<open>The fields of the body one after the other, from the pointer \<open>i\<close> on.\<close>

lemma connect_layout:
  assumes "bytes_at b i (connect_body d)"
    and "v = i + length (wire_str (proto_name d))" "j = v + 4" "k = j + length (wire_str (str_bytes (clientID d)))"
    and "m = k + length (will_wire d)"
  shows "bytes_at b i (wire_str (proto_name d) @ drop (length (wire_str (proto_name d))) (connect_body d))"
    and "readChar b v = Some (if MQTTVersion d = 4 then 4 else 3, v + 1)"
    and "readChar b (v + 1) = Some (connect_flag_byte d, v + 2)"
    and "readInt b (v + 2) = Some (uint (keepAliveInterval d), j)"
    and "bytes_at b j (wire_str (str_bytes (clientID d)) @ will_wire d @ given_wire (username d) @ given_wire (password d))"
    and "bytes_at b k (will_wire d @ given_wire (username d) @ given_wire (password d))"
    and "bytes_at b m (given_wire (username d) @ given_wire (password d))"
proof -
  let ?c = "wire_str (str_bytes (clientID d))"
  let ?rest = "?c @ will_wire d @ given_wire (username d) @ given_wire (password d)"
  show "bytes_at b i (wire_str (proto_name d) @ drop (length (wire_str (proto_name d))) (connect_body d))"
    using assms(1) by (simp add: connect_body_def)
  have v: "bytes_at b v ([if MQTTVersion d = 4 then 4 else 3] @ [connect_flag_byte d] @ be16 (uint (keepAliveInterval d)) @ ?rest)"
    using assms(1,2) by (simp only: connect_body_def bytes_at_append [of _ _ "wire_str (proto_name d)"])
  then show "readChar b v = Some (if MQTTVersion d = 4 then 4 else 3, v + 1)"
    and "readChar b (v + 1) = Some (connect_flag_byte d, v + 2)"
    by (simp_all add: readChar_def bytes_at_Cons)
  have a: "bytes_at b (v + 2) (be16 (uint (keepAliveInterval d)) @ ?rest)" using v by (simp add: bytes_at_Cons)
  then show "readInt b (v + 2) = Some (uint (keepAliveInterval d), j)"
    using readInt_at [OF a] uint_u16 [of "keepAliveInterval d"] assms(3) by simp
  have "v + 2 + length (be16 (uint (keepAliveInterval d))) = j" using assms(3) by simp
  then show j: "bytes_at b j ?rest" using a by (metis bytes_at_append)
  show k: "bytes_at b k (will_wire d @ given_wire (username d) @ given_wire (password d))"
    using j by (simp only: bytes_at_append [of _ _ ?c] assms(4))
  then show "bytes_at b m (given_wire (username d) @ given_wire (password d))"
    by (simp only: bytes_at_append [of _ _ "will_wire d"] assms(5))
qed

lemma will_at:
  assumes "connect_wf d" "willFlag d \<noteq> 0" "bytes_at b k (will_wire d @ cs)" "k + length (will_wire d) \<le> e"
    and "l = k + length (wire_str (str_bytes (topicName (will d))))"
  shows "readMQTTLenString s b k e = Some (True, read_str b k (str_bytes (topicName (will d))), l)"
    and "readMQTTLenString s b l e = Some (True, read_str b l (str_bytes (message (will d))), k + length (will_wire d))"
proof -
  let ?t = "str_bytes (topicName (will d))" let ?m = "str_bytes (message (will d))"
  have w: "will_wire d = wire_str ?t @ wire_str ?m" using assms(2) by (simp add: will_wire_def)
  have wf: "length ?t < 65536" "length ?m < 65536" using assms(1,2) by (simp_all add: connect_wf_def str_wf_length)
  have t: "bytes_at b k (wire_str ?t @ wire_str ?m @ cs)" using assms(3) by (simp only: w append_assoc)
  then have m: "bytes_at b l (wire_str ?m @ cs)" by (simp only: bytes_at_append [of _ _ "wire_str ?t"] assms(5))
  show "readMQTTLenString s b k e = Some (True, read_str b k ?t, l)"
    using readLenString_at [OF t wf(1), of e s] assms(4,5) w by simp
  show "readMQTTLenString s b l e = Some (True, read_str b l ?m, k + length (will_wire d))"
    using readLenString_at [OF m wf(2), of e s] assms(4,5) w by simp
qed

lemma deserialize_connect:
  assumes "connect_wf d" "credentials_ok d" "length (connect_body d) < 268435456"
    and pkt: "pkt = packet (header_byte CONNECT 0 0 0) (connect_body d)"
  shows "MQTTDeserialize_connect data (pkt @ cs) (length pkt)
    = Some (1, connect_read (pkt @ cs) (1 + length (enc (length (connect_body d)))) d data)"
proof -
  define b e where "b = pkt @ cs" and "e = length pkt"
  define i where "i = 1 + length (enc (length (connect_body d)))"
  define v where "v = i + length (wire_str (proto_name d))"
  define j where "j = v + 4"
  define k where "k = j + length (wire_str (str_bytes (clientID d)))"
  define m where "m = k + length (will_wire d)"
  note start = read_packet_start [OF assms(3), of "header_byte CONNECT 0 0 0" cs, folded pkt, folded i_def b_def e_def]
  note at = connect_layout [OF start(3) v_def j_def k_def m_def]
  have e: "e = m + length (given_wire (username d)) + length (given_wire (password d))"
    by (simp add: e_def pkt packet_def i_def v_def j_def k_def m_def connect_body_def)
  have "length (proto_name d) < 65536" by (simp add: proto_name_def)
  then have name: "readMQTTLenString s b i e = Some (True, read_str b i (proto_name d), v)" for s
    using readLenString_at [OF at(1), of e s] e by (simp add: v_def j_def k_def m_def)
  have client: "readMQTTLenString s b j e = Some (True, read_str b j (str_bytes (clientID d)), k)" for s
    using readLenString_at [OF at(5), of e s] e assms(1) by (simp add: connect_wf_def str_wf_length k_def m_def)
  have nv: "\<not> int e - int v < 0" using e by (simp add: j_def k_def m_def)
  note steps = start(1,2) name at(2) version_check [OF assms(1) at(1)] at(3,4) client nv credentials_at [OF at(7) e assms(1,2)]
  have read: "connect_read b i d data = data
      \<lparr>cleansession := word_of_nat (unat (cleansession d) mod 2), keepAliveInterval := keepAliveInterval d,
       clientID := read_str b j (str_bytes (clientID d)), willFlag := (if willFlag d \<noteq> 0 then 1 else 0),
       will := (if willFlag d \<noteq> 0
             then \<lparr>topicName = read_str b k (str_bytes (topicName (will d))),
                   message = read_str b (k + length (wire_str (str_bytes (topicName (will d))))) (str_bytes (message (will d))),
                   retained = word_of_nat (unat (retained (will d)) mod 2), will_qos = word_of_nat (unat (will_qos (will d)) mod 4)\<rparr>
             else will data),
       username := (if str_given (username d) then read_str b m (str_bytes (username d)) else username data),
       password := (if str_given (password d) then read_str b (m + length (given_wire (username d))) (str_bytes (password d))
                        else password data)\<rparr>"
    by (simp only: connect_read_def Let_def m_def k_def j_def v_def)
  have "MQTTDeserialize_connect data b e = Some (1, connect_read b i d data)"
  proof (cases "willFlag d \<noteq> 0")
    case False
    then have "k = m" by (simp add: m_def will_wire_def)
    with False steps show ?thesis by (simp add: MQTTDeserialize_connect_def read)
  next
    case True
    note w = will_at [OF assms(1) True at(6) _ refl, of e, folded m_def]
    from True steps w e show ?thesis by (simp add: MQTTDeserialize_connect_def read)
  qed
  then show ?thesis by (simp only: b_def e_def i_def)
qed

lemma connect_read_bytes:
  assumes "bytes_at b i (connect_body d)" "connect_wf d"
  shows "str_bytes (clientID (connect_read b i d data)) = str_bytes (clientID d)"
    and "willFlag d \<noteq> 0 \<Longrightarrow> str_bytes (topicName (will (connect_read b i d data))) = str_bytes (topicName (will d))
      \<and> str_bytes (message (will (connect_read b i d data))) = str_bytes (message (will d))"
    and "str_given (username d) \<Longrightarrow> str_bytes (username (connect_read b i d data)) = str_bytes (username d)"
    and "str_given (password d) \<Longrightarrow> str_bytes (password (connect_read b i d data)) = str_bytes (password d)"
proof -
  note at = connect_layout [OF assms(1) refl refl refl refl]
  show "str_bytes (clientID (connect_read b i d data)) = str_bytes (clientID d)"
    using str_bytes_read [OF at(5)] by (simp add: connect_read_def Let_def)
  show "str_bytes (username (connect_read b i d data)) = str_bytes (username d)" if u: "str_given (username d)"
  proof -
    have g: "given_wire (username d) = wire_str (str_bytes (username d))" using u by (simp only: given_wire_def if_True)
    from str_bytes_read [OF at(7) [unfolded g]] u show ?thesis by (simp add: connect_read_def Let_def add.assoc)
  qed
  show "str_bytes (password (connect_read b i d data)) = str_bytes (password d)" if p: "str_given (password d)"
  proof -
    have g: "given_wire (password d) = wire_str (str_bytes (password d)) @ []" using p by (simp add: given_wire_def)
    from str_bytes_read [OF at(7) [unfolded g bytes_at_append [of _ _ "given_wire (username d)"], THEN conjunct2]] p
    show ?thesis by (simp add: connect_read_def Let_def add.assoc)
  qed
  show "str_bytes (topicName (will (connect_read b i d data))) = str_bytes (topicName (will d))
      \<and> str_bytes (message (will (connect_read b i d data))) = str_bytes (message (will d))" if w: "willFlag d \<noteq> 0"
  proof -
    let ?t = "wire_str (str_bytes (topicName (will d)))" let ?m = "wire_str (str_bytes (message (will d)))"
    have g: "will_wire d @ cs = ?t @ ?m @ cs" for cs using w by (simp add: will_wire_def)
    note t = at(6) [unfolded g]
    from str_bytes_read [OF t] str_bytes_read [OF t [unfolded bytes_at_append [of _ _ ?t], THEN conjunct2]] w
    show ?thesis by (simp add: connect_read_def Let_def)
  qed
qed

lemma serialize_connack:
  assumes "2 \<le> buflen" "4 \<le> length buf" and pkt: "pkt = packet (header_byte CONNACK 0 0 0) [connack_flags (unat sp), rc]"
  shows "MQTTSerialize_connack buf buflen rc sp = Some (4, pkt @ drop 4 buf)"
proof -
  have nl: "\<not> buflen < 2" using assms(1) by simp
  have len: "length pkt = 4" by (simp add: pkt packet_def enc.simps)
  have "MQTTSerialize_connack buf buflen rc sp = Some (int (length pkt), pkt @ drop (length pkt) buf)"
    unfolding MQTTSerialize_connack_def if_not_P [OF nl] pkt
    by (rule serialize_packet) (use assms(2) len in \<open>simp_all add: writeChar_put put_append_bind pkt\<close>)
  then show ?thesis by (simp add: len)
qed

lemma deserialize_connack:
  "MQTTDeserialize_connack out (packet (header_byte CONNACK 0 0 0) [f, rc] @ cs) buflen
    = Some (1, word_of_nat (flag_sessionpresent f), rc)"
proof -
  let ?p = "packet (header_byte CONNACK 0 0 0) [f, rc]"
  have "length [f, rc] < 268435456" by simp
  note start = read_packet_start [OF this, of "header_byte CONNACK 0 0 0" cs]
  have e: "1 + length (enc (length [f, rc])) = 2" "length ?p = 4" by (simp_all add: packet_def enc.simps)
  have "readChar (?p @ cs) 2 = Some (f, 3)" "readChar (?p @ cs) 3 = Some (rc, 4)"
    using start(3) [unfolded e] by (simp_all add: readChar_def bytes_at_Cons numeral_3_eq_3 numeral_2_eq_2)
  with start(1,2) [unfolded e] show ?thesis by (simp add: MQTTDeserialize_connack_def)
qed

section \<open>Properties\<close>

text \<open>
  C8. Connect round trip: for options of version 3 or 4 with well-formed strings, a buffer that
  \<^verbatim>\<open>MQTTPacket_len\<close> finds too short is refused and left alone; otherwise \<^verbatim>\<open>MQTTSerialize_connect\<close> writes
  at most \<^verbatim>\<open>buflen\<close> bytes and leaves the rest. When moreover a password comes with a user name and
  the last of them is not empty, \<^verbatim>\<open>MQTTDeserialize_connect\<close> of the packet returns 1 with the flags,
  the keep-alive interval, the client identifier, the will and the credentials that were given
  (the protocol version is not stored).
\<close>

theorem mqtt_connect_roundtrip:
  assumes "connect_wf d" "MQTTSerialize_connectLength d < 268435456" "buflen \<le> int (length buf)"
  shows "if MQTTPacket_len (MQTTSerialize_connectLength d) > buflen then MQTTSerialize_connect buf buflen d = Some (- 2, buf)
    else \<exists>n buf'. MQTTSerialize_connect buf buflen d = Some (int n, buf')
      \<and> int n \<le> buflen \<and> length buf' = length buf \<and> drop n buf' = drop n buf
      \<and> (credentials_ok d \<longrightarrow> (\<exists>r. MQTTDeserialize_connect data buf' n = Some (1, r)
        \<and> MQTTVersion r = MQTTVersion data \<and> unat (cleansession r) = unat (cleansession d) mod 2
        \<and> keepAliveInterval r = keepAliveInterval d \<and> str_bytes (clientID r) = str_bytes (clientID d)
        \<and> willFlag r = (if willFlag d \<noteq> 0 then 1 else 0)
        \<and> (willFlag d \<noteq> 0 \<longrightarrow> unat (will_qos (will r)) = unat (will_qos (will d)) mod 4
            \<and> unat (retained (will r)) = unat (retained (will d)) mod 2
            \<and> str_bytes (topicName (will r)) = str_bytes (topicName (will d))
            \<and> str_bytes (message (will r)) = str_bytes (message (will d)))
        \<and> (if str_given (username d) then str_bytes (username r) = str_bytes (username d) else username r = username data)
        \<and> (if str_given (password d) then str_bytes (password r) = str_bytes (password d) else password r = password data)))"
proof (cases "MQTTPacket_len (MQTTSerialize_connectLength d) > buflen")
  case True
  then show ?thesis by (simp add: MQTTSerialize_connect_def Let_def)
next
  case False
  define pkt where "pkt = packet (header_byte CONNECT 0 0 0) (connect_body d)"
  define b where "b = pkt @ drop (length pkt) buf"
  let ?i = "1 + length (enc (length (connect_body d)))"
  note ser = serialize_connect [OF assms(1,2) _ assms(3) pkt_def]
  have fits: "int (length pkt) \<le> buflen" using ser(2) False by simp
  have len: "length (connect_body d) < 268435456" using assms(2) connect_length_body [OF assms(1)] by simp
  have at: "bytes_at b ?i (connect_body d)"
    using read_packet_start(3) [OF len, of "header_byte CONNECT 0 0 0" "drop (length pkt) buf"] by (simp only: b_def flip: pkt_def)
  note read = connect_read_bytes [OF at assms(1), of data]
  have "credentials_ok d \<Longrightarrow> MQTTDeserialize_connect data b (length pkt) = Some (1, connect_read b ?i d data)"
    using deserialize_connect [OF assms(1) _ len pkt_def] by (simp only: b_def)
  moreover have "MQTTVersion r = MQTTVersion data \<and> unat (cleansession r) = unat (cleansession d) mod 2
        \<and> keepAliveInterval r = keepAliveInterval d \<and> willFlag r = (if willFlag d \<noteq> 0 then 1 else 0)
        \<and> (willFlag d \<noteq> 0 \<longrightarrow> unat (will_qos (will r)) = unat (will_qos (will d)) mod 4
            \<and> unat (retained (will r)) = unat (retained (will d)) mod 2)
        \<and> (\<not> str_given (username d) \<longrightarrow> username r = username data) \<and> (\<not> str_given (password d) \<longrightarrow> password r = password data)"
    if "r = connect_read b ?i d data" for r
    unfolding that by (simp add: connect_read_def Let_def word_of_nat_unat8)
  moreover have "MQTTSerialize_connect buf buflen d = Some (int (length pkt), b)" using ser(1) False by (simp add: b_def)
  moreover have "length b = length buf" "drop (length pkt) b = drop (length pkt) buf" using fits assms(3) by (simp_all add: b_def)
  ultimately show ?thesis using False fits read by (simp only: if_False) auto
qed

text \<open>Options of a client: version 4, a user name, a password and a will.\<close>

definition sample_options :: connect_data where
  "sample_options = (let str = (\<lambda>s. \<lparr>cstring = Some (map byte_of_char s), ls_len = 0, ls_data = None\<rparr>) in
     MQTTPacket_connectData_initializer\<lparr>clientID := str ''dev'', willFlag := 1,
       will := \<lparr>topicName = str ''t'', message = str ''x'', retained = 1, will_qos = 1\<rparr>,
       username := str ''u'', password := str ''pw''\<rparr>)"

theorem mqtt_connect_roundtrip_witness:
  "\<exists>n buf'. MQTTSerialize_connect (replicate 64 0) 64 sample_options = Some (int n, buf')
      \<and> int n \<le> 64 \<and> length buf' = length (replicate 64 (0 :: u8)) \<and> drop n buf' = drop n (replicate 64 0)
      \<and> (\<exists>r. MQTTDeserialize_connect MQTTPacket_connectData_initializer buf' n = Some (1, r)
          \<and> str_bytes (clientID r) = str_bytes (clientID sample_options)
          \<and> str_bytes (message (will r)) = str_bytes (message (will sample_options))
          \<and> str_bytes (password r) = str_bytes (password sample_options))"
proof -
  have wf: "connect_wf sample_options" "credentials_ok sample_options" "MQTTSerialize_connectLength sample_options = 28"
    "str_given (password sample_options)" "willFlag sample_options \<noteq> 0"
    by (simp_all add: sample_options_def MQTTPacket_connectData_initializer_def connect_wf_def credentials_ok_def
        MQTTSerialize_connectLength_def str_given_def str_wf_def str_bytes_def MQTTstrlen_def)
  have len: "\<not> MQTTPacket_len (MQTTSerialize_connectLength sample_options) > 64"
    by (simp add: wf(3) MQTTPacket_len_def)
  have "MQTTSerialize_connectLength sample_options < 268435456" by (simp add: wf(3))
  from mqtt_connect_roundtrip [OF wf(1) this, of 64 "replicate 64 0" MQTTPacket_connectData_initializer, unfolded if_not_P [OF len]] wf(2,4,5)
  show ?thesis by auto
qed

text \<open>
  The connect acknowledgement: what \<^verbatim>\<open>MQTTSerialize_connack\<close> writes is read back by
  \<^verbatim>\<open>MQTTDeserialize_connack\<close> as the same return code and the low bit of the session flag. A packet
  of the right type whose remaining length is 0 or 1, so without a return code, is accepted too:
  the deserializer leaves the length of the length field, 1, as its return value, which means
  success, and does not set the two outputs.
\<close>

theorem mqtt_connack_codec:
  assumes "2 \<le> buflen" "4 \<le> length buf" "length short < 2"
  shows "(\<exists>buf'. MQTTSerialize_connack buf buflen rc sp = Some (4, buf') \<and> drop 4 buf' = drop 4 buf
      \<and> MQTTDeserialize_connack out buf' buflen = Some (1, word_of_nat (unat sp mod 2), rc))
    \<and> MQTTDeserialize_connack out (packet (header_byte CONNACK 0 0 0) short) buflen = Some (1, out)"
proof
  let ?p = "packet (header_byte CONNACK 0 0 0) [connack_flags (unat sp), rc]"
  have "(unat sp mod 2) * 128 < 256" using mod_less_divisor [of 2 "unat sp"] by simp
  then have "unat (word_of_nat (unat sp mod 2 * 128) :: u8) = unat sp mod 2 * 128" by (rule word_of_nat_unat8)
  then have f: "flag_sessionpresent (connack_flags (unat sp)) = unat sp mod 2"
    by (simp only: flag_sessionpresent_def connack_flags_def) simp
  have "length ?p = 4" by (simp add: packet_def enc.simps)
  with serialize_connack [OF assms(1,2) refl, of rc sp] deserialize_connack [of out "connack_flags (unat sp)" rc "drop 4 buf" buflen] f
  show "\<exists>buf'. MQTTSerialize_connack buf buflen rc sp = Some (4, buf') \<and> drop 4 buf' = drop 4 buf
      \<and> MQTTDeserialize_connack out buf' buflen = Some (1, word_of_nat (unat sp mod 2), rc)"
    by (intro exI [of _ "?p @ drop 4 buf"]) simp
  have "length short < 268435456" using assms(3) by simp
  note start = read_packet_start [OF this, of "header_byte CONNACK 0 0 0" "[]", unfolded append_Nil2]
  have "length (enc (length short)) = 1" using assms(3) by (simp add: enc.simps)
  with start(1,2) assms(3)
  show "MQTTDeserialize_connack out (packet (header_byte CONNACK 0 0 0) short) buflen = Some (1, out)"
    by (simp add: MQTTDeserialize_connack_def packet_def)
qed

theorem mqtt_connack_codec_witness:
  "(\<exists>buf'. MQTTSerialize_connack [0, 0, 0, 0, 9] 5 5 1 = Some (4, buf') \<and> drop 4 buf' = drop 4 [0, 0, 0, 0, 9]
      \<and> MQTTDeserialize_connack (7, 7) buf' 5 = Some (1, word_of_nat (unat (1 :: u8) mod 2), 5))
    \<and> MQTTDeserialize_connack (7, 7) (packet (header_byte CONNACK 0 0 0) []) 5 = Some (1, (7, 7))"
  by (rule mqtt_connack_codec) simp_all

end
