(* ===== verification/Mqtt_Publish.thy ===== *)
theory Mqtt_Publish
  imports Mqtt_Packet
begin

text \<open>
  \<^verbatim>\<open>MQTTSerializePublish.c\<close> and \<^verbatim>\<open>MQTTDeserializePublish.c\<close>: the publish packet and the
  acknowledgements that share one layout. A serializer gives its return value and the
  buffer afterwards, a deserializer its return value and the objects its output pointers point
  to; both are \<open>None\<close> when the code reads or writes outside one of its objects.
\<close>

section \<open>Operations\<close>

definition MQTTSerialize_publishLength :: "int \<Rightarrow> mqtt_string \<Rightarrow> int \<Rightarrow> int" where
  "MQTTSerialize_publishLength qos topic payloadlen =
     (let len = 2 + MQTTstrlen topic + payloadlen in if qos > 0 then len + 2 else len)"

text \<open>The payload is the object its pointer points to; \<^verbatim>\<open>memcpy\<close> of a negative length has no result.\<close>

definition MQTTSerialize_publish ::
    "u8 list \<Rightarrow> int \<Rightarrow> u8 \<Rightarrow> int \<Rightarrow> u8 \<Rightarrow> u16 \<Rightarrow> mqtt_string \<Rightarrow> u8 list \<Rightarrow> int \<Rightarrow> (int \<times> u8 list) option" where
  "MQTTSerialize_publish buf buflen dup qos retain packetid topic payload payloadlen =
     (let rem_len = MQTTSerialize_publishLength qos topic payloadlen
      in if MQTTPacket_len rem_len > buflen then Some (MQTTPACKET_BUFFER_TOO_SHORT, buf)
         else do {
           p \<leftarrow> writeChar (buf, 0) (header_byte PUBLISH (unat dup) (nat (qos mod 4)) (unat retain));
           (_, p) \<leftarrow> MQTTPacket_encode p rem_len;
           p \<leftarrow> writeMQTTString p topic;
           p \<leftarrow> (if qos > 0 then writeInt p (uint packetid) else Some p);
           p \<leftarrow> (if payloadlen < 0 then None else mem_copy p payload (nat payloadlen));
           Some (int (snd p), fst p)
         })"

definition MQTTSerialize_ack :: "u8 list \<Rightarrow> int \<Rightarrow> nat \<Rightarrow> u8 \<Rightarrow> u16 \<Rightarrow> (int \<times> u8 list) option" where
  "MQTTSerialize_ack buf buflen packettype dup packetid =
     (if buflen < 4 then Some (MQTTPACKET_BUFFER_TOO_SHORT, buf)
      else do {
        p \<leftarrow> writeChar (buf, 0) (header_byte packettype (unat dup) (if packettype = PUBREL then 1 else 0) 0);
        (_, p) \<leftarrow> MQTTPacket_encode p 2;
        p \<leftarrow> writeInt p (uint packetid);
        Some (int (snd p), fst p)
      })"

definition MQTTSerialize_puback :: "u8 list \<Rightarrow> int \<Rightarrow> u16 \<Rightarrow> (int \<times> u8 list) option" where
  "MQTTSerialize_puback buf buflen packetid = MQTTSerialize_ack buf buflen PUBACK 0 packetid"

definition MQTTSerialize_pubrel :: "u8 list \<Rightarrow> int \<Rightarrow> u8 \<Rightarrow> u16 \<Rightarrow> (int \<times> u8 list) option" where
  "MQTTSerialize_pubrel buf buflen dup packetid = MQTTSerialize_ack buf buflen PUBREL dup packetid"

definition MQTTSerialize_pubcomp :: "u8 list \<Rightarrow> int \<Rightarrow> u16 \<Rightarrow> (int \<times> u8 list) option" where
  "MQTTSerialize_pubcomp buf buflen packetid = MQTTSerialize_ack buf buflen PUBCOMP 0 packetid"

text \<open>The objects behind the output pointers; \<open>pub_payload\<close> is the buffer from the payload pointer on.\<close>

record publish_out =
  pub_dup :: u8
  pub_qos :: int
  pub_retained :: u8
  pub_packetid :: u16
  pub_topic :: mqtt_string
  pub_payload :: "u8 list"
  pub_payloadlen :: int

definition MQTTDeserialize_publish :: "publish_out \<Rightarrow> u8 list \<Rightarrow> int \<Rightarrow> (int \<times> publish_out) option" where
  "MQTTDeserialize_publish out buf buflen = do {
     (h, i) \<leftarrow> readChar buf 0;
     if header_type h \<noteq> PUBLISH then Some (0, out)
     else do {
       let out = out\<lparr>pub_dup := word_of_nat (header_dup h), pub_qos := int (header_qos h),
                     pub_retained := word_of_nat (header_retain h)\<rparr>;
       (i, rc, enddata) \<leftarrow> read_length buf i;
       (ok, s, i) \<leftarrow> readMQTTLenString (pub_topic out) buf i enddata;
       let out = out\<lparr>pub_topic := s\<rparr>;
       if \<not> ok \<or> int enddata - int i < 0 then Some (rc, out)
       else do {
         (out, i) \<leftarrow> (if pub_qos out > 0 then do {
                        (n, i) \<leftarrow> readInt buf i;
                        Some (out\<lparr>pub_packetid := word_of_int n\<rparr>, i)
                      } else Some (out, i));
         Some (1, out\<lparr>pub_payloadlen := int enddata - int i, pub_payload := drop i buf\<rparr>)
       }
     }
   }"

text \<open>The type, the duplicate flag and the packet identifier of an acknowledgement.\<close>

record ack_out =
  ack_type :: u8
  ack_dup :: u8
  ack_packetid :: u16

definition MQTTDeserialize_ack :: "ack_out \<Rightarrow> u8 list \<Rightarrow> int \<Rightarrow> (int \<times> ack_out) option" where
  "MQTTDeserialize_ack out buf buflen = do {
     (h, i) \<leftarrow> readChar buf 0;
     let out = out\<lparr>ack_dup := word_of_nat (header_dup h), ack_type := word_of_nat (header_type h)\<rparr>;
     (i, rc, enddata) \<leftarrow> read_length buf i;
     if int enddata - int i < 2 then Some (rc, out)
     else do {
       (n, i) \<leftarrow> readInt buf i;
       Some (1, out\<lparr>ack_packetid := word_of_int n\<rparr>)
     }
   }"

section \<open>Publish\<close>

definition publish_body :: "int \<Rightarrow> u16 \<Rightarrow> u8 list \<Rightarrow> u8 list \<Rightarrow> u8 list" where
  "publish_body qos packetid topic payload =
     wire_str topic @ (if qos > 0 then be16 (uint packetid) else []) @ payload"

lemma publish_length_body:
  assumes "str_wf topic" "0 \<le> payloadlen" "payloadlen \<le> int (length payload)"
  shows "MQTTSerialize_publishLength qos topic payloadlen
    = int (length (publish_body qos packetid (str_bytes topic) (take (nat payloadlen) payload)))"
  using assms by (simp add: MQTTSerialize_publishLength_def publish_body_def strlen_bytes)

definition publish_packet :: "u8 \<Rightarrow> int \<Rightarrow> u8 \<Rightarrow> u16 \<Rightarrow> u8 list \<Rightarrow> u8 list \<Rightarrow> u8 list" where
  "publish_packet dup qos retain packetid topic payload =
     packet (header_byte PUBLISH (unat dup) (nat (qos mod 4)) (unat retain)) (publish_body qos packetid topic payload)"

lemma serialize_publish:
  assumes "str_wf topic" "0 \<le> payloadlen" "payloadlen \<le> int (length payload)"
    and "MQTTSerialize_publishLength qos topic payloadlen < 268435456"
    and "MQTTPacket_len (MQTTSerialize_publishLength qos topic payloadlen) \<le> buflen" "buflen \<le> int (length buf)"
    and pkt: "pkt = publish_packet dup qos retain packetid (str_bytes topic) (take (nat payloadlen) payload)"
  shows "MQTTSerialize_publish buf buflen dup qos retain packetid topic payload payloadlen
      = Some (int (length pkt), pkt @ drop (length pkt) buf)" and "int (length pkt) \<le> buflen"
proof -
  let ?body = "publish_body qos packetid (str_bytes topic) (take (nat payloadlen) payload)"
  note len = publish_length_body [OF assms(1-3), of qos packetid]
  show fits: "int (length pkt) \<le> buflen"
    using packet_fits [of ?body "header_byte PUBLISH (unat dup) (nat (qos mod 4)) (unat retain)"] assms(4,5)
    by (simp add: len pkt publish_packet_def)
  have nl: "\<not> MQTTPacket_len (int (length ?body)) > buflen" using assms(5) by (simp add: len)
  have "length pkt \<le> length buf" using fits assms(6) by simp
  then show "MQTTSerialize_publish buf buflen dup qos retain packetid topic payload payloadlen
      = Some (int (length pkt), pkt @ drop (length pkt) buf)"
    unfolding MQTTSerialize_publish_def Let_def len if_not_P [OF nl] pkt publish_packet_def
    using assms(2,3)
    by (intro serialize_packet)
      (simp_all add: writeMQTTString_put [OF assms(1)] writeInt_put mem_copy_put put_append put_append_bind publish_body_def)
qed

lemma deserialize_publish_steps:
  assumes "readChar b 0 = Some (h, 1)" "header_type h = PUBLISH" "read_length b 1 = Some (i, rc, e)"
    and "\<And>s. readMQTTLenString s b i e = Some (True, t, j)" "j \<le> e"
    and "header_qos h > 0 \<Longrightarrow> readInt b j = Some (uint packetid, k)" "header_qos h = 0 \<Longrightarrow> k = j"
  shows "MQTTDeserialize_publish out b buflen
    = Some (1, out\<lparr>pub_dup := word_of_nat (header_dup h), pub_qos := int (header_qos h),
        pub_retained := word_of_nat (header_retain h), pub_topic := t,
        pub_packetid := (if header_qos h > 0 then packetid else pub_packetid out),
        pub_payloadlen := int e - int k, pub_payload := drop k b\<rparr>)"
  using assms by (cases "header_qos h = 0") (simp_all add: MQTTDeserialize_publish_def)

lemma deserialize_publish:
  assumes "length topic < 65536" "length (publish_body qos packetid topic payload) < 268435456" "0 \<le> qos" "qos < 4"
    and pkt: "pkt = publish_packet dup qos retain packetid topic payload"
  shows "\<exists>out'. MQTTDeserialize_publish out (pkt @ cs) buflen = Some (1, out')
    \<and> unat (pub_dup out') = unat dup mod 2 \<and> pub_qos out' = qos \<and> unat (pub_retained out') = unat retain mod 2
    \<and> pub_packetid out' = (if qos > 0 then packetid else pub_packetid out)
    \<and> str_bytes (pub_topic out') = topic
    \<and> pub_payloadlen out' = int (length payload) \<and> take (length payload) (pub_payload out') = payload"
proof -
  let ?body = "publish_body qos packetid topic payload"
  let ?h = "header_byte PUBLISH (unat dup) (nat (qos mod 4)) (unat retain)"
  let ?id = "if qos > 0 then be16 (uint packetid) else []"
  define i j k where "i = 1 + length (enc (length ?body))" and "j = i + length (wire_str topic)" and "k = j + length ?id"
  have pk: "pkt = packet ?h ?body" by (simp add: pkt publish_packet_def)
  note start = read_packet_start [OF assms(2), of ?h cs, folded pk, folded i_def]
  have e: "length pkt = k + length payload" by (simp add: pk packet_def i_def j_def k_def publish_body_def)
  have at: "bytes_at (pkt @ cs) i (wire_str topic @ ?id @ payload)"
    using start(3) by (simp only: publish_body_def)
  then have at2: "bytes_at (pkt @ cs) j (?id @ payload)" and "bytes_at (pkt @ cs) k payload"
    by (simp_all only: bytes_at_append j_def k_def)
  then have pay: "take (length payload) (drop k (pkt @ cs)) = payload" by (simp add: bytes_at_def)
  have q: "header_qos ?h = nat qos" using assms(3,4) by (simp add: nat_mod_distrib)
  have "MQTTDeserialize_publish out (pkt @ cs) buflen
    = Some (1, out\<lparr>pub_dup := word_of_nat (header_dup ?h), pub_qos := int (header_qos ?h),
        pub_retained := word_of_nat (header_retain ?h), pub_topic := read_str (pkt @ cs) i topic,
        pub_packetid := (if header_qos ?h > 0 then packetid else pub_packetid out),
        pub_payloadlen := int (length pkt) - int k, pub_payload := drop k (pkt @ cs)\<rparr>)"
  proof (rule deserialize_publish_steps [OF start(1) _ start(2)])
    show "readMQTTLenString s (pkt @ cs) i (length pkt) = Some (True, read_str (pkt @ cs) i topic, j)" for s
      using readLenString_at [OF at assms(1), of "length pkt" s] e by (simp add: j_def k_def)
    show "readInt (pkt @ cs) j = Some (uint packetid, k)" if "header_qos ?h > 0"
      using at2 that q readInt_at [of "pkt @ cs" j "uint packetid" payload] uint_u16 [of packetid]
      by (simp add: k_def split: if_splits)
  qed (use q e in \<open>simp_all add: k_def\<close>)
  then show ?thesis
    unfolding q using str_bytes_read [OF at] pay e assms(3) by (simp add: word_of_nat_unat8)
qed

section \<open>Acknowledgements\<close>

lemma serialize_ack:
  assumes "4 \<le> buflen" "buflen \<le> int (length buf)"
    and pkt: "pkt = packet (header_byte type (unat dup) (if type = PUBREL then 1 else 0) 0) (be16 (uint packetid))"
  shows "MQTTSerialize_ack buf buflen type dup packetid = Some (4, pkt @ drop 4 buf)"
proof -
  have nl: "\<not> buflen < 4" using assms(1) by simp
  have len: "length (packet h (be16 n)) = 4" for h n by (simp add: packet_def enc.simps)
  have "MQTTSerialize_ack buf buflen type dup packetid = Some (int (length pkt), pkt @ drop (length pkt) buf)"
    unfolding MQTTSerialize_ack_def if_not_P [OF nl] pkt
    by (rule serialize_packet) (use assms(1,2) in \<open>simp_all add: writeInt_put len\<close>)
  then show ?thesis by (simp add: len pkt)
qed

lemma deserialize_ack:
  assumes "type < 16"
  shows "MQTTDeserialize_ack out (packet (header_byte type dup qos r) (be16 (uint packetid)) @ cs) buflen
    = Some (1, \<lparr>ack_type = word_of_nat type, ack_dup = word_of_nat (dup mod 2), ack_packetid = packetid\<rparr>)"
proof -
  let ?h = "header_byte type dup qos r" let ?p = "packet ?h (be16 (uint packetid))"
  have "length (be16 (uint packetid)) < 268435456" by simp
  note start = read_packet_start [OF this, of ?h cs]
  have e: "1 + length (enc (length (be16 (uint packetid)))) = 2" "length ?p = 4"
    by (simp_all add: packet_def enc.simps)
  have "readInt (?p @ cs) 2 = Some (uint packetid, 4)"
    using start(3) [unfolded e] readInt_at [of "?p @ cs" 2 "uint packetid" "[]"] uint_u16 [of packetid] by simp
  then show ?thesis
    using start(1,2) [unfolded e] assms by (simp add: MQTTDeserialize_ack_def)
qed

section \<open>Properties\<close>

text \<open>
  C7. Publish round trip: for a well-formed topic, a payload that exists and a quality of service
  of the two-bit field, when the buffer is as long as \<^verbatim>\<open>buflen\<close> says, \<^verbatim>\<open>MQTTSerialize_publish\<close> either
  refuses with \<^verbatim>\<open>MQTTPACKET_BUFFER_TOO_SHORT\<close> and leaves the buffer alone, or returns the number
  of bytes it wrote, at most \<^verbatim>\<open>buflen\<close>, leaves the rest of the buffer alone, and
  \<^verbatim>\<open>MQTTDeserialize_publish\<close> of the buffer returns 1 with the flags, the packet identifier (where
  the quality of service carries one), the topic's bytes and the payload that were given.
\<close>

theorem mqtt_publish_roundtrip:
  assumes "str_wf topic" "0 \<le> payloadlen" "payloadlen \<le> int (length payload)" "0 \<le> qos" "qos < 4"
    and "MQTTSerialize_publishLength qos topic payloadlen < 268435456" "buflen \<le> int (length buf)"
  shows "if MQTTPacket_len (MQTTSerialize_publishLength qos topic payloadlen) > buflen
    then MQTTSerialize_publish buf buflen dup qos retain packetid topic payload payloadlen = Some (- 2, buf)
    else \<exists>n buf' out'. MQTTSerialize_publish buf buflen dup qos retain packetid topic payload payloadlen = Some (int n, buf')
      \<and> int n \<le> buflen \<and> length buf' = length buf \<and> drop n buf' = drop n buf
      \<and> MQTTDeserialize_publish out buf' buflen = Some (1, out')
      \<and> unat (pub_dup out') = unat dup mod 2 \<and> pub_qos out' = qos \<and> unat (pub_retained out') = unat retain mod 2
      \<and> pub_packetid out' = (if qos > 0 then packetid else pub_packetid out)
      \<and> str_bytes (pub_topic out') = str_bytes topic
      \<and> pub_payloadlen out' = payloadlen
      \<and> take (nat payloadlen) (pub_payload out') = take (nat payloadlen) payload"
proof (cases "MQTTPacket_len (MQTTSerialize_publishLength qos topic payloadlen) > buflen")
  case True
  then show ?thesis by (simp add: MQTTSerialize_publish_def)
next
  case False
  let ?load = "take (nat payloadlen) payload"
  define pkt where "pkt = publish_packet dup qos retain packetid (str_bytes topic) ?load"
  note ser = serialize_publish [OF assms(1-3,6) _ assms(7) pkt_def]
  have fits: "int (length pkt) \<le> buflen" using False ser(2) by simp
  have topic: "length (str_bytes topic) < 65536"
    using assms(1) strlen_bytes [OF assms(1)] by (simp add: str_wf_def)
  have body: "length (publish_body qos packetid (str_bytes topic) ?load) < 268435456"
    using assms(6) publish_length_body [OF assms(1-3), of qos packetid] by simp
  have load: "length ?load = nat payloadlen" using assms(3) by simp
  obtain out' where "MQTTDeserialize_publish out (pkt @ drop (length pkt) buf) buflen = Some (1, out')"
    "unat (pub_dup out') = unat dup mod 2" "pub_qos out' = qos" "unat (pub_retained out') = unat retain mod 2"
    "pub_packetid out' = (if qos > 0 then packetid else pub_packetid out)"
    "str_bytes (pub_topic out') = str_bytes topic" "pub_payloadlen out' = payloadlen"
    "take (nat payloadlen) (pub_payload out') = ?load"
    using deserialize_publish [OF topic body assms(4,5) pkt_def, where out = out and cs = "drop (length pkt) buf"
        and buflen = buflen] assms(2) unfolding load by auto
  moreover have "length (pkt @ drop (length pkt) buf) = length buf" using fits assms(7) by simp
  ultimately show ?thesis using False ser(1) fits by (fastforce simp: not_less)
qed

theorem mqtt_publish_roundtrip_witness:
  "\<exists>n buf' out'. MQTTSerialize_publish (replicate 16 0) 16 0 1 1 7
        \<lparr>cstring = Some [116, 47, 97], ls_len = 0, ls_data = None\<rparr> [1, 2, 3] 3 = Some (int n, buf')
      \<and> int n \<le> 16 \<and> length buf' = length (replicate 16 (0 :: u8)) \<and> drop n buf' = drop n (replicate 16 0)
      \<and> MQTTDeserialize_publish \<lparr>pub_dup = 0, pub_qos = 0, pub_retained = 0, pub_packetid = 0,
            pub_topic = MQTTString_initializer, pub_payload = [], pub_payloadlen = 0\<rparr> buf' 16 = Some (1, out')
      \<and> unat (pub_dup out') = unat (0 :: u8) mod 2 \<and> pub_qos out' = 1 \<and> unat (pub_retained out') = unat (1 :: u8) mod 2
      \<and> pub_packetid out' = 7
      \<and> str_bytes (pub_topic out') = str_bytes \<lparr>cstring = Some [116, 47, 97], ls_len = 0, ls_data = None\<rparr>
      \<and> pub_payloadlen out' = 3
      \<and> take (nat 3) (pub_payload out') = take (nat 3) [1, 2, 3]"
  using mqtt_publish_roundtrip [of "\<lparr>cstring = Some [116, 47, 97], ls_len = 0, ls_data = None\<rparr>" 3 "[1, 2, 3]" 1 16
      "replicate 16 0" 0 1 7 "\<lparr>pub_dup = 0, pub_qos = 0, pub_retained = 0, pub_packetid = 0,
            pub_topic = MQTTString_initializer, pub_payload = [], pub_payloadlen = 0\<rparr>"]
  by (simp add: str_wf_def MQTTstrlen_def MQTTSerialize_publishLength_def MQTTPacket_len_def)

text \<open>
  Acknowledgement round trip: each of \<^verbatim>\<open>MQTTSerialize_puback\<close>, \<^verbatim>\<open>MQTTSerialize_pubrel\<close> and
  \<^verbatim>\<open>MQTTSerialize_pubcomp\<close> refuses a buffer of fewer than four bytes, and otherwise writes exactly
  four bytes that \<^verbatim>\<open>MQTTDeserialize_ack\<close> reads back as the packet's type, duplicate flag and
  identifier.
\<close>

theorem mqtt_ack_roundtrip:
  assumes "buflen \<le> int (length buf)"
    and "(type, dup, res) \<in> {(PUBACK, 0, MQTTSerialize_puback buf buflen packetid),
      (PUBREL, dup, MQTTSerialize_pubrel buf buflen dup packetid), (PUBCOMP, 0, MQTTSerialize_pubcomp buf buflen packetid)}"
  shows "if buflen < 4 then res = Some (- 2, buf)
    else \<exists>buf'. res = Some (4, buf') \<and> length buf' = length buf \<and> drop 4 buf' = drop 4 buf
      \<and> MQTTDeserialize_ack out buf' buflen
        = Some (1, \<lparr>ack_type = word_of_nat type, ack_dup = word_of_nat (unat dup mod 2), ack_packetid = packetid\<rparr>)"
proof -
  have res: "res = MQTTSerialize_ack buf buflen type dup packetid" and type: "type < 16"
    using assms(2) by (auto simp: MQTTSerialize_puback_def MQTTSerialize_pubrel_def MQTTSerialize_pubcomp_def)
  show ?thesis
  proof (cases "buflen < 4")
    case True
    then show ?thesis by (simp add: res MQTTSerialize_ack_def)
  next
    case False
    define pkt where "pkt = packet (header_byte type (unat dup) (if type = PUBREL then 1 else 0) 0) (be16 (uint packetid))"
    have "res = Some (4, pkt @ drop 4 buf)" using False serialize_ack [OF _ assms(1) pkt_def] by (simp add: res)
    moreover have "length pkt = 4" by (simp add: pkt_def packet_def enc.simps)
    ultimately show ?thesis
      using False assms(1) deserialize_ack [OF type] by (simp add: pkt_def)
  qed
qed

theorem mqtt_ack_roundtrip_witness:
  "\<exists>buf'. MQTTSerialize_pubrel (replicate 8 0) 8 1 0x1234 = Some (4, buf') \<and> length buf' = length (replicate 8 (0 :: u8))
      \<and> drop 4 buf' = drop 4 (replicate 8 0)
      \<and> MQTTDeserialize_ack \<lparr>ack_type = 0, ack_dup = 0, ack_packetid = 0\<rparr> buf' 8
        = Some (1, \<lparr>ack_type = 6, ack_dup = word_of_nat (unat (1 :: u8) mod 2), ack_packetid = 0x1234\<rparr>)"
  using mqtt_ack_roundtrip [of 8 "replicate 8 0" 6 1 "MQTTSerialize_pubrel (replicate 8 0) 8 1 0x1234" "0x1234"
      "\<lparr>ack_type = 0, ack_dup = 0, ack_packetid = 0\<rparr>"]
  by simp

end
