(* ===== verification/Mqtt_Subscribe.thy ===== *)
theory Mqtt_Subscribe
  imports Mqtt_Publish
begin

text \<open>
  \<^verbatim>\<open>MQTTSubscribeClient.c\<close>, \<^verbatim>\<open>MQTTSubscribeServer.c\<close>, \<^verbatim>\<open>MQTTUnsubscribeClient.c\<close> and
  \<^verbatim>\<open>MQTTUnsubscribeServer.c\<close>: lists of topic filters and their acknowledgements. A serializer gives its return value and the
  buffer afterwards, a deserializer its return value and the objects its output pointers point
  to; both are \<open>None\<close> when the code reads or writes outside one of its objects.
\<close>

section \<open>Subscribe\<close>

text \<open>
  The loops over the \<^verbatim>\<open>count\<close> strings of an array run from index \<open>i\<close>; an index past the array's
  end has no result.
\<close>

definition nth_opt :: "'a list \<Rightarrow> nat \<Rightarrow> 'a option" where
  "nth_opt xs i = (if i < length xs then Some (xs ! i) else None)"

function subscribe_length_loop :: "nat \<Rightarrow> nat \<Rightarrow> mqtt_string list \<Rightarrow> int \<Rightarrow> int option" where
  "subscribe_length_loop i count topicFilters len =
     (if i < count then do {
        t \<leftarrow> nth_opt topicFilters i;
        subscribe_length_loop (i + 1) count topicFilters (len + (2 + MQTTstrlen t + 1))
      } else Some len)"
  by pat_completeness auto
termination
  by (relation "measure (\<lambda>(i, count, ts, len). count - i)") auto

definition MQTTSerialize_subscribeLength :: "nat \<Rightarrow> mqtt_string list \<Rightarrow> int option" where
  "MQTTSerialize_subscribeLength count topicFilters = subscribe_length_loop 0 count topicFilters 2"

function subscribe_loop :: "nat \<Rightarrow> nat \<Rightarrow> mqtt_string list \<Rightarrow> u8 list \<Rightarrow> wbuf \<Rightarrow> wbuf option" where
  "subscribe_loop i count topicFilters requestedQoSs p =
     (if i < count then do {
        t \<leftarrow> nth_opt topicFilters i;
        p \<leftarrow> writeMQTTString p t;
        q \<leftarrow> nth_opt requestedQoSs i;
        p \<leftarrow> writeChar p q;
        subscribe_loop (i + 1) count topicFilters requestedQoSs p
      } else Some p)"
  by pat_completeness auto
termination
  by (relation "measure (\<lambda>(i, count, ts, qs, p). count - i)") auto

definition MQTTSerialize_subscribe ::
    "u8 list \<Rightarrow> int \<Rightarrow> u8 \<Rightarrow> u16 \<Rightarrow> nat \<Rightarrow> mqtt_string list \<Rightarrow> u8 list \<Rightarrow> (int \<times> u8 list) option" where
  "MQTTSerialize_subscribe buf buflen dup packetid count topicFilters requestedQoSs = do {
     rem_len \<leftarrow> MQTTSerialize_subscribeLength count topicFilters;
     if MQTTPacket_len rem_len > buflen then Some (MQTTPACKET_BUFFER_TOO_SHORT, buf)
     else do {
       p \<leftarrow> writeChar (buf, 0) (header_byte SUBSCRIBE (unat dup) 1 0);
       (_, p) \<leftarrow> MQTTPacket_encode p rem_len;
       p \<leftarrow> writeInt p (uint packetid);
       p \<leftarrow> subscribe_loop 0 count topicFilters requestedQoSs p;
       Some (int (snd p), fst p)
     }
   }"

text \<open>\<open>grantedQoSs\<close> is the caller's array, \<open>count\<close> the number of entries written so far.\<close>

function suback_loop :: "u8 list \<Rightarrow> nat \<Rightarrow> nat \<Rightarrow> int \<Rightarrow> nat \<Rightarrow> int list \<Rightarrow> (int \<times> nat \<times> int list) option" where
  "suback_loop buf i enddata maxcount count grantedQoSs =
     (if i < enddata then
        if int count > maxcount then Some (- 1, count, grantedQoSs)
        else do {
          (c, _) \<leftarrow> readChar buf i;
          if count < length grantedQoSs
          then suback_loop buf (i + 1) enddata maxcount (count + 1) (grantedQoSs[count := uint c])
          else None
        }
      else Some (1, count, grantedQoSs))"
  by pat_completeness auto
termination
  by (relation "measure (\<lambda>(b, i, e, m, c, g). e - i)") auto

record suback_out =
  suback_packetid :: u16
  suback_count :: nat
  grantedQoSs :: "int list"

definition MQTTDeserialize_suback :: "suback_out \<Rightarrow> int \<Rightarrow> u8 list \<Rightarrow> int \<Rightarrow> (int \<times> suback_out) option" where
  "MQTTDeserialize_suback out maxcount buf buflen = do {
     (h, i) \<leftarrow> readChar buf 0;
     if header_type h \<noteq> SUBACK then Some (0, out)
     else do {
       (i, rc, enddata) \<leftarrow> read_length buf i;
       if int enddata - int i < 2 then Some (rc, out)
       else do {
         (n, i) \<leftarrow> readInt buf i;
         (rc, count, qs) \<leftarrow> suback_loop buf i enddata maxcount 0 (grantedQoSs out);
         Some (rc, \<lparr>suback_packetid = word_of_int n, suback_count = count, grantedQoSs = qs\<rparr>)
       }
     }
   }"

record subscribe_out =
  sub_dup :: u8
  sub_packetid :: u16
  sub_count :: nat
  sub_topics :: "mqtt_string list"
  sub_qoss :: "int list"

lemma readMQTTLenString_advances:
  "readMQTTLenString s b i e = Some (True, t, j) \<Longrightarrow> i < j \<and> j \<le> e"
  by (auto simp: readMQTTLenString_def readInt_def bind_eq_Some_conv split: if_splits)

text \<open>The return code \<open>rc\<close> stays what it was when a string or its quality of service is missing.\<close>

function deserialize_subscribe_loop ::
    "u8 list \<Rightarrow> nat \<Rightarrow> nat \<Rightarrow> int \<Rightarrow> subscribe_out \<Rightarrow> (int \<times> subscribe_out) option" where
  "deserialize_subscribe_loop buf i enddata rc out =
     (if i < enddata then do {
        t \<leftarrow> nth_opt (sub_topics out) (sub_count out);
        (ok, t, j) \<leftarrow> readMQTTLenString t buf i enddata;
        let out = out\<lparr>sub_topics := (sub_topics out)[sub_count out := t]\<rparr>;
        if \<not> ok then Some (rc, out)
        else if j \<ge> enddata then Some (rc, out)
        else do {
          (c, j) \<leftarrow> readChar buf j;
          _ \<leftarrow> nth_opt (sub_qoss out) (sub_count out);
          deserialize_subscribe_loop buf j enddata rc
            (out\<lparr>sub_qoss := (sub_qoss out)[sub_count out := uint c], sub_count := sub_count out + 1\<rparr>)
        }
      } else Some (1, out))"
  by pat_completeness auto
termination
  by (relation "measure (\<lambda>(b, i, e, rc, out). e - i)")
    (auto dest!: readMQTTLenString_advances simp: readChar_def split: if_splits)

definition MQTTDeserialize_subscribe :: "subscribe_out \<Rightarrow> int \<Rightarrow> u8 list \<Rightarrow> int \<Rightarrow> (int \<times> subscribe_out) option" where
  "MQTTDeserialize_subscribe out maxcount buf buflen = do {
     (h, i) \<leftarrow> readChar buf 0;
     if header_type h \<noteq> SUBSCRIBE then Some (- 1, out)
     else do {
       let out = out\<lparr>sub_dup := word_of_nat (header_dup h)\<rparr>;
       (i, rc, enddata) \<leftarrow> read_length buf i;
       (n, i) \<leftarrow> readInt buf i;
       deserialize_subscribe_loop buf i enddata rc (out\<lparr>sub_packetid := word_of_int n, sub_count := 0\<rparr>)
     }
   }"

text \<open>The elements of the \<^verbatim>\<open>int\<close> array go through the \<^verbatim>\<open>char\<close> parameter of \<^verbatim>\<open>writeChar\<close>.\<close>

function serialize_suback_loop :: "nat \<Rightarrow> nat \<Rightarrow> int list \<Rightarrow> wbuf \<Rightarrow> wbuf option" where
  "serialize_suback_loop i count qoss p =
     (if i < count then do {
        q \<leftarrow> nth_opt qoss i;
        p \<leftarrow> writeChar p (word_of_int q);
        serialize_suback_loop (i + 1) count qoss p
      } else Some p)"
  by pat_completeness auto
termination
  by (relation "measure (\<lambda>(i, count, qs, p). count - i)") auto

definition MQTTSerialize_suback :: "u8 list \<Rightarrow> int \<Rightarrow> u16 \<Rightarrow> nat \<Rightarrow> int list \<Rightarrow> (int \<times> u8 list) option" where
  "MQTTSerialize_suback buf buflen packetid count qoss =
     (if buflen < 2 + int count then Some (MQTTPACKET_BUFFER_TOO_SHORT, buf)
      else do {
        p \<leftarrow> writeChar (buf, 0) (header_byte SUBACK 0 0 0);
        (_, p) \<leftarrow> MQTTPacket_encode p (2 + int count);
        p \<leftarrow> writeInt p (uint packetid);
        p \<leftarrow> serialize_suback_loop 0 count qoss p;
        Some (int (snd p), fst p)
      })"

declare subscribe_length_loop.simps [simp del] subscribe_loop.simps [simp del] suback_loop.simps [simp del]
  deserialize_subscribe_loop.simps [simp del] serialize_suback_loop.simps [simp del]

section \<open>Unsubscribe\<close>

function unsubscribe_length_loop :: "nat \<Rightarrow> nat \<Rightarrow> mqtt_string list \<Rightarrow> int \<Rightarrow> int option" where
  "unsubscribe_length_loop i count topicFilters len =
     (if i < count then do {
        t \<leftarrow> nth_opt topicFilters i;
        unsubscribe_length_loop (i + 1) count topicFilters (len + (2 + MQTTstrlen t))
      } else Some len)"
  by pat_completeness auto
termination
  by (relation "measure (\<lambda>(i, count, ts, len). count - i)") auto

definition MQTTSerialize_unsubscribeLength :: "nat \<Rightarrow> mqtt_string list \<Rightarrow> int option" where
  "MQTTSerialize_unsubscribeLength count topicFilters = unsubscribe_length_loop 0 count topicFilters 2"

function unsubscribe_loop :: "nat \<Rightarrow> nat \<Rightarrow> mqtt_string list \<Rightarrow> wbuf \<Rightarrow> wbuf option" where
  "unsubscribe_loop i count topicFilters p =
     (if i < count then do {
        t \<leftarrow> nth_opt topicFilters i;
        p \<leftarrow> writeMQTTString p t;
        unsubscribe_loop (i + 1) count topicFilters p
      } else Some p)"
  by pat_completeness auto
termination
  by (relation "measure (\<lambda>(i, count, ts, p). count - i)") auto

definition MQTTSerialize_unsubscribe ::
    "u8 list \<Rightarrow> int \<Rightarrow> u8 \<Rightarrow> u16 \<Rightarrow> nat \<Rightarrow> mqtt_string list \<Rightarrow> (int \<times> u8 list) option" where
  "MQTTSerialize_unsubscribe buf buflen dup packetid count topicFilters = do {
     rem_len \<leftarrow> MQTTSerialize_unsubscribeLength count topicFilters;
     if MQTTPacket_len rem_len > buflen then Some (MQTTPACKET_BUFFER_TOO_SHORT, buf)
     else do {
       p \<leftarrow> writeChar (buf, 0) (header_byte UNSUBSCRIBE (unat dup) 1 0);
       (_, p) \<leftarrow> MQTTPacket_encode p rem_len;
       p \<leftarrow> writeInt p (uint packetid);
       p \<leftarrow> unsubscribe_loop 0 count topicFilters p;
       Some (int (snd p), fst p)
     }
   }"

definition MQTTDeserialize_unsuback :: "u16 \<Rightarrow> u8 list \<Rightarrow> int \<Rightarrow> (int \<times> u16) option" where
  "MQTTDeserialize_unsuback packetid buf buflen = do {
     (rc, out) \<leftarrow> MQTTDeserialize_ack \<lparr>ack_type = 0, ack_dup = 0, ack_packetid = packetid\<rparr> buf buflen;
     Some (if unat (ack_type out) = UNSUBACK then 1 else rc, ack_packetid out)
   }"

record unsubscribe_out =
  unsub_dup :: u8
  unsub_packetid :: u16
  unsub_count :: nat
  unsub_topics :: "mqtt_string list"

function deserialize_unsubscribe_loop ::
    "u8 list \<Rightarrow> nat \<Rightarrow> nat \<Rightarrow> int \<Rightarrow> unsubscribe_out \<Rightarrow> (int \<times> unsubscribe_out) option" where
  "deserialize_unsubscribe_loop buf i enddata rc out =
     (if i < enddata then do {
        t \<leftarrow> nth_opt (unsub_topics out) (unsub_count out);
        (ok, t, j) \<leftarrow> readMQTTLenString t buf i enddata;
        let out = out\<lparr>unsub_topics := (unsub_topics out)[unsub_count out := t]\<rparr>;
        if \<not> ok then Some (rc, out)
        else deserialize_unsubscribe_loop buf j enddata rc (out\<lparr>unsub_count := unsub_count out + 1\<rparr>)
      } else Some (1, out))"
  by pat_completeness auto
termination
  by (relation "measure (\<lambda>(b, i, e, rc, out). e - i)") (auto dest!: readMQTTLenString_advances)

definition MQTTDeserialize_unsubscribe ::
    "unsubscribe_out \<Rightarrow> int \<Rightarrow> u8 list \<Rightarrow> int \<Rightarrow> (int \<times> unsubscribe_out) option" where
  "MQTTDeserialize_unsubscribe out maxcount buf len = do {
     (h, i) \<leftarrow> readChar buf 0;
     if header_type h \<noteq> UNSUBSCRIBE then Some (0, out)
     else do {
       let out = out\<lparr>unsub_dup := word_of_nat (header_dup h)\<rparr>;
       (i, rc, enddata) \<leftarrow> read_length buf i;
       (n, i) \<leftarrow> readInt buf i;
       deserialize_unsubscribe_loop buf i enddata rc (out\<lparr>unsub_packetid := word_of_int n, unsub_count := 0\<rparr>)
     }
   }"

definition MQTTSerialize_unsuback :: "u8 list \<Rightarrow> int \<Rightarrow> u16 \<Rightarrow> (int \<times> u8 list) option" where
  "MQTTSerialize_unsuback buf buflen packetid =
     (if buflen < 2 then Some (MQTTPACKET_BUFFER_TOO_SHORT, buf)
      else do {
        p \<leftarrow> writeChar (buf, 0) (header_byte UNSUBACK 0 0 0);
        (_, p) \<leftarrow> MQTTPacket_encode p 2;
        p \<leftarrow> writeInt p (uint packetid);
        Some (int (snd p), fst p)
      })"

declare unsubscribe_length_loop.simps [simp del] unsubscribe_loop.simps [simp del]
  deserialize_unsubscribe_loop.simps [simp del]

section \<open>The list of filters on the wire\<close>

definition sub_wire :: "u8 list list \<Rightarrow> u8 list \<Rightarrow> nat \<Rightarrow> nat \<Rightarrow> u8 list" where
  "sub_wire ss qs i count = concat (map (\<lambda>k. wire_str (ss ! k) @ [qs ! k]) [i..<count])"

lemma sub_wire_step: "i < count \<Longrightarrow> sub_wire ss qs i count = wire_str (ss ! i) @ [qs ! i] @ sub_wire ss qs (i + 1) count"
  by (simp add: sub_wire_def upt_conv_Cons)

lemma sub_wire_done: "count \<le> i \<Longrightarrow> sub_wire ss qs i count = []"
  by (simp add: sub_wire_def)

lemma subscribe_length_wire:
  assumes "\<forall>t \<in> set ts. str_wf t" "count \<le> length ts"
  shows "subscribe_length_loop i count ts len = Some (len + int (length (sub_wire (map str_bytes ts) qs i count)))"
proof (induction "count - i" arbitrary: i len)
  case 0
  then show ?case by (simp add: subscribe_length_loop.simps [of i] sub_wire_done)
next
  case (Suc n)
  then have i: "i < count" "i < length ts" "n = count - (i + 1)" using assms(2) by simp_all
  then have "MQTTstrlen (ts ! i) = int (length (str_bytes (ts ! i)))"
    using assms(1) by (simp add: strlen_bytes)
  with i Suc(1) [OF i(3)] show ?case
    by (simp add: subscribe_length_loop.simps [of i] sub_wire_step nth_opt_def)
qed

lemma subscribe_loop_put:
  assumes "\<forall>t \<in> set ts. str_wf t" "count \<le> length ts" "count \<le> length qs"
  shows "put p xs \<bind> subscribe_loop i count ts qs = put p (xs @ sub_wire (map str_bytes ts) qs i count)"
proof (induction "count - i" arbitrary: i xs)
  case 0
  then have "subscribe_loop i count ts qs = Some" by (auto simp: subscribe_loop.simps [of i])
  with 0 show ?case by (simp add: sub_wire_done)
next
  case (Suc n)
  then have i: "i < count" "i < length ts" "i < length qs" "n = count - (i + 1)" using assms(2,3) by simp_all
  then have "str_wf (ts ! i)" using assms(1) by simp
  with i have "subscribe_loop i count ts qs
      = (\<lambda>p. put p (wire_str (str_bytes (ts ! i)) @ [qs ! i]) \<bind> subscribe_loop (i + 1) count ts qs)"
    by (intro ext) (simp add: subscribe_loop.simps [of i] nth_opt_def writeMQTTString_put writeChar_put put_append_bind)
  with i Suc(1) [OF i(4), of "xs @ wire_str (str_bytes (ts ! i)) @ [qs ! i]"] show ?case
    by (simp add: put_append_bind sub_wire_step)
qed

lemma serialize_subscribe:
  assumes "\<forall>t \<in> set ts. str_wf t" "count \<le> length ts" "count \<le> length qs"
    and body: "body = be16 (uint packetid) @ sub_wire (map str_bytes ts) qs 0 count"
    and "length body < 268435456" "MQTTPacket_len (int (length body)) \<le> buflen" "buflen \<le> int (length buf)"
    and pkt: "pkt = packet (header_byte SUBSCRIBE (unat dup) 1 0) body"
  shows "MQTTSerialize_subscribe buf buflen dup packetid count ts qs = Some (int (length pkt), pkt @ drop (length pkt) buf)"
    and "int (length pkt) \<le> buflen"
proof -
  have len: "MQTTSerialize_subscribeLength count ts = Some (int (length body))"
    using subscribe_length_wire [OF assms(1,2), of 0 2 qs] by (simp add: MQTTSerialize_subscribeLength_def body)
  show fits: "int (length pkt) \<le> buflen" unfolding pkt using packet_fits [OF assms(5)] assms(6) by (rule order_trans)
  have nl: "\<not> MQTTPacket_len (int (length body)) > buflen" using assms(6) by simp
  have "length pkt \<le> length buf" using fits assms(7) by simp
  moreover have "writeInt p (uint packetid) \<bind> (\<lambda>p. subscribe_loop 0 count ts qs p \<bind> g) = put p body \<bind> g" for p g
    using subscribe_loop_put [OF assms(1-3), of p "be16 (uint packetid)" 0]
    by (simp add: writeInt_put body flip: bind_assoc)
  ultimately show "MQTTSerialize_subscribe buf buflen dup packetid count ts qs = Some (int (length pkt), pkt @ drop (length pkt) buf)"
    unfolding MQTTSerialize_subscribe_def len bind.bind_lunit Let_def if_not_P [OF nl] pkt
    by (intro serialize_packet) simp_all
qed

text \<open>
  The loop of the deserializer over the filters from \<open>k\<close> on: it fills the arrays with them and
  leaves what is below \<open>k\<close>.
\<close>

definition sub_filled :: "u8 list list \<Rightarrow> u8 list \<Rightarrow> nat \<Rightarrow> nat \<Rightarrow> subscribe_out \<Rightarrow> subscribe_out \<Rightarrow> bool" where
  "sub_filled ss qs k count out out' \<longleftrightarrow>
     sub_dup out' = sub_dup out \<and> sub_packetid out' = sub_packetid out \<and> sub_count out' = count
     \<and> length (sub_topics out') = length (sub_topics out) \<and> length (sub_qoss out') = length (sub_qoss out)
     \<and> (\<forall>m < k. sub_topics out' ! m = sub_topics out ! m \<and> sub_qoss out' ! m = sub_qoss out ! m)
     \<and> (\<forall>m. k \<le> m \<and> m < count \<longrightarrow> str_bytes (sub_topics out' ! m) = ss ! m \<and> sub_qoss out' ! m = uint (qs ! m))"

lemma sub_filled_step:
  assumes "sub_filled ss qs (k + 1) count (out\<lparr>sub_topics := (sub_topics out)[k := t], sub_qoss := (sub_qoss out)[k := uint (qs ! k)],
      sub_count := k + 1\<rparr>) out'" "k < length (sub_topics out)" "k < length (sub_qoss out)" "str_bytes t = ss ! k"
  shows "sub_filled ss qs k count out out'"
  unfolding sub_filled_def
proof (intro conjI allI impI)
  fix m assume m: "k \<le> m \<and> m < count"
  show "str_bytes (sub_topics out' ! m) = ss ! m" "sub_qoss out' ! m = uint (qs ! m)"
    using assms m by (cases "m = k"; simp add: sub_filled_def)+
qed (use assms in \<open>simp_all add: sub_filled_def\<close>)

lemma deserialize_subscribe_loop_fills:
  assumes "bytes_at b i (sub_wire ss qs k count)" "e = i + length (sub_wire ss qs k count)" "k \<le> count"
    and "\<forall>m < count. length (ss ! m) < 65536"
    and "sub_count out = k" "count \<le> length (sub_topics out)" "count \<le> length (sub_qoss out)"
  shows "\<exists>out'. deserialize_subscribe_loop b i e rc out = Some (1, out') \<and> sub_filled ss qs k count out out'"
  using assms
proof (induction "count - k" arbitrary: k i out)
  case 0
  then show ?case
    by (intro exI [of _ out])
      (auto simp: deserialize_subscribe_loop.simps [of b i] sub_wire_done sub_filled_def)
next
  case (Suc n)
  then have k: "k < count" "n = count - (k + 1)" by simp_all
  let ?j = "i + length (wire_str (ss ! k))" let ?t = "read_str b i (ss ! k)"
  let ?out = "out\<lparr>sub_topics := (sub_topics out)[k := ?t], sub_qoss := (sub_qoss out)[k := uint (qs ! k)], sub_count := k + 1\<rparr>"
  have at: "bytes_at b i (wire_str (ss ! k) @ [qs ! k] @ sub_wire ss qs (k + 1) count)"
    using Suc(3) by (simp only: sub_wire_step [OF k(1)])
  have e: "e = ?j + 1 + length (sub_wire ss qs (k + 1) count)" using Suc(4) sub_wire_step [OF k(1), of ss qs] by simp
  have read: "readMQTTLenString s b i e = Some (True, ?t, ?j)" for s
    using readLenString_at [OF at, of e s] Suc(6) k(1) e by simp
  have "bytes_at b ?j ([qs ! k] @ sub_wire ss qs (k + 1) count)" using at by (simp only: bytes_at_append [of _ _ "wire_str _"])
  then have c: "readChar b ?j = Some (qs ! k, ?j + 1)" and rest: "bytes_at b (?j + 1) (sub_wire ss qs (k + 1) count)"
    by (simp_all add: readChar_def bytes_at_Cons)
  obtain out' where out': "deserialize_subscribe_loop b (?j + 1) e rc ?out = Some (1, out')" "sub_filled ss qs (k + 1) count ?out out'"
    using Suc(1) [OF k(2) rest e, of ?out] Suc(6-9) k(1) by auto
  have "i < e" "\<not> e \<le> ?j" using e by simp_all
  then have "deserialize_subscribe_loop b i e rc out = deserialize_subscribe_loop b (?j + 1) e rc ?out"
    using Suc(7-9) k(1) read c by (simp add: deserialize_subscribe_loop.simps [of b i] nth_opt_def)
  moreover have "sub_filled ss qs k count out out'"
    using out'(2) Suc(8,9) k(1) str_bytes_read [OF at] by (intro sub_filled_step [of ss qs k count out ?t]) simp_all
  ultimately show ?case using out'(1) by simp
qed

section \<open>Granted qualities of service\<close>

definition suback_body :: "u16 \<Rightarrow> int list \<Rightarrow> u8 list" where
  "suback_body packetid qs = be16 (uint packetid) @ map word_of_int qs"

lemma serialize_suback_loop_put:
  assumes "count \<le> length qs"
  shows "put p xs \<bind> serialize_suback_loop i count qs = put p (xs @ map word_of_int (drop i (take count qs)))"
proof (induction "count - i" arbitrary: i xs)
  case 0
  then have "serialize_suback_loop i count qs = Some" by (auto simp: serialize_suback_loop.simps [of i])
  with 0 show ?case by simp
next
  case (Suc n)
  then have i: "i < count" "i < length qs" "n = count - (i + 1)" using assms by simp_all
  then have "serialize_suback_loop i count qs = (\<lambda>p. put p [word_of_int (qs ! i)] \<bind> serialize_suback_loop (i + 1) count qs)"
    by (intro ext) (simp add: serialize_suback_loop.simps [of i] nth_opt_def writeChar_put)
  moreover have "drop i (take count qs) = qs ! i # drop (i + 1) (take count qs)"
    using i assms Cons_nth_drop_Suc [of i "take count qs"] by simp
  ultimately show ?case using Suc(1) [OF i(3), of "xs @ [word_of_int (qs ! i)]"] by (simp add: put_append_bind)
qed

text \<open>The bytes are written through the buffer's pointer whatever the check of \<^verbatim>\<open>buflen\<close> let pass.\<close>

lemma serialize_suback:
  assumes "2 + int count \<le> buflen" "count \<le> length qs"
    and pkt: "pkt = packet (header_byte SUBACK 0 0 0) (suback_body packetid (take count qs))"
  shows "MQTTSerialize_suback buf buflen packetid count qs
    = (if length pkt \<le> length buf then Some (int (length pkt), pkt @ drop (length pkt) buf) else None)"
proof -
  let ?h = "header_byte SUBACK 0 0 0" let ?body = "suback_body packetid (take count qs)"
  have nl: "\<not> buflen < 2 + int count" using assms(1) by simp
  have len: "2 + int count = int (length ?body)" using assms(2) by (simp add: suback_body_def)
  have f: "writeInt p (uint packetid) \<bind> (\<lambda>p. serialize_suback_loop 0 count qs p \<bind> g) = put p ?body \<bind> g" for p g
    using serialize_suback_loop_put [OF assms(2), of p "be16 (uint packetid)" 0]
    by (simp add: writeInt_put suback_body_def flip: bind_assoc)
  show ?thesis
    unfolding MQTTSerialize_suback_def if_not_P [OF nl] pkt
    by (rule serialize_packet_if) (simp_all only: f len)
qed

lemma suback_loop_fills:
  assumes "bytes_at b i cs" "int (k + length cs) \<le> maxcount + 1" "k + length cs \<le> length g"
  shows "suback_loop b i (i + length cs) maxcount k g
    = Some (1, k + length cs, take k g @ map uint cs @ drop (k + length cs) g)"
  using assms
proof (induction cs arbitrary: i k g)
  case Nil
  then show ?case by (simp add: suback_loop.simps [of b i])
next
  case (Cons c cs)
  then have c: "readChar b i = Some (c, i + 1)" "bytes_at b (i + 1) cs" by (simp_all add: readChar_def bytes_at_Cons)
  have "suback_loop b i (i + length (c # cs)) maxcount k g
      = suback_loop b (i + 1) ((i + 1) + length cs) maxcount (k + 1) (g[k := uint c])"
    using Cons(3,4) c(1) by (simp add: suback_loop.simps [of b i])
  also have "\<dots> = Some (1, k + 1 + length cs, take (k + 1) (g[k := uint c]) @ map uint cs @ drop (k + 1 + length cs) (g[k := uint c]))"
    using Cons(3,4) by (intro Cons(1) c(2)) simp_all
  finally show ?case using Cons(4) by (simp add: take_Suc_conv_app_nth)
qed

lemma suback_loop_overruns:
  assumes "bytes_at b i cs" "int (length g) \<le> maxcount" "k \<le> length g" "length g < k + length cs"
  shows "suback_loop b i (i + length cs) maxcount k g = None"
  using assms
proof (induction cs arbitrary: i k g)
  case (Cons c cs)
  then have c: "readChar b i = Some (c, i + 1)" "bytes_at b (i + 1) cs" by (simp_all add: readChar_def bytes_at_Cons)
  show ?case
  proof (cases "k < length g")
    case True
    then have "suback_loop b i (i + length (c # cs)) maxcount k g
        = suback_loop b (i + 1) ((i + 1) + length cs) maxcount (k + 1) (g[k := uint c])"
      using Cons(3) c(1) by (simp add: suback_loop.simps [of b i])
    also have "\<dots> = None" using Cons(3,5) True by (intro Cons(1) c(2)) simp_all
    finally show ?thesis .
  next
    case False
    with Cons(3,4) c(1) show ?thesis by (simp add: suback_loop.simps [of b i])
  qed
qed simp

lemma deserialize_suback:
  assumes "length qs < 268435454" and pkt: "pkt = packet (header_byte SUBACK 0 0 0) (suback_body packetid qs)"
  shows "\<exists>i. bytes_at (pkt @ cs) i (map word_of_int qs) \<and> MQTTDeserialize_suback out maxcount (pkt @ cs) buflen =
    map_option (\<lambda>(rc, count, g). (rc, \<lparr>suback_packetid = packetid, suback_count = count, grantedQoSs = g\<rparr>))
      (suback_loop (pkt @ cs) i (i + length qs) maxcount 0 (grantedQoSs out))"
proof -
  let ?body = "suback_body packetid qs"
  define i where "i = 1 + length (enc (length ?body))"
  have len: "length ?body < 268435456" using assms(1) by (simp add: suback_body_def)
  note start = read_packet_start [OF len, of "header_byte SUBACK 0 0 0" cs, folded pkt, folded i_def]
  have e: "length pkt = i + 2 + length qs" by (simp add: pkt packet_def i_def suback_body_def)
  have at: "bytes_at (pkt @ cs) i (be16 (uint packetid) @ map word_of_int qs)" using start(3) by (simp only: suback_body_def)
  then have "readInt (pkt @ cs) i = Some (uint packetid, i + 2)" using readInt_at [OF at] uint_u16 [of packetid] by simp
  then have "MQTTDeserialize_suback out maxcount (pkt @ cs) buflen =
    map_option (\<lambda>(rc, count, g). (rc, \<lparr>suback_packetid = packetid, suback_count = count, grantedQoSs = g\<rparr>))
      (suback_loop (pkt @ cs) (i + 2) (i + 2 + length qs) maxcount 0 (grantedQoSs out))"
    using start(1,2) e
    by (cases "suback_loop (pkt @ cs) (i + 2) (i + 2 + length qs) maxcount 0 (grantedQoSs out)")
      (simp_all add: MQTTDeserialize_suback_def split: prod.split)
  moreover have "bytes_at (pkt @ cs) (i + 2) (map word_of_int qs)" using at by (simp add: bytes_at_append)
  ultimately show ?thesis by blast
qed

section \<open>Properties\<close>

text \<open>
  C9. Subscribe round trip: for well-formed filters, \<^verbatim>\<open>MQTTSerialize_subscribe\<close> refuses a buffer that
  \<^verbatim>\<open>MQTTPacket_len\<close> finds too short and leaves it alone; otherwise it writes at most \<^verbatim>\<open>buflen\<close> bytes,
  leaves the rest, and \<^verbatim>\<open>MQTTDeserialize_subscribe\<close> into arrays of at least \<^verbatim>\<open>count\<close> entries returns 1
  with the duplicate flag, the packet identifier, the count, and for each filter its bytes and
  requested quality of service, in order.
\<close>

theorem mqtt_subscribe_roundtrip:
  assumes "\<forall>t \<in> set ts. str_wf t" "count \<le> length ts" "count \<le> length qs"
    and "MQTTSerialize_subscribeLength count ts = Some len" "len < 268435456" "buflen \<le> int (length buf)"
    and "count \<le> length (sub_topics out)" "count \<le> length (sub_qoss out)"
  shows "if MQTTPacket_len len > buflen
    then MQTTSerialize_subscribe buf buflen dup packetid count ts qs = Some (- 2, buf)
    else \<exists>n buf' out'. MQTTSerialize_subscribe buf buflen dup packetid count ts qs = Some (int n, buf')
      \<and> int n \<le> buflen \<and> length buf' = length buf \<and> drop n buf' = drop n buf
      \<and> MQTTDeserialize_subscribe out maxcount buf' buflen = Some (1, out')
      \<and> unat (sub_dup out') = unat dup mod 2 \<and> sub_packetid out' = packetid \<and> sub_count out' = count
      \<and> (\<forall>m < count. str_bytes (sub_topics out' ! m) = str_bytes (ts ! m) \<and> sub_qoss out' ! m = uint (qs ! m))"
proof (cases "MQTTPacket_len len > buflen")
  case True
  then show ?thesis using assms(4) by (simp add: MQTTSerialize_subscribe_def)
next
  case False
  let ?ss = "map str_bytes ts" let ?w = "sub_wire (map str_bytes ts) qs 0 count"
  define body where "body = be16 (uint packetid) @ ?w"
  define h where "h = header_byte SUBSCRIBE (unat dup) 1 0"
  define pkt where "pkt = packet h body"
  define b where "b = pkt @ drop (length pkt) buf"
  have len: "len = int (length body)"
    using assms(4) subscribe_length_wire [OF assms(1,2), of 0 2 qs] by (simp add: MQTTSerialize_subscribeLength_def body_def)
  have blen: "length body < 268435456" using assms(5) len by simp
  note ser = serialize_subscribe [OF assms(1-3) body_def blen _ assms(6), of pkt dup, folded h_def, OF _ pkt_def]
  have fits: "int (length pkt) \<le> buflen" using ser(2) False len by simp
  define i where "i = 1 + length (enc (length body))"
  note start = read_packet_start [OF blen, of h "drop (length pkt) buf", folded pkt_def, folded b_def i_def]
  have at: "bytes_at b i (be16 (uint packetid) @ ?w)" using start(3) by (simp only: body_def)
  have e: "length pkt = i + 2 + length ?w" by (simp add: pkt_def packet_def i_def body_def)
  have id: "readInt b i = Some (uint packetid, i + 2)" using readInt_at [OF at] uint_u16 [of packetid] by simp
  have w: "bytes_at b (i + 2) ?w" using at by (simp add: bytes_at_append)
  have ss: "\<forall>m < count. length (?ss ! m) < 65536"
  proof (intro allI impI)
    fix m assume m: "m < count"
    then have "str_wf (ts ! m)" using assms(1,2) by simp
    with m assms(2) strlen_bytes [OF this] show "length (?ss ! m) < 65536" by (simp add: str_wf_def)
  qed
  let ?out = "out\<lparr>sub_dup := word_of_nat (header_dup h), sub_packetid := packetid, sub_count := 0\<rparr>"
  obtain out' where out': "deserialize_subscribe_loop b (i + 2) (length pkt) (int (length (enc (length body)))) ?out = Some (1, out')"
    "sub_filled ?ss qs 0 count ?out out'"
    using deserialize_subscribe_loop_fills [OF w e _ ss, of ?out] assms(7,8) by auto
  have "MQTTDeserialize_subscribe out maxcount b buflen = Some (1, out')"
    using start(1,2) id out'(1) by (simp add: MQTTDeserialize_subscribe_def h_def i_def)
  moreover have "unat (sub_dup out') = unat dup mod 2" "sub_packetid out' = packetid" "sub_count out' = count"
    "\<forall>m < count. str_bytes (sub_topics out' ! m) = str_bytes (ts ! m) \<and> sub_qoss out' ! m = uint (qs ! m)"
    using out'(2) assms(2) by (simp_all add: sub_filled_def h_def word_of_nat_unat8)
  moreover have "length b = length buf" "drop (length pkt) b = drop (length pkt) buf" using fits assms(6) by (simp_all add: b_def)
  moreover have "MQTTSerialize_subscribe buf buflen dup packetid count ts qs = Some (int (length pkt), b)"
    using ser(1) False len by (simp add: b_def)
  ultimately show ?thesis using False fits by (simp only: if_False) blast
qed

abbreviation (input) cstr :: "string \<Rightarrow> mqtt_string" where
  "cstr s \<equiv> \<lparr>cstring = Some (map byte_of_char s), ls_len = 0, ls_data = None\<rparr>"

abbreviation (input) two_filters :: subscribe_out where
  "two_filters \<equiv> \<lparr>sub_dup = 0, sub_packetid = 0, sub_count = 0,
     sub_topics = [MQTTString_initializer, MQTTString_initializer], sub_qoss = [0, 0]\<rparr>"

theorem mqtt_subscribe_roundtrip_witness:
  "\<exists>n buf' out'. MQTTSerialize_subscribe (replicate 20 0) 20 1 9 2 [cstr ''a/b'', cstr ''c''] [1, 2] = Some (int n, buf')
      \<and> int n \<le> 20 \<and> length buf' = length (replicate 20 (0 :: u8)) \<and> drop n buf' = drop n (replicate 20 0)
      \<and> MQTTDeserialize_subscribe two_filters 2 buf' 20 = Some (1, out')
      \<and> unat (sub_dup out') = unat (1 :: u8) mod 2 \<and> sub_packetid out' = 9 \<and> sub_count out' = 2
      \<and> (\<forall>m < 2. str_bytes (sub_topics out' ! m) = str_bytes ([cstr ''a/b'', cstr ''c''] ! m)
           \<and> sub_qoss out' ! m = uint ([1, 2 :: u8] ! m))"
  using mqtt_subscribe_roundtrip [of "[cstr ''a/b'', cstr ''c'']" 2 "[1, 2]" 12 20 "replicate 20 0" two_filters 1 9 2]
  by (simp add: MQTTSerialize_subscribeLength_def subscribe_length_loop.simps nth_opt_def MQTTstrlen_def str_wf_def
      MQTTPacket_len_def)

text \<open>
  Suback round trip: where the buffer holds the whole packet and the caller's array has an entry
  for each code (and the count is within \<^verbatim>\<open>maxcount\<close>), \<^verbatim>\<open>MQTTDeserialize_suback\<close> of what
  \<^verbatim>\<open>MQTTSerialize_suback\<close> wrote returns 1 with the packet identifier, the count and the granted
  codes (the low byte of each), and leaves the other entries of the array.
\<close>

theorem mqtt_suback_roundtrip:
  assumes "count \<le> length qs" "count < 268435454" "2 + int count \<le> buflen"
    and "MQTTPacket_len (2 + int count) \<le> int (length buf)"
    and "int count \<le> maxcount" "count \<le> length (grantedQoSs out)"
  shows "\<exists>n buf'. MQTTSerialize_suback buf buflen packetid count qs = Some (int n, buf')
    \<and> length buf' = length buf \<and> drop n buf' = drop n buf
    \<and> MQTTDeserialize_suback out maxcount buf' buflen = Some (1, \<lparr>suback_packetid = packetid, suback_count = count,
        grantedQoSs = map (\<lambda>q. q mod 256) (take count qs) @ drop count (grantedQoSs out)\<rparr>)"
proof -
  let ?qs = "take count qs"
  define pkt where "pkt = packet (header_byte SUBACK 0 0 0) (suback_body packetid ?qs)"
  have len: "length (suback_body packetid ?qs) = 2 + count" using assms(1) by (simp add: suback_body_def)
  have fits: "length pkt \<le> length buf"
    using packet_fits [of "suback_body packetid ?qs" "header_byte SUBACK 0 0 0"] assms(2,4) by (simp add: len pkt_def)
  have ser: "MQTTSerialize_suback buf buflen packetid count qs = Some (int (length pkt), pkt @ drop (length pkt) buf)"
    using serialize_suback [OF assms(3,1) pkt_def, of buf] fits by simp
  have lq: "length ?qs < 268435454" using assms(1,2) by simp
  obtain i where i: "bytes_at (pkt @ drop (length pkt) buf) i (map word_of_int ?qs)"
    "MQTTDeserialize_suback out maxcount (pkt @ drop (length pkt) buf) buflen =
      map_option (\<lambda>(rc, count, g). (rc, \<lparr>suback_packetid = packetid, suback_count = count, grantedQoSs = g\<rparr>))
        (suback_loop (pkt @ drop (length pkt) buf) i (i + length ?qs) maxcount 0 (grantedQoSs out))"
    using deserialize_suback [OF lq pkt_def] by blast
  have "map uint (map word_of_int ?qs :: u8 list) = map (\<lambda>q. q mod 256) ?qs"
    by (simp add: uint_word_of_int_eq take_bit_eq_mod)
  with suback_loop_fills [OF i(1), of 0 maxcount "grantedQoSs out"] assms(1,5,6) i(2)
  have "MQTTDeserialize_suback out maxcount (pkt @ drop (length pkt) buf) buflen
    = Some (1, \<lparr>suback_packetid = packetid, suback_count = count, grantedQoSs = map (\<lambda>q. q mod 256) ?qs @ drop count (grantedQoSs out)\<rparr>)"
    by simp
  with ser fits show ?thesis by (intro exI [of _ "length pkt"] exI [of _ "pkt @ drop (length pkt) buf"]) simp
qed

theorem mqtt_suback_roundtrip_witness:
  "\<exists>n buf'. MQTTSerialize_suback (replicate 8 0) 8 5 2 [1, 0x80] = Some (int n, buf')
    \<and> length buf' = length (replicate 8 (0 :: u8)) \<and> drop n buf' = drop n (replicate 8 0)
    \<and> MQTTDeserialize_suback \<lparr>suback_packetid = 0, suback_count = 0, grantedQoSs = [0, 0, 0]\<rparr> 3 buf' 8
      = Some (1, \<lparr>suback_packetid = 5, suback_count = 2, grantedQoSs = [1, 128, 0]\<rparr>)"
  using mqtt_suback_roundtrip [of 2 "[1, 128]" 8 "replicate 8 0" 3 "\<lparr>suback_packetid = 0, suback_count = 0, grantedQoSs = [0, 0, 0]\<rparr>" 5]
  by (simp add: MQTTPacket_len_def)

text \<open>
  The two length checks of the subscribe acknowledgement let accesses outside the objects
  through. \<^verbatim>\<open>MQTTSerialize_suback\<close> accepts every buffer of \<^verbatim>\<open>2 + count\<close> bytes or more, but the packet
  takes at least two more: a buffer of one of those two sizes is overrun. \<^verbatim>\<open>MQTTDeserialize_suback\<close>
  tests \<^verbatim>\<open>*count > maxcount\<close>, so a packet with more codes than \<^verbatim>\<open>maxcount\<close> makes it write past an
  array of exactly \<^verbatim>\<open>maxcount\<close> entries.
\<close>

theorem mqtt_suback_overruns:
  assumes "count \<le> length qs" "length buf \<in> {2 + count, 3 + count}"
    and "maxcount = int (length (grantedQoSs out))" "maxcount < int (length codes)" "length codes < 268435454"
  shows "MQTTSerialize_suback buf (int (length buf)) packetid count qs = None
    \<and> MQTTDeserialize_suback out maxcount (packet (header_byte SUBACK 0 0 0) (suback_body packetid codes)) buflen = None"
proof
  have "1 \<le> length (enc n)" for n by (simp add: enc.simps [of n])
  then have "4 + count \<le> length (packet (header_byte SUBACK 0 0 0) (suback_body packetid (take count qs)))"
    using assms(1) by (simp add: packet_def suback_body_def Suc_le_eq)
  then show "MQTTSerialize_suback buf (int (length buf)) packetid count qs = None"
    using serialize_suback [OF _ assms(1) refl, of "int (length buf)" buf packetid] assms(2) by auto
  let ?pkt = "packet (header_byte SUBACK 0 0 0) (suback_body packetid codes)"
  obtain i where "bytes_at ?pkt i (map word_of_int codes)"
    "MQTTDeserialize_suback out maxcount ?pkt buflen =
      map_option (\<lambda>(rc, count, g). (rc, \<lparr>suback_packetid = packetid, suback_count = count, grantedQoSs = g\<rparr>))
        (suback_loop ?pkt i (i + length codes) maxcount 0 (grantedQoSs out))"
    using deserialize_suback [OF assms(5) refl, where cs = "[]" and out = out and maxcount = maxcount and buflen = buflen
        and packetid = packetid] by auto
  then show "MQTTDeserialize_suback out maxcount ?pkt buflen = None"
    using suback_loop_overruns [of ?pkt i "map word_of_int codes" "grantedQoSs out" maxcount 0] assms(3,4) by simp
qed

theorem mqtt_suback_overruns_witness:
  "MQTTSerialize_suback (replicate 4 0) (int (length (replicate 4 (0 :: u8)))) 5 2 [0, 1] = None
   \<and> MQTTDeserialize_suback \<lparr>suback_packetid = 0, suback_count = 0, grantedQoSs = [0]\<rparr> 1
      (packet (header_byte SUBACK 0 0 0) (suback_body 5 [0, 1])) 6 = None"
  by (rule mqtt_suback_overruns) simp_all

end
