(* ===== verification/Mqtt_Client.thy ===== *)
theory Mqtt_Client
  imports Mqtt_Connect Mqtt_Subscribe
begin

text \<open>
  \<^verbatim>\<open>Internet/MQTT/MQTTClient.c\<close>: the MQTT session on top of the codec, and the timers of
  \<^verbatim>\<open>mqtt_interface.c\<close>. The network and the millisecond counter are outside: the record \<open>mqtt_env\<close>
  holds the two function pointers of \<^verbatim>\<open>Network\<close>, the value that a read of \<^verbatim>\<open>MilliTimer\<close> finds, what
  a message handler does, and the indeterminate contents of the local variables; \<open>'w\<close> is the state
  of all of these. A call is \<open>None\<close> when it does not return or reads or writes outside a buffer. The
  build is the one without \<^verbatim>\<open>MQTT_TASK\<close>.
\<close>

section \<open>Data\<close>

abbreviation (input) MAX_PACKET_ID :: u32 where "MAX_PACKET_ID \<equiv> 65535"
abbreviation (input) MAX_MESSAGE_HANDLERS :: nat where "MAX_MESSAGE_HANDLERS \<equiv> 5"
abbreviation (input) FAILURE :: int where "FAILURE \<equiv> - 1"
abbreviation (input) SUCCESSS :: int where "SUCCESSS \<equiv> 0"

record mqtt_message =
  msg_qos :: int
  msg_retained :: u8
  msg_dup :: u8
  msg_id :: u16
  msg_payload :: "u8 list"
  msg_payloadlen :: u32

text \<open>A slot of the handler table: the filter's characters and the handler, either of which can be null.\<close>

record message_handler =
  topicFilter :: "u8 list option"
  fp :: "nat option"

text \<open>A timer is its \<^verbatim>\<open>end_time\<close>; the other field of \<^verbatim>\<open>Timer\<close> is never used.\<close>

type_synonym timer = u32

record mqtt_client =
  next_packetid :: u32
  command_timeout_ms :: u32
  buf_size :: u32
  readbuf_size :: u32
  buf :: "u8 list"
  readbuf :: "u8 list"
  keep_alive :: u32
  ping_outstanding :: bool
  isconnected :: bool
  messageHandlers :: "message_handler list"
  defaultMessageHandler :: "nat option"
  ping_timer :: timer

record 'w mqtt_env =
  mqttread :: "int \<Rightarrow> int \<Rightarrow> 'w \<Rightarrow> (int \<times> u8 list \<times> 'w) option"
  mqttwrite :: "u8 list \<Rightarrow> int \<Rightarrow> 'w \<Rightarrow> (int \<times> 'w) option"
  milli_timer :: "'w \<Rightarrow> u32 \<times> 'w"
  call_handler :: "nat \<Rightarrow> mqtt_string \<Rightarrow> mqtt_message \<Rightarrow> 'w \<Rightarrow> 'w"
  stack :: publish_out

section \<open>Timers\<close>

definition MilliTimer_Handler :: "u32 \<Rightarrow> u32" where "MilliTimer_Handler t = t + 1"

definition TimerInit :: timer where "TimerInit = 0"

definition TimerIsExpired :: "'w mqtt_env \<Rightarrow> timer \<Rightarrow> 'w \<Rightarrow> bool \<times> 'w" where
  "TimerIsExpired env t w = (case milli_timer env w of (now, w) \<Rightarrow> (sint (t - now) < 0, w))"

definition TimerCountdownMS :: "'w mqtt_env \<Rightarrow> u32 \<Rightarrow> 'w \<Rightarrow> timer \<times> 'w" where
  "TimerCountdownMS env timeout w = (case milli_timer env w of (now, w) \<Rightarrow> (now + timeout, w))"

definition TimerCountdown :: "'w mqtt_env \<Rightarrow> u32 \<Rightarrow> 'w \<Rightarrow> timer \<times> 'w" where
  "TimerCountdown env timeout w = (case milli_timer env w of (now, w) \<Rightarrow> (now + timeout * 1000, w))"

definition TimerLeftMS :: "'w mqtt_env \<Rightarrow> timer \<Rightarrow> 'w \<Rightarrow> int \<times> 'w" where
  "TimerLeftMS env t w = (case milli_timer env w of (now, w) \<Rightarrow> (if sint (t - now) < 0 then 0 else sint (t - now), w))"

section \<open>Sending\<close>

definition getNextPacketId :: "mqtt_client \<Rightarrow> u16 \<times> mqtt_client" where
  "getNextPacketId c =
     (let n = (if next_packetid c = MAX_PACKET_ID then 1 else next_packetid c + 1)
      in (ucast n, c\<lparr>next_packetid := n\<rparr>))"

text \<open>
  The loop of \<^verbatim>\<open>sendPacket\<close>: every write is handed \<^verbatim>\<open>length\<close> bytes from the position reached, which
  must lie inside the buffer. The value is the number of bytes reported as sent.
\<close>

partial_function (option) send_loop ::
    "'w mqtt_env \<Rightarrow> u8 list \<Rightarrow> int \<Rightarrow> timer \<Rightarrow> int \<Rightarrow> 'w \<Rightarrow> (int \<times> 'w) option" where
  "send_loop env b len t sent w =
     (if sent < len then
        case TimerIsExpired env t w of (expired, w) \<Rightarrow>
          if expired then Some (sent, w)
          else case TimerLeftMS env t w of (left, w) \<Rightarrow>
            if sent + len \<le> int (length b)
            then do {
              (rc, w) \<leftarrow> mqttwrite env (take (nat len) (drop (nat sent) b)) left w;
              if rc < 0 then Some (sent, w) else send_loop env b len t (sent + rc) w
            } else None
      else Some (sent, w))"

definition sendPacket :: "'w mqtt_env \<Rightarrow> int \<Rightarrow> timer \<Rightarrow> mqtt_client \<Rightarrow> 'w \<Rightarrow> (int \<times> mqtt_client \<times> 'w) option" where
  "sendPacket env len t c w = do {
     (sent, w) \<leftarrow> send_loop env (buf c) len t 0 w;
     if sent = len then
       case TimerCountdown env (keep_alive c) w of (pt, w) \<Rightarrow> Some (SUCCESSS, c\<lparr>ping_timer := pt\<rparr>, w)
     else Some (FAILURE, c, w)
   }"

definition MQTTClientInit :: "mqtt_client \<Rightarrow> u32 \<Rightarrow> u8 list \<Rightarrow> u32 \<Rightarrow> u8 list \<Rightarrow> u32 \<Rightarrow> mqtt_client" where
  "MQTTClientInit c timeout_ms sendbuf sendbuf_size rbuf rbuf_size =
     c\<lparr>messageHandlers := map (\<lambda>h. h\<lparr>topicFilter := None\<rparr>) (take MAX_MESSAGE_HANDLERS (messageHandlers c)),
       command_timeout_ms := timeout_ms, buf := sendbuf, buf_size := sendbuf_size,
       readbuf := rbuf, readbuf_size := rbuf_size, isconnected := False, ping_outstanding := False,
       defaultMessageHandler := None, next_packetid := 1, ping_timer := TimerInit\<rparr>"

section \<open>Receiving\<close>

text \<open>The loop of \<^verbatim>\<open>decodePacket\<close> is that of \<^verbatim>\<open>MQTTPacket_decode\<close>, on the network's read function.\<close>

definition decodePacket :: "'w mqtt_env \<Rightarrow> int \<Rightarrow> 'w \<Rightarrow> (int \<times> int \<times> 'w) option" where
  "decodePacket env timeout w = decode_loop (\<lambda>n. mqttread env n timeout) 0 1 0 w"

text \<open>The third step of \<^verbatim>\<open>readPacket\<close>: whether it succeeded, and the buffer with the bytes from \<open>i\<close> on.\<close>

definition read_body :: "'w mqtt_env \<Rightarrow> timer \<Rightarrow> u8 list \<Rightarrow> nat \<Rightarrow> int \<Rightarrow> 'w \<Rightarrow> (bool \<times> u8 list \<times> 'w) option" where
  "read_body env t b i n w =
     (if n > 0 then do {
        let (left, w) = TimerLeftMS env t w;
        (rc, bs, w) \<leftarrow> mqttread env n left w;
        b \<leftarrow> store b i bs;
        Some (rc = n, b, w)
      } else Some (True, b, w))"

definition readPacket :: "'w mqtt_env \<Rightarrow> timer \<Rightarrow> mqtt_client \<Rightarrow> 'w \<Rightarrow> (int \<times> mqtt_client \<times> 'w) option" where
  "readPacket env t c w = do {
     let (left, w) = TimerLeftMS env t w;
     (rc, bs, w) \<leftarrow> mqttread env 1 left w;
     b \<leftarrow> store (readbuf c) 0 bs;
     if rc \<noteq> 1 then Some (FAILURE, c\<lparr>readbuf := b\<rparr>, w)
     else do {
       let (left, w) = TimerLeftMS env t w;
       (_, rem_len, w) \<leftarrow> decodePacket env left w;
       (n, p) \<leftarrow> MQTTPacket_encode (b, 1) rem_len;
       let b = fst p;
       let len = 1 + n;
       (ok, b, w) \<leftarrow> read_body env t b (nat len) rem_len w;
       if \<not> ok then Some (FAILURE, c\<lparr>readbuf := b\<rparr>, w)
       else do {
         (h, _) \<leftarrow> readChar b 0;
         Some (int (header_type h), c\<lparr>readbuf := b\<rparr>, w)
       }
     }
   }"

abbreviation (input) slash :: u8 where "slash \<equiv> 47"
abbreviation (input) plus_sign :: u8 where "plus_sign \<equiv> 43"
abbreviation (input) hash_sign :: u8 where "hash_sign \<equiv> 35"

text \<open>
  The loop of \<^verbatim>\<open>isTopicMatched\<close> on what is left of the filter and of the name; a \<^verbatim>\<open>break\<close> leaves both
  non-empty, so the final test fails. After a plus sign the inner loop stops at the next
  separator.
\<close>

fun topic_loop :: "u8 list \<Rightarrow> u8 list \<Rightarrow> bool" where
  "topic_loop (f # fs) (n # ns) =
     (if n = slash \<and> f \<noteq> slash then False
      else if f \<noteq> plus_sign \<and> f \<noteq> hash_sign \<and> f \<noteq> n then False
      else topic_loop fs (if f = plus_sign then dropWhile (\<lambda>x. x \<noteq> slash) ns else if f = hash_sign then [] else ns))"
| "topic_loop fs ns = (ns = [] \<and> fs = [])"

definition isTopicMatched :: "u8 list \<Rightarrow> mqtt_string \<Rightarrow> bool option" where
  "isTopicMatched tf name =
     (if ls_len name < 0 then Some False
      else case ls_data name of
          None \<Rightarrow> if ls_len name = 0 then Some (topic_loop tf []) else None
        | Some d \<Rightarrow> if ls_len name \<le> int (length d) then Some (topic_loop tf (take (nat (ls_len name)) d)) else None)"

text \<open>The loop over the handler table; the flag says that some handler ran.\<close>

fun deliver_loop ::
    "'w mqtt_env \<Rightarrow> mqtt_string \<Rightarrow> mqtt_message \<Rightarrow> message_handler list \<Rightarrow> bool \<Rightarrow> 'w \<Rightarrow> (bool \<times> 'w) option" where
  "deliver_loop env name msg [] found w = Some (found, w)"
| "deliver_loop env name msg (h # hs) found w =
     (case topicFilter h of
        None \<Rightarrow> deliver_loop env name msg hs found w
      | Some tf \<Rightarrow> do {
          e \<leftarrow> MQTTPacket_equals name tf;
          m \<leftarrow> (if e then Some True else isTopicMatched tf name);
          case (m, fp h) of
            (True, Some f) \<Rightarrow> deliver_loop env name msg hs True (call_handler env f name msg w)
          | _ \<Rightarrow> deliver_loop env name msg hs found w
        })"

definition deliverMessage ::
    "'w mqtt_env \<Rightarrow> mqtt_client \<Rightarrow> mqtt_string \<Rightarrow> mqtt_message \<Rightarrow> 'w \<Rightarrow> (int \<times> 'w) option" where
  "deliverMessage env c name msg w = do {
     (found, w) \<leftarrow> deliver_loop env name msg (take MAX_MESSAGE_HANDLERS (messageHandlers c)) False w;
     if found then Some (SUCCESSS, w)
     else case defaultMessageHandler c of
         Some f \<Rightarrow> Some (SUCCESSS, call_handler env f name msg w)
       | None \<Rightarrow> Some (FAILURE, w)
   }"

definition keepalive :: "'w mqtt_env \<Rightarrow> mqtt_client \<Rightarrow> 'w \<Rightarrow> (int \<times> mqtt_client \<times> 'w) option" where
  "keepalive env c w =
     (if keep_alive c = 0 then Some (SUCCESSS, c, w)
      else case TimerIsExpired env (ping_timer c) w of (expired, w) \<Rightarrow>
        if expired \<and> \<not> ping_outstanding c then
          case TimerCountdownMS env 1000 w of (t, w) \<Rightarrow> do {
            (len, b) \<leftarrow> MQTTSerialize_pingreq (buf c) (sint (buf_size c));
            let c = c\<lparr>buf := b\<rparr>;
            if len > 0 then do {
              (rc, c, w) \<leftarrow> sendPacket env len t c w;
              Some (rc, if rc = SUCCESSS then c\<lparr>ping_outstanding := True\<rparr> else c, w)
            } else Some (FAILURE, c, w)
          }
        else Some (FAILURE, c, w))"

section \<open>The cycle\<close>

text \<open>The message that \<^verbatim>\<open>cycle\<close> makes of the outputs of the deserializer.\<close>

definition message_of :: "publish_out \<Rightarrow> mqtt_message" where
  "message_of out = \<lparr>msg_qos = pub_qos out, msg_retained = pub_retained out, msg_dup = pub_dup out, msg_id = pub_packetid out,
     msg_payload = pub_payload out, msg_payloadlen = word_of_int (pub_payloadlen out)\<rparr>"

text \<open>
  The cases of the switch: the return code so far, whether the code leaves at \<^verbatim>\<open>exit\<close> without the
  keep-alive, the client and the outside.
\<close>

definition cycle_publish ::
    "'w mqtt_env \<Rightarrow> timer \<Rightarrow> mqtt_client \<Rightarrow> 'w \<Rightarrow> (int \<times> bool \<times> mqtt_client \<times> 'w) option" where
  "cycle_publish env t c w = do {
     (rc, out) \<leftarrow> MQTTDeserialize_publish (stack env) (readbuf c) (sint (readbuf_size c));
     if rc \<noteq> 1 then Some (SUCCESSS, True, c, w)
     else do {
       let msg = message_of out;
       (_, w) \<leftarrow> deliverMessage env c (pub_topic out) msg w;
       if msg_qos msg = 0 then Some (SUCCESSS, False, c, w)
       else do {
         (len, b) \<leftarrow> (if msg_qos msg = 1 then MQTTSerialize_ack (buf c) (sint (buf_size c)) PUBACK 0 (msg_id msg)
                      else if msg_qos msg = 2 then MQTTSerialize_ack (buf c) (sint (buf_size c)) PUBREC 0 (msg_id msg)
                      else Some (0, buf c));
         let c = c\<lparr>buf := b\<rparr>;
         (rc, c, w) \<leftarrow> (if len \<le> 0 then Some (FAILURE, c, w) else sendPacket env len t c w);
         Some (rc, rc = FAILURE, c, w)
       }
     }
   }"

definition cycle_pubrec ::
    "'w mqtt_env \<Rightarrow> timer \<Rightarrow> mqtt_client \<Rightarrow> 'w \<Rightarrow> (int \<times> bool \<times> mqtt_client \<times> 'w) option" where
  "cycle_pubrec env t c w = do {
     (rc, out) \<leftarrow> MQTTDeserialize_ack \<lparr>ack_type = 0, ack_dup = 0, ack_packetid = pub_packetid (stack env)\<rparr>
        (readbuf c) (sint (readbuf_size c));
     if rc \<noteq> 1 then Some (FAILURE, True, c, w)
     else do {
       (len, b) \<leftarrow> MQTTSerialize_ack (buf c) (sint (buf_size c)) PUBREL 0 (ack_packetid out);
       let c = c\<lparr>buf := b\<rparr>;
       if len \<le> 0 then Some (FAILURE, True, c, w)
       else do {
         (rc, c, w) \<leftarrow> sendPacket env len t c w;
         Some (if rc \<noteq> SUCCESSS then FAILURE else rc, rc \<noteq> SUCCESSS, c, w)
       }
     }
   }"

definition cycle :: "'w mqtt_env \<Rightarrow> timer \<Rightarrow> mqtt_client \<Rightarrow> 'w \<Rightarrow> (int \<times> mqtt_client \<times> 'w) option" where
  "cycle env t c w = do {
     (r, c, w) \<leftarrow> readPacket env t c w;
     let packet_type = unat (word_of_int r :: u16);
     (rc, exits, c, w) \<leftarrow>
       (if packet_type = PUBLISH then cycle_publish env t c w
        else if packet_type = PUBREC then cycle_pubrec env t c w
        else if packet_type = PINGRESP then Some (SUCCESSS, False, c\<lparr>ping_outstanding := False\<rparr>, w)
        else Some (SUCCESSS, False, c, w));
     (c, w) \<leftarrow> (if exits then Some (c, w) else do { (_, c, w) \<leftarrow> keepalive env c w; Some (c, w) });
     Some (if rc = SUCCESSS then int packet_type else rc, c, w)
   }"

definition MQTTYield :: "'w mqtt_env \<Rightarrow> u32 \<Rightarrow> mqtt_client \<Rightarrow> 'w \<Rightarrow> (int \<times> mqtt_client \<times> 'w) option" where
  "MQTTYield env timeout_ms c w = (case TimerCountdownMS env timeout_ms w of (t, w) \<Rightarrow> do {
     (rc, c, w) \<leftarrow> cycle env t c w;
     Some (if rc = FAILURE then FAILURE else SUCCESSS, c, w)
   })"

text \<open>One turn of the endless loop of \<^verbatim>\<open>MQTTRun\<close>.\<close>

definition MQTTRun_turn :: "'w mqtt_env \<Rightarrow> mqtt_client \<Rightarrow> 'w \<Rightarrow> (mqtt_client \<times> 'w) option" where
  "MQTTRun_turn env c w = (case TimerCountdownMS env 500 w of (t, w) \<Rightarrow> do {
     (_, c, w) \<leftarrow> cycle env t c w;
     Some (c, w)
   })"

text \<open>\<^verbatim>\<open>waitfor\<close> starts with \<^verbatim>\<open>rc\<close> the failure code and keeps the result of the last cycle in it.\<close>

partial_function (option) waitfor ::
    "'w mqtt_env \<Rightarrow> int \<Rightarrow> timer \<Rightarrow> int \<Rightarrow> mqtt_client \<Rightarrow> 'w \<Rightarrow> (int \<times> mqtt_client \<times> 'w) option" where
  "waitfor env packet_type t rc c w =
     (case TimerIsExpired env t w of (expired, w) \<Rightarrow>
        if expired then Some (rc, c, w)
        else do {
          (rc, c, w) \<leftarrow> cycle env t c w;
          if rc \<noteq> packet_type then waitfor env packet_type t rc c w else Some (rc, c, w)
        })"

section \<open>Operations of the application\<close>

definition MQTTConnect ::
    "'w mqtt_env \<Rightarrow> connect_data option \<Rightarrow> mqtt_client \<Rightarrow> 'w \<Rightarrow> (int \<times> mqtt_client \<times> 'w) option" where
  "MQTTConnect env opts c w =
     (if isconnected c then Some (FAILURE, c, w)
      else case TimerCountdownMS env (command_timeout_ms c) w of (t, w) \<Rightarrow>
        let options = (case opts of None \<Rightarrow> MQTTPacket_connectData_initializer | Some d \<Rightarrow> d);
            c = c\<lparr>keep_alive := ucast (keepAliveInterval options)\<rparr>
        in case TimerCountdown env (keep_alive c) w of (pt, w) \<Rightarrow> do {
          let c = c\<lparr>ping_timer := pt\<rparr>;
          (len, b) \<leftarrow> MQTTSerialize_connect (buf c) (sint (buf_size c)) options;
          let c = c\<lparr>buf := b\<rparr>;
          if len \<le> 0 then Some (FAILURE, c, w)
          else do {
            (rc, c, w) \<leftarrow> sendPacket env len t c w;
            if rc \<noteq> SUCCESSS then Some (rc, c, w)
            else do {
              (r, c, w) \<leftarrow> waitfor env (int CONNACK) t FAILURE c w;
              rc \<leftarrow> (if r = int CONNACK then do {
                      (k, _, connack_rc) \<leftarrow> MQTTDeserialize_connack (0, 255) (readbuf c) (sint (readbuf_size c));
                      Some (if k = 1 then uint connack_rc else FAILURE)
                    } else Some FAILURE);
              Some (rc, if rc = SUCCESSS then c\<lparr>isconnected := True\<rparr> else c, w)
            }
          }
        })"

text \<open>The first free slot of the handler table, if there is one.\<close>

fun add_handler :: "u8 list \<Rightarrow> nat option \<Rightarrow> message_handler list \<Rightarrow> message_handler list option" where
  "add_handler tf f [] = None"
| "add_handler tf f (h # hs) =
     (if topicFilter h = None then Some (\<lparr>topicFilter = Some tf, fp = f\<rparr> # hs)
      else map_option (\<lambda>hs. h # hs) (add_handler tf f hs))"

definition c_string :: "u8 list \<Rightarrow> mqtt_string" where
  "c_string s = MQTTString_initializer\<lparr>cstring := Some s\<rparr>"

definition MQTTSubscribe ::
    "'w mqtt_env \<Rightarrow> u8 list \<Rightarrow> u8 \<Rightarrow> nat option \<Rightarrow> mqtt_client \<Rightarrow> 'w \<Rightarrow> (int \<times> mqtt_client \<times> 'w) option" where
  "MQTTSubscribe env tf qos handler c w =
     (if \<not> isconnected c then Some (FAILURE, c, w)
      else case TimerCountdownMS env (command_timeout_ms c) w of (t, w) \<Rightarrow>
        case getNextPacketId c of (pid, c) \<Rightarrow> do {
          (len, b) \<leftarrow> MQTTSerialize_subscribe (buf c) (sint (buf_size c)) 0 pid 1 [c_string tf] [qos];
          let c = c\<lparr>buf := b\<rparr>;
          if len \<le> 0 then Some (FAILURE, c, w)
          else do {
            (rc, c, w) \<leftarrow> sendPacket env len t c w;
            if rc \<noteq> SUCCESSS then Some (rc, c, w)
            else do {
              (r, c, w) \<leftarrow> waitfor env (int SUBACK) t FAILURE c w;
              if r = int SUBACK then do {
                (k, out) \<leftarrow> MQTTDeserialize_suback \<lparr>suback_packetid = pub_packetid (stack env), suback_count = 0, grantedQoSs = [- 1]\<rparr>
                    1 (readbuf c) (sint (readbuf_size c));
                let rc = (if k = 1 then grantedQoSs out ! 0 else rc);
                if rc \<noteq> 0x80 then
                  case add_handler tf handler (take MAX_MESSAGE_HANDLERS (messageHandlers c)) of
                    Some hs \<Rightarrow> Some (0, c\<lparr>messageHandlers := hs\<rparr>, w)
                  | None \<Rightarrow> Some (rc, c, w)
                else Some (rc, c, w)
              } else Some (FAILURE, c, w)
            }
          }
        })"

definition MQTTUnsubscribe :: "'w mqtt_env \<Rightarrow> u8 list \<Rightarrow> mqtt_client \<Rightarrow> 'w \<Rightarrow> (int \<times> mqtt_client \<times> 'w) option" where
  "MQTTUnsubscribe env tf c w =
     (if \<not> isconnected c then Some (FAILURE, c, w)
      else case TimerCountdownMS env (command_timeout_ms c) w of (t, w) \<Rightarrow>
        case getNextPacketId c of (pid, c) \<Rightarrow> do {
          (len, b) \<leftarrow> MQTTSerialize_unsubscribe (buf c) (sint (buf_size c)) 0 pid 1 [c_string tf];
          let c = c\<lparr>buf := b\<rparr>;
          if len \<le> 0 then Some (FAILURE, c, w)
          else do {
            (rc, c, w) \<leftarrow> sendPacket env len t c w;
            if rc \<noteq> SUCCESSS then Some (rc, c, w)
            else do {
              (r, c, w) \<leftarrow> waitfor env (int UNSUBACK) t FAILURE c w;
              if r = int UNSUBACK then do {
                (k, _) \<leftarrow> MQTTDeserialize_unsuback (pub_packetid (stack env)) (readbuf c) (sint (readbuf_size c));
                Some (if k = 1 then 0 else rc, c, w)
              } else Some (FAILURE, c, w)
            }
          }
        })"

text \<open>The wait for the acknowledgement of a publish; \<^verbatim>\<open>rc\<close> is what \<^verbatim>\<open>sendPacket\<close> returned.\<close>

definition publish_wait :: "'w mqtt_env \<Rightarrow> nat \<Rightarrow> timer \<Rightarrow> int \<Rightarrow> mqtt_client \<Rightarrow> 'w \<Rightarrow> (int \<times> mqtt_client \<times> 'w) option" where
  "publish_wait env type t rc c w = do {
     (r, c, w) \<leftarrow> waitfor env (int type) t FAILURE c w;
     if r = int type then do {
       (k, _) \<leftarrow> MQTTDeserialize_ack \<lparr>ack_type = 0, ack_dup = 0, ack_packetid = pub_packetid (stack env)\<rparr>
          (readbuf c) (sint (readbuf_size c));
       Some (if k \<noteq> 1 then FAILURE else rc, c, w)
     } else Some (FAILURE, c, w)
   }"

text \<open>The message is passed by reference: its identifier is set for the two higher qualities of service.\<close>

definition MQTTPublish ::
    "'w mqtt_env \<Rightarrow> u8 list \<Rightarrow> mqtt_message \<Rightarrow> mqtt_client \<Rightarrow> 'w \<Rightarrow> (int \<times> mqtt_message \<times> mqtt_client \<times> 'w) option" where
  "MQTTPublish env topic msg c w =
     (if \<not> isconnected c then Some (FAILURE, msg, c, w)
      else case TimerCountdownMS env (command_timeout_ms c) w of (t, w) \<Rightarrow>
        case (if msg_qos msg = 1 \<or> msg_qos msg = 2
              then case getNextPacketId c of (pid, c) \<Rightarrow> (msg\<lparr>msg_id := pid\<rparr>, c) else (msg, c)) of (msg, c) \<Rightarrow> do {
          (len, b) \<leftarrow> MQTTSerialize_publish (buf c) (sint (buf_size c)) 0 (msg_qos msg) (msg_retained msg) (msg_id msg)
              (c_string topic) (msg_payload msg) (sint (msg_payloadlen msg));
          let c = c\<lparr>buf := b\<rparr>;
          if len \<le> 0 then Some (FAILURE, msg, c, w)
          else do {
            (rc, c, w) \<leftarrow> sendPacket env len t c w;
            if rc \<noteq> SUCCESSS then Some (rc, msg, c, w)
            else if msg_qos msg = 1 then do { (rc, c, w) \<leftarrow> publish_wait env PUBACK t rc c w; Some (rc, msg, c, w) }
            else if msg_qos msg = 2 then do { (rc, c, w) \<leftarrow> publish_wait env PUBCOMP t rc c w; Some (rc, msg, c, w) }
            else Some (rc, msg, c, w)
          }
        })"

definition MQTTDisconnect :: "'w mqtt_env \<Rightarrow> mqtt_client \<Rightarrow> 'w \<Rightarrow> (int \<times> mqtt_client \<times> 'w) option" where
  "MQTTDisconnect env c w = (case TimerCountdownMS env (command_timeout_ms c) w of (t, w) \<Rightarrow> do {
     (len, b) \<leftarrow> MQTTSerialize_disconnect (buf c) (sint (buf_size c));
     let c = c\<lparr>buf := b\<rparr>;
     (rc, c, w) \<leftarrow> (if len > 0 then sendPacket env len t c w else Some (FAILURE, c, w));
     Some (rc, c\<lparr>isconnected := False\<rparr>, w)
   })"

end
