(* ===== verification/Mqtt_Session.thy ===== *)
theory Mqtt_Session
  imports Mqtt_Client
begin

text \<open>
  Properties of the MQTT client: topic matching against the definition of the standard, delivery of
  messages to the handlers, the invariant of the client structure under every operation, sending
  and receiving of whole packets, and what happens when the network fails or accepts less than it
  was given.
\<close>

section \<open>Topic filters\<close>

text \<open>Levels joined by the separator.\<close>

fun join_levels :: "u8 list list \<Rightarrow> u8 list" where
  "join_levels [] = []"
| "join_levels [l] = l"
| "join_levels (l # ls) = l @ slash # join_levels ls"

text \<open>
  Matching as the MQTT standard defines it (version 3.1.1, section 4.7), level by level: a plus
  sign stands for one level, a hash sign for all remaining levels, none included.
\<close>

fun levels_match :: "u8 list list \<Rightarrow> u8 list list \<Rightarrow> bool" where
  "levels_match [] ns = (ns = [])"
| "levels_match (f # fs) ns =
     (if f = [hash_sign] \<and> fs = [] then True
      else case ns of [] \<Rightarrow> False
        | n # ns \<Rightarrow> (f = [plus_sign] \<or> f = n) \<and> levels_match fs ns)"

text \<open>A valid filter: wildcards are whole levels, and the hash sign only the last.\<close>

definition plain_level :: "u8 list \<Rightarrow> bool" where
  "plain_level l \<longleftrightarrow> slash \<notin> set l \<and> plus_sign \<notin> set l \<and> hash_sign \<notin> set l"

fun valid_filter :: "u8 list list \<Rightarrow> bool" where
  "valid_filter [] = False"
| "valid_filter [f] = (plain_level f \<or> f = [plus_sign] \<or> f = [hash_sign])"
| "valid_filter (f # fs) = ((plain_level f \<or> f = [plus_sign]) \<and> valid_filter fs)"

lemma join_levels_Cons: "ls \<noteq> [] \<Longrightarrow> join_levels (l # ls) = l @ slash # join_levels ls"
  by (cases ls) simp_all

text \<open>The loop on a plain level and on a plus sign, both up to the end of the level.\<close>

lemma topic_loop_plain:
  assumes "plain_level f" "slash \<notin> set n" "fs = [] \<or> hd fs = slash" "ns = [] \<or> hd ns = slash"
  shows "topic_loop (f @ fs) (n @ ns) \<longleftrightarrow> f = n \<and> topic_loop fs ns"
  using assms(1,2)
proof (induction f arbitrary: n)
  case Nil
  show ?case
  proof (cases n)
    case (Cons x xs)
    with Nil(2) assms(3) show ?thesis by (cases fs) auto
  qed simp
next
  case (Cons a f)
  then have a: "a \<noteq> slash" "a \<noteq> plus_sign" "a \<noteq> hash_sign" "plain_level f" by (auto simp: plain_level_def)
  show ?case
  proof (cases n)
    case Nil
    with a(1) assms(4) show ?thesis by (cases ns) auto
  next
    case (Cons x xs)
    with Cons.IH [OF a(4), of xs] Cons.prems(2) a show ?thesis by auto
  qed
qed

lemma topic_loop_plus:
  assumes "slash \<notin> set n" "n \<noteq> []" "ns = [] \<or> hd ns = slash"
  shows "topic_loop (plus_sign # fs) (n @ ns) \<longleftrightarrow> topic_loop fs ns"
proof -
  obtain x xs where n: "n = x # xs" using assms(2) by (cases n) auto
  have "dropWhile (\<lambda>x. x \<noteq> slash) (xs @ ns) = ns"
    using assms(1,3) n by (cases ns) (auto simp: dropWhile_append3 dropWhile_eq_Nil_conv)
  with assms(1) n show ?thesis by auto
qed

lemma topic_loop_slash:
  "topic_loop (slash # fs) (slash # ns) \<longleftrightarrow> topic_loop fs ns"
  by simp

lemma topic_loop_levels:
  assumes "valid_filter fs" "ns \<noteq> []" "\<forall>n \<in> set ns. n \<noteq> [] \<and> slash \<notin> set n"
  shows "topic_loop (join_levels fs) (join_levels ns) \<longleftrightarrow> levels_match fs ns \<and> length fs \<le> length ns"
  using assms
proof (induction fs arbitrary: ns rule: valid_filter.induct)
  case (2 f)
  obtain n ns' where ns: "ns = n # ns'" using 2(2) by (cases ns) auto
  define r where "r = (if ns' = [] then [] else slash # join_levels ns')"
  have j: "join_levels ns = n @ r" and r: "r = [] \<or> hd r = slash" "r = [] \<longleftrightarrow> ns' = []"
    by (simp_all add: ns r_def join_levels_Cons)
  have n: "slash \<notin> set n" "n \<noteq> []" using 2(3) ns by simp_all
  consider "plain_level f" | "f = [plus_sign]" | "f = [hash_sign]" using 2(1) by auto
  then show ?case
  proof cases
    case 1
    then have "f \<noteq> [hash_sign]" "f \<noteq> [plus_sign]" by (auto simp: plain_level_def)
    with topic_loop_plain [OF 1 n(1) _ r(1), of "[]"] r(2) show ?thesis unfolding join_levels.simps(2) j by (cases r) (auto simp: ns)
  next
    case 2
    with topic_loop_plus [OF n r(1), of "[]"] r(2) show ?thesis unfolding join_levels.simps(2) j by (cases r) (auto simp: ns)
  next
    case 3
    obtain x xs where "n = x # xs" using n(2) by (cases n) auto
    with 3 n(1) show ?thesis unfolding join_levels.simps(2) j by (auto simp: ns)
  qed
next
  case (3 f g fs)
  obtain n ns' where ns: "ns = n # ns'" using 3(3) by (cases ns) auto
  have n: "slash \<notin> set n" "n \<noteq> []" using 3(4) ns by simp_all
  have f: "plain_level f \<or> f = [plus_sign]" "valid_filter (g # fs)" using 3(2) by auto
  let ?fs = "slash # join_levels (g # fs)"
  have step: "topic_loop (f @ ?fs) (n @ r) \<longleftrightarrow> (f = [plus_sign] \<or> f = n) \<and> topic_loop ?fs r"
    if "r = [] \<or> hd r = slash" for r
  proof (cases "f = [plus_sign]")
    case True
    with topic_loop_plus [OF n that, of ?fs] show ?thesis by simp
  next
    case False
    with f(1) topic_loop_plain [OF _ n(1) _ that, of f ?fs] show ?thesis by simp
  qed
  have "f \<noteq> [hash_sign]" using f(1) by (auto simp: plain_level_def)
  moreover have "\<not> levels_match (f # g # fs) ns \<or> \<not> length (f # g # fs) \<le> length ns" if "ns' = []"
    using that by (simp add: ns)
  ultimately show ?case
    using step [of "[]"] step [of "slash # join_levels ns'"] 3(1) [OF f(2), of ns'] 3(4)
    by (cases "ns' = []") (auto simp: ns join_levels_Cons)
qed simp

section \<open>Delivery\<close>

text \<open>A handler of the table that a message on the topic is for.\<close>

definition wants :: "u8 list \<Rightarrow> message_handler \<Rightarrow> bool" where
  "wants topic h \<longleftrightarrow> fp h \<noteq> None \<and> (case topicFilter h of None \<Rightarrow> False | Some tf \<Rightarrow> tf = topic \<or> topic_loop tf topic)"

text \<open>The topic as the deserializer leaves it: no C string, and its bytes at the start of the data.\<close>

definition topic_is :: "mqtt_string \<Rightarrow> u8 list \<Rightarrow> bool" where
  "topic_is name topic \<longleftrightarrow> cstring name = None \<and> ls_len name = int (length topic) \<and> (\<exists>rest. ls_data name = Some (topic @ rest))"

lemma topic_tests:
  assumes "topic_is name topic"
  shows "MQTTPacket_equals name tf = Some (tf = topic)" "isTopicMatched tf name = Some (topic_loop tf topic)"
  using assms by (auto simp: topic_is_def MQTTPacket_equals_def isTopicMatched_def)

lemma deliver_loop_wants:
  assumes "topic_is name topic"
  shows "deliver_loop env name msg hs found w
    = Some (found \<or> (\<exists>h \<in> set hs. wants topic h), fold (\<lambda>h. call_handler env (the (fp h)) name msg) (filter (wants topic) hs) w)"
proof (induction hs arbitrary: found w)
  case (Cons h hs)
  show ?case
  proof (cases "topicFilter h")
    case None
    with Cons show ?thesis by (simp add: wants_def)
  next
    case (Some tf)
    have m: "MQTTPacket_equals name tf \<bind> (\<lambda>e. (if e then Some True else isTopicMatched tf name) \<bind> f)
        = f (tf = topic \<or> topic_loop tf topic)" for f
      by (simp add: topic_tests [OF assms])
    have "wants topic h \<longleftrightarrow> fp h \<noteq> None \<and> (tf = topic \<or> topic_loop tf topic)" by (simp add: wants_def Some)
    with Cons show ?thesis
      by (cases "tf = topic \<or> topic_loop tf topic"; cases "fp h") (simp_all only: deliver_loop.simps Some option.case m prod.case bool.case, simp_all)
  qed
qed simp

section \<open>Properties of delivery\<close>

text \<open>
  C12. \<^verbatim>\<open>isTopicMatched\<close> decides the matching of the MQTT standard: for a valid filter (wildcards are whole
  levels, the hash sign only the last) and a topic name without empty levels, it says yes exactly
  when the standard's level-by-level definition does and the name has at least as many levels as
  the filter. The standard also lets the hash sign stand for no level at all, so that a filter
  matches the parent of its last level; the code does not.
\<close>

theorem mqtt_topic_match:
  assumes "valid_filter fs" "ns \<noteq> []" "\<forall>n \<in> set ns. n \<noteq> [] \<and> slash \<notin> set n"
    and "ls_len name = int (length (join_levels ns))" "ls_data name = Some (join_levels ns @ rest)"
  shows "isTopicMatched (join_levels fs) name = Some (levels_match fs ns \<and> length fs \<le> length ns)"
  using assms(4,5) topic_loop_levels [OF assms(1-3)] by (simp add: isTopicMatched_def)

text \<open>The filter \<^verbatim>\<open>a/+/#\<close> and the name \<^verbatim>\<open>a/b/c/d\<close>.\<close>

theorem mqtt_topic_match_witness:
  "isTopicMatched (join_levels [[97], [43], [35]])
      \<lparr>cstring = None, ls_len = int (length (join_levels [[97], [98], [99], [100]])),
       ls_data = Some (join_levels [[97], [98], [99], [100]] @ [1, 2])\<rparr>
    = Some (levels_match [[97], [43], [35]] [[97], [98], [99], [100]]
        \<and> length [[97], [43], [35 :: u8]] \<le> length [[97], [98], [99], [100 :: u8]])"
  by (rule mqtt_topic_match) (simp_all add: plain_level_def)

text \<open>
  \<^verbatim>\<open>deliverMessage\<close> calls exactly the handlers of the table that have a function and a filter equal
  to the topic or matching it, each once, in the order of the table; the default handler is
  called if and only if there is none of them, and the failure code is returned exactly when there
  is no default handler either.
\<close>

theorem mqtt_deliver:
  assumes "topic_is name topic" "length (messageHandlers c) = 5"
  shows "deliverMessage env c name msg w =
    (if \<exists>h \<in> set (messageHandlers c). wants topic h
     then Some (0, fold (\<lambda>h. call_handler env (the (fp h)) name msg) (filter (wants topic) (messageHandlers c)) w)
     else case defaultMessageHandler c of
         Some f \<Rightarrow> Some (0, call_handler env f name msg w)
       | None \<Rightarrow> Some (- 1, w))"
proof (cases "\<exists>h \<in> set (messageHandlers c). wants topic h")
  case False
  then have "filter (wants topic) (messageHandlers c) = []" by (simp add: filter_empty_conv)
  with False assms(2) show ?thesis by (simp add: deliverMessage_def deliver_loop_wants [OF assms(1)] cong: option.case_cong)
qed (use assms(2) in \<open>simp add: deliverMessage_def deliver_loop_wants [OF assms(1)]\<close>)

text \<open>A client with two subscriptions, on an outside that records the handlers called.\<close>

definition sample_handlers :: "message_handler list" where
  "sample_handlers = [\<lparr>topicFilter = Some [97], fp = Some 1\<rparr>, \<lparr>topicFilter = Some [43], fp = Some 2\<rparr>,
     \<lparr>topicFilter = None, fp = None\<rparr>, \<lparr>topicFilter = None, fp = None\<rparr>, \<lparr>topicFilter = None, fp = None\<rparr>]"

definition sample_client :: mqtt_client where
  "sample_client = \<lparr>next_packetid = 1, command_timeout_ms = 1000, buf_size = 32, readbuf_size = 32,
     buf = replicate 32 0, readbuf = replicate 32 0, keep_alive = 0, ping_outstanding = False, isconnected = True,
     messageHandlers = sample_handlers, defaultMessageHandler = None, ping_timer = 0\<rparr>"

definition call_log :: "nat list mqtt_env" where
  "call_log = \<lparr>mqttread = \<lambda>n t w. Some (- 1, [], w), mqttwrite = \<lambda>bs t w. Some (int (length bs), w), milli_timer = \<lambda>w. (0, w),
     call_handler = \<lambda>f name msg w. w @ [f],
     stack = \<lparr>pub_dup = 0, pub_qos = 0, pub_retained = 0, pub_packetid = 0, pub_topic = MQTTString_initializer,
        pub_payload = [], pub_payloadlen = 0\<rparr>\<rparr>"

definition sample_topic :: mqtt_string where
  "sample_topic = \<lparr>cstring = None, ls_len = 1, ls_data = Some [97, 1]\<rparr>"

theorem mqtt_deliver_witness:
  "deliverMessage call_log sample_client sample_topic (message_of (stack call_log)) [] = Some (0, [1, 2])"
proof -
  have "topic_is sample_topic [97]" by (simp add: topic_is_def sample_topic_def)
  moreover have "length (messageHandlers sample_client) = 5" by (simp add: sample_client_def sample_handlers_def)
  ultimately show ?thesis
    by (simp add: mqtt_deliver) (simp add: sample_client_def sample_handlers_def wants_def call_log_def)
qed

section \<open>Buffers keep their size\<close>

named_theorems keeps_length \<open>writes into a buffer leave its size\<close>

lemma mem_copy_length [keeps_length]: "mem_copy p src n = Some p' \<Longrightarrow> length (fst p') = length (fst p)"
  by (cases p) (auto simp: mem_copy_def split: if_splits)

lemma put_length [keeps_length]: "put p bs = Some p' \<Longrightarrow> length (fst p') = length (fst p)"
  unfolding put_def by (rule mem_copy_length)

lemma writeChar_length [keeps_length]: "writeChar p c = Some p' \<Longrightarrow> length (fst p') = length (fst p)"
  unfolding writeChar_put by (rule put_length)

lemma writeInt_length [keeps_length]: "writeInt p n = Some p' \<Longrightarrow> length (fst p') = length (fst p)"
  unfolding writeInt_put by (rule put_length)

lemma writeCString_length [keeps_length]: "writeCString p s = Some p' \<Longrightarrow> length (fst p') = length (fst p)"
  unfolding writeCString_put by (rule put_length)

lemma writeMQTTString_length [keeps_length]: "writeMQTTString p s = Some p' \<Longrightarrow> length (fst p') = length (fst p)"
  by (auto simp: writeMQTTString_def bind_eq_Some_conv split: if_splits option.splits dest!: keeps_length)

lemma encode_length [keeps_length]: "MQTTPacket_encode p n = Some (k, p') \<Longrightarrow> length (fst p') = length (fst p)"
proof (cases "0 \<le> n")
  case True
  then obtain m where "n = int m" using zero_le_imp_eq_int by blast
  then show "MQTTPacket_encode p n = Some (k, p') \<Longrightarrow> length (fst p') = length (fst p)"
    by (auto simp: encode_put dest: put_length)
next
  case False
  then have "\<not> 0 < n sdiv 128" using sdiv_128_less [of n] by auto
  then show "MQTTPacket_encode p n = Some (k, p') \<Longrightarrow> length (fst p') = length (fst p)"
    by (auto simp: MQTTPacket_encode_def encode_loop.simps [of p] Let_def bind_eq_Some_conv dest: writeChar_length)
qed

lemma store_length [keeps_length]: "store b i bs = Some b' \<Longrightarrow> length b' = length b"
  by (auto simp: store_def dest: mem_copy_length)

lemma subscribe_loop_length [keeps_length]: "subscribe_loop i n ts qs p = Some p' \<Longrightarrow> length (fst p') = length (fst p)"
proof (induction "n - i" arbitrary: i p)
  case 0
  then show ?case by (simp add: subscribe_loop.simps [of i])
next
  case (Suc m)
  then have i: "i < n" "m = n - (i + 1)" by simp_all
  obtain t q p1 p2 where "writeMQTTString p t = Some p1" "writeChar p1 q = Some p2" "subscribe_loop (i + 1) n ts qs p2 = Some p'"
    using Suc(3) i(1) by (subst (asm) subscribe_loop.simps) (auto simp: bind_eq_Some_conv)
  with Suc(1) [OF i(2)] show ?case by (auto dest!: writeMQTTString_length writeChar_length)
qed

lemma unsubscribe_loop_length [keeps_length]: "unsubscribe_loop i n ts p = Some p' \<Longrightarrow> length (fst p') = length (fst p)"
proof (induction "n - i" arbitrary: i p)
  case 0
  then show ?case by (simp add: unsubscribe_loop.simps [of i])
next
  case (Suc m)
  then have i: "i < n" "m = n - (i + 1)" by simp_all
  obtain t p1 where "writeMQTTString p t = Some p1" "unsubscribe_loop (i + 1) n ts p1 = Some p'"
    using Suc(3) i(1) by (subst (asm) unsubscribe_loop.simps) (auto simp: bind_eq_Some_conv)
  with Suc(1) [OF i(2)] show ?case by (auto dest!: writeMQTTString_length)
qed

abbreviation (input) same_size :: "wbuf \<Rightarrow> wbuf option \<Rightarrow> bool" where
  "same_size p m \<equiv> ensures (\<lambda>p'. length (fst p') = length (fst p)) m"

lemma write_ensures:
  "same_size p (writeChar p c)" "same_size p (writeInt p n)" "same_size p (writeCString p s)" "same_size p (writeMQTTString p t)"
  "same_size p (mem_copy p src k)" "same_size p (subscribe_loop i m ts qs p)" "same_size p (unsubscribe_loop i m ts p)"
  by (simp_all add: ensures_def keeps_length)

lemma encode_ensures: "ensures (\<lambda>(k, p'). length (fst p') = length (fst p)) (MQTTPacket_encode p n)"
  by (auto simp: ensures_def dest: encode_length)

lemma optional_ensures: "same_size p m \<Longrightarrow> same_size p (if b then m else Some p)"
  by (cases b) (auto simp: ensures_def)

lemma will_ensures: "same_size p (writeMQTTString p s \<bind> (\<lambda>p. writeMQTTString p t))"
  by (auto simp: ensures_def bind_eq_Some_conv dest!: writeMQTTString_length)

lemmas write_binds = write_ensures [THEN ensures_bind] ensures_bind [OF encode_ensures]
  write_ensures [THEN optional_ensures, THEN ensures_bind] ensures_bind [OF optional_ensures [OF will_ensures]]

lemma payload_ensures: "same_size p (if b then None else mem_copy p src k)"
  using write_ensures(5) by (simp add: ensures_def)

text \<open>Every serializer leaves the size of its buffer.\<close>

abbreviation (input) buffer_kept :: "u8 list \<Rightarrow> (int \<times> u8 list) option \<Rightarrow> bool" where
  "buffer_kept b m \<equiv> ensures (\<lambda>(k, b'). length b' = length b) m"

lemma serialize_ensures:
  "buffer_kept b (MQTTSerialize_ack b n ty d i)" "buffer_kept b (MQTTSerialize_zero b n ty)"
  "buffer_kept b (MQTTSerialize_publish b n d q r i t pl k)" "buffer_kept b (MQTTSerialize_connect b n o')"
  "buffer_kept b (MQTTSerialize_subscribe b n d i m ts qs)" "buffer_kept b (MQTTSerialize_unsubscribe b n d i m ts)"
  unfolding MQTTSerialize_ack_def MQTTSerialize_zero_def MQTTSerialize_publish_def MQTTSerialize_connect_def
    MQTTSerialize_subscribe_def MQTTSerialize_unsubscribe_def
  by ((intro write_binds ensures_bind [OF payload_ensures] ensures_bind [OF ensures_any, where m = "MQTTSerialize_subscribeLength m ts"]
        ensures_bind [OF ensures_any, where m = "MQTTSerialize_unsubscribeLength m ts"] ensures_rules; simp)+)

section \<open>The invariant of the client\<close>

definition id_ok :: "mqtt_client \<Rightarrow> bool" where
  "id_ok c \<longleftrightarrow> 1 \<le> next_packetid c \<and> next_packetid c \<le> MAX_PACKET_ID"

definition client_inv :: "mqtt_client \<Rightarrow> bool" where
  "client_inv c \<longleftrightarrow> id_ok c \<and> length (buf c) = unat (buf_size c) \<and> length (readbuf c) = unat (readbuf_size c)
     \<and> length (messageHandlers c) = MAX_MESSAGE_HANDLERS"

text \<open>What every operation leaves of the client: the sizes of its arrays, and a valid packet identifier.\<close>

definition kept :: "mqtt_client \<Rightarrow> mqtt_client \<Rightarrow> bool" where
  "kept c c' \<longleftrightarrow> length (buf c') = length (buf c) \<and> length (readbuf c') = length (readbuf c)
     \<and> buf_size c' = buf_size c \<and> readbuf_size c' = readbuf_size c
     \<and> (length (messageHandlers c) = MAX_MESSAGE_HANDLERS \<longrightarrow> length (messageHandlers c') = MAX_MESSAGE_HANDLERS)
     \<and> (id_ok c \<longrightarrow> id_ok c')"

lemma kept_refl [simp]: "kept c c"
  by (simp add: kept_def)

lemma kept_trans: "kept a b \<Longrightarrow> kept b c \<Longrightarrow> kept a c"
  by (simp add: kept_def)

lemma kept_inv: "kept c c' \<Longrightarrow> client_inv c \<Longrightarrow> client_inv c'"
  by (simp add: kept_def client_inv_def)

lemma kept_updates [simp]:
  "kept c (c'\<lparr>ping_timer := t\<rparr>) = kept c c'" "kept (c\<lparr>ping_timer := t\<rparr>) c' = kept c c'"
  "kept c (c'\<lparr>ping_outstanding := b\<rparr>) = kept c c'" "kept (c\<lparr>ping_outstanding := b\<rparr>) c' = kept c c'"
  "kept c (c'\<lparr>isconnected := b\<rparr>) = kept c c'"
  "kept c (c'\<lparr>keep_alive := k\<rparr>) = kept c c'" "kept (c\<lparr>keep_alive := k\<rparr>) c' = kept c c'"
  by (simp_all add: kept_def id_ok_def)

lemma kept_buf [simp]:
  "length b = length (buf c) \<Longrightarrow> kept (c\<lparr>buf := b\<rparr>) c' = kept c c'"
  "length b = length (buf c') \<Longrightarrow> kept c (c'\<lparr>buf := b\<rparr>) = kept c c'"
  by (simp_all add: kept_def id_ok_def)

lemma kept_readbuf: "length b = length (readbuf c) \<Longrightarrow> kept c (c\<lparr>readbuf := b\<rparr>)"
  by (simp add: kept_def id_ok_def)

lemma next_id_range:
  fixes n :: u32
  assumes "1 \<le> n" "n \<le> 65535"
  shows "1 \<le> (if n = 65535 then 1 else n + 1)" "(if n = 65535 then 1 else n + 1) \<le> 65535"
proof -
  have "unat n < 65535" if "n \<noteq> 65535"
  proof -
    have "n < 65535" using assms(2) that by simp
    then show ?thesis by (simp add: word_less_nat_alt)
  qed
  then have "n \<noteq> 65535 \<Longrightarrow> unat (n + 1) = unat n + 1" by (simp add: unat_word_ariths)
  then show "1 \<le> (if n = 65535 then 1 else n + 1)" "(if n = 65535 then 1 else n + 1) \<le> 65535"
    using \<open>n \<noteq> 65535 \<Longrightarrow> unat n < 65535\<close> by (simp_all add: word_le_nat_alt Suc_le_eq flip: less_Suc_eq_le)
qed

lemma getNextPacketId_kept: "kept c (snd (getNextPacketId c))"
  using next_id_range [of "next_packetid c"] by (simp add: getNextPacketId_def Let_def kept_def id_ok_def)

abbreviation (input) keeps :: "mqtt_client \<Rightarrow> (int \<times> mqtt_client \<times> 'w) option \<Rightarrow> bool" where
  "keeps c m \<equiv> ensures (\<lambda>(rc, c', w). kept c c') m"

lemma sendPacket_keeps: "keeps c (sendPacket env n t c w)"
  unfolding sendPacket_def by (intro ensures_bind [OF ensures_any] ensures_rules) simp_all

lemma store_ensures: "ensures (\<lambda>b'. length b' = length b) (store b i bs)"
  by (simp add: ensures_def store_length)

text \<open>The calls whose result does not matter for the invariant, and those that keep a buffer's size.\<close>

lemmas outside_binds =
  ensures_bind [OF ensures_any, where m = "mqttread env n l w" for env n l w]
  ensures_bind [OF ensures_any, where m = "decodePacket env l w" for env l w]
  ensures_bind [OF ensures_any, where m = "readChar b i" for b i]
  ensures_bind [OF ensures_any, where m = "send_loop env b n t s w" for env b n t s w]
  ensures_bind [OF ensures_any, where m = "deliverMessage env c name m w" for env c name m w]
  ensures_bind [OF ensures_any, where m = "MQTTDeserialize_publish out b n" for out b n]
  ensures_bind [OF ensures_any, where m = "MQTTDeserialize_ack out b n" for out b n]
  ensures_bind [OF ensures_any, where m = "MQTTDeserialize_connack out b n" for out b n]
  ensures_bind [OF ensures_any, where m = "MQTTDeserialize_suback out m b n" for out m b n]
  ensures_bind [OF ensures_any, where m = "MQTTDeserialize_unsuback i b n" for i b n]

lemmas buffer_binds = ensures_bind [OF store_ensures] ensures_bind [OF encode_ensures] serialize_ensures [THEN ensures_bind]

lemma read_body_ensures: "ensures (\<lambda>(ok, b', w). length b' = length b) (read_body env t b i n w)"
  unfolding read_body_def by (intro outside_binds buffer_binds ensures_rules) simp_all

lemma readPacket_keeps: "keeps c (readPacket env t c w)"
  unfolding readPacket_def
  by (intro outside_binds buffer_binds ensures_bind [OF read_body_ensures] ensures_rules) (auto intro: kept_readbuf)

lemma keepalive_keeps: "keeps c (keepalive env c w)"
  unfolding keepalive_def MQTTSerialize_pingreq_def
  by (intro buffer_binds ensures_bind [OF sendPacket_keeps] ensures_rules) auto

abbreviation (input) keeps4 :: "mqtt_client \<Rightarrow> (int \<times> bool \<times> mqtt_client \<times> 'w) option \<Rightarrow> bool" where
  "keeps4 c m \<equiv> ensures (\<lambda>(rc, exits, c', w). kept c c') m"

lemmas op_binds = outside_binds buffer_binds ensures_bind [OF sendPacket_keeps] ensures_bind [OF readPacket_keeps]
  ensures_bind [OF keepalive_keeps]

lemma ack_choice_ensures:
  "buffer_kept b (if p then MQTTSerialize_ack b n ty d i else if q then MQTTSerialize_ack b n ty' d i else Some (0, b))"
  using serialize_ensures(1) by (simp add: ensures_def)

lemma send_choice_keeps: "keeps c (if p then Some (r, c, w) else sendPacket env n t c w)"
  using sendPacket_keeps [of c env n t w] by (simp add: ensures_def)

lemma cycle_publish_keeps: "keeps4 c (cycle_publish env t c w)"
  unfolding cycle_publish_def
  by (intro op_binds ensures_bind [OF ack_choice_ensures] ensures_bind [OF send_choice_keeps] ensures_rules) auto

lemma cycle_pubrec_keeps: "keeps4 c (cycle_pubrec env t c w)"
  unfolding cycle_pubrec_def by (intro op_binds ensures_rules) auto

lemma cycle_keeps: "keeps c (cycle env t c w)"
proof -
  have switch: "keeps4 c (if a then cycle_publish env t c w else if b then cycle_pubrec env t c w
      else if d then Some (0, False, c\<lparr>ping_outstanding := False\<rparr>, w) else Some (0, False, c, w))" for a b d c w
    using cycle_publish_keeps [of c env t w] cycle_pubrec_keeps [of c env t w] by (simp add: ensures_def)
  have alive: "ensures (\<lambda>(c', w). kept c c') (if e then Some (c, w) else keepalive env c w \<bind> (\<lambda>(_, c, w). Some (c, w)))" for e c w
    by (intro op_binds ensures_rules) auto
  show ?thesis
    unfolding cycle_def
    by (intro op_binds ensures_bind [OF switch] ensures_bind [OF alive] ensures_rules) (auto, metis kept_trans)
qed

lemma waitfor_kept:
  assumes "waitfor env ty t rc c w = Some y"
  shows "kept c (fst (snd y))"
proof (rule waitfor.raw_induct [where P = "\<lambda>_ _ _ _ c _ y. kept c (fst (snd y))", OF _ assms])
  fix wf :: "'a mqtt_env \<Rightarrow> int \<Rightarrow> u32 \<Rightarrow> int \<Rightarrow> mqtt_client \<Rightarrow> 'a \<Rightarrow> (int \<times> mqtt_client \<times> 'a) option" and env ty t rc c w y
  assume IH: "\<And>env ty t rc c w y. wf env ty t rc c w = Some y \<Longrightarrow> kept c (fst (snd y))"
  have step: "ensures (\<lambda>y. kept c (fst (snd y))) (wf env ty t r c' w2)" if "kept c c'" for r c' w2
    using that IH [of env ty t r c' w2] by (auto simp: ensures_def intro: kept_trans)
  have "ensures (\<lambda>y. kept c (fst (snd y)))
     (case TimerIsExpired env t w of (expired, w) \<Rightarrow>
        if expired then Some (rc, c, w)
        else cycle env t c w \<bind> (\<lambda>(rc, c, w). if rc \<noteq> ty then wf env ty t rc c w else Some (rc, c, w)))"
    by (intro ensures_bind [OF cycle_keeps] ensures_rules) (auto intro: step)
  moreover assume "(case TimerIsExpired env t w of (expired, w) \<Rightarrow>
        if expired then Some (rc, c, w)
        else cycle env t c w \<bind> (\<lambda>(rc, c, w). if rc \<noteq> ty then wf env ty t rc c w else Some (rc, c, w))) = Some y"
  ultimately show "kept c (fst (snd y))" by (simp add: ensures_def)
qed

lemma waitfor_keeps: "keeps c (waitfor env ty t rc c w)"
  using waitfor_kept by (fastforce simp: ensures_def)

lemmas session_binds = op_binds ensures_bind [OF cycle_keeps] ensures_bind [OF waitfor_keeps]

lemma MQTTYield_keeps: "keeps c (MQTTYield env ms c w)"
  unfolding MQTTYield_def by (intro session_binds ensures_rules) auto

lemma MQTTRun_turn_keeps: "ensures (\<lambda>(c', w). kept c c') (MQTTRun_turn env c w)"
  unfolding MQTTRun_turn_def by (intro session_binds ensures_rules) auto

lemma MQTTConnect_keeps: "keeps c (MQTTConnect env opts c w)"
  unfolding MQTTConnect_def
  by (intro session_binds ensures_bind [OF ensures_any, where m = "if r = x then MQTTDeserialize_connack o' b n \<bind> f else Some z" for r x o' b n f z]
      ensures_rules) (auto intro: kept_trans)

lemma add_handler_length: "add_handler tf f hs = Some hs' \<Longrightarrow> length hs' = length hs"
  by (induction hs arbitrary: hs') (auto split: if_splits)

lemma add_handler_kept:
  "add_handler tf f (take 5 (messageHandlers c)) = Some hs \<Longrightarrow> kept c' c \<Longrightarrow> kept c' (c\<lparr>messageHandlers := hs\<rparr>)"
  by (auto simp: kept_def id_ok_def dest!: add_handler_length)

lemma next_id_kept: "getNextPacketId c = (i, c') \<Longrightarrow> kept c c'"
  using getNextPacketId_kept [of c] by simp

lemma MQTTSubscribe_keeps: "keeps c (MQTTSubscribe env tf qos h c w)"
  unfolding MQTTSubscribe_def
  by (intro session_binds ensures_rules) (auto dest!: next_id_kept intro: kept_trans add_handler_kept)

lemma MQTTUnsubscribe_keeps: "keeps c (MQTTUnsubscribe env tf c w)"
  unfolding MQTTUnsubscribe_def
  by (intro session_binds ensures_rules) (auto dest!: next_id_kept intro: kept_trans)

lemma publish_wait_keeps: "keeps c (publish_wait env ty t rc c w)"
  unfolding publish_wait_def by (intro session_binds ensures_rules) auto

lemma MQTTDisconnect_keeps: "keeps c (MQTTDisconnect env c w)"
proof -
  have send: "keeps c (if p then sendPacket env n t c w else Some (r, c, w))" for p n t r c w
    using sendPacket_keeps [of c env n t w] by (simp add: ensures_def)
  show ?thesis
    unfolding MQTTDisconnect_def MQTTSerialize_disconnect_def
    by (intro session_binds ensures_bind [OF send] ensures_rules) auto
qed

lemma MQTTPublish_keeps: "ensures (\<lambda>(rc, msg', c', w). kept c c') (MQTTPublish env topic msg c w)"
proof -
  have id: "kept c c'" if "(if p then case getNextPacketId c of (pid, c) \<Rightarrow> (msg\<lparr>msg_id := pid\<rparr>, c) else (msg, c)) = (m, c')" for p m c'
    using that getNextPacketId_kept [of c] by (cases "getNextPacketId c") (auto split: if_splits)
  show ?thesis
    unfolding MQTTPublish_def
    by (intro session_binds ensures_bind [OF publish_wait_keeps] ensures_rules) (auto dest!: id intro: kept_trans)
qed

section \<open>Sequences of operations\<close>

text \<open>One operation of the application, or one turn of the background loop, with whatever arguments.\<close>

inductive client_step :: "'w mqtt_env \<Rightarrow> mqtt_client \<times> 'w \<Rightarrow> mqtt_client \<times> 'w \<Rightarrow> bool" for env where
  connect: "MQTTConnect env opts c w = Some (rc, c', w') \<Longrightarrow> client_step env (c, w) (c', w')"
| subscribe: "MQTTSubscribe env tf qos h c w = Some (rc, c', w') \<Longrightarrow> client_step env (c, w) (c', w')"
| unsubscribe: "MQTTUnsubscribe env tf c w = Some (rc, c', w') \<Longrightarrow> client_step env (c, w) (c', w')"
| publish: "MQTTPublish env topic msg c w = Some (rc, msg', c', w') \<Longrightarrow> client_step env (c, w) (c', w')"
| disconnect: "MQTTDisconnect env c w = Some (rc, c', w') \<Longrightarrow> client_step env (c, w) (c', w')"
| yielded: "MQTTYield env ms c w = Some (rc, c', w') \<Longrightarrow> client_step env (c, w) (c', w')"
| turn: "MQTTRun_turn env c w = Some (c', w') \<Longrightarrow> client_step env (c, w) (c', w')"

text \<open>The states after an initialisation with buffers of the sizes given, and any operations.\<close>

inductive client_reach :: "'w mqtt_env \<Rightarrow> mqtt_client \<times> 'w \<Rightarrow> bool" for env where
  init: "length (messageHandlers c) = MAX_MESSAGE_HANDLERS \<Longrightarrow> length sendbuf = unat n \<Longrightarrow> length rbuf = unat m \<Longrightarrow>
    client_reach env (MQTTClientInit c ms sendbuf n rbuf m, w)"
| step: "client_reach env s \<Longrightarrow> client_step env s s' \<Longrightarrow> client_reach env s'"

lemmas operation_keeps = MQTTConnect_keeps MQTTSubscribe_keeps MQTTUnsubscribe_keeps MQTTPublish_keeps
  MQTTDisconnect_keeps MQTTYield_keeps MQTTRun_turn_keeps

lemma client_step_kept: "client_step env s s' \<Longrightarrow> kept (fst s) (fst s')"
  by (induction rule: client_step.induct) (use operation_keeps in \<open>fastforce simp: ensures_def\<close>)+

lemma client_reach_inv: "client_reach env s \<Longrightarrow> client_inv (fst s)"
proof (induction rule: client_reach.induct)
  case (init c sendbuf n rbuf m ms w)
  then show ?case by (simp add: MQTTClientInit_def client_inv_def id_ok_def)
next
  case (step s s')
  then show ?case using client_step_kept kept_inv by blast
qed

lemma next_packet_id_nonzero: "client_inv c \<Longrightarrow> fst (getNextPacketId c) \<noteq> 0"
proof -
  assume "client_inv c"
  define n where "n = (if next_packetid c = 65535 then 1 else next_packetid c + 1)"
  have "1 \<le> n" "n \<le> 65535" using next_id_range [of "next_packetid c"] \<open>client_inv c\<close> by (simp_all add: n_def client_inv_def id_ok_def)
  then have u: "1 \<le> unat n" "unat n < 65536" by (simp_all add: word_le_nat_alt)
  have "unat (ucast n :: u16) = unat n mod 65536" by (simp add: unsigned_ucast_eq take_bit_eq_mod)
  with u have "unat (ucast n :: u16) \<noteq> 0" by simp
  then have "(ucast n :: u16) \<noteq> 0" by (metis unsigned_0)
  then show ?thesis by (simp add: getNextPacketId_def n_def Let_def)
qed

text \<open>
  C11. Invariant of the MQTT client: after an initialisation with buffers of the stated sizes and any
  sequence of operations (connect, subscribe, unsubscribe, publish, disconnect, yield, background
  turns) against any network, clock and handlers, both buffers still have the sizes the client
  believes they have, the handler table has five entries, and the packet identifier that is used
  next is never zero.
\<close>

theorem mqtt_client_invariant:
  assumes "client_reach env (c, w)"
  shows "length (buf c) = unat (buf_size c) \<and> length (readbuf c) = unat (readbuf_size c)
    \<and> length (messageHandlers c) = 5 \<and> next_packetid c \<le> 65535 \<and> fst (getNextPacketId c) \<noteq> 0"
proof -
  have "client_inv c" using client_reach_inv [OF assms] by simp
  then show ?thesis using next_packet_id_nonzero [of c] by (simp add: client_inv_def id_ok_def)
qed

theorem mqtt_client_invariant_witness:
  "\<exists>c. client_reach call_log (c, []) \<and> \<not> isconnected c
    \<and> length (buf c) = unat (buf_size c) \<and> length (readbuf c) = unat (readbuf_size c)
    \<and> length (messageHandlers c) = 5 \<and> next_packetid c \<le> 65535 \<and> fst (getNextPacketId c) \<noteq> 0"
proof -
  define c where "c = MQTTClientInit sample_client 1000 [0, 0] 2 [0, 0, 0] 3"
  have init: "client_reach call_log (c, [])"
    unfolding c_def by (rule client_reach.init) (simp_all add: sample_client_def sample_handlers_def)
  have "MQTTSubscribe call_log [97] 0 None c [] = Some (- 1, c, [])"
    by (simp add: MQTTSubscribe_def c_def MQTTClientInit_def)
  then have "client_step call_log (c, []) (c, [])" by (rule client_step.subscribe)
  with init have r: "client_reach call_log (c, [])" by (rule client_reach.step)
  have "\<not> isconnected c" by (simp add: c_def MQTTClientInit_def)
  with r mqtt_client_invariant [OF r] show ?thesis by blast
qed

end
