(* ===== verification/Mqtt_Traffic.thy ===== *)
theory Mqtt_Traffic
  imports Mqtt_Session
begin

text \<open>
  The MQTT client and its network: what \<^verbatim>\<open>sendPacket\<close> and \<^verbatim>\<open>readPacket\<close> do with a network that takes
  and gives whole packets, with one that takes part of a packet, and with one that fails.
\<close>

section \<open>Sending\<close>

lemma timer_running:
  assumes "\<And>w. milli_timer env w = (now, w)" "0 \<le> sint ms"
  shows "TimerIsExpired env (now + ms) w = (False, w)" "TimerLeftMS env (now + ms) w = (sint ms, w)"
  using assms by (simp_all add: TimerIsExpired_def TimerLeftMS_def)

lemma send_loop_all:
  assumes clock: "\<And>w. milli_timer env w = (now, w)" "0 \<le> sint ms"
    and "mqttwrite env (take n b) (sint ms) w = Some (int n, w')" "0 < n" "n \<le> length b"
  shows "send_loop env b (int n) (now + ms) 0 w = Some (int n, w')"
  using assms(3-5) timer_running [OF clock]
  by (subst send_loop.simps) (simp add: send_loop.simps [of env b "int n" _ "int n"])

lemma sendPacket_all:
  assumes clock: "\<And>w. milli_timer env w = (now, w)" "0 \<le> sint ms"
    and "mqttwrite env (take n (buf c)) (sint ms) w = Some (int n, w')" "0 < n" "n \<le> length (buf c)"
  shows "sendPacket env (int n) (now + ms) c w = Some (0, c\<lparr>ping_timer := now + keep_alive c * 1000\<rparr>, w')"
  using send_loop_all [OF clock assms(3-5)] clock(1) by (simp add: sendPacket_def TimerCountdown_def)

text \<open>The packet of a message that is published without acknowledgement, and what publishing it does.\<close>

definition qos0_packet :: "u8 list \<Rightarrow> mqtt_message \<Rightarrow> u8 list" where
  "qos0_packet topic msg =
     publish_packet 0 0 (msg_retained msg) (msg_id msg) topic (take (nat (sint (msg_payloadlen msg))) (msg_payload msg))"

lemma publish_qos0:
  assumes clock: "\<And>w. milli_timer env w = (now, w)" "0 \<le> sint (command_timeout_ms c)"
    and net: "mqttwrite env (qos0_packet topic msg) (sint (command_timeout_ms c)) w = Some (int (length (qos0_packet topic msg)), w')"
    and client: "isconnected c" "int (length (buf c)) = sint (buf_size c)"
    and msg: "msg_qos msg = 0" "0 \<le> sint (msg_payloadlen msg)" "sint (msg_payloadlen msg) \<le> int (length (msg_payload msg))"
    and fits: "length topic < 65536" "MQTTSerialize_publishLength 0 (c_string topic) (sint (msg_payloadlen msg)) < 268435456"
      "MQTTPacket_len (MQTTSerialize_publishLength 0 (c_string topic) (sint (msg_payloadlen msg))) \<le> sint (buf_size c)"
  shows "MQTTPublish env topic msg c w = Some (0, msg,
    c\<lparr>buf := qos0_packet topic msg @ drop (length (qos0_packet topic msg)) (buf c), ping_timer := now + keep_alive c * 1000\<rparr>, w')"
proof -
  define pkt where "pkt = qos0_packet topic msg"
  have topic: "str_wf (c_string topic)" "str_bytes (c_string topic) = topic"
    using fits(1) by (simp_all add: c_string_def MQTTString_initializer_def str_wf_def MQTTstrlen_def str_bytes_def)
  have "buf_size c = buf_size c" "sint (buf_size c) \<le> int (length (buf c))" using client(2) by simp_all
  note ser = serialize_publish [OF topic(1) msg(2,3) fits(2,3) this(2) refl, of 0 "msg_retained msg" "msg_id msg", unfolded topic(2),
      folded qos0_packet_def, folded pkt_def]
  have len: "0 < length pkt" "length pkt \<le> length (buf c)"
    using ser(2) client(2) by (simp_all add: pkt_def qos0_packet_def publish_packet_def packet_def)
  let ?c = "c\<lparr>buf := pkt @ drop (length pkt) (buf c)\<rparr>"
  have "mqttwrite env (take (length pkt) (buf ?c)) (sint (command_timeout_ms c)) w = Some (int (length pkt), w')"
    using net by (simp add: pkt_def)
  then have "sendPacket env (int (length pkt)) (now + command_timeout_ms c) ?c w
      = Some (0, ?c\<lparr>ping_timer := now + keep_alive ?c * 1000\<rparr>, w')"
    by (rule sendPacket_all [OF clock]) (use len in simp_all)
  then show ?thesis
    using client(1) msg(1) len(1) ser(1) by (simp add: MQTTPublish_def TimerCountdownMS_def clock(1) flip: pkt_def)
qed

text \<open>
  Publishing without acknowledgement: on a connected client whose buffer holds the packet, with a
  network that takes the packet, \<^verbatim>\<open>MQTTPublish\<close> returns success after exactly one write, of
  exactly the bytes of the publish packet, with the time that is left; the rest of the buffer, the
  message and the connection stay as they were and the ping timer is restarted.
\<close>

theorem mqtt_publish_qos0_sends:
  assumes clock: "\<And>w. milli_timer env w = (now, w)" "0 \<le> sint (command_timeout_ms c)"
    and net: "mqttwrite env pkt (sint (command_timeout_ms c)) w = Some (int (length pkt), w')"
    and client: "isconnected c" "int (length (buf c)) = sint (buf_size c)"
    and msg: "msg_qos msg = 0" "0 \<le> sint (msg_payloadlen msg)" "sint (msg_payloadlen msg) \<le> int (length (msg_payload msg))"
    and fits: "length topic < 65536" "MQTTSerialize_publishLength 0 (c_string topic) (sint (msg_payloadlen msg)) < 268435456"
      "MQTTPacket_len (MQTTSerialize_publishLength 0 (c_string topic) (sint (msg_payloadlen msg))) \<le> sint (buf_size c)"
    and pkt: "pkt = publish_packet 0 0 (msg_retained msg) (msg_id msg) topic (take (nat (sint (msg_payloadlen msg))) (msg_payload msg))"
  shows "MQTTPublish env topic msg c w = Some (0, msg,
    c\<lparr>buf := pkt @ drop (length pkt) (buf c), ping_timer := now + keep_alive c * 1000\<rparr>, w')"
  using publish_qos0 [of env now c topic msg w w'] assms by (simp add: qos0_packet_def)

text \<open>A network that records what is written to it, and the time standing still.\<close>

definition write_log :: "u8 list mqtt_env" where
  "write_log = \<lparr>mqttread = \<lambda>n t w. Some (- 1, [], w), mqttwrite = \<lambda>bs t w. Some (int (length bs), w @ bs), milli_timer = \<lambda>w. (7, w),
     call_handler = \<lambda>f name msg w. w, stack = stack call_log\<rparr>"

definition sample_message :: mqtt_message where
  "sample_message = \<lparr>msg_qos = 0, msg_retained = 0, msg_dup = 0, msg_id = 0, msg_payload = [1, 2, 3], msg_payloadlen = 2\<rparr>"

theorem mqtt_publish_qos0_sends_witness:
  "MQTTPublish write_log [97] sample_message sample_client [] = Some (0, sample_message,
    sample_client\<lparr>buf := publish_packet 0 0 0 0 [97] [1, 2] @ drop (length (publish_packet 0 0 0 0 [97] [1, 2])) (buf sample_client),
      ping_timer := 7 + keep_alive sample_client * 1000\<rparr>, publish_packet 0 0 0 0 [97] [1, 2])"
  by (rule mqtt_publish_qos0_sends)
     (simp_all add: write_log_def sample_client_def sample_message_def MQTTSerialize_publishLength_def MQTTstrlen_def c_string_def
      MQTTPacket_len_def)

text \<open>
  A partial write breaks \<^verbatim>\<open>sendPacket\<close>: it passes the whole length again instead of what is left.
  When the network takes \<open>k\<close> of the \<open>n\<close> bytes at first and everything the second time, the call
  reports failure although every byte of the packet went out, and it hands \<open>k\<close> bytes beyond the
  packet to the network; when the buffer ends before \<open>k + n\<close>, the write runs past its end.
\<close>

theorem mqtt_send_partial_write:
  assumes clock: "\<And>w. milli_timer env w = (now, w)" "0 \<le> sint ms"
    and "0 < k" "k < n" "n \<le> length (buf c)"
    and first: "mqttwrite env (take n (buf c)) (sint ms) w = Some (int k, w1)"
    and second: "mqttwrite env (take n (drop k (buf c))) (sint ms) w1 = Some (int n, w2)"
  shows "sendPacket env (int n) (now + ms) c w = (if k + n \<le> length (buf c) then Some (- 1, c, w2) else None)"
proof -
  have "send_loop env (buf c) (int n) (now + ms) 0 w = send_loop env (buf c) (int n) (now + ms) (int k) w1"
    using assms(3-5) first timer_running [OF clock] by (subst send_loop.simps) simp
  also have "\<dots> = (if k + n \<le> length (buf c) then send_loop env (buf c) (int n) (now + ms) (int k + int n) w2 else None)"
    using assms(3,4) second timer_running [OF clock] by (subst send_loop.simps) simp
  also have "\<dots> = (if k + n \<le> length (buf c) then Some (int k + int n, w2) else None)"
    by (simp add: send_loop.simps [of env _ _ _ "int k + int n"])
  finally show ?thesis using assms(3) by (simp add: sendPacket_def)
qed

text \<open>A network that takes one byte at first, and then everything.\<close>

definition slow_log :: "u8 list mqtt_env" where
  "slow_log = write_log\<lparr>mqttwrite := \<lambda>bs t w. if w = [] then Some (1, take 1 bs) else Some (int (length bs), w @ bs)\<rparr>"

theorem mqtt_send_partial_write_witness:
  "sendPacket slow_log (int 2) (7 + 5) (sample_client\<lparr>buf := [1, 2, 3, 4]\<rparr>) []
    = (if 1 + 2 \<le> length (buf (sample_client\<lparr>buf := [1, 2, 3, 4]\<rparr>)) then Some (- 1, sample_client\<lparr>buf := [1, 2, 3, 4]\<rparr>, [1, 2, 3]) else None)"
  by (rule mqtt_send_partial_write [where ?w1.0 = "[1]"]) (simp_all add: slow_log_def write_log_def)

section \<open>Receiving\<close>

lemma decodePacket_stream:
  assumes src: "\<And>l w b bs. rest w = b # bs \<Longrightarrow> \<exists>w'. mqttread env 1 l w = Some (1, [b], w') \<and> rest w' = bs"
    and "rest w = enc n @ cs" "n < 268435456"
  shows "\<exists>w'. decodePacket env l w = Some (int (length (enc n)), int n, w') \<and> rest w' = cs"
proof -
  have "byte_source (\<lambda>n. mqttread env n l) rest" by unfold_locales (rule src)
  from byte_source.decode_rest [OF this assms(2,3)] show ?thesis
    by (simp add: decodePacket_def MQTTPacket_decode_def)
qed

text \<open>
  \<^verbatim>\<open>readPacket\<close> on a network that gives single bytes: once it has read the first byte and the length, it
  has put them into the buffer and goes on to the body.
\<close>

lemma readPacket_header:
  assumes src: "\<And>l w b bs. rest w = b # bs \<Longrightarrow> \<exists>w'. mqttread env 1 l w = Some (1, [b], w') \<and> rest w' = bs"
    and left: "\<And>w. TimerLeftMS env t w = (l, w)"
    and stream: "rest w = h # enc n @ cs" "n < 268435456"
    and "5 \<le> length (readbuf c)"
  defines "k \<equiv> length (enc n)"
  shows "k \<le> 4 \<and> (\<exists>w'. rest w' = cs \<and> readPacket env t c w = do {
      (ok, b, w) \<leftarrow> read_body env t (h # enc n @ drop (1 + k) (readbuf c)) (1 + k) (int n) w';
      if \<not> ok then Some (- 1, c\<lparr>readbuf := b\<rparr>, w)
      else do { (h, _) \<leftarrow> readChar b 0; Some (int (header_type h), c\<lparr>readbuf := b\<rparr>, w) }
    })"
proof -
  let ?b = "readbuf c"
  have k: "k \<le> 4" unfolding k_def using stream(2) by (intro enc_length) simp_all
  obtain w1 where w1: "mqttread env 1 l w = Some (1, [h], w1)" "rest w1 = enc n @ cs"
    using src stream(1) by blast
  obtain w2 where w2: "decodePacket env l w1 = Some (int k, int n, w2)" "rest w2 = cs"
    using decodePacket_stream [OF src w1(2) stream(2), of l] by (auto simp: k_def)
  have st: "store ?b 0 [h] = Some (h # drop 1 ?b)" using assms(5) by (cases ?b) (simp_all add: store_def mem_copy_def)
  have "MQTTPacket_encode (h # drop 1 ?b, 1) (int n) = Some (int k, (h # enc n @ drop (1 + k) ?b, 1 + k))"
    using assms(5) k stream(2) by (simp add: encode_put put_eq k_def)
  moreover have "nat (1 + int k) = 1 + k" by simp
  ultimately show ?thesis
    using k w1(1) w2 st by (intro conjI exI [of _ w2]) (simp_all add: readPacket_def left)
qed

text \<open>
  \<^verbatim>\<open>readPacket\<close> on a stream that starts with a packet, from a network that gives the bytes it is
  asked for: when the packet fits the read buffer, the call returns its type, and the buffer holds
  exactly its bytes, the rest of it unchanged. The size of the buffer is never looked at: a packet
  that is longer than the buffer makes the call write past the buffer's end.
\<close>

theorem mqtt_read_packet_unbounded:
  assumes src: "\<And>l w bs cs. rest w = bs @ cs \<Longrightarrow> bs \<noteq> [] \<Longrightarrow>
      \<exists>w'. mqttread env (int (length bs)) l w = Some (int (length bs), bs, w') \<and> rest w' = cs"
    and clock: "\<And>w. milli_timer env w = (now, w)"
    and stream: "rest w = h # enc (length body) @ body @ cs" "0 < length body" "length body < 268435456"
    and "5 \<le> length (readbuf c)"
  defines "pkt \<equiv> h # enc (length body) @ body"
  shows "if length pkt \<le> length (readbuf c)
    then \<exists>w'. readPacket env t c w = Some (int (header_type h), c\<lparr>readbuf := pkt @ drop (length pkt) (readbuf c)\<rparr>, w') \<and> rest w' = cs
    else readPacket env t c w = None"
proof -
  let ?k = "length (enc (length body))" let ?b = "readbuf c"
  define l where "l = fst (TimerLeftMS env t w)"
  have left: "TimerLeftMS env t w' = (l, w')" for w' by (simp add: l_def TimerLeftMS_def clock)
  have one: "\<exists>w'. mqttread env 1 l w = Some (1, [b], w') \<and> rest w' = bs" if "rest w = b # bs" for l w b bs
    using src [of w "[b]" bs l] that by simp
  define b2 where "b2 = h # enc (length body) @ drop (1 + ?k) ?b"
  obtain w2 where k: "?k \<le> 4" and w2: "rest w2 = body @ cs" "readPacket env t c w = do {
      (ok, b, w) \<leftarrow> read_body env t b2 (1 + ?k) (int (length body)) w2;
      if \<not> ok then Some (- 1, c\<lparr>readbuf := b\<rparr>, w)
      else do { (h, _) \<leftarrow> readChar b 0; Some (int (header_type h), c\<lparr>readbuf := b\<rparr>, w) } }"
    unfolding b2_def using readPacket_header [OF one left stream(1,3) assms(6)] by blast
  obtain w3 where w3: "mqttread env (int (length body)) l w2 = Some (int (length body), body, w3)" "rest w3 = cs"
    using src [OF w2(1)] stream(2) by auto
  have "store b2 (1 + ?k) body = (if length pkt \<le> length ?b then Some (pkt @ drop (length pkt) ?b) else None)"
    using assms(6) k by (auto simp: store_def mem_copy_def b2_def pkt_def add.commute)
  moreover have "readChar (pkt @ drop (length pkt) ?b) 0 = Some (h, 1)" by (simp add: readChar_def pkt_def)
  ultimately show ?thesis
    using stream(2) w3 w2(2) by (simp add: read_body_def left)
qed

text \<open>A network whose state is the stream of the bytes that have arrived.\<close>

definition stream_net :: "u8 list mqtt_env" where
  "stream_net = write_log\<lparr>mqttread := \<lambda>n t w. list_source n w\<rparr>"

theorem mqtt_read_packet_unbounded_witness:
  "if length (0x40 # enc (length [0, 7 :: u8]) @ [0, 7]) \<le> length (readbuf sample_client)
    then \<exists>w'. readPacket stream_net 0 sample_client [0x40, 2, 0, 7, 0xC0] = Some (int (header_type 0x40),
        sample_client\<lparr>readbuf := (0x40 # enc (length [0, 7 :: u8]) @ [0, 7])
          @ drop (length (0x40 # enc (length [0, 7 :: u8]) @ [0, 7])) (readbuf sample_client)\<rparr>, w') \<and> id w' = [0xC0]
    else readPacket stream_net 0 sample_client [0x40, 2, 0, 7, 0xC0] = None"
  by (rule mqtt_read_packet_unbounded [where rest = id and now = 7])
    (auto simp: stream_net_def write_log_def list_source_def enc.simps sample_client_def)

text \<open>
  A dead connection looks alive: when every read from the network fails, \<^verbatim>\<open>cycle\<close> stores the failure
  code in an unsigned 16-bit variable and returns 65535 instead of the negative code, so that
  \<^verbatim>\<open>MQTTYield\<close> reports success (here for a client without keep-alive).
\<close>

theorem mqtt_yield_hides_failure:
  assumes "\<And>n l w. mqttread env n l w = Some (rc, [], w)" "rc \<noteq> 1" "keep_alive c = 0"
  shows "\<exists>w'. cycle env t c w = Some (65535, c, w') \<and> (\<exists>w'. MQTTYield env ms c w = Some (0, c, w'))"
proof -
  have store: "store (readbuf c) 0 [] = Some (readbuf c)" by (simp add: store_def mem_copy_def)
  have read: "\<exists>w'. readPacket env t c w = Some (- 1, c, w')" for t w
  proof -
    obtain l w1 where "TimerLeftMS env t w = (l, w1)" by (cases "TimerLeftMS env t w")
    with assms(1,2) store show ?thesis by (simp add: readPacket_def)
  qed
  have cycle: "\<exists>w'. cycle env t c w = Some (65535, c, w')" for t w
  proof -
    obtain w1 where "readPacket env t c w = Some (- 1, c, w1)" using read by blast
    moreover have "unat (word_of_int (- 1) :: u16) = 65535" by (simp add: unsigned_minus_1_eq_mask mask_eq_exp_minus_1)
    ultimately show ?thesis using assms(3) by (simp only: cycle_def keepalive_def Let_def) simp
  qed
  obtain t1 w1 where "TimerCountdownMS env ms w = (t1, w1)" by (cases "TimerCountdownMS env ms w")
  moreover obtain w2 where "cycle env t1 c w1 = Some (65535, c, w2)" using cycle by blast
  ultimately have "MQTTYield env ms c w = Some (0, c, w2)" by (simp add: MQTTYield_def)
  with cycle [of t w] show ?thesis by blast
qed

theorem mqtt_yield_hides_failure_witness:
  "\<exists>w'. cycle call_log 0 sample_client [] = Some (65535, sample_client, w')
    \<and> (\<exists>w'. MQTTYield call_log 100 sample_client [] = Some (0, sample_client, w'))"
  by (rule mqtt_yield_hides_failure [where rc = "- 1"]) (simp_all add: call_log_def sample_client_def)

end
