(* ===== verification/W6300.thy ===== *)
theory W6300
  imports Prelude
begin

text \<open>
  \<^verbatim>\<open>Ethernet/W6300/w6300.c\<close> and \<^verbatim>\<open>w6300.h\<close>: the register map of the Ethernet chip that
  \<^verbatim>\<open>wizchip_conf.h\<close> selects when the build does not, its access functions over the QSPI callbacks,
  the accessor macros, and the copies to and from the socket buffers.

  The callbacks of \<^verbatim>\<open>_WIZCHIP\<close> are registered by the application, which the repository does not
  have: they are the parameter \<open>E\<close>, functions on a state \<open>'w\<close> of the application and the chip. A
  read callback is given the bytes it overwrites. The mode is the default
  \<^verbatim>\<open>QSPI_SINGLE_MODE\<close>. Waiting for the chip is a partial function, \<open>None\<close> when it never ends, and
  so is an access to more bytes than a buffer has. Two reads in one C expression are taken from
  left to right.
\<close>

section \<open>The callbacks\<close>

record 'w wizchip =
  cris_enter :: "'w \<Rightarrow> 'w"
  cris_exit :: "'w \<Rightarrow> 'w"
  cs_select :: "'w \<Rightarrow> 'w"
  cs_deselect :: "'w \<Rightarrow> 'w"
  read_qspi :: "u8 \<Rightarrow> u16 \<Rightarrow> u8 list \<Rightarrow> 'w \<Rightarrow> u8 list \<times> 'w"
  write_qspi :: "u8 \<Rightarrow> u16 \<Rightarrow> u8 list \<Rightarrow> 'w \<Rightarrow> 'w"

text \<open>What a callback stores in the buffer it is given: it cannot change the number of bytes.\<close>

definition fill :: "u8 list \<Rightarrow> u8 list \<Rightarrow> u8 list" where
  "fill old new = take (length old) new @ drop (length new) old"

text \<open>The callbacks that \<^verbatim>\<open>wizchip_conf.c\<close> installs when it is given null pointers: they do nothing.\<close>

definition wizchip_cris_enter :: "'w \<Rightarrow> 'w" where "wizchip_cris_enter w = w"
definition wizchip_cris_exit :: "'w \<Rightarrow> 'w" where "wizchip_cris_exit w = w"
definition wizchip_cs_select :: "'w \<Rightarrow> 'w" where "wizchip_cs_select w = w"
definition wizchip_cs_deselect :: "'w \<Rightarrow> 'w" where "wizchip_cs_deselect w = w"
definition wizchip_qspi_read :: "u8 \<Rightarrow> u16 \<Rightarrow> u8 list \<Rightarrow> 'w \<Rightarrow> u8 list \<times> 'w" where
  "wizchip_qspi_read opcode addr pBuf w = (pBuf, w)"
definition wizchip_qspi_write :: "u8 \<Rightarrow> u16 \<Rightarrow> u8 list \<Rightarrow> 'w \<Rightarrow> 'w" where
  "wizchip_qspi_write opcode addr pBuf w = w"

definition wizchip_default :: "'w wizchip" where
  "wizchip_default = \<lparr>cris_enter = wizchip_cris_enter, cris_exit = wizchip_cris_exit,
     cs_select = wizchip_cs_select, cs_deselect = wizchip_cs_deselect,
     read_qspi = wizchip_qspi_read, write_qspi = wizchip_qspi_write\<rparr>"

section \<open>Access to the chip\<close>

abbreviation (input) W6300_SPI_READ :: u8 where "W6300_SPI_READ \<equiv> 0x00"
abbreviation (input) W6300_SPI_WRITE :: u8 where "W6300_SPI_WRITE \<equiv> 0x20"
abbreviation (input) QSPI_SINGLE_MODE :: u8 where "QSPI_SINGLE_MODE \<equiv> 0x00"

definition WIZCHIP_READ_BUF :: "'w wizchip \<Rightarrow> u32 \<Rightarrow> u8 list \<Rightarrow> 'w \<Rightarrow> u8 list \<times> 'w" where
  "WIZCHIP_READ_BUF E AddrSel pBuf w =
     (let opcode = ucast (AddrSel AND 0x000000FF) OR W6300_SPI_READ OR QSPI_SINGLE_MODE;
          ADDR = ucast (drop_bit 8 (AddrSel AND 0x00ffff00));
          (bs, w) = read_qspi E opcode ADDR pBuf (cs_select E (cris_enter E w))
      in (fill pBuf bs, cris_exit E (cs_deselect E w)))"

definition WIZCHIP_WRITE_BUF :: "'w wizchip \<Rightarrow> u32 \<Rightarrow> u8 list \<Rightarrow> 'w \<Rightarrow> 'w" where
  "WIZCHIP_WRITE_BUF E AddrSel pBuf w =
     (let opcode = ucast (AddrSel AND 0x000000FF) OR W6300_SPI_WRITE OR QSPI_SINGLE_MODE;
          ADDR = ucast (drop_bit 8 (AddrSel AND 0x00ffff00));
          w = write_qspi E opcode ADDR pBuf (cs_select E (cris_enter E w))
      in cris_exit E (cs_deselect E w))"

definition WIZCHIP_READ :: "'w wizchip \<Rightarrow> u32 \<Rightarrow> 'w \<Rightarrow> u8 \<times> 'w" where
  "WIZCHIP_READ E AddrSel w =
     (let opcode = ucast (AddrSel AND 0x000000FF) OR W6300_SPI_READ OR QSPI_SINGLE_MODE;
          ADDR = ucast (drop_bit 8 (AddrSel AND 0x00ffff00));
          (bs, w) = read_qspi E opcode ADDR [0] (cs_select E (cris_enter E w))
      in (hd (fill [0] bs), cris_exit E (cs_deselect E w)))"

definition WIZCHIP_WRITE :: "'w wizchip \<Rightarrow> u32 \<Rightarrow> u8 \<Rightarrow> 'w \<Rightarrow> 'w" where
  "WIZCHIP_WRITE E AddrSel wb w =
     (let opcode = ucast (AddrSel AND 0x000000FF) OR W6300_SPI_WRITE OR QSPI_SINGLE_MODE;
          ADDR = ucast (drop_bit 8 (AddrSel AND 0x00ffff00));
          w = write_qspi E opcode ADDR [wb] (cs_select E (cris_enter E w))
      in cris_exit E (cs_deselect E w))"

text \<open>The addresses: the offset above the block select byte.\<close>

definition WIZCHIP_CREG_BLOCK :: u32 where "WIZCHIP_CREG_BLOCK = 0x00"
definition WIZCHIP_SREG_BLOCK :: "u8 \<Rightarrow> u32" where "WIZCHIP_SREG_BLOCK N = 1 + 4 * ucast N"
definition WIZCHIP_TXBUF_BLOCK :: "u8 \<Rightarrow> u32" where "WIZCHIP_TXBUF_BLOCK N = 2 + 4 * ucast N"
definition WIZCHIP_RXBUF_BLOCK :: "u8 \<Rightarrow> u32" where "WIZCHIP_RXBUF_BLOCK N = 3 + 4 * ucast N"

definition WIZCHIP_OFFSET_INC :: "u32 \<Rightarrow> u32 \<Rightarrow> u32" where
  "WIZCHIP_OFFSET_INC ADDR N = ADDR + push_bit 8 N"

section \<open>Registers\<close>

definition CIDR_reg :: "u32" where "CIDR_reg = push_bit 8 0x0000 + WIZCHIP_CREG_BLOCK"
definition RTL_reg :: "u32" where "RTL_reg = push_bit 8 0x0004 + WIZCHIP_CREG_BLOCK"
definition VER_reg :: "u32" where "VER_reg = push_bit 8 0x0002 + WIZCHIP_CREG_BLOCK"
definition SYSR_reg :: "u32" where "SYSR_reg = push_bit 8 0x2000 + WIZCHIP_CREG_BLOCK"
definition SYCR0_reg :: "u32" where "SYCR0_reg = push_bit 8 0x2004 + WIZCHIP_CREG_BLOCK"
definition SYCR1_reg :: "u32" where "SYCR1_reg = WIZCHIP_OFFSET_INC SYCR0_reg 1"
definition TCNTR_reg :: "u32" where "TCNTR_reg = push_bit 8 0x2016 + WIZCHIP_CREG_BLOCK"
definition TCNTRCLR_reg :: "u32" where "TCNTRCLR_reg = push_bit 8 0x2020 + WIZCHIP_CREG_BLOCK"
definition IR_reg :: "u32" where "IR_reg = push_bit 8 0x2100 + WIZCHIP_CREG_BLOCK"
definition SIR_reg :: "u32" where "SIR_reg = push_bit 8 0x2101 + WIZCHIP_CREG_BLOCK"
definition SLIR_reg :: "u32" where "SLIR_reg = push_bit 8 0x2102 + WIZCHIP_CREG_BLOCK"
definition IMR_reg :: "u32" where "IMR_reg = push_bit 8 0x2104 + WIZCHIP_CREG_BLOCK"
definition IRCLR_reg :: "u32" where "IRCLR_reg = push_bit 8 0x2108 + WIZCHIP_CREG_BLOCK"
definition SIMR_reg :: "u32" where "SIMR_reg = push_bit 8 0x2114 + WIZCHIP_CREG_BLOCK"
definition SLIMR_reg :: "u32" where "SLIMR_reg = push_bit 8 0x2124 + WIZCHIP_CREG_BLOCK"
definition SLIRCLR_reg :: "u32" where "SLIRCLR_reg = push_bit 8 0x2128 + WIZCHIP_CREG_BLOCK"
definition SLPSR_reg :: "u32" where "SLPSR_reg = push_bit 8 0x212C + WIZCHIP_CREG_BLOCK"
definition SLCR_reg :: "u32" where "SLCR_reg = push_bit 8 0x2130 + WIZCHIP_CREG_BLOCK"
definition PHYSR_reg :: "u32" where "PHYSR_reg = push_bit 8 0x3000 + WIZCHIP_CREG_BLOCK"
definition PHYRAR_reg :: "u32" where "PHYRAR_reg = push_bit 8 0x3008 + WIZCHIP_CREG_BLOCK"
definition PHYDIR_reg :: "u32" where "PHYDIR_reg = push_bit 8 0x300C + WIZCHIP_CREG_BLOCK"
definition PHYDOR_reg :: "u32" where "PHYDOR_reg = push_bit 8 0x3010 + WIZCHIP_CREG_BLOCK"
definition PHYACR_reg :: "u32" where "PHYACR_reg = push_bit 8 0x3014 + WIZCHIP_CREG_BLOCK"
definition PHYDIVR_reg :: "u32" where "PHYDIVR_reg = push_bit 8 0x3018 + WIZCHIP_CREG_BLOCK"
definition PHYCR0_reg :: "u32" where "PHYCR0_reg = push_bit 8 0x301C + WIZCHIP_CREG_BLOCK"
definition PHYCR1_reg :: "u32" where "PHYCR1_reg = WIZCHIP_OFFSET_INC PHYCR0_reg 1"
definition NET4MR_reg :: "u32" where "NET4MR_reg = push_bit 8 0x4000 + WIZCHIP_CREG_BLOCK"
definition NET6MR_reg :: "u32" where "NET6MR_reg = push_bit 8 0x4004 + WIZCHIP_CREG_BLOCK"
definition NETMR_reg :: "u32" where "NETMR_reg = push_bit 8 0x4008 + WIZCHIP_CREG_BLOCK"
definition NETMR2_reg :: "u32" where "NETMR2_reg = push_bit 8 0x4009 + WIZCHIP_CREG_BLOCK"
definition PTMR_reg :: "u32" where "PTMR_reg = push_bit 8 0x4100 + WIZCHIP_CREG_BLOCK"
definition PMNR_reg :: "u32" where "PMNR_reg = push_bit 8 0x4104 + WIZCHIP_CREG_BLOCK"
definition PHAR_reg :: "u32" where "PHAR_reg = push_bit 8 0x4108 + WIZCHIP_CREG_BLOCK"
definition PSIDR_reg :: "u32" where "PSIDR_reg = push_bit 8 0x4110 + WIZCHIP_CREG_BLOCK"
definition PMRUR_reg :: "u32" where "PMRUR_reg = push_bit 8 0x4114 + WIZCHIP_CREG_BLOCK"
definition SHAR_reg :: "u32" where "SHAR_reg = push_bit 8 0x4120 + WIZCHIP_CREG_BLOCK"
definition GAR_reg :: "u32" where "GAR_reg = push_bit 8 0x4130 + WIZCHIP_CREG_BLOCK"
definition GA4R_reg :: "u32" where "GA4R_reg = GAR_reg"
definition SUBR_reg :: "u32" where "SUBR_reg = push_bit 8 0x4134 + WIZCHIP_CREG_BLOCK"
definition SUB4R_reg :: "u32" where "SUB4R_reg = SUBR_reg"
definition SIPR_reg :: "u32" where "SIPR_reg = push_bit 8 0x4138 + WIZCHIP_CREG_BLOCK"
definition SIP4R_reg :: "u32" where "SIP4R_reg = SIPR_reg"
definition LLAR_reg :: "u32" where "LLAR_reg = push_bit 8 0x4140 + WIZCHIP_CREG_BLOCK"
definition GUAR_reg :: "u32" where "GUAR_reg = push_bit 8 0x4150 + WIZCHIP_CREG_BLOCK"
definition SUB6R_reg :: "u32" where "SUB6R_reg = push_bit 8 0x4160 + WIZCHIP_CREG_BLOCK"
definition GA6R_reg :: "u32" where "GA6R_reg = push_bit 8 0x4170 + WIZCHIP_CREG_BLOCK"
definition SLDIP6R_reg :: "u32" where "SLDIP6R_reg = push_bit 8 0x4180 + WIZCHIP_CREG_BLOCK"
definition SLDIPR_reg :: "u32" where "SLDIPR_reg = push_bit 8 0x418C + WIZCHIP_CREG_BLOCK"
definition SLDIP4R_reg :: "u32" where "SLDIP4R_reg = SLDIPR_reg"
definition SLDHAR_reg :: "u32" where "SLDHAR_reg = push_bit 8 0x4190 + WIZCHIP_CREG_BLOCK"
definition PINGIDR_reg :: "u32" where "PINGIDR_reg = push_bit 8 0x4198 + WIZCHIP_CREG_BLOCK"
definition PINGSEQR_reg :: "u32" where "PINGSEQR_reg = push_bit 8 0x419C + WIZCHIP_CREG_BLOCK"
definition UIPR_reg :: "u32" where "UIPR_reg = push_bit 8 0x41A0 + WIZCHIP_CREG_BLOCK"
definition UIP4R_reg :: "u32" where "UIP4R_reg = UIPR_reg"
definition UPORTR_reg :: "u32" where "UPORTR_reg = push_bit 8 0x41A4 + WIZCHIP_CREG_BLOCK"
definition UPORT4R_reg :: "u32" where "UPORT4R_reg = UPORTR_reg"
definition UIP6R_reg :: "u32" where "UIP6R_reg = push_bit 8 0x41B0 + WIZCHIP_CREG_BLOCK"
definition UPORT6R_reg :: "u32" where "UPORT6R_reg = push_bit 8 0x41C0 + WIZCHIP_CREG_BLOCK"
definition INTPTMR_reg :: "u32" where "INTPTMR_reg = push_bit 8 0x41C5 + WIZCHIP_CREG_BLOCK"
definition PLR_reg :: "u32" where "PLR_reg = push_bit 8 0x41D0 + WIZCHIP_CREG_BLOCK"
definition PFR_reg :: "u32" where "PFR_reg = push_bit 8 0x41D4 + WIZCHIP_CREG_BLOCK"
definition VLTR_reg :: "u32" where "VLTR_reg = push_bit 8 0x41D8 + WIZCHIP_CREG_BLOCK"
definition PLTR_reg :: "u32" where "PLTR_reg = push_bit 8 0x41DC + WIZCHIP_CREG_BLOCK"
definition PAR_reg :: "u32" where "PAR_reg = push_bit 8 0x41E0 + WIZCHIP_CREG_BLOCK"
definition ICMP6BLKR_reg :: "u32" where "ICMP6BLKR_reg = push_bit 8 0x41F0 + WIZCHIP_CREG_BLOCK"
definition CHPLCKR_reg :: "u32" where "CHPLCKR_reg = push_bit 8 0x41F4 + WIZCHIP_CREG_BLOCK"
definition NETLCKR_reg :: "u32" where "NETLCKR_reg = push_bit 8 0x41F5 + WIZCHIP_CREG_BLOCK"
definition PHYLCKR_reg :: "u32" where "PHYLCKR_reg = push_bit 8 0x41F6 + WIZCHIP_CREG_BLOCK"
definition RTR_reg :: "u32" where "RTR_reg = push_bit 8 0x4200 + WIZCHIP_CREG_BLOCK"
definition RCR_reg :: "u32" where "RCR_reg = push_bit 8 0x4204 + WIZCHIP_CREG_BLOCK"
definition SLRTR_reg :: "u32" where "SLRTR_reg = push_bit 8 0x4208 + WIZCHIP_CREG_BLOCK"
definition SLRCR_reg :: "u32" where "SLRCR_reg = push_bit 8 0x420C + WIZCHIP_CREG_BLOCK"
definition SLHOPR_reg :: "u32" where "SLHOPR_reg = push_bit 8 0x420F + WIZCHIP_CREG_BLOCK"
definition Sn_MR_reg :: "u8 \<Rightarrow> u32" where "Sn_MR_reg N = push_bit 8 0x0000 + WIZCHIP_SREG_BLOCK N"
definition Sn_PSR_reg :: "u8 \<Rightarrow> u32" where "Sn_PSR_reg N = push_bit 8 0x0004 + WIZCHIP_SREG_BLOCK N"
definition Sn_CR_reg :: "u8 \<Rightarrow> u32" where "Sn_CR_reg N = push_bit 8 0x0010 + WIZCHIP_SREG_BLOCK N"
definition Sn_IR_reg :: "u8 \<Rightarrow> u32" where "Sn_IR_reg N = push_bit 8 0x0020 + WIZCHIP_SREG_BLOCK N"
definition Sn_IMR_reg :: "u8 \<Rightarrow> u32" where "Sn_IMR_reg N = push_bit 8 0x0024 + WIZCHIP_SREG_BLOCK N"
definition Sn_IRCLR_reg :: "u8 \<Rightarrow> u32" where "Sn_IRCLR_reg N = push_bit 8 0x0028 + WIZCHIP_SREG_BLOCK N"
definition Sn_SR_reg :: "u8 \<Rightarrow> u32" where "Sn_SR_reg N = push_bit 8 0x0030 + WIZCHIP_SREG_BLOCK N"
definition Sn_ESR_reg :: "u8 \<Rightarrow> u32" where "Sn_ESR_reg N = push_bit 8 0x0031 + WIZCHIP_SREG_BLOCK N"
definition Sn_PNR_reg :: "u8 \<Rightarrow> u32" where "Sn_PNR_reg N = push_bit 8 0x0100 + WIZCHIP_SREG_BLOCK N"
definition Sn_NHR_reg :: "u8 \<Rightarrow> u32" where "Sn_NHR_reg N = Sn_PNR_reg N"
definition Sn_TOSR_reg :: "u8 \<Rightarrow> u32" where "Sn_TOSR_reg N = push_bit 8 0x0104 + WIZCHIP_SREG_BLOCK N"
definition Sn_TTLR_reg :: "u8 \<Rightarrow> u32" where "Sn_TTLR_reg N = push_bit 8 0x0108 + WIZCHIP_SREG_BLOCK N"
definition Sn_HOPR_reg :: "u8 \<Rightarrow> u32" where "Sn_HOPR_reg N = Sn_TTLR_reg N"
definition Sn_FRGR_reg :: "u8 \<Rightarrow> u32" where "Sn_FRGR_reg N = push_bit 8 0x010C + WIZCHIP_SREG_BLOCK N"
definition Sn_MSSR_reg :: "u8 \<Rightarrow> u32" where "Sn_MSSR_reg N = push_bit 8 0x0110 + WIZCHIP_SREG_BLOCK N"
definition Sn_PORTR_reg :: "u8 \<Rightarrow> u32" where "Sn_PORTR_reg N = push_bit 8 0x0114 + WIZCHIP_SREG_BLOCK N"
definition Sn_DHAR_reg :: "u8 \<Rightarrow> u32" where "Sn_DHAR_reg N = push_bit 8 0x0118 + WIZCHIP_SREG_BLOCK N"
definition Sn_DIPR_reg :: "u8 \<Rightarrow> u32" where "Sn_DIPR_reg N = push_bit 8 0x0120 + WIZCHIP_SREG_BLOCK N"
definition Sn_DIP4R_reg :: "u8 \<Rightarrow> u32" where "Sn_DIP4R_reg N = Sn_DIPR_reg N"
definition Sn_DIP6R_reg :: "u8 \<Rightarrow> u32" where "Sn_DIP6R_reg N = push_bit 8 0x0130 + WIZCHIP_SREG_BLOCK N"
definition Sn_DPORTR_reg :: "u8 \<Rightarrow> u32" where "Sn_DPORTR_reg N = push_bit 8 0x0140 + WIZCHIP_SREG_BLOCK N"
definition Sn_MR2_reg :: "u8 \<Rightarrow> u32" where "Sn_MR2_reg N = push_bit 8 0x0144 + WIZCHIP_SREG_BLOCK N"
definition Sn_RTR_reg :: "u8 \<Rightarrow> u32" where "Sn_RTR_reg N = push_bit 8 0x0180 + WIZCHIP_SREG_BLOCK N"
definition Sn_RCR_reg :: "u8 \<Rightarrow> u32" where "Sn_RCR_reg N = push_bit 8 0x0184 + WIZCHIP_SREG_BLOCK N"
definition Sn_KPALVTR_reg :: "u8 \<Rightarrow> u32" where "Sn_KPALVTR_reg N = push_bit 8 0x0188 + WIZCHIP_SREG_BLOCK N"
definition Sn_TX_BSR_reg :: "u8 \<Rightarrow> u32" where "Sn_TX_BSR_reg N = push_bit 8 0x0200 + WIZCHIP_SREG_BLOCK N"
definition Sn_TX_FSR_reg :: "u8 \<Rightarrow> u32" where "Sn_TX_FSR_reg N = push_bit 8 0x0204 + WIZCHIP_SREG_BLOCK N"
definition Sn_TX_RD_reg :: "u8 \<Rightarrow> u32" where "Sn_TX_RD_reg N = push_bit 8 0x0208 + WIZCHIP_SREG_BLOCK N"
definition Sn_TX_WR_reg :: "u8 \<Rightarrow> u32" where "Sn_TX_WR_reg N = push_bit 8 0x020C + WIZCHIP_SREG_BLOCK N"
definition Sn_RX_BSR_reg :: "u8 \<Rightarrow> u32" where "Sn_RX_BSR_reg N = push_bit 8 0x0220 + WIZCHIP_SREG_BLOCK N"
definition Sn_RX_RSR_reg :: "u8 \<Rightarrow> u32" where "Sn_RX_RSR_reg N = push_bit 8 0x0224 + WIZCHIP_SREG_BLOCK N"
definition Sn_RX_RD_reg :: "u8 \<Rightarrow> u32" where "Sn_RX_RD_reg N = push_bit 8 0x0228 + WIZCHIP_SREG_BLOCK N"
definition Sn_RX_WR_reg :: "u8 \<Rightarrow> u32" where "Sn_RX_WR_reg N = push_bit 8 0x022C + WIZCHIP_SREG_BLOCK N"

section \<open>Accessors\<close>

text \<open>The three shapes of the accessor macros besides single bytes: 16 bits, high byte first, and arrays.\<close>

definition read16 :: "'w wizchip \<Rightarrow> u32 \<Rightarrow> 'w \<Rightarrow> u16 \<times> 'w" where
  "read16 E a w =
     (let (h, w) = WIZCHIP_READ E a w; (l, w) = WIZCHIP_READ E (WIZCHIP_OFFSET_INC a 1) w
      in (push_bit 8 (ucast h) + ucast l, w))"

definition write16 :: "'w wizchip \<Rightarrow> u32 \<Rightarrow> u16 \<Rightarrow> 'w \<Rightarrow> 'w" where
  "write16 E a v w =
     WIZCHIP_WRITE E (WIZCHIP_OFFSET_INC a 1) (ucast v) (WIZCHIP_WRITE E a (ucast (drop_bit 8 v)) w)"

definition read_bytes :: "'w wizchip \<Rightarrow> u32 \<Rightarrow> nat \<Rightarrow> u8 list \<Rightarrow> 'w \<Rightarrow> (u8 list \<times> 'w) option" where
  "read_bytes E a n buf w =
     (if n \<le> length buf then
        let (bs, w) = WIZCHIP_READ_BUF E a (take n buf) w in Some (bs @ drop n buf, w)
      else None)"

definition write_bytes :: "'w wizchip \<Rightarrow> u32 \<Rightarrow> nat \<Rightarrow> u8 list \<Rightarrow> 'w \<Rightarrow> 'w option" where
  "write_bytes E a n buf w =
     (if n \<le> length buf then Some (WIZCHIP_WRITE_BUF E a (take n buf) w) else None)"

definition getRTL :: "'w wizchip \<Rightarrow> 'w \<Rightarrow> u8 \<times> 'w" where
  "getRTL E = WIZCHIP_READ E RTL_reg"

definition getVER :: "'w wizchip \<Rightarrow> 'w \<Rightarrow> u16 \<times> 'w" where
  "getVER E = read16 E VER_reg"

definition getSYSR :: "'w wizchip \<Rightarrow> 'w \<Rightarrow> u8 \<times> 'w" where
  "getSYSR E = WIZCHIP_READ E SYSR_reg"

definition getSYCR0 :: "'w wizchip \<Rightarrow> 'w \<Rightarrow> u8 \<times> 'w" where
  "getSYCR0 E = WIZCHIP_READ E SYCR0_reg"

definition setSYCR0 :: "'w wizchip \<Rightarrow> u8 \<Rightarrow> 'w \<Rightarrow> 'w" where
  "setSYCR0 E = WIZCHIP_WRITE E SYCR0_reg"

definition getSYCR1 :: "'w wizchip \<Rightarrow> 'w \<Rightarrow> u8 \<times> 'w" where
  "getSYCR1 E = WIZCHIP_READ E SYCR1_reg"

definition setSYCR1 :: "'w wizchip \<Rightarrow> u8 \<Rightarrow> 'w \<Rightarrow> 'w" where
  "setSYCR1 E = WIZCHIP_WRITE E SYCR1_reg"

definition getTCNTR :: "'w wizchip \<Rightarrow> 'w \<Rightarrow> u16 \<times> 'w" where
  "getTCNTR E = read16 E TCNTR_reg"

definition setTCNTRCLR :: "'w wizchip \<Rightarrow> u8 \<Rightarrow> 'w \<Rightarrow> 'w" where
  "setTCNTRCLR E = WIZCHIP_WRITE E TCNTRCLR_reg"

definition getIR :: "'w wizchip \<Rightarrow> 'w \<Rightarrow> u8 \<times> 'w" where
  "getIR E = WIZCHIP_READ E IR_reg"

definition getSIR :: "'w wizchip \<Rightarrow> 'w \<Rightarrow> u8 \<times> 'w" where
  "getSIR E = WIZCHIP_READ E SIR_reg"

definition getSLIR :: "'w wizchip \<Rightarrow> 'w \<Rightarrow> u8 \<times> 'w" where
  "getSLIR E = WIZCHIP_READ E SLIR_reg"

definition setIMR :: "'w wizchip \<Rightarrow> u8 \<Rightarrow> 'w \<Rightarrow> 'w" where
  "setIMR E = WIZCHIP_WRITE E IMR_reg"

definition getIMR :: "'w wizchip \<Rightarrow> 'w \<Rightarrow> u8 \<times> 'w" where
  "getIMR E = WIZCHIP_READ E IMR_reg"

definition setIRCLR :: "'w wizchip \<Rightarrow> u8 \<Rightarrow> 'w \<Rightarrow> 'w" where
  "setIRCLR E = WIZCHIP_WRITE E IRCLR_reg"

definition setIR :: "'w wizchip \<Rightarrow> u8 \<Rightarrow> 'w \<Rightarrow> 'w" where
  "setIR E = setIRCLR E"

definition setSIMR :: "'w wizchip \<Rightarrow> u8 \<Rightarrow> 'w \<Rightarrow> 'w" where
  "setSIMR E = WIZCHIP_WRITE E SIMR_reg"

definition getSIMR :: "'w wizchip \<Rightarrow> 'w \<Rightarrow> u8 \<times> 'w" where
  "getSIMR E = WIZCHIP_READ E SIMR_reg"

definition setSLIMR :: "'w wizchip \<Rightarrow> u8 \<Rightarrow> 'w \<Rightarrow> 'w" where
  "setSLIMR E = WIZCHIP_WRITE E SLIMR_reg"

definition getSLIMR :: "'w wizchip \<Rightarrow> 'w \<Rightarrow> u8 \<times> 'w" where
  "getSLIMR E = WIZCHIP_READ E SLIMR_reg"

definition setSLIRCLR :: "'w wizchip \<Rightarrow> u8 \<Rightarrow> 'w \<Rightarrow> 'w" where
  "setSLIRCLR E = WIZCHIP_WRITE E SLIRCLR_reg"

definition setSLIR :: "'w wizchip \<Rightarrow> u8 \<Rightarrow> 'w \<Rightarrow> 'w" where
  "setSLIR E = setSLIRCLR E"

definition setSLPSR :: "'w wizchip \<Rightarrow> u8 \<Rightarrow> 'w \<Rightarrow> 'w" where
  "setSLPSR E = WIZCHIP_WRITE E SLPSR_reg"

definition getSLPSR :: "'w wizchip \<Rightarrow> 'w \<Rightarrow> u8 \<times> 'w" where
  "getSLPSR E = WIZCHIP_READ E SLPSR_reg"

definition setSLCR :: "'w wizchip \<Rightarrow> u8 \<Rightarrow> 'w \<Rightarrow> 'w" where
  "setSLCR E = WIZCHIP_WRITE E SLCR_reg"

definition getSLCR :: "'w wizchip \<Rightarrow> 'w \<Rightarrow> u8 \<times> 'w" where
  "getSLCR E = WIZCHIP_READ E SLCR_reg"

definition getPHYSR :: "'w wizchip \<Rightarrow> 'w \<Rightarrow> u8 \<times> 'w" where
  "getPHYSR E = WIZCHIP_READ E PHYSR_reg"

definition setPHYRAR :: "'w wizchip \<Rightarrow> u8 \<Rightarrow> 'w \<Rightarrow> 'w" where
  "setPHYRAR E = WIZCHIP_WRITE E PHYRAR_reg"

definition getPHYRAR :: "'w wizchip \<Rightarrow> 'w \<Rightarrow> u8 \<times> 'w" where
  "getPHYRAR E = WIZCHIP_READ E PHYRAR_reg"

definition setPHYACR :: "'w wizchip \<Rightarrow> u8 \<Rightarrow> 'w \<Rightarrow> 'w" where
  "setPHYACR E = WIZCHIP_WRITE E PHYACR_reg"

definition getPHYACR :: "'w wizchip \<Rightarrow> 'w \<Rightarrow> u8 \<times> 'w" where
  "getPHYACR E = WIZCHIP_READ E PHYACR_reg"

definition setPHYDIVR :: "'w wizchip \<Rightarrow> u8 \<Rightarrow> 'w \<Rightarrow> 'w" where
  "setPHYDIVR E = WIZCHIP_WRITE E PHYDIVR_reg"

definition getPHYDIVR :: "'w wizchip \<Rightarrow> 'w \<Rightarrow> u8 \<times> 'w" where
  "getPHYDIVR E = WIZCHIP_READ E PHYDIVR_reg"

definition setPHYCR0 :: "'w wizchip \<Rightarrow> u8 \<Rightarrow> 'w \<Rightarrow> 'w" where
  "setPHYCR0 E = WIZCHIP_WRITE E PHYCR0_reg"

definition setPHYCR1 :: "'w wizchip \<Rightarrow> u8 \<Rightarrow> 'w \<Rightarrow> 'w" where
  "setPHYCR1 E = WIZCHIP_WRITE E PHYCR1_reg"

definition getPHYCR1 :: "'w wizchip \<Rightarrow> 'w \<Rightarrow> u8 \<times> 'w" where
  "getPHYCR1 E = WIZCHIP_READ E PHYCR1_reg"

definition setNET4MR :: "'w wizchip \<Rightarrow> u8 \<Rightarrow> 'w \<Rightarrow> 'w" where
  "setNET4MR E = WIZCHIP_WRITE E NET4MR_reg"

definition setNET6MR :: "'w wizchip \<Rightarrow> u8 \<Rightarrow> 'w \<Rightarrow> 'w" where
  "setNET6MR E = WIZCHIP_WRITE E NET6MR_reg"

definition setNETMR :: "'w wizchip \<Rightarrow> u8 \<Rightarrow> 'w \<Rightarrow> 'w" where
  "setNETMR E = WIZCHIP_WRITE E NETMR_reg"

definition setNETMR2 :: "'w wizchip \<Rightarrow> u8 \<Rightarrow> 'w \<Rightarrow> 'w" where
  "setNETMR2 E = WIZCHIP_WRITE E NETMR2_reg"

definition getNET4MR :: "'w wizchip \<Rightarrow> 'w \<Rightarrow> u8 \<times> 'w" where
  "getNET4MR E = WIZCHIP_READ E NET4MR_reg"

definition getNET6MR :: "'w wizchip \<Rightarrow> 'w \<Rightarrow> u8 \<times> 'w" where
  "getNET6MR E = WIZCHIP_READ E NET6MR_reg"

definition getNETMR :: "'w wizchip \<Rightarrow> 'w \<Rightarrow> u8 \<times> 'w" where
  "getNETMR E = WIZCHIP_READ E NETMR_reg"

definition getNETMR2 :: "'w wizchip \<Rightarrow> 'w \<Rightarrow> u8 \<times> 'w" where
  "getNETMR2 E = WIZCHIP_READ E NETMR2_reg"

definition setPTMR :: "'w wizchip \<Rightarrow> u8 \<Rightarrow> 'w \<Rightarrow> 'w" where
  "setPTMR E = WIZCHIP_WRITE E PTMR_reg"

definition getPTMR :: "'w wizchip \<Rightarrow> 'w \<Rightarrow> u8 \<times> 'w" where
  "getPTMR E = WIZCHIP_READ E PTMR_reg"

definition setPMNR :: "'w wizchip \<Rightarrow> u8 \<Rightarrow> 'w \<Rightarrow> 'w" where
  "setPMNR E = WIZCHIP_WRITE E PMNR_reg"

definition getPMNR :: "'w wizchip \<Rightarrow> 'w \<Rightarrow> u8 \<times> 'w" where
  "getPMNR E = WIZCHIP_READ E PMNR_reg"

definition setPHAR :: "'w wizchip \<Rightarrow> u8 list \<Rightarrow> 'w \<Rightarrow> 'w option" where
  "setPHAR E = write_bytes E PHAR_reg 6"

definition getPHAR :: "'w wizchip \<Rightarrow> u8 list \<Rightarrow> 'w \<Rightarrow> (u8 list \<times> 'w) option" where
  "getPHAR E = read_bytes E PHAR_reg 6"

definition setPSIDR :: "'w wizchip \<Rightarrow> u16 \<Rightarrow> 'w \<Rightarrow> 'w" where
  "setPSIDR E = write16 E PSIDR_reg"

definition getPSIDR :: "'w wizchip \<Rightarrow> 'w \<Rightarrow> u16 \<times> 'w" where
  "getPSIDR E = read16 E PSIDR_reg"

definition setPMRUR :: "'w wizchip \<Rightarrow> u16 \<Rightarrow> 'w \<Rightarrow> 'w" where
  "setPMRUR E = write16 E PMRUR_reg"

definition getPMRUR :: "'w wizchip \<Rightarrow> 'w \<Rightarrow> u16 \<times> 'w" where
  "getPMRUR E = read16 E PMRUR_reg"

definition setSHAR :: "'w wizchip \<Rightarrow> u8 list \<Rightarrow> 'w \<Rightarrow> 'w option" where
  "setSHAR E = write_bytes E SHAR_reg 6"

definition getSHAR :: "'w wizchip \<Rightarrow> u8 list \<Rightarrow> 'w \<Rightarrow> (u8 list \<times> 'w) option" where
  "getSHAR E = read_bytes E SHAR_reg 6"

definition setGAR :: "'w wizchip \<Rightarrow> u8 list \<Rightarrow> 'w \<Rightarrow> 'w option" where
  "setGAR E = write_bytes E GAR_reg 4"

definition getGAR :: "'w wizchip \<Rightarrow> u8 list \<Rightarrow> 'w \<Rightarrow> (u8 list \<times> 'w) option" where
  "getGAR E = read_bytes E GAR_reg 4"

definition setGA4R :: "'w wizchip \<Rightarrow> u8 list \<Rightarrow> 'w \<Rightarrow> 'w option" where
  "setGA4R E = setGAR E"

definition getGA4R :: "'w wizchip \<Rightarrow> u8 list \<Rightarrow> 'w \<Rightarrow> (u8 list \<times> 'w) option" where
  "getGA4R E = getGAR E"

definition setSUBR :: "'w wizchip \<Rightarrow> u8 list \<Rightarrow> 'w \<Rightarrow> 'w option" where
  "setSUBR E = write_bytes E SUBR_reg 4"

definition getSUBR :: "'w wizchip \<Rightarrow> u8 list \<Rightarrow> 'w \<Rightarrow> (u8 list \<times> 'w) option" where
  "getSUBR E = read_bytes E SUBR_reg 4"

definition setSUB4R :: "'w wizchip \<Rightarrow> u8 list \<Rightarrow> 'w \<Rightarrow> 'w option" where
  "setSUB4R E = setSUBR E"

definition getSUB4R :: "'w wizchip \<Rightarrow> u8 list \<Rightarrow> 'w \<Rightarrow> (u8 list \<times> 'w) option" where
  "getSUB4R E = getSUBR E"

definition setSIPR :: "'w wizchip \<Rightarrow> u8 list \<Rightarrow> 'w \<Rightarrow> 'w option" where
  "setSIPR E = write_bytes E SIPR_reg 4"

definition getSIPR :: "'w wizchip \<Rightarrow> u8 list \<Rightarrow> 'w \<Rightarrow> (u8 list \<times> 'w) option" where
  "getSIPR E = read_bytes E SIPR_reg 4"

definition setLLAR :: "'w wizchip \<Rightarrow> u8 list \<Rightarrow> 'w \<Rightarrow> 'w option" where
  "setLLAR E = write_bytes E LLAR_reg 16"

definition getLLAR :: "'w wizchip \<Rightarrow> u8 list \<Rightarrow> 'w \<Rightarrow> (u8 list \<times> 'w) option" where
  "getLLAR E = read_bytes E LLAR_reg 16"

definition setGUAR :: "'w wizchip \<Rightarrow> u8 list \<Rightarrow> 'w \<Rightarrow> 'w option" where
  "setGUAR E = write_bytes E GUAR_reg 16"

definition getGUAR :: "'w wizchip \<Rightarrow> u8 list \<Rightarrow> 'w \<Rightarrow> (u8 list \<times> 'w) option" where
  "getGUAR E = read_bytes E GUAR_reg 16"

definition setSUB6R :: "'w wizchip \<Rightarrow> u8 list \<Rightarrow> 'w \<Rightarrow> 'w option" where
  "setSUB6R E = write_bytes E SUB6R_reg 16"

definition getSUB6R :: "'w wizchip \<Rightarrow> u8 list \<Rightarrow> 'w \<Rightarrow> (u8 list \<times> 'w) option" where
  "getSUB6R E = read_bytes E SUB6R_reg 16"

definition setGA6R :: "'w wizchip \<Rightarrow> u8 list \<Rightarrow> 'w \<Rightarrow> 'w option" where
  "setGA6R E = write_bytes E GA6R_reg 16"

definition getGA6R :: "'w wizchip \<Rightarrow> u8 list \<Rightarrow> 'w \<Rightarrow> (u8 list \<times> 'w) option" where
  "getGA6R E = read_bytes E GA6R_reg 16"

definition setSLDIPR :: "'w wizchip \<Rightarrow> u8 list \<Rightarrow> 'w \<Rightarrow> 'w option" where
  "setSLDIPR E = write_bytes E SLDIPR_reg 4"

definition setSLDIP4R :: "'w wizchip \<Rightarrow> u8 list \<Rightarrow> 'w \<Rightarrow> 'w option" where
  "setSLDIP4R E = setSLDIPR E"

definition getSLDIPR :: "'w wizchip \<Rightarrow> u8 list \<Rightarrow> 'w \<Rightarrow> (u8 list \<times> 'w) option" where
  "getSLDIPR E = read_bytes E SLDIPR_reg 4"

definition getSLDIP4R :: "'w wizchip \<Rightarrow> u8 list \<Rightarrow> 'w \<Rightarrow> (u8 list \<times> 'w) option" where
  "getSLDIP4R E = getSLDIPR E"

definition setSLDIP6R :: "'w wizchip \<Rightarrow> u8 list \<Rightarrow> 'w \<Rightarrow> 'w option" where
  "setSLDIP6R E = write_bytes E SLDIP6R_reg 16"

definition getSLDIP6R :: "'w wizchip \<Rightarrow> u8 list \<Rightarrow> 'w \<Rightarrow> (u8 list \<times> 'w) option" where
  "getSLDIP6R E = read_bytes E SLDIP6R_reg 16"

definition getSLDHAR :: "'w wizchip \<Rightarrow> u8 list \<Rightarrow> 'w \<Rightarrow> (u8 list \<times> 'w) option" where
  "getSLDHAR E = read_bytes E SLDHAR_reg 6"

definition setPINGIDR :: "'w wizchip \<Rightarrow> u16 \<Rightarrow> 'w \<Rightarrow> 'w" where
  "setPINGIDR E = write16 E PINGIDR_reg"

definition getPINGIDR :: "'w wizchip \<Rightarrow> 'w \<Rightarrow> u16 \<times> 'w" where
  "getPINGIDR E = read16 E PINGIDR_reg"

definition setPINGSEQR :: "'w wizchip \<Rightarrow> u16 \<Rightarrow> 'w \<Rightarrow> 'w" where
  "setPINGSEQR E = write16 E PINGSEQR_reg"

definition getPINGSEQR :: "'w wizchip \<Rightarrow> 'w \<Rightarrow> u16 \<times> 'w" where
  "getPINGSEQR E = read16 E PINGSEQR_reg"

definition getUIPR :: "'w wizchip \<Rightarrow> u8 list \<Rightarrow> 'w \<Rightarrow> (u8 list \<times> 'w) option" where
  "getUIPR E = read_bytes E UIPR_reg 4"

definition getUIP4R :: "'w wizchip \<Rightarrow> u8 list \<Rightarrow> 'w \<Rightarrow> (u8 list \<times> 'w) option" where
  "getUIP4R E = getUIPR E"

definition getUPORTR :: "'w wizchip \<Rightarrow> 'w \<Rightarrow> u16 \<times> 'w" where
  "getUPORTR E = read16 E UPORTR_reg"

definition getUPORT4R :: "'w wizchip \<Rightarrow> 'w \<Rightarrow> u16 \<times> 'w" where
  "getUPORT4R E = getUPORTR E"

definition getUIP6R :: "'w wizchip \<Rightarrow> u8 list \<Rightarrow> 'w \<Rightarrow> (u8 list \<times> 'w) option" where
  "getUIP6R E = read_bytes E UIP6R_reg 16"

definition getUPORT6R :: "'w wizchip \<Rightarrow> 'w \<Rightarrow> u16 \<times> 'w" where
  "getUPORT6R E = read16 E UPORT6R_reg"

definition setINTPTMR :: "'w wizchip \<Rightarrow> u16 \<Rightarrow> 'w \<Rightarrow> 'w" where
  "setINTPTMR E = write16 E INTPTMR_reg"

definition getINTPTMR :: "'w wizchip \<Rightarrow> 'w \<Rightarrow> u16 \<times> 'w" where
  "getINTPTMR E = read16 E INTPTMR_reg"

definition getPLR :: "'w wizchip \<Rightarrow> 'w \<Rightarrow> u8 \<times> 'w" where
  "getPLR E = WIZCHIP_READ E PLR_reg"

definition getPFR :: "'w wizchip \<Rightarrow> 'w \<Rightarrow> u8 \<times> 'w" where
  "getPFR E = WIZCHIP_READ E PFR_reg"

definition getPAR :: "'w wizchip \<Rightarrow> u8 list \<Rightarrow> 'w \<Rightarrow> (u8 list \<times> 'w) option" where
  "getPAR E = read_bytes E PAR_reg 16"

definition setICMP6BLKR :: "'w wizchip \<Rightarrow> u8 \<Rightarrow> 'w \<Rightarrow> 'w" where
  "setICMP6BLKR E = WIZCHIP_WRITE E ICMP6BLKR_reg"

definition getICMP6BLKR :: "'w wizchip \<Rightarrow> 'w \<Rightarrow> u8 \<times> 'w" where
  "getICMP6BLKR E = WIZCHIP_READ E ICMP6BLKR_reg"

definition setCHPLCKR :: "'w wizchip \<Rightarrow> u8 \<Rightarrow> 'w \<Rightarrow> 'w" where
  "setCHPLCKR E = WIZCHIP_WRITE E CHPLCKR_reg"

definition CHIPLOCK :: "'w wizchip \<Rightarrow> 'w \<Rightarrow> 'w" where
  "CHIPLOCK E = setCHPLCKR E 0xFF"

definition CHIPUNLOCK :: "'w wizchip \<Rightarrow> 'w \<Rightarrow> 'w" where
  "CHIPUNLOCK E = setCHPLCKR E 0xCE"

definition setNETLCKR :: "'w wizchip \<Rightarrow> u8 \<Rightarrow> 'w \<Rightarrow> 'w" where
  "setNETLCKR E = WIZCHIP_WRITE E NETLCKR_reg"

definition NETLOCK :: "'w wizchip \<Rightarrow> 'w \<Rightarrow> 'w" where
  "NETLOCK E = setNETLCKR E 0xC5"

definition NETUNLOCK :: "'w wizchip \<Rightarrow> 'w \<Rightarrow> 'w" where
  "NETUNLOCK E = setNETLCKR E 0x3A"

definition setPHYLCKR :: "'w wizchip \<Rightarrow> u8 \<Rightarrow> 'w \<Rightarrow> 'w" where
  "setPHYLCKR E = WIZCHIP_WRITE E PHYLCKR_reg"

definition PHYLOCK :: "'w wizchip \<Rightarrow> 'w \<Rightarrow> 'w" where
  "PHYLOCK E = setPHYLCKR E 0xFF"

definition PHYUNLOCK :: "'w wizchip \<Rightarrow> 'w \<Rightarrow> 'w" where
  "PHYUNLOCK E = setPHYLCKR E 0x53"

definition setRTR :: "'w wizchip \<Rightarrow> u16 \<Rightarrow> 'w \<Rightarrow> 'w" where
  "setRTR E = write16 E RTR_reg"

definition getRTR :: "'w wizchip \<Rightarrow> 'w \<Rightarrow> u16 \<times> 'w" where
  "getRTR E = read16 E RTR_reg"

definition setRCR :: "'w wizchip \<Rightarrow> u8 \<Rightarrow> 'w \<Rightarrow> 'w" where
  "setRCR E = WIZCHIP_WRITE E RCR_reg"

definition getRCR :: "'w wizchip \<Rightarrow> 'w \<Rightarrow> u8 \<times> 'w" where
  "getRCR E = WIZCHIP_READ E RCR_reg"

definition setSLRTR :: "'w wizchip \<Rightarrow> u16 \<Rightarrow> 'w \<Rightarrow> 'w" where
  "setSLRTR E = write16 E SLRTR_reg"

definition getSLRTR :: "'w wizchip \<Rightarrow> 'w \<Rightarrow> u16 \<times> 'w" where
  "getSLRTR E = read16 E SLRTR_reg"

definition setSLRCR :: "'w wizchip \<Rightarrow> u8 \<Rightarrow> 'w \<Rightarrow> 'w" where
  "setSLRCR E = WIZCHIP_WRITE E SLRCR_reg"

definition getSLRCR :: "'w wizchip \<Rightarrow> 'w \<Rightarrow> u8 \<times> 'w" where
  "getSLRCR E = WIZCHIP_READ E SLRCR_reg"

definition setSLHOPR :: "'w wizchip \<Rightarrow> u8 \<Rightarrow> 'w \<Rightarrow> 'w" where
  "setSLHOPR E = WIZCHIP_WRITE E SLHOPR_reg"

definition getSLHOPR :: "'w wizchip \<Rightarrow> 'w \<Rightarrow> u8 \<times> 'w" where
  "getSLHOPR E = WIZCHIP_READ E SLHOPR_reg"

definition setSn_MR :: "'w wizchip \<Rightarrow> u8 \<Rightarrow> u8 \<Rightarrow> 'w \<Rightarrow> 'w" where
  "setSn_MR E sn = WIZCHIP_WRITE E (Sn_MR_reg sn)"

definition getSn_MR :: "'w wizchip \<Rightarrow> u8 \<Rightarrow> 'w \<Rightarrow> u8 \<times> 'w" where
  "getSn_MR E sn = WIZCHIP_READ E (Sn_MR_reg sn)"

definition setSn_PSR :: "'w wizchip \<Rightarrow> u8 \<Rightarrow> u8 \<Rightarrow> 'w \<Rightarrow> 'w" where
  "setSn_PSR E sn = WIZCHIP_WRITE E (Sn_PSR_reg sn)"

definition getSn_PSR :: "'w wizchip \<Rightarrow> u8 \<Rightarrow> 'w \<Rightarrow> u8 \<times> 'w" where
  "getSn_PSR E sn = WIZCHIP_READ E (Sn_PSR_reg sn)"

definition setSn_CR :: "'w wizchip \<Rightarrow> u8 \<Rightarrow> u8 \<Rightarrow> 'w \<Rightarrow> 'w" where
  "setSn_CR E sn = WIZCHIP_WRITE E (Sn_CR_reg sn)"

definition getSn_CR :: "'w wizchip \<Rightarrow> u8 \<Rightarrow> 'w \<Rightarrow> u8 \<times> 'w" where
  "getSn_CR E sn = WIZCHIP_READ E (Sn_CR_reg sn)"

definition getSn_IR :: "'w wizchip \<Rightarrow> u8 \<Rightarrow> 'w \<Rightarrow> u8 \<times> 'w" where
  "getSn_IR E sn = WIZCHIP_READ E (Sn_IR_reg sn)"

definition setSn_IMR :: "'w wizchip \<Rightarrow> u8 \<Rightarrow> u8 \<Rightarrow> 'w \<Rightarrow> 'w" where
  "setSn_IMR E sn = WIZCHIP_WRITE E (Sn_IMR_reg sn)"

definition getSn_IMR :: "'w wizchip \<Rightarrow> u8 \<Rightarrow> 'w \<Rightarrow> u8 \<times> 'w" where
  "getSn_IMR E sn = WIZCHIP_READ E (Sn_IMR_reg sn)"

definition setSn_IRCLR :: "'w wizchip \<Rightarrow> u8 \<Rightarrow> u8 \<Rightarrow> 'w \<Rightarrow> 'w" where
  "setSn_IRCLR E sn = WIZCHIP_WRITE E (Sn_IRCLR_reg sn)"

definition setSn_IR :: "'w wizchip \<Rightarrow> u8 \<Rightarrow> u8 \<Rightarrow> 'w \<Rightarrow> 'w" where
  "setSn_IR E sn = setSn_IRCLR E sn"

definition getSn_SR :: "'w wizchip \<Rightarrow> u8 \<Rightarrow> 'w \<Rightarrow> u8 \<times> 'w" where
  "getSn_SR E sn = WIZCHIP_READ E (Sn_SR_reg sn)"

definition getSn_ESR :: "'w wizchip \<Rightarrow> u8 \<Rightarrow> 'w \<Rightarrow> u8 \<times> 'w" where
  "getSn_ESR E sn = WIZCHIP_READ E (Sn_ESR_reg sn)"

definition setSn_PNR :: "'w wizchip \<Rightarrow> u8 \<Rightarrow> u8 \<Rightarrow> 'w \<Rightarrow> 'w" where
  "setSn_PNR E sn = WIZCHIP_WRITE E (Sn_PNR_reg sn)"

definition getSn_PNR :: "'w wizchip \<Rightarrow> u8 \<Rightarrow> 'w \<Rightarrow> u8 \<times> 'w" where
  "getSn_PNR E sn = WIZCHIP_READ E (Sn_PNR_reg sn)"

definition getSn_NHR :: "'w wizchip \<Rightarrow> u8 \<Rightarrow> 'w \<Rightarrow> u8 \<times> 'w" where
  "getSn_NHR E sn = getSn_PNR E sn"

definition setSn_TOSR :: "'w wizchip \<Rightarrow> u8 \<Rightarrow> u8 \<Rightarrow> 'w \<Rightarrow> 'w" where
  "setSn_TOSR E sn = WIZCHIP_WRITE E (Sn_TOSR_reg sn)"

definition getSn_TOSR :: "'w wizchip \<Rightarrow> u8 \<Rightarrow> 'w \<Rightarrow> u8 \<times> 'w" where
  "getSn_TOSR E sn = WIZCHIP_READ E (Sn_TOSR_reg sn)"

definition getSn_TOS :: "'w wizchip \<Rightarrow> u8 \<Rightarrow> 'w \<Rightarrow> u8 \<times> 'w" where
  "getSn_TOS E sn = getSn_TOSR E sn"

definition setSn_TOS :: "'w wizchip \<Rightarrow> u8 \<Rightarrow> u8 \<Rightarrow> 'w \<Rightarrow> 'w" where
  "setSn_TOS E sn = setSn_TOSR E sn"

definition setSn_TTLR :: "'w wizchip \<Rightarrow> u8 \<Rightarrow> u8 \<Rightarrow> 'w \<Rightarrow> 'w" where
  "setSn_TTLR E sn = WIZCHIP_WRITE E (Sn_TTLR_reg sn)"

definition getSn_TTLR :: "'w wizchip \<Rightarrow> u8 \<Rightarrow> 'w \<Rightarrow> u8 \<times> 'w" where
  "getSn_TTLR E sn = WIZCHIP_READ E (Sn_TTLR_reg sn)"

definition setSn_TTL :: "'w wizchip \<Rightarrow> u8 \<Rightarrow> u8 \<Rightarrow> 'w \<Rightarrow> 'w" where
  "setSn_TTL E sn = setSn_TTLR E sn"

definition getSn_TTL :: "'w wizchip \<Rightarrow> u8 \<Rightarrow> 'w \<Rightarrow> u8 \<times> 'w" where
  "getSn_TTL E sn = getSn_TTLR E sn"

definition getSn_HOPR :: "'w wizchip \<Rightarrow> u8 \<Rightarrow> 'w \<Rightarrow> u8 \<times> 'w" where
  "getSn_HOPR E sn = getSn_TTLR E sn"

definition setSn_FRGR :: "'w wizchip \<Rightarrow> u8 \<Rightarrow> u16 \<Rightarrow> 'w \<Rightarrow> 'w" where
  "setSn_FRGR E sn = write16 E (Sn_FRGR_reg sn)"

definition getSn_FRGR :: "'w wizchip \<Rightarrow> u8 \<Rightarrow> 'w \<Rightarrow> u16 \<times> 'w" where
  "getSn_FRGR E sn = read16 E (Sn_FRGR_reg sn)"

definition setSn_MSSR :: "'w wizchip \<Rightarrow> u8 \<Rightarrow> u16 \<Rightarrow> 'w \<Rightarrow> 'w" where
  "setSn_MSSR E sn = write16 E (Sn_MSSR_reg sn)"

definition getSn_MSSR :: "'w wizchip \<Rightarrow> u8 \<Rightarrow> 'w \<Rightarrow> u16 \<times> 'w" where
  "getSn_MSSR E sn = read16 E (Sn_MSSR_reg sn)"

definition setSn_PORTR :: "'w wizchip \<Rightarrow> u8 \<Rightarrow> u16 \<Rightarrow> 'w \<Rightarrow> 'w" where
  "setSn_PORTR E sn = write16 E (Sn_PORTR_reg sn)"

definition getSn_PORTR :: "'w wizchip \<Rightarrow> u8 \<Rightarrow> 'w \<Rightarrow> u16 \<times> 'w" where
  "getSn_PORTR E sn = read16 E (Sn_PORTR_reg sn)"

definition setSn_DHAR :: "'w wizchip \<Rightarrow> u8 \<Rightarrow> u8 list \<Rightarrow> 'w \<Rightarrow> 'w option" where
  "setSn_DHAR E sn = write_bytes E (Sn_DHAR_reg sn) 6"

definition getSn_DHAR :: "'w wizchip \<Rightarrow> u8 \<Rightarrow> u8 list \<Rightarrow> 'w \<Rightarrow> (u8 list \<times> 'w) option" where
  "getSn_DHAR E sn = read_bytes E (Sn_DHAR_reg sn) 6"

definition setSn_DIPR :: "'w wizchip \<Rightarrow> u8 \<Rightarrow> u8 list \<Rightarrow> 'w \<Rightarrow> 'w option" where
  "setSn_DIPR E sn = write_bytes E (Sn_DIPR_reg sn) 4"

definition getSn_DIPR :: "'w wizchip \<Rightarrow> u8 \<Rightarrow> u8 list \<Rightarrow> 'w \<Rightarrow> (u8 list \<times> 'w) option" where
  "getSn_DIPR E sn = read_bytes E (Sn_DIPR_reg sn) 4"

definition setSn_DIP4R :: "'w wizchip \<Rightarrow> u8 \<Rightarrow> u8 list \<Rightarrow> 'w \<Rightarrow> 'w option" where
  "setSn_DIP4R E sn = setSn_DIPR E sn"

definition getSn_DIP4R :: "'w wizchip \<Rightarrow> u8 \<Rightarrow> u8 list \<Rightarrow> 'w \<Rightarrow> (u8 list \<times> 'w) option" where
  "getSn_DIP4R E sn = getSn_DIPR E sn"

definition setSn_DIP6R :: "'w wizchip \<Rightarrow> u8 \<Rightarrow> u8 list \<Rightarrow> 'w \<Rightarrow> 'w option" where
  "setSn_DIP6R E sn = write_bytes E (Sn_DIP6R_reg sn) 16"

definition getSn_DIP6R :: "'w wizchip \<Rightarrow> u8 \<Rightarrow> u8 list \<Rightarrow> 'w \<Rightarrow> (u8 list \<times> 'w) option" where
  "getSn_DIP6R E sn = read_bytes E (Sn_DIP6R_reg sn) 16"

definition setSn_DPORTR :: "'w wizchip \<Rightarrow> u8 \<Rightarrow> u16 \<Rightarrow> 'w \<Rightarrow> 'w" where
  "setSn_DPORTR E sn = write16 E (Sn_DPORTR_reg sn)"

definition getSn_DPORTR :: "'w wizchip \<Rightarrow> u8 \<Rightarrow> 'w \<Rightarrow> u16 \<times> 'w" where
  "getSn_DPORTR E sn = read16 E (Sn_DPORTR_reg sn)"

definition getSn_DPORT :: "'w wizchip \<Rightarrow> u8 \<Rightarrow> 'w \<Rightarrow> u16 \<times> 'w" where
  "getSn_DPORT E sn = getSn_DPORTR E sn"

definition setSn_DPORT :: "'w wizchip \<Rightarrow> u8 \<Rightarrow> u16 \<Rightarrow> 'w \<Rightarrow> 'w" where
  "setSn_DPORT E sn = setSn_DPORTR E sn"

definition setSn_MR2 :: "'w wizchip \<Rightarrow> u8 \<Rightarrow> u8 \<Rightarrow> 'w \<Rightarrow> 'w" where
  "setSn_MR2 E sn = WIZCHIP_WRITE E (Sn_MR2_reg sn)"

definition getSn_MR2 :: "'w wizchip \<Rightarrow> u8 \<Rightarrow> 'w \<Rightarrow> u8 \<times> 'w" where
  "getSn_MR2 E sn = WIZCHIP_READ E (Sn_MR2_reg sn)"

definition setSn_RTR :: "'w wizchip \<Rightarrow> u8 \<Rightarrow> u16 \<Rightarrow> 'w \<Rightarrow> 'w" where
  "setSn_RTR E sn = write16 E (Sn_RTR_reg sn)"

definition getSn_RTR :: "'w wizchip \<Rightarrow> u8 \<Rightarrow> 'w \<Rightarrow> u16 \<times> 'w" where
  "getSn_RTR E sn = read16 E (Sn_RTR_reg sn)"

definition setSn_RCR :: "'w wizchip \<Rightarrow> u8 \<Rightarrow> u8 \<Rightarrow> 'w \<Rightarrow> 'w" where
  "setSn_RCR E sn = WIZCHIP_WRITE E (Sn_RCR_reg sn)"

definition getSn_RCR :: "'w wizchip \<Rightarrow> u8 \<Rightarrow> 'w \<Rightarrow> u8 \<times> 'w" where
  "getSn_RCR E sn = WIZCHIP_READ E (Sn_RCR_reg sn)"

definition setSn_KPALVTR :: "'w wizchip \<Rightarrow> u8 \<Rightarrow> u8 \<Rightarrow> 'w \<Rightarrow> 'w" where
  "setSn_KPALVTR E sn = WIZCHIP_WRITE E (Sn_KPALVTR_reg sn)"

definition getSn_KPALVTR :: "'w wizchip \<Rightarrow> u8 \<Rightarrow> 'w \<Rightarrow> u8 \<times> 'w" where
  "getSn_KPALVTR E sn = WIZCHIP_READ E (Sn_KPALVTR_reg sn)"

definition setSn_TX_BSR :: "'w wizchip \<Rightarrow> u8 \<Rightarrow> u8 \<Rightarrow> 'w \<Rightarrow> 'w" where
  "setSn_TX_BSR E sn = WIZCHIP_WRITE E (Sn_TX_BSR_reg sn)"

definition setSn_TXBUF_SIZE :: "'w wizchip \<Rightarrow> u8 \<Rightarrow> u8 \<Rightarrow> 'w \<Rightarrow> 'w" where
  "setSn_TXBUF_SIZE E sn = setSn_TX_BSR E sn"

definition getSn_TX_BSR :: "'w wizchip \<Rightarrow> u8 \<Rightarrow> 'w \<Rightarrow> u8 \<times> 'w" where
  "getSn_TX_BSR E sn = WIZCHIP_READ E (Sn_TX_BSR_reg sn)"

definition getSn_TXBUF_SIZE :: "'w wizchip \<Rightarrow> u8 \<Rightarrow> 'w \<Rightarrow> u8 \<times> 'w" where
  "getSn_TXBUF_SIZE E sn = getSn_TX_BSR E sn"

definition getSn_TX_RD :: "'w wizchip \<Rightarrow> u8 \<Rightarrow> 'w \<Rightarrow> u16 \<times> 'w" where
  "getSn_TX_RD E sn = read16 E (Sn_TX_RD_reg sn)"

definition setSn_TX_WR :: "'w wizchip \<Rightarrow> u8 \<Rightarrow> u16 \<Rightarrow> 'w \<Rightarrow> 'w" where
  "setSn_TX_WR E sn = write16 E (Sn_TX_WR_reg sn)"

definition getSn_TX_WR :: "'w wizchip \<Rightarrow> u8 \<Rightarrow> 'w \<Rightarrow> u16 \<times> 'w" where
  "getSn_TX_WR E sn = read16 E (Sn_TX_WR_reg sn)"

definition setSn_RX_BSR :: "'w wizchip \<Rightarrow> u8 \<Rightarrow> u8 \<Rightarrow> 'w \<Rightarrow> 'w" where
  "setSn_RX_BSR E sn = WIZCHIP_WRITE E (Sn_RX_BSR_reg sn)"

definition setSn_RXBUF_SIZE :: "'w wizchip \<Rightarrow> u8 \<Rightarrow> u8 \<Rightarrow> 'w \<Rightarrow> 'w" where
  "setSn_RXBUF_SIZE E sn = setSn_RX_BSR E sn"

definition getSn_RX_BSR :: "'w wizchip \<Rightarrow> u8 \<Rightarrow> 'w \<Rightarrow> u8 \<times> 'w" where
  "getSn_RX_BSR E sn = WIZCHIP_READ E (Sn_RX_BSR_reg sn)"

definition getSn_RXBUF_SIZE :: "'w wizchip \<Rightarrow> u8 \<Rightarrow> 'w \<Rightarrow> u8 \<times> 'w" where
  "getSn_RXBUF_SIZE E sn = getSn_RX_BSR E sn"

definition setSn_RX_RD :: "'w wizchip \<Rightarrow> u8 \<Rightarrow> u16 \<Rightarrow> 'w \<Rightarrow> 'w" where
  "setSn_RX_RD E sn = write16 E (Sn_RX_RD_reg sn)"

definition getSn_RX_RD :: "'w wizchip \<Rightarrow> u8 \<Rightarrow> 'w \<Rightarrow> u16 \<times> 'w" where
  "getSn_RX_RD E sn = read16 E (Sn_RX_RD_reg sn)"

definition getSn_RX_WR :: "'w wizchip \<Rightarrow> u8 \<Rightarrow> 'w \<Rightarrow> u16 \<times> 'w" where
  "getSn_RX_WR E sn = read16 E (Sn_RX_WR_reg sn)"

definition getCIDR :: "'w wizchip \<Rightarrow> 'w \<Rightarrow> u16 \<times> 'w" where
  "getCIDR E w =
     (let (h, w) = WIZCHIP_READ E CIDR_reg w; (r, w) = WIZCHIP_READ E RTL_reg w;
          (l, w) = WIZCHIP_READ E (WIZCHIP_OFFSET_INC CIDR_reg 1) w
      in (push_bit 8 (ucast h OR push_bit 1 (ucast r AND 0x0F)) + ucast l, w))"

definition setPHYDIR :: "'w wizchip \<Rightarrow> u16 \<Rightarrow> 'w \<Rightarrow> 'w" where
  "setPHYDIR E v w =
     WIZCHIP_WRITE E PHYDIR_reg (ucast v)
       (WIZCHIP_WRITE E (WIZCHIP_OFFSET_INC PHYDIR_reg 1) (ucast (drop_bit 8 v)) w)"

definition getPHYDOR :: "'w wizchip \<Rightarrow> 'w \<Rightarrow> u16 \<times> 'w" where
  "getPHYDOR E w =
     (let (h, w) = WIZCHIP_READ E (WIZCHIP_OFFSET_INC PHYDOR_reg 1) w; (l, w) = WIZCHIP_READ E PHYDOR_reg w
      in (push_bit 8 (ucast h) + ucast l, w))"

text \<open>Both lifetimes shift their last three bytes by the same 16 bits.\<close>

definition getVLTR :: "'w wizchip \<Rightarrow> 'w \<Rightarrow> u32 \<times> 'w" where
  "getVLTR E w =
     (let (a, w) = WIZCHIP_READ E VLTR_reg w; (b, w) = WIZCHIP_READ E (WIZCHIP_OFFSET_INC VLTR_reg 1) w;
          (c, w) = WIZCHIP_READ E (WIZCHIP_OFFSET_INC VLTR_reg 2) w; (d, w) = WIZCHIP_READ E (WIZCHIP_OFFSET_INC VLTR_reg 3) w
      in (push_bit 24 (ucast a) + push_bit 16 (ucast b) + push_bit 16 (ucast c) + push_bit 16 (ucast d), w))"

definition getPLTR :: "'w wizchip \<Rightarrow> 'w \<Rightarrow> u32 \<times> 'w" where
  "getPLTR E w =
     (let (a, w) = WIZCHIP_READ E PLTR_reg w; (b, w) = WIZCHIP_READ E (WIZCHIP_OFFSET_INC PLTR_reg 1) w;
          (c, w) = WIZCHIP_READ E (WIZCHIP_OFFSET_INC PLTR_reg 2) w; (d, w) = WIZCHIP_READ E (WIZCHIP_OFFSET_INC PLTR_reg 3) w
      in (push_bit 24 (ucast a) + push_bit 16 (ucast b) + push_bit 16 (ucast c) + push_bit 16 (ucast d), w))"

definition getCHPLCKR :: "'w wizchip \<Rightarrow> 'w \<Rightarrow> u8 \<times> 'w" where
  "getCHPLCKR E w = (let (v, w) = getSYSR E w in (drop_bit 7 (v AND 0x80), w))"

definition getNETLCKR :: "'w wizchip \<Rightarrow> 'w \<Rightarrow> u8 \<times> 'w" where
  "getNETLCKR E w = (let (v, w) = getSYSR E w in (drop_bit 6 (v AND 0x40), w))"

definition getPHYLCKR :: "'w wizchip \<Rightarrow> 'w \<Rightarrow> u8 \<times> 'w" where
  "getPHYLCKR E w = (let (v, w) = getSYSR E w in (drop_bit 5 (v AND 0x20), w))"

text \<open>The buffer sizes in bytes; the callers keep them in a \<^verbatim>\<open>uint16_t\<close>.\<close>

definition getSn_TxMAX :: "'w wizchip \<Rightarrow> u8 \<Rightarrow> 'w \<Rightarrow> u16 \<times> 'w" where
  "getSn_TxMAX E sn w = (let (k, w) = getSn_TX_BSR E sn w in (push_bit 10 (ucast k), w))"

definition getSn_RxMAX :: "'w wizchip \<Rightarrow> u8 \<Rightarrow> 'w \<Rightarrow> u16 \<times> 'w" where
  "getSn_RxMAX E sn w = (let (k, w) = getSn_RX_BSR E sn w in (push_bit 10 (ucast k), w))"

section \<open>Waiting\<close>

text \<open>A loop that reads a register until the value is no longer one to wait on.\<close>

partial_function (option) wait_while :: "('w \<Rightarrow> 'v \<times> 'w) \<Rightarrow> ('v \<Rightarrow> bool) \<Rightarrow> 'w \<Rightarrow> 'w option" where
  "wait_while rd c w = (case rd w of (v, w) \<Rightarrow> if c v then wait_while rd c w else Some w)"

text \<open>The loop that reads a 16-bit register until two reads in a row agree.\<close>

partial_function (option) stable_read :: "('w \<Rightarrow> u16 \<times> 'w) \<Rightarrow> u16 \<Rightarrow> 'w \<Rightarrow> (u16 \<times> 'w) option" where
  "stable_read rd val w = (case rd w of (v, w) \<Rightarrow> if v \<noteq> val then stable_read rd v w else Some (v, w))"

definition getSn_TX_FSR :: "'w wizchip \<Rightarrow> u8 \<Rightarrow> 'w \<Rightarrow> (u16 \<times> 'w) option" where
  "getSn_TX_FSR E sn w = stable_read (read16 E (Sn_TX_FSR_reg sn)) 0 w"

definition getSn_RX_RSR :: "'w wizchip \<Rightarrow> u8 \<Rightarrow> 'w \<Rightarrow> (u16 \<times> 'w) option" where
  "getSn_RX_RSR E sn w = stable_read (read16 E (Sn_RX_RSR_reg sn)) 0 w"

section \<open>Socket buffers\<close>

definition wiz_send_data :: "'w wizchip \<Rightarrow> u8 \<Rightarrow> u8 list \<Rightarrow> u16 \<Rightarrow> 'w \<Rightarrow> 'w option" where
  "wiz_send_data E sn wizdata len w = do {
     let (ptr, w) = getSn_TX_WR E sn w;
     let addrsel = push_bit 8 (ucast ptr) + WIZCHIP_TXBUF_BLOCK sn;
     w \<leftarrow> write_bytes E addrsel (unat len) wizdata w;
     Some (setSn_TX_WR E sn (ptr + len) w)
   }"

definition wiz_recv_data :: "'w wizchip \<Rightarrow> u8 \<Rightarrow> u8 list \<Rightarrow> u16 \<Rightarrow> 'w \<Rightarrow> (u8 list \<times> 'w) option" where
  "wiz_recv_data E sn wizdata len w =
     (if len = 0 then Some (wizdata, w)
      else do {
        let (ptr, w) = getSn_RX_RD E sn w;
        let addrsel = push_bit 8 (ucast ptr) + WIZCHIP_RXBUF_BLOCK sn;
        (wizdata, w) \<leftarrow> read_bytes E addrsel (unat len) wizdata w;
        Some (wizdata, setSn_RX_RD E sn (ptr + len) w)
      })"

definition wiz_recv_ignore :: "'w wizchip \<Rightarrow> u8 \<Rightarrow> u16 \<Rightarrow> 'w \<Rightarrow> 'w" where
  "wiz_recv_ignore E sn len w = (let (ptr, w) = getSn_RX_RD E sn w in setSn_RX_RD E sn (ptr + len) w)"

section \<open>Delay and PHY registers\<close>

primrec delay_loop :: "'w wizchip \<Rightarrow> nat \<Rightarrow> 'w \<Rightarrow> 'w option" where
  "delay_loop E 0 w = Some w"
| "delay_loop E (Suc n) w = do {
     w \<leftarrow> wait_while (getTCNTR E) (\<lambda>v. v < 0x0a) (setTCNTRCLR E 0xff w);
     delay_loop E n w
   }"

definition wiz_delay_ms :: "'w wizchip \<Rightarrow> u32 \<Rightarrow> 'w \<Rightarrow> 'w option" where
  "wiz_delay_ms E milliseconds = delay_loop E (unat milliseconds)"

definition wiz_mdio_write :: "'w wizchip \<Rightarrow> u8 \<Rightarrow> u16 \<Rightarrow> 'w \<Rightarrow> 'w option" where
  "wiz_mdio_write E phyregaddr var w =
     wait_while (getPHYACR E) (\<lambda>v. v \<noteq> 0) (setPHYACR E 0x01 (setPHYDIR E var (setPHYRAR E phyregaddr w)))"

definition wiz_mdio_read :: "'w wizchip \<Rightarrow> u8 \<Rightarrow> 'w \<Rightarrow> (u16 \<times> 'w) option" where
  "wiz_mdio_read E phyregaddr w = do {
     w \<leftarrow> wait_while (getPHYACR E) (\<lambda>v. v \<noteq> 0) (setPHYACR E 0x02 (setPHYRAR E phyregaddr w));
     Some (getPHYDOR E w)
   }"

end
