(* ===== verification/Socket.thy ===== *)
theory Socket
  imports W6300
begin

text \<open>
  \<^verbatim>\<open>Ethernet/socket.c\<close>, the socket interface over the chip driver, in the configuration that
  \<^verbatim>\<open>wizchip_conf.h\<close> selects: \<^verbatim>\<open>_WIZCHIP_\<close> is W6300, so \<^verbatim>\<open>IPV6_AVAILABLE\<close> is defined. The file's
  variables and the world of the callbacks form the state \<open>net\<close>. A call is \<open>None\<close> when it waits for
  the chip for ever, accesses a buffer beyond its end, or shifts by more than an \<^verbatim>\<open>int\<close> has bits.
  The local arrays \<^verbatim>\<open>taddr\<close> and \<^verbatim>\<open>head\<close> are taken as zero before the chip fills them.
\<close>

section \<open>Constants\<close>

abbreviation (input) SOCK_NUM :: u8 where "SOCK_NUM \<equiv> 8"
abbreviation (input) SOCK_OK :: int where "SOCK_OK \<equiv> 1"
abbreviation (input) SOCK_BUSY :: int where "SOCK_BUSY \<equiv> 0"
abbreviation (input) SOCK_ERROR :: int where "SOCK_ERROR \<equiv> 0"
abbreviation (input) SOCKERR_SOCKNUM :: int where "SOCKERR_SOCKNUM \<equiv> - 1"
abbreviation (input) SOCKERR_SOCKOPT :: int where "SOCKERR_SOCKOPT \<equiv> - 2"
abbreviation (input) SOCKERR_SOCKINIT :: int where "SOCKERR_SOCKINIT \<equiv> - 3"
abbreviation (input) SOCKERR_SOCKCLOSED :: int where "SOCKERR_SOCKCLOSED \<equiv> - 4"
abbreviation (input) SOCKERR_SOCKMODE :: int where "SOCKERR_SOCKMODE \<equiv> - 5"
abbreviation (input) SOCKERR_SOCKFLAG :: int where "SOCKERR_SOCKFLAG \<equiv> - 6"
abbreviation (input) SOCKERR_SOCKSTATUS :: int where "SOCKERR_SOCKSTATUS \<equiv> - 7"
abbreviation (input) SOCKERR_ARG :: int where "SOCKERR_ARG \<equiv> - 10"
abbreviation (input) SOCKERR_PORTZERO :: int where "SOCKERR_PORTZERO \<equiv> - 11"
abbreviation (input) SOCKERR_IPINVALID :: int where "SOCKERR_IPINVALID \<equiv> - 12"
abbreviation (input) SOCKERR_TIMEOUT :: int where "SOCKERR_TIMEOUT \<equiv> - 13"
abbreviation (input) SOCKERR_DATALEN :: int where "SOCKERR_DATALEN \<equiv> - 14"
abbreviation (input) SOCKFATAL_PACKLEN :: int where "SOCKFATAL_PACKLEN \<equiv> - 1001"

abbreviation (input) Sn_MR_TCP :: u8 where "Sn_MR_TCP \<equiv> 0x01"
abbreviation (input) Sn_MR_UDP :: u8 where "Sn_MR_UDP \<equiv> 0x02"
abbreviation (input) Sn_MR_IPRAW :: u8 where "Sn_MR_IPRAW \<equiv> 0x03"
abbreviation (input) Sn_MR_MACRAW :: u8 where "Sn_MR_MACRAW \<equiv> 0x07"
abbreviation (input) Sn_MR_TCP6 :: u8 where "Sn_MR_TCP6 \<equiv> 0x09"
abbreviation (input) Sn_MR_UDP6 :: u8 where "Sn_MR_UDP6 \<equiv> 0x0A"
abbreviation (input) Sn_MR_IPRAW6 :: u8 where "Sn_MR_IPRAW6 \<equiv> 0x0B"
abbreviation (input) Sn_MR_TCPD :: u8 where "Sn_MR_TCPD \<equiv> 0x0D"
abbreviation (input) Sn_MR_UDPD :: u8 where "Sn_MR_UDPD \<equiv> 0x0E"

abbreviation (input) Sn_CR_OPEN :: u8 where "Sn_CR_OPEN \<equiv> 0x01"
abbreviation (input) Sn_CR_LISTEN :: u8 where "Sn_CR_LISTEN \<equiv> 0x02"
abbreviation (input) Sn_CR_CONNECT :: u8 where "Sn_CR_CONNECT \<equiv> 0x04"
abbreviation (input) Sn_CR_CONNECT6 :: u8 where "Sn_CR_CONNECT6 \<equiv> 0x84"
abbreviation (input) Sn_CR_DISCON :: u8 where "Sn_CR_DISCON \<equiv> 0x08"
abbreviation (input) Sn_CR_CLOSE :: u8 where "Sn_CR_CLOSE \<equiv> 0x10"
abbreviation (input) Sn_CR_SEND :: u8 where "Sn_CR_SEND \<equiv> 0x20"
abbreviation (input) Sn_CR_SEND6 :: u8 where "Sn_CR_SEND6 \<equiv> 0xA0"
abbreviation (input) Sn_CR_SEND_KEEP :: u8 where "Sn_CR_SEND_KEEP \<equiv> 0x22"
abbreviation (input) Sn_CR_RECV :: u8 where "Sn_CR_RECV \<equiv> 0x40"
abbreviation (input) Sn_IR_SENDOK :: u8 where "Sn_IR_SENDOK \<equiv> 0x10"
abbreviation (input) Sn_IR_TIMEOUT :: u8 where "Sn_IR_TIMEOUT \<equiv> 0x08"

abbreviation (input) SOCK_CLOSED :: u8 where "SOCK_CLOSED \<equiv> 0x00"
abbreviation (input) SOCK_INIT :: u8 where "SOCK_INIT \<equiv> 0x13"
abbreviation (input) SOCK_LISTEN :: u8 where "SOCK_LISTEN \<equiv> 0x14"
abbreviation (input) SOCK_ESTABLISHED :: u8 where "SOCK_ESTABLISHED \<equiv> 0x17"
abbreviation (input) SOCK_CLOSE_WAIT :: u8 where "SOCK_CLOSE_WAIT \<equiv> 0x1C"
abbreviation (input) SOCK_UDP :: u8 where "SOCK_UDP \<equiv> 0x22"

abbreviation (input) SF_FORCE_ARP :: u8 where "SF_FORCE_ARP \<equiv> 0x01"
abbreviation (input) SF_DHA_MANUAL :: u8 where "SF_DHA_MANUAL \<equiv> 0x02"
abbreviation (input) SF_IO_NONBLOCK :: u8 where "SF_IO_NONBLOCK \<equiv> 0x08"
abbreviation (input) SF_UNI_BLOCK :: u8 where "SF_UNI_BLOCK \<equiv> 0x10"
abbreviation (input) SF_MULTI_ENABLE :: u8 where "SF_MULTI_ENABLE \<equiv> 0x80"

abbreviation (input) PACK_IPv6 :: u8 where "PACK_IPv6 \<equiv> 0x80"
abbreviation (input) PACK_COMPLETED :: u8 where "PACK_COMPLETED \<equiv> 0x08"
abbreviation (input) PACK_REMAINED :: u8 where "PACK_REMAINED \<equiv> 0x04"
abbreviation (input) PACK_FIRST :: u8 where "PACK_FIRST \<equiv> 0x02"
abbreviation (input) PACK_NONE :: u8 where "PACK_NONE \<equiv> 0x00"

section \<open>State\<close>

record 'w net =
  world :: 'w
  sock_any_port :: u16
  sock_io_mode :: u16
  sock_is_sending :: u16
  sock_remained_size :: "u16 list"
  sock_pack_info :: "u8 list"

definition net_start :: "'w \<Rightarrow> 'w net" where
  "net_start w = \<lparr>world = w, sock_any_port = 0xC000, sock_io_mode = 0, sock_is_sending = 0,
     sock_remained_size = replicate 8 0, sock_pack_info = replicate 8 0\<rparr>"

text \<open>Calls of the chip driver: those that only change the chip, and those that also return a value.\<close>

definition put_chip :: "('w \<Rightarrow> 'w) \<Rightarrow> 'w net \<Rightarrow> 'w net" where
  "put_chip f s = s\<lparr>world := f (world s)\<rparr>"

definition get_chip :: "('w \<Rightarrow> 'v \<times> 'w) \<Rightarrow> 'w net \<Rightarrow> 'v \<times> 'w net" where
  "get_chip f s = (let (v, w) = f (world s) in (v, s\<lparr>world := w\<rparr>))"

definition try_put :: "('w \<Rightarrow> 'w option) \<Rightarrow> 'w net \<Rightarrow> 'w net option" where
  "try_put f s = do { w \<leftarrow> f (world s); Some (s\<lparr>world := w\<rparr>) }"

definition try_get :: "('w \<Rightarrow> ('v \<times> 'w) option) \<Rightarrow> 'w net \<Rightarrow> ('v \<times> 'w net) option" where
  "try_get f s = do { (v, w) \<leftarrow> f (world s); Some (v, s\<lparr>world := w\<rparr>) }"

text \<open>The bit \<^verbatim>\<open>1 << sn\<close> of the mode words.\<close>

definition sn_bit :: "u8 \<Rightarrow> u16" where
  "sn_bit sn = push_bit (unat sn) 1"

text \<open>\<^verbatim>\<open>setSn_CR(sn, cmd); while (getSn_CR(sn));\<close>\<close>

definition command :: "'w wizchip \<Rightarrow> u8 \<Rightarrow> u8 \<Rightarrow> 'w net \<Rightarrow> 'w net option" where
  "command E sn cmd s = try_put (\<lambda>w. wait_while (getSn_CR E sn) (\<lambda>v. v \<noteq> 0) (setSn_CR E sn cmd w)) s"

text \<open>The sum of \<^verbatim>\<open>CHECK_IPZERO\<close>.\<close>

definition ip_zero :: "u8 list \<Rightarrow> bool" where
  "ip_zero addr \<longleftrightarrow> fold (\<lambda>b a. a + ucast b) addr (0 :: u16) = 0"

section \<open>Opening and closing\<close>

definition close :: "'w wizchip \<Rightarrow> u8 \<Rightarrow> 'w net \<Rightarrow> (int \<times> 'w net) option" where
  "close E sn s =
     (if SOCK_NUM \<le> sn then Some (SOCKERR_SOCKNUM, s)
      else do {
        s \<leftarrow> command E sn Sn_CR_CLOSE s;
        let s = put_chip (setSn_IR E sn 0xFF) s;
        let s = s\<lparr>sock_io_mode := sock_io_mode s AND NOT (sn_bit sn),
                  sock_is_sending := sock_is_sending s AND NOT (sn_bit sn),
                  sock_remained_size := (sock_remained_size s)[unat sn := 0],
                  sock_pack_info := (sock_pack_info s)[unat sn := PACK_NONE]\<rparr>;
        s \<leftarrow> try_put (wait_while (getSn_SR E sn) (\<lambda>v. v \<noteq> SOCK_CLOSED)) s;
        Some (SOCK_OK, s)
      })"

text \<open>The first \<^verbatim>\<open>switch\<close> of \<^verbatim>\<open>socket\<close>: an error to return, or none.\<close>

definition check_protocol :: "'w wizchip \<Rightarrow> u8 \<Rightarrow> 'w net \<Rightarrow> (int option \<times> 'w net) option" where
  "check_protocol E protocol s =
     (let p = protocol AND 0x0F in
      if p = Sn_MR_TCP then do {
        (taddr, s) \<leftarrow> try_get (getSIPR E (replicate 16 0)) s;
        Some (if ip_zero (take 4 taddr) then Some SOCKERR_IPINVALID else None, s)
      }
      else if p = Sn_MR_TCP6 then do {
        (taddr, s) \<leftarrow> try_get (getLLAR E (replicate 16 0)) s;
        Some (if ip_zero (take 16 taddr) then Some SOCKERR_IPINVALID else None, s)
      }
      else if p = Sn_MR_TCPD then do {
        (taddr, s) \<leftarrow> try_get (getSIPR E (replicate 16 0)) s;
        if ip_zero (take 4 taddr) then Some (Some SOCKERR_IPINVALID, s)
        else do {
          (taddr, s) \<leftarrow> try_get (getLLAR E taddr) s;
          Some (if ip_zero (take 16 taddr) then Some SOCKERR_IPINVALID else None, s)
        }
      }
      else if p = Sn_MR_UDP \<or> p = Sn_MR_UDP6 \<or> p = Sn_MR_UDPD \<or> p = Sn_MR_MACRAW \<or> p = Sn_MR_IPRAW \<or> p = Sn_MR_IPRAW6
        then Some (None, s)
      else Some (Some SOCKERR_SOCKMODE, s))"

text \<open>The flags that the second \<^verbatim>\<open>switch\<close>, on the unmasked protocol, refuses.\<close>

definition bad_flag :: "u8 \<Rightarrow> u8 \<Rightarrow> bool" where
  "bad_flag protocol flag \<longleftrightarrow> flag AND 0x04 \<noteq> 0 \<or>
     flag \<noteq> 0 \<and>
       (if protocol = Sn_MR_MACRAW then flag AND (SF_DHA_MANUAL OR SF_FORCE_ARP) \<noteq> 0
        else if protocol = Sn_MR_TCP \<or> protocol = Sn_MR_TCP6 \<or> protocol = Sn_MR_TCPD
          then flag AND (SF_MULTI_ENABLE OR SF_UNI_BLOCK) \<noteq> 0
        else protocol = Sn_MR_IPRAW \<or> protocol = Sn_MR_IPRAW6)"

definition any_port :: "u16 \<Rightarrow> 'w net \<Rightarrow> u16 \<times> 'w net" where
  "any_port port s =
     (if port = 0 then
        let p = sock_any_port s; q = p + 1
        in (p, s\<lparr>sock_any_port := if q = 0xFFF0 then 0xC000 else q\<rparr>)
      else (port, s))"

definition socket :: "'w wizchip \<Rightarrow> u8 \<Rightarrow> u8 \<Rightarrow> u16 \<Rightarrow> u8 \<Rightarrow> 'w net \<Rightarrow> (int \<times> 'w net) option" where
  "socket E sn protocol port flag s =
     (if SOCK_NUM \<le> sn then Some (SOCKERR_SOCKNUM, s)
      else do {
        (err, s) \<leftarrow> check_protocol E protocol s;
        case err of Some e \<Rightarrow> Some (e, s)
        | None \<Rightarrow>
          if bad_flag protocol flag then Some (SOCKERR_SOCKFLAG, s)
          else do {
            (_, s) \<leftarrow> close E sn s;
            let s = put_chip (setSn_MR E sn (protocol OR (flag AND 0xF0))) s;
            let s = put_chip (setSn_MR2 E sn (flag AND 0x03)) s;
            let (port, s) = any_port port s;
            let s = put_chip (setSn_PORTR E sn port) s;
            s \<leftarrow> command E sn Sn_CR_OPEN s;
            let s = s\<lparr>sock_io_mode := sock_io_mode s AND NOT (sn_bit sn)\<rparr>;
            let s = s\<lparr>sock_io_mode := sock_io_mode s OR push_bit (unat sn) (ucast (flag AND drop_bit 3 SF_IO_NONBLOCK)),
                      sock_is_sending := sock_is_sending s AND NOT (sn_bit sn),
                      sock_remained_size := (sock_remained_size s)[unat sn := 0],
                      sock_pack_info := (sock_pack_info s)[unat sn := PACK_COMPLETED]\<rparr>;
            s \<leftarrow> try_put (wait_while (getSn_SR E sn) (\<lambda>v. v = SOCK_CLOSED)) s;
            Some (uint sn, s)
          }
      })"

section \<open>Connections\<close>

definition listen :: "'w wizchip \<Rightarrow> u8 \<Rightarrow> 'w net \<Rightarrow> (int \<times> 'w net) option" where
  "listen E sn s =
     (if SOCK_NUM \<le> sn then Some (SOCKERR_SOCKNUM, s)
      else
        let (mr, s) = get_chip (getSn_MR E sn) s in
        if mr AND 0x03 \<noteq> 0x01 then Some (SOCKERR_SOCKMODE, s)
        else
          let (sr, s) = get_chip (getSn_SR E sn) s in
          if sr \<noteq> SOCK_INIT then Some (SOCKERR_SOCKINIT, s)
          else do {
            s \<leftarrow> command E sn Sn_CR_LISTEN s;
            let (sr, s) = get_chip (getSn_SR E sn) s;
            if sr \<noteq> SOCK_LISTEN then do {
              (_, s) \<leftarrow> close E sn s;
              Some (SOCKERR_SOCKCLOSED, s)
            } else Some (SOCK_OK, s)
          })"

partial_function (option) connect_wait :: "'w wizchip \<Rightarrow> u8 \<Rightarrow> 'w net \<Rightarrow> (int \<times> 'w net) option" where
  "connect_wait E sn s =
     (case get_chip (getSn_SR E sn) s of (sr, s) \<Rightarrow>
        if sr = SOCK_ESTABLISHED then Some (SOCK_OK, s)
        else case get_chip (getSn_IR E sn) s of (ir, s) \<Rightarrow>
          if ir AND Sn_IR_TIMEOUT \<noteq> 0 then Some (SOCKERR_TIMEOUT, put_chip (setSn_IR E sn Sn_IR_TIMEOUT) s)
          else case get_chip (getSn_SR E sn) s of (sr, s) \<Rightarrow>
            if sr = SOCK_CLOSED then Some (SOCKERR_SOCKCLOSED, s)
            else connect_wait E sn s)"

text \<open>The part of \<^verbatim>\<open>connect_IO_6\<close> that hands the address to the chip: an error to return, or none.\<close>

definition connect_command :: "'w wizchip \<Rightarrow> u8 \<Rightarrow> u8 list \<Rightarrow> u8 \<Rightarrow> 'w net \<Rightarrow> (int option \<times> 'w net) option" where
  "connect_command E sn addr addrlen s =
     (case get_chip (getSn_MR E sn) s of (mr, s) \<Rightarrow>
        if addrlen = 16 then
          if mr AND 0x08 \<noteq> 0 then do {
            s \<leftarrow> try_put (setSn_DIP6R E sn addr) s;
            s \<leftarrow> command E sn Sn_CR_CONNECT6 s;
            Some (None, s)
          } else Some (Some SOCKERR_SOCKMODE, s)
        else
          if mr = Sn_MR_TCP6 then Some (Some SOCKERR_SOCKMODE, s)
          else do {
            s \<leftarrow> try_put (setSn_DIPR E sn addr) s;
            s \<leftarrow> command E sn Sn_CR_CONNECT s;
            Some (None, s)
          })"

definition connect_IO_6 :: "'w wizchip \<Rightarrow> u8 \<Rightarrow> u8 list \<Rightarrow> u16 \<Rightarrow> u8 \<Rightarrow> 'w net \<Rightarrow> (int \<times> 'w net) option" where
  "connect_IO_6 E sn addr port addrlen s =
     (if SOCK_NUM \<le> sn then Some (SOCKERR_SOCKNUM, s)
      else
        let (mr, s) = get_chip (getSn_MR E sn) s in
        if mr AND 0x03 \<noteq> 0x01 then Some (SOCKERR_SOCKMODE, s)
        else
          let (sr, s) = get_chip (getSn_SR E sn) s in
          if sr \<noteq> SOCK_INIT then Some (SOCKERR_SOCKINIT, s)
          else if length addr < unat addrlen then None
          else if ip_zero (take (unat addrlen) addr) then Some (SOCKERR_IPINVALID, s)
          else if port = 0 then Some (SOCKERR_PORTZERO, s)
          else do {
            (err, s) \<leftarrow> connect_command E sn addr addrlen (put_chip (setSn_DPORTR E sn port) s);
            case err of Some e \<Rightarrow> Some (e, s)
            | None \<Rightarrow>
              if sock_io_mode s AND sn_bit sn \<noteq> 0 then Some (SOCK_BUSY, s)
              else connect_wait E sn s
          })"

definition connect_W5x00 :: "'w wizchip \<Rightarrow> u8 \<Rightarrow> u8 list \<Rightarrow> u16 \<Rightarrow> 'w net \<Rightarrow> (int \<times> 'w net) option" where
  "connect_W5x00 E sn addr port = connect_IO_6 E sn addr port 4"

definition connect_W6x00 :: "'w wizchip \<Rightarrow> u8 \<Rightarrow> u8 list \<Rightarrow> u16 \<Rightarrow> u8 \<Rightarrow> 'w net \<Rightarrow> (int \<times> 'w net) option" where
  "connect_W6x00 E sn addr port addrlen = connect_IO_6 E sn addr port addrlen"

partial_function (option) disconnect_wait :: "'w wizchip \<Rightarrow> u8 \<Rightarrow> 'w net \<Rightarrow> (int \<times> 'w net) option" where
  "disconnect_wait E sn s =
     (case get_chip (getSn_SR E sn) s of (sr, s) \<Rightarrow>
        if sr = SOCK_CLOSED then Some (SOCK_OK, s)
        else case get_chip (getSn_IR E sn) s of (ir, s) \<Rightarrow>
          if ir AND Sn_IR_TIMEOUT \<noteq> 0 then do { (_, s) \<leftarrow> close E sn s; Some (SOCKERR_TIMEOUT, s) }
          else disconnect_wait E sn s)"

definition disconnect :: "'w wizchip \<Rightarrow> u8 \<Rightarrow> 'w net \<Rightarrow> (int \<times> 'w net) option" where
  "disconnect E sn s =
     (if SOCK_NUM \<le> sn then Some (SOCKERR_SOCKNUM, s)
      else
        let (mr, s) = get_chip (getSn_MR E sn) s in
        if mr AND 0x03 \<noteq> 0x01 then Some (SOCKERR_SOCKMODE, s)
        else
          let (sr, s) = get_chip (getSn_SR E sn) s in
          if sr = SOCK_CLOSED then Some (SOCK_OK, s)
          else do {
            s \<leftarrow> command E sn Sn_CR_DISCON s;
            let s = s\<lparr>sock_is_sending := sock_is_sending s AND NOT (sn_bit sn)\<rparr>;
            if sock_io_mode s AND sn_bit sn \<noteq> 0 then Some (SOCK_BUSY, s)
            else disconnect_wait E sn s
          })"

end
