(* ===== verification/Socket_Data.thy ===== *)
theory Socket_Data
  imports Socket
begin

text \<open>
  The data transfer of \<^verbatim>\<open>Ethernet/socket.c\<close>: stream sockets (\<^verbatim>\<open>send\<close>, \<^verbatim>\<open>recv\<close>), datagrams
  (\<^verbatim>\<open>sendto\<close>, \<^verbatim>\<open>recvfrom\<close>), the control functions and \<^verbatim>\<open>peeksockmsg\<close>.
\<close>

section \<open>Streams\<close>

text \<open>Waiting for room in the send buffer: a value to return, or none.\<close>

partial_function (option) send_room :: "'w wizchip \<Rightarrow> u8 \<Rightarrow> u16 \<Rightarrow> 'w net \<Rightarrow> (int option \<times> 'w net) option" where
  "send_room E sn len s = do {
     (freesize, s) \<leftarrow> try_get (getSn_TX_FSR E sn) s;
     case get_chip (getSn_SR E sn) s of (tmp, s) \<Rightarrow>
       if tmp \<noteq> SOCK_ESTABLISHED \<and> tmp \<noteq> SOCK_CLOSE_WAIT then
         if tmp = SOCK_CLOSED then do { (_, s) \<leftarrow> close E sn s; Some (Some SOCKERR_SOCKSTATUS, s) }
         else Some (Some SOCKERR_SOCKSTATUS, s)
       else if 31 \<le> sn then None
       else if sock_io_mode s AND sn_bit sn \<noteq> 0 \<and> freesize < len then Some (Some SOCK_BUSY, s)
       else if len \<le> freesize then Some (None, s)
       else send_room E sn len s
   }"

text \<open>Waiting for the end of the previous transmission.\<close>

partial_function (option) send_done :: "'w wizchip \<Rightarrow> u8 \<Rightarrow> 'w net \<Rightarrow> (int option \<times> 'w net) option" where
  "send_done E sn s =
     (case get_chip (getSn_IR E sn) s of (ir, s) \<Rightarrow>
        if ir AND Sn_IR_SENDOK \<noteq> 0 then Some (None, put_chip (setSn_IR E sn Sn_IR_SENDOK) s)
        else case get_chip (getSn_SR E sn) s of (tmp, s) \<Rightarrow>
          if tmp \<noteq> SOCK_ESTABLISHED \<and> tmp \<noteq> SOCK_CLOSE_WAIT then
            if tmp = SOCK_CLOSED then do { (_, s) \<leftarrow> close E sn s; Some (Some SOCKERR_SOCKSTATUS, s) }
            else case get_chip (getSn_IR E sn) s of (ir, s) \<Rightarrow>
              if ir AND Sn_IR_TIMEOUT \<noteq> 0 then do { (_, s) \<leftarrow> close E sn s; Some (Some SOCKERR_SOCKSTATUS, s) }
              else Some (Some SOCKERR_SOCKSTATUS, s)
          else if sock_io_mode s AND sn_bit sn \<noteq> 0 then Some (Some SOCK_BUSY, s)
          else send_done E sn s)"

definition send :: "'w wizchip \<Rightarrow> u8 \<Rightarrow> u8 list \<Rightarrow> u16 \<Rightarrow> 'w net \<Rightarrow> (int \<times> 'w net) option" where
  "send E sn buf len s = do {
     let (freesize, s) = get_chip (getSn_TxMAX E sn) s;
     let len = (if freesize < len then freesize else len);
     (r, s) \<leftarrow> send_room E sn len s;
     case r of Some e \<Rightarrow> Some (e, s)
     | None \<Rightarrow> do {
         s \<leftarrow> try_put (wiz_send_data E sn buf len) s;
         (r, s) \<leftarrow> (if sock_is_sending s AND sn_bit sn \<noteq> 0 then send_done E sn s else Some (None, s));
         case r of Some e \<Rightarrow> Some (e, s)
         | None \<Rightarrow> do {
             s \<leftarrow> command E sn Sn_CR_SEND s;
             Some (uint len, s\<lparr>sock_is_sending := sock_is_sending s OR sn_bit sn\<rparr>)
           }
       }
   }"

text \<open>Waiting for data: the number of bytes received, or a value to return.\<close>

partial_function (option) recv_wait :: "'w wizchip \<Rightarrow> u8 \<Rightarrow> 'w net \<Rightarrow> ((int + u16) \<times> 'w net) option" where
  "recv_wait E sn s = do {
     (recvsize, s) \<leftarrow> try_get (getSn_RX_RSR E sn) s;
     case get_chip (getSn_SR E sn) s of (tmp, s) \<Rightarrow>
       if tmp = SOCK_CLOSE_WAIT \<and> recvsize \<noteq> 0 then Some (Inr recvsize, s)
       else if tmp \<noteq> SOCK_ESTABLISHED \<and> tmp \<noteq> SOCK_CLOSE_WAIT then
         do { (_, s) \<leftarrow> close E sn s; Some (Inl SOCKERR_SOCKSTATUS, s) }
       else do {
         (gone, s) \<leftarrow> (if tmp = SOCK_CLOSE_WAIT then do {
              (fsr, s) \<leftarrow> try_get (getSn_TX_FSR E sn) s;
              case get_chip (getSn_TxMAX E sn) s of (mx, s) \<Rightarrow> Some (fsr = mx, s)
            } else Some (False, s));
         if gone then do { (_, s) \<leftarrow> close E sn s; Some (Inl SOCKERR_SOCKSTATUS, s) }
         else if recvsize \<noteq> 0 then Some (Inr recvsize, s)
         else if sock_io_mode s AND sn_bit sn \<noteq> 0 then Some (Inl SOCK_BUSY, s)
         else recv_wait E sn s
       }
   }"

definition recv :: "'w wizchip \<Rightarrow> u8 \<Rightarrow> u8 list \<Rightarrow> u16 \<Rightarrow> 'w net \<Rightarrow> (int \<times> u8 list \<times> 'w net) option" where
  "recv E sn buf len s =
     (if SOCK_NUM \<le> sn then Some (SOCKERR_SOCKNUM, buf, s)
      else
        let (mr, s) = get_chip (getSn_MR E sn) s in
        if mr AND 0x0F \<noteq> Sn_MR_TCP then Some (SOCKERR_SOCKMODE, buf, s)
        else if len = 0 then Some (SOCKERR_DATALEN, buf, s)
        else do {
          let (recvsize, s) = get_chip (getSn_RxMAX E sn) s;
          let len = (if recvsize < len then recvsize else len);
          (r, s) \<leftarrow> recv_wait E sn s;
          case r of Inl e \<Rightarrow> Some (e, buf, s)
          | Inr recvsize \<Rightarrow> do {
              let len = (if recvsize < len then recvsize else len);
              (buf, s) \<leftarrow> try_get (wiz_recv_data E sn buf len) s;
              s \<leftarrow> command E sn Sn_CR_RECV s;
              Some (uint len, buf, s)
            }
        })"

section \<open>Datagrams\<close>

text \<open>The destination of \<^verbatim>\<open>sendto_IO_6\<close>: the command to send with, or an error.\<close>

definition sendto_dest :: "'w wizchip \<Rightarrow> u8 \<Rightarrow> u8 list \<Rightarrow> u16 \<Rightarrow> u8 \<Rightarrow> u8 \<Rightarrow> 'w net \<Rightarrow> ((int + u8) \<times> 'w net) option" where
  "sendto_dest E sn addr port addrlen tmp s = do {
     (r, s) \<leftarrow>
       (if tmp = Sn_MR_MACRAW then Some (Inr Sn_CR_SEND, s)
        else if addrlen = 16 then
          if tmp AND 0x08 \<noteq> 0 then do { s \<leftarrow> try_put (setSn_DIP6R E sn addr) s; Some (Inr Sn_CR_SEND6, s) }
          else Some (Inl SOCKERR_SOCKMODE, s)
        else if addrlen = 4 then
          if tmp = Sn_MR_UDP6 \<or> tmp = Sn_MR_IPRAW6 then Some (Inl SOCKERR_SOCKMODE, s)
          else do { s \<leftarrow> try_put (setSn_DIPR E sn addr) s; Some (Inr Sn_CR_SEND, s) }
        else Some (Inl SOCKERR_IPINVALID, s));
     case r of Inl e \<Rightarrow> Some (Inl e, s)
     | Inr tcmd \<Rightarrow>
         if tmp AND 0x03 = 0x02 then
           if port = 0 then Some (Inl SOCKERR_PORTZERO, s)
           else Some (Inr tcmd, put_chip (setSn_DPORTR E sn port) s)
         else Some (Inr tcmd, s)
   }"

partial_function (option) sendto_room :: "'w wizchip \<Rightarrow> u8 \<Rightarrow> u16 \<Rightarrow> 'w net \<Rightarrow> (int option \<times> 'w net) option" where
  "sendto_room E sn len s = do {
     (freesize, s) \<leftarrow> try_get (getSn_TX_FSR E sn) s;
     case get_chip (getSn_SR E sn) s of (sr, s) \<Rightarrow>
       if sr = SOCK_CLOSED then Some (Some SOCKERR_SOCKCLOSED, s)
       else if sock_io_mode s AND sn_bit sn \<noteq> 0 \<and> freesize < len then Some (Some SOCK_BUSY, s)
       else if len \<le> freesize then Some (None, s)
       else sendto_room E sn len s
   }"

partial_function (option) sendto_done :: "'w wizchip \<Rightarrow> u8 \<Rightarrow> 'w net \<Rightarrow> (bool \<times> 'w net) option" where
  "sendto_done E sn s =
     (case get_chip (getSn_IR E sn) s of (tmp, s) \<Rightarrow>
        if tmp AND Sn_IR_SENDOK \<noteq> 0 then Some (True, put_chip (setSn_IR E sn Sn_IR_SENDOK) s)
        else if tmp AND Sn_IR_TIMEOUT \<noteq> 0 then Some (False, put_chip (setSn_IR E sn Sn_IR_TIMEOUT) s)
        else sendto_done E sn s)"

definition sendto_IO_6 :: "'w wizchip \<Rightarrow> u8 \<Rightarrow> u8 list \<Rightarrow> u16 \<Rightarrow> u8 list \<Rightarrow> u16 \<Rightarrow> u8 \<Rightarrow> 'w net \<Rightarrow> (int \<times> 'w net) option" where
  "sendto_IO_6 E sn buf len addr port addrlen s =
     (if SOCK_NUM \<le> sn then Some (SOCKERR_SOCKNUM, s)
      else
        let (mr, s) = get_chip (getSn_MR E sn) s in
        if mr AND 0x0F \<noteq> Sn_MR_UDP \<and> mr AND 0x0F \<noteq> Sn_MR_MACRAW \<and> mr AND 0x0F \<noteq> Sn_MR_IPRAW \<and> mr AND 0x0F \<noteq> Sn_MR_IPRAW6
        then Some (SOCKERR_SOCKMODE, s)
        else do {
          let (tmp, s) = get_chip (getSn_MR E sn) s;
          (r, s) \<leftarrow> sendto_dest E sn addr port addrlen tmp s;
          case r of Inl e \<Rightarrow> Some (e, s)
          | Inr tcmd \<Rightarrow> do {
              let (freesize, s) = get_chip (getSn_TxMAX E sn) s;
              let len = (if freesize < len then freesize else len);
              (r, s) \<leftarrow> sendto_room E sn len s;
              case r of Some e \<Rightarrow> Some (e, s)
              | None \<Rightarrow> do {
                  s \<leftarrow> try_put (wiz_send_data E sn buf len) s;
                  s \<leftarrow> command E sn tcmd s;
                  (ok, s) \<leftarrow> sendto_done E sn s;
                  Some (if ok then uint len else SOCKERR_TIMEOUT, s)
                }
            }
        })"

definition sendto_W5x00 :: "'w wizchip \<Rightarrow> u8 \<Rightarrow> u8 list \<Rightarrow> u16 \<Rightarrow> u8 list \<Rightarrow> u16 \<Rightarrow> 'w net \<Rightarrow> (int \<times> 'w net) option" where
  "sendto_W5x00 E sn buf len addr port = sendto_IO_6 E sn buf len addr port 4"

definition sendto_W6x00 :: "'w wizchip \<Rightarrow> u8 \<Rightarrow> u8 list \<Rightarrow> u16 \<Rightarrow> u8 list \<Rightarrow> u16 \<Rightarrow> u8 \<Rightarrow> 'w net \<Rightarrow> (int \<times> 'w net) option" where
  "sendto_W6x00 E sn buf len addr port addrlen = sendto_IO_6 E sn buf len addr port addrlen"

text \<open>
  The caller's variables that \<^verbatim>\<open>recvfrom\<close> writes. Either pointer can be null; the address buffer has
  the length that the caller gave it.
\<close>

record rx_out =
  rx_buf :: "u8 list"
  rx_addr :: "u8 list option"
  rx_port :: "u16 option"
  rx_addrlen :: u8

partial_function (option) recvfrom_wait :: "'w wizchip \<Rightarrow> u8 \<Rightarrow> 'w net \<Rightarrow> (int option \<times> 'w net) option" where
  "recvfrom_wait E sn s = do {
     (pack_len, s) \<leftarrow> try_get (getSn_RX_RSR E sn) s;
     case get_chip (getSn_SR E sn) s of (sr, s) \<Rightarrow>
       if sr = SOCK_CLOSED then Some (Some SOCKERR_SOCKCLOSED, s)
       else if pack_len \<noteq> 0 then Some (None, s\<lparr>sock_pack_info := (sock_pack_info s)[unat sn := PACK_NONE]\<rparr>)
       else if sock_io_mode s AND sn_bit sn \<noteq> 0 then Some (Some SOCK_BUSY, s)
       else recvfrom_wait E sn s
   }"

text \<open>\<^verbatim>\<open>wiz_recv_data(sn, p, n); setSn_CR(sn, Sn_CR_RECV); while (getSn_CR(sn));\<close>\<close>

definition recv_part :: "'w wizchip \<Rightarrow> u8 \<Rightarrow> u8 list \<Rightarrow> u16 \<Rightarrow> 'w net \<Rightarrow> (u8 list \<times> 'w net) option" where
  "recv_part E sn p n s = do {
     (p, s) \<leftarrow> try_get (wiz_recv_data E sn p n) s;
     s \<leftarrow> command E sn Sn_CR_RECV s;
     Some (p, s)
   }"

text \<open>The sender's address, of the length that the first header byte tells.\<close>

definition recv_addr :: "'w wizchip \<Rightarrow> u8 \<Rightarrow> u8 \<Rightarrow> u8 list \<Rightarrow> rx_out \<Rightarrow> 'w net \<Rightarrow> (rx_out \<times> 'w net) option" where
  "recv_addr E sn head0 addr out s = do {
     let s = s\<lparr>sock_pack_info := (sock_pack_info s)[unat sn := head0 AND 0xF8]\<rparr>;
     let n = (if head0 AND 0xF8 AND PACK_IPv6 \<noteq> 0 then 16 else 4);
     (addr, s) \<leftarrow> recv_part E sn addr (ucast n) s;
     Some (out\<lparr>rx_addr := Some addr, rx_addrlen := n\<rparr>, s)
   }"

text \<open>
  The \<^verbatim>\<open>switch\<close> on the mode: a value to return, or none. An IPRAW socket tests the first byte of the
  address buffer, not the pointer; a MACRAW socket copies the packet here already.
\<close>

definition recvfrom_mode :: "'w wizchip \<Rightarrow> u8 \<Rightarrow> u8 \<Rightarrow> u8 list \<Rightarrow> u16 \<Rightarrow> u16 \<Rightarrow> rx_out \<Rightarrow> 'w net
    \<Rightarrow> (int option \<times> u16 \<times> rx_out \<times> 'w net) option" where
  "recvfrom_mode E sn mr head pack_len len out s =
     (if mr AND 0x07 = Sn_MR_UDP then
        case rx_addr out of None \<Rightarrow> Some (Some SOCKERR_ARG, pack_len, out, s)
        | Some addr \<Rightarrow> do { (out, s) \<leftarrow> recv_addr E sn (head ! 0) addr out s; Some (None, pack_len, out, s) }
      else if mr AND 0x07 = Sn_MR_MACRAW then do {
        let sz = push_bit 8 (ucast (head ! 0)) + ucast (head ! 1) - 2;
        (r, s) \<leftarrow>
          (if sock_remained_size s ! unat sn = 0 then do {
             let s = s\<lparr>sock_remained_size := (sock_remained_size s)[unat sn := sz]\<rparr>;
             if 1514 < sz then do { (_, s) \<leftarrow> close E sn s; Some (Some SOCKFATAL_PACKLEN, s) }
             else Some (None, s\<lparr>sock_pack_info := (sock_pack_info s)[unat sn := PACK_FIRST]\<rparr>)
           } else Some (None, s));
        case r of Some e \<Rightarrow> Some (Some e, pack_len, out, s)
        | None \<Rightarrow> do {
            let pack_len = (if len < sock_remained_size s ! unat sn then len else sock_remained_size s ! unat sn);
            (buf, s) \<leftarrow> try_get (wiz_recv_data E sn (rx_buf out) pack_len) s;
            Some (None, pack_len, out\<lparr>rx_buf := buf\<rparr>, s)
          }
      }
      else if mr AND 0x07 = Sn_MR_IPRAW then
        if sock_remained_size s ! unat sn = 0 then
          case rx_addr out of
            Some (a # addr) \<Rightarrow>
              if a = 0 then Some (Some SOCKERR_ARG, pack_len, out, s)
              else do { (out, s) \<leftarrow> recv_addr E sn (head ! 0) (a # addr) out s; Some (None, pack_len, out, s) }
          | _ \<Rightarrow> None
        else Some (None, pack_len, out, s)
      else Some (None, pack_len, out,
        (put_chip (wiz_recv_ignore E sn pack_len) s)\<lparr>sock_remained_size := (sock_remained_size s)[unat sn := pack_len]\<rparr>))"

text \<open>The port, for the datagram modes.\<close>

definition recvfrom_port :: "'w wizchip \<Rightarrow> u8 \<Rightarrow> rx_out \<Rightarrow> 'w net \<Rightarrow> (bool \<times> rx_out \<times> 'w net) option" where
  "recvfrom_port E sn out s =
     (case get_chip (getSn_MR E sn) s of (mr, s) \<Rightarrow>
        if mr AND 0x03 = 0x02 then
          if rx_port out = None then Some (False, out, s)
          else do {
            (head, s) \<leftarrow> recv_part E sn (replicate 8 0) 2 s;
            Some (True, out\<lparr>rx_port := Some (push_bit 8 (ucast (head ! 0)) + ucast (head ! 1))\<rparr>, s)
          }
        else Some (True, out, s))"

definition recvfrom_IO_6 :: "'w wizchip \<Rightarrow> u8 \<Rightarrow> u16 \<Rightarrow> rx_out \<Rightarrow> 'w net \<Rightarrow> (int \<times> rx_out \<times> 'w net) option" where
  "recvfrom_IO_6 E sn len out s =
     (if SOCK_NUM \<le> sn then Some (SOCKERR_SOCKNUM, out, s)
      else
        let (mr, s) = get_chip (getSn_MR E sn) s in
        if mr AND 0x0F \<noteq> Sn_MR_UDP \<and> mr AND 0x0F \<noteq> Sn_MR_IPRAW \<and> mr AND 0x0F \<noteq> Sn_MR_IPRAW6 \<and> mr AND 0x0F \<noteq> Sn_MR_MACRAW
        then Some (SOCKERR_SOCKMODE, out, s)
        else if len = 0 then Some (SOCKERR_DATALEN, out, s)
        else do {
          (r, s) \<leftarrow> (if sock_remained_size s ! unat sn = 0 then recvfrom_wait E sn s else Some (None, s));
          case r of Some e \<Rightarrow> Some (e, out, s)
          | None \<Rightarrow> do {
              (head, s) \<leftarrow> recv_part E sn (replicate 8 0) 2 s;
              let pack_len = push_bit 8 (ucast (head ! 0 AND 0x07)) + ucast (head ! 1);
              (r, pack_len, out, s) \<leftarrow> recvfrom_mode E sn mr head pack_len len out s;
              case r of Some e \<Rightarrow> Some (e, out, s)
              | None \<Rightarrow> do {
                  let s = s\<lparr>sock_remained_size := (sock_remained_size s)[unat sn := pack_len],
                            sock_pack_info := (sock_pack_info s)[unat sn := sock_pack_info s ! unat sn OR PACK_FIRST]\<rparr>;
                  (ok, out, s) \<leftarrow> recvfrom_port E sn out s;
                  if \<not> ok then Some (SOCKERR_ARG, out, s)
                  else do {
                    let rest = sock_remained_size s ! unat sn;
                    let pack_len = (if len < rest then len else rest);
                    (buf, s) \<leftarrow> recv_part E sn (rx_buf out) pack_len s;
                    let rest = rest - pack_len;
                    Some (uint pack_len, out\<lparr>rx_buf := buf\<rparr>,
                      s\<lparr>sock_remained_size := (sock_remained_size s)[unat sn := rest],
                        sock_pack_info := (sock_pack_info s)[unat sn := sock_pack_info s ! unat sn OR
                          (if rest \<noteq> 0 then PACK_REMAINED else PACK_COMPLETED)]\<rparr>)
                  }
                }
            }
        })"

definition recvfrom_W5x00 :: "'w wizchip \<Rightarrow> u8 \<Rightarrow> u16 \<Rightarrow> rx_out \<Rightarrow> 'w net \<Rightarrow> (int \<times> rx_out \<times> 'w net) option" where
  "recvfrom_W5x00 E sn len out s = do {
     (r, out', s) \<leftarrow> recvfrom_IO_6 E sn len (out\<lparr>rx_addrlen := 4\<rparr>) s;
     Some (r, out'\<lparr>rx_addrlen := rx_addrlen out\<rparr>, s)
   }"

definition recvfrom_W6x00 :: "'w wizchip \<Rightarrow> u8 \<Rightarrow> u16 \<Rightarrow> rx_out \<Rightarrow> 'w net \<Rightarrow> (int \<times> rx_out \<times> 'w net) option" where
  "recvfrom_W6x00 E sn len out s = recvfrom_IO_6 E sn len out s"

section \<open>Control\<close>

datatype ctlsock_type = CS_SET_IOMODE | CS_GET_IOMODE | CS_GET_MAXTXBUF | CS_GET_MAXRXBUF | CS_CLR_INTERRUPT
  | CS_GET_INTERRUPT | CS_SET_PREFER | CS_GET_PREFER | CS_SET_INTMASK | CS_GET_INTMASK

datatype sockopt_type = SO_FLAG | SO_TTL | SO_TOS | SO_MSS | SO_DESTIP | SO_DESTPORT | SO_KEEPALIVESEND
  | SO_KEEPALIVEAUTO | SO_SENDBUF | SO_RECVBUF | SO_STATUS | SO_EXTSTATUS | SO_MODE | SO_REMAINSIZE | SO_PACKINFO

text \<open>
  The argument is a pointer to bytes, little-endian where the code casts it to \<^verbatim>\<open>uint16_t\<close>. An access
  beyond its end is \<open>None\<close>.
\<close>

definition arg8 :: "u8 list \<Rightarrow> u8 option" where
  "arg8 arg = (case arg of b # _ \<Rightarrow> Some b | [] \<Rightarrow> None)"

definition arg16 :: "u8 list \<Rightarrow> u16 option" where
  "arg16 arg = (case arg of l # h # _ \<Rightarrow> Some (push_bit 8 (ucast h) + ucast l) | _ \<Rightarrow> None)"

definition put8 :: "u8 \<Rightarrow> u8 list \<Rightarrow> u8 list option" where
  "put8 v arg = (case arg of _ # bs \<Rightarrow> Some (v # bs) | [] \<Rightarrow> None)"

definition put16 :: "u16 \<Rightarrow> u8 list \<Rightarrow> u8 list option" where
  "put16 v arg = (case arg of _ # _ # bs \<Rightarrow> Some (ucast v # ucast (drop_bit 8 v) # bs) | _ \<Rightarrow> None)"

definition ok8 :: "u8 list \<Rightarrow> u8 \<times> 'w net \<Rightarrow> (int \<times> u8 list \<times> 'w net) option" where
  "ok8 arg p = do { arg \<leftarrow> put8 (fst p) arg; Some (SOCK_OK, arg, snd p) }"

definition ok16 :: "u8 list \<Rightarrow> u16 \<times> 'w net \<Rightarrow> (int \<times> u8 list \<times> 'w net) option" where
  "ok16 arg p = do { arg \<leftarrow> put16 (fst p) arg; Some (SOCK_OK, arg, snd p) }"

definition ctlsocket :: "'w wizchip \<Rightarrow> u8 \<Rightarrow> ctlsock_type \<Rightarrow> u8 list \<Rightarrow> 'w net \<Rightarrow> (int \<times> u8 list \<times> 'w net) option" where
  "ctlsocket E sn cstype arg s =
     (if SOCK_NUM \<le> sn then Some (SOCKERR_SOCKNUM, arg, s)
      else do {
        tmp \<leftarrow> arg8 arg;
        case cstype of
          CS_SET_IOMODE \<Rightarrow>
            if tmp = 1 then Some (SOCK_OK, arg, s\<lparr>sock_io_mode := sock_io_mode s OR sn_bit sn\<rparr>)
            else if tmp = 0 then Some (SOCK_OK, arg, s\<lparr>sock_io_mode := sock_io_mode s AND NOT (sn_bit sn)\<rparr>)
            else Some (SOCKERR_ARG, arg, s)
        | CS_GET_IOMODE \<Rightarrow> ok8 arg (ucast (drop_bit (unat sn) (sock_io_mode s) AND 0x0001), s)
        | CS_GET_MAXTXBUF \<Rightarrow> ok16 arg (get_chip (getSn_TxMAX E sn) s)
        | CS_GET_MAXRXBUF \<Rightarrow> ok16 arg (get_chip (getSn_RxMAX E sn) s)
        | CS_CLR_INTERRUPT \<Rightarrow>
            if 0x1F < tmp then Some (SOCKERR_ARG, arg, s)
            else Some (SOCK_OK, arg, put_chip (setSn_IR E sn tmp) s)
        | CS_GET_INTERRUPT \<Rightarrow> ok8 arg (get_chip (getSn_IR E sn) s)
        | CS_SET_INTMASK \<Rightarrow>
            if 0x1F < tmp then Some (SOCKERR_ARG, arg, s)
            else Some (SOCK_OK, arg, put_chip (setSn_IMR E sn tmp) s)
        | CS_GET_INTMASK \<Rightarrow> ok8 arg (get_chip (getSn_IMR E sn) s)
        | CS_SET_PREFER \<Rightarrow>
            if tmp AND 0x03 = 0x01 then Some (SOCKERR_ARG, arg, s)
            else Some (SOCK_OK, arg, put_chip (setSn_PSR E sn tmp) s)
        | CS_GET_PREFER \<Rightarrow> ok8 arg (get_chip (getSn_PSR E sn) s)
      })"

text \<open>The wait of \<^verbatim>\<open>SO_KEEPALIVESEND\<close>: whether it timed out.\<close>

partial_function (option) keepalive_wait :: "'w wizchip \<Rightarrow> u8 \<Rightarrow> 'w net \<Rightarrow> (int \<times> 'w net) option" where
  "keepalive_wait E sn s =
     (case get_chip (getSn_CR E sn) s of (cr, s) \<Rightarrow>
        if cr = 0 then Some (SOCK_OK, s)
        else case get_chip (getSn_IR E sn) s of (ir, s) \<Rightarrow>
          if ir AND Sn_IR_TIMEOUT \<noteq> 0 then Some (SOCKERR_TIMEOUT, put_chip (setSn_IR E sn Sn_IR_TIMEOUT) s)
          else keepalive_wait E sn s)"

definition setsockopt :: "'w wizchip \<Rightarrow> u8 \<Rightarrow> sockopt_type \<Rightarrow> u8 list \<Rightarrow> 'w net \<Rightarrow> (int \<times> 'w net) option" where
  "setsockopt E sn sotype arg s =
     (if SOCK_NUM \<le> sn then Some (SOCKERR_SOCKNUM, s)
      else case sotype of
        SO_TTL \<Rightarrow> do { v \<leftarrow> arg8 arg; Some (SOCK_OK, put_chip (setSn_TTL E sn v) s) }
      | SO_TOS \<Rightarrow> do { v \<leftarrow> arg8 arg; Some (SOCK_OK, put_chip (setSn_TOS E sn v) s) }
      | SO_MSS \<Rightarrow> do { v \<leftarrow> arg16 arg; Some (SOCK_OK, put_chip (setSn_MSSR E sn v) s) }
      | SO_DESTIP \<Rightarrow>
          if length arg \<le> 16 then None
          else do {
            s \<leftarrow> try_put (if arg ! 16 = 16 then setSn_DIP6R E sn arg else setSn_DIPR E sn arg) s;
            Some (SOCK_OK, s)
          }
      | SO_DESTPORT \<Rightarrow> do { v \<leftarrow> arg16 arg; Some (SOCK_OK, put_chip (setSn_DPORTR E sn v) s) }
      | SO_KEEPALIVESEND \<Rightarrow>
          (case get_chip (getSn_MR E sn) s of (mr, s) \<Rightarrow>
             if mr AND 0x03 \<noteq> 0x01 then Some (SOCKERR_SOCKMODE, s)
             else case get_chip (getSn_KPALVTR E sn) s of (k, s) \<Rightarrow>
               if k \<noteq> 0 then Some (SOCKERR_SOCKOPT, s)
               else keepalive_wait E sn (put_chip (setSn_CR E sn Sn_CR_SEND_KEEP) s))
      | SO_KEEPALIVEAUTO \<Rightarrow>
          (case get_chip (getSn_MR E sn) s of (mr, s) \<Rightarrow>
             if mr AND 0x03 \<noteq> 0x01 then Some (SOCKERR_SOCKMODE, s)
             else do { v \<leftarrow> arg8 arg; Some (SOCK_OK, put_chip (setSn_KPALVTR E sn v) s) })
      | _ \<Rightarrow> Some (SOCKERR_ARG, s))"

text \<open>Options that are read from the chip only in a TCP mode, and those only on an open socket.\<close>

definition if_tcp :: "'w wizchip \<Rightarrow> u8 \<Rightarrow> u8 list \<Rightarrow> 'w net
    \<Rightarrow> ('w net \<Rightarrow> (int \<times> u8 list \<times> 'w net) option) \<Rightarrow> (int \<times> u8 list \<times> 'w net) option" where
  "if_tcp E sn arg s f =
     (case get_chip (getSn_MR E sn) s of (mr, s) \<Rightarrow>
        if mr AND 0x03 \<noteq> 0x01 then Some (SOCKERR_SOCKMODE, arg, s) else f s)"

definition getsockopt :: "'w wizchip \<Rightarrow> u8 \<Rightarrow> sockopt_type \<Rightarrow> u8 list \<Rightarrow> 'w net \<Rightarrow> (int \<times> u8 list \<times> 'w net) option" where
  "getsockopt E sn sotype arg s =
     (if SOCK_NUM \<le> sn then Some (SOCKERR_SOCKNUM, arg, s)
      else case sotype of
        SO_FLAG \<Rightarrow> do {
          let (mr, s) = get_chip (getSn_MR E sn) s;
          let (mr2, s) = get_chip (getSn_MR2 E sn) s;
          arg \<leftarrow> put8 (mr AND 0xF0 OR mr2 OR ucast (push_bit 3 (drop_bit (unat sn) (sock_io_mode s) AND 0x0001))) arg;
          let (mr, s) = get_chip (getSn_MR E sn) s;
          ok8 arg (mr AND 0xF0, s)
        }
      | SO_TTL \<Rightarrow> ok8 arg (get_chip (getSn_TTL E sn) s)
      | SO_TOS \<Rightarrow> ok8 arg (get_chip (getSn_TOS E sn) s)
      | SO_MSS \<Rightarrow> ok16 arg (get_chip (getSn_MSSR E sn) s)
      | SO_DESTIP \<Rightarrow> if_tcp E sn arg s (\<lambda>s.
          case get_chip (getSn_ESR E sn) s of (esr, s) \<Rightarrow>
            if length arg \<le> 16 then None
            else if esr AND 0x04 \<noteq> 0 then do {
              (arg, s) \<leftarrow> try_get (getSn_DIP6R E sn arg) s; Some (SOCK_OK, arg[16 := 16], s)
            } else do {
              (arg, s) \<leftarrow> try_get (getSn_DIPR E sn arg) s; Some (SOCK_OK, arg[16 := 4], s)
            })
      | SO_DESTPORT \<Rightarrow> ok16 arg (get_chip (getSn_DPORTR E sn) s)
      | SO_KEEPALIVEAUTO \<Rightarrow> if_tcp E sn arg s (\<lambda>s.
          case get_chip (getSn_KPALVTR E sn) s of (k, s) \<Rightarrow> ok16 arg (ucast k, s))
      | SO_SENDBUF \<Rightarrow> do { p \<leftarrow> try_get (getSn_TX_FSR E sn) s; ok16 arg p }
      | SO_RECVBUF \<Rightarrow> do { p \<leftarrow> try_get (getSn_RX_RSR E sn) s; ok16 arg p }
      | SO_STATUS \<Rightarrow> ok8 arg (get_chip (getSn_SR E sn) s)
      | SO_EXTSTATUS \<Rightarrow> if_tcp E sn arg s (\<lambda>s.
          case get_chip (getSn_ESR E sn) s of (esr, s) \<Rightarrow> ok8 arg (esr AND 0x07, s))
      | SO_REMAINSIZE \<Rightarrow>
          (case get_chip (getSn_MR E sn) s of (mr, s) \<Rightarrow>
             if mr = SOCK_CLOSED then Some (SOCKERR_SOCKSTATUS, arg, s)
             else case get_chip (getSn_MR E sn) s of (mr, s) \<Rightarrow>
               if mr AND 0x01 \<noteq> 0 then do { p \<leftarrow> try_get (getSn_RX_RSR E sn) s; ok16 arg p }
               else ok16 arg (sock_remained_size s ! unat sn, s))
      | SO_PACKINFO \<Rightarrow>
          (case get_chip (getSn_MR E sn) s of (mr, s) \<Rightarrow>
             if mr = SOCK_CLOSED then Some (SOCKERR_SOCKSTATUS, arg, s)
             else case get_chip (getSn_MR E sn) s of (mr, s) \<Rightarrow>
               if mr AND 0x01 \<noteq> 0 then Some (SOCKERR_SOCKMODE, arg, s)
               else ok8 arg (sock_pack_info s ! unat sn, s))
      | SO_MODE \<Rightarrow> (case get_chip (getSn_MR E sn) s of (mr, s) \<Rightarrow> ok8 arg (0x0F AND mr, s))
      | SO_KEEPALIVESEND \<Rightarrow> Some (SOCKERR_SOCKOPT, arg, s))"

section \<open>Peeking\<close>

text \<open>The search loop: \<open>i\<close> bytes looked at, \<open>k\<close> of the message matched so far.\<close>

partial_function (option) peek_loop :: "'w wizchip \<Rightarrow> u8 \<Rightarrow> u8 list \<Rightarrow> u16 \<Rightarrow> u32 \<Rightarrow> u16 \<Rightarrow> u16 \<Rightarrow> 'w net \<Rightarrow> (int \<times> 'w net) option" where
  "peek_loop E sn submsg subsize rx_ptr i k s = do {
     (rsr, s) \<leftarrow> try_get (getSn_RX_RSR E sn) s;
     if i < rsr then
       case get_chip (WIZCHIP_READ E rx_ptr) s of (b, s) \<Rightarrow>
         if length submsg \<le> unat k then None
         else if b = submsg ! unat k then
           if k + 1 = subsize then Some (sint (i + 1 - (k + 1)), s)
           else peek_loop E sn submsg subsize (WIZCHIP_OFFSET_INC rx_ptr 1) (i + 1) (k + 1) s
         else peek_loop E sn submsg subsize (WIZCHIP_OFFSET_INC rx_ptr 1) (i + 1) 0 s
     else Some (- 1, s)
   }"

definition peeksockmsg :: "'w wizchip \<Rightarrow> u8 \<Rightarrow> u8 list \<Rightarrow> u16 \<Rightarrow> 'w net \<Rightarrow> (int \<times> 'w net) option" where
  "peeksockmsg E sn submsg subsize s = do {
     (rsr, s) \<leftarrow> try_get (getSn_RX_RSR E sn) s;
     if 0 < rsr \<and> 0 < subsize then do {
       let (rd, s) = get_chip (getSn_RX_RD E sn) s;
       peek_loop E sn submsg subsize (push_bit 8 (ucast rd) + WIZCHIP_RXBUF_BLOCK sn) 0 0 s
     } else Some (- 1, s)
   }"

end
