(* ===== verification/Socket_Spec.thy ===== *)
theory Socket_Spec
  imports Socket_Data
begin

text \<open>
  Properties of the socket layer that hold for every chip, whatever the callbacks do: no operation on
  a socket touches the bookkeeping of another, and the ephemeral ports stay in their range.
\<close>

section \<open>Isolation\<close>

definition port_range :: "'w net \<Rightarrow> bool" where
  "port_range s \<longleftrightarrow> 0xC000 \<le> sock_any_port s \<and> sock_any_port s < 0xFFF0"

definition others_kept :: "u8 \<Rightarrow> 'w net \<Rightarrow> 'w net \<Rightarrow> bool" where
  "others_kept sn s t \<longleftrightarrow>
     (port_range s \<longrightarrow> port_range t) \<and>
     length (sock_remained_size t) = length (sock_remained_size s) \<and> length (sock_pack_info t) = length (sock_pack_info s) \<and>
     (\<forall>j < 8. j \<noteq> unat sn \<longrightarrow>
        bit (sock_io_mode t) j = bit (sock_io_mode s) j \<and> bit (sock_is_sending t) j = bit (sock_is_sending s) j \<and>
        sock_remained_size t ! j = sock_remained_size s ! j \<and> sock_pack_info t ! j = sock_pack_info s ! j)"

lemma others_kept_refl [simp]: "others_kept sn s s"
  by (simp add: others_kept_def)

lemma others_kept_trans: "others_kept sn s t \<Longrightarrow> others_kept sn t u \<Longrightarrow> others_kept sn s u"
  by (auto simp: others_kept_def)

lemma others_kept_world [simp]: "others_kept sn s (t\<lparr>world := w\<rparr>) = others_kept sn s t"
  by (simp add: others_kept_def port_range_def)

lemma bit_sn_bit: "j < 8 \<Longrightarrow> j \<noteq> unat sn \<Longrightarrow> \<not> bit (sn_bit sn) j"
  by (simp add: sn_bit_def bit_push_bit_iff bit_1_iff del: push_bit_of_1)

lemma put_chip_kept [simp]: "others_kept sn s (put_chip f t) = others_kept sn s t"
  by (simp add: put_chip_def)

lemma put_chip_fields [simp]:
  "sock_any_port (put_chip f t) = sock_any_port t" "sock_io_mode (put_chip f t) = sock_io_mode t"
  "sock_is_sending (put_chip f t) = sock_is_sending t" "sock_remained_size (put_chip f t) = sock_remained_size t"
  "sock_pack_info (put_chip f t) = sock_pack_info t"
  by (simp_all add: put_chip_def)

lemma get_chip_kept: "get_chip f t = (v, u) \<Longrightarrow> others_kept sn s u = others_kept sn s t"
  by (auto simp: get_chip_def split: prod.splits)

lemmas kept_simps = others_kept_def port_range_def bit_and_iff bit_or_iff bit_not_iff bit_sn_bit

text \<open>Results that carry the new state as their last component.\<close>

abbreviation (input) keeps1 :: "u8 \<Rightarrow> 'w net \<Rightarrow> 'w net option \<Rightarrow> bool" where
  "keeps1 sn s m \<equiv> ensures (\<lambda>t. others_kept sn s t) m"
abbreviation (input) keeps2 :: "u8 \<Rightarrow> 'w net \<Rightarrow> ('a \<times> 'w net) option \<Rightarrow> bool" where
  "keeps2 sn s m \<equiv> ensures (\<lambda>(x, t). others_kept sn s t) m"
abbreviation (input) keeps3 :: "u8 \<Rightarrow> 'w net \<Rightarrow> ('a \<times> 'b \<times> 'w net) option \<Rightarrow> bool" where
  "keeps3 sn s m \<equiv> ensures (\<lambda>(x, y, t). others_kept sn s t) m"

lemma bind1: "keeps1 sn s m \<Longrightarrow> (\<And>t. others_kept sn s t \<Longrightarrow> ensures P (f t)) \<Longrightarrow> ensures P (m \<bind> f)"
  by (erule ensures_bind)

lemma bind2: "keeps2 sn s m \<Longrightarrow> (\<And>x t. others_kept sn s t \<Longrightarrow> ensures P (f x t)) \<Longrightarrow> ensures P (m \<bind> (\<lambda>(x, t). f x t))"
  by (erule ensures_bind) auto

lemma bind3: "keeps3 sn s m \<Longrightarrow> (\<And>x y t. others_kept sn s t \<Longrightarrow> ensures P (f x y t)) \<Longrightarrow> ensures P (m \<bind> (\<lambda>(x, y, t). f x y t))"
  by (erule ensures_bind) auto

lemma bind4: "ensures (\<lambda>(x, y, z, t). others_kept sn s t) m \<Longrightarrow> (\<And>x y z t. others_kept sn s t \<Longrightarrow> ensures P (f x y z t)) \<Longrightarrow>
    ensures P (m \<bind> (\<lambda>(x, y, z, t). f x y z t))"
  by (erule ensures_bind) auto

lemma chip_case: "others_kept sn s t \<Longrightarrow> (\<And>v u. others_kept sn s u \<Longrightarrow> ensures P (f v u)) \<Longrightarrow> ensures P (case get_chip g t of (v, u) \<Rightarrow> f v u)"
  using get_chip_kept [of g t _ _ sn s] by (auto split: prod.splits)

lemma try_kept:
  "others_kept sn s t \<Longrightarrow> keeps1 sn s (try_put f t)"
  "others_kept sn s t \<Longrightarrow> keeps2 sn s (try_get g t)"
  by (auto simp: ensures_def try_put_def try_get_def bind_eq_Some_conv)

lemma command_kept: "others_kept sn s t \<Longrightarrow> keeps1 sn s (command E m c t)"
  by (simp add: command_def try_kept)

lemma ensures_sum:
  "(\<And>a. x = Inl a \<Longrightarrow> ensures P (f a)) \<Longrightarrow> (\<And>b. x = Inr b \<Longrightarrow> ensures P (g b)) \<Longrightarrow> ensures P (case x of Inl a \<Rightarrow> f a | Inr b \<Rightarrow> g b)"
  by (cases x) simp_all

lemma ensures_list:
  "(x = [] \<Longrightarrow> ensures P m) \<Longrightarrow> (\<And>a as. x = a # as \<Longrightarrow> ensures P (f a as)) \<Longrightarrow> ensures P (case x of [] \<Rightarrow> m | a # as \<Rightarrow> f a as)"
  by (cases x) simp_all

lemmas flow_rules = ensures_Some ensures_None ensures_if ensures_option ensures_sum ensures_list
lemmas kept_binds = bind1 bind2 bind3 bind4 chip_case

lemma close_kept: "others_kept sn s t \<Longrightarrow> keeps2 sn s (close E sn t)"
  unfolding close_def Let_def
  by (intro flow_rules kept_binds [where sn = sn and s = s] command_kept try_kept) (simp_all add: kept_simps)

lemma check_protocol_kept: "others_kept sn s t \<Longrightarrow> keeps2 sn s (check_protocol E p t)"
  unfolding check_protocol_def Let_def
  by (intro flow_rules kept_binds [where sn = sn and s = s] command_kept try_kept) simp_all

lemma any_port_kept: "others_kept sn s t \<Longrightarrow> (\<And>q u. others_kept sn s u \<Longrightarrow> ensures P (f q u)) \<Longrightarrow> ensures P (case any_port port t of (q, u) \<Rightarrow> f q u)"
proof -
  assume k: "others_kept sn s t" and f: "\<And>q u. others_kept sn s u \<Longrightarrow> ensures P (f q u)"
  have "port_range (snd (any_port port t))" if "port_range t"
  proof -
    have "unat (sock_any_port t + 1) = unat (sock_any_port t) + 1"
      using that by (simp add: port_range_def word_less_nat_alt unat_word_ariths)
    with that show ?thesis
      by (auto simp: port_range_def any_port_def Let_def word_less_nat_alt word_le_nat_alt word_unat_eq_iff)
  qed
  with k have "others_kept sn s (snd (any_port port t))"
    by (auto simp: others_kept_def any_port_def Let_def)
  with f show ?thesis by (cases "any_port port t") auto
qed

lemma io_flag_kept: "j < 8 \<Longrightarrow> j \<noteq> unat sn \<Longrightarrow> \<not> bit (push_bit (unat sn) (ucast (flag AND 1 :: u8)) :: u16) j"
  by (auto simp: bit_push_bit_iff bit_and_iff bit_1_iff bit_unsigned_iff)

lemma socket_kept: "others_kept sn s t \<Longrightarrow> keeps2 sn s (socket E sn protocol port flag t)"
  unfolding socket_def Let_def
  by (intro flow_rules kept_binds [where sn = sn and s = s] any_port_kept [where sn = sn and s = s]
        command_kept try_kept check_protocol_kept close_kept) (simp_all add: kept_simps io_flag_kept)

lemma listen_kept: "others_kept sn s t \<Longrightarrow> keeps2 sn s (listen E sn t)"
  unfolding listen_def Let_def
  by (intro flow_rules kept_binds [where sn = sn and s = s] command_kept try_kept close_kept) simp_all

text \<open>A loop keeps what its body keeps.\<close>

lemma ensures_loop:
  "(\<And>y. m = Some y \<Longrightarrow> \<forall>s. others_kept sn s t \<longrightarrow> others_kept sn s (snd y)) \<Longrightarrow> others_kept sn s t \<Longrightarrow> keeps2 sn s m"
  by (auto simp: ensures_def)

lemma ensuresD: "m = Some y \<Longrightarrow> ensures P m \<Longrightarrow> P y"
  by (simp add: ensures_def)

lemma keeps2D: "m = Some y \<Longrightarrow> keeps2 sn s m \<Longrightarrow> others_kept sn s (snd y)"
  by (auto simp: ensures_def)

lemma connect_wait_result: "connect_wait E sn t = Some y \<Longrightarrow> \<forall>s. others_kept sn s t \<longrightarrow> others_kept sn s (snd y)"
proof (erule connect_wait.raw_induct [rotated], intro allI impI, goal_cases)
  case (1 f E sn t y s)
  then have f: "others_kept sn s t \<Longrightarrow> keeps2 sn s (f E sn t)" for t by (intro ensures_loop)
  show ?case
    by (rule keeps2D [OF 1(2)], intro flow_rules kept_binds [where sn = sn and s = s] f)
       (use 1(3) in \<open>simp_all add: kept_simps\<close>)
qed

lemma disconnect_wait_result: "disconnect_wait E sn t = Some y \<Longrightarrow> \<forall>s. others_kept sn s t \<longrightarrow> others_kept sn s (snd y)"
proof (erule disconnect_wait.raw_induct [rotated], intro allI impI, goal_cases)
  case (1 f E sn t y s)
  then have f: "others_kept sn s t \<Longrightarrow> keeps2 sn s (f E sn t)" for t by (intro ensures_loop)
  show ?case
    by (rule keeps2D [OF 1(2)], intro flow_rules kept_binds [where sn = sn and s = s] f close_kept)
       (use 1(3) in \<open>simp_all add: kept_simps\<close>)
qed

lemma send_room_result: "send_room E sn len t = Some y \<Longrightarrow> \<forall>s. others_kept sn s t \<longrightarrow> others_kept sn s (snd y)"
proof (erule send_room.raw_induct [rotated], intro allI impI, goal_cases)
  case (1 f E sn len t y s)
  then have f: "others_kept sn s t \<Longrightarrow> keeps2 sn s (f E sn len t)" for len t by (intro ensures_loop)
  show ?case
    by (rule keeps2D [OF 1(2)], intro flow_rules kept_binds [where sn = sn and s = s] f try_kept close_kept)
       (use 1(3) in \<open>simp_all add: kept_simps\<close>)
qed

lemma send_done_result: "send_done E sn t = Some y \<Longrightarrow> \<forall>s. others_kept sn s t \<longrightarrow> others_kept sn s (snd y)"
proof (erule send_done.raw_induct [rotated], intro allI impI, goal_cases)
  case (1 f E sn t y s)
  then have f: "others_kept sn s t \<Longrightarrow> keeps2 sn s (f E sn t)" for t by (intro ensures_loop)
  show ?case
    by (rule keeps2D [OF 1(2)], intro flow_rules kept_binds [where sn = sn and s = s] f close_kept)
       (use 1(3) in \<open>simp_all add: kept_simps\<close>)
qed

lemma recv_wait_result: "recv_wait E sn t = Some y \<Longrightarrow> \<forall>s. others_kept sn s t \<longrightarrow> others_kept sn s (snd y)"
proof (erule recv_wait.raw_induct [rotated], intro allI impI, goal_cases)
  case (1 f E sn t y s)
  then have f: "others_kept sn s t \<Longrightarrow> keeps2 sn s (f E sn t)" for t by (intro ensures_loop)
  show ?case
    by (rule keeps2D [OF 1(2)], intro flow_rules kept_binds [where sn = sn and s = s] f try_kept close_kept)
       (use 1(3) in \<open>simp_all add: kept_simps\<close>)
qed

lemma sendto_room_result: "sendto_room E sn len t = Some y \<Longrightarrow> \<forall>s. others_kept sn s t \<longrightarrow> others_kept sn s (snd y)"
proof (erule sendto_room.raw_induct [rotated], intro allI impI, goal_cases)
  case (1 f E sn len t y s)
  then have f: "others_kept sn s t \<Longrightarrow> keeps2 sn s (f E sn len t)" for len t by (intro ensures_loop)
  show ?case
    by (rule keeps2D [OF 1(2)], intro flow_rules kept_binds [where sn = sn and s = s] f try_kept)
       (use 1(3) in \<open>simp_all add: kept_simps\<close>)
qed

lemma sendto_done_result: "sendto_done E sn t = Some y \<Longrightarrow> \<forall>s. others_kept sn s t \<longrightarrow> others_kept sn s (snd y)"
proof (erule sendto_done.raw_induct [rotated], intro allI impI, goal_cases)
  case (1 f E sn t y s)
  then have f: "others_kept sn s t \<Longrightarrow> keeps2 sn s (f E sn t)" for t by (intro ensures_loop)
  show ?case
    by (rule keeps2D [OF 1(2)], intro flow_rules kept_binds [where sn = sn and s = s] f)
       (use 1(3) in \<open>simp_all add: kept_simps\<close>)
qed

lemma recvfrom_wait_result: "recvfrom_wait E sn t = Some y \<Longrightarrow> \<forall>s. others_kept sn s t \<longrightarrow> others_kept sn s (snd y)"
proof (erule recvfrom_wait.raw_induct [rotated], intro allI impI, goal_cases)
  case (1 f E sn t y s)
  then have f: "others_kept sn s t \<Longrightarrow> keeps2 sn s (f E sn t)" for t by (intro ensures_loop)
  show ?case
    by (rule keeps2D [OF 1(2)], intro flow_rules kept_binds [where sn = sn and s = s] f try_kept)
       (use 1(3) in \<open>simp_all add: kept_simps\<close>)
qed

lemma keepalive_wait_result: "keepalive_wait E sn t = Some y \<Longrightarrow> \<forall>s. others_kept sn s t \<longrightarrow> others_kept sn s (snd y)"
proof (erule keepalive_wait.raw_induct [rotated], intro allI impI, goal_cases)
  case (1 f E sn t y s)
  then have f: "others_kept sn s t \<Longrightarrow> keeps2 sn s (f E sn t)" for t by (intro ensures_loop)
  show ?case
    by (rule keeps2D [OF 1(2)], intro flow_rules kept_binds [where sn = sn and s = s] f)
       (use 1(3) in \<open>simp_all add: kept_simps\<close>)
qed

lemma peek_loop_result: "peek_loop E sn submsg subsize rx_ptr i k t = Some y \<Longrightarrow> \<forall>s. others_kept sn s t \<longrightarrow> others_kept sn s (snd y)"
proof (erule peek_loop.raw_induct [rotated], intro allI impI, goal_cases)
  case (1 f E sn submsg subsize rx_ptr i k t y s)
  then have f: "others_kept sn s t \<Longrightarrow> keeps2 sn s (f E sn submsg subsize rx_ptr i k t)" for submsg subsize rx_ptr i k t by (intro ensures_loop)
  show ?case
    by (rule keeps2D [OF 1(2)], intro flow_rules kept_binds [where sn = sn and s = s] f try_kept)
       (use 1(3) in \<open>simp_all add: kept_simps\<close>)
qed

lemma loops_keep:
  assumes "others_kept sn s t"
  shows "keeps2 sn s (connect_wait E sn t)"
    "keeps2 sn s (disconnect_wait E sn t)"
    "keeps2 sn s (send_room E sn len t)"
    "keeps2 sn s (send_done E sn t)"
    "keeps2 sn s (recv_wait E sn t)"
    "keeps2 sn s (sendto_room E sn len t)"
    "keeps2 sn s (sendto_done E sn t)"
    "keeps2 sn s (recvfrom_wait E sn t)"
    "keeps2 sn s (keepalive_wait E sn t)"
    "keeps2 sn s (peek_loop E sn submsg n ptr i k t)"
  using assms
  by (auto intro!: ensures_loop dest: connect_wait_result disconnect_wait_result send_room_result send_done_result recv_wait_result sendto_room_result sendto_done_result recvfrom_wait_result keepalive_wait_result peek_loop_result)

lemma connect_command_kept: "others_kept sn s t \<Longrightarrow> keeps2 sn s (connect_command E sn addr n t)"
  unfolding connect_command_def
  by (intro flow_rules kept_binds [where sn = sn and s = s] command_kept try_kept) simp_all

lemma connect_kept: "others_kept sn s t \<Longrightarrow> keeps2 sn s (connect_IO_6 E sn addr port n t)"
  unfolding connect_IO_6_def Let_def
  by (intro flow_rules kept_binds [where sn = sn and s = s] connect_command_kept loops_keep) simp_all

lemma disconnect_kept: "others_kept sn s t \<Longrightarrow> keeps2 sn s (disconnect E sn t)"
  unfolding disconnect_def Let_def
  by (intro flow_rules kept_binds [where sn = sn and s = s] command_kept loops_keep) (simp_all add: kept_simps)

lemma send_kept: "others_kept sn s t \<Longrightarrow> keeps2 sn s (send E sn b len t)"
  unfolding send_def Let_def
  by (intro flow_rules kept_binds [where sn = sn and s = s] command_kept try_kept loops_keep) (simp_all add: kept_simps)

lemma recv_kept: "others_kept sn s t \<Longrightarrow> keeps3 sn s (recv E sn b len t)"
  unfolding recv_def Let_def
  by (intro flow_rules kept_binds [where sn = sn and s = s] command_kept try_kept loops_keep) (simp_all add: kept_simps)

lemma sendto_dest_kept: "others_kept sn s t \<Longrightarrow> keeps2 sn s (sendto_dest E sn addr port n m t)"
  unfolding sendto_dest_def Let_def
  by (intro flow_rules kept_binds [where sn = sn and s = s] try_kept) (simp_all add: kept_simps)

lemma sendto_kept: "others_kept sn s t \<Longrightarrow> keeps2 sn s (sendto_IO_6 E sn b len addr port n t)"
  unfolding sendto_IO_6_def Let_def
  by (intro flow_rules kept_binds [where sn = sn and s = s] command_kept try_kept loops_keep sendto_dest_kept) (simp_all add: kept_simps)

lemma recv_part_kept: "others_kept sn s t \<Longrightarrow> keeps2 sn s (recv_part E sn p n t)"
  unfolding recv_part_def
  by (intro flow_rules kept_binds [where sn = sn and s = s] command_kept try_kept) simp_all

lemma recv_addr_kept: "others_kept sn s t \<Longrightarrow> keeps2 sn s (recv_addr E sn h addr out t)"
  unfolding recv_addr_def Let_def
  by (intro flow_rules kept_binds [where sn = sn and s = s] recv_part_kept) (simp_all add: kept_simps)

lemma recvfrom_mode_kept:
  "others_kept sn s t \<Longrightarrow> ensures (\<lambda>(x, y, z, u). others_kept sn s u) (recvfrom_mode E sn mr head k len out t)"
  unfolding recvfrom_mode_def Let_def
  by (intro flow_rules kept_binds [where sn = sn and s = s] recv_addr_kept try_kept close_kept)
     (simp_all add: kept_simps)

lemma recvfrom_port_kept: "others_kept sn s t \<Longrightarrow> keeps3 sn s (recvfrom_port E sn out t)"
  unfolding recvfrom_port_def
  by (intro flow_rules kept_binds [where sn = sn and s = s] recv_part_kept) simp_all

lemma recvfrom_kept: "others_kept sn s t \<Longrightarrow> keeps3 sn s (recvfrom_IO_6 E sn len out t)"
  unfolding recvfrom_IO_6_def Let_def
  by (intro flow_rules kept_binds [where sn = sn and s = s] recv_part_kept recvfrom_mode_kept recvfrom_port_kept loops_keep)
     (simp_all add: kept_simps)

lemma ok_kept: "others_kept sn s (snd p) \<Longrightarrow> keeps3 sn s (ok8 arg p)"
  "others_kept sn s (snd q) \<Longrightarrow> keeps3 sn s (ok16 arg q)"
  by (auto simp: ok8_def ok16_def ensures_def bind_eq_Some_conv)

lemma get_chip_kept' [simp]: "others_kept sn s (snd (get_chip f t)) = others_kept sn s t"
  using get_chip_kept [of f t] by (metis prod.collapse)

lemma ctlsocket_kept: "others_kept sn s t \<Longrightarrow> keeps3 sn s (ctlsocket E sn c arg t)"
  unfolding ctlsocket_def
  by (cases c; simp only: ctlsock_type.case;
      intro flow_rules ok_kept ensures_bind [OF ensures_any, where m = "arg8 arg"]; (simp; fail | simp add: kept_simps))

lemma setsockopt_kept: "others_kept sn s t \<Longrightarrow> keeps2 sn s (setsockopt E sn c arg t)"
  unfolding setsockopt_def
  by (cases c; simp only: sockopt_type.case;
      intro flow_rules kept_binds [where sn = sn and s = s] ensures_bind [OF ensures_any, where m = "arg8 arg"]
        ensures_bind [OF ensures_any, where m = "arg16 arg"] try_kept loops_keep; simp)

lemma getsockopt_kept: "others_kept sn s t \<Longrightarrow> keeps3 sn s (getsockopt E sn c arg t)"
  unfolding getsockopt_def if_tcp_def Let_def
  by (cases c; simp only: sockopt_type.case;
      intro flow_rules ensures_bind [OF try_kept(2) [where sn = sn and s = s]] kept_binds [where sn = sn and s = s] try_kept ok_kept
        ensures_bind [OF ensures_any, where m = "put8 a arg" for a]; simp add: case_prod_beta)

lemma peeksockmsg_kept: "others_kept sn s t \<Longrightarrow> keeps2 sn s (peeksockmsg E sn msg n t)"
  unfolding peeksockmsg_def Let_def
  by (intro flow_rules kept_binds [where sn = sn and s = s] try_kept loops_keep) simp_all

section \<open>Sequences of calls\<close>

text \<open>Any call of the interface on socket \<open>sn\<close> that returns, whatever it returns, or a change of the chip.\<close>

inductive sock_step :: "'w wizchip \<Rightarrow> u8 \<Rightarrow> 'w net \<Rightarrow> 'w net \<Rightarrow> bool" for E :: "'w wizchip" and sn :: u8 where
  chip_moves: "sock_step E sn s (s\<lparr>world := w\<rparr>)"
| call_socket: "socket E sn protocol port flag s = Some (r, t) \<Longrightarrow> sock_step E sn s t"
| call_close: "close E sn s = Some (r, t) \<Longrightarrow> sock_step E sn s t"
| call_listen: "listen E sn s = Some (r, t) \<Longrightarrow> sock_step E sn s t"
| call_connect: "connect_IO_6 E sn addr port n s = Some (r, t) \<Longrightarrow> sock_step E sn s t"
| call_disconnect: "disconnect E sn s = Some (r, t) \<Longrightarrow> sock_step E sn s t"
| call_send: "send E sn b len s = Some (r, t) \<Longrightarrow> sock_step E sn s t"
| call_recv: "recv E sn b len s = Some (r, b', t) \<Longrightarrow> sock_step E sn s t"
| call_sendto: "sendto_IO_6 E sn b len addr port n s = Some (r, t) \<Longrightarrow> sock_step E sn s t"
| call_recvfrom: "recvfrom_IO_6 E sn len out s = Some (r, out', t) \<Longrightarrow> sock_step E sn s t"
| call_ctlsocket: "ctlsocket E sn cs arg s = Some (r, arg', t) \<Longrightarrow> sock_step E sn s t"
| call_setsockopt: "setsockopt E sn so arg s = Some (r, t) \<Longrightarrow> sock_step E sn s t"
| call_getsockopt: "getsockopt E sn so arg s = Some (r, arg', t) \<Longrightarrow> sock_step E sn s t"
| call_peeksockmsg: "peeksockmsg E sn msg k s = Some (r, t) \<Longrightarrow> sock_step E sn s t"

lemma call_keeps:
  "keeps2 sn s m2 \<Longrightarrow> m2 = Some (x, t) \<Longrightarrow> others_kept sn s t"
  "keeps3 sn s m3 \<Longrightarrow> m3 = Some (y, z, t) \<Longrightarrow> others_kept sn s t"
  by (simp_all add: ensures_def)

lemma step_keeps_others: "sock_step E sn s t \<Longrightarrow> others_kept sn s t"
  by (induction rule: sock_step.induct)
     (simp, (rule call_keeps [rotated], assumption,
       rule socket_kept close_kept listen_kept connect_kept disconnect_kept send_kept recv_kept sendto_kept recvfrom_kept
         ctlsocket_kept setsockopt_kept getsockopt_kept peeksockmsg_kept, rule others_kept_refl)+)

text \<open>The bookkeeping of one socket.\<close>

definition sock_view :: "u8 \<Rightarrow> 'w net \<Rightarrow> bool \<times> bool \<times> u16 \<times> u8" where
  "sock_view sn s = (bit (sock_io_mode s) (unat sn), bit (sock_is_sending s) (unat sn),
     sock_remained_size s ! unat sn, sock_pack_info s ! unat sn)"

text \<open>
  C17. Sockets are isolated: no sequence of calls on other sockets, whatever the chip does in between
  and whatever the calls return, changes what the driver has noted about socket \<open>sn\<close> (its blocking
  mode, whether a transmission is running, the rest of a packet and the packet information).
\<close>

theorem sockets_isolated:
  assumes "sn < 8" "(\<lambda>s t. \<exists>m. m \<noteq> sn \<and> sock_step E m s t)\<^sup>*\<^sup>* s t"
  shows "sock_view sn t = sock_view sn s"
  using assms(2)
proof (induction rule: rtranclp_induct)
  case (step t u)
  then obtain m where "m \<noteq> sn" "others_kept m t u" using step_keeps_others by blast
  moreover have "unat sn < 8" using assms(1) by (simp add: word_less_nat_alt)
  moreover have "unat sn \<noteq> unat m" using \<open>m \<noteq> sn\<close> by (simp add: word_unat_eq_iff)
  ultimately have "sock_view sn u = sock_view sn t" by (simp add: sock_view_def others_kept_def)
  with step.IH show ?case by simp
qed simp

text \<open>
  C18. However the interface is used, the driver's variables stay well-formed: the two arrays have an
  entry for each of the eight sockets, and the port that \<^verbatim>\<open>socket\<close> hands out for port number zero lies
  in the ephemeral range 0xC000 to 0xFFEF and is not the one that it hands out next.
\<close>

theorem sockets_welltyped:
  assumes "(\<lambda>s t. \<exists>m. sock_step E m s t)\<^sup>*\<^sup>* (net_start w) s" "any_port 0 s = (p, t)"
  shows "length (sock_remained_size s) = 8 \<and> length (sock_pack_info s) = 8 \<and>
    0xC000 \<le> p \<and> p < 0xFFF0 \<and> sock_any_port t \<noteq> p"
proof -
  have "port_range (net_start w) \<and> length (sock_remained_size (net_start w)) = 8 \<and> length (sock_pack_info (net_start w)) = 8"
    by (simp add: port_range_def net_start_def)
  with assms(1) have "port_range s \<and> length (sock_remained_size s) = 8 \<and> length (sock_pack_info s) = 8"
    by (induction rule: rtranclp_induct) (auto dest: step_keeps_others simp: others_kept_def)
  with assms(2) show ?thesis by (auto simp: any_port_def Let_def port_range_def split: if_splits)
qed

theorem sockets_isolated_witness:
  "sock_view 1 (the (map_option (snd \<circ> snd) (ctlsocket wizchip_default 2 CS_SET_IOMODE [1] (net_start ())))) = sock_view 1 (net_start ())"
proof -
  have c: "ctlsocket wizchip_default 2 CS_SET_IOMODE [1] (net_start ()) = Some (1, [1], (net_start ())\<lparr>sock_io_mode := 4\<rparr>)"
    by (simp add: ctlsocket_def arg8_def net_start_def sn_bit_def)
  have "sock_step wizchip_default 2 (net_start ()) ((net_start ())\<lparr>sock_io_mode := 4\<rparr>)"
    by (rule call_ctlsocket [OF c])
  then have "(\<lambda>s t. \<exists>m. m \<noteq> 1 \<and> sock_step wizchip_default m s t)\<^sup>*\<^sup>* (net_start ()) ((net_start ())\<lparr>sock_io_mode := 4\<rparr>)"
    by (intro r_into_rtranclp exI [of _ 2]) simp
  from sockets_isolated [OF _ this] c show ?thesis by simp
qed

theorem sockets_welltyped_witness:
  "fst (any_port 0 (net_start ())) = 0xC000 \<and> sock_any_port (snd (any_port 0 (net_start ()))) \<noteq> (0xC000 :: u16)"
  using sockets_welltyped [of wizchip_default "()" "net_start ()" "fst (any_port 0 (net_start ()))" "snd (any_port 0 (net_start ()))"]
  by (simp add: any_port_def net_start_def)

section \<open>Blocking mode\<close>

lemma try_put_mode: "ensures (\<lambda>t. sock_io_mode t = sock_io_mode s) (try_put f s)"
  by (auto simp: ensures_def try_put_def bind_eq_Some_conv)

lemma protocol_error: "ensures (\<lambda>(err, t). \<forall>e. err = Some e \<longrightarrow> e < 0) (check_protocol E protocol s)"
  unfolding check_protocol_def Let_def
  by (rule ensures_Some ensures_if ensures_prod ensures_bind [OF ensures_any] | simp)+

lemma io_flag_bit: "bit (push_bit (unat sn) (ucast (flag AND 1 :: u8)) :: u16) (unat sn) \<longleftrightarrow> unat sn < 16 \<and> bit flag 0"
  by (auto simp: bit_push_bit_iff bit_and_iff bit_unsigned_iff)

end
