(* ===== verification/Chip_Model.thy ===== *)
theory Chip_Model
  imports Socket_Spec
begin

text \<open>
  What the driver does on a chip whose registers and buffers are readable memory. The reaction of the
  chip to a write is a parameter of the callbacks defined here, and of every theorem with the
  documented behaviour that it needs as a hypothesis.
\<close>

section \<open>The callbacks of a chip with memory\<close>

text \<open>A block of the chip and an offset in it; writes carry their flag in bit 5 of the block byte.\<close>

type_synonym chip_mem = "u8 \<Rightarrow> u16 \<Rightarrow> u8"
type_synonym reaction = "u8 \<Rightarrow> u16 \<Rightarrow> u8 list \<Rightarrow> chip_mem \<Rightarrow> chip_mem"

definition mem_bytes :: "chip_mem \<Rightarrow> u8 \<Rightarrow> u16 \<Rightarrow> nat \<Rightarrow> u8 list" where
  "mem_bytes m b a n = map (\<lambda>i. m b (a + word_of_nat i)) [0 ..< n]"

definition mem_store :: "u8 \<Rightarrow> u16 \<Rightarrow> u8 list \<Rightarrow> chip_mem \<Rightarrow> chip_mem" where
  "mem_store b a bs m = (\<lambda>b' x. if b' = b \<and> unat (x - a) < length bs then bs ! unat (x - a) else m b' x)"

definition ram_chip :: "reaction \<Rightarrow> chip_mem wizchip" where
  "ram_chip react = \<lparr>cris_enter = id, cris_exit = id, cs_select = id, cs_deselect = id,
     read_qspi = (\<lambda>b a old m. (mem_bytes m b a (length old), m)),
     write_qspi = (\<lambda>b a bs m. react (b AND 0xDF) a bs m)\<rparr>"

text \<open>The block bytes of a socket.\<close>

definition sreg :: "u8 \<Rightarrow> u8" where "sreg sn = 1 + 4 * sn"
definition txbuf :: "u8 \<Rightarrow> u8" where "txbuf sn = 2 + 4 * sn"
definition rxbuf :: "u8 \<Rightarrow> u8" where "rxbuf sn = 3 + 4 * sn"

section \<open>Addresses\<close>

lemma hi_lo: "push_bit 8 (ucast (ucast (drop_bit 8 p) :: u8)) + ucast (ucast p :: u8) = (p :: u16)"
proof -
  have "push_bit 8 (ucast (ucast (drop_bit 8 p) :: u8)) + ucast (ucast p :: u8) =
      (push_bit 8 (ucast (ucast (drop_bit 8 p) :: u8)) OR ucast (ucast p :: u8) :: u16)"
    by (rule disjunctive_add) (auto simp: bit_push_bit_iff bit_unsigned_iff dest: bit_imp_le_length)
  also have "\<dots> = p"
    by (rule bit_eqI) (auto simp: bit_push_bit_iff bit_or_iff bit_unsigned_iff bit_drop_bit_eq not_less)
  finally show ?thesis .
qed

lemma address_parts:
  fixes c :: u8 and a :: u16
  shows "ucast ((push_bit 8 (ucast a) + ucast c :: u32) AND 0x000000FF) = c"
    "ucast (drop_bit 8 ((push_bit 8 (ucast a) + ucast c :: u32) AND 0x00ffff00)) = a"
proof -
  have m1: "bit (0xFF :: u32) n \<longleftrightarrow> n < 8" for n
  proof -
    have "(0xFF :: u32) = mask 8" by (simp add: mask_eq_exp_minus_1)
    then show ?thesis by (simp only: bit_mask_iff) auto
  qed
  have m2: "bit (0x00ffff00 :: u32) n \<longleftrightarrow> 8 \<le> n \<and> n < 24" for n
  proof -
    have "(0x00ffff00 :: u32) = push_bit 8 (mask 16)" by (simp add: mask_eq_exp_minus_1)
    then show ?thesis by (simp only: bit_push_bit_iff bit_mask_iff) auto
  qed
  have d: "push_bit 8 (ucast a) + ucast c = (push_bit 8 (ucast a) OR ucast c :: u32)"
    by (rule disjunctive_add) (auto simp: bit_push_bit_iff bit_unsigned_iff dest: bit_imp_le_length)
  show "ucast ((push_bit 8 (ucast a) + ucast c :: u32) AND 0x000000FF) = c"
  proof -
    have "(push_bit 8 (ucast a) + ucast c) AND 0x000000FF = (ucast c :: u32)"
      unfolding d by (rule bit_eqI) (auto simp: bit_unsigned_iff bit_and_iff bit_or_iff bit_push_bit_iff m1 simp del: bit_numeral_word_iff dest: bit_imp_le_length)
    then show ?thesis by (simp only:) (rule bit_eqI, auto simp: bit_unsigned_iff dest: bit_imp_le_length)
  qed
  show "ucast (drop_bit 8 ((push_bit 8 (ucast a) + ucast c :: u32) AND 0x00ffff00)) = a"
  proof -
    have "(push_bit 8 (ucast a) + ucast c) AND 0x00ffff00 = (push_bit 8 (ucast a) :: u32)"
      unfolding d
      by (rule bit_eqI)
         (auto simp: bit_unsigned_iff bit_and_iff bit_or_iff bit_push_bit_iff m2 simp del: bit_numeral_word_iff dest: bit_imp_le_length)
    then show ?thesis
      by (simp only:) (rule bit_eqI, auto simp: bit_unsigned_iff bit_push_bit_iff bit_drop_bit_eq dest: bit_imp_le_length)
  qed
qed

definition chip_addr :: "u8 \<Rightarrow> u16 \<Rightarrow> u32" where
  "chip_addr b a = push_bit 8 (ucast a) + ucast b"

lemma chip_addr_inc [simp]:
  "WIZCHIP_OFFSET_INC (chip_addr b 0x204) 1 = chip_addr b 0x205" "WIZCHIP_OFFSET_INC (chip_addr b 0x20C) 1 = chip_addr b 0x20D"
  "WIZCHIP_OFFSET_INC (chip_addr b 0x224) 1 = chip_addr b 0x225" "WIZCHIP_OFFSET_INC (chip_addr b 0x228) 1 = chip_addr b 0x229"
  by (simp_all add: WIZCHIP_OFFSET_INC_def chip_addr_def)

lemma ram_read: "WIZCHIP_READ (ram_chip react) (chip_addr b a) m = (m b a, m)"
  unfolding WIZCHIP_READ_def chip_addr_def address_parts
  by (simp add: ram_chip_def fill_def mem_bytes_def)

lemma ram_read_buf: "WIZCHIP_READ_BUF (ram_chip react) (chip_addr b a) p m = (mem_bytes m b a (length p), m)"
  unfolding WIZCHIP_READ_BUF_def chip_addr_def address_parts
  by (simp add: ram_chip_def fill_def mem_bytes_def)

lemma ram_write: "(b OR 0x20) AND 0xDF = b \<Longrightarrow> WIZCHIP_WRITE (ram_chip react) (chip_addr b a) v m = react b a [v] m"
  unfolding WIZCHIP_WRITE_def chip_addr_def address_parts by (simp add: ram_chip_def)

lemma ram_write_buf:
  "(b OR 0x20) AND 0xDF = b \<Longrightarrow> WIZCHIP_WRITE_BUF (ram_chip react) (chip_addr b a) p m = react b a p m"
  unfolding WIZCHIP_WRITE_BUF_def chip_addr_def address_parts by (simp add: ram_chip_def)

lemma sn_cases:
  assumes "sn < (8 :: u8)"
  obtains "sn = 0" | "sn = 1" | "sn = 2" | "sn = 3" | "sn = 4" | "sn = 5" | "sn = 6" | "sn = 7"
proof -
  have "unat sn < 8" using assms by (simp add: word_less_nat_alt)
  then have "unat sn = 0 \<or> unat sn = 1 \<or> unat sn = 2 \<or> unat sn = 3 \<or> unat sn = 4 \<or> unat sn = 5 \<or> unat sn = 6 \<or> unat sn = 7"
    by presburger
  then show ?thesis using that by (simp add: word_unat_eq_iff) metis
qed

lemma block_flag:
  assumes "sn < 8"
  shows "(sreg sn OR 0x20) AND 0xDF = sreg sn" "(txbuf sn OR 0x20) AND 0xDF = txbuf sn"
    "sreg sn \<noteq> rxbuf sn" "rxbuf sn \<noteq> sreg sn" "txbuf sn \<noteq> sreg sn"
  by (rule sn_cases [OF assms]; simp add: sreg_def txbuf_def rxbuf_def)+

lemma blocks:
  assumes "sn < 8"
  shows "WIZCHIP_SREG_BLOCK sn = ucast (sreg sn)" "WIZCHIP_TXBUF_BLOCK sn = ucast (txbuf sn)"
    "WIZCHIP_RXBUF_BLOCK sn = ucast (rxbuf sn)"
  by (rule sn_cases [OF assms]; simp add: WIZCHIP_SREG_BLOCK_def WIZCHIP_TXBUF_BLOCK_def WIZCHIP_RXBUF_BLOCK_def
      sreg_def txbuf_def rxbuf_def)+

lemma reg_addrs:
  assumes "sn < 8"
  shows "Sn_MR_reg sn = chip_addr (sreg sn) 0" "Sn_CR_reg sn = chip_addr (sreg sn) 0x10"
    "Sn_IR_reg sn = chip_addr (sreg sn) 0x20" "Sn_IRCLR_reg sn = chip_addr (sreg sn) 0x28"
    "Sn_SR_reg sn = chip_addr (sreg sn) 0x30"
    "Sn_TX_BSR_reg sn = chip_addr (sreg sn) 0x200" "Sn_RX_BSR_reg sn = chip_addr (sreg sn) 0x220"
    "Sn_TX_FSR_reg sn = chip_addr (sreg sn) 0x204"
    "Sn_TX_WR_reg sn = chip_addr (sreg sn) 0x20C"
    "Sn_RX_RSR_reg sn = chip_addr (sreg sn) 0x224"
    "Sn_RX_RD_reg sn = chip_addr (sreg sn) 0x228"
  by (simp_all add: chip_addr_def blocks [OF assms] WIZCHIP_OFFSET_INC_def Sn_MR_reg_def Sn_CR_reg_def Sn_IR_reg_def
      Sn_IRCLR_reg_def Sn_SR_reg_def Sn_TX_BSR_reg_def Sn_RX_BSR_reg_def Sn_TX_FSR_reg_def Sn_TX_WR_reg_def
      Sn_RX_RSR_reg_def Sn_RX_RD_reg_def)

lemma dest_regs:
  "sn < 8 \<Longrightarrow> Sn_DIPR_reg sn = chip_addr (sreg sn) 0x120" "sn < 8 \<Longrightarrow> Sn_DPORTR_reg sn = chip_addr (sreg sn) 0x140"
  "WIZCHIP_OFFSET_INC (chip_addr b 0x140) 1 = chip_addr b 0x141"
  by (simp_all add: Sn_DIPR_reg_def Sn_DPORTR_reg_def chip_addr_def blocks WIZCHIP_OFFSET_INC_def)

section \<open>Registers and waiting on this chip\<close>

text \<open>The value that a 16-bit register holds, and what a loop on registers that do not change does.\<close>

definition mem16 :: "chip_mem \<Rightarrow> u8 \<Rightarrow> u16 \<Rightarrow> u16" where
  "mem16 m b a = push_bit 8 (ucast (m b a)) + ucast (m b (a + 1))"

lemma ram_get:
  assumes "sn < 8"
  shows "getSn_MR (ram_chip react) sn m = (m (sreg sn) 0, m)"
    "getSn_CR (ram_chip react) sn m = (m (sreg sn) 0x10, m)"
    "getSn_IR (ram_chip react) sn m = (m (sreg sn) 0x20, m)"
    "getSn_SR (ram_chip react) sn m = (m (sreg sn) 0x30, m)"
    "getSn_TxMAX (ram_chip react) sn m = (push_bit 10 (ucast (m (sreg sn) 0x200)), m)"
    "getSn_RxMAX (ram_chip react) sn m = (push_bit 10 (ucast (m (sreg sn) 0x220)), m)"
    "getSn_TX_WR (ram_chip react) sn m = (mem16 m (sreg sn) 0x20C, m)"
    "getSn_RX_RD (ram_chip react) sn m = (mem16 m (sreg sn) 0x228, m)"
    "read16 (ram_chip react) (Sn_TX_FSR_reg sn) m = (mem16 m (sreg sn) 0x204, m)"
    "read16 (ram_chip react) (Sn_RX_RSR_reg sn) m = (mem16 m (sreg sn) 0x224, m)"
  by (simp_all add: getSn_MR_def getSn_CR_def getSn_IR_def getSn_SR_def getSn_TxMAX_def getSn_RxMAX_def getSn_TX_BSR_def
      getSn_RX_BSR_def getSn_TX_WR_def getSn_RX_RD_def read16_def reg_addrs [OF assms] ram_read mem16_def del: push_bit_eq_mult)

lemma ram_set:
  assumes "sn < 8"
  shows "setSn_CR (ram_chip react) sn v m = react (sreg sn) 0x10 [v] m"
    "setSn_IR (ram_chip react) sn v m = react (sreg sn) 0x28 [v] m"
    "setSn_TX_WR (ram_chip react) sn p m =
       react (sreg sn) 0x20D [ucast p] (react (sreg sn) 0x20C [ucast (drop_bit 8 p)] m)"
    "setSn_RX_RD (ram_chip react) sn p m =
       react (sreg sn) 0x229 [ucast p] (react (sreg sn) 0x228 [ucast (drop_bit 8 p)] m)"
  by (simp_all add: setSn_CR_def setSn_IR_def setSn_IRCLR_def setSn_TX_WR_def setSn_RX_RD_def write16_def
      reg_addrs [OF assms] ram_write block_flag [OF assms])

lemma ram_stable:
  "rd = (\<lambda>m. (f m, m)) \<Longrightarrow> stable_read rd v m = Some (f m, m)"
  by (subst stable_read.simps, simp, subst stable_read.simps, simp)

lemma ram_sizes:
  assumes "sn < 8"
  shows "getSn_TX_FSR (ram_chip react) sn m = Some (mem16 m (sreg sn) 0x204, m)"
    "getSn_RX_RSR (ram_chip react) sn m = Some (mem16 m (sreg sn) 0x224, m)"
  unfolding getSn_TX_FSR_def getSn_RX_RSR_def
  by (rule ram_stable, rule ext, rule ram_get [OF assms])+

lemma ram_wait: "rd m = (v, m) \<Longrightarrow> \<not> c v \<Longrightarrow> wait_while rd c m = Some m"
  by (subst wait_while.simps) simp

section \<open>A socket on which nothing arrives\<close>

text \<open>An open UDP socket that has received nothing and has room for a message.\<close>

definition unanswered :: "u8 \<Rightarrow> chip_mem \<Rightarrow> bool" where
  "unanswered sn m \<longleftrightarrow> m (sreg sn) 0 = Sn_MR_UDP \<and> m (sreg sn) 0x30 = SOCK_UDP \<and> mem16 m (sreg sn) 0x224 = 0 \<and>
     548 \<le> mem16 m (sreg sn) 0x204"

text \<open>
  The documented behaviour of such a socket when nobody answers: it stays as it is when a destination, a
  datagram, a send pointer or cleared interrupts are written, and the datagram is reported as sent.
\<close>

definition unanswered_contract :: "reaction \<Rightarrow> u8 \<Rightarrow> bool" where
  "unanswered_contract react sn \<longleftrightarrow>
     (\<forall>m. unanswered sn m \<longrightarrow>
        (\<forall>a bs. unanswered sn (react (txbuf sn) a bs m)) \<and>
        (\<forall>a bs. a \<in> {0x28, 0x120, 0x140, 0x141, 0x20C, 0x20D} \<longrightarrow> unanswered sn (react (sreg sn) a bs m)) \<and>
        (let m' = react (sreg sn) 0x10 [Sn_CR_SEND] m in
           unanswered sn m' \<and> m' (sreg sn) 0x10 = 0 \<and> m' (sreg sn) 0x20 AND Sn_IR_SENDOK \<noteq> 0))"

lemma sendto_unanswered:
  assumes "sn < 8" "unanswered_contract react sn" "unanswered sn (world s)" "4 \<le> length addr" "port \<noteq> 0"
    "len \<le> 548" "unat len \<le> length b"
  shows "\<exists>(n :: u16) m. sendto_W6x00 (ram_chip react) sn b len addr port 4 s = Some (uint n, s\<lparr>world := m\<rparr>) \<and> unanswered sn m"
proof -
  let ?E = "ram_chip react"
  have keep: "unanswered sn (react (sreg sn) a bs m)" if "unanswered sn m" "a \<in> {0x28, 0x120, 0x140, 0x141, 0x20C, 0x20D}" for a bs m
    using assms(2) that unfolding unanswered_contract_def by blast
  have buf: "unanswered sn (react (txbuf sn) a bs m)" if "unanswered sn m" for a bs m
    using assms(2) that unfolding unanswered_contract_def by blast
  define m2 where "m2 = react (sreg sn) 0x141 [ucast port] (react (sreg sn) 0x140 [ucast (drop_bit 8 port)]
      (react (sreg sn) 0x120 (take 4 addr) (world s)))"
  have m2: "unanswered sn m2" unfolding m2_def by (intro keep assms(3)) simp_all
  have mr: "get_chip (getSn_MR ?E sn) s = (2, s)"
    using assms(3) by (simp add: get_chip_def ram_get [OF assms(1)] unanswered_def)
  have dest: "sendto_dest ?E sn addr port 4 2 s = Some (Inr Sn_CR_SEND, s\<lparr>world := m2\<rparr>)"
    using assms(4,5)
    by (simp add: sendto_dest_def try_put_def put_chip_def setSn_DIPR_def setSn_DPORTR_def write_bytes_def write16_def
        dest_regs(1,2) [OF assms(1)] dest_regs(3) ram_write ram_write_buf block_flag [OF assms(1)] m2_def)
  define mx :: u16 where "mx = push_bit 10 (ucast (m2 (sreg sn) 0x200))"
  define n where "n = (if mx < len then mx else len)"
  have max: "get_chip (getSn_TxMAX ?E sn) (s\<lparr>world := m2\<rparr>) = (mx, s\<lparr>world := m2\<rparr>)"
    by (simp add: get_chip_def ram_get [OF assms(1)] mx_def)
  have n: "n \<le> len" by (auto simp: n_def)
  have fsr: "n \<le> mem16 m2 (sreg sn) 0x204"
    using m2 n assms(6) unfolding unanswered_def by (meson order_trans)
  have room: "sendto_room ?E sn n (s\<lparr>world := m2\<rparr>) = Some (None, s\<lparr>world := m2\<rparr>)"
    using m2 fsr by (subst sendto_room.simps)
      (simp add: try_get_def get_chip_def ram_sizes [OF assms(1)] ram_get [OF assms(1)] unanswered_def leD)
  have nb: "unat n \<le> length b" using n assms(7) by (simp add: word_le_nat_alt)
  define m3 where "m3 = (let q = mem16 m2 (sreg sn) 0x20C; m = react (txbuf sn) q (take (unat n) b) m2 in
      react (sreg sn) 0x20D [ucast (q + n)] (react (sreg sn) 0x20C [ucast (drop_bit 8 (q + n))] m))"
  have m3: "unanswered sn m3" unfolding m3_def Let_def by (intro keep buf m2) simp_all
  have a: "push_bit 8 (ucast q) + WIZCHIP_TXBUF_BLOCK sn = chip_addr (txbuf sn) q" for q
    by (simp add: chip_addr_def blocks [OF assms(1)])
  have data: "try_put (wiz_send_data ?E sn b n) (s\<lparr>world := m2\<rparr>) = Some (s\<lparr>world := m3\<rparr>)"
    using nb by (simp add: try_put_def wiz_send_data_def ram_get [OF assms(1)] ram_set [OF assms(1)] a write_bytes_def
        ram_write_buf block_flag [OF assms(1)] Let_def m3_def)
  define m4 where "m4 = react (sreg sn) 0x10 [Sn_CR_SEND] m3"
  have m4: "unanswered sn m4" "m4 (sreg sn) 0x10 = 0" "m4 (sreg sn) 0x20 AND Sn_IR_SENDOK \<noteq> 0"
    using assms(2) m3 by (auto simp: unanswered_contract_def m4_def Let_def)
  define m5 where "m5 = react (sreg sn) 0x28 [Sn_IR_SENDOK] m4"
  have m5: "unanswered sn m5" unfolding m5_def by (intro keep m4) simp
  have cmd: "command ?E sn Sn_CR_SEND (s\<lparr>world := m3\<rparr>) = Some (s\<lparr>world := m4\<rparr>)"
    using ram_wait [of "getSn_CR ?E sn" m4 0 "\<lambda>v. v \<noteq> 0"] m4(2)
    by (simp add: command_def try_put_def ram_set [OF assms(1)] ram_get [OF assms(1)] flip: m4_def)
  have sent: "sendto_done ?E sn (s\<lparr>world := m4\<rparr>) = Some (True, s\<lparr>world := m5\<rparr>)"
    using m4(3) by (subst sendto_done.simps) (simp add: get_chip_def put_chip_def ram_get [OF assms(1)] ram_set [OF assms(1)] m5_def)
  have "\<not> 8 \<le> sn" using assms(1) by (simp add: not_le)
  then have "sendto_W6x00 ?E sn b len addr port 4 s = Some (uint n, s\<lparr>world := m5\<rparr>)"
    unfolding sendto_W6x00_def sendto_IO_6_def Let_def mr prod.case dest bind.bind_lunit sum.case max
    by (simp add: room data cmd sent flip: n_def)
  with m5 show ?thesis by blast
qed

text \<open>A concrete chip that behaves so: whatever is written, its memory stays as it is.\<close>

definition quiet_mem :: chip_mem where
  "quiet_mem = (\<lambda>b a. if b = 1 then (if a = 0 then 2 else if a = 0x30 then 0x22 else if a = 0x20 then 0x10
     else if a = 0x204 then 0x10 else 0) else 0)"

definition quiet_net :: "chip_mem net" where
  "quiet_net = net_start quiet_mem"

lemma quiet_unanswered: "unanswered 0 quiet_mem" "unanswered_contract (\<lambda>_ _ _ _. quiet_mem) 0"
  by (simp_all add: unanswered_def unanswered_contract_def quiet_mem_def sreg_def mem16_def)

end
