(* ===== verification/Socket_Rx.thy ===== *)
theory Socket_Rx
  imports Chip_Model
begin

text \<open>
  Receiving and sending on a chip with memory: what \<^verbatim>\<open>recvfrom\<close> and \<^verbatim>\<open>send\<close> transfer, and where they
  lose track of the stream.
\<close>

section \<open>The receive buffer\<close>

text \<open>
  The documented behaviour of the receive side: the read pointer is a register that holds what is
  written to it, and the command RECV, once processed, has changed neither the pointer nor the mode
  nor the buffer's contents.
\<close>

definition rx_contract :: "reaction \<Rightarrow> u8 \<Rightarrow> bool" where
  "rx_contract react sn \<longleftrightarrow>
     (\<forall>m v. react (sreg sn) 0x228 [v] m = m(sreg sn := (m (sreg sn))(0x228 := v))) \<and>
     (\<forall>m v. react (sreg sn) 0x229 [v] m = m(sreg sn := (m (sreg sn))(0x229 := v))) \<and>
     (\<forall>m. let m' = react (sreg sn) 0x10 [Sn_CR_RECV] m in
        m' (rxbuf sn) = m (rxbuf sn) \<and> m' (sreg sn) 0x10 = 0 \<and> m' (sreg sn) 0 = m (sreg sn) 0 \<and>
        m' (sreg sn) 0x228 = m (sreg sn) 0x228 \<and> m' (sreg sn) 0x229 = m (sreg sn) 0x229)"

text \<open>A chip that still has the mode and the received bytes of \<open>m0\<close>, with its read pointer at \<open>p\<close>.\<close>

definition rx_at :: "u8 \<Rightarrow> chip_mem \<Rightarrow> u16 \<Rightarrow> chip_mem \<Rightarrow> bool" where
  "rx_at sn m0 p m \<longleftrightarrow> m (rxbuf sn) = m0 (rxbuf sn) \<and> m (sreg sn) 0 = m0 (sreg sn) 0 \<and> mem16 m (sreg sn) 0x228 = p"

lemma recv_data_at:
  assumes "sn < 8" "rx_contract react sn" "rx_at sn m0 p m" "unat n \<le> length b"
  shows "\<exists>m'. rx_at sn m0 (p + n) m' \<and>
    wiz_recv_data (ram_chip react) sn b n m = Some (mem_bytes m0 (rxbuf sn) p (unat n) @ drop (unat n) b, m')"
proof (cases "n = 0")
  case True
  with assms(3) show ?thesis by (auto simp: wiz_recv_data_def mem_bytes_def)
next
  case False
  have p: "mem16 m (sreg sn) 0x228 = p" using assms(3) by (simp add: rx_at_def)
  have a: "push_bit 8 (ucast p) + WIZCHIP_RXBUF_BLOCK sn = chip_addr (rxbuf sn) p"
    by (simp add: chip_addr_def blocks [OF assms(1)])
  define m' where "m' = setSn_RX_RD (ram_chip react) sn (p + n) m"
  have "m' = m(sreg sn := (m (sreg sn))(0x228 := ucast (drop_bit 8 (p + n)), 0x229 := ucast (p + n)))"
    using assms(2) by (auto simp: m'_def ram_set [OF assms(1)] rx_contract_def fun_eq_iff)
  then have "rx_at sn m0 (p + n) m'"
    using assms(3) by (simp add: rx_at_def mem16_def hi_lo block_flag [OF assms(1)])
  moreover have "mem_bytes m (rxbuf sn) p k = mem_bytes m0 (rxbuf sn) p k" for k
    using assms(3) by (simp add: rx_at_def mem_bytes_def)
  ultimately show ?thesis
    using False assms(4)
    by (simp add: wiz_recv_data_def ram_get [OF assms(1)] p a read_bytes_def ram_read_buf min_absorb2 flip: m'_def)
qed

lemma recv_part_at:
  assumes "sn < 8" "rx_contract react sn" "rx_at sn m0 p (world s)" "unat n \<le> length b"
  shows "\<exists>m'. rx_at sn m0 (p + n) m' \<and>
    recv_part (ram_chip react) sn b n s = Some (mem_bytes m0 (rxbuf sn) p (unat n) @ drop (unat n) b, s\<lparr>world := m'\<rparr>)"
proof -
  obtain m1 where m1: "rx_at sn m0 (p + n) m1"
      "wiz_recv_data (ram_chip react) sn b n (world s) = Some (mem_bytes m0 (rxbuf sn) p (unat n) @ drop (unat n) b, m1)"
    using recv_data_at [OF assms] by blast
  define m2 where "m2 = react (sreg sn) 0x10 [Sn_CR_RECV] m1"
  have "rx_at sn m0 (p + n) m2" "m2 (sreg sn) 0x10 = 0"
    using assms(2) m1(1) by (simp_all add: rx_contract_def rx_at_def mem16_def m2_def Let_def)
  moreover from this(2) have "wait_while (getSn_CR (ram_chip react) sn) (\<lambda>v. v \<noteq> 0) m2 = Some m2"
    by (intro ram_wait [where v = 0]) (simp_all add: ram_get [OF assms(1)])
  ultimately show ?thesis
    by (simp add: recv_part_def try_get_def command_def try_put_def m1(2) ram_set [OF assms(1)] flip: m2_def) blast
qed

section \<open>Datagrams\<close>

text \<open>
  The datagram whose packet information starts at \<open>p\<close> in the receive buffer: two bytes of flags and
  length, four bytes of address, two of port, then the data.
\<close>

definition packet_length :: "chip_mem \<Rightarrow> u8 \<Rightarrow> u16 \<Rightarrow> u16" where
  "packet_length m b p = push_bit 8 (ucast (m b p AND 0x07)) + ucast (m b (p + 1))"

definition packet_port :: "chip_mem \<Rightarrow> u8 \<Rightarrow> u16 \<Rightarrow> u16" where
  "packet_port m b p = push_bit 8 (ucast (m b (p + 6))) + ucast (m b (p + 7))"

definition packet_ipv4 :: "chip_mem \<Rightarrow> u8 \<Rightarrow> u16 \<Rightarrow> bool" where
  "packet_ipv4 m b p \<longleftrightarrow> m b p AND 0xF8 AND PACK_IPv6 = 0"

lemma udp_mode:
  assumes "mr AND 0x0F = (0x02 :: u8)"
  shows "mr AND 0x07 = 0x02" "mr AND 0x03 = 0x02"
proof -
  have "mr AND 0x07 = (mr AND 0x0F) AND 0x07" "mr AND 0x03 = (mr AND 0x0F) AND 0x03"
    by (simp_all add: and.assoc)
  then show "mr AND 0x07 = 0x02" "mr AND 0x03 = 0x02" unfolding assms by simp_all
qed

text \<open>From the packet information on, \<^verbatim>\<open>recvfrom\<close> of a UDP socket, whatever is left of an earlier packet.\<close>

lemma recvfrom_from_header:
  assumes "sn < 8" "rx_contract react sn" "m = world s" "m (sreg sn) 0 AND 0x0F = Sn_MR_UDP" "len \<noteq> 0"
    "length (sock_remained_size s) = 8" "length (sock_pack_info s) = 8"
    "p = mem16 m (sreg sn) 0x228" "packet_ipv4 m (rxbuf sn) p"
    "rx_addr out = Some a" "4 \<le> length a" "rx_port out = Some q"
    "k = min len (packet_length m (rxbuf sn) p)" "unat k \<le> length (rx_buf out)"
    "sock_remained_size s ! unat sn \<noteq> 0 \<or> m (sreg sn) 0x30 \<noteq> SOCK_CLOSED \<and> mem16 m (sreg sn) 0x224 \<noteq> 0"
  shows "\<exists>s'. recvfrom_IO_6 (ram_chip react) sn len out s = Some (uint k,
      \<lparr>rx_buf = mem_bytes m (rxbuf sn) (p + 8) (unat k) @ drop (unat k) (rx_buf out),
       rx_addr = Some (mem_bytes m (rxbuf sn) (p + 2) 4 @ drop 4 a),
       rx_port = Some (packet_port m (rxbuf sn) p), rx_addrlen = 4\<rparr>, s') \<and>
     mem16 (world s') (sreg sn) 0x228 = p + 8 + k \<and> world s' (rxbuf sn) = m (rxbuf sn) \<and> world s' (sreg sn) 0 = m (sreg sn) 0 \<and>
     sock_remained_size s' ! unat sn = packet_length m (rxbuf sn) p - k"
proof -
  let ?E = "ram_chip react" and ?b = "rxbuf sn"
  have s8: "\<not> 8 \<le> sn" using assms(1) by (simp add: not_le)
  have sn: "unat sn < 8" using assms(1) by (simp add: word_less_nat_alt)
  obtain s1 where s1: "(if sock_remained_size s ! unat sn = 0 then recvfrom_wait ?E sn s else Some (None, s)) = Some (None, s1)"
      "world s1 = m" "length (sock_remained_size s1) = 8" "length (sock_pack_info s1) = 8"
  proof (cases "sock_remained_size s ! unat sn = 0")
    case True
    with assms(3,15) have "recvfrom_wait ?E sn s = Some (None, s\<lparr>sock_pack_info := (sock_pack_info s)[unat sn := PACK_NONE]\<rparr>)"
      by (subst recvfrom_wait.simps) (simp add: try_get_def get_chip_def ram_sizes [OF assms(1)] ram_get [OF assms(1)])
    with True assms(3,6,7) show ?thesis
      using that [of "s\<lparr>sock_pack_info := (sock_pack_info s)[unat sn := PACK_NONE]\<rparr>"] by simp
  qed (use that [of s] assms(3,6,7) in simp)
  have r0: "rx_at sn m p (world s1)" using s1(2) assms(8) by (simp add: rx_at_def)
  obtain m2 where m2: "rx_at sn m (p + 2) m2"
      "recv_part ?E sn (replicate 8 0) 2 s1 = Some (mem_bytes m ?b p 2 @ replicate 6 0, s1\<lparr>world := m2\<rparr>)"
    using recv_part_at [OF assms(1,2) r0, of 2 "replicate 8 0"] by auto
  let ?head = "mem_bytes m ?b p 2 @ replicate 6 0" and ?n = "packet_length m ?b p"
  have h: "?head ! 0 = m ?b p" "?head ! 1 = m ?b (p + 1)" by (simp_all add: mem_bytes_def nth_append)
  define s2 where "s2 = s1\<lparr>world := m2, sock_pack_info := (sock_pack_info s1)[unat sn := m ?b p AND 0xF8]\<rparr>"
  obtain m3 where m3: "rx_at sn m (p + 2 + 4) m3"
      "recv_part ?E sn a 4 s2 = Some (mem_bytes m ?b (p + 2) 4 @ drop 4 a, s2\<lparr>world := m3\<rparr>)"
    using recv_part_at [OF assms(1,2), of m "p + 2" s2 4 a] m2(1) assms(11) by (auto simp: s2_def)
  define out1 where "out1 = out\<lparr>rx_addr := Some (mem_bytes m ?b (p + 2) 4 @ drop 4 a), rx_addrlen := 4\<rparr>"
  define t3 where "t3 = s2\<lparr>world := m3\<rparr>"
  have mode: "recvfrom_mode ?E sn (m (sreg sn) 0) ?head ?n len out (s1\<lparr>world := m2\<rparr>) =
      Some (None, ?n, out1, t3)"
    using m3(2) assms(9) unfolding t3_def s2_def
    by (simp add: recvfrom_mode_def recv_addr_def udp_mode [OF assms(4)] assms(10) h packet_ipv4_def out1_def)
  define s3 where "s3 = t3\<lparr>sock_remained_size := (sock_remained_size t3)[unat sn := ?n],
      sock_pack_info := (sock_pack_info t3)[unat sn := sock_pack_info t3 ! unat sn OR PACK_FIRST]\<rparr>"
  obtain m4 where m4: "rx_at sn m (p + 2 + 4 + 2) m4"
      "recv_part ?E sn (replicate 8 0) 2 s3 = Some (mem_bytes m ?b (p + 2 + 4) 2 @ replicate 6 0, s3\<lparr>world := m4\<rparr>)"
    using recv_part_at [OF assms(1,2), of m "p + 2 + 4" s3 2 "replicate 8 0"] m3(1) by (auto simp: s3_def t3_def)
  define out2 where "out2 = out1\<lparr>rx_port := Some (packet_port m ?b p)\<rparr>"
  have "world s3 (sreg sn) 0 = m (sreg sn) 0" using m3(1) by (simp add: s3_def t3_def rx_at_def)
  moreover have "(mem_bytes m ?b (p + 2 + 4) 2 @ replicate 6 0) ! 0 = m ?b (p + 6)"
      "(mem_bytes m ?b (p + 2 + 4) 2 @ replicate 6 0) ! 1 = m ?b (p + 7)"
    by (simp_all add: mem_bytes_def nth_append ac_simps)
  ultimately have port: "recvfrom_port ?E sn out1 s3 = Some (True, out2, s3\<lparr>world := m4\<rparr>)"
    using m4(2) assms(12)
    by (simp add: recvfrom_port_def get_chip_def ram_get [OF assms(1)] udp_mode [OF assms(4)] out1_def out2_def
        packet_port_def)
  obtain m5 where m5: "rx_at sn m (p + 8 + k) m5"
      "recv_part ?E sn (rx_buf out) k (s3\<lparr>world := m4\<rparr>) =
         Some (mem_bytes m ?b (p + 8) (unat k) @ drop (unat k) (rx_buf out), s3\<lparr>world := m5\<rparr>)"
    using recv_part_at [OF assms(1,2), of m "p + 8" "s3\<lparr>world := m4\<rparr>" k "rx_buf out"] m4(1) assms(14)
    by (auto simp: add.assoc)
  have n: "push_bit 8 (ucast (?head ! 0 AND 0x07)) + ucast (?head ! 1) = ?n" by (simp only: h packet_length_def)
  have r: "sock_remained_size s3 ! unat sn = ?n" using s1(3) sn by (simp add: s3_def t3_def s2_def)
  have k: "(if len < ?n then len else sock_remained_size (s3\<lparr>world := m4\<rparr>) ! unat sn) = k"
    using assms(13) r by (auto simp: min_def)
  define s4 where "s4 = s3\<lparr>world := m5, sock_remained_size := (sock_remained_size s3)[unat sn := ?n - k],
      sock_pack_info := (sock_pack_info s3)[unat sn := sock_pack_info s3 ! unat sn OR
        (if ?n - k \<noteq> 0 then PACK_REMAINED else PACK_COMPLETED)]\<rparr>"
  have g: "get_chip (getSn_MR ?E sn) s = (m (sreg sn) 0, s)"
    using assms(3) by (simp add: get_chip_def ram_get [OF assms(1)])
  have b: "rx_buf out2 = rx_buf out" by (simp add: out2_def out1_def)
  have "recvfrom_IO_6 ?E sn len out s =
      Some (uint k, out2\<lparr>rx_buf := mem_bytes m ?b (p + 8) (unat k) @ drop (unat k) (rx_buf out)\<rparr>, s4)"
    unfolding recvfrom_IO_6_def Let_def g prod.case s1(1) bind.bind_lunit option.case m2(2) n mode s3_def [symmetric]
    using assms(4,5) m5(2) s8 b by (simp add: port r k s4_def split del: if_split)
  moreover have "mem16 (world s4) (sreg sn) 0x228 = p + 8 + k \<and> world s4 ?b = m ?b \<and> world s4 (sreg sn) 0 = m (sreg sn) 0"
    using m5(1) by (simp add: s4_def rx_at_def)
  moreover have "sock_remained_size s4 ! unat sn = ?n - k" using s1(3) sn by (simp add: s4_def s3_def t3_def s2_def)
  ultimately show ?thesis by (auto simp: out2_def out1_def assms(12))
qed

text \<open>
  C19. A datagram that waits in the receive buffer of a UDP socket is delivered as it stands there:
  \<^verbatim>\<open>recvfrom\<close> returns the sender's four address bytes and port, its first \<open>len\<close> data bytes (all of
  them when it is shorter) and their number, leaves the rest of the caller's buffer alone, moves the
  read pointer behind what it took and remembers how many bytes are left.
\<close>

theorem recvfrom_delivers_datagram:
  assumes "sn < 8" "rx_contract react sn" "m = world s" "m (sreg sn) 0 AND 0x0F = Sn_MR_UDP" "len \<noteq> 0"
    "length (sock_remained_size s) = 8" "length (sock_pack_info s) = 8" "sock_remained_size s ! unat sn = 0"
    "m (sreg sn) 0x30 \<noteq> SOCK_CLOSED" "mem16 m (sreg sn) 0x224 \<noteq> 0"
    "p = mem16 m (sreg sn) 0x228" "packet_ipv4 m (rxbuf sn) p"
    "rx_addr out = Some a" "4 \<le> length a" "rx_port out = Some q"
    "k = min len (packet_length m (rxbuf sn) p)" "unat k \<le> length (rx_buf out)"
  shows "\<exists>s'. recvfrom_IO_6 (ram_chip react) sn len out s = Some (uint k,
      \<lparr>rx_buf = mem_bytes m (rxbuf sn) (p + 8) (unat k) @ drop (unat k) (rx_buf out),
       rx_addr = Some (mem_bytes m (rxbuf sn) (p + 2) 4 @ drop 4 a),
       rx_port = Some (packet_port m (rxbuf sn) p), rx_addrlen = 4\<rparr>, s') \<and>
     mem16 (world s') (sreg sn) 0x228 = p + 8 + k \<and>
     sock_remained_size s' ! unat sn = packet_length m (rxbuf sn) p - k"
  using recvfrom_from_header [OF assms(1-7,11-17)] assms(8-10) by blast

text \<open>
  A datagram read in two calls is not continued: the second call takes the next two bytes of the
  data that is left for a packet header, six more for an address and a port, and reports a length
  and data accordingly, although \<^verbatim>\<open>sock_remained_size\<close> says how many bytes are still to come.
\<close>

theorem recvfrom_misparses_rest:
  assumes "sn < 8" "rx_contract react sn" "m = world s" "m (sreg sn) 0 AND 0x0F = Sn_MR_UDP" "len \<noteq> 0"
    "length (sock_remained_size s) = 8" "length (sock_pack_info s) = 8" "sock_remained_size s ! unat sn \<noteq> 0"
    "p = mem16 m (sreg sn) 0x228" "packet_ipv4 m (rxbuf sn) p"
    "rx_addr out = Some a" "4 \<le> length a" "rx_port out = Some q"
    "k = min len (packet_length m (rxbuf sn) p)" "unat k \<le> length (rx_buf out)"
  shows "\<exists>s'. recvfrom_IO_6 (ram_chip react) sn len out s = Some (uint k,
      \<lparr>rx_buf = mem_bytes m (rxbuf sn) (p + 8) (unat k) @ drop (unat k) (rx_buf out),
       rx_addr = Some (mem_bytes m (rxbuf sn) (p + 2) 4 @ drop 4 a),
       rx_port = Some (packet_port m (rxbuf sn) p), rx_addrlen = 4\<rparr>, s')"
  using recvfrom_from_header [OF assms(1-7,9-15)] assms(8) by blast

section \<open>Sending on a stream\<close>

text \<open>
  The documented behaviour of the send side: the buffer and the write pointer hold what is written to
  them, and neither the command SEND, once processed, nor clearing the interrupt SENDOK has changed them.
\<close>

definition tx_contract :: "reaction \<Rightarrow> u8 \<Rightarrow> bool" where
  "tx_contract react sn \<longleftrightarrow>
     (\<forall>m a bs. react (txbuf sn) a bs m = mem_store (txbuf sn) a bs m) \<and>
     (\<forall>m v. react (sreg sn) 0x20C [v] m = m(sreg sn := (m (sreg sn))(0x20C := v))) \<and>
     (\<forall>m v. react (sreg sn) 0x20D [v] m = m(sreg sn := (m (sreg sn))(0x20D := v))) \<and>
     (\<forall>m. let m' = react (sreg sn) 0x10 [Sn_CR_SEND] m in
        m' (txbuf sn) = m (txbuf sn) \<and> m' (sreg sn) 0x10 = 0 \<and>
        m' (sreg sn) 0x20C = m (sreg sn) 0x20C \<and> m' (sreg sn) 0x20D = m (sreg sn) 0x20D) \<and>
     (\<forall>m. let m' = react (sreg sn) 0x28 [Sn_IR_SENDOK] m in
        m' (txbuf sn) = m (txbuf sn) \<and>
        m' (sreg sn) 0x20C = m (sreg sn) 0x20C \<and> m' (sreg sn) 0x20D = m (sreg sn) 0x20D)"

lemma mem_bytes_store:
  assumes "length bs \<le> 65536"
  shows "mem_bytes (mem_store b a bs m) b a (length bs) = bs"
proof (rule nth_equalityI)
  fix i assume "i < length (mem_bytes (mem_store b a bs m) b a (length bs))"
  then have i: "i < length bs" by (simp add: mem_bytes_def)
  with assms have "unat (word_of_nat i :: u16) = i" by (simp add: unat_of_nat)
  with i show "mem_bytes (mem_store b a bs m) b a (length bs) ! i = bs ! i" by (simp add: mem_bytes_def mem_store_def)
qed (simp add: mem_bytes_def)

lemma send_data_at:
  assumes "sn < 8" "tx_contract react sn" "p = mem16 m (sreg sn) 0x20C" "unat n \<le> length b"
  shows "\<exists>m'. wiz_send_data (ram_chip react) sn b n m = Some m' \<and> mem16 m' (sreg sn) 0x20C = p + n \<and>
    mem_bytes m' (txbuf sn) p (unat n) = take (unat n) b \<and> (\<forall>x. x \<noteq> 0x20C \<longrightarrow> x \<noteq> 0x20D \<longrightarrow> m' (sreg sn) x = m (sreg sn) x)"
proof -
  have a: "push_bit 8 (ucast p) + WIZCHIP_TXBUF_BLOCK sn = chip_addr (txbuf sn) p"
    by (simp add: chip_addr_def blocks [OF assms(1)])
  define m1 where "m1 = mem_store (txbuf sn) p (take (unat n) b) m"
  define m2 where "m2 = m1(sreg sn := (m1 (sreg sn))(0x20C := ucast (drop_bit 8 (p + n)), 0x20D := ucast (p + n)))"
  have "setSn_TX_WR (ram_chip react) sn (p + n) m1 = m2"
    using assms(2) by (auto simp: ram_set [OF assms(1)] tx_contract_def m2_def fun_eq_iff)
  then have "wiz_send_data (ram_chip react) sn b n m = Some m2"
    using assms(2,4)
    by (simp add: wiz_send_data_def ram_get [OF assms(1)] a write_bytes_def ram_write_buf block_flag [OF assms(1)]
        tx_contract_def m1_def flip: assms(3))
  moreover have "mem16 m2 (sreg sn) 0x20C = p + n" by (simp add: m2_def mem16_def hi_lo)
  moreover have "mem_bytes m2 (txbuf sn) p (unat n) = take (unat n) b"
  proof -
    have "mem_bytes m2 (txbuf sn) p (unat n) = mem_bytes m1 (txbuf sn) p (unat n)"
      by (simp add: m2_def mem_bytes_def block_flag [OF assms(1)])
    also have "\<dots> = take (unat n) b"
      using mem_bytes_store [of "take (unat n) b" "txbuf sn" p m] assms(4) less_imp_le [OF unat_u16_less [of n]]
      by (simp add: m1_def min_absorb2)
    finally show ?thesis .
  qed
  moreover have "m1 (sreg sn) = m (sreg sn)" using block_flag [OF assms(1)] by (auto simp: m1_def mem_store_def fun_eq_iff)
  ultimately show ?thesis by (auto simp: m2_def)
qed

text \<open>Up to the copy into the send buffer, on an established connection with room for the data.\<close>

lemma send_upto_copy:
  assumes "sn < 8" "tx_contract react sn" "m = world s" "m (sreg sn) 0x30 = SOCK_ESTABLISHED"
    "k = min len (push_bit 10 (ucast (m (sreg sn) 0x200)))" "k \<le> mem16 m (sreg sn) 0x204"
    "p = mem16 m (sreg sn) 0x20C" "unat k \<le> length b"
  shows "\<exists>m'. mem16 m' (sreg sn) 0x20C = p + k \<and> mem_bytes m' (txbuf sn) p (unat k) = take (unat k) b \<and>
    (\<forall>x. x \<noteq> 0x20C \<longrightarrow> x \<noteq> 0x20D \<longrightarrow> m' (sreg sn) x = m (sreg sn) x) \<and>
    send (ram_chip react) sn b len s = do {
      (r, s) \<leftarrow> (if sock_is_sending s AND sn_bit sn \<noteq> 0 then send_done (ram_chip react) sn (s\<lparr>world := m'\<rparr>)
        else Some (None, s\<lparr>world := m'\<rparr>));
      case r of Some e \<Rightarrow> Some (e, s)
      | None \<Rightarrow> do {
          s \<leftarrow> command (ram_chip react) sn Sn_CR_SEND s;
          Some (uint k, s\<lparr>sock_is_sending := sock_is_sending s OR sn_bit sn\<rparr>)
        }
    }"
proof -
  obtain m' where m': "wiz_send_data (ram_chip react) sn b k m = Some m'" "mem16 m' (sreg sn) 0x20C = p + k"
      "mem_bytes m' (txbuf sn) p (unat k) = take (unat k) b"
      "\<forall>x. x \<noteq> 0x20C \<longrightarrow> x \<noteq> 0x20D \<longrightarrow> m' (sreg sn) x = m (sreg sn) x"
    using send_data_at [OF assms(1,2,7,8)] by blast
  have sn: "\<not> 31 \<le> sn" using assms(1) by unat_arith
  have room: "send_room (ram_chip react) sn k s = Some (None, s)"
    using assms(3,4,6) sn
    by (subst send_room.simps)
       (simp add: try_get_def get_chip_def ram_sizes [OF assms(1)] ram_get [OF assms(1)] not_less)
  have k: "(if push_bit 10 (ucast (m (sreg sn) 0x200)) < len then push_bit 10 (ucast (m (sreg sn) 0x200)) else len) = k"
    using assms(5) by (auto simp: min_def)
  have max: "get_chip (getSn_TxMAX (ram_chip react) sn) s = (push_bit 10 (ucast (m (sreg sn) 0x200)), s)"
    using assms(3) by (simp add: get_chip_def ram_get [OF assms(1)])
  have "send (ram_chip react) sn b len s = do {
      (r, s) \<leftarrow> (if sock_is_sending s AND sn_bit sn \<noteq> 0 then send_done (ram_chip react) sn (s\<lparr>world := m'\<rparr>)
        else Some (None, s\<lparr>world := m'\<rparr>));
      case r of Some e \<Rightarrow> Some (e, s)
      | None \<Rightarrow> do {
          s \<leftarrow> command (ram_chip react) sn Sn_CR_SEND s;
          Some (uint k, s\<lparr>sock_is_sending := sock_is_sending s OR sn_bit sn\<rparr>)
        }
    }"
    unfolding send_def max prod.case Let_def k room bind.bind_lunit option.case
    by (simp add: try_put_def m'(1) flip: assms(3))
  with m' show ?thesis by blast
qed

lemma send_command:
  assumes "sn < 8" "tx_contract react sn" "mem16 (world s) (sreg sn) 0x20C = q"
    "mem_bytes (world s) (txbuf sn) p n = bs"
  shows "\<exists>m. command (ram_chip react) sn Sn_CR_SEND s = Some (s\<lparr>world := m\<rparr>) \<and>
    mem_bytes m (txbuf sn) p n = bs \<and> mem16 m (sreg sn) 0x20C = q"
proof -
  define m where "m = react (sreg sn) 0x10 [Sn_CR_SEND] (world s)"
  have c: "m (sreg sn) 0x10 = 0" "mem16 m (sreg sn) 0x20C = q" "mem_bytes m (txbuf sn) p n = bs"
    using assms(2-4) by (simp_all add: tx_contract_def m_def Let_def mem16_def mem_bytes_def)
  then have "command (ram_chip react) sn Sn_CR_SEND s = Some (s\<lparr>world := m\<rparr>)"
    using ram_wait [of "getSn_CR (ram_chip react) sn" m 0 "\<lambda>v. v \<noteq> 0"]
    by (simp add: command_def try_put_def ram_set [OF assms(1)] ram_get [OF assms(1)] flip: m_def)
  with c show ?thesis by blast
qed

lemma send_established:
  assumes "sn < 8" "tx_contract react sn" "m = world s" "m (sreg sn) 0x30 = SOCK_ESTABLISHED"
    "k = min len (push_bit 10 (ucast (m (sreg sn) 0x200)))" "k \<le> mem16 m (sreg sn) 0x204"
    "p = mem16 m (sreg sn) 0x20C" "unat k \<le> length b"
    "sock_is_sending s AND sn_bit sn = 0 \<or> m (sreg sn) 0x20 AND Sn_IR_SENDOK \<noteq> 0"
  shows "\<exists>s'. send (ram_chip react) sn b len s = Some (uint k, s') \<and>
    mem_bytes (world s') (txbuf sn) p (unat k) = take (unat k) b \<and> mem16 (world s') (sreg sn) 0x20C = p + k \<and>
    sock_is_sending s' = sock_is_sending s OR sn_bit sn"
proof -
  obtain m' where m': "mem16 m' (sreg sn) 0x20C = p + k" "mem_bytes m' (txbuf sn) p (unat k) = take (unat k) b"
      "\<forall>x. x \<noteq> 0x20C \<longrightarrow> x \<noteq> 0x20D \<longrightarrow> m' (sreg sn) x = m (sreg sn) x"
      "send (ram_chip react) sn b len s = do {
        (r, s) \<leftarrow> (if sock_is_sending s AND sn_bit sn \<noteq> 0 then send_done (ram_chip react) sn (s\<lparr>world := m'\<rparr>)
          else Some (None, s\<lparr>world := m'\<rparr>));
        case r of Some e \<Rightarrow> Some (e, s)
        | None \<Rightarrow> do {
            s \<leftarrow> command (ram_chip react) sn Sn_CR_SEND s;
            Some (uint k, s\<lparr>sock_is_sending := sock_is_sending s OR sn_bit sn\<rparr>)
          }
      }"
    using send_upto_copy [OF assms(1-8)] by blast
  define m2 where "m2 = (if sock_is_sending s AND sn_bit sn \<noteq> 0 then react (sreg sn) 0x28 [Sn_IR_SENDOK] m' else m')"
  have m2: "mem16 m2 (sreg sn) 0x20C = p + k" "mem_bytes m2 (txbuf sn) p (unat k) = take (unat k) b"
    using assms(2) m'(1,2) by (simp_all add: tx_contract_def m2_def Let_def mem16_def mem_bytes_def)
  have "(if sock_is_sending s AND sn_bit sn \<noteq> 0 then send_done (ram_chip react) sn (s\<lparr>world := m'\<rparr>)
      else Some (None, s\<lparr>world := m'\<rparr>)) = Some (None, s\<lparr>world := m2\<rparr>)"
    using m'(3) assms(9)
    by (subst send_done.simps)
       (auto simp: m2_def get_chip_def put_chip_def ram_get [OF assms(1)] ram_set [OF assms(1)])
  moreover obtain m3 where "command (ram_chip react) sn Sn_CR_SEND (s\<lparr>world := m2\<rparr>) = Some (s\<lparr>world := m3\<rparr>)"
      "mem_bytes m3 (txbuf sn) p (unat k) = take (unat k) b" "mem16 m3 (sreg sn) 0x20C = p + k"
    using send_command [OF assms(1,2), of "s\<lparr>world := m2\<rparr>" "p + k" p "unat k" "take (unat k) b"] m2 by auto
  ultimately show ?thesis using m'(4) by simp
qed

lemma send_still_busy:
  assumes "sn < 8" "tx_contract react sn" "m = world s" "m (sreg sn) 0x30 = SOCK_ESTABLISHED"
    "k = min len (push_bit 10 (ucast (m (sreg sn) 0x200)))" "k \<le> mem16 m (sreg sn) 0x204"
    "p = mem16 m (sreg sn) 0x20C" "unat k \<le> length b" "sock_is_sending s AND sn_bit sn \<noteq> 0"
    "sock_io_mode s AND sn_bit sn \<noteq> 0" "m (sreg sn) 0x20 AND Sn_IR_SENDOK = 0"
  shows "\<exists>s'. send (ram_chip react) sn b len s = Some (SOCK_BUSY, s') \<and>
    mem_bytes (world s') (txbuf sn) p (unat k) = take (unat k) b \<and> mem16 (world s') (sreg sn) 0x20C = p + k"
proof -
  obtain m' where m': "mem16 m' (sreg sn) 0x20C = p + k" "mem_bytes m' (txbuf sn) p (unat k) = take (unat k) b"
      "\<forall>x. x \<noteq> 0x20C \<longrightarrow> x \<noteq> 0x20D \<longrightarrow> m' (sreg sn) x = m (sreg sn) x"
      "send (ram_chip react) sn b len s = do {
        (r, s) \<leftarrow> send_done (ram_chip react) sn (s\<lparr>world := m'\<rparr>);
        case r of Some e \<Rightarrow> Some (e, s)
        | None \<Rightarrow> do {
            s \<leftarrow> command (ram_chip react) sn Sn_CR_SEND s;
            Some (uint k, s\<lparr>sock_is_sending := sock_is_sending s OR sn_bit sn\<rparr>)
          }
      }"
    using send_upto_copy [OF assms(1-8)] assms(9) by auto
  have "send_done (ram_chip react) sn (s\<lparr>world := m'\<rparr>) = Some (Some SOCK_BUSY, s\<lparr>world := m'\<rparr>)"
    using m'(3) assms(4,10,11) by (subst send_done.simps) (simp add: get_chip_def ram_get [OF assms(1)])
  with m'(1,2,4) show ?thesis by simp
qed

text \<open>Without room for the data a non-blocking socket gives up before anything is copied.\<close>

lemma send_no_room:
  assumes "sn < 8" "m = world s" "m (sreg sn) 0x30 = SOCK_ESTABLISHED"
    "k = min len (push_bit 10 (ucast (m (sreg sn) 0x200)))" "mem16 m (sreg sn) 0x204 < k" "sock_io_mode s AND sn_bit sn \<noteq> 0"
  shows "send (ram_chip react) sn b len s = Some (SOCK_BUSY, s)"
proof -
  have sn: "\<not> 31 \<le> sn" using assms(1) by unat_arith
  have "send_room (ram_chip react) sn k s = Some (Some SOCK_BUSY, s)"
    using assms(2,3,5,6) sn
    by (subst send_room.simps)
       (simp add: try_get_def get_chip_def ram_sizes [OF assms(1)] ram_get [OF assms(1)] not_less)
  moreover have "(if push_bit 10 (ucast (m (sreg sn) 0x200)) < len then push_bit 10 (ucast (m (sreg sn) 0x200)) else len) = k"
    using assms(4) by (auto simp: min_def)
  moreover have "get_chip (getSn_TxMAX (ram_chip react) sn) s = (push_bit 10 (ucast (m (sreg sn) 0x200)), s)"
    using assms(2) by (simp add: get_chip_def ram_get [OF assms(1)])
  ultimately show ?thesis by (simp add: send_def)
qed

text \<open>
  C27. What a non-blocking \<^verbatim>\<open>send\<close> does on an established connection, for the bytes that the send buffer can
  hold. Without room for them it returns \<^verbatim>\<open>SOCK_BUSY\<close> and has changed nothing. With room it has copied them
  behind the write pointer and moved the pointer in any case, and then returns their number if no previous
  transmission is unfinished, but \<^verbatim>\<open>SOCK_BUSY\<close> if one is: the same answer asks the caller to try again,
  although this time a retry queues the same bytes once more.
\<close>

theorem send_busy_has_queued:
  assumes "sn < 8" "tx_contract react sn" "m = world s" "m (sreg sn) 0x30 = SOCK_ESTABLISHED"
    "k = min len (push_bit 10 (ucast (m (sreg sn) 0x200)))" "p = mem16 m (sreg sn) 0x20C" "unat k \<le> length b"
    "sock_io_mode s AND sn_bit sn \<noteq> 0"
    "unfinished \<longleftrightarrow> sock_is_sending s AND sn_bit sn \<noteq> 0 \<and> m (sreg sn) 0x20 AND Sn_IR_SENDOK = 0"
  shows "if mem16 m (sreg sn) 0x204 < k then send (ram_chip react) sn b len s = Some (SOCK_BUSY, s)
    else \<exists>s'. send (ram_chip react) sn b len s = Some (if unfinished then SOCK_BUSY else uint k, s') \<and>
      mem_bytes (world s') (txbuf sn) p (unat k) = take (unat k) b \<and> mem16 (world s') (sreg sn) 0x20C = p + k"
proof (cases "mem16 m (sreg sn) 0x204 < k")
  case True
  then show ?thesis using send_no_room [OF assms(1,3,4,5) _ assms(8)] by simp
next
  case False
  then have room: "k \<le> mem16 m (sreg sn) 0x204" by simp
  show ?thesis
  proof (cases unfinished)
    case True
    then show ?thesis using send_still_busy [OF assms(1-5) room assms(6,7) _ assms(8)] assms(9) False by simp
  next
    case no: False
    then show ?thesis using send_established [OF assms(1-5) room assms(6,7)] assms(9) False by auto
  qed
qed

section \<open>Closing\<close>

text \<open>
  The documented behaviour of the command CLOSE and of the interrupt register: once the command is
  processed and the interrupts are cleared, the socket is closed.
\<close>

definition close_contract :: "reaction \<Rightarrow> u8 \<Rightarrow> bool" where
  "close_contract react sn \<longleftrightarrow>
     (\<forall>m. let m1 = react (sreg sn) 0x10 [Sn_CR_CLOSE] m
          in m1 (sreg sn) 0x10 = 0 \<and> react (sreg sn) 0x28 [0xFF] m1 (sreg sn) 0x30 = SOCK_CLOSED)"

lemma close_at:
  assumes "sn < 8" "close_contract react sn"
  shows "\<exists>s'. close (ram_chip react) sn s = Some (SOCK_OK, s') \<and> world s' (sreg sn) 0x30 = SOCK_CLOSED"
proof -
  define m1 where "m1 = react (sreg sn) 0x10 [Sn_CR_CLOSE] (world s)"
  define m2 where "m2 = react (sreg sn) 0x28 [0xFF] m1"
  have m: "m1 (sreg sn) 0x10 = 0" "m2 (sreg sn) 0x30 = SOCK_CLOSED"
    using assms(2) by (simp_all add: close_contract_def m1_def m2_def Let_def)
  have w: "wait_while (getSn_CR (ram_chip react) sn) (\<lambda>v. v \<noteq> 0) m1 = Some m1"
      "wait_while (getSn_SR (ram_chip react) sn) (\<lambda>v. v \<noteq> SOCK_CLOSED) m2 = Some m2"
    using m by (auto intro!: ram_wait simp: ram_get [OF assms(1)])
  have "\<not> 8 \<le> sn" using assms(1) by (simp add: not_le)
  then show ?thesis
    using m(2) by (simp add: close_def command_def try_put_def put_chip_def ram_set [OF assms(1)] w flip: m1_def m2_def)
qed

section \<open>Opening\<close>

text \<open>
  \<^verbatim>\<open>socket\<close> ignores the flag \<^verbatim>\<open>SF_IO_NONBLOCK\<close> (bit 3): a socket that it opens is non-blocking exactly
  if bit 0 of the flags is set, which is \<^verbatim>\<open>SF_FORCE_ARP\<close>.
\<close>

theorem socket_mode_from_wrong_flag:
  assumes "socket E sn protocol port flag s = Some (r, t)" "0 \<le> r"
  shows "bit (sock_io_mode t) (unat sn) \<longleftrightarrow> bit flag 0"
proof -
  have lt: "unat sn < 16" if "\<not> 8 \<le> sn"
    using that by (simp add: not_le word_less_nat_alt)
  have c: "\<not> bit (x AND NOT (sn_bit sn)) (unat sn)" if "\<not> 8 \<le> sn" for x :: u16
    using that by (auto simp: bit_and_iff bit_not_iff sn_bit_def bit_push_bit_iff word_le_nat_alt not_le simp del: push_bit_of_1)
  have "ensures (\<lambda>(r, t). 0 \<le> r \<longrightarrow> bit (sock_io_mode t) (unat sn) = bit flag 0) (socket E sn protocol port flag s)"
    unfolding socket_def Let_def
    by (rule ensures_Some ensures_if ensures_option ensures_prod ensures_bind [OF try_put_mode]
          ensures_bind [OF protocol_error] ensures_bind [OF ensures_any]
        | simp add: bit_or_iff c io_flag_bit lt; fail)+
  with assms show ?thesis by (simp add: ensures_def)
qed

section \<open>Examples\<close>

text \<open>
  A chip that stores what is written and has processed a command at once; OPEN and CLOSE change the
  status of the socket.
\<close>

definition quiet_reaction :: reaction where
  "quiet_reaction b a bs m = (if a = 0x10 \<and> b AND 3 = 1 then
       m(b := (m b)(0x10 := 0, 0x30 := if bs = [Sn_CR_OPEN] then SOCK_UDP else if bs = [Sn_CR_CLOSE] then SOCK_CLOSED else m b 0x30))
     else mem_store b a bs m)"

lemma mem_store_one: "mem_store b a [v] m = m(b := (m b)(a := v))"
  by (auto simp: mem_store_def fun_eq_iff word_less_nat_alt unat_eq_zero)

lemma block_kind: "sn < 8 \<Longrightarrow> sreg sn AND 3 = 1" "sn < 8 \<Longrightarrow> txbuf sn AND 3 = 2"
  by (erule sn_cases; simp add: sreg_def txbuf_def)+

lemma quiet_rx: "sn < 8 \<Longrightarrow> rx_contract quiet_reaction sn"
  by (simp add: rx_contract_def quiet_reaction_def mem_store_one block_flag block_kind)

lemma quiet_tx: "sn < 8 \<Longrightarrow> tx_contract quiet_reaction sn"
  by (simp add: tx_contract_def quiet_reaction_def mem_store_one block_flag block_kind)

lemma quiet_close: "sn < 8 \<Longrightarrow> close_contract quiet_reaction sn"
  by (simp add: close_contract_def quiet_reaction_def mem_store_one block_kind)

text \<open>Socket 1 is a UDP socket that has received three bytes from 192.168.0.1, port 53.\<close>

definition example_mem :: chip_mem where
  "example_mem b x =
     (if b = sreg 1 then if x = 0 then 2 else if x = 0x30 then 0x22 else if x = 0x225 then 11 else 0
      else if b = rxbuf 1 \<and> unat x < 11 then [0, 3, 192, 168, 0, 1, 0, 53, 97, 98, 99] ! unat x else 0)"

abbreviation (input) example_out :: rx_out where
  "example_out \<equiv> \<lparr>rx_buf = [9, 9, 9, 9], rx_addr = Some [0, 0, 0, 0], rx_port = Some 0, rx_addrlen = 0\<rparr>"

lemma example_facts:
  "mem16 example_mem (sreg 1) 0x228 = 0" "packet_length example_mem (rxbuf 1) 0 = 3" "packet_port example_mem (rxbuf 1) 0 = 53"
  "packet_ipv4 example_mem (rxbuf 1) 0" "mem_bytes example_mem (rxbuf 1) 2 4 = [192, 168, 0, 1]"
  "mem_bytes example_mem (rxbuf 1) 8 3 = [97, 98, 99]" "mem_bytes example_mem (rxbuf 1) 8 2 = [97, 98]"
  "mem16 example_mem (sreg 1) 0x224 = 11" "example_mem (sreg 1) 0 = 2" "example_mem (sreg 1) 0x30 = 0x22"
  by (simp_all add: mem16_def packet_length_def packet_port_def packet_ipv4_def mem_bytes_def example_mem_def sreg_def rxbuf_def
      upt_rec [of _ 4] upt_rec [of _ 3] upt_rec [of _ 2])

theorem recvfrom_delivers_datagram_witness:
  "\<exists>s'. recvfrom_IO_6 (ram_chip quiet_reaction) 1 512 example_out (net_start example_mem) =
     Some (3, \<lparr>rx_buf = [97, 98, 99, 9], rx_addr = Some [192, 168, 0, 1], rx_port = Some 53, rx_addrlen = 4\<rparr>, s')"
  using recvfrom_delivers_datagram [of 1 quiet_reaction example_mem "net_start example_mem" 512 0 example_out "[0, 0, 0, 0]" 0 3]
  by (auto simp: quiet_rx net_start_def example_facts)

theorem recvfrom_misparses_rest_witness:
  "\<exists>s'. recvfrom_IO_6 (ram_chip quiet_reaction) 1 2 example_out
       ((net_start example_mem)\<lparr>sock_remained_size := [0, 5, 0, 0, 0, 0, 0, 0]\<rparr>) =
     Some (2, \<lparr>rx_buf = [97, 98, 9, 9], rx_addr = Some [192, 168, 0, 1], rx_port = Some 53, rx_addrlen = 4\<rparr>, s')"
  using recvfrom_misparses_rest [of 1 quiet_reaction example_mem
    "(net_start example_mem)\<lparr>sock_remained_size := [0, 5, 0, 0, 0, 0, 0, 0]\<rparr>" 2 0 example_out "[0, 0, 0, 0]" 0 2]
  by (simp add: quiet_rx net_start_def example_facts)

text \<open>Socket 2 is an established connection with 4096 bytes of free send buffer.\<close>

definition stream_mem :: chip_mem where
  "stream_mem b x = (if b = sreg 2 then if x = 0x30 then 0x17 else if x = 0x200 then 4 else if x = 0x204 then 0x10
     else if x = 0x20D then 100 else 0 else 0)"

lemma stream_facts:
  "stream_mem (sreg 2) 0x30 = 0x17" "stream_mem (sreg 2) 0x20 = 0" "stream_mem (sreg 2) 0x200 = 4"
  "mem16 stream_mem (sreg 2) 0x204 = 4096" "mem16 stream_mem (sreg 2) 0x20C = 100"
  by (simp_all add: stream_mem_def mem16_def)

definition full_mem :: chip_mem where
  "full_mem b x = (if b = sreg 2 \<and> x = 0x200 then 8 else stream_mem b x)"

lemma full_facts:
  "full_mem (sreg 2) 0x30 = 0x17" "full_mem (sreg 2) 0x20 = 0" "full_mem (sreg 2) 0x200 = 8"
  "mem16 full_mem (sreg 2) 0x204 = 4096" "mem16 full_mem (sreg 2) 0x20C = 100"
  by (simp_all add: full_mem_def stream_mem_def mem16_def)

text \<open>
  The three cases on socket 2: nothing being sent, a transmission being sent, and too many bytes (5000 into
  a buffer of 8192 bytes with 4096 of them free).
\<close>

theorem send_busy_has_queued_witness:
  "(\<exists>s'. send (ram_chip quiet_reaction) 2 [1, 2, 3] 3 ((net_start stream_mem)\<lparr>sock_io_mode := 4\<rparr>) = Some (3, s') \<and>
     mem_bytes (world s') (txbuf 2) 100 3 = [1, 2, 3] \<and> mem16 (world s') (sreg 2) 0x20C = 103) \<and>
  (\<exists>s'. send (ram_chip quiet_reaction) 2 [1, 2, 3] 3 ((net_start stream_mem)\<lparr>sock_is_sending := 4, sock_io_mode := 4\<rparr>) = Some (0, s') \<and>
     mem_bytes (world s') (txbuf 2) 100 3 = [1, 2, 3] \<and> mem16 (world s') (sreg 2) 0x20C = 103) \<and>
  send (ram_chip quiet_reaction) 2 (replicate 5000 7) 5000 ((net_start full_mem)\<lparr>sock_io_mode := 4\<rparr>) =
     Some (0, (net_start full_mem)\<lparr>sock_io_mode := 4\<rparr>)"
  using send_busy_has_queued [of 2 quiet_reaction stream_mem "(net_start stream_mem)\<lparr>sock_io_mode := 4\<rparr>" 3 3 100 "[1, 2, 3]" False]
    send_busy_has_queued [of 2 quiet_reaction stream_mem
      "(net_start stream_mem)\<lparr>sock_is_sending := 4, sock_io_mode := 4\<rparr>" 3 3 100 "[1, 2, 3]" True]
    send_busy_has_queued [of 2 quiet_reaction full_mem "(net_start full_mem)\<lparr>sock_io_mode := 4\<rparr>" 5000 5000 100 "replicate 5000 7" False]
  by (auto simp: quiet_tx stream_facts full_facts net_start_def sn_bit_def)

text \<open>Opening socket 1 on this chip.\<close>

lemma quiet_set:
  "setSn_MR (ram_chip quiet_reaction) 1 v m = m(sreg 1 := (m (sreg 1))(0 := v))"
  "setSn_MR2 (ram_chip quiet_reaction) 1 v m = m(sreg 1 := (m (sreg 1))(0x144 := v))"
  "setSn_IR (ram_chip quiet_reaction) 1 v m = m(sreg 1 := (m (sreg 1))(0x28 := v))"
  "setSn_PORTR (ram_chip quiet_reaction) 1 q m =
     m(sreg 1 := (m (sreg 1))(0x114 := ucast (drop_bit 8 q), 0x115 := ucast q))"
  "setSn_CR (ram_chip quiet_reaction) 1 v m = m(sreg 1 := (m (sreg 1))(0x10 := 0, 0x30 :=
     if v = Sn_CR_OPEN then SOCK_UDP else if v = Sn_CR_CLOSE then SOCK_CLOSED else m (sreg 1) 0x30))"
proof -
  have a: "Sn_MR2_reg 1 = chip_addr (sreg 1) 0x144" "Sn_PORTR_reg 1 = chip_addr (sreg 1) 0x114"
      "WIZCHIP_OFFSET_INC (chip_addr (sreg 1) 0x114) 1 = chip_addr (sreg 1) 0x115"
    by (simp_all add: Sn_MR2_reg_def Sn_PORTR_reg_def chip_addr_def blocks WIZCHIP_OFFSET_INC_def)
  show "setSn_MR (ram_chip quiet_reaction) 1 v m = m(sreg 1 := (m (sreg 1))(0 := v))"
    "setSn_MR2 (ram_chip quiet_reaction) 1 v m = m(sreg 1 := (m (sreg 1))(0x144 := v))"
    "setSn_IR (ram_chip quiet_reaction) 1 v m = m(sreg 1 := (m (sreg 1))(0x28 := v))"
    "setSn_PORTR (ram_chip quiet_reaction) 1 q m =
       m(sreg 1 := (m (sreg 1))(0x114 := ucast (drop_bit 8 q), 0x115 := ucast q))"
    "setSn_CR (ram_chip quiet_reaction) 1 v m = m(sreg 1 := (m (sreg 1))(0x10 := 0, 0x30 :=
       if v = Sn_CR_OPEN then SOCK_UDP else if v = Sn_CR_CLOSE then SOCK_CLOSED else m (sreg 1) 0x30))"
    by (simp_all add: setSn_MR_def setSn_MR2_def setSn_PORTR_def write16_def ram_set reg_addrs a ram_write block_flag
        quiet_reaction_def mem_store_one block_kind fun_eq_iff)
qed

lemma quiet_get:
  "getSn_CR (ram_chip quiet_reaction) 1 m = (m (sreg 1) 0x10, m)" "getSn_SR (ram_chip quiet_reaction) 1 m = (m (sreg 1) 0x30, m)"
  by (simp_all add: ram_get)

theorem socket_mode_from_wrong_flag_witness:
  "\<exists>t. socket (ram_chip quiet_reaction) 1 Sn_MR_UDP 1000 SF_IO_NONBLOCK (net_start (\<lambda>_ _. 0)) = Some (1, t) \<and>
     \<not> bit (sock_io_mode t) 1"
proof -
  have "\<exists>t. socket (ram_chip quiet_reaction) 1 Sn_MR_UDP 1000 SF_IO_NONBLOCK (net_start (\<lambda>_ _. 0)) = Some (1, t)"
    by (simp add: socket_def check_protocol_def bad_flag_def close_def command_def try_put_def put_chip_def any_port_def
        net_start_def quiet_set quiet_get wait_while.simps word_le_nat_alt)
  then obtain t where t: "socket (ram_chip quiet_reaction) 1 Sn_MR_UDP 1000 SF_IO_NONBLOCK (net_start (\<lambda>_ _. 0)) = Some (1, t)"
    by blast
  with socket_mode_from_wrong_flag [OF t] show ?thesis by simp
qed

end
