(* ===== verification/Mqtt_Interface.thy ===== *)
theory Mqtt_Interface
  imports Mqtt_Traffic Socket_Rx
begin

text \<open>
  The network of the MQTT client on the socket layer: the functions of \<^verbatim>\<open>mqtt_interface.c\<close> that the
  client reaches through the function pointers of \<^verbatim>\<open>Network\<close>, and what the client then does on a chip
  with memory.
\<close>

section \<open>The functions\<close>

text \<open>
  A \<^verbatim>\<open>Network\<close> is its socket number, kept as the byte that the socket functions take; the function
  pointers that \<^verbatim>\<open>NewNetwork\<close> sets are in \<open>w5x00_env\<close>. The time argument is ignored by the source.
\<close>

record network =
  my_socket :: u8

definition NewNetwork :: "u8 \<Rightarrow> network" where "NewNetwork sn = \<lparr>my_socket = sn\<rparr>"

definition w5x00_read :: "'w wizchip \<Rightarrow> network \<Rightarrow> u8 list \<Rightarrow> int \<Rightarrow> 'w net \<Rightarrow> (int \<times> u8 list \<times> 'w net) option" where
  "w5x00_read E n buffer len s =
     (case get_chip (getSn_SR E (my_socket n)) s of (sr, s) \<Rightarrow>
        if sr = SOCK_ESTABLISHED then do {
          (rsr, s) \<leftarrow> try_get (getSn_RX_RSR E (my_socket n)) s;
          if 0 < rsr then recv E (my_socket n) buffer (word_of_int len) s
          else Some (SOCK_ERROR, buffer, s)
        } else Some (SOCK_ERROR, buffer, s))"

definition w5x00_write :: "'w wizchip \<Rightarrow> network \<Rightarrow> u8 list \<Rightarrow> int \<Rightarrow> 'w net \<Rightarrow> (int \<times> 'w net) option" where
  "w5x00_write E n buffer len s =
     (case get_chip (getSn_SR E (my_socket n)) s of (sr, s) \<Rightarrow>
        if sr = SOCK_ESTABLISHED then send E (my_socket n) buffer (word_of_int len) s
        else Some (SOCK_ERROR, s))"

definition w5x00_disconnect :: "'w wizchip \<Rightarrow> network \<Rightarrow> 'w net \<Rightarrow> 'w net option" where
  "w5x00_disconnect E n s = do { (_, s) \<leftarrow> disconnect E (my_socket n) s; Some s }"

definition ConnectNetwork :: "'w wizchip \<Rightarrow> network \<Rightarrow> u8 list \<Rightarrow> u16 \<Rightarrow> 'w net \<Rightarrow> (int \<times> 'w net) option" where
  "ConnectNetwork E n ip port s = do {
     (r, s) \<leftarrow> socket E (my_socket n) Sn_MR_TCP 12345 0 s;
     if r \<noteq> uint (my_socket n) then Some (SOCK_ERROR, s)
     else do {
       (r, s) \<leftarrow> connect_W6x00 E (my_socket n) ip port 4 s;
       Some (if r \<noteq> SOCK_OK then SOCK_ERROR else SOCK_OK, s)
     }
   }"

text \<open>
  The outside of the MQTT client made of these functions; the millisecond counter stands at \<open>now\<close>, the
  handlers and the contents of the stack remain parameters. A read hands over the bytes that \<^verbatim>\<open>recv\<close>
  stored.
\<close>

definition w5x00_env :: "'w wizchip \<Rightarrow> network \<Rightarrow> u32 \<Rightarrow> (nat \<Rightarrow> mqtt_string \<Rightarrow> mqtt_message \<Rightarrow> 'w net \<Rightarrow> 'w net)
    \<Rightarrow> publish_out \<Rightarrow> 'w net mqtt_env" where
  "w5x00_env E n now handlers out = \<lparr>
     mqttread = (\<lambda>len time s. do {
       (r, b, s) \<leftarrow> w5x00_read E n (replicate (nat len) 0) len s;
       Some (r, take (nat r) b, s)
     }),
     mqttwrite = (\<lambda>bs time s. w5x00_write E n bs (int (length bs)) s),
     milli_timer = (\<lambda>s. (now, s)), call_handler = handlers, stack = out\<rparr>"

section \<open>Reading a stream\<close>

text \<open>
  The documented behaviour of a stream's receive side: RECV leaves the status, the buffer's size and
  the end of the received data alone, and afterwards the received size is the distance from the read
  pointer to that end.
\<close>

definition stream_contract :: "reaction \<Rightarrow> u8 \<Rightarrow> bool" where
  "stream_contract react sn \<longleftrightarrow> rx_contract react sn \<and>
     (\<forall>m. let m' = react (sreg sn) 0x10 [Sn_CR_RECV] m in
        m' (sreg sn) 0x30 = m (sreg sn) 0x30 \<and> m' (sreg sn) 0x220 = m (sreg sn) 0x220 \<and>
        m' (sreg sn) 0x22C = m (sreg sn) 0x22C \<and> m' (sreg sn) 0x22D = m (sreg sn) 0x22D \<and>
        mem16 m' (sreg sn) 0x224 = mem16 m (sreg sn) 0x22C - mem16 m (sreg sn) 0x228)"

text \<open>An established connection, whose received bytes are those up to the write pointer of the chip.\<close>

definition stream_size :: "u8 \<Rightarrow> chip_mem \<Rightarrow> u16" where
  "stream_size sn m = mem16 m (sreg sn) 0x22C - mem16 m (sreg sn) 0x228"

definition stream_ok :: "u8 \<Rightarrow> chip_mem \<Rightarrow> bool" where
  "stream_ok sn m \<longleftrightarrow> m (sreg sn) 0x30 = SOCK_ESTABLISHED \<and> m (sreg sn) 0 AND 0x0F = Sn_MR_TCP \<and>
     mem16 m (sreg sn) 0x224 = stream_size sn m \<and> stream_size sn m \<le> push_bit 10 (ucast (m (sreg sn) 0x220))"

definition unread :: "u8 \<Rightarrow> chip_mem net \<Rightarrow> u8 list" where
  "unread sn s =
     (if stream_ok sn (world s)
      then mem_bytes (world s) (rxbuf sn) (mem16 (world s) (sreg sn) 0x228) (unat (stream_size sn (world s))) else [])"

lemma mem_bytes_length [simp]: "length (mem_bytes m b p n) = n"
  by (simp add: mem_bytes_def)

lemma mem_bytes_take: "k \<le> n \<Longrightarrow> take k (mem_bytes m b p n) = mem_bytes m b p k"
  by (simp add: mem_bytes_def take_map)

lemma mem_bytes_drop: "drop k (mem_bytes m b p n) = mem_bytes m b (p + word_of_nat k) (n - k)"
  by (rule nth_equalityI) (simp_all add: mem_bytes_def less_diff_conv ac_simps)

lemma recv_data_exact:
  assumes "sn < 8" "rx_contract react sn" "n \<noteq> 0" "unat n \<le> length b" "p = mem16 m (sreg sn) 0x228"
  shows "wiz_recv_data (ram_chip react) sn b n m =
    Some (mem_bytes m (rxbuf sn) p (unat n) @ drop (unat n) b,
      m(sreg sn := (m (sreg sn))(0x228 := ucast (drop_bit 8 (p + n)), 0x229 := ucast (p + n))))"
proof -
  have a: "push_bit 8 (ucast p) + WIZCHIP_RXBUF_BLOCK sn = chip_addr (rxbuf sn) p"
    by (simp add: chip_addr_def blocks [OF assms(1)])
  have "setSn_RX_RD (ram_chip react) sn (p + n) m =
      m(sreg sn := (m (sreg sn))(0x228 := ucast (drop_bit 8 (p + n)), 0x229 := ucast (p + n)))"
    using assms(2) by (auto simp: ram_set [OF assms(1)] rx_contract_def fun_eq_iff)
  then show ?thesis
    using assms(3,4)
    by (simp add: wiz_recv_data_def ram_get [OF assms(1)] a read_bytes_def ram_read_buf min_absorb2 flip: assms(5))
qed

lemma unread_recv:
  assumes "sn < 8" "stream_contract react sn" "unread sn s \<noteq> []" "n \<noteq> 0" "unat n \<le> length b"
  defines "k \<equiv> min (unat n) (length (unread sn s))"
  shows "\<exists>s'. recv (ram_chip react) sn b n s = Some (int k, take k (unread sn s) @ drop k b, s') \<and>
    unread sn s' = drop k (unread sn s)"
proof -
  let ?E = "ram_chip react"
  define m where "m = world s"
  define p where "p = mem16 m (sreg sn) 0x228"
  define z where "z = stream_size sn m"
  have ok: "stream_ok sn m" using assms(3) by (auto simp: unread_def m_def split: if_splits)
  then have u: "unread sn s = mem_bytes m (rxbuf sn) p (unat z)" by (simp add: unread_def m_def p_def z_def)
  with assms(3) have z: "z \<noteq> 0" by (auto simp: mem_bytes_def)
  have facts: "m (sreg sn) 0x30 = SOCK_ESTABLISHED" "m (sreg sn) 0 AND 0x0F = Sn_MR_TCP" "mem16 m (sreg sn) 0x224 = z"
      "z \<le> push_bit 10 (ucast (m (sreg sn) 0x220))"
    using ok by (simp_all add: stream_ok_def z_def)
  define j where "j = min n z"
  have j: "j \<noteq> 0" "unat j = k" using assms(4) z by (auto simp: j_def k_def u min_def word_le_nat_alt)
  have jb: "unat j \<le> length b" "unat j \<le> unat z" using assms(5) j(2) by (auto simp: k_def u)
  define m1 where "m1 = m(sreg sn := (m (sreg sn))(0x228 := ucast (drop_bit 8 (p + j)), 0x229 := ucast (p + j)))"
  have data: "wiz_recv_data ?E sn b j m = Some (mem_bytes m (rxbuf sn) p (unat j) @ drop (unat j) b, m1)"
    unfolding m1_def using recv_data_exact [OF assms(1) _ j(1) jb(1) p_def] assms(2) by (simp add: stream_contract_def)
  define m2 where "m2 = react (sreg sn) 0x10 [Sn_CR_RECV] m1"
  have w1: "mem16 m1 (sreg sn) 0x228 = p + j" "mem16 m1 (sreg sn) 0x22C = mem16 m (sreg sn) 0x22C"
      "m1 (rxbuf sn) = m (rxbuf sn)" "m1 (sreg sn) 0x30 = m (sreg sn) 0x30" "m1 (sreg sn) 0 = m (sreg sn) 0"
      "m1 (sreg sn) 0x220 = m (sreg sn) 0x220"
    by (simp_all add: m1_def mem16_def hi_lo block_flag [OF assms(1)])
  have w2: "m2 (sreg sn) 0x10 = 0" "mem16 m2 (sreg sn) 0x228 = p + j" "m2 (rxbuf sn) = m (rxbuf sn)"
      "m2 (sreg sn) 0x30 = m (sreg sn) 0x30" "m2 (sreg sn) 0 = m (sreg sn) 0" "m2 (sreg sn) 0x220 = m (sreg sn) 0x220"
      "mem16 m2 (sreg sn) 0x22C = mem16 m (sreg sn) 0x22C"
      "mem16 m2 (sreg sn) 0x224 = mem16 m (sreg sn) 0x22C - (p + j)"
    using assms(2) w1 by (simp_all add: stream_contract_def rx_contract_def m2_def Let_def mem16_def)
  have size: "stream_size sn m2 = z - j" using w2 by (simp add: stream_size_def z_def p_def)
  have zj: "unat (z - j) = unat z - unat j" using jb(2) by (simp add: unat_sub word_le_nat_alt)
  then have "z - j \<le> z" by (simp add: word_le_nat_alt)
  from order_trans [OF this facts(4)] have "stream_ok sn m2"
    using facts w2 size by (simp add: stream_ok_def) (simp add: z_def stream_size_def p_def)
  then have "unread sn (s\<lparr>world := m2\<rparr>) = mem_bytes m (rxbuf sn) (p + j) (unat z - k)"
    using w2 by (simp add: unread_def size zj j(2)) (simp add: mem_bytes_def)
  also have "\<dots> = drop k (unread sn s)" by (simp add: u mem_bytes_drop flip: j(2))
  finally have "unread sn (s\<lparr>world := m2\<rparr>) = drop k (unread sn s)" .
  moreover have "recv ?E sn b n s = Some (int k, take k (unread sn s) @ drop k b, s\<lparr>world := m2\<rparr>)"
  proof -
    have wait: "recv_wait ?E sn s = Some (Inr z, s)"
      using facts z
      by (subst recv_wait.simps)
         (simp add: try_get_def get_chip_def ram_sizes [OF assms(1)] ram_get [OF assms(1)] flip: m_def)
    have len: "(if z < (if push_bit 10 (ucast (m (sreg sn) 0x220)) < n then push_bit 10 (ucast (m (sreg sn) 0x220)) else n)
        then z else (if push_bit 10 (ucast (m (sreg sn) 0x220)) < n then push_bit 10 (ucast (m (sreg sn) 0x220)) else n)) = j"
      using facts(4) by (auto simp: j_def min_def not_less)
    have reads: "get_chip (getSn_MR ?E sn) s = (m (sreg sn) 0, s)"
        "get_chip (getSn_RxMAX ?E sn) s = (push_bit 10 (ucast (m (sreg sn) 0x220)), s)"
      by (simp_all add: get_chip_def ram_get [OF assms(1)] m_def)
    have "try_get (wiz_recv_data ?E sn b j) s = Some (mem_bytes m (rxbuf sn) p k @ drop k b, s\<lparr>world := m1\<rparr>)"
      using data by (simp add: try_get_def m_def j(2))
    moreover have "command ?E sn Sn_CR_RECV (s\<lparr>world := m1\<rparr>) = Some (s\<lparr>world := m2\<rparr>)"
      using ram_wait [of "getSn_CR ?E sn" m2 0 "\<lambda>v. v \<noteq> 0"] w2(1)
      by (simp add: command_def try_put_def ram_set [OF assms(1)] ram_get [OF assms(1)] flip: m2_def)
    moreover have "take k (unread sn s) = mem_bytes m (rxbuf sn) p k" using jb(2) j(2) by (simp add: u mem_bytes_take)
    moreover have "\<not> 8 \<le> sn" using assms(1) by (simp add: not_le)
    moreover have "uint j = int k" by (simp only: uint_nat j(2))
    ultimately show ?thesis
      unfolding recv_def reads prod.case Let_def wait bind.bind_lunit sum.case len
      using facts(2) assms(4) by simp
  qed
  ultimately show ?thesis by blast
qed

section \<open>The client on a stream\<close>

text \<open>
  What the client relies on: a clock, and a network that gives as many of the unread bytes as are
  asked for and have arrived.
\<close>

locale stream_network =
  fixes env :: "'w mqtt_env" and rest :: "'w \<Rightarrow> u8 list" and now :: u32
  assumes clock: "milli_timer env w = (now, w)"
    and read: "rest w \<noteq> [] \<Longrightarrow> 0 < n \<Longrightarrow> n < 65536 \<Longrightarrow>
      \<exists>w'. mqttread env (int n) l w = Some (int (min n (length (rest w))), take n (rest w), w') \<and> rest w' = drop n (rest w)"
begin

lemma left: "TimerLeftMS env t w = (fst (TimerLeftMS env t w0), w)"
  by (simp add: TimerLeftMS_def clock)

lemma read_one: "rest w = b # bs \<Longrightarrow> \<exists>w'. mqttread env 1 l w = Some (1, [b], w') \<and> rest w' = bs"
  using read [of w 1 l] by (auto simp: min_def)

text \<open>A packet whose body has arrived, in full or in part.\<close>

lemma readPacket_body:
  assumes "rest w = h # enc n @ part" "part \<noteq> []" "0 < n" "n < 65536" "5 \<le> length (readbuf c)"
    and "1 + length (enc n) + min n (length part) \<le> length (readbuf c)"
  defines "r \<equiv> h # enc n @ take n part"
  shows "\<exists>w'. readPacket env t c w = Some (if n \<le> length part then int (header_type h) else - 1,
      c\<lparr>readbuf := r @ drop (length r) (readbuf c)\<rparr>, w') \<and> rest w' = drop n part"
proof -
  let ?k = "length (enc n)" let ?b = "readbuf c"
  define b2 where "b2 = h # enc n @ drop (1 + ?k) ?b"
  obtain w2 where k: "?k \<le> 4" and w2: "rest w2 = part" "readPacket env t c w = do {
      (ok, b, w) \<leftarrow> read_body env t b2 (1 + ?k) (int n) w2;
      if \<not> ok then Some (- 1, c\<lparr>readbuf := b\<rparr>, w)
      else do { (h, _) \<leftarrow> readChar b 0; Some (int (header_type h), c\<lparr>readbuf := b\<rparr>, w) } }"
    unfolding b2_def using readPacket_header [OF read_one left assms(1) _ assms(5)] assms(4) by force
  define l where "l = fst (TimerLeftMS env t w2)"
  have l: "TimerLeftMS env t w2 = (l, w2)" using left [of t w2 w2] by (simp add: l_def)
  obtain w3 where w3: "mqttread env (int n) l w2 = Some (int (min n (length part)), take n part, w3)" "rest w3 = drop n part"
    using read [of w2 n l] w2(1) assms(2-4) by auto
  have "min n (length part) = n \<or> min n (length part) = length part \<and> length part \<le> n" by auto
  then have "store b2 (1 + ?k) (take n part) = Some (r @ drop (length r) ?b)"
    using assms(6) k by (elim disjE) (auto simp: store_def mem_copy_def b2_def r_def add.commute)
  then have "read_body env t b2 (1 + ?k) (int n) w2 = Some (n \<le> length part, r @ drop (length r) ?b, w3)"
    using assms(3) w3(1) by (auto simp: read_body_def l min_def)
  moreover have "readChar (r @ drop (length r) ?b) 0 = Some (h, 1)" by (simp add: readChar_def r_def)
  ultimately show ?thesis using w3(2) w2(2) by simp
qed

end

lemma w5x00_stream_network:
  assumes "sn < 8" "stream_contract react sn"
  shows "stream_network (w5x00_env (ram_chip react) (NewNetwork sn) now h out) (unread sn) now"
proof
  show "milli_timer (w5x00_env (ram_chip react) (NewNetwork sn) now h out) w = (now, w)" for w
    by (simp add: w5x00_env_def)
next
  fix s :: "chip_mem net" and n l
  assume n: "unread sn s \<noteq> []" "0 < n" "n < (65536 :: nat)"
  define k where "k = min n (length (unread sn s))"
  have u: "unat (word_of_nat n :: u16) = n" using n(3) by (simp add: unat_of_nat)
  moreover from this have "(word_of_nat n :: u16) \<noteq> 0" using n(2) by (metis unat_0 less_irrefl)
  ultimately obtain s' where s': "recv (ram_chip react) sn (replicate n 0) (word_of_nat n) s
      = Some (int k, take k (unread sn s) @ drop k (replicate n 0), s')" "unread sn s' = drop k (unread sn s)"
    using unread_recv [OF assms n(1), of "word_of_nat n" "replicate n 0"] by (auto simp: k_def)
  have ok: "stream_ok sn (world s)" "unat (stream_size sn (world s)) \<noteq> 0"
    using n(1) by (auto simp: unread_def mem_bytes_def split: if_splits)
  then have "0 < mem16 (world s) (sreg sn) 0x224" by (auto simp: stream_ok_def word_gt_0)
  with ok(1) s'(1) have "w5x00_read (ram_chip react) (NewNetwork sn) (replicate n 0) (int n) s
      = Some (int k, take k (unread sn s) @ drop k (replicate n 0), s')"
    by (simp add: w5x00_read_def NewNetwork_def get_chip_def try_get_def ram_get [OF assms(1)] ram_sizes [OF assms(1)] stream_ok_def)
  then show "\<exists>w'. mqttread (w5x00_env (ram_chip react) (NewNetwork sn) now h out) (int n) l s
      = Some (int (min n (length (unread sn s))), take n (unread sn s), w') \<and> unread sn w' = drop n (unread sn s)"
    using s'(2) by (auto simp: w5x00_env_def k_def min_def)
qed

section \<open>The client on the chip\<close>

text \<open>
  C28. Publishing reaches the chip: on a connected client over an established socket whose previous
  transmission (if there was one, such as that of the connect packet) the chip has completed and whose send
  buffer has room for the packet, \<^verbatim>\<open>MQTTPublish\<close> without acknowledgement puts exactly the bytes of the publish
  packet behind the chip's write pointer, moves the pointer behind them and returns success.
\<close>

theorem mqtt_publish_over_socket:
  assumes sock: "sn < 8" "tx_contract react sn" "m = world s" "m (sreg sn) 0x30 = SOCK_ESTABLISHED"
      "sock_is_sending s AND sn_bit sn = 0 \<or> m (sreg sn) 0x20 AND Sn_IR_SENDOK \<noteq> 0" "p = mem16 m (sreg sn) 0x20C"
    and client: "isconnected c" "int (length (buf c)) = sint (buf_size c)" "0 \<le> sint (command_timeout_ms c)"
    and msg: "msg_qos msg = 0" "0 \<le> sint (msg_payloadlen msg)" "sint (msg_payloadlen msg) \<le> int (length (msg_payload msg))"
    and fits: "length topic < 65536" "MQTTSerialize_publishLength 0 (c_string topic) (sint (msg_payloadlen msg)) < 268435456"
      "MQTTPacket_len (MQTTSerialize_publishLength 0 (c_string topic) (sint (msg_payloadlen msg))) \<le> sint (buf_size c)"
    and pkt: "pkt = qos0_packet topic msg" "length pkt \<le> unat (mem16 m (sreg sn) 0x204)"
      "length pkt \<le> unat (push_bit 10 (ucast (m (sreg sn) 0x200)) :: u16)"
  shows "\<exists>c' s'. MQTTPublish (w5x00_env (ram_chip react) (NewNetwork sn) now h out) topic msg c s = Some (0, msg, c', s') \<and>
    mem_bytes (world s') (txbuf sn) p (length pkt) = pkt \<and> mem16 (world s') (sreg sn) 0x20C = p + word_of_nat (length pkt)"
proof -
  let ?env = "w5x00_env (ram_chip react) (NewNetwork sn) now h out"
  define k where "k = (word_of_nat (length pkt) :: u16)"
  have "length pkt < 65536" using pkt(2) unat_u16_less [of "mem16 m (sreg sn) 0x204"] by linarith
  then have k: "unat k = length pkt" by (simp add: k_def unat_of_nat)
  then have "k = min k (push_bit 10 (ucast (m (sreg sn) 0x200)))" "k \<le> mem16 m (sreg sn) 0x204"
    using pkt(2,3) by (simp_all add: word_le_nat_alt min_def)
  then obtain s' where s': "send (ram_chip react) sn pkt k s = Some (uint k, s')"
      "mem_bytes (world s') (txbuf sn) p (unat k) = take (unat k) pkt" "mem16 (world s') (sreg sn) 0x20C = p + k"
    using send_established [OF sock(1-4) _ _ sock(6) _ sock(5), of k k pkt] k by auto
  have "uint k = int (length pkt)" by (simp only: uint_nat k)
  then have "mqttwrite ?env pkt l s = Some (int (length pkt), s')" for l
    using s'(1) sock(3,4)
    by (simp add: w5x00_env_def w5x00_write_def NewNetwork_def get_chip_def ram_get [OF sock(1)] k_def)
  then have net: "mqttwrite ?env (qos0_packet topic msg) (sint (command_timeout_ms c)) s
      = Some (int (length (qos0_packet topic msg)), s')" by (simp add: pkt(1))
  have "milli_timer ?env w = (now, w)" for w by (simp add: w5x00_env_def)
  note publish_qos0 [OF this client(3) net client(1,2) msg fits]
  then show ?thesis using s'(2,3) k by (auto simp: k_def)
qed


text \<open>
  A packet that has not arrived whole is lost: when some but not all bytes of its body are in the
  socket, \<^verbatim>\<open>readPacket\<close> takes them out of the stream and fails, long before its time is over. What
  arrives afterwards, the rest of this packet, is read as the start of the next one.
\<close>

theorem mqtt_split_packet_lost:
  assumes "sn < 8" "stream_contract react sn" "unread sn s = h # enc n @ part" "part \<noteq> []" "length part < n" "n < 65536"
    and "5 \<le> length (readbuf c)" "1 + length (enc n) + length part \<le> length (readbuf c)"
  shows "\<exists>c' s'. readPacket (w5x00_env (ram_chip react) (NewNetwork sn) now k out) t c s = Some (- 1, c', s') \<and> unread sn s' = []"
  using stream_network.readPacket_body [OF w5x00_stream_network [OF assms(1,2)], of s h n part] assms(3-8)
  by force

section \<open>Examples\<close>

text \<open>A chip as the one before, which also keeps the received size of a stream up to date.\<close>

definition stream_reaction :: reaction where
  "stream_reaction b a bs m = (let m = quiet_reaction b a bs m in
     if a = 0x10 \<and> b AND 3 = 1 \<and> bs = [Sn_CR_RECV] then
       m(b := (m b)(0x224 := ucast (drop_bit 8 (mem16 m b 0x22C - mem16 m b 0x228)), 0x225 := ucast (mem16 m b 0x22C - mem16 m b 0x228)))
     else m)"

lemma stream_reaction_contract: "sn < 8 \<Longrightarrow> stream_contract stream_reaction sn"
  by (simp add: stream_contract_def rx_contract_def stream_reaction_def quiet_reaction_def mem_store_one block_flag block_kind
      mem16_def hi_lo Let_def)

interpretation wiznet: stream_network "w5x00_env (ram_chip stream_reaction) (NewNetwork 2) 7 (\<lambda>f name msg s. s) (stack call_log)" "unread 2" 7
  by (rule w5x00_stream_network) (simp_all add: stream_reaction_contract)

text \<open>Socket 2 is a stream on which \<open>n\<close> bytes of an acknowledgement and a ping answer have arrived.\<close>

definition ack_mem :: "u8 \<Rightarrow> chip_mem" where
  "ack_mem n b x =
     (if b = sreg 2 then if x = 0 then 1 else if x = 0x30 then 0x17 else if x = 0x220 then 4 else if x = 0x225 \<or> x = 0x22D then n else 0
      else if b = rxbuf 2 \<and> unat x < 6 then [0x40, 2, 0, 7, 0xD0, 0] ! unat x else 0)"

lemma ack_stream:
  assumes "n = 3 \<or> n = 6"
  shows "unread 2 (net_start (ack_mem n)) = take (unat n) [0x40, 2, 0, 7, 0xD0, 0]"
proof -
  have "stream_size 2 (ack_mem n) = ucast n" by (simp add: stream_size_def mem16_def ack_mem_def)
  moreover from this assms have "stream_ok 2 (ack_mem n)" by (auto simp: stream_ok_def mem16_def ack_mem_def)
  ultimately show ?thesis
    using assms by (auto simp: unread_def net_start_def mem_bytes_def mem16_def upt_rec [of _ 6] upt_rec [of _ 3])
       (simp_all add: ack_mem_def rxbuf_def sreg_def)
qed

text \<open>
  Socket 2 after a first transmission, such as that of the connect packet: \<^verbatim>\<open>sock_is_sending\<close> has its bit set
  (only the next \<^verbatim>\<open>send\<close> clears it) and the chip has set SENDOK.
\<close>

definition sent_mem :: chip_mem where
  "sent_mem b x = (if b = sreg 2 \<and> x = 0x20 then Sn_IR_SENDOK else stream_mem b x)"

theorem mqtt_publish_over_socket_witness:
  "\<exists>c' s'. MQTTPublish (w5x00_env (ram_chip quiet_reaction) (NewNetwork 2) 7 (\<lambda>f name msg s. s) (stack call_log))
      [97] sample_message sample_client ((net_start sent_mem)\<lparr>sock_is_sending := 4\<rparr>) = Some (0, sample_message, c', s') \<and>
    mem_bytes (world s') (txbuf 2) 100 (length (qos0_packet [97] sample_message)) = qos0_packet [97] sample_message \<and>
    mem16 (world s') (sreg 2) 0x20C = 100 + word_of_nat (length (qos0_packet [97] sample_message))"
proof -
  have "length (qos0_packet [97] sample_message) = 7"
    by (simp add: qos0_packet_def publish_packet_def packet_def sample_message_def publish_body_def wire_str_def be16_def enc.simps)
  then show ?thesis
    by (intro mqtt_publish_over_socket [OF _ quiet_tx refl])
       (simp_all add: sent_mem_def stream_mem_def net_start_def mem16_def sample_client_def sample_message_def MQTTSerialize_publishLength_def
         MQTTstrlen_def c_string_def MQTTPacket_len_def)
qed


theorem mqtt_split_packet_lost_witness:
  "\<exists>c' s'. readPacket (w5x00_env (ram_chip stream_reaction) (NewNetwork 2) 7 (\<lambda>f name msg s. s) (stack call_log)) 0 sample_client
      (net_start (ack_mem 3)) = Some (- 1, c', s') \<and> unread 2 s' = []"
  by (rule mqtt_split_packet_lost [OF _ stream_reaction_contract, where n = 2 and part = "[0]"])
     (simp_all add: ack_stream enc.simps sample_client_def)

end
