(* ===== verification/Sntp_Date.thy ===== *)
theory Sntp_Date
  imports Prelude
begin

text \<open>
  The calendar of \<^verbatim>\<open>Internet/SNTP/sntp.c\<close>: \<^verbatim>\<open>calcdatetime\<close> turns a count of seconds since the start
  of 1900 into a date and a time of day, \<^verbatim>\<open>changedatetime_to_seconds\<close> goes back. Both are compared
  with a definition of the Gregorian calendar. A \<^verbatim>\<open>tstamp\<close> is a \<^verbatim>\<open>u64\<close>; the two loops of
  \<^verbatim>\<open>calcdatetime\<close> have no bound in the source, so they are partial functions and that they end is a
  theorem.
\<close>

section \<open>The program\<close>

abbreviation (input) SECS_PERDAY :: nat where "SECS_PERDAY \<equiv> 86400"
abbreviation (input) EPOCH :: nat where "EPOCH \<equiv> 1900"

record datetime =
  yy :: u16
  mo :: u8
  dd :: u8
  hh :: u8
  mm :: u8
  ss :: u8

definition leap_test :: "nat \<Rightarrow> bool" where
  "leap_test n \<longleftrightarrow> n mod 400 = 0 \<or> n mod 100 \<noteq> 0 \<and> n mod 4 = 0"

text \<open>The first loop: the seconds left, the days of the years passed and the number of these years.\<close>

partial_function (option) year_loop :: "u64 \<Rightarrow> u64 \<Rightarrow> u16 \<Rightarrow> u16 \<Rightarrow> (u64 \<times> u64 \<times> u16) option" where
  "year_loop n d r y =
     (if leap_test (EPOCH + unat r) then
        if n < 31622400 then Some (n, d, y)
        else year_loop (n - 31622400) (d + 366) (r + 1) (y + 1)
      else
        if n < 31536000 then Some (n, d, y)
        else year_loop (n - 31536000) (d + 365) (r + 1) (y + 1))"

text \<open>
  What the body of the second loop takes off for month \<open>yf\<close>: at most one of its three tests holds,
  and none for a value that is not a month.
\<close>

definition month_take :: "u16 \<Rightarrow> u8 \<Rightarrow> nat" where
  "month_take y yf =
     (if yf = 1 \<or> yf = 3 \<or> yf = 5 \<or> yf = 7 \<or> yf = 8 \<or> yf = 10 \<or> yf = 12 then 31
      else if yf = 2 then if leap_test (unat y) then 29 else 28
      else if yf = 4 \<or> yf = 6 \<or> yf = 9 \<or> yf = 11 then 30
      else 0)"

partial_function (option) month_loop :: "u16 \<Rightarrow> int \<Rightarrow> u8 \<Rightarrow> u64 \<Rightarrow> (u8 \<times> u64) option" where
  "month_loop y yd yf rz =
     (if 28 \<le> yd then
        if yd - int (month_take y yf) < 0 then Some (yf, rz)
        else month_loop y (yd - int (month_take y yf)) (yf + 1) (rz + word_of_nat (month_take y yf))
      else Some (yf, rz))"

definition calcdatetime :: "u64 \<Rightarrow> datetime option" where
  "calcdatetime seconds = do {
     let total_d = seconds div 86400;
     (n, d, y) \<leftarrow> year_loop seconds 0 0 0;
     let y = y + 1900;
     (yf, rz) \<leftarrow> month_loop y (sint (total_d - d)) 1 0;
     let yr = (ucast (total_d - d - rz) :: u16) + 1;
     let secs = seconds mod 86400;
     Some \<lparr>yy = y, mo = yf, dd = ucast yr, hh = ucast (secs div 3600),
           mm = ucast (secs mod 3600 div 60), ss = ucast (secs mod 3600 mod 60)\<rparr>
   }"

definition changedatetime_to_seconds :: "datetime \<Rightarrow> u64" where
  "changedatetime_to_seconds now =
     (let l = unat (yy now);
          run_year_cnt = fold (\<lambda>i c. if leap_test i then c + 1 else c) [EPOCH ..< l] (0 :: u16);
          run = uint run_year_cnt;
          total_day = word_of_int ((int l - 1900 - run) * 365 + run * 366) :: u32;
          total_day = fold (\<lambda>i t.
            t + (if i = 5 \<or> i = 7 \<or> i = 10 \<or> i = 12 then 30 else 0)
              + (if i = 3 then if leap_test l then 29 else 28 else 0)
              + (if i = 2 \<or> i = 4 \<or> i = 6 \<or> i = 8 \<or> i = 9 \<or> i = 11 then 31 else 0))
            [1 ..< unat (mo now) + 1] total_day;
          seconds = ucast ((total_day + ucast (dd now) - 1) * 24 * 3600) :: u64
      in seconds + ucast (ss now) + ucast (mm now) * 60 + ucast (hh now) * 3600)"

section \<open>The calendar\<close>

text \<open>The Gregorian calendar, counted from the first day of 1900.\<close>

definition year_days :: "nat \<Rightarrow> nat" where
  "year_days y = (if 4 dvd y \<and> (100 dvd y \<longrightarrow> 400 dvd y) then 366 else 365)"

definition month_days :: "nat \<Rightarrow> nat \<Rightarrow> nat" where
  "month_days y m =
     [31, if year_days y = 366 then 29 else 28, 31, 30, 31, 30, 31, 31, 30, 31, 30, 31] ! (m - 1)"

definition days_before_year :: "nat \<Rightarrow> nat" where
  "days_before_year y = (\<Sum>i = 1900 ..< y. year_days i)"

definition days_before_month :: "nat \<Rightarrow> nat \<Rightarrow> nat" where
  "days_before_month y m = (\<Sum>i = 1 ..< m. month_days y i)"

definition valid_date :: "datetime \<Rightarrow> bool" where
  "valid_date t \<longleftrightarrow> 1900 \<le> unat (yy t) \<and> 1 \<le> unat (mo t) \<and> unat (mo t) \<le> 12 \<and>
     1 \<le> unat (dd t) \<and> unat (dd t) \<le> month_days (unat (yy t)) (unat (mo t)) \<and>
     unat (hh t) < 24 \<and> unat (mm t) < 60 \<and> unat (ss t) < 60"

definition day_number :: "datetime \<Rightarrow> nat" where
  "day_number t = days_before_year (unat (yy t)) + days_before_month (unat (yy t)) (unat (mo t)) + unat (dd t) - 1"

definition epoch_seconds :: "datetime \<Rightarrow> nat" where
  "epoch_seconds t = day_number t * 86400 + unat (hh t) * 3600 + unat (mm t) * 60 + unat (ss t)"

section \<open>The loops end\<close>

lemma leap_test_year_days: "leap_test y \<longleftrightarrow> year_days y = 366"
proof -
  have "4 dvd y" "100 dvd y" if "400 dvd y"
    using dvd_trans [OF _ that, of 4] dvd_trans [OF _ that, of 100] by simp_all
  then show ?thesis unfolding leap_test_def year_days_def dvd_eq_mod_eq_0
    by (cases "y mod 400 = 0") auto
qed

lemma unat_u64_less: "unat (w :: u64) < 18446744073709551616"
  using unsigned_less [of w] by simp

text \<open>The days of the \<open>k\<close> years that the first loop passes from its counter \<open>r\<close> on.\<close>

fun passed :: "u16 \<Rightarrow> nat \<Rightarrow> nat" where
  "passed r 0 = 0"
| "passed r (Suc k) = year_days (EPOCH + unat r) + passed (r + 1) k"

lemma year_loop_step:
  "year_loop n d r y =
     (let q = year_days (EPOCH + unat r)
      in if unat n < 86400 * q then Some (n, d, y)
         else year_loop (n - word_of_nat (86400 * q)) (d + word_of_nat q) (r + 1) (y + 1))"
  by (subst year_loop.simps)
     (auto simp: leap_test_year_days Let_def word_less_nat_alt year_days_def)

lemma year_loop_result:
  "\<exists>k m. unat n = m + 86400 * passed r k \<and> m < 86400 * year_days (EPOCH + unat (r + word_of_nat k)) \<and>
     year_loop n d r y = Some (word_of_nat m, d + word_of_nat (passed r k), y + word_of_nat k)"
proof (induction "unat n" arbitrary: n d r y rule: less_induct)
  case less
  define q where "q = year_days (EPOCH + unat r)"
  have q: "365 \<le> q" "q \<le> 366" by (auto simp: q_def year_days_def)
  show ?case
  proof (cases "unat n < 86400 * q")
    case True
    then show ?thesis
      by (rule_tac exI [of _ 0], rule_tac exI [of _ "unat n"]) (simp add: year_loop_step [of n] Let_def q_def)
  next
    case False
    let ?n = "n - word_of_nat (86400 * q) :: u64"
    have c: "unat (word_of_nat (86400 * q) :: u64) = 86400 * q"
      using q by (simp only: unat_of_nat) simp
    have un: "unat ?n = unat n - 86400 * q"
      using False c by (simp add: unat_sub word_le_nat_alt)
    have "unat ?n < unat n" using un False q by simp
    from less [OF this, where r = "r + 1" and d = "d + word_of_nat q" and y = "y + 1"] obtain k m
      where k: "unat ?n = m + 86400 * passed (r + 1) k"
        "m < 86400 * year_days (EPOCH + unat (r + 1 + word_of_nat k))"
        "year_loop ?n (d + word_of_nat q) (r + 1) (y + 1) =
           Some (word_of_nat m, d + word_of_nat q + word_of_nat (passed (r + 1) k), y + 1 + word_of_nat k)"
      by blast
    show ?thesis
    proof (rule exI [of _ "Suc k"], rule exI [of _ m], intro conjI)
      show "unat n = m + 86400 * passed r (Suc k)" using k(1) un False by (simp add: q_def)
      show "m < 86400 * year_days (EPOCH + unat (r + word_of_nat (Suc k)))"
        using k(2) by (simp add: add.assoc)
      show "year_loop n d r y =
          Some (word_of_nat m, d + word_of_nat (passed r (Suc k)), y + word_of_nat (Suc k))"
        using k(3) False by (simp add: year_loop_step [of n] Let_def q_def ac_simps)
    qed
  qed
qed

text \<open>The second loop, from month \<open>m\<close> on, on a day that lies before the end of the year.\<close>

lemma month_range:
  assumes "1 \<le> m" "m \<le> (12 :: nat)"
  obtains "m = 1" | "m = 2" | "m = 3" | "m = 4" | "m = 5" | "m = 6" | "m = 7" | "m = 8" | "m = 9"
    | "m = 10" | "m = 11" | "m = 12"
proof -
  from assms have "m = 1 \<or> m = 2 \<or> m = 3 \<or> m = 4 \<or> m = 5 \<or> m = 6 \<or> m = 7 \<or> m = 8 \<or> m = 9
    \<or> m = 10 \<or> m = 11 \<or> m = 12" by presburger
  with that show ?thesis by blast
qed

lemma month_take_month_days:
  "1 \<le> m \<Longrightarrow> m \<le> 12 \<Longrightarrow> month_take y (word_of_nat m) = month_days (unat y) m"
  by (erule (1) month_range) (simp_all add: month_take_def month_days_def leap_test_year_days)

lemma days_before_month_Suc:
  "1 \<le> m \<Longrightarrow> days_before_month y (Suc m) = days_before_month y m + month_days y m"
  by (simp add: days_before_month_def)

lemma month_days_bounds: "1 \<le> m \<Longrightarrow> m \<le> 12 \<Longrightarrow> 28 \<le> month_days y m \<and> month_days y m \<le> 31"
  by (erule (1) month_range) (simp_all add: month_days_def)

lemma days_before_month_13: "days_before_month y 13 = year_days y"
  by (simp add: days_before_month_def month_days_def year_days_def numeral_eq_Suc)

lemma month_loop_result:
  assumes "1 \<le> m" "m \<le> 12" "days_before_month (unat y) m + yd < year_days (unat y)"
  shows "\<exists>m' z. m \<le> m' \<and> m' \<le> 12 \<and> z \<le> yd \<and> days_before_month (unat y) m + z = days_before_month (unat y) m' \<and>
    yd - z < month_days (unat y) m' \<and>
    month_loop y (int yd) (word_of_nat m) rz = Some (word_of_nat m', rz + word_of_nat z)"
  using assms
proof (induction "12 - m" arbitrary: m yd rz rule: less_induct)
  case less
  note b = month_days_bounds [OF less.prems(1,2), of "unat y"]
  show ?case
  proof (cases "yd < month_days (unat y) m")
    case True
    with less.prems show ?thesis
      by (rule_tac exI [of _ m], rule_tac exI [of _ 0])
         (simp add: month_loop.simps [of y "int yd"] month_take_month_days)
  next
    case False
    let ?k = "month_days (unat y) m"
    have m: "m < 12"
    proof (rule ccontr)
      assume "\<not> m < 12"
      with less.prems have "m = 12" by simp
      with days_before_month_Suc [of 12 "unat y"] days_before_month_13 [of "unat y"] less.prems(3) False
      show False by simp
    qed
    have "days_before_month (unat y) (Suc m) + (yd - ?k) < year_days (unat y)"
      using less.prems False days_before_month_Suc [of m "unat y"] by simp
    moreover have "12 - Suc m < 12 - m" "1 \<le> Suc m" "Suc m \<le> 12" using m by simp_all
    ultimately obtain m' z where
      h: "Suc m \<le> m'" "m' \<le> 12" "z \<le> yd - ?k" "days_before_month (unat y) (Suc m) + z = days_before_month (unat y) m'"
        "yd - ?k - z < month_days (unat y) m'"
        "month_loop y (int (yd - ?k)) (word_of_nat (Suc m)) (rz + word_of_nat ?k) =
           Some (word_of_nat m', rz + word_of_nat ?k + word_of_nat z)"
      using less.hyps [of "Suc m" "yd - ?k" "rz + word_of_nat ?k"] by blast
    show ?thesis
    proof (rule exI [of _ m'], rule exI [of _ "?k + z"], intro conjI)
      show "month_loop y (int yd) (word_of_nat m) rz = Some (word_of_nat m', rz + word_of_nat (?k + z))"
        using h(6) False b less.prems
        by (subst month_loop.simps) (simp add: month_take_month_days of_nat_diff ac_simps)
    qed (use h False m days_before_month_Suc [OF less.prems(1), of "unat y"] in auto)
  qed
qed

text \<open>The second loop ends from any day and any value of its month counter, months or not.\<close>

lemma month_loop_returns: "\<exists>p. month_loop y yd yf rz = Some p"
proof (induction "nat yd * 256 + unat (1 - yf)" arbitrary: yd yf rz rule: less_induct)
  case less
  show ?case
  proof (cases "28 \<le> yd \<and> 0 \<le> yd - int (month_take y yf)")
    case True
    have "nat (yd - int (month_take y yf)) * 256 + unat (1 - (yf + 1)) < nat yd * 256 + unat (1 - yf)"
    proof (cases "month_take y yf = 0")
      case True
      then have yf: "yf \<noteq> 1" by (auto simp: month_take_def)
      have "- yf \<noteq> 255"
      proof
        assume "- yf = 255"
        then have "- (- yf) = - (255 :: u8)" by (simp only:)
        with yf show False by simp
      qed
      then have "unat (- yf) \<noteq> unat (255 :: u8)" by (simp only: word_unat_eq_iff not_False_eq_True)
      then have "unat (- yf + 1) = unat (- yf) + 1"
        using unat_u8_less [of "- yf"] by (subst unat_word_ariths) (simp add: mod_Suc)
      with True show ?thesis by (simp add: algebra_simps)
    next
      case False
      with True have "nat (yd - int (month_take y yf)) + 1 \<le> nat yd" by linarith
      then have "nat (yd - int (month_take y yf)) * 256 + 256 \<le> nat yd * 256" by linarith
      with unat_u8_less [of "1 - (yf + 1)"] show ?thesis by linarith
    qed
    from less [OF this] True show ?thesis by (subst month_loop.simps) simp
  qed (auto simp: month_loop.simps [of y yd])
qed

text \<open>
  C21. Both loops of \<^verbatim>\<open>calcdatetime\<close> end, whatever the 64-bit count of seconds: the function always
  returns a date.
\<close>

theorem calcdatetime_returns: "\<exists>t. calcdatetime seconds = Some t"
proof -
  obtain n d y where y: "year_loop seconds 0 0 0 = Some (n, d, y)"
    using year_loop_result [of seconds 0 0 0] by blast
  obtain yf rz where "month_loop (y + 1900) (sint (seconds div 86400 - d)) 1 0 = Some (yf, rz)"
    using month_loop_returns by (metis surj_pair)
  with y show ?thesis by (simp add: calcdatetime_def Let_def)
qed

section \<open>The date is the right one\<close>

text \<open>As long as the counter of the first loop does not wrap round, it passes the years in turn.\<close>

lemma passed_years:
  "unat r + k \<le> 65535 \<Longrightarrow> passed r k = (\<Sum>i = EPOCH + unat r ..< EPOCH + unat r + k. year_days i)"
proof (induction k arbitrary: r)
  case (Suc k)
  then have "unat (r + 1) = unat r + 1" by (simp add: unat_word_ariths)
  with Suc show ?case by (simp add: sum.atLeast_Suc_lessThan add.assoc)
qed simp

lemma passed_append: "passed r (k + j) = passed r k + passed (r + word_of_nat k) j"
  by (induction k arbitrary: r) (simp_all add: ac_simps)

lemma days_before_year_Suc: "1900 \<le> y \<Longrightarrow> days_before_year (Suc y) = days_before_year y + year_days y"
  by (simp add: days_before_year_def)

lemma year_loop_years:
  assumes "unat s < 86400 * days_before_year 65536"
  shows "\<exists>k m. k < 63636 \<and> unat s = m + 86400 * days_before_year (EPOCH + k) \<and> m < 86400 * year_days (EPOCH + k) \<and>
     year_loop s 0 0 0 = Some (word_of_nat m, word_of_nat (days_before_year (EPOCH + k)), word_of_nat k)"
proof -
  obtain k m where k: "unat s = m + 86400 * passed 0 k" "m < 86400 * year_days (EPOCH + unat (word_of_nat k :: u16))"
      "year_loop s 0 0 0 = Some (word_of_nat m, word_of_nat (passed 0 k), word_of_nat k)"
    using year_loop_result [of s 0 0 0] by auto
  have p: "passed 0 j = days_before_year (EPOCH + j)" if "j \<le> 63636" for j
    using that passed_years [of 0 j] by (simp add: days_before_year_def)
  have lt: "k < 63636"
  proof (rule ccontr)
    assume "\<not> k < 63636"
    then obtain j where "k = 63636 + j" by (metis le_Suc_ex not_less)
    then have "passed 0 63636 \<le> passed 0 k" by (simp only: passed_append)
    with p [of 63636] k(1) assms show False by simp
  qed
  moreover have "unat (word_of_nat k :: u16) = k" using lt by (simp add: unat_of_nat)
  ultimately show ?thesis using k p [of k] by auto
qed

lemma ucast_small:
  "n < 2 ^ LENGTH('a) \<Longrightarrow> ucast (word_of_nat n :: 'a::len word) = (word_of_nat n :: 'b::len word)"
  by (simp add: unsigned_of_nat take_bit_nat_eq_self)

lemma unat_small: "n < 2 ^ LENGTH('a) \<Longrightarrow> unat (word_of_nat n :: 'a::len word) = n"
  by (simp add: unat_of_nat)

text \<open>The fields of the result, for a day \<open>yd\<close> of a year and a second \<open>sec\<close> of that day.\<close>

lemma calcdatetime_fields:
  assumes "unat s = (days_before_year (EPOCH + k) + yd) * 86400 + sec" "sec < 86400"
    "k < 63636" "yd < year_days (EPOCH + k)"
    "year_loop s 0 0 0 = Some (n, word_of_nat (days_before_year (EPOCH + k)), word_of_nat k)"
  shows "\<exists>m z. 1 \<le> m \<and> m \<le> 12 \<and> z \<le> yd \<and> z = days_before_month (EPOCH + k) m \<and> yd - z < month_days (EPOCH + k) m \<and>
    calcdatetime s = Some \<lparr>yy = word_of_nat (EPOCH + k), mo = word_of_nat m, dd = word_of_nat (yd - z + 1),
      hh = word_of_nat (sec div 3600), mm = word_of_nat (sec mod 3600 div 60), ss = word_of_nat (sec mod 60)\<rparr>"
proof -
  define D where "D = days_before_year (EPOCH + k)"
  define y where "y = (word_of_nat k :: u16) + 1900"
  have yw: "y = word_of_nat (EPOCH + k)" by (simp add: y_def)
  then have uy: "unat y = EPOCH + k" using assms(3) by (simp only: unat_of_nat) simp
  have dv: "s div 86400 = word_of_nat (D + yd)" and md: "s mod 86400 = word_of_nat sec"
  proof -
    have "unat s div 86400 = D + yd" by (rule div_nat_eqI) (use assms(1,2) in \<open>simp_all add: D_def\<close>)
    moreover have "unat s mod 86400 = sec" using assms(1,2) by (simp only: mod_mult_self3 mod_less)
    ultimately show "s div 86400 = word_of_nat (D + yd)" "s mod 86400 = word_of_nat sec"
      by (simp_all add: word_arith_nat_div word_arith_nat_mod)
  qed
  have "yd < 366" using assms(4) by (simp add: year_days_def split: if_splits)
  then have sy: "sint (word_of_nat yd :: u64) = int yd"
    by (simp add: signed_of_nat signed_take_bit_int_eq_self)
  obtain m z where m: "1 \<le> m" "m \<le> 12" "z \<le> yd" "z = days_before_month (EPOCH + k) m"
      "yd - z < month_days (EPOCH + k) m" "month_loop y (int yd) 1 0 = Some (word_of_nat m, word_of_nat z)"
    using month_loop_result [of 1 y yd 0] assms(4) by (auto simp: uy days_before_month_def)
  have t: "(word_of_nat sec :: u64) div 3600 = word_of_nat (sec div 3600)"
      "(word_of_nat sec :: u64) mod 3600 div 60 = word_of_nat (sec mod 3600 div 60)"
      "(word_of_nat sec :: u64) mod 3600 mod 60 = word_of_nat (sec mod 60)"
    using assms(2) by (simp_all add: word_arith_nat_div word_arith_nat_mod unat_of_nat mod_mod_cancel)
  have u: "ucast (word_of_nat j :: u64) = (word_of_nat j :: u8)" if "j < 86400" for j
    using that by (simp add: ucast_small)
  have v: "ucast (word_of_nat (yd - z + 1) :: u16) = (word_of_nat (yd - z + 1) :: u8)"
    using \<open>yd < 366\<close> by (intro ucast_small) simp
  have "sec div 3600 < 86400" "sec mod 3600 div 60 < 86400" "sec mod 60 < 86400"
    using assms(2) by (simp_all add: less_mult_imp_div_less)
  note u = this [THEN u]
  have r: "ucast (word_of_nat yd - word_of_nat z :: u64) + 1 = (word_of_nat (yd - z + 1) :: u16)"
    using m(3) \<open>yd < 366\<close> by (simp add: ucast_small flip: of_nat_diff)
  have d: "word_of_nat (D + yd) - word_of_nat D = (word_of_nat yd :: u64)" by simp
  have "calcdatetime s = Some \<lparr>yy = word_of_nat (EPOCH + k), mo = word_of_nat m, dd = word_of_nat (yd - z + 1),
      hh = word_of_nat (sec div 3600), mm = word_of_nat (sec mod 3600 div 60), ss = word_of_nat (sec mod 60)\<rparr>"
    unfolding calcdatetime_def assms(5) dv md
    by (simp only: Let_def bind.bind_lunit prod.case D_def [symmetric] y_def [symmetric] yw [symmetric] d sy m(6) r t u v)
  with m show ?thesis by blast
qed

text \<open>Dates are determined by their second: the calendar of the reference is one-to-one.\<close>

lemma days_before_year_mono: "x \<le> y \<Longrightarrow> days_before_year x \<le> days_before_year y"
  by (auto simp: days_before_year_def intro!: sum_mono2)

lemma days_before_month_mono: "m \<le> n \<Longrightarrow> days_before_month y m \<le> days_before_month y n"
  by (auto simp: days_before_month_def intro!: sum_mono2)

lemma days_before_year_ge: "365 * (y - 1900) \<le> days_before_year y"
proof -
  have "(\<Sum>i = 1900 ..< y. 365) \<le> days_before_year y"
    unfolding days_before_year_def by (rule sum_mono) (simp add: year_days_def)
  then show ?thesis by (simp add: mult.commute)
qed

text \<open>The day, the month and the time of day from their parts.\<close>

lemma time_of_day: "sec div 3600 * 3600 + sec mod 3600 div 60 * 60 + sec mod 60 = (sec :: nat)"
proof -
  have "sec mod 60 = sec mod 3600 mod 60" by (simp add: mod_mod_cancel)
  then show ?thesis
    by (metis add.assoc div_mult_mod_eq)
qed

lemma fields_date:
  assumes "k < 63636" "1 \<le> m" "m \<le> 12" "j < month_days (EPOCH + k) m" "sec < 86400"
    "t = \<lparr>yy = word_of_nat (EPOCH + k), mo = word_of_nat m, dd = word_of_nat (j + 1),
      hh = word_of_nat (sec div 3600), mm = word_of_nat (sec mod 3600 div 60), ss = word_of_nat (sec mod 60)\<rparr>"
  shows "unat (yy t) = EPOCH + k" "unat (mo t) = m" "unat (dd t) = j + 1" "unat (hh t) = sec div 3600"
    "unat (mm t) = sec mod 3600 div 60" "unat (ss t) = sec mod 60"
proof -
  have "j + 1 \<le> 31" using assms(4) month_days_bounds [OF assms(2,3), of "EPOCH + k"] by simp
  moreover have "sec div 3600 < 24" "sec mod 3600 div 60 < 60" using assms(5) by (simp_all add: less_mult_imp_div_less)
  moreover have "sec mod 60 < 60" by simp
  ultimately show "unat (yy t) = EPOCH + k" "unat (mo t) = m" "unat (dd t) = j + 1" "unat (hh t) = sec div 3600"
      "unat (mm t) = sec mod 3600 div 60" "unat (ss t) = sec mod 60"
    using assms(1,3) unfolding assms(6) by (simp_all only: datetime.simps unat_of_nat) simp_all
qed

lemma calcdatetime_spec:
  assumes "unat s < 86400 * days_before_year 65536"
  shows "\<exists>t. calcdatetime s = Some t \<and> valid_date t \<and> epoch_seconds t = unat s"
proof -
  obtain k r where k: "k < 63636" "unat s = r + 86400 * days_before_year (EPOCH + k)" "r < 86400 * year_days (EPOCH + k)"
      "year_loop s 0 0 0 = Some (word_of_nat r, word_of_nat (days_before_year (EPOCH + k)), word_of_nat k)"
    using year_loop_years [OF assms] by blast
  define yd sec where "yd = r div 86400" and "sec = r mod 86400"
  have u: "unat s = (days_before_year (EPOCH + k) + yd) * 86400 + sec"
    using k(2) by (simp add: yd_def sec_def algebra_simps)
  have "sec < 86400" by (simp add: sec_def)
  moreover have "yd < year_days (EPOCH + k)" using k(3) by (simp add: yd_def less_mult_imp_div_less mult.commute)
  ultimately obtain m z t where m: "1 \<le> m" "m \<le> 12" "z \<le> yd" "z = days_before_month (EPOCH + k) m"
      "yd - z < month_days (EPOCH + k) m" "calcdatetime s = Some t"
      "t = \<lparr>yy = word_of_nat (EPOCH + k), mo = word_of_nat m, dd = word_of_nat (yd - z + 1),
        hh = word_of_nat (sec div 3600), mm = word_of_nat (sec mod 3600 div 60), ss = word_of_nat (sec mod 60)\<rparr>"
    using calcdatetime_fields [OF u _ k(1) _ k(4)] by blast
  note f = fields_date [OF k(1) m(1,2,5) \<open>sec < 86400\<close> m(7)]
  have "valid_date t"
    using m(1,2,5) \<open>sec < 86400\<close> by (simp add: valid_date_def f less_mult_imp_div_less)
  moreover have "epoch_seconds t = unat s"
    using m(3,4) time_of_day [of sec] by (simp add: epoch_seconds_def day_number_def f u)
  ultimately show ?thesis using m(6) by blast
qed

text \<open>
  C20. Until the end of the year 65535, the last that the year field holds, \<^verbatim>\<open>calcdatetime\<close> returns
  the Gregorian date and time of its second: a valid date (month, day of the month and time of day
  in range, leap years included), and the one whose distance from the start of 1900 is the count
  of seconds given.
\<close>

theorem calcdatetime_gregorian:
  assumes "unat s < 86400 * days_before_year 65536"
  shows "\<exists>t. calcdatetime s = Some t \<and> valid_date t \<and> epoch_seconds t = unat s"
  by (rule calcdatetime_spec [OF assms])

theorem calcdatetime_gregorian_witness:
  "\<exists>t. calcdatetime 3913056000 = Some t \<and> valid_date t \<and> epoch_seconds t = 3913056000"
  using calcdatetime_gregorian [of 3913056000] days_before_year_ge [of 65536] by simp

section \<open>And back\<close>

abbreviation leap_years :: "nat \<Rightarrow> nat" where
  "leap_years l \<equiv> length (filter leap_test [EPOCH ..< l])"

lemma fold_count: "fold (\<lambda>i c. if P i then c + 1 else c) xs (c :: 'a::len word) = c + word_of_nat (length (filter P xs))"
  by (induction xs arbitrary: c) (simp_all add: ac_simps)

lemma days_before_year_leap: "1900 \<le> l \<Longrightarrow> days_before_year l = (l - 1900) * 365 + leap_years l"
proof (induction l rule: dec_induct)
  case (step n)
  have "year_days n = 365 + (if leap_test n then 1 else 0)" by (simp add: leap_test_year_days year_days_def)
  moreover have "(Suc n - 1900) * 365 = (n - 1900) * 365 + 365" using step.hyps(1) by (simp add: Suc_diff_le)
  ultimately show ?case using step by (simp add: days_before_year_Suc del: mult_Suc Suc_diff_le)
qed (simp add: days_before_year_def)

lemma month_fold:
  assumes "1 \<le> m" "m \<le> 12"
  shows "fold (\<lambda>i t. t + (if i = 5 \<or> i = 7 \<or> i = 10 \<or> i = 12 then 30 else 0)
      + (if i = 3 then if leap_test l then 29 else 28 else 0)
      + (if i = 2 \<or> i = 4 \<or> i = 6 \<or> i = 8 \<or> i = 9 \<or> i = 11 then 31 else 0))
    [1 ..< m + 1] (t :: u32) = t + word_of_nat (days_before_month l m)"
proof -
  let ?f = "\<lambda>i t :: u32. t + (if i = 5 \<or> i = 7 \<or> i = 10 \<or> i = 12 then 30 else 0)
      + (if i = 3 then if leap_test l then 29 else 28 else 0)
      + (if i = 2 \<or> i = 4 \<or> i = 6 \<or> i = 8 \<or> i = 9 \<or> i = 11 then 31 else 0)"
  have st: "?f (Suc i) t = t + word_of_nat (month_days l i)" if "1 \<le> i" "i \<le> 11" for i t
    by (rule month_range [of i]) (use that in \<open>simp_all add: month_days_def leap_test_year_days\<close>)
  show ?thesis using assms(1,2)
  proof (induction m rule: dec_induct)
    case (step i)
    then have "fold ?f [1 ..< Suc i + 1] t = ?f (Suc i) (fold ?f [1 ..< i + 1] t)" by simp
    with step st [of i] show ?case
      by (simp only: Suc_leD less_Suc_eq_le days_before_month_Suc of_nat_add ac_simps)
  qed (simp add: days_before_month_def)
qed

lemma changedatetime_value:
  assumes "valid_date t"
  shows "changedatetime_to_seconds t =
    word_of_nat (day_number t * 86400 mod 4294967296 + unat (hh t) * 3600 + unat (mm t) * 60 + unat (ss t))"
proof -
  define l where "l = unat (yy t)"
  have v: "1900 \<le> l" "1 \<le> unat (mo t)" "unat (mo t) \<le> 12" "1 \<le> unat (dd t)"
    using assms by (auto simp: valid_date_def l_def)
  have "leap_years l \<le> l - 1900" using length_filter_le [of leap_test "[EPOCH ..< l]"] by simp
  moreover have "l < 65536" by (simp add: l_def)
  ultimately have run: "uint (word_of_nat (leap_years l) :: u16) = int (leap_years l)"
    by (simp add: uint_nat unat_of_nat)
  have td: "(int l - 1900 - int (leap_years l)) * 365 + int (leap_years l) * 366 = int (days_before_year l)"
    using v(1) by (simp add: days_before_year_leap of_nat_diff)
  define dn where "dn = day_number t"
  have dn: "(word_of_nat (days_before_year l) + word_of_nat (days_before_month l (unat (mo t))) + ucast (dd t) - 1 :: u32)
      = word_of_nat dn"
    using v(4) by (simp add: dn_def day_number_def of_nat_diff flip: l_def)
  have "word_of_nat dn * 24 * 3600 = (word_of_nat (dn * 86400) :: u32)" by simp
  then have u: "ucast (word_of_nat dn * 24 * 3600 :: u32) = (word_of_nat (dn * 86400 mod 4294967296) :: u64)"
    by (simp only: unsigned_of_nat take_bit_eq_mod) simp
  have f: "ucast b = (word_of_nat (unat b) :: u64)" for b :: u8 by simp
  show ?thesis
    unfolding changedatetime_to_seconds_def Let_def l_def [symmetric] fold_count month_fold [OF v(2,3)] add_0
      run td of_int_of_nat_eq dn u f
    by (simp add: dn_def)
qed

lemma valid_date_second:
  assumes "valid_date t"
  shows "epoch_seconds t div 86400 = day_number t"
    "epoch_seconds t mod 86400 = unat (hh t) * 3600 + unat (mm t) * 60 + unat (ss t)"
proof -
  define r where "r = unat (hh t) * 3600 + unat (mm t) * 60 + unat (ss t)"
  have "r < 86400" using assms by (simp add: valid_date_def r_def)
  moreover have "epoch_seconds t = day_number t * 86400 + r" by (simp add: epoch_seconds_def r_def)
  ultimately show "epoch_seconds t div 86400 = day_number t"
      "epoch_seconds t mod 86400 = unat (hh t) * 3600 + unat (mm t) * 60 + unat (ss t)"
    unfolding r_def [symmetric] by simp_all
qed

text \<open>
  \<^verbatim>\<open>changedatetime_to_seconds\<close> undoes \<^verbatim>\<open>calcdatetime\<close> exactly up to the end of the seventh of
  February 2036. The seconds of the whole days are computed in 32 bits although the result has 64,
  so every later date is sent to another second.
\<close>

theorem datetime_roundtrip:
  assumes "unat s < 86400 * days_before_year 65536" "calcdatetime s = Some t"
  shows "changedatetime_to_seconds t = s \<longleftrightarrow> unat s < 4295030400"
proof -
  from calcdatetime_spec [OF assms(1)] assms(2) have t: "valid_date t" "epoch_seconds t = unat s" by auto
  note d = valid_date_second [OF t(1), unfolded t(2)]
  define q r where "q = unat s div 86400" and "r = unat s mod 86400"
  have r: "r < 86400" and s: "unat s = q * 86400 + r" by (simp_all add: q_def r_def)
  have v: "changedatetime_to_seconds t = word_of_nat (q * 86400 mod 4294967296 + r)"
    unfolding changedatetime_value [OF t(1)] d [symmetric] by (simp only: d add.assoc q_def r_def)
  have "q * 86400 mod 4294967296 < 4294967296" by simp
  with r have "q * 86400 mod 4294967296 + r < 18446744073709551616" by linarith
  then have "unat (word_of_nat (q * 86400 mod 4294967296 + r) :: u64) = q * 86400 mod 4294967296 + r"
    by (intro unat_small) simp
  then have "changedatetime_to_seconds t = s \<longleftrightarrow> q * 86400 mod 4294967296 = q * 86400"
    unfolding v word_unat_eq_iff s by simp
  also have "\<dots> \<longleftrightarrow> q * 86400 < 4294967296" 
    by (rule iffI) (metis mod_less_divisor zero_less_numeral, rule mod_less)
  also have "\<dots> \<longleftrightarrow> unat s < 4295030400"
  proof (cases "q \<le> 49710")
    case False
    then have "49711 \<le> q" by simp
    with s show ?thesis by linarith
  qed (use r s in linarith)
  finally show ?thesis .
qed

theorem datetime_roundtrip_witness:
  "\<exists>t u. calcdatetime 3913056000 = Some t \<and> changedatetime_to_seconds t = 3913056000 \<and>
     calcdatetime 4295030400 = Some u \<and> changedatetime_to_seconds u \<noteq> 4295030400"
proof -
  have b: "unat (3913056000 :: u64) < 86400 * days_before_year 65536"
      "unat (4295030400 :: u64) < 86400 * days_before_year 65536"
    using days_before_year_ge [of 65536] by simp_all
  obtain t u where "calcdatetime 3913056000 = Some t" "calcdatetime 4295030400 = Some u"
    using calcdatetime_spec [OF b(1)] calcdatetime_spec [OF b(2)] by auto
  with datetime_roundtrip [OF b(1), of t] datetime_roundtrip [OF b(2), of u] show ?thesis by simp
qed

end
