(* ===== verification/Sntp.thy ===== *)
theory Sntp
  imports Sntp_Date Socket_Rx
begin

text \<open>
  The client of \<^verbatim>\<open>Internet/SNTP/sntp.c\<close> on the socket layer: the state of the file, the request, the
  answer and the time zones.
\<close>

section \<open>State\<close>

record ntpformat =
  dstaddr :: "u8 list"
  version :: u8
  leap :: u8
  mode :: u8
  stratum :: u8
  poll :: u8
  precision :: u8
  rootdelay :: u32
  rootdisp :: u32
  refid :: u8
  reftime :: u64
  org :: u64
  rec :: u64
  xmt :: u64

record 'w sntp =
  net :: "'w net"
  NTPformat :: ntpformat
  Nowdatetime :: datetime
  ntpmessage :: "u8 list"
  data_buf :: "u8 list"
  NTP_SOCKET :: u8
  time_zone :: u8
  ntp_retry_cnt :: u16

text \<open>\<^verbatim>\<open>sizeof(ntpformat)\<close>, with the padding before the two words and the four 64-bit fields.\<close>

abbreviation (input) MAX_SNTP_BUF_SIZE :: u16 where "MAX_SNTP_BUF_SIZE \<equiv> 56"
abbreviation (input) ntp_port :: u16 where "ntp_port \<equiv> 123"

section \<open>Operations\<close>

text \<open>The time zones of the \<^verbatim>\<open>switch\<close>, in half hours, with the exceptions of 45 minutes in seconds.\<close>

definition zone_table :: "int list" where
  "zone_table =
    [- 12 * 3600, - 11 * 3600, - 10 * 3600, - (9 * 3600 + 30 * 60), - 9 * 3600, - 8 * 3600, - 8 * 3600, - 7 * 3600,
     - 7 * 3600, - 6 * 3600, - 6 * 3600, - 5 * 3600, - 5 * 3600, - 5 * 3600, - (4 * 3600 + 30 * 60), - 4 * 3600,
     - 4 * 3600, - (3 * 3600 + 30 * 60), - 3 * 3600, - 2 * 3600, - 1 * 3600, 0, 0, 1 * 3600, 1 * 3600, 1 * 3600,
     2 * 3600, 2 * 3600, 3 * 3600, 3 * 3600, 3 * 3600 + 30 * 60, 4 * 3600, 4 * 3600 + 30 * 60, 5 * 3600,
     5 * 3600 + 30 * 60, 5 * 3600 + 45 * 60, 6 * 3600, 6 * 3600 + 30 * 60, 7 * 3600, 8 * 3600, 9 * 3600,
     9 * 3600 + 30 * 60, 10 * 3600, 10 * 3600 + 30 * 60, 11 * 3600, 11 * 3600 + 30 * 60, 12 * 3600,
     12 * 3600 + 45 * 60, 13 * 3600, 14 * 3600]"

definition zone_seconds :: "u8 \<Rightarrow> int" where
  "zone_seconds tz = (if tz < 50 then zone_table ! unat tz else 0)"

definition get_seconds_from_ntp_server :: "u8 list \<Rightarrow> nat \<Rightarrow> 'w sntp \<Rightarrow> 'w sntp option" where
  "get_seconds_from_ntp_server buf idx t =
     (if length buf < idx + 4 then None
      else do {
        let seconds = fold (\<lambda>i acc. push_bit 8 acc OR ucast (buf ! (idx + i))) [0, 1, 2, 3] (0 :: u64);
        now \<leftarrow> calcdatetime (seconds + word_of_int (zone_seconds (time_zone t)));
        Some (t\<lparr>Nowdatetime := now\<rparr>)
      })"

definition SNTP_init :: "u8 \<Rightarrow> u8 list \<Rightarrow> u8 \<Rightarrow> u8 list \<Rightarrow> 'w sntp \<Rightarrow> 'w sntp option" where
  "SNTP_init s ntp_server tz buf t =
     (if length ntp_server < 4 \<or> ntpmessage t = [] then None
      else
        let fmt = \<lparr>dstaddr = take 4 ntp_server, version = 4, leap = 0, mode = 3, stratum = 0, poll = 0, precision = 0,
              rootdelay = 0, rootdisp = 0, refid = 0, reftime = 0, org = 0, rec = 0, xmt = 1\<rparr>;
            Flag = push_bit 6 (leap fmt) + push_bit 3 (version fmt) + mode fmt
        in Some (t\<lparr>NTP_SOCKET := s, NTPformat := fmt, time_zone := tz, data_buf := buf,
             ntpmessage := (ntpmessage t)[0 := Flag]\<rparr>))"

definition with_net :: "('w net \<Rightarrow> ('v \<times> 'w net) option) \<Rightarrow> 'w sntp \<Rightarrow> ('v \<times> 'w sntp) option" where
  "with_net f t = do { (v, n) \<leftarrow> f (net t); Some (v, t\<lparr>net := n\<rparr>) }"

definition SNTP_send :: "'w wizchip \<Rightarrow> 'w sntp \<Rightarrow> 'w sntp option" where
  "SNTP_send E t = do {
     (_, t) \<leftarrow> with_net (sendto_W6x00 E (NTP_SOCKET t) (ntpmessage t) 48 (dstaddr (NTPformat t)) ntp_port 4) t;
     Some (t\<lparr>ntp_retry_cnt := ntp_retry_cnt t + 1\<rparr>)
   }"

text \<open>
  The result and, when it is 1, the time. The value of \<^verbatim>\<open>recvfrom\<close> is ignored, as in the source; the
  local variables it fills are an address of four bytes and a port.
\<close>

definition SNTP_run :: "'w wizchip \<Rightarrow> 'w sntp \<Rightarrow> (int \<times> datetime option \<times> 'w sntp) option" where
  "SNTP_run E t = do {
     (sr, t) \<leftarrow> with_net (\<lambda>n. Some (get_chip (getSn_SR E (NTP_SOCKET t)) n)) t;
     if sr = SOCK_UDP then do {
       (rsr, t) \<leftarrow> with_net (try_get (getSn_RX_RSR E (NTP_SOCKET t))) t;
       if 0 < rsr then do {
         let len = (if MAX_SNTP_BUF_SIZE < rsr then MAX_SNTP_BUF_SIZE else rsr);
         (r, out, n) \<leftarrow> recvfrom_W6x00 E (NTP_SOCKET t) len
           \<lparr>rx_buf = data_buf t, rx_addr = Some [0, 0, 0, 0], rx_port = Some 0, rx_addrlen = 0\<rparr> (net t);
         t \<leftarrow> get_seconds_from_ntp_server (rx_buf out) 40 (t\<lparr>net := n, data_buf := rx_buf out\<rparr>);
         let now = Nowdatetime t;
         (_, t) \<leftarrow> with_net (close E (NTP_SOCKET t)) (t\<lparr>ntp_retry_cnt := 0\<rparr>);
         Some (1, Some now, t)
       }
       else if ntp_retry_cnt t < 0xFFFF then
         if ntp_retry_cnt t = 0 then do { t \<leftarrow> SNTP_send E t; Some (0, None, t) }
         else if ntp_retry_cnt t mod 0xFFF = 0 then do { t \<leftarrow> SNTP_send E t; Some (0, None, t) }
         else Some (0, None, t)
       else do {
         (_, t) \<leftarrow> with_net (close E (NTP_SOCKET t)) (t\<lparr>ntp_retry_cnt := 0\<rparr>);
         Some (0, None, t)
       }
     }
     else if sr = SOCK_CLOSED then do {
       (_, t) \<leftarrow> with_net (socket E (NTP_SOCKET t) Sn_MR_UDP ntp_port 0) t;
       Some (0, None, t)
     }
     else Some (0, None, t)
   }"

section \<open>The answer\<close>

text \<open>The seconds of a time stamp, high byte first.\<close>

definition stamp_seconds :: "u8 list \<Rightarrow> nat" where
  "stamp_seconds bs = fold (\<lambda>b acc. 256 * acc + unat b) bs 0"

lemma shift_or: "push_bit 8 (w :: u64) OR ucast (b :: u8) = 256 * w + ucast b"
proof -
  have "push_bit 8 w + ucast b = push_bit 8 w OR ucast b"
    by (rule disjunctive_add) (auto simp: bit_push_bit_iff bit_unsigned_iff dest: bit_imp_le_length)
  then have "push_bit 8 w OR ucast b = push_bit 8 w + ucast b" by (rule sym)
  then show ?thesis by (simp add: push_bit_eq_mult mult.commute)
qed

lemma zone_seconds_range: "- 43200 \<le> zone_seconds tz" "zone_seconds tz \<le> 50400"
proof -
  have t: "list_all (\<lambda>z. - 43200 \<le> z \<and> z \<le> 50400) zone_table" "length zone_table = 50"
    by (simp_all add: zone_table_def)
  have "- 43200 \<le> zone_seconds tz \<and> zone_seconds tz \<le> 50400"
  proof (cases "tz < 50")
    case True
    then have "unat tz < length zone_table" by (simp add: t(2) word_less_nat_alt)
    then show ?thesis using t(1) True by (simp add: zone_seconds_def list_all_length)
  qed (simp add: zone_seconds_def)
  then show "- 43200 \<le> zone_seconds tz" "zone_seconds tz \<le> 50400" by simp_all
qed

lemma stamp_seconds_less: "length bs = 4 \<Longrightarrow> stamp_seconds bs < 4294967296"
proof -
  assume "length bs = 4"
  then obtain a b c d where "bs = [a, b, c, d]" by (auto simp: length_Suc_conv numeral_eq_Suc)
  then show ?thesis
    using unat_u8_less [of a] unat_u8_less [of b] unat_u8_less [of c] unat_u8_less [of d]
    by (simp add: stamp_seconds_def del: unat_u8_less)
qed

lemma take_drop_4: "i + 4 \<le> length b \<Longrightarrow> take 4 (drop i b) = [b ! i, b ! (i + 1), b ! (i + 2), b ! (i + 3)]"
  using Cons_nth_drop_Suc [of i b] Cons_nth_drop_Suc [of "i + 1" b] Cons_nth_drop_Suc [of "i + 2" b]
    Cons_nth_drop_Suc [of "i + 3" b]
  by (simp add: numeral_eq_Suc flip: Cons_nth_drop_Suc)

lemma get_seconds_spec:
  assumes "idx + 4 \<le> length b" "T = stamp_seconds (take 4 (drop idx b))" "0 \<le> int T + zone_seconds (time_zone t)"
  shows "\<exists>now. get_seconds_from_ntp_server b idx t = Some (t\<lparr>Nowdatetime := now\<rparr>) \<and> valid_date now \<and>
    int (epoch_seconds now) = int T + zone_seconds (time_zone t)"
proof -
  define z where "z = zone_seconds (time_zone t)"
  have z: "z \<le> 50400" by (simp add: z_def zone_seconds_range)
  have d: "take 4 (drop idx b) = [b ! idx, b ! (idx + 1), b ! (idx + 2), b ! (idx + 3)]"
    using assms(1) by (intro take_drop_4)
  have f: "fold (\<lambda>i acc. push_bit 8 acc OR ucast (b ! (idx + i))) [0, 1, 2, 3] (0 :: u64) = word_of_nat T"
    unfolding assms(2) d shift_or by (simp add: stamp_seconds_def)
  have T: "T < 4294967296" unfolding assms(2) by (rule stamp_seconds_less) (use assms(1) in simp)
  define s where "s = (word_of_nat T + word_of_int z :: u64)"
  have "s = word_of_int (int T + z)" by (simp add: s_def)
  then have "uint s = (int T + z) mod 2 ^ 64" by (simp only: uint_word_of_int) simp
  moreover have nn: "0 \<le> int T + z" using assms(3) by (simp only: z_def)
  moreover have "int T + z < 2 ^ 64" using T z by simp
  ultimately have u: "int (unat s) = int T + z" by (simp only: uint_nat [symmetric] mod_pos_pos_trivial)
  then have "unat s < 86400 * days_before_year 65536"
    using T z days_before_year_ge [of 65536] by linarith
  then obtain now where now: "calcdatetime s = Some now" "valid_date now" "epoch_seconds now = unat s"
    using calcdatetime_spec by blast
  have "get_seconds_from_ntp_server b idx t = Some (t\<lparr>Nowdatetime := now\<rparr>)"
    unfolding get_seconds_from_ntp_server_def Let_def f z_def [symmetric] s_def [symmetric] now(1) bind.bind_lunit
    using assms(1) by simp
  with now(2,3) u show ?thesis by (auto simp: z_def)
qed

section \<open>The client on a chip with memory\<close>

text \<open>
  C22. An answer that waits in the socket sets the time: \<^verbatim>\<open>SNTP_run\<close> reports success and the valid
  Gregorian date whose second since 1900 is the transmit time stamp at byte 40 of the datagram,
  moved by the time zone's offset; it closes the socket and resets its counter.
\<close>

theorem sntp_run_sets_time:
  assumes "sn = NTP_SOCKET t" "sn < 8" "rx_contract react sn" "close_contract react sn" "m = world (net t)"
    "m (sreg sn) 0x30 = SOCK_UDP" "m (sreg sn) 0 AND 0x0F = Sn_MR_UDP"
    "length (sock_remained_size (net t)) = 8" "length (sock_pack_info (net t)) = 8"
    "p = mem16 m (sreg sn) 0x228" "packet_ipv4 m (rxbuf sn) p" "44 \<le> packet_length m (rxbuf sn) p"
    "44 \<le> mem16 m (sreg sn) 0x224" "56 \<le> length (data_buf t)"
    "T = stamp_seconds (mem_bytes m (rxbuf sn) (p + 48) 4)" "0 \<le> int T + zone_seconds (time_zone t)"
  shows "\<exists>now t'. SNTP_run (ram_chip react) t = Some (1, Some now, t') \<and> valid_date now \<and>
    int (epoch_seconds now) = int T + zone_seconds (time_zone t) \<and>
    ntp_retry_cnt t' = 0 \<and> world (net t') (sreg sn) 0x30 = SOCK_CLOSED"
proof -
  let ?E = "ram_chip react"
  define len where "len = (if MAX_SNTP_BUF_SIZE < mem16 m (sreg sn) 0x224 then MAX_SNTP_BUF_SIZE else mem16 m (sreg sn) 0x224)"
  define k where "k = min len (packet_length m (rxbuf sn) p)"
  have len: "44 \<le> len" "len \<le> 56" using assms(13) by (auto simp: len_def not_less)
  then have k: "44 \<le> k" "k \<le> 56" using assms(12) by (auto simp: k_def min_def)
  then have uk: "44 \<le> unat k" "unat k \<le> 56" by (simp_all add: word_le_nat_alt)
  define out where "out = \<lparr>rx_buf = data_buf t, rx_addr = Some [0, 0, 0, 0], rx_port = Some (0 :: u16), rx_addrlen = (0 :: u8)\<rparr>"
  have o: "rx_addr out = Some [0, 0, 0, 0]" "rx_port out = Some 0" "rx_buf out = data_buf t" by (simp_all add: out_def)
  have l0: "len \<noteq> 0" using len(1) by auto
  have "m (sreg sn) 0x30 \<noteq> SOCK_CLOSED \<and> mem16 m (sreg sn) 0x224 \<noteq> 0" using assms(6,13) by auto
  then obtain out' n where r: "recvfrom_W6x00 ?E sn len out (net t) = Some (uint k, out', n)"
      "rx_buf out' = mem_bytes m (rxbuf sn) (p + 8) (unat k) @ drop (unat k) (data_buf t)"
    using recvfrom_from_header [OF assms(2,3,5,7) l0 assms(8,9,10,11) o(1) _ o(2) k_def, unfolded o(3)] uk assms(14)
    by (auto simp: recvfrom_W6x00_def)
  define t1 where "t1 = t\<lparr>net := n, data_buf := rx_buf out'\<rparr>"
  have "take 4 (drop 40 (rx_buf out')) = mem_bytes m (rxbuf sn) (p + 48) 4"
    using uk by (simp add: r(2) mem_bytes_def take_drop_4 nth_append upt_rec [of _ 4] ac_simps)
  then obtain now where now: "get_seconds_from_ntp_server (rx_buf out') 40 t1 = Some (t1\<lparr>Nowdatetime := now\<rparr>)" "valid_date now"
      "int (epoch_seconds now) = int T + zone_seconds (time_zone t)"
    using get_seconds_spec [of 40 "rx_buf out'" T t1] uk assms(14-16) by (auto simp: r(2) mem_bytes_def t1_def)
  obtain n2 where c: "close ?E sn n = Some (SOCK_OK, n2)" "world n2 (sreg sn) 0x30 = SOCK_CLOSED"
    using close_at [OF assms(2,4)] by blast
  define t2 where "t2 = t1\<lparr>Nowdatetime := now, ntp_retry_cnt := 0, net := n2\<rparr>"
  have reads: "with_net (\<lambda>n. Some (get_chip (getSn_SR ?E (NTP_SOCKET t)) n)) t = Some (SOCK_UDP, t)"
      "with_net (try_get (getSn_RX_RSR ?E (NTP_SOCKET t))) t = Some (mem16 m (sreg sn) 0x224, t)"
    using assms(5,6)
    by (simp_all add: with_net_def get_chip_def try_get_def ram_get [OF assms(2)] ram_sizes [OF assms(2)] flip: assms(1))
  have "0 < mem16 m (sreg sn) 0x224" using assms(13) by (auto simp: word_gt_0)
  moreover have "with_net (close ?E sn) (t1\<lparr>Nowdatetime := now, ntp_retry_cnt := 0\<rparr>) = Some (SOCK_OK, t2)"
    by (simp add: with_net_def c(1) t2_def t1_def)
  moreover have "recvfrom_W6x00 ?E (NTP_SOCKET t) len
      \<lparr>rx_buf = data_buf t, rx_addr = Some [0, 0, 0, 0], rx_port = Some 0, rx_addrlen = 0\<rparr> (net t) = Some (uint k, out', n)"
    using r(1) by (simp add: assms(1) out_def)
  ultimately have "SNTP_run ?E t = Some (1, Some now, t2)"
    unfolding SNTP_run_def reads bind.bind_lunit prod.case Let_def len_def [symmetric]
    using now(1) by (simp flip: t1_def) (simp add: t1_def flip: assms(1))
  then show ?thesis using now(2,3) c(2) by (auto simp: t2_def)
qed

text \<open>
  A request is sent once: while no answer has arrived the counter stays at 1, so that every later
  call leaves everything as it is and returns 0. Neither the repetition after 4095 calls nor the
  failure after 65535 is ever reached, and a lost datagram stops the client for good.
\<close>

theorem sntp_never_resends:
  assumes "sn = NTP_SOCKET t" "sn < 8" "world (net t) (sreg sn) 0x30 = SOCK_UDP"
    "mem16 (world (net t)) (sreg sn) 0x224 = 0" "ntp_retry_cnt t = 1"
  shows "SNTP_run (ram_chip react) t = Some (0, None, t)"
  using assms
  by (simp add: SNTP_run_def with_net_def get_chip_def try_get_def ram_get ram_sizes)

section \<open>Examples\<close>

text \<open>Socket 1 is a UDP socket that holds an answer of 48 bytes, stamped 1 January 2024; the zone is Korea's.\<close>

definition answer_mem :: chip_mem where
  "answer_mem b x =
     (if b = sreg 1 then if x = 0 then 2 else if x = 0x30 then 0x22 else if x = 0x225 then 56 else 0
      else if b = rxbuf 1 then if x = 1 then 48 else if x = 48 then 233 else if x = 49 then 60 else if x = 50 then 127
        else if x = 51 then 0 else 0 else 0)"

definition example_sntp :: "chip_mem \<Rightarrow> u16 \<Rightarrow> chip_mem sntp" where
  "example_sntp m cnt = \<lparr>net = net_start m,
     NTPformat = \<lparr>dstaddr = [216, 239, 35, 0], version = 4, leap = 0, mode = 3, stratum = 0, poll = 0, precision = 0,
       rootdelay = 0, rootdisp = 0, refid = 0, reftime = 0, org = 0, rec = 0, xmt = 1\<rparr>,
     Nowdatetime = \<lparr>yy = 0, mo = 0, dd = 0, hh = 0, mm = 0, ss = 0\<rparr>, ntpmessage = 0x23 # replicate 47 0,
     data_buf = replicate 56 0, NTP_SOCKET = 1, time_zone = 40, ntp_retry_cnt = cnt\<rparr>"

lemma answer_facts:
  "mem16 answer_mem (sreg 1) 0x228 = 0" "mem16 answer_mem (sreg 1) 0x224 = 56" "packet_length answer_mem (rxbuf 1) 0 = 48"
  "packet_ipv4 answer_mem (rxbuf 1) 0" "mem_bytes answer_mem (rxbuf 1) 48 4 = [233, 60, 127, 0]"
  "answer_mem (sreg 1) 0 = 2" "answer_mem (sreg 1) 0x30 = 0x22"
  by (simp_all add: mem16_def packet_length_def packet_ipv4_def mem_bytes_def answer_mem_def sreg_def rxbuf_def upt_rec [of _ 4])

theorem sntp_run_sets_time_witness:
  "\<exists>now t'. SNTP_run (ram_chip quiet_reaction) (example_sntp answer_mem 1) = Some (1, Some now, t') \<and>
     valid_date now \<and> epoch_seconds now = 3913056000 + 32400"
proof -
  have "zone_seconds 40 = 32400" by (simp add: zone_seconds_def zone_table_def)
  then show ?thesis
    using sntp_run_sets_time [of 1 "example_sntp answer_mem 1" quiet_reaction answer_mem 0 3913056000]
    by (simp add: example_sntp_def net_start_def answer_facts quiet_rx quiet_close stamp_seconds_def) auto
qed

theorem sntp_never_resends_witness:
  "SNTP_run (ram_chip quiet_reaction) (example_sntp (answer_mem(sreg 1 := (answer_mem (sreg 1))(0x225 := 0))) 1) =
     Some (0, None, example_sntp (answer_mem(sreg 1 := (answer_mem (sreg 1))(0x225 := 0))) 1)"
  using sntp_never_resends [of 1 "example_sntp (answer_mem(sreg 1 := (answer_mem (sreg 1))(0x225 := 0))) 1" quiet_reaction]
  by (simp add: example_sntp_def net_start_def mem16_def answer_mem_def)

end
