(* ===== verification/Dns.thy ===== *)
theory Dns
  imports Socket_Rx
begin

text \<open>
  The resolver of \<^verbatim>\<open>Internet/DNS/dns.c\<close>: the query it builds, the parser for replies, the timeout and
  the run over the socket layer. A pointer into the reply is its offset in the message buffer; reading
  outside the buffer and writing outside an array are \<open>None\<close>.
\<close>

section \<open>Constants and data\<close>

abbreviation (input) MAXCNAME :: int where "MAXCNAME \<equiv> 192"
abbreviation (input) MAX_DNS_BUF_SIZE :: u16 where "MAX_DNS_BUF_SIZE \<equiv> 256"
abbreviation (input) MAX_DNS_RETRY :: u8 where "MAX_DNS_RETRY \<equiv> 2"
abbreviation (input) DNS_WAIT_TIME :: u32 where "DNS_WAIT_TIME \<equiv> 3"
abbreviation (input) IPPORT_DOMAIN :: u16 where "IPPORT_DOMAIN \<equiv> 53"
abbreviation (input) DNS_MSG_ID :: u16 where "DNS_MSG_ID \<equiv> 0x1122"
abbreviation (input) TYPE_A :: u16 where "TYPE_A \<equiv> 1"
abbreviation (input) TYPE_NS :: u16 where "TYPE_NS \<equiv> 2"
abbreviation (input) TYPE_CNAME :: u16 where "TYPE_CNAME \<equiv> 5"
abbreviation (input) TYPE_SOA :: u16 where "TYPE_SOA \<equiv> 6"
abbreviation (input) TYPE_MB :: u16 where "TYPE_MB \<equiv> 7"
abbreviation (input) TYPE_MG :: u16 where "TYPE_MG \<equiv> 8"
abbreviation (input) TYPE_MR :: u16 where "TYPE_MR \<equiv> 9"
abbreviation (input) TYPE_PTR :: u16 where "TYPE_PTR \<equiv> 12"
abbreviation (input) TYPE_HINFO :: u16 where "TYPE_HINFO \<equiv> 13"
abbreviation (input) TYPE_MX :: u16 where "TYPE_MX \<equiv> 15"

abbreviation (input) dot :: u8 where "dot \<equiv> 46"

record dhdr =
  dh_id :: u16
  dh_qr :: u8
  dh_opcode :: u8
  dh_aa :: u8
  dh_tc :: u8
  dh_rd :: u8
  dh_ra :: u8
  dh_rcode :: u8
  dh_qdcount :: u16
  dh_ancount :: u16
  dh_nscount :: u16
  dh_arcount :: u16

definition byte_at :: "u8 list \<Rightarrow> nat \<Rightarrow> u8 option" where
  "byte_at s i = (if i < length s then Some (s ! i) else None)"

definition dns_get16 :: "u8 list \<Rightarrow> nat \<Rightarrow> u16 option" where
  "dns_get16 s i = do { h \<leftarrow> byte_at s i; l \<leftarrow> byte_at s (i + 1); Some (push_bit 8 (ucast h) + ucast l) }"

definition dns_put16 :: "u16 \<Rightarrow> u8 list" where
  "dns_put16 i = [ucast (drop_bit 8 i), ucast i]"

section \<open>Names\<close>

text \<open>
  The length byte of a segment, with one indirection followed: the length, the offset of the segment,
  whether an indirection has been seen, and the length of the compressed name so far.
\<close>

definition segment :: "u8 list \<Rightarrow> nat \<Rightarrow> bool \<Rightarrow> int \<Rightarrow> (nat \<times> nat \<times> bool \<times> int) option" where
  "segment msg cp indirect clen = do {
     slen \<leftarrow> byte_at msg cp;
     let clen = (if indirect then clen else clen + 1);
     if slen AND 0xc0 = 0xc0 then do {
       let clen = (if indirect then clen else clen + 1);
       lo \<leftarrow> byte_at msg (cp + 1);
       let cp = unat (slen AND 0x3f) * 256 + unat lo;
       slen \<leftarrow> byte_at msg cp;
       Some (unat slen, cp + 1, True, clen)
     } else Some (unat slen, cp + 1, indirect, clen)
   }"

text \<open>
  The loop of \<^verbatim>\<open>parse_name\<close>; \<open>out\<close> is what has been written to the caller's buffer, which has \<open>bsz\<close>
  bytes. \<^verbatim>\<open>nseg\<close> is zero exactly while nothing has been written.
\<close>

function parse_loop :: "u8 list \<Rightarrow> nat \<Rightarrow> nat \<Rightarrow> bool \<Rightarrow> int \<Rightarrow> int \<Rightarrow> u8 list \<Rightarrow> (int \<times> u8 list) option" where
  "parse_loop msg bsz cp indirect clen len out =
     (case segment msg cp indirect clen of None \<Rightarrow> None
      | Some (slen, cp, indirect, clen) \<Rightarrow>
          if slen = 0 then Some (clen, out)
          else if len - (int slen + 1) < 0 then Some (- 1, out)
          else if length msg < cp + slen \<or> bsz < length out + slen + 1 then None
          else parse_loop msg bsz (cp + slen) indirect (if indirect then clen else clen + int slen)
                 (len - (int slen + 1)) (out @ take slen (drop cp msg) @ [dot]))"
  by pat_completeness auto
termination
  by (relation "measure (\<lambda>(msg, bsz, cp, indirect, clen, len, out). nat len)") auto

declare parse_loop.simps [simp del]

text \<open>The length of the compressed name, or -1; and the text with its final NUL.\<close>

definition parse_name :: "u8 list \<Rightarrow> nat \<Rightarrow> nat \<Rightarrow> int \<Rightarrow> (int \<times> u8 list) option" where
  "parse_name msg compressed bsz len = do {
     (clen, out) \<leftarrow> parse_loop msg bsz compressed False 0 len [];
     if clen = - 1 then Some (- 1, out)
     else
       let out = (if out = [] then [dot] else out) @ [0]
       in if bsz < length out then None else Some (clen, out)
   }"

section \<open>Replies\<close>

text \<open>The pointer behind a record, or the null pointer.\<close>

definition dns_question :: "u8 list \<Rightarrow> nat \<Rightarrow> nat option option" where
  "dns_question msg cp = do {
     (len, _) \<leftarrow> parse_name msg cp 192 MAXCNAME;
     Some (if len = - 1 then None else Some (cp + nat len + 4))
   }"

text \<open>Skipping a name inside the data of a record.\<close>

definition skip_name :: "u8 list \<Rightarrow> nat \<Rightarrow> nat option option" where
  "skip_name msg cp = do {
     (len, _) \<leftarrow> parse_name msg cp 192 MAXCNAME;
     Some (if len = - 1 then None else Some (cp + nat len))
   }"

definition dns_answer :: "u8 list \<Rightarrow> nat \<Rightarrow> u8 list \<Rightarrow> (nat option \<times> u8 list) option" where
  "dns_answer msg cp ip = do {
     (len, _) \<leftarrow> parse_name msg cp 192 MAXCNAME;
     if len = - 1 then Some (None, ip)
     else do {
       let cp = cp + nat len;
       type \<leftarrow> dns_get16 msg cp;
       let cp = cp + 10;
       if type = TYPE_A then do {
         a \<leftarrow> byte_at msg cp; b \<leftarrow> byte_at msg (cp + 1); c \<leftarrow> byte_at msg (cp + 2); d \<leftarrow> byte_at msg (cp + 3);
         if length ip < 4 then None else Some (Some (cp + 4), [a, b, c, d] @ drop 4 ip)
       }
       else if type = TYPE_CNAME \<or> type = TYPE_MB \<or> type = TYPE_MG \<or> type = TYPE_MR \<or> type = TYPE_NS \<or> type = TYPE_PTR
         then do { p \<leftarrow> skip_name msg cp; Some (p, ip) }
       else if type = TYPE_HINFO then do {
         n \<leftarrow> byte_at msg cp;
         let cp = cp + 1 + unat n;
         n \<leftarrow> byte_at msg cp;
         Some (Some (cp + 1 + unat n), ip)
       }
       else if type = TYPE_MX then do { p \<leftarrow> skip_name msg (cp + 2); Some (p, ip) }
       else if type = TYPE_SOA then do {
         p \<leftarrow> skip_name msg cp;
         case p of None \<Rightarrow> Some (None, ip)
         | Some cp \<Rightarrow> do {
             p \<leftarrow> skip_name msg cp;
             Some (map_option (\<lambda>cp. cp + 20) p, ip)
           }
       }
       else Some (Some cp, ip)
     }
   }"

primrec question_loop :: "nat \<Rightarrow> u8 list \<Rightarrow> nat \<Rightarrow> nat option option" where
  "question_loop 0 msg cp = Some (Some cp)"
| "question_loop (Suc n) msg cp = do {
     p \<leftarrow> dns_question msg cp;
     case p of None \<Rightarrow> Some None | Some cp \<Rightarrow> question_loop n msg cp
   }"

primrec answer_loop :: "nat \<Rightarrow> u8 list \<Rightarrow> nat \<Rightarrow> u8 list \<Rightarrow> (nat option \<times> u8 list) option" where
  "answer_loop 0 msg cp ip = Some (Some cp, ip)"
| "answer_loop (Suc n) msg cp ip = do {
     (p, ip) \<leftarrow> dns_answer msg cp ip;
     case p of None \<Rightarrow> Some (None, ip) | Some cp \<Rightarrow> answer_loop n msg cp ip
   }"

definition dns_flag :: "u16 \<Rightarrow> u16 \<Rightarrow> u8" where
  "dns_flag tmp bits = (if tmp AND bits \<noteq> 0 then 1 else 0)"

definition parse_header :: "u8 list \<Rightarrow> dhdr option" where
  "parse_header msg = do {
     i \<leftarrow> dns_get16 msg 0;
     tmp \<leftarrow> dns_get16 msg 2;
     qd \<leftarrow> dns_get16 msg 4;
     an \<leftarrow> dns_get16 msg 6;
     ns \<leftarrow> dns_get16 msg 8;
     ar \<leftarrow> dns_get16 msg 10;
     Some \<lparr>dh_id = i, dh_qr = dns_flag tmp 0x8000, dh_opcode = ucast (drop_bit 11 tmp AND 0xf), dh_aa = dns_flag tmp 0x0400,
       dh_tc = dns_flag tmp 0x0200, dh_rd = dns_flag tmp 0x0100, dh_ra = dns_flag tmp 0x0080, dh_rcode = ucast (tmp AND 0xf),
       dh_qdcount = qd, dh_ancount = an, dh_nscount = ns, dh_arcount = ar\<rparr>
   }"

definition parseDNSMSG :: "u8 list \<Rightarrow> u8 list \<Rightarrow> (int \<times> dhdr \<times> u8 list) option" where
  "parseDNSMSG msg ip = do {
     h \<leftarrow> parse_header msg;
     p \<leftarrow> question_loop (unat (dh_qdcount h)) msg 12;
     case p of None \<Rightarrow> Some (- 1, h, ip)
     | Some cp \<Rightarrow> do {
         (p, ip) \<leftarrow> answer_loop (unat (dh_ancount h)) msg cp ip;
         Some (if p = None then - 1 else if dh_rcode h = 0 then 1 else 0, h, ip)
       }
   }"

section \<open>Queries\<close>

text \<open>
  The loop of \<^verbatim>\<open>dns_makequery\<close> on the characters of the name that are left: components with their
  lengths in front. An empty component ends the loop.
\<close>

function query_name :: "u8 list \<Rightarrow> u8 list" where
  "query_name dname =
     (let n = length (takeWhile (\<lambda>c. c \<noteq> dot) dname) in
      if n = 0 then [0]
      else word_of_nat n # take n dname @ (if n < length dname then query_name (drop (n + 1) dname) else [0]))"
  by pat_completeness auto
termination by (relation "measure length") (auto simp: Let_def)

declare query_name.simps [simp del]

text \<open>
  The characters before the NUL of a C string are copied to an array of \<^verbatim>\<open>MAXCNAME\<close> bytes. The result
  is the length of the message, the buffer and the new message identifier.
\<close>

definition dns_makequery :: "u16 \<Rightarrow> u8 list \<Rightarrow> u8 list \<Rightarrow> u16 \<Rightarrow> (int \<times> u8 list \<times> u16) option" where
  "dns_makequery op name buf msgid =
     (let str = takeWhile (\<lambda>c. c \<noteq> 0) name; msgid = msgid + 1 in
      if length str = length name \<or> 192 < length str + 1 then None
      else
        let msg = dns_put16 msgid @ dns_put16 (push_bit 11 op OR 0x0100) @ dns_put16 1 @ dns_put16 0 @ dns_put16 0 @ dns_put16 0 @
              query_name str @ dns_put16 1 @ dns_put16 1
        in if length buf < length msg then None
           else Some (int (length msg), msg @ drop (length msg) buf, msgid))"

section \<open>The client\<close>

record 'w dns =
  dns_net :: "'w net"
  pDNSMSG :: "u8 list"
  DNS_SOCKET :: u8
  DNS_MSGID :: u16
  dns_1s_tick :: u32
  retry_count :: u8

definition check_DNS_timeout :: "'w dns \<Rightarrow> int \<times> 'w dns" where
  "check_DNS_timeout d =
     (if DNS_WAIT_TIME \<le> dns_1s_tick d then
        let d = d\<lparr>dns_1s_tick := 0\<rparr> in
        if MAX_DNS_RETRY \<le> retry_count d then (- 1, d\<lparr>retry_count := 0\<rparr>)
        else (0, d\<lparr>retry_count := retry_count d + 1\<rparr>)
      else (1, d))"

definition DNS_init :: "u8 \<Rightarrow> u8 list \<Rightarrow> 'w dns \<Rightarrow> 'w dns" where
  "DNS_init s buf d = d\<lparr>DNS_SOCKET := s, pDNSMSG := buf, DNS_MSGID := DNS_MSG_ID\<rparr>"

definition DNS_time_handler :: "'w dns \<Rightarrow> 'w dns" where
  "DNS_time_handler d = d\<lparr>dns_1s_tick := dns_1s_tick d + 1\<rparr>"

definition with_dns :: "('w net \<Rightarrow> ('v \<times> 'w net) option) \<Rightarrow> 'w dns \<Rightarrow> ('v \<times> 'w dns) option" where
  "with_dns f d = do { (v, n) \<leftarrow> f (dns_net d); Some (v, d\<lparr>dns_net := n\<rparr>) }"

text \<open>
  The loop of \<^verbatim>\<open>DNS_run\<close>: the result and the address. The timer interrupt is the parameter \<open>ticks\<close>, how
  often it has run since it was last asked. The variable \<^verbatim>\<open>len\<close> holds the received size, so a repeated
  query has that length.
\<close>

partial_function (option) dns_wait ::
    "'w wizchip \<Rightarrow> ('w \<Rightarrow> nat \<times> 'w) \<Rightarrow> u8 list \<Rightarrow> u8 list \<Rightarrow> 'w dns \<Rightarrow> (int \<times> u8 list \<times> 'w dns) option" where
  "dns_wait E ticks dns_ip ip d = do {
     (len, d) \<leftarrow> with_dns (try_get (getSn_RX_RSR E (DNS_SOCKET d))) d;
     if 0 < len then do {
       let len = (if MAX_DNS_BUF_SIZE < len then MAX_DNS_BUF_SIZE else len);
       (_, out, n) \<leftarrow> recvfrom_W6x00 E (DNS_SOCKET d) len
         \<lparr>rx_buf = pDNSMSG d, rx_addr = Some [0, 0, 0, 0], rx_port = Some 0, rx_addrlen = 0\<rparr> (dns_net d);
       let d = d\<lparr>dns_net := n, pDNSMSG := rx_buf out\<rparr>;
       (ret, _, ip) \<leftarrow> parseDNSMSG (pDNSMSG d) ip;
       (_, d) \<leftarrow> with_dns (close E (DNS_SOCKET d)) d;
       Some (ret, ip, d)
     }
     else do {
       (k, d) \<leftarrow> with_dns (\<lambda>n. Some (get_chip ticks n)) d;
       case check_DNS_timeout ((DNS_time_handler ^^ k) d) of (ret, d) \<Rightarrow>
         if ret < 0 then do {
           (_, d) \<leftarrow> with_dns (close E (DNS_SOCKET d)) d;
           Some (0, ip, d)
         }
         else if ret = 0 then do {
           (_, d) \<leftarrow> with_dns (sendto_W6x00 E (DNS_SOCKET d) (pDNSMSG d) len dns_ip IPPORT_DOMAIN 4) d;
           dns_wait E ticks dns_ip ip d
         }
         else dns_wait E ticks dns_ip ip d
     }
   }"

definition DNS_run ::
    "'w wizchip \<Rightarrow> ('w \<Rightarrow> nat \<times> 'w) \<Rightarrow> u8 list \<Rightarrow> u8 list \<Rightarrow> u8 list \<Rightarrow> 'w dns \<Rightarrow> (int \<times> u8 list \<times> 'w dns) option" where
  "DNS_run E ticks dns_ip name ip d = do {
     let d = d\<lparr>retry_count := 0, dns_1s_tick := 0\<rparr>;
     (_, d) \<leftarrow> with_dns (socket E (DNS_SOCKET d) Sn_MR_UDP 0 0) d;
     (len, msg, i) \<leftarrow> dns_makequery 0 name (pDNSMSG d) (DNS_MSGID d);
     let d = d\<lparr>pDNSMSG := msg, DNS_MSGID := i\<rparr>;
     (_, d) \<leftarrow> with_dns (sendto_W6x00 E (DNS_SOCKET d) (pDNSMSG d) (word_of_int len) dns_ip IPPORT_DOMAIN 4) d;
     dns_wait E ticks dns_ip ip d
   }"

section \<open>Names round trip\<close>

text \<open>A label of a domain name, and the wire format of a list of labels.\<close>

definition label_ok :: "u8 list \<Rightarrow> bool" where
  "label_ok l \<longleftrightarrow> l \<noteq> [] \<and> length l < 64 \<and> dot \<notin> set l \<and> 0 \<notin> set l"

definition wire_labels :: "u8 list list \<Rightarrow> u8 list" where
  "wire_labels ls = concat (map (\<lambda>l. word_of_nat (length l) # l) ls)"

fun dotted :: "u8 list list \<Rightarrow> u8 list" where
  "dotted [] = []"
| "dotted [l] = l"
| "dotted (l # ls) = l @ dot # dotted ls"

lemma takeWhile_label: "dot \<notin> set l \<Longrightarrow> takeWhile (\<lambda>c. c \<noteq> dot) (l @ dot # xs) = l" "dot \<notin> set l \<Longrightarrow> takeWhile (\<lambda>c. c \<noteq> dot) l = l"
  by (induction l) auto

lemma query_name_labels: "\<forall>l \<in> set ls. label_ok l \<Longrightarrow> query_name (dotted ls) = wire_labels ls @ [0]"
proof (induction ls rule: dotted.induct)
  case 1
  show ?case by (simp add: query_name.simps wire_labels_def)
next
  case (2 l)
  then show ?case by (subst query_name.simps) (simp add: label_ok_def takeWhile_label wire_labels_def)
next
  case (3 l k ls)
  then show ?case by (subst query_name.simps) (simp add: label_ok_def takeWhile_label wire_labels_def)
qed

text \<open>The segment at an offset that holds a label, or the final zero.\<close>

lemma segment_label:
  assumes "drop cp msg = word_of_nat n # rest" "n < 64"
  shows "segment msg cp ind clen = Some (n, cp + 1, ind, if ind then clen else clen + 1)"
proof -
  have cp: "cp < length msg" "msg ! cp = word_of_nat n"
    using assms(1) by (auto simp: nth_via_drop intro: ccontr)
  have u: "unat (word_of_nat n :: u8) = n" using assms(2) by (simp add: unat_of_nat)
  have "(word_of_nat n :: u8) AND 0xc0 \<noteq> 0xc0"
  proof
    assume a: "(word_of_nat n :: u8) AND 0xc0 = 0xc0"
    have "bit ((word_of_nat n :: u8) AND 0xc0) 6" unfolding a by simp
    then have "bit (word_of_nat n :: u8) 6" by (simp add: bit_and_iff)
    then have "bit (unat (word_of_nat n :: u8)) 6" by (simp add: bit_unsigned_iff)
    then have "bit n 6" by (simp only: u)
    then show False using assms(2) by (simp add: bit_iff_odd)
  qed
  then show ?thesis by (simp add: segment_def byte_at_def cp u)
qed

lemma parse_loop_labels:
  assumes "\<forall>l \<in> set ls. label_ok l" "drop cp msg = wire_labels ls @ 0 # rest"
    "int (length (wire_labels ls)) \<le> len" "length out + length (wire_labels ls) \<le> bsz"
  shows "parse_loop msg bsz cp ind clen len out =
    Some (if ind then clen else clen + int (length (wire_labels ls)) + 1, out @ concat (map (\<lambda>l. l @ [dot]) ls))"
  using assms
proof (induction ls arbitrary: cp clen len out)
  case Nil
  then show ?case
    using segment_label [of cp msg 0 rest ind clen] by (subst parse_loop.simps) (simp add: wire_labels_def)
next
  case (Cons l ls)
  have l: "l \<noteq> []" "length l < 64" using Cons.prems(1) by (simp_all add: label_ok_def)
  have d: "drop cp msg = word_of_nat (length l) # l @ wire_labels ls @ 0 # rest"
    using Cons.prems(2) by (simp add: wire_labels_def)
  have d1: "drop (cp + 1) msg = l @ wire_labels ls @ 0 # rest"
    using arg_cong [OF d, of "drop 1"] by (simp add: drop_drop add.commute)
  have d2: "drop (cp + 1 + length l) msg = wire_labels ls @ 0 # rest"
    using arg_cong [OF d1, of "drop (length l)"] by (simp add: drop_drop add.commute)
  have "length (drop (cp + 1) msg) \<ge> length l" unfolding d1 by simp
  then have "cp + 1 + length l \<le> length msg" using l(1) by (cases "cp + 1 \<le> length msg") auto
  moreover have "take (length l) (drop (cp + 1) msg) = l" unfolding d1 by simp
  moreover have "length (wire_labels (l # ls)) = 1 + length l + length (wire_labels ls)" by (simp add: wire_labels_def)
  ultimately show ?case
    using Cons.prems(1,3,4) l Cons.IH [OF _ d2] segment_label [OF d l(2), of ind clen]
    by (subst parse_loop.simps) simp
qed

lemma length_dotted: "ls \<noteq> [] \<Longrightarrow> length (dotted ls) + 1 = length (wire_labels ls)"
  by (induction ls rule: dotted.induct) (simp_all add: wire_labels_def)

lemma length_text: "length (concat (map (\<lambda>l. l @ [dot]) ls)) = length (wire_labels ls)"
  by (induction ls) (simp_all add: wire_labels_def)

lemma zero_dotted: "\<forall>l \<in> set ls. label_ok l \<Longrightarrow> 0 \<notin> set (dotted ls)"
  by (induction ls rule: dotted.induct) (auto simp: label_ok_def)

text \<open>What \<^verbatim>\<open>parse_name\<close> makes of a name, which must leave room for the NUL.\<close>

lemma parse_name_labels:
  assumes "ls \<noteq> []" "\<forall>l \<in> set ls. label_ok l" "drop cp msg = wire_labels ls @ 0 # rest" "length (wire_labels ls) \<le> 192"
  shows "parse_name msg cp 192 192 =
    (if length (wire_labels ls) = 192 then None
     else Some (int (length (wire_labels ls)) + 1, concat (map (\<lambda>l. l @ [dot]) ls) @ [0]))"
proof -
  have "concat (map (\<lambda>l. l @ [dot]) ls) \<noteq> []" using assms(1) by (cases ls) simp_all
  then show ?thesis
    using parse_loop_labels [OF assms(2,3), of 192 "[]" 192 False 0] assms(4) length_text [of ls]
    by (simp add: parse_name_def)
qed

lemma makequery_labels:
  assumes "ls \<noteq> []" "\<forall>l \<in> set ls. label_ok l" "length (wire_labels ls) \<le> 192" "name = dotted ls @ 0 # junk"
    "length (wire_labels ls) + 17 \<le> length buf"
  shows "\<exists>h. length h = 12 \<and> dns_makequery op name buf i = Some (int (length (wire_labels ls)) + 17,
    h @ (wire_labels ls @ 0 # [0, 1, 0, 1]) @ drop (length (wire_labels ls) + 17) buf, i + 1)"
proof -
  have z: "takeWhile (\<lambda>c. c \<noteq> 0) (dotted ls @ 0 # junk) = dotted ls"
    using zero_dotted [OF assms(2)] by (simp add: takeWhile_append takeWhile_eq_all_conv)
  then show ?thesis
    using assms(3,5) length_dotted [OF assms(1)] query_name_labels [OF assms(2)]
    by (intro exI [of _ "dns_put16 (i + 1) @ dns_put16 (push_bit 11 op OR 0x0100) @ dns_put16 1 @ dns_put16 0 @ dns_put16 0 @ dns_put16 0"])
       (simp add: dns_makequery_def Let_def assms(4) z dns_put16_def numeral_eq_Suc)
qed

text \<open>
  C33. The query for a domain name of at most 190 characters carries the name: parsing the message that
  \<^verbatim>\<open>dns_makequery\<close> has built gives back the labels, each with its dot, and moves over the whole name.
\<close>

theorem dns_query_roundtrip:
  assumes "ls \<noteq> []" "\<forall>l \<in> set ls. label_ok l" "length (wire_labels ls) < 192" "name = dotted ls @ 0 # junk"
    "length (wire_labels ls) + 17 \<le> length buf"
  shows "\<exists>msg. dns_makequery op name buf i = Some (int (length (wire_labels ls)) + 17, msg, i + 1) \<and>
    parse_name msg 12 192 192 = Some (int (length (wire_labels ls)) + 1, concat (map (\<lambda>l. l @ [dot]) ls) @ [0])"
proof -
  obtain h where h: "length h = 12" "dns_makequery op name buf i = Some (int (length (wire_labels ls)) + 17,
    h @ (wire_labels ls @ 0 # [0, 1, 0, 1]) @ drop (length (wire_labels ls) + 17) buf, i + 1)"
    using makequery_labels [OF assms(1,2) less_imp_le [OF assms(3)] assms(4,5)] by blast
  then show ?thesis
    using parse_name_labels [OF assms(1,2), of 12 _ "[0, 1, 0, 1] @ drop (length (wire_labels ls) + 17) buf"] assms(3)
    by (intro exI [of _ "h @ (wire_labels ls @ 0 # [0, 1, 0, 1]) @ drop (length (wire_labels ls) + 17) buf"]) simp
qed

text \<open>
  A name of 191 characters is accepted by \<^verbatim>\<open>dns_makequery\<close>, but a reply that repeats the question
  makes \<^verbatim>\<open>parse_name\<close> write its final NUL behind the array of 192 bytes.
\<close>

theorem dns_longest_name_overflows:
  assumes "ls \<noteq> []" "\<forall>l \<in> set ls. label_ok l" "length (dotted ls) = 191" "name = dotted ls @ 0 # junk" "209 \<le> length buf"
  shows "\<exists>msg. dns_makequery op name buf i = Some (209, msg, i + 1) \<and> dns_question msg 12 = None"
proof -
  have len: "length (wire_labels ls) = 192" using length_dotted [OF assms(1)] assms(3) by simp
  then obtain h where h: "length h = 12" "dns_makequery op name buf i = Some (209,
    h @ (wire_labels ls @ 0 # [0, 1, 0, 1]) @ drop 209 buf, i + 1)"
    using makequery_labels [OF assms(1,2) _ assms(4), of buf op i] assms(5) by auto
  then show ?thesis
    using parse_name_labels [OF assms(1,2), of 12 _ "[0, 1, 0, 1] @ drop 209 buf"] len
    by (intro exI [of _ "h @ (wire_labels ls @ 0 # [0, 1, 0, 1]) @ drop 209 buf"]) (simp add: dns_question_def)
qed

section \<open>Replies round trip\<close>

text \<open>A record with an address for the name in the question, which a compressed name points to.\<close>

definition a_record :: "u8 list \<Rightarrow> u8 list \<Rightarrow> u8 list" where
  "a_record ttl addr = [0xC0, 0x0C, 0, 1, 0, 1] @ ttl @ [0, 4] @ addr"

definition dns_reply :: "u8 list \<Rightarrow> u8 list \<Rightarrow> u8 list list \<Rightarrow> (u8 list \<times> u8 list) list \<Rightarrow> u8 list \<Rightarrow> u8 list" where
  "dns_reply start counts ls as rest =
     start @ [0, 1] @ dns_put16 (word_of_nat (length as)) @ counts @ wire_labels ls @ 0 # [0, 1, 0, 1] @
       concat (map (\<lambda>(ttl, addr). a_record ttl addr) as) @ rest"

lemma byte_at_drop: "drop cp msg = b # bs \<Longrightarrow> byte_at msg cp = Some b"
  by (cases "cp < length msg") (simp_all add: byte_at_def nth_via_drop)

lemma drop_more: "drop cp msg = xs @ ys \<Longrightarrow> n = length xs \<Longrightarrow> drop (cp + n) msg = ys"
  by (simp add: add.commute [of cp] flip: drop_drop [of "length xs" cp]) 

lemma byte_at_list:
  assumes "drop cp msg = bs" "i < length bs"
  shows "byte_at msg (cp + i) = Some (bs ! i)"
proof -
  have "cp + i < length msg" using assms by (metis length_drop less_diff_conv add.commute)
  moreover have "msg ! (cp + i) = bs ! i" using assms nth_drop [of cp msg i] calculation by simp
  ultimately show ?thesis by (simp add: byte_at_def)
qed

lemma parse_name_pointer:
  assumes "ls \<noteq> []" "\<forall>l \<in> set ls. label_ok l" "drop 12 msg = wire_labels ls @ 0 # rest" "length (wire_labels ls) < 192"
    "drop cp msg = 0xC0 # 0x0C # bs"
  shows "parse_name msg cp 192 192 = Some (2, concat (map (\<lambda>l. l @ [dot]) ls) @ [0])"
proof -
  obtain l ls' where l: "ls = l # ls'" "length l < 64" using assms(1,2) by (cases ls) (auto simp: label_ok_def)
  have d: "drop 12 msg = word_of_nat (length l) # l @ wire_labels ls' @ 0 # rest"
    using assms(3) by (simp add: l(1) wire_labels_def)
  have "segment msg cp False 0 = segment msg 12 True 2"
    using byte_at_list [OF assms(5), of 0] byte_at_list [OF assms(5), of 1] byte_at_drop [OF d]
    unfolding segment_label [OF d l(2)]
    using l(2) by (simp add: segment_def unat_of_nat)
  then have "parse_loop msg 192 cp False 0 192 [] = parse_loop msg 192 12 True 2 192 []"
    by (subst parse_loop.simps, subst (2) parse_loop.simps) simp
  moreover have "concat (map (\<lambda>l. l @ [dot]) ls) \<noteq> []" by (simp add: l(1))
  ultimately show ?thesis
    using parse_loop_labels [OF assms(2,3), of 192 "[]" 192 True 2] assms(4) length_text [of ls]
    by (simp add: parse_name_def)
qed

lemma dns_answer_a:
  assumes "parse_name msg cp 192 192 = Some (2, t)" "drop cp msg = a_record ttl addr @ bs" "length ttl = 4" "length addr = 4" "4 \<le> length ip"
  shows "dns_answer msg cp ip = Some (Some (cp + 16), addr @ drop 4 ip)"
proof -
  obtain a b c d where a: "addr = [a, b, c, d]" using assms(4) by (auto simp: length_Suc_conv numeral_eq_Suc)
  obtain t1 t2 t3 t4 where t: "ttl = [t1, t2, t3, t4]" using assms(3) by (auto simp: length_Suc_conv numeral_eq_Suc)
  note at = byte_at_list [OF assms(2), unfolded a_record_def a t, simplified]
  have "dns_get16 msg (cp + 2) = Some 1"
    using at [of 2] at [of 3] by (simp add: dns_get16_def numeral_eq_Suc)
  moreover have "byte_at msg (cp + 2 + 10) = Some a" "byte_at msg (cp + 2 + 10 + 1) = Some b" "byte_at msg (cp + 2 + 10 + 2) = Some c"
      "byte_at msg (cp + 2 + 10 + 3) = Some d"
    using at [of 12] at [of 13] at [of 14] at [of 15] by (simp_all add: add.commute [of _ cp])
  ultimately show ?thesis using assms(1,5) by (simp add: dns_answer_def a)
qed

lemma answer_loop_a:
  assumes "ls \<noteq> []" "\<forall>l \<in> set ls. label_ok l" "drop 12 msg = wire_labels ls @ 0 # qs" "length (wire_labels ls) < 192"
    "drop cp msg = concat (map (\<lambda>(ttl, addr). a_record ttl addr) as) @ bs" "\<forall>(ttl, addr) \<in> set as. length ttl = 4 \<and> length addr = 4"
    "4 \<le> length ip"
  shows "answer_loop (length as) msg cp ip = Some (Some (cp + 16 * length as), if as = [] then ip else snd (last as) @ drop 4 ip)"
  using assms(5-7)
proof (induction as arbitrary: cp ip)
  case (Cons r as)
  obtain ttl addr where r: "r = (ttl, addr)" by (cases r)
  have len: "length ttl = 4" "length addr = 4" using Cons.prems(2) by (simp_all add: r)
  have d: "drop cp msg = a_record ttl addr @ concat (map (\<lambda>(ttl, addr). a_record ttl addr) as) @ bs"
    using Cons.prems(1) by (simp add: r)
  have "parse_name msg cp 192 192 = Some (2, concat (map (\<lambda>l. l @ [dot]) ls) @ [0])"
    by (rule parse_name_pointer [OF assms(1-4)], subst d) (simp add: a_record_def)
  moreover have "drop (cp + 16) msg = concat (map (\<lambda>(ttl, addr). a_record ttl addr) as) @ bs"
    by (rule drop_more [OF d]) (simp add: a_record_def len)
  ultimately show ?case
    using Cons.IH [of "cp + 16" "addr @ drop 4 ip"] Cons.prems(2,3) len
    by (simp add: r dns_answer_a [OF _ d])
qed simp

lemma get_put16:
  assumes "drop i msg = dns_put16 w @ bs"
  shows "dns_get16 msg i = Some w"
  using byte_at_list [OF assms, of 0] byte_at_list [OF assms, of 1] by (simp add: dns_get16_def dns_put16_def hi_lo)

lemma flags_rcode: "(push_bit 8 (ucast (a :: u8)) + ucast (b :: u8) :: u16) AND 0xf = ucast (b AND 0xf)"
proof -
  have "push_bit 8 (ucast a) + ucast b = (push_bit 8 (ucast a) OR ucast b :: u16)"
    by (rule disjunctive_add) (auto simp: bit_push_bit_iff bit_unsigned_iff dest: bit_imp_le_length)
  moreover have m: "bit (0xf :: u16) n \<longleftrightarrow> n < 4" "bit (0xf :: u8) n \<longleftrightarrow> n < 4" for n
    using bit_mask_iff [of 4 n, where 'a = u16] bit_mask_iff [of 4 n, where 'a = u8] by (auto simp: mask_eq_exp_minus_1)
  ultimately show ?thesis
    by (intro bit_eqI) (auto simp: bit_and_iff bit_or_iff bit_unsigned_iff bit_push_bit_iff m simp del: bit_numeral_word_iff)
qed

text \<open>
  A reply without error code to a question for one name is understood: when it answers with address
  records that point back to the name, \<^verbatim>\<open>parseDNSMSG\<close> returns 1 and the address of the last of them,
  whatever the identifier and the other flags of the message are (neither is compared with the query).
  A reply without answers also returns 1, and leaves the caller's address as it was.
\<close>

theorem dns_reply_address:
  assumes "ls \<noteq> []" "\<forall>l \<in> set ls. label_ok l" "length (wire_labels ls) < 192"
    "length start = 4" "start ! 3 AND 0xf = 0" "length counts = 4"
    "length as < 65536" "\<forall>(ttl, addr) \<in> set as. length ttl = 4 \<and> length addr = 4" "4 \<le> length ip"
  shows "\<exists>h. parseDNSMSG (dns_reply start counts ls as rest) ip =
    Some (1, h, if as = [] then ip else snd (last as) @ drop 4 ip)"
proof -
  define msg where "msg = dns_reply start counts ls as rest"
  let ?n = "word_of_nat (length as) :: u16" let ?w = "length (wire_labels ls)"
  let ?as = "concat (map (\<lambda>(ttl, addr). a_record ttl addr) as) @ rest"
  obtain i1 i2 f1 f2 where st: "start = [i1, i2, f1, f2]" using assms(4) by (auto simp: length_Suc_conv numeral_eq_Suc)
  obtain c1 c2 c3 c4 where ct: "counts = [c1, c2, c3, c4]" using assms(6) by (auto simp: length_Suc_conv numeral_eq_Suc)
  have m: "msg = [i1, i2, f1, f2, 0, 1] @ dns_put16 ?n @ [c1, c2, c3, c4] @ wire_labels ls @ 0 # [0, 1, 0, 1] @ ?as"
    by (simp add: msg_def dns_reply_def st ct)
  have d12: "drop 12 msg = wire_labels ls @ 0 # [0, 1, 0, 1] @ ?as" by (simp add: m dns_put16_def)
  have nat6: "unat ?n = length as" using assms(7) by (simp add: unat_of_nat)
  have "f2 AND 0xf = 0" using assms(5) by (simp add: st)
  moreover have g: "dns_get16 msg 2 = Some (push_bit 8 (ucast f1) + ucast f2)" "dns_get16 msg 4 = Some 1"
    by (simp_all add: dns_get16_def byte_at_def m dns_put16_def)
  moreover have "dns_get16 msg 6 = Some ?n" by (rule get_put16) (simp add: m)
  moreover have "\<exists>i. dns_get16 msg 0 = Some i" "\<exists>i. dns_get16 msg 8 = Some i" "\<exists>i. dns_get16 msg 10 = Some i"
    by (simp_all add: dns_get16_def byte_at_def m dns_put16_def)
  ultimately obtain h where h: "parse_header msg = Some h" "dh_qdcount h = 1" "dh_ancount h = ?n" "dh_rcode h = 0"
    by (auto simp: parse_header_def flags_rcode)
  have pn: "parse_name msg 12 192 192 = Some (int ?w + 1, concat (map (\<lambda>l. l @ [dot]) ls) @ [0])"
    using parse_name_labels [OF assms(1,2) d12] assms(3) by simp
  have "nat (int ?w + 1) = ?w + 1" by simp
  then have q: "question_loop 1 msg 12 = Some (Some (12 + (?w + 5)))"
    using pn by (simp add: dns_question_def)
  have "drop (12 + (?w + 5)) msg = ?as" using drop_more [of 12 msg "wire_labels ls @ 0 # [0, 1, 0, 1]" ?as] d12 by simp
  note a = answer_loop_a [OF assms(1,2) d12 assms(3) this assms(8,9)]
  show ?thesis
    unfolding msg_def [symmetric] parseDNSMSG_def h(1) bind.bind_lunit h(2-4) nat6 unat_1 q option.case a prod.case by simp
qed

section \<open>Waiting for a reply that does not come\<close>

text \<open>An open UDP socket that has received nothing, with its send pointer at \<open>p\<close>.\<close>

definition lonely :: "u8 \<Rightarrow> u16 \<Rightarrow> chip_mem \<Rightarrow> bool" where
  "lonely sn p m \<longleftrightarrow> m (sreg sn) 0 = Sn_MR_UDP \<and> m (sreg sn) 0x30 = SOCK_UDP \<and> mem16 m (sreg sn) 0x224 = 0 \<and>
     mem16 m (sreg sn) 0x20C = p"

text \<open>
  The documented behaviour of such a socket on which nothing arrives: the destination and the cleared
  interrupts do not change it, and a datagram that is sent is reported as sent.
\<close>

definition lonely_contract :: "reaction \<Rightarrow> u8 \<Rightarrow> bool" where
  "lonely_contract react sn \<longleftrightarrow> tx_contract react sn \<and> close_contract react sn \<and>
     (\<forall>p m. lonely sn p m \<longrightarrow>
        (\<forall>a v. a \<in> {0x28, 0x140, 0x141} \<longrightarrow> lonely sn p (react (sreg sn) a [v] m)) \<and>
        (\<forall>bs. length bs = 4 \<longrightarrow> lonely sn p (react (sreg sn) 0x120 bs m)) \<and>
        (let m' = react (sreg sn) 0x10 [Sn_CR_SEND] m in
           lonely sn p m' \<and> m' (sreg sn) 0x10 = 0 \<and> m' (sreg sn) 0x20 AND Sn_IR_SENDOK \<noteq> 0))"

lemma lonely_close: "lonely_contract react sn \<Longrightarrow> close_contract react sn"
  by (simp add: lonely_contract_def)

lemma hi_lo_bytes: "p = push_bit 8 (ucast h) + ucast l \<Longrightarrow> ucast (drop_bit 8 (p :: u16)) = (h :: u8) \<and> ucast p = (l :: u8)"
proof -
  assume "p = push_bit 8 (ucast h) + ucast l"
  also have "\<dots> = push_bit 8 (ucast h) OR ucast l"
    by (rule disjunctive_add) (auto simp: bit_push_bit_iff bit_unsigned_iff dest: bit_imp_le_length)
  finally show ?thesis
    by (auto intro!: bit_eqI simp: bit_unsigned_iff bit_drop_bit_eq bit_or_iff bit_push_bit_iff impossible_bit
        dest: bit_imp_le_length)
qed

text \<open>A datagram without data.\<close>

lemma sendto_empty:
  assumes "sn < 8" "lonely_contract react sn" "lonely sn p (world s)" "4 \<le> length addr" "port \<noteq> 0"
  shows "\<exists>m. sendto_W6x00 (ram_chip react) sn b 0 addr port 4 s = Some (0, s\<lparr>world := m\<rparr>) \<and> lonely sn p m"
proof -
  let ?E = "ram_chip react"
  have keep: "lonely sn p (react (sreg sn) a [v] m)" if "lonely sn p m" "a \<in> {0x28, 0x140, 0x141}" for a v m
    using assms(2) that unfolding lonely_contract_def by blast
  define m1 where "m1 = react (sreg sn) 0x120 (take 4 addr) (world s)"
  have m1: "lonely sn p m1" 
    using assms(2-4) unfolding m1_def lonely_contract_def by (simp add: min_absorb2)
  define m2 where "m2 = react (sreg sn) 0x141 [ucast port] (react (sreg sn) 0x140 [ucast (drop_bit 8 port)] m1)"
  have m2: "lonely sn p m2" unfolding m2_def by (intro keep m1) simp_all
  have tx: "tx_contract react sn" using assms(2) by (simp add: lonely_contract_def)
  have data: "wiz_send_data ?E sn b 0 m2 = Some m2"
  proof -
    have a: "push_bit 8 (ucast p) + WIZCHIP_TXBUF_BLOCK sn = chip_addr (txbuf sn) p"
      by (simp add: chip_addr_def blocks [OF assms(1)])
    have p: "mem16 m2 (sreg sn) 0x20C = p" using m2 by (simp add: lonely_def)
    then have "ucast (drop_bit 8 p) = m2 (sreg sn) 0x20C" "ucast p = m2 (sreg sn) 0x20D"
      using hi_lo_bytes [of p "m2 (sreg sn) 0x20C" "m2 (sreg sn) 0x20D"] by (auto simp: mem16_def)
    moreover have "mem_store (txbuf sn) p [] m2 = m2" by (simp add: mem_store_def)
    ultimately show ?thesis
      using tx p
      by (simp add: wiz_send_data_def ram_get [OF assms(1)] ram_set [OF assms(1)] a write_bytes_def ram_write_buf
          block_flag [OF assms(1)] tx_contract_def Let_def fun_eq_iff)
  qed
  define m3 where "m3 = react (sreg sn) 0x10 [Sn_CR_SEND] m2"
  have m3: "lonely sn p m3" "m3 (sreg sn) 0x10 = 0" "m3 (sreg sn) 0x20 AND Sn_IR_SENDOK \<noteq> 0"
    using assms(2) m2 by (auto simp: lonely_contract_def m3_def Let_def)
  define m4 where "m4 = react (sreg sn) 0x28 [Sn_IR_SENDOK] m3"
  have m4: "lonely sn p m4" unfolding m4_def by (intro keep m3) simp
  have mr: "get_chip (getSn_MR ?E sn) s = (2, s)"
    using assms(3) by (simp add: get_chip_def ram_get [OF assms(1)] lonely_def)
  have dest: "sendto_dest ?E sn addr port 4 2 s = Some (Inr Sn_CR_SEND, s\<lparr>world := m2\<rparr>)"
    using assms(4,5)
    by (simp add: sendto_dest_def try_put_def put_chip_def setSn_DIPR_def setSn_DPORTR_def write_bytes_def write16_def
        dest_regs(1,2) [OF assms(1)] dest_regs(3) ram_write ram_write_buf block_flag [OF assms(1)] m1_def m2_def)
  have room: "sendto_room ?E sn 0 (s\<lparr>world := m2\<rparr>) = Some (None, s\<lparr>world := m2\<rparr>)"
    using m2 by (subst sendto_room.simps) (simp add: try_get_def get_chip_def ram_sizes [OF assms(1)] ram_get [OF assms(1)] lonely_def)
  have cmd: "command ?E sn Sn_CR_SEND (s\<lparr>world := m2\<rparr>) = Some (s\<lparr>world := m3\<rparr>)"
    using ram_wait [of "getSn_CR ?E sn" m3 0 "\<lambda>v. v \<noteq> 0"] m3(2)
    by (simp add: command_def try_put_def ram_set [OF assms(1)] ram_get [OF assms(1)] flip: m3_def)
  have sent: "sendto_done ?E sn (s\<lparr>world := m3\<rparr>) = Some (True, s\<lparr>world := m4\<rparr>)"
    using m3(3) by (subst sendto_done.simps) (simp add: get_chip_def put_chip_def ram_get [OF assms(1)] ram_set [OF assms(1)] m4_def)
  have "\<not> 8 \<le> sn" using assms(1) by (simp add: not_le)
  then have "sendto_W6x00 ?E sn b 0 addr port 4 s = Some (0, s\<lparr>world := m4\<rparr>)"
    unfolding sendto_W6x00_def sendto_IO_6_def Let_def mr prod.case dest bind.bind_lunit sum.case
    by (simp add: get_chip_def ram_get [OF assms(1)] room try_put_def data cmd sent)
  with m4 show ?thesis by blast
qed

lemma handler_power: "(DNS_time_handler ^^ k) d = d\<lparr>dns_1s_tick := dns_1s_tick d + word_of_nat k\<rparr>"
  by (induction k) (simp_all add: DNS_time_handler_def ac_simps)

lemma unat_numeral_3: "unat (3 :: u32) = 3" "unat (2 :: u8) = 2" by simp_all

lemma retry_measure: "r < 2 \<Longrightarrow> t < 3 \<Longrightarrow> (3 - (r + 1)) * 3 < (3 - r) * 3 - (t :: nat)"
proof -
  assume "r < 2" "t < 3"
  then have "r = 0 \<or> r = 1" by auto
  then show ?thesis using \<open>t < 3\<close> by auto
qed

text \<open>One turn of the loop: the timer has run \<open>k\<close> times since the last turn.\<close>

lemma wait_turn:
  assumes "sn < 8" "DNS_SOCKET d = sn" "lonely sn p (world (dns_net d))" "ticks (world (dns_net d)) = (k, m)"
  defines "d1 \<equiv> d\<lparr>dns_net := (dns_net d)\<lparr>world := m\<rparr>, dns_1s_tick := dns_1s_tick d + word_of_nat k\<rparr>"
  shows "dns_wait (ram_chip react) ticks dns_ip ip d =
    (case check_DNS_timeout d1 of (ret, d) \<Rightarrow>
       if ret < 0 then do { (_, d) \<leftarrow> with_dns (close (ram_chip react) (DNS_SOCKET d)) d; Some (0, ip, d) }
       else if ret = 0 then do {
         (_, d) \<leftarrow> with_dns (sendto_W6x00 (ram_chip react) (DNS_SOCKET d) (pDNSMSG d) 0 dns_ip IPPORT_DOMAIN 4) d;
         dns_wait (ram_chip react) ticks dns_ip ip d }
       else dns_wait (ram_chip react) ticks dns_ip ip d)"
proof -
  have "with_dns (try_get (getSn_RX_RSR (ram_chip react) (DNS_SOCKET d))) d = Some (0, d)"
    using assms(3) by (simp add: with_dns_def try_get_def ram_sizes [OF assms(1)] assms(2) lonely_def)
  moreover have "with_dns (\<lambda>n. Some (get_chip ticks n)) d = Some (k, d\<lparr>dns_net := (dns_net d)\<lparr>world := m\<rparr>\<rparr>)"
    by (simp add: with_dns_def get_chip_def assms(4))
  ultimately show ?thesis
    by (subst dns_wait.simps) (simp add: handler_power d1_def split del: if_split)
qed

lemma retry_turn:
  assumes "sn < 8" "lonely_contract react sn" "DNS_SOCKET d = sn" "lonely sn p (world (dns_net d))" "4 \<le> length dns_ip"
    "ticks (world (dns_net d)) = (k, m)" "lonely sn p m" "3 \<le> dns_1s_tick d + word_of_nat k" "retry_count d < 2"
  shows "\<exists>m'. dns_wait (ram_chip react) ticks dns_ip ip d = dns_wait (ram_chip react) ticks dns_ip ip
      (d\<lparr>dns_net := (dns_net d)\<lparr>world := m'\<rparr>, dns_1s_tick := 0, retry_count := retry_count d + 1\<rparr>) \<and> lonely sn p m'"
proof -
  define d2 where "d2 = d\<lparr>dns_net := (dns_net d)\<lparr>world := m\<rparr>, dns_1s_tick := 0, retry_count := retry_count d + 1\<rparr>"
  obtain m' where m': "sendto_W6x00 (ram_chip react) sn (pDNSMSG d) 0 dns_ip 53 4 ((dns_net d)\<lparr>world := m\<rparr>)
      = Some (0, (dns_net d)\<lparr>world := m'\<rparr>)" "lonely sn p m'"
    using sendto_empty [OF assms(1,2), of p "(dns_net d)\<lparr>world := m\<rparr>" dns_ip 53 "pDNSMSG d"] assms(5,7) by auto
  have c: "check_DNS_timeout (d\<lparr>dns_net := (dns_net d)\<lparr>world := m\<rparr>, dns_1s_tick := dns_1s_tick d + word_of_nat k\<rparr>) = (0, d2)"
    using assms(8,9) by (auto simp: check_DNS_timeout_def Let_def d2_def)
  have "dns_wait (ram_chip react) ticks dns_ip ip d = dns_wait (ram_chip react) ticks dns_ip ip (d2\<lparr>dns_net := (dns_net d)\<lparr>world := m'\<rparr>\<rparr>)"
    using assms(3) m'(1)
    by (subst wait_turn [where ticks = ticks and d = d, OF assms(1,3,4,6)]) (simp add: c with_dns_def d2_def)
  moreover have "d2\<lparr>dns_net := (dns_net d)\<lparr>world := m'\<rparr>\<rparr> =
      d\<lparr>dns_net := (dns_net d)\<lparr>world := m'\<rparr>, dns_1s_tick := 0, retry_count := retry_count d + 1\<rparr>" by (simp add: d2_def)
  ultimately show ?thesis using m'(2) by (intro exI [of _ m']) (simp only:)
qed

text \<open>
  A repeated query is empty: when the wait for a reply has lasted three seconds and a retry is
  left, \<^verbatim>\<open>DNS_run\<close> sends a datagram of length zero (the variable \<^verbatim>\<open>len\<close> holds the received size by
  then), so the chip's send pointer is where it was and the query never leaves again.
\<close>

theorem dns_retry_sends_nothing:
  assumes "sn < 8" "lonely_contract react sn" "DNS_SOCKET d = sn" "lonely sn p (world (dns_net d))" "4 \<le> length dns_ip"
    "ticks (world (dns_net d)) = (k, m)" "lonely sn p m" "3 \<le> dns_1s_tick d + word_of_nat k" "retry_count d < 2"
  shows "\<exists>m'. dns_wait (ram_chip react) ticks dns_ip ip d = dns_wait (ram_chip react) ticks dns_ip ip
      (d\<lparr>dns_net := (dns_net d)\<lparr>world := m'\<rparr>, dns_1s_tick := 0, retry_count := retry_count d + 1\<rparr>) \<and>
    mem16 m' (sreg sn) 0x20C = mem16 (world (dns_net d)) (sreg sn) 0x20C"
  using retry_turn [where ticks = ticks and d = d, OF assms] assms(4) by (auto simp: lonely_def)

text \<open>
  C34. The wait of \<^verbatim>\<open>DNS_run\<close> ends when no reply comes: if the timer interrupt keeps coming, however often
  the loop looks at the socket between two of its ticks (\<open>left\<close> is how many more looks it is at most until the
  next one), the call gives up, returns 0, leaves the caller's address as it was and closes the socket.
\<close>

theorem dns_wait_gives_up:
  assumes "sn < 8" "lonely_contract react sn" "DNS_SOCKET d = sn" "lonely sn p (world (dns_net d))" "4 \<le> length dns_ip"
    "retry_count d \<le> 2" "dns_1s_tick d < 3"
    and ticks: "\<And>m. lonely sn p m \<Longrightarrow> \<exists>k m'. ticks m = (k, m') \<and> k < 1000 \<and> lonely sn p m' \<and> (k = 0 \<longrightarrow> left m' < (left m :: nat))"
  shows "\<exists>d'. dns_wait (ram_chip react) ticks dns_ip ip d = Some (0, ip, d') \<and>
    world (dns_net d') (sreg sn) 0x30 = SOCK_CLOSED"
  using assms(3,4,6,7)
proof (induction d rule: wf_induct_rule [OF wf_measures [of "[\<lambda>d. (3 - unat (retry_count d)) * 3 - unat (dns_1s_tick d),
    \<lambda>d. left (world (dns_net d))]"]])
  case less: (1 d)
  obtain k m where k: "ticks (world (dns_net d)) = (k, m)" "k = 0 \<longrightarrow> left m < left (world (dns_net d))" "k < 1000" "lonely sn p m"
    using ticks [OF less.prems(2)] by blast
  define t where "t = dns_1s_tick d + word_of_nat k"
  have d3: "unat (dns_1s_tick d) < 3" using less.prems(4) by (simp add: word_less_nat_alt)
  then have t: "unat t = unat (dns_1s_tick d) + k"
    using k(3) by (simp add: t_def unat_word_ariths unat_of_nat)
  have r: "unat (retry_count d) \<le> 2" using less.prems(3) by (simp add: word_le_nat_alt)
  define d1 where "d1 = d\<lparr>dns_net := (dns_net d)\<lparr>world := m\<rparr>, dns_1s_tick := t\<rparr>"
  note turn = wait_turn [where ticks = ticks and d = d, OF assms(1) less.prems(1,2) k(1), folded t_def, folded d1_def]
  consider "unat t < 3" | "3 \<le> t" "retry_count d < 2" | "3 \<le> t" "2 \<le> retry_count d"
    by (metis not_le word_le_nat_alt unat_numeral_3)
  then show ?case
  proof cases
    case 1
    have "\<not> 3 \<le> t" using 1 by (simp add: word_le_nat_alt)
    then have "dns_wait (ram_chip react) ticks dns_ip ip d = dns_wait (ram_chip react) ticks dns_ip ip d1"
      by (subst turn) (simp add: check_DNS_timeout_def d1_def)
    moreover have "0 < k \<Longrightarrow> (3 - unat (retry_count d)) * 3 - unat t < (3 - unat (retry_count d)) * 3 - unat (dns_1s_tick d)"
      using 1 r unfolding t by (intro diff_less_mono2) simp_all
    then have "(d1, d) \<in> measures [\<lambda>d. (3 - unat (retry_count d)) * 3 - unat (dns_1s_tick d), \<lambda>d. left (world (dns_net d))]"
      using k(2) t by (cases "k = 0") (simp_all add: d1_def)
    moreover have "t < 3" using 1 by (simp add: word_less_nat_alt)
    ultimately show ?thesis
      using less.IH [of d1] less.prems(1,3) k(4) by (simp only:) (simp add: d1_def)
  next
    case 2
    then obtain m' where m':
      "dns_wait (ram_chip react) ticks dns_ip ip d = dns_wait (ram_chip react) ticks dns_ip ip
        (d\<lparr>dns_net := (dns_net d)\<lparr>world := m'\<rparr>, dns_1s_tick := 0, retry_count := retry_count d + 1\<rparr>)" "lonely sn p m'"
      using retry_turn [where ip = ip and ticks = ticks and d = d, OF assms(1,2) less.prems(1,2) assms(5) k(1,4)]
      unfolding t_def by blast
    have u: "unat (retry_count d + 1) = unat (retry_count d) + 1" using r by (simp add: unat_word_ariths)
    have "unat (retry_count d) < 2" using 2(2) by (simp add: word_less_nat_alt)
    then have "(3 - unat (retry_count d + 1)) * 3 < (3 - unat (retry_count d)) * 3 - unat (dns_1s_tick d)"
      unfolding u using d3 by (rule retry_measure)
    moreover have "retry_count d + 1 \<le> 2"
      using \<open>unat (retry_count d) < 2\<close> unfolding word_le_nat_alt u unat_numeral_3 by linarith
    ultimately have dec: "(3 - unat (retry_count d + 1)) * 3 < (3 - unat (retry_count d)) * 3 - unat (dns_1s_tick d)"
      "retry_count d + 1 \<le> 2" .
    show ?thesis
      unfolding m'(1) by (rule less.IH) (use less.prems(1) m'(2) dec in simp_all)
  next
    case 3
    obtain n where n: "close (ram_chip react) sn ((dns_net d)\<lparr>world := m\<rparr>) = Some (SOCK_OK, n)" "world n (sreg sn) 0x30 = SOCK_CLOSED"
      using close_at [OF assms(1) lonely_close [OF assms(2)]] by blast
    define d2 where "d2 = d1\<lparr>dns_1s_tick := 0, retry_count := 0\<rparr>"
    have "check_DNS_timeout d1 = (- 1, d2)" using 3 by (simp add: check_DNS_timeout_def d1_def d2_def)
    moreover have "with_dns (close (ram_chip react) (DNS_SOCKET d2)) d2 = Some (SOCK_OK, d2\<lparr>dns_net := n\<rparr>)"
      using n(1) less.prems(1) by (simp add: with_dns_def d2_def d1_def)
    ultimately have "dns_wait (ram_chip react) ticks dns_ip ip d = Some (0, ip, d2\<lparr>dns_net := n\<rparr>)"
      by (subst turn) simp
    with n(2) show ?thesis by simp
  qed
qed

section \<open>Examples\<close>

lemma label_www: "label_ok [119, 119, 119]" "label_ok [100, 101]"
  by (simp_all add: label_ok_def)

theorem dns_query_roundtrip_witness:
  "\<exists>msg. dns_makequery 0 ([119, 119, 119, 46, 100, 101] @ [0, 7]) (replicate 256 0) DNS_MSG_ID = Some (24, msg, DNS_MSG_ID + 1) \<and>
     parse_name msg 12 192 192 = Some (8, [119, 119, 119, 46, 100, 101, 46, 0])"
  using dns_query_roundtrip [of "[[119, 119, 119], [100, 101]]" "[119, 119, 119, 46, 100, 101] @ [0, 7]" "[7]" "replicate 256 0" 0 DNS_MSG_ID]
  by (simp add: label_www wire_labels_def)

theorem dns_longest_name_overflows_witness:
  "\<exists>msg. dns_makequery 0 (dotted (replicate 96 [97]) @ 0 # []) (replicate 256 0) DNS_MSG_ID = Some (209, msg, DNS_MSG_ID + 1) \<and>
     dns_question msg 12 = None"
proof (rule dns_longest_name_overflows)
  have "length (dotted (replicate (Suc n) [97])) = 2 * n + 1" for n
    using length_dotted [of "replicate (Suc n) [97]"] by (simp add: wire_labels_def sum_list_replicate length_concat)
  from this [of 95] show "length (dotted (replicate 96 [97])) = 191" by simp
qed (simp_all add: label_ok_def)

theorem dns_reply_address_witness:
  "\<exists>h. parseDNSMSG (dns_reply [0x11, 0x23, 0x81, 0x80] [0, 0, 0, 0] [[119, 119, 119], [100, 101]]
      [([0, 0, 0, 60], [10, 0, 0, 1]), ([0, 0, 0, 60], [10, 0, 0, 2])] [1, 2, 3]) [9, 9, 9, 9] = Some (1, h, [10, 0, 0, 2])"
  using dns_reply_address [of "[[119, 119, 119], [100, 101]]" "[0x11, 0x23, 0x81, 0x80]" "[0, 0, 0, 0]"
    "[([0, 0, 0, 60], [10, 0, 0, 1]), ([0, 0, 0, 60], [10, 0, 0, 2])]" "[9, 9, 9, 9]" "[1, 2, 3]"]
  by (simp add: label_www wire_labels_def)

text \<open>A chip that reports every datagram as sent.\<close>

definition silent_reaction :: reaction where
  "silent_reaction b a bs m = (let m = quiet_reaction b a bs m in
     if a = 0x10 \<and> b AND 3 = 1 \<and> bs = [Sn_CR_SEND] then m(b := (m b)(0x20 := Sn_IR_SENDOK)) else m)"

definition silent_mem :: chip_mem where
  "silent_mem b x = (if b = sreg 1 then if x = 0 then 2 else if x = 0x30 then 0x22 else 0 else 0)"

definition example_dns :: "u32 \<Rightarrow> chip_mem dns" where
  "example_dns t = \<lparr>dns_net = net_start silent_mem, pDNSMSG = replicate 256 0, DNS_SOCKET = 1, DNS_MSGID = DNS_MSG_ID,
     dns_1s_tick = t, retry_count = 0\<rparr>"

lemma silent_tx: "tx_contract silent_reaction 1"
  by (simp add: tx_contract_def silent_reaction_def quiet_reaction_def mem_store_one sreg_def txbuf_def)

lemma silent_close: "close_contract silent_reaction 1"
  by (simp add: close_contract_def silent_reaction_def quiet_reaction_def mem_store_one sreg_def)

lemma silent_keeps:
  assumes "lonely 1 p m"
  shows "a \<in> {0x28, 0x140, 0x141} \<Longrightarrow> lonely 1 p (silent_reaction (sreg 1) a [v] m)"
    "length bs = 4 \<Longrightarrow> lonely 1 p (silent_reaction (sreg 1) 0x120 bs m)"
    "lonely 1 p (silent_reaction (sreg 1) 0x10 [Sn_CR_SEND] m)"
    "silent_reaction (sreg 1) 0x10 [Sn_CR_SEND] m (sreg 1) 0x10 = 0"
    "silent_reaction (sreg 1) 0x10 [Sn_CR_SEND] m (sreg 1) 0x20 AND Sn_IR_SENDOK \<noteq> 0"
proof -
  show "lonely 1 p (silent_reaction (sreg 1) a [v] m)" if "a \<in> {0x28, 0x140, 0x141}"
    using that assms by (elim insertE) (simp_all add: lonely_def silent_reaction_def quiet_reaction_def mem16_def mem_store_one Let_def)
  show "lonely 1 p (silent_reaction (sreg 1) 0x120 bs m)" if "length bs = 4"
    using that assms by (simp add: lonely_def silent_reaction_def quiet_reaction_def mem16_def mem_store_def Let_def)
  show "lonely 1 p (silent_reaction (sreg 1) 0x10 [Sn_CR_SEND] m)"
    using assms by (simp add: lonely_def silent_reaction_def quiet_reaction_def mem16_def block_kind Let_def)
qed (simp_all add: silent_reaction_def quiet_reaction_def block_kind Let_def)

lemma silent_lonely: "lonely_contract silent_reaction 1"
  unfolding lonely_contract_def Let_def
  by (intro conjI allI impI silent_tx silent_close silent_keeps)

lemma silent_mem_lonely: "lonely 1 0 silent_mem"
  by (simp add: lonely_def silent_mem_def mem16_def)

theorem dns_retry_sends_nothing_witness:
  "\<exists>m'. dns_wait (ram_chip silent_reaction) (\<lambda>m. (1, m)) [8, 8, 8, 8] [0, 0, 0, 0] (example_dns 2) =
      dns_wait (ram_chip silent_reaction) (\<lambda>m. (1, m)) [8, 8, 8, 8] [0, 0, 0, 0]
        ((example_dns 2)\<lparr>dns_net := (net_start silent_mem)\<lparr>world := m'\<rparr>, dns_1s_tick := 0, retry_count := 1\<rparr>) \<and>
    mem16 m' (sreg 1) 0x20C = 0"
  using dns_retry_sends_nothing [of 1 silent_reaction "example_dns 2" 0 "[8, 8, 8, 8]" "\<lambda>m. (1, m)" 1 silent_mem "[0, 0, 0, 0]"]
    silent_mem_lonely
  by (simp add: silent_lonely example_dns_def net_start_def) (simp add: lonely_def)

text \<open>A timer that ticks once in 201 looks at the socket; the rest of the interval is in an unused register.\<close>

definition slow_ticks :: "chip_mem \<Rightarrow> nat \<times> chip_mem" where
  "slow_ticks m = (if m 0 0 = 0 then (1, m(0 := (m 0)(0 := 200))) else (0, m(0 := (m 0)(0 := m 0 0 - 1))))"

theorem dns_wait_gives_up_witness:
  "\<exists>d'. dns_wait (ram_chip silent_reaction) slow_ticks [8, 8, 8, 8] [0, 0, 0, 0] (example_dns 0) = Some (0, [0, 0, 0, 0], d') \<and>
    world (dns_net d') (sreg 1) 0x30 = SOCK_CLOSED"
proof (rule dns_wait_gives_up [where p = 0 and left = "\<lambda>m. unat (m 0 0)"])
  show "\<exists>k m'. slow_ticks m = (k, m') \<and> k < 1000 \<and> lonely 1 0 m' \<and> (k = 0 \<longrightarrow> unat (m' 0 0) < unat (m 0 0))"
    if "lonely 1 0 m" for m
    using that unat_minus_one [of "m 0 0"]
    by (auto simp: slow_ticks_def lonely_def sreg_def mem16_def unat_gt_0)
qed (simp_all add: silent_lonely silent_mem_lonely example_dns_def net_start_def)

end
