(* ===== verification/Wizchip_Conf.thy ===== *)
theory Wizchip_Conf
  imports Chip_Model
begin

text \<open>
  \<^verbatim>\<open>Ethernet/wizchip_conf.c\<close> in the configuration of \<^verbatim>\<open>wizchip_conf.h\<close>: the W6300 on QSPI, with the PHY
  reached through MDIO (\<^verbatim>\<open>_PHY_IO_MODE_MII_\<close>). The registration of the callbacks, the control functions
  and the network services of the chip. A wait that never ends, an access outside an array, a null
  pointer and an argument that is not what the function casts it to are \<open>None\<close>.
\<close>

section \<open>Constants\<close>

abbreviation (input) IO_MODE_BUS :: u16 where "IO_MODE_BUS \<equiv> 0x0100"
abbreviation (input) IO_MODE_SPI :: u16 where "IO_MODE_SPI \<equiv> 0x0200"
abbreviation (input) IO_MODE_SPI_QSPI :: u16 where "IO_MODE_SPI_QSPI \<equiv> IO_MODE_SPI + 4"
definition IO_MODE :: u16 where "IO_MODE = (IO_MODE_SPI AND 0xff00) OR (ucast QSPI_SINGLE_MODE AND 0x00ff)"

definition WIZCHIP_ID :: "u8 list" where "WIZCHIP_ID = map byte_of_char ''W6300'' @ [0, 0, 0]"

abbreviation (input) SYS_CHIP_LOCK :: u8 where "SYS_CHIP_LOCK \<equiv> 0x04"
abbreviation (input) SYS_NET_LOCK :: u8 where "SYS_NET_LOCK \<equiv> 0x02"
abbreviation (input) SYS_PHY_LOCK :: u8 where "SYS_PHY_LOCK \<equiv> 0x01"
abbreviation (input) SYSR_CHPL :: u8 where "SYSR_CHPL \<equiv> 0x80"
abbreviation (input) SYSR_NETL :: u8 where "SYSR_NETL \<equiv> 0x40"
abbreviation (input) SYCR0_RST :: u8 where "SYCR0_RST \<equiv> 0x00"

abbreviation (input) PHY_MODE_MANUAL :: u8 where "PHY_MODE_MANUAL \<equiv> 0"
abbreviation (input) PHY_MODE_AUTONEGO :: u8 where "PHY_MODE_AUTONEGO \<equiv> 1"
abbreviation (input) PHY_MODE_TE :: u8 where "PHY_MODE_TE \<equiv> 2"
abbreviation (input) PHY_SPEED_10 :: u8 where "PHY_SPEED_10 \<equiv> 0"
abbreviation (input) PHY_SPEED_100 :: u8 where "PHY_SPEED_100 \<equiv> 1"
abbreviation (input) PHY_DUPLEX_HALF :: u8 where "PHY_DUPLEX_HALF \<equiv> 0"
abbreviation (input) PHY_DUPLEX_FULL :: u8 where "PHY_DUPLEX_FULL \<equiv> 1"
abbreviation (input) PHY_LINK_OFF :: int where "PHY_LINK_OFF \<equiv> 0"
abbreviation (input) PHY_LINK_ON :: int where "PHY_LINK_ON \<equiv> 1"
abbreviation (input) PHY_POWER_NORM :: u8 where "PHY_POWER_NORM \<equiv> 0"
abbreviation (input) PHY_POWER_DOWN :: u8 where "PHY_POWER_DOWN \<equiv> 1"

abbreviation (input) PHYRAR_BMCR :: u8 where "PHYRAR_BMCR \<equiv> 0x00"
abbreviation (input) PHYRAR_BMSR :: u8 where "PHYRAR_BMSR \<equiv> 0x01"
abbreviation (input) BMCR_RST :: u16 where "BMCR_RST \<equiv> 0x8000"
abbreviation (input) BMCR_SPD :: u16 where "BMCR_SPD \<equiv> 0x2000"
abbreviation (input) BMCR_ANE :: u16 where "BMCR_ANE \<equiv> 0x1000"
abbreviation (input) BMCR_PWDN :: u16 where "BMCR_PWDN \<equiv> 0x0800"
abbreviation (input) BMCR_DPX :: u16 where "BMCR_DPX \<equiv> 0x0100"
abbreviation (input) BMSR_LINK_STATUS :: u16 where "BMSR_LINK_STATUS \<equiv> 0x0004"
abbreviation (input) PHYCR1_TE :: u8 where "PHYCR1_TE \<equiv> 0x08"
abbreviation (input) PHYCR0_AUTO :: u8 where "PHYCR0_AUTO \<equiv> 0x00"
abbreviation (input) PHYSR_DPX :: u8 where "PHYSR_DPX \<equiv> 0x04"
abbreviation (input) PHYSR_SPD :: u8 where "PHYSR_SPD \<equiv> 0x02"

abbreviation (input) SLCR_ARP4 :: u8 where "SLCR_ARP4 \<equiv> 0x40"
abbreviation (input) SLCR_PING4 :: u8 where "SLCR_PING4 \<equiv> 0x20"
abbreviation (input) SLCR_ARP6 :: u8 where "SLCR_ARP6 \<equiv> 0x10"
abbreviation (input) SLCR_PING6 :: u8 where "SLCR_PING6 \<equiv> 0x08"
abbreviation (input) SLCR_NS :: u8 where "SLCR_NS \<equiv> 0x04"
abbreviation (input) SLCR_RS :: u8 where "SLCR_RS \<equiv> 0x02"
abbreviation (input) SLCR_UNA :: u8 where "SLCR_UNA \<equiv> 0x01"
abbreviation (input) SLIR_TOUT :: u8 where "SLIR_TOUT \<equiv> 0x80"
abbreviation (input) SLIR_ARP4 :: u8 where "SLIR_ARP4 \<equiv> 0x40"
abbreviation (input) SLIR_PING4 :: u8 where "SLIR_PING4 \<equiv> 0x20"
abbreviation (input) SLIR_ARP6 :: u8 where "SLIR_ARP6 \<equiv> 0x10"
abbreviation (input) SLIR_PING6 :: u8 where "SLIR_PING6 \<equiv> 0x08"
abbreviation (input) SLIR_RS :: u8 where "SLIR_RS \<equiv> 0x02"
abbreviation (input) SLIR_RA :: u8 where "SLIR_RA \<equiv> 0x01"
abbreviation (input) IK_SOCKL_TOUT :: u32 where "IK_SOCKL_TOUT \<equiv> 0x00010000"
abbreviation (input) IK_SOCKL_RA :: u32 where "IK_SOCKL_RA \<equiv> 0x00800000"

section \<open>Registration of the callbacks\<close>

text \<open>
  The union \<^verbatim>\<open>IF\<close> of \<^verbatim>\<open>_WIZCHIP\<close>: four function pointers, shared by the bus, SPI and QSPI interfaces.
  The default functions of the interfaces that the W6300 does not use are only named.
\<close>

datatype 'w if_fun =
    If_null
  | Bus_readdata | Bus_writedata | Bus_read_buf | Bus_write_buf
  | Spi_readbyte | Spi_writebyte | Spi_readburst | Spi_writeburst
  | User_bus nat | User_spi nat
  | Qspi_read "u8 \<Rightarrow> u16 \<Rightarrow> u8 list \<Rightarrow> 'w \<Rightarrow> u8 list \<times> 'w"
  | Qspi_write "u8 \<Rightarrow> u16 \<Rightarrow> u8 list \<Rightarrow> 'w \<Rightarrow> 'w"

record 'w wizchip_io =
  if_mode :: u16
  CRIS_enter :: "'w \<Rightarrow> 'w"
  CRIS_exit :: "'w \<Rightarrow> 'w"
  CS_select :: "'w \<Rightarrow> 'w"
  CS_deselect :: "'w \<Rightarrow> 'w"
  IF0 :: "'w if_fun"
  IF1 :: "'w if_fun"
  IF2 :: "'w if_fun"
  IF3 :: "'w if_fun"

text \<open>The initial value of the variable \<^verbatim>\<open>WIZCHIP\<close>: its initialiser is for the bus interface.\<close>

definition WIZCHIP :: "'w wizchip_io" where
  "WIZCHIP = \<lparr>if_mode = IO_MODE, CRIS_enter = wizchip_cris_enter, CRIS_exit = wizchip_cris_exit,
     CS_select = wizchip_cs_select, CS_deselect = wizchip_cs_deselect,
     IF0 = Bus_readdata, IF1 = Bus_writedata, IF2 = If_null, IF3 = If_null\<rparr>"

definition reg_wizchip_cris_cbfunc :: "('w \<Rightarrow> 'w) option \<Rightarrow> ('w \<Rightarrow> 'w) option \<Rightarrow> 'w wizchip_io \<Rightarrow> 'w wizchip_io" where
  "reg_wizchip_cris_cbfunc cris_en cris_ex W =
     (case (cris_en, cris_ex) of
        (Some en, Some ex) \<Rightarrow> W\<lparr>CRIS_enter := en, CRIS_exit := ex\<rparr>
      | _ \<Rightarrow> W\<lparr>CRIS_enter := wizchip_cris_enter, CRIS_exit := wizchip_cris_exit\<rparr>)"

definition reg_wizchip_cs_cbfunc :: "('w \<Rightarrow> 'w) option \<Rightarrow> ('w \<Rightarrow> 'w) option \<Rightarrow> 'w wizchip_io \<Rightarrow> 'w wizchip_io" where
  "reg_wizchip_cs_cbfunc cs_sel cs_desel W =
     (case (cs_sel, cs_desel) of
        (Some sel, Some desel) \<Rightarrow> W\<lparr>CS_select := sel, CS_deselect := desel\<rparr>
      | _ \<Rightarrow> W\<lparr>CS_select := wizchip_cs_select, CS_deselect := wizchip_cs_deselect\<rparr>)"

text \<open>
  The functions for the interfaces first wait until the mode is theirs: nothing changes it, so the
  wait ends at once or never.
\<close>

definition mode_wait :: "u16 \<Rightarrow> 'w wizchip_io \<Rightarrow> 'w wizchip_io option" where
  "mode_wait m W = (if if_mode W AND m = 0 then None else Some W)"

definition reg_wizchip_bus_cbfunc :: "nat option \<Rightarrow> nat option \<Rightarrow> 'w wizchip_io \<Rightarrow> 'w wizchip_io option" where
  "reg_wizchip_bus_cbfunc bus_rb bus_wb W = do {
     W \<leftarrow> mode_wait IO_MODE_BUS W;
     Some (case (bus_rb, bus_wb) of
        (Some rb, Some wb) \<Rightarrow> W\<lparr>IF0 := User_bus rb, IF1 := User_bus wb\<rparr>
      | _ \<Rightarrow> W\<lparr>IF0 := Bus_readdata, IF1 := Bus_writedata\<rparr>)
   }"

definition reg_wizchip_busbuf_cbfunc :: "nat option \<Rightarrow> nat option \<Rightarrow> 'w wizchip_io \<Rightarrow> 'w wizchip_io option" where
  "reg_wizchip_busbuf_cbfunc busbuf_rb busbuf_wb W = do {
     W \<leftarrow> mode_wait IO_MODE_BUS W;
     Some (case (busbuf_rb, busbuf_wb) of
        (Some rb, Some wb) \<Rightarrow> W\<lparr>IF2 := User_bus rb, IF3 := User_bus wb\<rparr>
      | _ \<Rightarrow> W\<lparr>IF2 := Bus_read_buf, IF3 := Bus_write_buf\<rparr>)
   }"

definition reg_wizchip_spi_cbfunc :: "nat option \<Rightarrow> nat option \<Rightarrow> 'w wizchip_io \<Rightarrow> 'w wizchip_io option" where
  "reg_wizchip_spi_cbfunc spi_rb spi_wb W = do {
     W \<leftarrow> mode_wait IO_MODE_SPI W;
     Some (case (spi_rb, spi_wb) of
        (Some rb, Some wb) \<Rightarrow> W\<lparr>IF0 := User_spi rb, IF1 := User_spi wb\<rparr>
      | _ \<Rightarrow> W\<lparr>IF0 := Spi_readbyte, IF1 := Spi_writebyte\<rparr>)
   }"

definition reg_wizchip_spiburst_cbfunc :: "nat option \<Rightarrow> nat option \<Rightarrow> 'w wizchip_io \<Rightarrow> 'w wizchip_io option" where
  "reg_wizchip_spiburst_cbfunc spi_rb spi_wb W = do {
     W \<leftarrow> mode_wait IO_MODE_SPI W;
     Some (case (spi_rb, spi_wb) of
        (Some rb, Some wb) \<Rightarrow> W\<lparr>IF2 := User_spi rb, IF3 := User_spi wb\<rparr>
      | _ \<Rightarrow> W\<lparr>IF2 := Spi_readburst, IF3 := Spi_writeburst\<rparr>)
   }"

definition reg_wizchip_qspi_cbfunc ::
    "(u8 \<Rightarrow> u16 \<Rightarrow> u8 list \<Rightarrow> 'w \<Rightarrow> u8 list \<times> 'w) option \<Rightarrow> (u8 \<Rightarrow> u16 \<Rightarrow> u8 list \<Rightarrow> 'w \<Rightarrow> 'w) option
     \<Rightarrow> 'w wizchip_io \<Rightarrow> 'w wizchip_io option" where
  "reg_wizchip_qspi_cbfunc qspi_rb qspi_wb W = do {
     W \<leftarrow> mode_wait IO_MODE_SPI_QSPI W;
     Some (case (qspi_rb, qspi_wb) of
        (Some rb, Some wb) \<Rightarrow> W\<lparr>IF0 := Qspi_read rb, IF1 := Qspi_write wb\<rparr>
      | _ \<Rightarrow> W\<lparr>IF0 := Qspi_read wizchip_qspi_read, IF1 := Qspi_write wizchip_qspi_write\<rparr>)
   }"

text \<open>
  The callbacks that the driver of the chip uses, when the first two pointers of the union are functions
  of the type it calls them with.
\<close>

definition callbacks :: "'w wizchip_io \<Rightarrow> 'w wizchip option" where
  "callbacks W =
     (case (IF0 W, IF1 W) of
        (Qspi_read rb, Qspi_write wb) \<Rightarrow>
          Some \<lparr>cris_enter = CRIS_enter W, cris_exit = CRIS_exit W, cs_select = CS_select W,
            cs_deselect = CS_deselect W, read_qspi = rb, write_qspi = wb\<rparr>
      | _ \<Rightarrow> None)"

section \<open>Reset and buffer sizes\<close>

definition wizchip_sw_reset :: "'w wizchip \<Rightarrow> 'w \<Rightarrow> 'w option" where
  "wizchip_sw_reset E w = do {
     let (islock, w) = getSYSR E w;
     let w = CHIPUNLOCK E w;
     (mac, w) \<leftarrow> getSHAR E (replicate 6 0) w;
     (gw, w) \<leftarrow> getGAR E (replicate 4 0) w;
     (sub, w) \<leftarrow> getSUBR E (replicate 4 0) w;
     (sip, w) \<leftarrow> getSIPR E (replicate 4 0) w;
     (gw6, w) \<leftarrow> getGA6R E (replicate 16 0) w;
     (sn6, w) \<leftarrow> getSUB6R E (replicate 16 0) w;
     (lla, w) \<leftarrow> getLLAR E (replicate 16 0) w;
     (gua, w) \<leftarrow> getGUAR E (replicate 16 0) w;
     let w = setSYCR0 E SYCR0_RST w;
     let (_, w) = getSYCR0 E w;
     let w = NETUNLOCK E w;
     w \<leftarrow> setSHAR E mac w;
     w \<leftarrow> setGAR E gw w;
     w \<leftarrow> setSUBR E sub w;
     w \<leftarrow> setSIPR E sip w;
     w \<leftarrow> setGA6R E gw6 w;
     w \<leftarrow> setSUB6R E sn6 w;
     w \<leftarrow> setLLAR E lla w;
     w \<leftarrow> setGUAR E gua w;
     let w = (if islock AND SYSR_CHPL \<noteq> 0 then CHIPLOCK E w else w);
     Some (if islock AND SYSR_NETL \<noteq> 0 then NETLOCK E w else w)
   }"

text \<open>The running sum of the sizes is kept in a signed byte: whether it ever exceeds 32.\<close>

fun size_loop :: "u8 list \<Rightarrow> u8 \<Rightarrow> bool" where
  "size_loop [] tmp = True"
| "size_loop (s # ss) tmp = (let tmp = tmp + s in if 32 < sint tmp then False else size_loop ss tmp)"

definition set_sizes :: "(u8 \<Rightarrow> u8 \<Rightarrow> 'w \<Rightarrow> 'w) \<Rightarrow> u8 list \<Rightarrow> 'w \<Rightarrow> 'w" where
  "set_sizes set_size ss w = fold (\<lambda>(i, s). set_size i s) (zip (map word_of_nat [0 ..< 8]) ss) w"

text \<open>One of the two arrays, if there is one: whether it was accepted.\<close>

definition init_sizes :: "(u8 \<Rightarrow> u8 \<Rightarrow> 'w \<Rightarrow> 'w) \<Rightarrow> u8 list option \<Rightarrow> 'w \<Rightarrow> (bool \<times> 'w) option" where
  "init_sizes set_size sizes w =
     (case sizes of None \<Rightarrow> Some (True, w)
      | Some ss \<Rightarrow>
          if length ss < 8 then None
          else if size_loop (take 8 ss) 0 then Some (True, set_sizes set_size (take 8 ss) w)
          else Some (False, w))"

definition wizchip_init :: "'w wizchip \<Rightarrow> u8 list option \<Rightarrow> u8 list option \<Rightarrow> 'w \<Rightarrow> (int \<times> 'w) option" where
  "wizchip_init E txsize rxsize w = do {
     w \<leftarrow> wizchip_sw_reset E w;
     (ok, w) \<leftarrow> init_sizes (setSn_TXBUF_SIZE E) txsize w;
     if \<not> ok then Some (- 1, w)
     else do {
       (ok, w) \<leftarrow> init_sizes (setSn_RXBUF_SIZE E) rxsize w;
       Some (if ok then 0 else - 1, w)
     }
   }"

section \<open>Interrupts\<close>

definition wizchip_clrinterrupt :: "'w wizchip \<Rightarrow> u32 \<Rightarrow> 'w \<Rightarrow> 'w" where
  "wizchip_clrinterrupt E intr w =
     (let ir = ucast intr; sir = ucast (drop_bit 8 (ucast intr :: u16)) :: u8; slir = ucast (drop_bit 16 intr);
          w = setIRCLR E ir w;
          w = fold (\<lambda>i w. if bit sir i then setSn_IRCLR E (word_of_nat i) 0xFF w else w) [0 ..< 8] w
      in setSLIRCLR E slir w)"

definition wizchip_getinterrupt :: "'w wizchip \<Rightarrow> 'w \<Rightarrow> u32 \<times> 'w" where
  "wizchip_getinterrupt E w =
     (let (ir, w) = getIR E w; (sir, w) = getSIR E w;
          ret = push_bit 8 (ucast sir) + ucast ir;
          (slir, w) = getSLIR E w
      in (push_bit 16 (ucast slir) OR ret, w))"

definition wizchip_setinterruptmask :: "'w wizchip \<Rightarrow> u32 \<Rightarrow> 'w \<Rightarrow> 'w" where
  "wizchip_setinterruptmask E intr w =
     (let imr = ucast intr; simr = ucast (drop_bit 8 (ucast intr :: u16)); slimr = ucast (drop_bit 16 intr)
      in setSLIMR E slimr (setSIMR E simr (setIMR E imr w)))"

definition wizchip_getinterruptmask :: "'w wizchip \<Rightarrow> 'w \<Rightarrow> u32 \<times> 'w" where
  "wizchip_getinterruptmask E w =
     (let (imr, w) = getIMR E w; (simr, w) = getSIMR E w;
          ret = push_bit 8 (ucast simr) + ucast imr;
          (slimr, w) = getSLIMR E w
      in (push_bit 16 (ucast slimr) OR ret, w))"

section \<open>The PHY\<close>

record wiz_PhyConf =
  conf_by :: u8
  conf_mode :: u8
  conf_speed :: u8
  conf_duplex :: u8

definition wizphy_getphylink :: "'w wizchip \<Rightarrow> 'w \<Rightarrow> (int \<times> 'w) option" where
  "wizphy_getphylink E w = do {
     (v, w) \<leftarrow> wiz_mdio_read E PHYRAR_BMSR w;
     Some (if v AND BMSR_LINK_STATUS \<noteq> 0 then PHY_LINK_ON else PHY_LINK_OFF, w)
   }"

definition wizphy_getphypmode :: "'w wizchip \<Rightarrow> 'w \<Rightarrow> (u8 \<times> 'w) option" where
  "wizphy_getphypmode E w = do {
     (v, w) \<leftarrow> wiz_mdio_read E PHYRAR_BMCR w;
     Some (if v AND BMCR_PWDN \<noteq> 0 then PHY_POWER_DOWN else PHY_POWER_NORM, w)
   }"

partial_function (option) reset_wait :: "'w wizchip \<Rightarrow> 'w \<Rightarrow> 'w option" where
  "reset_wait E w = do {
     (v, w) \<leftarrow> wiz_mdio_read E PHYRAR_BMCR w;
     if v AND BMCR_RST \<noteq> 0 then reset_wait E w else Some w
   }"

definition wizphy_reset :: "'w wizchip \<Rightarrow> 'w \<Rightarrow> 'w option" where
  "wizphy_reset E w = do {
     (v, w) \<leftarrow> wiz_mdio_read E PHYRAR_BMCR w;
     w \<leftarrow> wiz_mdio_write E PHYRAR_BMCR (v OR BMCR_RST) w;
     reset_wait E w
   }"

definition wizphy_setphyconf :: "'w wizchip \<Rightarrow> wiz_PhyConf \<Rightarrow> 'w \<Rightarrow> 'w option" where
  "wizphy_setphyconf E phyconf w = do {
     (tmp, w) \<leftarrow> wiz_mdio_read E PHYRAR_BMCR w;
     if conf_mode phyconf = PHY_MODE_TE then do {
       let (v, w) = getPHYCR1 E w;
       let w = setPHYCR1 E (v OR PHYCR1_TE) w;
       Some (setPHYCR0 E PHYCR0_AUTO w)
     } else do {
       let (v, w) = getPHYCR1 E w;
       let w = setPHYCR1 E (v AND NOT PHYCR1_TE) w;
       let tmp = (if conf_mode phyconf = PHY_MODE_AUTONEGO then tmp OR BMCR_ANE
         else let tmp = tmp AND NOT (BMCR_ANE OR BMCR_DPX OR BMCR_SPD);
                  tmp = (if conf_duplex phyconf = PHY_DUPLEX_FULL then tmp OR BMCR_DPX else tmp)
              in if conf_speed phyconf = PHY_SPEED_100 then tmp OR BMCR_SPD else tmp);
       wiz_mdio_write E PHYRAR_BMCR tmp w
     }
   }"

definition wizphy_getphyconf :: "'w wizchip \<Rightarrow> wiz_PhyConf \<Rightarrow> 'w \<Rightarrow> (wiz_PhyConf \<times> 'w) option" where
  "wizphy_getphyconf E phyconf w = do {
     (tmp, w) \<leftarrow> wiz_mdio_read E PHYRAR_BMCR w;
     let (v, w) = getPHYCR1 E w;
     Some (phyconf\<lparr>conf_mode := if v AND PHYCR1_TE \<noteq> 0 then PHY_MODE_TE
               else if tmp AND BMCR_ANE \<noteq> 0 then PHY_MODE_AUTONEGO else PHY_MODE_MANUAL,
             conf_duplex := if tmp AND BMCR_DPX \<noteq> 0 then PHY_DUPLEX_FULL else PHY_DUPLEX_HALF,
             conf_speed := if tmp AND BMCR_SPD \<noteq> 0 then PHY_SPEED_100 else PHY_SPEED_10\<rparr>, w)
   }"

definition wizphy_getphystat :: "'w wizchip \<Rightarrow> wiz_PhyConf \<Rightarrow> 'w \<Rightarrow> wiz_PhyConf \<times> 'w" where
  "wizphy_getphystat E phyconf w =
     (let (tmp, w) = getPHYSR E w; (v, w) = getPHYCR1 E w
      in (phyconf\<lparr>conf_mode := if v AND PHYCR1_TE \<noteq> 0 then PHY_MODE_TE
               else if tmp AND 0x20 \<noteq> 0 then PHY_MODE_MANUAL else PHY_MODE_AUTONEGO,
             conf_speed := if tmp AND PHYSR_SPD \<noteq> 0 then PHY_SPEED_10 else PHY_SPEED_100,
             conf_duplex := if tmp AND PHYSR_DPX \<noteq> 0 then PHY_DUPLEX_HALF else PHY_DUPLEX_FULL\<rparr>, w))"

definition wizphy_setphypmode :: "'w wizchip \<Rightarrow> u8 \<Rightarrow> 'w \<Rightarrow> 'w option" where
  "wizphy_setphypmode E pmode w = do {
     (tmp, w) \<leftarrow> wiz_mdio_read E PHYRAR_BMCR w;
     wiz_mdio_write E PHYRAR_BMCR (if pmode = PHY_POWER_DOWN then tmp OR BMCR_PWDN else tmp AND NOT BMCR_PWDN) w
   }"

section \<open>Network services of the chip\<close>

record wiz_IPAddress =
  dest_ip :: "u8 list"
  dest_len :: u8

record wiz_Prefix =
  prefix_len :: u8
  prefix_flag :: u8
  valid_lifetime :: u32
  preferred_lifetime :: u32
  prefix_bytes :: "u8 list"

record wiz_ARP =
  arp_destinfo :: wiz_IPAddress
  dha :: "u8 list"

record wiz_PING =
  ping_id :: u16
  ping_seq :: u16
  ping_destinfo :: wiz_IPAddress

text \<open>\<^verbatim>\<open>while ((tmp = getSLIR()) == 0x00);\<close>\<close>

partial_function (option) wait_value :: "('w \<Rightarrow> 'v \<times> 'w) \<Rightarrow> ('v \<Rightarrow> bool) \<Rightarrow> 'w \<Rightarrow> ('v \<times> 'w) option" where
  "wait_value rd c w = (case rd w of (v, w) \<Rightarrow> if c v then wait_value rd c w else Some (v, w))"

text \<open>The end of every service: the command, the wait for it and for its interrupt, and the clearing.\<close>

definition net_service :: "'w wizchip \<Rightarrow> u8 \<Rightarrow> 'w \<Rightarrow> (u8 \<times> 'w) option" where
  "net_service E cmd w = do {
     w \<leftarrow> wait_while (getSLCR E) (\<lambda>v. v \<noteq> 0) (setSLCR E cmd w);
     (tmp, w) \<leftarrow> wait_value (getSLIR E) (\<lambda>v. v = 0) w;
     Some (tmp, setSLIRCLR E (NOT SLIR_RA) w)
   }"

definition wizchip_arp :: "'w wizchip \<Rightarrow> wiz_ARP \<Rightarrow> 'w \<Rightarrow> (int \<times> wiz_ARP \<times> 'w) option" where
  "wizchip_arp E arp w = do {
     (tmp, w) \<leftarrow>
       (if dest_len (arp_destinfo arp) = 16 then do {
          w \<leftarrow> setSLDIP6R E (dest_ip (arp_destinfo arp)) w; net_service E SLCR_ARP6 w }
        else do { w \<leftarrow> setSLDIP4R E (dest_ip (arp_destinfo arp)) w; net_service E SLCR_ARP4 w });
     if tmp AND (SLIR_ARP4 OR SLIR_ARP6) \<noteq> 0 then do {
       (d, w) \<leftarrow> getSLDHAR E (dha arp) w;
       Some (0, arp\<lparr>dha := d\<rparr>, w)
     } else Some (- 1, arp, w)
   }"

definition wizchip_ping :: "'w wizchip \<Rightarrow> wiz_PING \<Rightarrow> 'w \<Rightarrow> (int \<times> 'w) option" where
  "wizchip_ping E ping w = do {
     let w = setPINGSEQR E (ping_seq ping) (setPINGIDR E (ping_id ping) w);
     (tmp, w) \<leftarrow>
       (if dest_len (ping_destinfo ping) = 16 then do {
          w \<leftarrow> setSLDIP6R E (dest_ip (ping_destinfo ping)) w; net_service E SLCR_PING6 w }
        else do { w \<leftarrow> setSLDIP4R E (dest_ip (ping_destinfo ping)) w; net_service E SLCR_PING4 w });
     Some (if tmp AND (SLIR_PING4 OR SLIR_PING6) \<noteq> 0 then 0 else - 1, w)
   }"

definition wizchip_dad :: "'w wizchip \<Rightarrow> u8 list \<Rightarrow> 'w \<Rightarrow> (int \<times> 'w) option" where
  "wizchip_dad E ipv6 w = do {
     w \<leftarrow> setSLDIP6R E ipv6 w;
     (tmp, w) \<leftarrow> net_service E SLCR_NS w;
     Some (if tmp AND SLIR_TOUT \<noteq> 0 then 0 else - 1, w)
   }"

text \<open>The five reads that both functions about the prefix share.\<close>

definition read_prefix :: "'w wizchip \<Rightarrow> wiz_Prefix \<Rightarrow> 'w \<Rightarrow> (wiz_Prefix \<times> 'w) option" where
  "read_prefix E prefix w = do {
     let (len, w) = getPLR E w;
     let (flag, w) = getPFR E w;
     let (valid, w) = getVLTR E w;
     let (preferred, w) = getPLTR E w;
     (p, w) \<leftarrow> getPAR E (prefix_bytes prefix) w;
     Some (prefix\<lparr>prefix_len := len, prefix_flag := flag, valid_lifetime := valid, preferred_lifetime := preferred,
             prefix_bytes := p\<rparr>, w)
   }"

definition wizchip_slaac :: "'w wizchip \<Rightarrow> wiz_Prefix \<Rightarrow> 'w \<Rightarrow> (int \<times> wiz_Prefix \<times> 'w) option" where
  "wizchip_slaac E prefix w = do {
     (tmp, w) \<leftarrow> net_service E SLCR_RS w;
     if tmp AND SLIR_RS \<noteq> 0 then do { (p, w) \<leftarrow> read_prefix E prefix w; Some (0, p, w) }
     else Some (- 1, prefix, w)
   }"

definition wizchip_unsolicited :: "'w wizchip \<Rightarrow> 'w \<Rightarrow> (int \<times> 'w) option" where
  "wizchip_unsolicited E w = do {
     (tmp, w) \<leftarrow> net_service E SLCR_UNA w;
     Some (if tmp AND SLIR_TOUT \<noteq> 0 then 0 else - 1, w)
   }"

definition wizchip_getprefix :: "'w wizchip \<Rightarrow> wiz_Prefix \<Rightarrow> 'w \<Rightarrow> (int \<times> wiz_Prefix \<times> 'w) option" where
  "wizchip_getprefix E prefix w = do {
     let (tmp, w) = getSLIR E w;
     if tmp AND SLIR_RA \<noteq> 0 then do {
       (p, w) \<leftarrow> read_prefix E prefix w;
       Some (- 1, p, setSLIRCLR E SLIR_RA w)
     } else Some (- 1, prefix, w)
   }"

section \<open>Network settings\<close>

record wiz_NetInfo =
  ni_mac :: "u8 list"
  ni_ip :: "u8 list"
  ni_sn :: "u8 list"
  ni_gw :: "u8 list"
  ni_lla :: "u8 list"
  ni_gua :: "u8 list"
  ni_sn6 :: "u8 list"
  ni_gw6 :: "u8 list"
  ni_dns :: "u8 list"
  ni_dns6 :: "u8 list"
  ni_ipmode :: u8
  ni_dhcp :: u8

record wiz_NetTimeout =
  s_retry_cnt :: u8
  s_time_100us :: u16
  sl_retry_cnt :: u8
  sl_time_100us :: u16

text \<open>The variables of the file, and the world of the callbacks.\<close>

record 'w conf =
  conf_world :: 'w
  conf_dns :: "u8 list"
  conf_dns6 :: "u8 list"
  conf_ipmode :: u8

definition conf_start :: "'w \<Rightarrow> 'w conf" where
  "conf_start w = \<lparr>conf_world = w, conf_dns = replicate 4 0, conf_dns6 = replicate 16 0, conf_ipmode = 0\<rparr>"

text \<open>A loop that copies \<open>n\<close> bytes to the start of an array.\<close>

definition copy_bytes :: "nat \<Rightarrow> u8 list \<Rightarrow> u8 list \<Rightarrow> u8 list option" where
  "copy_bytes n dst src = (if n \<le> length src \<and> n \<le> length dst then Some (take n src @ drop n dst) else None)"

definition wizchip_setnetinfo :: "'w wizchip \<Rightarrow> wiz_NetInfo \<Rightarrow> 'w conf \<Rightarrow> 'w conf option" where
  "wizchip_setnetinfo E pnetinfo c = do {
     w \<leftarrow> setSHAR E (ni_mac pnetinfo) (conf_world c);
     w \<leftarrow> setGAR E (ni_gw pnetinfo) w;
     w \<leftarrow> setSUBR E (ni_sn pnetinfo) w;
     w \<leftarrow> setSIPR E (ni_ip pnetinfo) w;
     w \<leftarrow> setGA6R E (ni_gw6 pnetinfo) w;
     w \<leftarrow> setSUB6R E (ni_sn6 pnetinfo) w;
     w \<leftarrow> setLLAR E (ni_lla pnetinfo) w;
     w \<leftarrow> setGUAR E (ni_gua pnetinfo) w;
     dns \<leftarrow> copy_bytes 4 (conf_dns c) (ni_dns pnetinfo);
     dns6 \<leftarrow> copy_bytes 16 (conf_dns6 c) (ni_dns6 pnetinfo);
     Some (c\<lparr>conf_world := w, conf_dns := dns, conf_dns6 := dns6, conf_ipmode := ni_ipmode pnetinfo\<rparr>)
   }"

definition wizchip_getnetinfo :: "'w wizchip \<Rightarrow> wiz_NetInfo \<Rightarrow> 'w conf \<Rightarrow> (wiz_NetInfo \<times> 'w conf) option" where
  "wizchip_getnetinfo E pnetinfo c = do {
     (mac, w) \<leftarrow> getSHAR E (ni_mac pnetinfo) (conf_world c);
     (gw, w) \<leftarrow> getGAR E (ni_gw pnetinfo) w;
     (sub, w) \<leftarrow> getSUBR E (ni_sn pnetinfo) w;
     (ip, w) \<leftarrow> getSIPR E (ni_ip pnetinfo) w;
     (gw6, w) \<leftarrow> getGA6R E (ni_gw6 pnetinfo) w;
     (sn6, w) \<leftarrow> getSUB6R E (ni_sn6 pnetinfo) w;
     (lla, w) \<leftarrow> getLLAR E (ni_lla pnetinfo) w;
     (gua, w) \<leftarrow> getGUAR E (ni_gua pnetinfo) w;
     dns \<leftarrow> copy_bytes 4 (ni_dns pnetinfo) (conf_dns c);
     dns6 \<leftarrow> copy_bytes 16 (ni_dns6 pnetinfo) (conf_dns6 c);
     Some (\<lparr>ni_mac = mac, ni_ip = ip, ni_sn = sub, ni_gw = gw, ni_lla = lla, ni_gua = gua, ni_sn6 = sn6, ni_gw6 = gw6,
             ni_dns = dns, ni_dns6 = dns6, ni_ipmode = conf_ipmode c, ni_dhcp = ni_dhcp pnetinfo\<rparr>, c\<lparr>conf_world := w\<rparr>)
   }"

definition wizchip_setnetmode :: "'w wizchip \<Rightarrow> u32 \<Rightarrow> 'w \<Rightarrow> 'w" where
  "wizchip_setnetmode E netmode w =
     setNET6MR E (ucast (drop_bit 24 netmode)) (setNET4MR E (ucast (drop_bit 16 netmode))
       (setNETMR2 E (ucast (drop_bit 8 netmode)) (setNETMR E (ucast netmode) w)))"

definition wizchip_getnetmode :: "'w wizchip \<Rightarrow> 'w \<Rightarrow> u32 \<times> 'w" where
  "wizchip_getnetmode E w =
     (let (a, w) = getNETMR E w; ret = ucast a;
          (b, w) = getNETMR2 E w; ret = push_bit 8 ret + ucast b;
          (c, w) = getNET4MR E w; ret = push_bit 16 ret + ucast c;
          (d, w) = getNET6MR E w
      in (push_bit 24 ret + ucast d, w))"

definition wizchip_settimeout :: "'w wizchip \<Rightarrow> wiz_NetTimeout \<Rightarrow> 'w \<Rightarrow> 'w" where
  "wizchip_settimeout E nettime w =
     setSLRTR E (sl_time_100us nettime) (setSLRCR E (sl_retry_cnt nettime)
       (setRTR E (s_time_100us nettime) (setRCR E (s_retry_cnt nettime) w)))"

definition wizchip_gettimeout :: "'w wizchip \<Rightarrow> 'w \<Rightarrow> wiz_NetTimeout \<times> 'w" where
  "wizchip_gettimeout E w =
     (let (a, w) = getRCR E w; (b, w) = getRTR E w; (c, w) = getSLRCR E w; (d, w) = getSLRTR E w
      in (\<lparr>s_retry_cnt = a, s_time_100us = b, sl_retry_cnt = c, sl_time_100us = d\<rparr>, w))"

section \<open>The control functions\<close>

text \<open>What the pointer argument points to; the functions cast it according to the request.\<close>

datatype ctl_arg =
    Arg_null
  | Arg_bytes "u8 list"
  | Arg_u16 u16
  | Arg_u32 u32
  | Arg_phy wiz_PhyConf
  | Arg_netinfo wiz_NetInfo
  | Arg_timeout wiz_NetTimeout

datatype ctlwizchip_type =
    CW_SYS_LOCK | CW_SYS_UNLOCK | CW_GET_SYSLOCK | CW_RESET_WIZCHIP | CW_INIT_WIZCHIP
  | CW_GET_INTERRUPT | CW_CLR_INTERRUPT | CW_SET_INTRMASK | CW_GET_INTRMASK | CW_SET_INTRTIME | CW_GET_INTRTIME
  | CW_SET_IEN | CW_GET_IEN | CW_GET_ID | CW_GET_VER | CW_SET_SYSCLK | CW_GET_SYSCLK
  | CW_RESET_PHY | CW_SET_PHYCONF | CW_GET_PHYCONF | CW_GET_PHYSTATUS | CW_SET_PHYPOWMODE | CW_GET_PHYPOWMODE | CW_GET_PHYLINK

datatype ctlnetwork_type =
    CN_SET_NETINFO | CN_GET_NETINFO | CN_SET_NETMODE | CN_GET_NETMODE | CN_SET_TIMEOUT | CN_GET_TIMEOUT
  | CN_SET_PREFER | CN_GET_PREFER

definition byte_arg :: "ctl_arg \<Rightarrow> u8 option" where
  "byte_arg arg = (case arg of Arg_bytes (b # _) \<Rightarrow> Some b | _ \<Rightarrow> None)"

definition store_byte :: "ctl_arg \<Rightarrow> u8 \<Rightarrow> ctl_arg option" where
  "store_byte arg v = (case arg of Arg_bytes (_ # bs) \<Rightarrow> Some (Arg_bytes (v # bs)) | _ \<Rightarrow> None)"

definition lock_bits :: "u8 \<Rightarrow> ('w \<Rightarrow> 'w) \<Rightarrow> ('w \<Rightarrow> 'w) \<Rightarrow> ('w \<Rightarrow> 'w) \<Rightarrow> 'w \<Rightarrow> 'w" where
  "lock_bits tmp chip_op net_op phy_op w =
     (let w = (if tmp AND SYS_CHIP_LOCK \<noteq> 0 then chip_op w else w);
          w = (if tmp AND SYS_NET_LOCK \<noteq> 0 then net_op w else w)
      in if tmp AND SYS_PHY_LOCK \<noteq> 0 then phy_op w else w)"

text \<open>The first byte behind the pointer is read whatever the request is.\<close>

definition ctlwizchip :: "'w wizchip \<Rightarrow> ctlwizchip_type \<Rightarrow> ctl_arg \<Rightarrow> 'w \<Rightarrow> (int \<times> ctl_arg \<times> 'w) option" where
  "ctlwizchip E cwtype arg w =
     (if arg = Arg_null \<or> arg = Arg_bytes [] then None
      else case cwtype of
        CW_SYS_LOCK \<Rightarrow> do { tmp \<leftarrow> byte_arg arg; Some (0, arg, lock_bits tmp (CHIPLOCK E) (NETLOCK E) (PHYLOCK E) w) }
      | CW_SYS_UNLOCK \<Rightarrow> do { tmp \<leftarrow> byte_arg arg; Some (0, arg, lock_bits tmp (CHIPUNLOCK E) (NETUNLOCK E) (PHYUNLOCK E) w) }
      | CW_GET_SYSLOCK \<Rightarrow> do { let (v, w) = getSYSR E w; arg \<leftarrow> store_byte arg (drop_bit 5 v); Some (0, arg, w) }
      | CW_RESET_WIZCHIP \<Rightarrow> do { w \<leftarrow> wizchip_sw_reset E w; Some (0, arg, w) }
      | CW_INIT_WIZCHIP \<Rightarrow>
          (case arg of Arg_bytes sizes \<Rightarrow> do {
             (ret, w) \<leftarrow> wizchip_init E (Some sizes) (Some (drop 8 sizes)) w; Some (ret, arg, w) }
           | _ \<Rightarrow> None)
      | CW_CLR_INTERRUPT \<Rightarrow> (case arg of Arg_u32 intr \<Rightarrow> Some (0, arg, wizchip_clrinterrupt E intr w) | _ \<Rightarrow> None)
      | CW_GET_INTERRUPT \<Rightarrow>
          (case arg of Arg_u32 _ \<Rightarrow> (case wizchip_getinterrupt E w of (v, w) \<Rightarrow> Some (0, Arg_u32 v, w)) | _ \<Rightarrow> None)
      | CW_SET_INTRMASK \<Rightarrow> (case arg of Arg_u32 intr \<Rightarrow> Some (0, arg, wizchip_setinterruptmask E intr w) | _ \<Rightarrow> None)
      | CW_GET_INTRMASK \<Rightarrow>
          (case arg of Arg_u32 _ \<Rightarrow> (case wizchip_getinterruptmask E w of (v, w) \<Rightarrow> Some (0, Arg_u32 v, w)) | _ \<Rightarrow> None)
      | CW_SET_INTRTIME \<Rightarrow> (case arg of Arg_u16 v \<Rightarrow> Some (0, arg, setINTPTMR E v w) | _ \<Rightarrow> None)
      | CW_GET_INTRTIME \<Rightarrow>
          (case arg of Arg_u16 _ \<Rightarrow> (case getINTPTMR E w of (v, w) \<Rightarrow> Some (0, Arg_u16 v, w)) | _ \<Rightarrow> None)
      | CW_GET_ID \<Rightarrow>
          (case arg of Arg_bytes bs \<Rightarrow>
             if length bs < 7 then None else Some (0, Arg_bytes (take 6 WIZCHIP_ID @ 0 # drop 7 bs), w)
           | _ \<Rightarrow> None)
      | CW_GET_VER \<Rightarrow> (case arg of Arg_u16 _ \<Rightarrow> (case getVER E w of (v, w) \<Rightarrow> Some (0, Arg_u16 v, w)) | _ \<Rightarrow> None)
      | CW_RESET_PHY \<Rightarrow> do { w \<leftarrow> wizphy_reset E w; Some (0, arg, w) }
      | CW_SET_PHYCONF \<Rightarrow>
          (case arg of Arg_phy conf \<Rightarrow> do { w \<leftarrow> wizphy_setphyconf E conf w; Some (0, arg, w) } | _ \<Rightarrow> None)
      | CW_GET_PHYCONF \<Rightarrow>
          (case arg of Arg_phy conf \<Rightarrow> do { (conf, w) \<leftarrow> wizphy_getphyconf E conf w; Some (0, Arg_phy conf, w) } | _ \<Rightarrow> None)
      | CW_GET_PHYSTATUS \<Rightarrow> Some (0, arg, w)
      | CW_SET_PHYPOWMODE \<Rightarrow> do { v \<leftarrow> byte_arg arg; w \<leftarrow> wizphy_setphypmode E v w; Some (0, arg, w) }
      | CW_GET_PHYPOWMODE \<Rightarrow> do {
          (v, w) \<leftarrow> wizphy_getphypmode E w;
          if sint v = - 1 then Some (- 1, arg, w) else do { arg \<leftarrow> store_byte arg v; Some (0, arg, w) } }
      | CW_GET_PHYLINK \<Rightarrow> do {
          (v, w) \<leftarrow> wizphy_getphylink E w;
          if v = - 1 then Some (- 1, arg, w) else do { arg \<leftarrow> store_byte arg (word_of_int v); Some (0, arg, w) } }
      | _ \<Rightarrow> Some (- 1, arg, w))"

text \<open>Setting the network mode falls through into reading it back.\<close>

definition get_netmode :: "'w wizchip \<Rightarrow> ctl_arg \<Rightarrow> 'w conf \<Rightarrow> (int \<times> ctl_arg \<times> 'w conf) option" where
  "get_netmode E arg c =
     (case arg of Arg_u32 _ \<Rightarrow> (case wizchip_getnetmode E (conf_world c) of (v, w) \<Rightarrow> Some (0, Arg_u32 v, c\<lparr>conf_world := w\<rparr>)) | _ \<Rightarrow> None)"

definition ctlnetwork :: "'w wizchip \<Rightarrow> ctlnetwork_type \<Rightarrow> ctl_arg \<Rightarrow> 'w conf \<Rightarrow> (int \<times> ctl_arg \<times> 'w conf) option" where
  "ctlnetwork E cntype arg c =
     (case cntype of
        CN_SET_NETINFO \<Rightarrow>
          (case arg of Arg_netinfo ni \<Rightarrow> do { c \<leftarrow> wizchip_setnetinfo E ni c; Some (0, arg, c) } | _ \<Rightarrow> None)
      | CN_GET_NETINFO \<Rightarrow>
          (case arg of Arg_netinfo ni \<Rightarrow> do { (ni, c) \<leftarrow> wizchip_getnetinfo E ni c; Some (0, Arg_netinfo ni, c) } | _ \<Rightarrow> None)
      | CN_SET_NETMODE \<Rightarrow>
          (case arg of Arg_u32 m \<Rightarrow> get_netmode E arg (c\<lparr>conf_world := wizchip_setnetmode E m (conf_world c)\<rparr>) | _ \<Rightarrow> None)
      | CN_GET_NETMODE \<Rightarrow> get_netmode E arg c
      | CN_SET_TIMEOUT \<Rightarrow>
          (case arg of Arg_timeout t \<Rightarrow> Some (0, arg, c\<lparr>conf_world := wizchip_settimeout E t (conf_world c)\<rparr>) | _ \<Rightarrow> None)
      | CN_GET_TIMEOUT \<Rightarrow>
          (case arg of Arg_timeout _ \<Rightarrow>
             (case wizchip_gettimeout E (conf_world c) of (t, w) \<Rightarrow> Some (0, Arg_timeout t, c\<lparr>conf_world := w\<rparr>)) | _ \<Rightarrow> None)
      | CN_SET_PREFER \<Rightarrow> do { v \<leftarrow> byte_arg arg; Some (0, arg, c\<lparr>conf_world := setSLPSR E v (conf_world c)\<rparr>) }
      | CN_GET_PREFER \<Rightarrow> (case getSLPSR E (conf_world c) of (v, w) \<Rightarrow> do {
          arg \<leftarrow> store_byte arg v; Some (0, arg, c\<lparr>conf_world := w\<rparr>) }))"

section \<open>Registration\<close>

text \<open>Until callbacks are registered the union holds bus functions; null pointers give the default ones.\<close>

lemma callbacks_before_registration: "callbacks WIZCHIP = None"
  by (simp add: callbacks_def WIZCHIP_def)

lemma callbacks_registered:
  "map_option callbacks (reg_wizchip_qspi_cbfunc (Some rb) (Some wb)
     (reg_wizchip_cs_cbfunc (Some sel) (Some desel) (reg_wizchip_cris_cbfunc (Some en) (Some ex) WIZCHIP)))
   = Some (Some \<lparr>cris_enter = en, cris_exit = ex, cs_select = sel, cs_deselect = desel, read_qspi = rb, write_qspi = wb\<rparr>)"
  "map_option callbacks (reg_wizchip_qspi_cbfunc None None WIZCHIP) = Some (Some wizchip_default)"
  by (simp_all add: callbacks_def WIZCHIP_def reg_wizchip_qspi_cbfunc_def reg_wizchip_cs_cbfunc_def
      reg_wizchip_cris_cbfunc_def mode_wait_def IO_MODE_def wizchip_default_def)

lemma bus_registration_hangs: "reg_wizchip_bus_cbfunc rb wb WIZCHIP = None"
  by (simp add: reg_wizchip_bus_cbfunc_def mode_wait_def WIZCHIP_def IO_MODE_def)

section \<open>Buffer sizes\<close>

text \<open>Below 96 kilobytes the running sum does not wrap before it is found to exceed the 32 of the chip.\<close>

lemma sint_small_byte: "sint w = int (unat w)" if "unat (w :: u8) < 128"
proof -
  have u: "uint w = int (unat w)" by (rule uint_nat)
  have p: "(2 :: int) ^ 7 = 128" by simp
  have "signed_take_bit 7 (uint w) = uint w"
    by (rule signed_take_bit_int_eq_self; use u p that in linarith)
  then show ?thesis unfolding sint_uint u by simp
qed

lemma size_loop_sum:
  assumes "\<forall>s \<in> set ss. unat s < 96" "unat tmp \<le> 32"
  shows "size_loop ss tmp \<longleftrightarrow> unat tmp + sum_list (map unat ss) \<le> 32"
  using assms
proof (induction ss arbitrary: tmp)
  case (Cons s ss)
  have s: "unat s < 96" using Cons.prems by simp
  have "unat tmp + unat s < 2 ^ LENGTH(8)" using s Cons.prems by simp
  then have u: "unat (tmp + s) = unat tmp + unat s" by (rule unat_add_lem [THEN iffD1])
  have "unat (tmp + s) < 128" unfolding u using s Cons.prems by simp
  then have i: "32 < sint (tmp + s) \<longleftrightarrow> 32 < unat tmp + unat s"
    unfolding sint_small_byte [OF \<open>unat (tmp + s) < 128\<close>] u by linarith
  show ?case
  proof (cases "32 < unat tmp + unat s")
    case True
    then show ?thesis using i by (simp add: Let_def)
  next
    case False
    then have "size_loop (s # ss) tmp = size_loop ss (tmp + s)" using i by (simp add: Let_def)
    then show ?thesis using Cons.IH [of "tmp + s"] Cons.prems False u by (simp add: add.assoc)
  qed
qed simp

lemma size_loop_wraps: "size_loop [0x80, 0xA0, 0, 0, 0, 0, 0, 0] 0"
  by (simp add: Let_def)

text \<open>
  The documented behaviour of the registers of the buffer sizes: they hold what is written to them.
\<close>

definition size_contract :: "reaction \<Rightarrow> bool" where
  "size_contract react \<longleftrightarrow>
     (\<forall>sn a v m. sn < 8 \<longrightarrow> a \<in> {0x200, 0x220} \<longrightarrow> react (sreg sn) a [v] m = m(sreg sn := (m (sreg sn))(a := v)))"

lemma size_sets:
  assumes "size_contract react" "sn < 8"
  shows "setSn_TXBUF_SIZE (ram_chip react) sn v m = m(sreg sn := (m (sreg sn))(0x200 := v))"
    "setSn_RXBUF_SIZE (ram_chip react) sn v m = m(sreg sn := (m (sreg sn))(0x220 := v))"
  using assms
  by (simp_all add: size_contract_def setSn_TXBUF_SIZE_def setSn_RXBUF_SIZE_def setSn_TX_BSR_def setSn_RX_BSR_def
      reg_addrs [OF assms(2)] ram_write block_flag [OF assms(2)] fun_eq_iff)

lemma sreg_inject: "sn < 8 \<Longrightarrow> sn' < 8 \<Longrightarrow> sreg sn = sreg sn' \<longleftrightarrow> sn = sn'"
  by (erule sn_cases; erule sn_cases; simp add: sreg_def)

lemma fold_stores:
  assumes "\<And>sn v m. sn < 8 \<Longrightarrow> set_size sn v m = m(sreg sn := (m (sreg sn))(a := v))"
    "\<forall>sn \<in> fst ` set ps. sn < 8" "distinct (map fst ps)"
  shows "sn < 8 \<Longrightarrow> fold (\<lambda>(i, s). set_size i s) ps m (sreg sn) a = (case map_of ps sn of None \<Rightarrow> m (sreg sn) a | Some v \<Rightarrow> v)"
    "(\<And>sn. sn < 8 \<Longrightarrow> b \<noteq> sreg sn \<or> x \<noteq> a) \<Longrightarrow> fold (\<lambda>(i, s). set_size i s) ps m b x = m b x"
  using assms(2,3)
  by (induction ps arbitrary: m) (auto simp: assms(1) sreg_inject simp flip: map_of_eq_None_iff split: option.splits)

text \<open>Writing the size \<open>ss ! i\<close> to the register \<open>a\<close> of every socket \<open>i\<close>.\<close>

lemma set_sizes_stores:
  assumes "\<And>sn v m. sn < 8 \<Longrightarrow> set_size sn v m = m(sreg sn := (m (sreg sn))(a := v))" "length ss = 8"
  shows "sn < 8 \<Longrightarrow> set_sizes set_size ss m (sreg sn) a = ss ! unat sn"
    "(\<And>sn. sn < 8 \<Longrightarrow> b \<noteq> sreg sn \<or> x \<noteq> a) \<Longrightarrow> set_sizes set_size ss m b x = m b x"
proof -
  let ?is = "map word_of_nat [0 ..< 8] :: u8 list"
  have d: "distinct ?is" by (simp add: upt_rec)
  have l: "\<forall>i \<in> set ?is. i < 8" by (simp add: upt_rec)
  have m: "map fst (zip ?is ss) = ?is" using assms(2) by simp
  then have p: "\<forall>i \<in> fst ` set (zip ?is ss). i < 8" "distinct (map fst (zip ?is ss))"
    using d l by (simp_all only: m flip: set_map)
  show "set_sizes set_size ss m (sreg sn) a = ss ! unat sn" if sn: "sn < 8"
  proof -
    have "unat sn < 8" using sn by (simp add: word_less_nat_alt)
    then have "map_of (zip ?is ss) (?is ! unat sn) = Some (ss ! unat sn)" "?is ! unat sn = sn"
      using map_of_zip_nth [of ?is ss "unat sn"] d assms(2) by simp_all
    then show ?thesis
      unfolding set_sizes_def using fold_stores(1) [OF assms(1) p sn] by simp
  qed
  show "set_sizes set_size ss m b x = m b x" if "\<And>sn. sn < 8 \<Longrightarrow> b \<noteq> sreg sn \<or> x \<noteq> a"
    unfolding set_sizes_def by (rule fold_stores(2) [OF assms(1) p that])
qed

text \<open>
  C32. For arrays of eight sizes below 96 wizchip_init, once the reset has come back, checks the transmit sizes
  before the receive sizes, answers that it has succeeded exactly when neither add up to more than the 32
  kilobytes of the chip, and has written the size of every socket's buffer for the arrays it has accepted (also
  the transmit sizes when the receive sizes are refused), and nothing else.
\<close>

theorem wizchip_init_sizes:
  assumes "size_contract react" "wizchip_sw_reset (ram_chip react) m = Some m0" "length tx = 8" "length rx = 8"
    and "\<forall>s \<in> set (tx @ rx). unat s < 96"
    and "tx_fits \<longleftrightarrow> sum_list (map unat tx) \<le> 32" "rx_fits \<longleftrightarrow> sum_list (map unat rx) \<le> 32"
  shows "\<exists>m'. wizchip_init (ram_chip react) (Some tx) (Some rx) m = Some (if tx_fits \<and> rx_fits then 0 else - 1, m')
    \<and> (\<forall>sn < 8. m' (sreg sn) 0x200 = (if tx_fits then tx ! unat sn else m0 (sreg sn) 0x200)
        \<and> m' (sreg sn) 0x220 = (if tx_fits \<and> rx_fits then rx ! unat sn else m0 (sreg sn) 0x220))
    \<and> (\<forall>b x. (\<forall>sn < 8. b \<noteq> sreg sn \<or> x \<noteq> 0x200 \<and> x \<noteq> 0x220) \<longrightarrow> m' b x = m0 b x)"
proof -
  let ?t = "set_sizes (setSn_TXBUF_SIZE (ram_chip react)) tx" and ?r = "set_sizes (setSn_RXBUF_SIZE (ram_chip react)) rx"
  have "size_loop ss 0 \<longleftrightarrow> sum_list (map unat ss) \<le> 32" if "ss = tx \<or> ss = rx" for ss
    using size_loop_sum [of ss 0] assms(5) that by auto
  then have init: "wizchip_init (ram_chip react) (Some tx) (Some rx) m = Some (if tx_fits \<and> rx_fits then 0 else - 1,
      if tx_fits then if rx_fits then ?r (?t m0) else ?t m0 else m0)"
    using assms(2-4,6,7) by (simp add: wizchip_init_def init_sizes_def)
  note t = set_sizes_stores [where a = "0x200" and ss = tx, OF size_sets(1) [OF assms(1)] assms(3)]
  note r = set_sizes_stores [where a = "0x220" and ss = rx, OF size_sets(2) [OF assms(1)] assms(4)]
  show ?thesis
    unfolding init option.inject prod.inject
    by (rule exI, intro conjI allI impI, rule refl, rule refl) (simp_all add: t r)
qed

section \<open>The network registers of the chip\<close>

text \<open>
  The registers of the addresses, the locks in the system status register, and the documented
  behaviour: a write to an address register is stored while the network lock is open, and writes to
  the lock registers change only the bits of the locks. What the reset does to the registers is open.
\<close>

definition sysr :: "chip_mem \<Rightarrow> u8" where "sysr m = m 0 0x2000"
definition set_sysr :: "u8 \<Rightarrow> chip_mem \<Rightarrow> chip_mem" where "set_sysr v m = mem_store 0 0x2000 [v] m"

definition net_areas :: "(u16 \<times> nat) set" where
  "net_areas = {(0x4120, 6), (0x4130, 4), (0x4134, 4), (0x4138, 4), (0x4140, 16), (0x4150, 16), (0x4160, 16), (0x4170, 16)}"

definition net_reg :: "u16 \<Rightarrow> bool" where
  "net_reg x \<longleftrightarrow> (\<exists>(a, n) \<in> net_areas. unat (x - a) < n)"

definition lock_contract :: "reaction \<Rightarrow> bool" where
  "lock_contract react \<longleftrightarrow>
     (\<forall>m. react 0 0x41F4 [0xCE] m = set_sysr (sysr m AND 0x7F) m) \<and>
     (\<forall>m. react 0 0x41F4 [0xFF] m = set_sysr (sysr m OR 0x80) m) \<and>
     (\<forall>m. react 0 0x41F5 [0x3A] m = set_sysr (sysr m AND 0xBF) m) \<and>
     (\<forall>m. react 0 0x41F5 [0xC5] m = set_sysr (sysr m OR 0x40) m)"

definition area_contract :: "reaction \<Rightarrow> bool" where
  "area_contract react \<longleftrightarrow>
     (\<forall>m a bs. (a, length bs) \<in> net_areas \<longrightarrow> sysr m AND SYSR_NETL = 0 \<longrightarrow> react 0 a bs m = mem_store 0 a bs m)"

lemma creg_addrs:
  "SYSR_reg = chip_addr 0 0x2000" "SYCR0_reg = chip_addr 0 0x2004" "CHPLCKR_reg = chip_addr 0 0x41F4"
  "NETLCKR_reg = chip_addr 0 0x41F5" "SHAR_reg = chip_addr 0 0x4120" "GAR_reg = chip_addr 0 0x4130"
  "SUBR_reg = chip_addr 0 0x4134" "SIPR_reg = chip_addr 0 0x4138" "LLAR_reg = chip_addr 0 0x4140"
  "GUAR_reg = chip_addr 0 0x4150" "SUB6R_reg = chip_addr 0 0x4160" "GA6R_reg = chip_addr 0 0x4170"
  "NETMR_reg = chip_addr 0 0x4008" "NETMR2_reg = chip_addr 0 0x4009" "NET4MR_reg = chip_addr 0 0x4000"
  "NET6MR_reg = chip_addr 0 0x4004" "IR_reg = chip_addr 0 0x2100" "SIR_reg = chip_addr 0 0x2101" "SLIR_reg = chip_addr 0 0x2102"
  by (simp_all add: chip_addr_def WIZCHIP_CREG_BLOCK_def SYSR_reg_def SYCR0_reg_def CHPLCKR_reg_def NETLCKR_reg_def
      SHAR_reg_def GAR_reg_def SUBR_reg_def SIPR_reg_def LLAR_reg_def GUAR_reg_def SUB6R_reg_def GA6R_reg_def
      NETMR_reg_def NETMR2_reg_def NET4MR_reg_def NET6MR_reg_def IR_reg_def SIR_reg_def SLIR_reg_def)

lemma ram_bytes:
  "n = length buf \<Longrightarrow> read_bytes (ram_chip react) (chip_addr b a) n buf m = Some (mem_bytes m b a n, m)"
  "n = length bs \<Longrightarrow> (b OR 0x20) AND 0xDF = b \<Longrightarrow> write_bytes (ram_chip react) (chip_addr b a) n bs m = Some (react b a bs m)"
  by (simp_all add: read_bytes_def write_bytes_def ram_read_buf ram_write_buf)

lemma length_mem_bytes [simp]: "length (mem_bytes m b a n) = n"
  by (simp add: mem_bytes_def)

lemma mem_store_same [simp]: "mem_bytes (mem_store b a bs m) b a (length bs) = bs" if "length bs \<le> 65536"
  using that by (intro nth_equalityI) (simp_all add: mem_bytes_def mem_store_def unat_of_nat)

lemma restore_area:
  "n \<le> 65536 \<Longrightarrow> mem_store 0 a (mem_bytes m 0 a n) m' 0 x = (if unat (x - a) < n then m 0 x else m' 0 x)"
  by (simp add: mem_store_def mem_bytes_def)

lemma sysr_area: "(a, length bs) \<in> net_areas \<Longrightarrow> sysr (mem_store 0 a bs m) = sysr m"
  by (auto simp: sysr_def mem_store_def net_areas_def)

lemma sysr_set [simp]: "sysr (set_sysr v m) = v"
  by (simp add: sysr_def set_sysr_def mem_store_def)

lemma set_sysr_net: "net_reg x \<Longrightarrow> set_sysr v m 0 x = m 0 x"
proof -
  assume "net_reg x"
  then have "x \<noteq> 0x2000" by (intro notI) (auto simp: net_reg_def net_areas_def)
  then show ?thesis by (simp add: set_sysr_def mem_store_def unat_eq_0)
qed

lemma set_area:
  assumes "area_contract react" "(a, length bs) \<in> net_areas" "sysr m AND SYSR_NETL = 0" "n = length bs"
  shows "write_bytes (ram_chip react) (chip_addr 0 a) n bs m = Some (mem_store 0 a bs m)"
    "sysr (mem_store 0 a bs m) AND SYSR_NETL = 0"
  using assms by (simp_all add: ram_bytes area_contract_def sysr_area)

lemma ram_sysr: "getSYSR (ram_chip react) m = (sysr m, m)"
  by (simp add: getSYSR_def creg_addrs ram_read sysr_def)

lemma ram_locks:
  assumes "lock_contract react"
  shows "CHIPUNLOCK (ram_chip react) m = set_sysr (sysr m AND 0x7F) m"
    "CHIPLOCK (ram_chip react) m = set_sysr (sysr m OR 0x80) m"
    "NETUNLOCK (ram_chip react) m = set_sysr (sysr m AND 0xBF) m"
    "NETLOCK (ram_chip react) m = set_sysr (sysr m OR 0x40) m"
  using assms by (simp_all add: lock_contract_def CHIPUNLOCK_def CHIPLOCK_def NETUNLOCK_def NETLOCK_def
      setCHPLCKR_def setNETLCKR_def creg_addrs ram_write)

lemma ram_get_areas:
  "length buf = 6 \<Longrightarrow> getSHAR (ram_chip react) buf m = Some (mem_bytes m 0 0x4120 6, m)"
  "length buf = 4 \<Longrightarrow> getGAR (ram_chip react) buf m = Some (mem_bytes m 0 0x4130 4, m)"
  "length buf = 4 \<Longrightarrow> getSUBR (ram_chip react) buf m = Some (mem_bytes m 0 0x4134 4, m)"
  "length buf = 4 \<Longrightarrow> getSIPR (ram_chip react) buf m = Some (mem_bytes m 0 0x4138 4, m)"
  "length buf = 16 \<Longrightarrow> getLLAR (ram_chip react) buf m = Some (mem_bytes m 0 0x4140 16, m)"
  "length buf = 16 \<Longrightarrow> getGUAR (ram_chip react) buf m = Some (mem_bytes m 0 0x4150 16, m)"
  "length buf = 16 \<Longrightarrow> getSUB6R (ram_chip react) buf m = Some (mem_bytes m 0 0x4160 16, m)"
  "length buf = 16 \<Longrightarrow> getGA6R (ram_chip react) buf m = Some (mem_bytes m 0 0x4170 16, m)"
  by (simp_all add: getSHAR_def getGAR_def getSUBR_def getSIPR_def getLLAR_def getGUAR_def getSUB6R_def getGA6R_def
      creg_addrs ram_bytes)

text \<open>The eight stores, in the order of the code.\<close>

definition put_areas :: "u8 list \<Rightarrow> u8 list \<Rightarrow> u8 list \<Rightarrow> u8 list \<Rightarrow> u8 list \<Rightarrow> u8 list \<Rightarrow> u8 list \<Rightarrow> u8 list \<Rightarrow> chip_mem \<Rightarrow> chip_mem" where
  "put_areas mac gw sub ip gw6 sn6 lla gua m =
     mem_store 0 0x4150 gua (mem_store 0 0x4140 lla (mem_store 0 0x4160 sn6 (mem_store 0 0x4170 gw6
       (mem_store 0 0x4138 ip (mem_store 0 0x4134 sub (mem_store 0 0x4130 gw (mem_store 0 0x4120 mac m)))))))"

definition area_lengths :: "u8 list \<Rightarrow> u8 list \<Rightarrow> u8 list \<Rightarrow> u8 list \<Rightarrow> u8 list \<Rightarrow> u8 list \<Rightarrow> u8 list \<Rightarrow> u8 list \<Rightarrow> bool" where
  "area_lengths mac gw sub ip gw6 sn6 lla gua \<longleftrightarrow> length mac = 6 \<and> length gw = 4 \<and> length sub = 4 \<and> length ip = 4 \<and>
     length gw6 = 16 \<and> length sn6 = 16 \<and> length lla = 16 \<and> length gua = 16"

lemma ram_set_areas:
  assumes a: "area_contract react" and l: "area_lengths mac gw sub ip gw6 sn6 lla gua" and m: "sysr m AND SYSR_NETL = 0"
  shows "do {
      w \<leftarrow> setSHAR (ram_chip react) mac m;
      w \<leftarrow> setGAR (ram_chip react) gw w;
      w \<leftarrow> setSUBR (ram_chip react) sub w;
      w \<leftarrow> setSIPR (ram_chip react) ip w;
      w \<leftarrow> setGA6R (ram_chip react) gw6 w;
      w \<leftarrow> setSUB6R (ram_chip react) sn6 w;
      w \<leftarrow> setLLAR (ram_chip react) lla w;
      w \<leftarrow> setGUAR (ram_chip react) gua w;
      f w
    } = f (put_areas mac gw sub ip gw6 sn6 lla gua m)"
    "sysr (put_areas mac gw sub ip gw6 sn6 lla gua m) = sysr m"
proof -
  have n: "(0x4120, 6) \<in> net_areas" "(0x4130, 4) \<in> net_areas" "(0x4134, 4) \<in> net_areas" "(0x4138, 4) \<in> net_areas"
    "(0x4170, 16) \<in> net_areas" "(0x4160, 16) \<in> net_areas" "(0x4140, 16) \<in> net_areas" "(0x4150, 16) \<in> net_areas"
    by (simp_all add: net_areas_def)
  show "do {
      w \<leftarrow> setSHAR (ram_chip react) mac m;
      w \<leftarrow> setGAR (ram_chip react) gw w;
      w \<leftarrow> setSUBR (ram_chip react) sub w;
      w \<leftarrow> setSIPR (ram_chip react) ip w;
      w \<leftarrow> setGA6R (ram_chip react) gw6 w;
      w \<leftarrow> setSUB6R (ram_chip react) sn6 w;
      w \<leftarrow> setLLAR (ram_chip react) lla w;
      w \<leftarrow> setGUAR (ram_chip react) gua w;
      f w
    } = f (put_areas mac gw sub ip gw6 sn6 lla gua m)"
    using l unfolding setSHAR_def setGAR_def setSUBR_def setSIPR_def setGA6R_def setSUB6R_def setLLAR_def setGUAR_def
      creg_addrs area_lengths_def put_areas_def
    by (simp add: set_area [OF a] m n sysr_area)
  show "sysr (put_areas mac gw sub ip gw6 sn6 lla gua m) = sysr m"
    using l by (simp add: put_areas_def area_lengths_def sysr_area n)
qed

text \<open>Storing what was read in the areas of another memory gives the areas of the first.\<close>

lemma put_areas_restores:
  assumes "net_reg x"
  shows "put_areas (mem_bytes m 0 0x4120 6) (mem_bytes m 0 0x4130 4) (mem_bytes m 0 0x4134 4) (mem_bytes m 0 0x4138 4)
    (mem_bytes m 0 0x4170 16) (mem_bytes m 0 0x4160 16) (mem_bytes m 0 0x4140 16) (mem_bytes m 0 0x4150 16) m' 0 x = m 0 x"
  using assms unfolding put_areas_def by (auto simp: restore_area net_reg_def net_areas_def)

text \<open>The chip as the reset leaves it, which is written with the chip lock open.\<close>

definition reset_chip :: "reaction \<Rightarrow> chip_mem \<Rightarrow> chip_mem" where
  "reset_chip react m = react 0 0x2004 [SYCR0_RST] (set_sysr (sysr m AND 0x7F) m)"

lemma one_bit: "n < 8 \<Longrightarrow> (x :: u8) AND 2 ^ n = (if bit x n then 2 ^ n else 0)"
  by (rule bit_word_eqI) (auto simp: bit_and_iff bit_exp_iff)

lemma lock_bits:
  "x AND 0xC0 = (x AND 0x80) OR (x AND 0x40)"
  "(x :: u8) AND 0x80 = (if bit x 7 then 0x80 else 0)" "x AND 0x40 = (if bit x 6 then 0x40 else 0)"
proof -
  show "x AND 0xC0 = (x AND 0x80) OR (x AND 0x40)"
    using bit.conj_disj_distrib [of x "0x80" "0x40"] by simp
  show "x AND 0x80 = (if bit x 7 then 0x80 else 0)" using one_bit [of 7 x] by simp
  show "x AND 0x40 = (if bit x 6 then 0x40 else 0)" using one_bit [of 6 x] by simp
qed

lemma sw_reset_network:
  assumes "lock_contract react" "area_contract react"
  shows "\<exists>m'. wizchip_sw_reset (ram_chip react) m = Some m'
    \<and> (\<forall>x. net_reg x \<longrightarrow> m' 0 x = m 0 x)
    \<and> sysr m' = (sysr (reset_chip react m) AND 0xBF) OR (sysr m AND (SYSR_CHPL OR SYSR_NETL))"
proof -
  let ?E = "ram_chip react" and ?m1 = "set_sysr (sysr m AND 0x7F) m"
  let ?m2 = "reset_chip react m"
  let ?m3 = "set_sysr (sysr ?m2 AND 0xBF) ?m2"
  let ?m4 = "put_areas (mem_bytes ?m1 0 0x4120 6) (mem_bytes ?m1 0 0x4130 4) (mem_bytes ?m1 0 0x4134 4)
    (mem_bytes ?m1 0 0x4138 4) (mem_bytes ?m1 0 0x4170 16) (mem_bytes ?m1 0 0x4160 16) (mem_bytes ?m1 0 0x4140 16)
    (mem_bytes ?m1 0 0x4150 16) ?m3"
  let ?m5 = "if sysr m AND SYSR_CHPL \<noteq> 0 then set_sysr (sysr ?m4 OR 0x80) ?m4 else ?m4"
  let ?m6 = "if sysr m AND SYSR_NETL \<noteq> 0 then set_sysr (sysr ?m5 OR 0x40) ?m5 else ?m5"
  have u: "sysr ?m3 AND SYSR_NETL = 0" by (simp add: and.assoc)
  have l: "area_lengths (mem_bytes ?m1 0 0x4120 6) (mem_bytes ?m1 0 0x4130 4) (mem_bytes ?m1 0 0x4134 4)
    (mem_bytes ?m1 0 0x4138 4) (mem_bytes ?m1 0 0x4170 16) (mem_bytes ?m1 0 0x4160 16) (mem_bytes ?m1 0 0x4140 16)
    (mem_bytes ?m1 0 0x4150 16)" by (simp add: area_lengths_def)
  have "setSYCR0 ?E SYCR0_RST ?m1 = ?m2" "getSYCR0 ?E ?m2 = (?m2 0 0x2004, ?m2)"
    by (simp_all add: setSYCR0_def getSYCR0_def creg_addrs ram_write ram_read reset_chip_def)
  then have "wizchip_sw_reset ?E m = Some ?m6"
    unfolding wizchip_sw_reset_def ram_sysr Let_def prod.case ram_locks [OF assms(1)]
    by (simp add: ram_get_areas ram_set_areas [OF assms(2) l u])
  moreover have "sysr ?m4 = sysr (reset_chip react m) AND 0xBF" using ram_set_areas(2) [OF assms(2) l u] by simp
  moreover have "?m6 0 x = m 0 x" if "net_reg x" for x
    using put_areas_restores [OF that, of ?m1] by (simp add: set_sysr_net [OF that])
  ultimately show ?thesis
    by (auto simp: lock_bits or.assoc)
qed

lemma sw_reset_some: "lock_contract react \<Longrightarrow> area_contract react \<Longrightarrow> \<exists>m'. wizchip_sw_reset (ram_chip react) m = Some m'"
  using sw_reset_network by blast

text \<open>
  C31. On a chip whose locks and address registers behave as documented, wizchip_sw_reset brings the MAC
  address, the IPv4 and IPv6 addresses, masks and gateways back, whatever the reset has done to the
  registers. Of the locks it brings back only that of the network settings: that one is afterwards as it was
  before, the chip lock is closed if it was closed before or if the reset closes it, and the lock of the PHY
  and the other bits of the system status register are as the reset leaves them.
\<close>

theorem sw_reset_keeps_network:
  assumes "lock_contract react" "area_contract react"
  shows "\<exists>m'. wizchip_sw_reset (ram_chip react) m = Some m'
    \<and> (\<forall>x. net_reg x \<longrightarrow> m' 0 x = m 0 x)
    \<and> sysr m' = (sysr (reset_chip react m) AND 0xBF) OR (sysr m AND (SYSR_CHPL OR SYSR_NETL))"
  by (rule sw_reset_network [OF assms])

text \<open>A chip with these registers, whose reset clears all of its memory and locks it.\<close>

definition conf_react :: reaction where
  "conf_react b a bs m =
     (if b = 0 \<and> a = 0x41F4 then set_sysr (if bs = [0xCE] then sysr m AND 0x7F else sysr m OR 0x80) m
      else if b = 0 \<and> a = 0x41F5 then set_sysr (if bs = [0x3A] then sysr m AND 0xBF else sysr m OR 0x40) m
      else if b = 0 \<and> a = 0x2004 then (if sysr m AND 0x80 = 0 then set_sysr 0xE0 (\<lambda>_ _. 0) else m)
      else if b = 0 \<and> a \<in> fst ` net_areas \<and> sysr m AND 0x40 \<noteq> 0 then m
      else mem_store b a bs m)"

lemma conf_react: "lock_contract conf_react" "area_contract conf_react"
proof -
  show "lock_contract conf_react" by (simp add: lock_contract_def conf_react_def)
  have "a \<noteq> 0x41F4 \<and> a \<noteq> 0x41F5 \<and> a \<noteq> 0x2004" if "(a, n) \<in> net_areas" for a n
    using that by (auto simp: net_areas_def)
  then show "area_contract conf_react" by (auto simp: area_contract_def conf_react_def)
qed

text \<open>A chip that was open and whose network settings were locked: afterwards all three locks are closed.\<close>

lemma sw_reset_keeps_network_witness:
  "\<exists>m'. wizchip_sw_reset (ram_chip conf_react) (\<lambda>b a. if a = 0x2000 then 0x40 else 7) = Some m'
    \<and> m' 0 0x4120 = 7 \<and> sysr m' = 0xE0"
proof -
  let ?m = "\<lambda>b a. if a = 0x2000 then 0x40 else 7 :: u8"
  have "sysr ?m = 0x40" by (simp add: sysr_def)
  then have "sysr (reset_chip conf_react ?m) = 0xE0" by (simp add: reset_chip_def conf_react_def)
  moreover have "net_reg 0x4120" by (auto simp: net_reg_def net_areas_def)
  ultimately show ?thesis
    using sw_reset_keeps_network [OF conf_react, of ?m] \<open>sysr ?m = 0x40\<close> by auto
qed

lemma mem_bytes_disjoint:
  assumes "length bs \<le> unat (a' - a)" "unat (a' - a) + n \<le> 65536"
  shows "mem_bytes (mem_store b a bs m) b a' n = mem_bytes m b a' n"
proof -
  have "\<not> unat (a' + word_of_nat i - a) < length bs" if "i < n" for i
  proof -
    have "unat (a' - a) + unat (word_of_nat i :: u16) < 2 ^ LENGTH(16)"
      using that assms by (simp add: unat_of_nat)
    then have "unat (a' - a + word_of_nat i) = unat (a' - a) + unat (word_of_nat i :: u16)"
      by (rule unat_add_lem [THEN iffD1])
    then have "unat (a' + word_of_nat i - a) = unat (a' - a) + unat (word_of_nat i :: u16)"
      by (simp add: algebra_simps)
    then show ?thesis using assms(1) by linarith
  qed
  then show ?thesis by (auto simp: mem_bytes_def mem_store_def)
qed

lemma mem_store_same_n: "length bs = n \<Longrightarrow> n \<le> 65536 \<Longrightarrow> mem_bytes (mem_store b a bs m) b a n = bs"
  using mem_store_same [of bs b a m] by simp

lemma put_areas_read:
  assumes "area_lengths mac gw sub ip gw6 sn6 lla gua"
  shows "mem_bytes (put_areas mac gw sub ip gw6 sn6 lla gua m) 0 0x4120 6 = mac" "mem_bytes (put_areas mac gw sub ip gw6 sn6 lla gua m) 0 0x4130 4 = gw" "mem_bytes (put_areas mac gw sub ip gw6 sn6 lla gua m) 0 0x4134 4 = sub"
    "mem_bytes (put_areas mac gw sub ip gw6 sn6 lla gua m) 0 0x4138 4 = ip" "mem_bytes (put_areas mac gw sub ip gw6 sn6 lla gua m) 0 0x4170 16 = gw6" "mem_bytes (put_areas mac gw sub ip gw6 sn6 lla gua m) 0 0x4160 16 = sn6"
    "mem_bytes (put_areas mac gw sub ip gw6 sn6 lla gua m) 0 0x4140 16 = lla" "mem_bytes (put_areas mac gw sub ip gw6 sn6 lla gua m) 0 0x4150 16 = gua"
  using assms by (simp_all add: put_areas_def area_lengths_def mem_bytes_disjoint mem_store_same_n)

definition ni_wf :: "wiz_NetInfo \<Rightarrow> bool" where
  "ni_wf ni \<longleftrightarrow> area_lengths (ni_mac ni) (ni_gw ni) (ni_sn ni) (ni_ip ni) (ni_gw6 ni) (ni_sn6 ni) (ni_lla ni) (ni_gua ni)
     \<and> length (ni_dns ni) = 4 \<and> length (ni_dns6 ni) = 16"

text \<open>
  C30. Network settings written with CN_SET_NETINFO while the network lock is open are read back by
  CN_GET_NETINFO, all but the DHCP mode, which neither request touches.
\<close>

theorem netinfo_roundtrip:
  assumes "area_contract react" "sysr (conf_world c) AND SYSR_NETL = 0"
    and "ni_wf ni" "ni_wf old" "length (conf_dns c) = 4" "length (conf_dns6 c) = 16"
  shows "\<exists>c'. ctlnetwork (ram_chip react) CN_SET_NETINFO (Arg_netinfo ni) c = Some (0, Arg_netinfo ni, c')
    \<and> ctlnetwork (ram_chip react) CN_GET_NETINFO (Arg_netinfo old) c' = Some (0, Arg_netinfo (ni\<lparr>ni_dhcp := ni_dhcp old\<rparr>), c')"
proof -
  let ?m = "put_areas (ni_mac ni) (ni_gw ni) (ni_sn ni) (ni_ip ni) (ni_gw6 ni) (ni_sn6 ni) (ni_lla ni) (ni_gua ni) (conf_world c)"
  let ?c = "c\<lparr>conf_world := ?m, conf_dns := ni_dns ni, conf_dns6 := ni_dns6 ni, conf_ipmode := ni_ipmode ni\<rparr>"
  have l: "area_lengths (ni_mac ni) (ni_gw ni) (ni_sn ni) (ni_ip ni) (ni_gw6 ni) (ni_sn6 ni) (ni_lla ni) (ni_gua ni)"
    and d: "length (ni_dns ni) = 4" "length (ni_dns6 ni) = 16" using assms(3) by (simp_all add: ni_wf_def)
  have "wizchip_setnetinfo (ram_chip react) ni c = Some ?c"
    unfolding wizchip_setnetinfo_def using assms(5,6) d
    by (simp add: ram_set_areas [OF assms(1) l assms(2)] copy_bytes_def)
  moreover have "wizchip_getnetinfo (ram_chip react) old ?c = Some (ni\<lparr>ni_dhcp := ni_dhcp old\<rparr>, ?c)"
    unfolding wizchip_getnetinfo_def using assms(4) d
    by (simp add: ni_wf_def area_lengths_def ram_get_areas put_areas_read [OF l] copy_bytes_def)
  ultimately show ?thesis by (simp add: ctlnetwork_def)
qed

definition sample_netinfo :: wiz_NetInfo where
  "sample_netinfo = \<lparr>ni_mac = [0, 8, 0xDC, 1, 2, 3], ni_ip = [192, 168, 0, 9], ni_sn = [255, 255, 255, 0],
     ni_gw = [192, 168, 0, 1], ni_lla = replicate 16 1, ni_gua = replicate 16 2, ni_sn6 = replicate 16 3,
     ni_gw6 = replicate 16 4, ni_dns = [8, 8, 8, 8], ni_dns6 = replicate 16 5, ni_ipmode = 1, ni_dhcp = 1\<rparr>"

lemma netinfo_roundtrip_witness:
  "\<exists>c'. ctlnetwork (ram_chip conf_react) CN_SET_NETINFO (Arg_netinfo sample_netinfo) (conf_start (\<lambda>_ _. 0))
      = Some (0, Arg_netinfo sample_netinfo, c')
    \<and> ctlnetwork (ram_chip conf_react) CN_GET_NETINFO (Arg_netinfo (sample_netinfo\<lparr>ni_ip := [0, 0, 0, 0]\<rparr>)) c'
      = Some (0, Arg_netinfo sample_netinfo, c')"
proof -
  have "sysr (conf_world (conf_start (\<lambda>_ _. 0 :: u8))) AND SYSR_NETL = 0" by (simp add: conf_start_def sysr_def)
  moreover have "ni_wf sample_netinfo" "ni_wf (sample_netinfo\<lparr>ni_ip := [0, 0, 0, 0]\<rparr>)"
    by (simp_all add: ni_wf_def area_lengths_def sample_netinfo_def)
  moreover have "sample_netinfo\<lparr>ni_dhcp := ni_dhcp (sample_netinfo\<lparr>ni_ip := [0, 0, 0, 0]\<rparr>)\<rparr> = sample_netinfo" by simp
  ultimately show ?thesis
    using netinfo_roundtrip [OF conf_react(2), of "conf_start (\<lambda>_ _. 0)" sample_netinfo "sample_netinfo\<lparr>ni_ip := [0, 0, 0, 0]\<rparr>"]
    by (simp add: conf_start_def)
qed

section \<open>The network mode\<close>

definition mode_contract :: "reaction \<Rightarrow> bool" where
  "mode_contract react \<longleftrightarrow>
     (\<forall>m a v. a \<in> {0x4000, 0x4004, 0x4008, 0x4009} \<longrightarrow> react 0 a [v] m = mem_store 0 a [v] m)"

lemma ram_mode:
  "getNETMR (ram_chip react) m = (m 0 0x4008, m)" "getNETMR2 (ram_chip react) m = (m 0 0x4009, m)"
  "getNET4MR (ram_chip react) m = (m 0 0x4000, m)" "getNET6MR (ram_chip react) m = (m 0 0x4004, m)"
  "setNETMR (ram_chip react) v m = react 0 0x4008 [v] m" "setNETMR2 (ram_chip react) v m = react 0 0x4009 [v] m"
  "setNET4MR (ram_chip react) v m = react 0 0x4000 [v] m" "setNET6MR (ram_chip react) v m = react 0 0x4004 [v] m"
  by (simp_all add: getNETMR_def getNETMR2_def getNET4MR_def getNET6MR_def setNETMR_def setNETMR2_def setNET4MR_def
      setNET6MR_def creg_addrs ram_read ram_write)

text \<open>What the shifts leave of the four bytes that are read.\<close>

lemma netmode_shifts: "push_bit 24 (push_bit 16 x + y) + z = push_bit 24 y + (z :: u32)"
proof -
  have "push_bit 40 x = 0" by (rule bit_eqI) (auto simp: bit_push_bit_iff dest: bit_imp_le_length)
  then show ?thesis by (simp add: push_bit_add push_bit_push_bit del: push_bit_eq_mult)
qed

text \<open>
  Setting the network mode falls through into reading it: the mode that the caller passed is
  overwritten, and since each byte is shifted once too often the two bytes of the general mode registers
  are lost, the IPv4 byte is in the place of the IPv6 byte and that in the lowest place.
\<close>

theorem netmode_not_read_back:
  assumes "mode_contract react"
  shows "\<exists>c'. ctlnetwork (ram_chip react) CN_SET_NETMODE (Arg_u32 n) c
      = Some (0, Arg_u32 (push_bit 24 (ucast (ucast (drop_bit 16 n) :: u8)) + ucast (ucast (drop_bit 24 n) :: u8)), c')
    \<and> conf_world c' 0 0x4008 = ucast n \<and> conf_world c' 0 0x4009 = ucast (drop_bit 8 n)
    \<and> conf_world c' 0 0x4000 = ucast (drop_bit 16 n) \<and> conf_world c' 0 0x4004 = ucast (drop_bit 24 n)"
proof -
  let ?m = "wizchip_setnetmode (ram_chip react) n (conf_world c)"
  have "?m = mem_store 0 0x4004 [ucast (drop_bit 24 n)] (mem_store 0 0x4000 [ucast (drop_bit 16 n)]
      (mem_store 0 0x4009 [ucast (drop_bit 8 n)] (mem_store 0 0x4008 [ucast n] (conf_world c))))"
    using assms by (simp add: wizchip_setnetmode_def ram_mode mode_contract_def)
  then have m: "?m 0 0x4008 = ucast n" "?m 0 0x4009 = ucast (drop_bit 8 n)" "?m 0 0x4000 = ucast (drop_bit 16 n)"
    "?m 0 0x4004 = ucast (drop_bit 24 n)"
    by (simp_all add: mem_store_def unat_eq_0)
  have "wizchip_getnetmode (ram_chip react) ?m
      = (push_bit 24 (ucast (ucast (drop_bit 16 n) :: u8)) + ucast (ucast (drop_bit 24 n) :: u8), ?m)"
    unfolding wizchip_getnetmode_def ram_mode Let_def prod.case m netmode_shifts ..
  then show ?thesis using m by (simp add: ctlnetwork_def get_netmode_def)
qed

lemma netmode_not_read_back_witness:
  "\<exists>c'. ctlnetwork (ram_chip conf_react) CN_SET_NETMODE (Arg_u32 0x00010030) (conf_start (\<lambda>_ _. 0))
      = Some (0, Arg_u32 0x01000000, c') \<and> conf_world c' 0 0x4008 = 0x30"
proof -
  have "mode_contract conf_react" by (auto simp: mode_contract_def conf_react_def net_areas_def)
  from netmode_not_read_back [where n = "0x00010030" and c = "conf_start (\<lambda>_ _. 0)", OF this]
  show ?thesis by (auto simp: drop_bit_eq_div push_bit_eq_mult)
qed

text \<open>A time-out of a network service is reported as the bit of a router advertisement.\<close>

lemma timeout_reported_as_advertisement:
  assumes "m 0 0x2102 = SLIR_TOUT"
  shows "fst (wizchip_getinterrupt (ram_chip react) m) AND IK_SOCKL_TOUT = 0"
    "fst (wizchip_getinterrupt (ram_chip react) m) AND IK_SOCKL_RA \<noteq> 0"
proof -
  define low :: u32 where "low = push_bit 8 (ucast (m 0 0x2101)) + ucast (m 0 0x2100)"
  have "low = push_bit 8 (ucast (m 0 0x2101)) OR ucast (m 0 0x2100)" unfolding low_def
    by (rule disjunctive_add) (auto simp: bit_push_bit_iff bit_unsigned_iff dest: bit_imp_le_length)
  then have "\<not> bit low i" if "16 \<le> i" for i
    using that by (auto simp: bit_or_iff bit_push_bit_iff bit_unsigned_iff dest: bit_imp_le_length)
  moreover have "fst (wizchip_getinterrupt (ram_chip react) m) = 0x00800000 OR low"
    by (simp add: wizchip_getinterrupt_def getIR_def getSIR_def getSLIR_def creg_addrs ram_read assms low_def)
  ultimately show "fst (wizchip_getinterrupt (ram_chip react) m) AND IK_SOCKL_TOUT = 0"
    "fst (wizchip_getinterrupt (ram_chip react) m) AND IK_SOCKL_RA \<noteq> 0"
  proof -
    assume f: "fst (wizchip_getinterrupt (ram_chip react) m) = 0x00800000 OR low" and h: "\<And>i. 16 \<le> i \<Longrightarrow> \<not> bit low i"
    have "\<not> bit (0x00800000 OR low) 16" using h [of 16] by (simp add: bit_or_iff)
    moreover have "bit (0x00800000 OR low) 23" by (simp add: bit_or_iff)
    ultimately show "fst (wizchip_getinterrupt (ram_chip react) m) AND IK_SOCKL_TOUT = 0"
      "fst (wizchip_getinterrupt (ram_chip react) m) AND IK_SOCKL_RA \<noteq> 0"
      unfolding f using and_exp_eq_0_iff_not_bit [of "0x00800000 OR low" 16] and_exp_eq_0_iff_not_bit [of "0x00800000 OR low" 23]
      by simp_all
  qed
qed

text \<open>The transmit sizes are taken, the receive sizes refused: socket 1 has its send buffer nevertheless.\<close>

lemma wizchip_init_sizes_witness:
  "\<exists>m'. wizchip_init (ram_chip conf_react) (Some [16, 16, 0, 0, 0, 0, 0, 0]) (Some [16, 16, 1, 0, 0, 0, 0, 0]) (\<lambda>_ _. 0)
     = Some (- 1, m') \<and> m' (sreg 1) 0x200 = 16"
proof -
  have size: "size_contract conf_react"
    by (auto simp: size_contract_def conf_react_def mem_store_def net_areas_def fun_eq_iff word_less_nat_alt unat_eq_zero)
  obtain m0 where "wizchip_sw_reset (ram_chip conf_react) (\<lambda>_ _. 0) = Some m0"
    using sw_reset_some [OF conf_react, of "\<lambda>_ _. 0"] by blast
  from wizchip_init_sizes [OF size this, of "[16, 16, 0, 0, 0, 0, 0, 0]" "[16, 16, 1, 0, 0, 0, 0, 0]" True False]
  show ?thesis by auto
qed

end
