(* ===== verification/Dhcp.thy ===== *)
theory Dhcp
  imports Wizchip_Conf
begin

text \<open>
  The DHCP client of \<^verbatim>\<open>Internet/DHCP/dhcp.c\<close> over the socket layer. The message is the array of bytes
  that \<^verbatim>\<open>pDHCPMSG\<close> points to, whose fields have no padding between them. Reading or writing outside the
  array, and waits that never end, are \<open>None\<close>; the locals that \<^verbatim>\<open>recvfrom\<close> fills start as zeros. The
  timer interrupt runs between the calls and, as the parameter \<open>ticks\<close>, in the wait after a DECLINE.
\<close>

section \<open>Constants\<close>

abbreviation (input) STATE_DHCP_INIT :: u8 where "STATE_DHCP_INIT \<equiv> 0"
abbreviation (input) STATE_DHCP_DISCOVER :: u8 where "STATE_DHCP_DISCOVER \<equiv> 1"
abbreviation (input) STATE_DHCP_REQUEST :: u8 where "STATE_DHCP_REQUEST \<equiv> 2"
abbreviation (input) STATE_DHCP_LEASED :: u8 where "STATE_DHCP_LEASED \<equiv> 3"
abbreviation (input) STATE_DHCP_REREQUEST :: u8 where "STATE_DHCP_REREQUEST \<equiv> 4"
abbreviation (input) STATE_DHCP_STOP :: u8 where "STATE_DHCP_STOP \<equiv> 6"
abbreviation (input) DHCP_FLAGSBROADCAST :: u16 where "DHCP_FLAGSBROADCAST \<equiv> 0x8000"
abbreviation (input) DHCP_FLAGSUNICAST :: u16 where "DHCP_FLAGSUNICAST \<equiv> 0x0000"
abbreviation (input) DHCP_BOOTREQUEST :: u8 where "DHCP_BOOTREQUEST \<equiv> 1"
abbreviation (input) DHCP_DISCOVER :: u8 where "DHCP_DISCOVER \<equiv> 1"
abbreviation (input) DHCP_OFFER :: u8 where "DHCP_OFFER \<equiv> 2"
abbreviation (input) DHCP_REQUEST :: u8 where "DHCP_REQUEST \<equiv> 3"
abbreviation (input) DHCP_DECLINE :: u8 where "DHCP_DECLINE \<equiv> 4"
abbreviation (input) DHCP_ACK :: u8 where "DHCP_ACK \<equiv> 5"
abbreviation (input) DHCP_NAK :: u8 where "DHCP_NAK \<equiv> 6"
abbreviation (input) DHCP_HTYPE10MB :: u8 where "DHCP_HTYPE10MB \<equiv> 1"
abbreviation (input) DHCP_HLENETHERNET :: u8 where "DHCP_HLENETHERNET \<equiv> 6"
abbreviation (input) DHCP_HOPS :: u8 where "DHCP_HOPS \<equiv> 0"
abbreviation (input) DHCP_SECS :: u16 where "DHCP_SECS \<equiv> 0"
abbreviation (input) INFINITE_LEASETIME :: u32 where "INFINITE_LEASETIME \<equiv> 0xffffffff"
abbreviation (input) RIP_MSG_SIZE :: u16 where "RIP_MSG_SIZE \<equiv> 548"
abbreviation (input) MAX_DHCP_RETRY :: u8 where "MAX_DHCP_RETRY \<equiv> 2"
abbreviation (input) DHCP_WAIT_TIME :: u32 where "DHCP_WAIT_TIME \<equiv> 10"
abbreviation (input) DHCP_SERVER_PORT :: u16 where "DHCP_SERVER_PORT \<equiv> 67"
abbreviation (input) DHCP_CLIENT_PORT :: u16 where "DHCP_CLIENT_PORT \<equiv> 68"
abbreviation (input) MAGIC_COOKIE :: u32 where "MAGIC_COOKIE \<equiv> 0x63825363"
abbreviation (input) DHCP_FAILED :: u8 where "DHCP_FAILED \<equiv> 0"
abbreviation (input) DHCP_RUNNING :: u8 where "DHCP_RUNNING \<equiv> 1"
abbreviation (input) DHCP_IP_CHANGED :: u8 where "DHCP_IP_CHANGED \<equiv> 3"
abbreviation (input) DHCP_IP_LEASED :: u8 where "DHCP_IP_LEASED \<equiv> 4"
abbreviation (input) DHCP_STOPPED :: u8 where "DHCP_STOPPED \<equiv> 5"

abbreviation (input) padOption :: u8 where "padOption \<equiv> 0"
abbreviation (input) subnetMask :: u8 where "subnetMask \<equiv> 1"
abbreviation (input) routersOnSubnet :: u8 where "routersOnSubnet \<equiv> 3"
abbreviation (input) dnsOption :: u8 where "dnsOption \<equiv> 6"
abbreviation (input) hostName :: u8 where "hostName \<equiv> 12"
abbreviation (input) domainName :: u8 where "domainName \<equiv> 15"
abbreviation (input) performRouterDiscovery :: u8 where "performRouterDiscovery \<equiv> 31"
abbreviation (input) staticRoute :: u8 where "staticRoute \<equiv> 33"
abbreviation (input) dhcpRequestedIPaddr :: u8 where "dhcpRequestedIPaddr \<equiv> 50"
abbreviation (input) dhcpIPaddrLeaseTime :: u8 where "dhcpIPaddrLeaseTime \<equiv> 51"
abbreviation (input) dhcpMessageType :: u8 where "dhcpMessageType \<equiv> 53"
abbreviation (input) dhcpServerIdentifier :: u8 where "dhcpServerIdentifier \<equiv> 54"
abbreviation (input) dhcpParamRequest :: u8 where "dhcpParamRequest \<equiv> 55"
abbreviation (input) dhcpT1value :: u8 where "dhcpT1value \<equiv> 58"
abbreviation (input) dhcpT2value :: u8 where "dhcpT2value \<equiv> 59"
abbreviation (input) dhcpClientIdentifier :: u8 where "dhcpClientIdentifier \<equiv> 61"
abbreviation (input) endOption :: u8 where "endOption \<equiv> 255"

text \<open>The characters of \<^verbatim>\<open>HOST_NAME\<close> up to its NUL.\<close>

definition HOST_NAME :: "u8 list" where "HOST_NAME = map byte_of_char ''WIZnet''"

section \<open>State\<close>

record 'w dhcp =
  dhcp_net :: "'w net"
  DHCP_SOCKET :: u8
  DHCP_SIP :: "u8 list"
  DHCP_REAL_SIP :: "u8 list"
  OLD_allocated_ip :: "u8 list"
  DHCP_allocated_ip :: "u8 list"
  DHCP_allocated_gw :: "u8 list"
  DHCP_allocated_sn :: "u8 list"
  DHCP_allocated_dns :: "u8 list"
  dhcp_state :: u8
  dhcp_retry_count :: u8
  dhcp_lease_time :: u32
  dhcp_tick_1s :: u32
  dhcp_tick_next :: u32
  DHCP_XID :: u32
  pDHCPMSG :: "u8 list"
  DHCP_CHADDR :: "u8 list"

definition dhcp_start :: "'w net \<Rightarrow> 'w dhcp" where
  "dhcp_start n = \<lparr>dhcp_net = n, DHCP_SOCKET = 0, DHCP_SIP = replicate 4 0, DHCP_REAL_SIP = replicate 4 0,
     OLD_allocated_ip = replicate 4 0, DHCP_allocated_ip = replicate 4 0, DHCP_allocated_gw = replicate 4 0,
     DHCP_allocated_sn = replicate 4 0, DHCP_allocated_dns = replicate 4 0, dhcp_state = STATE_DHCP_INIT,
     dhcp_retry_count = 0, dhcp_lease_time = INFINITE_LEASETIME, dhcp_tick_1s = 0, dhcp_tick_next = DHCP_WAIT_TIME,
     DHCP_XID = 0, pDHCPMSG = [], DHCP_CHADDR = replicate 6 0\<rparr>"

definition on_net :: "('w net \<Rightarrow> ('v \<times> 'w net) option) \<Rightarrow> 'w dhcp \<Rightarrow> ('v \<times> 'w dhcp) option" where
  "on_net f d = do { (v, n) \<leftarrow> f (dhcp_net d); Some (v, d\<lparr>dhcp_net := n\<rparr>) }"

definition put_net :: "('w \<Rightarrow> 'w option) \<Rightarrow> 'w dhcp \<Rightarrow> 'w dhcp option" where
  "put_net f d = do { n \<leftarrow> try_put f (dhcp_net d); Some (d\<lparr>dhcp_net := n\<rparr>) }"

section \<open>The handlers of the application\<close>

definition default_ip_assign :: "'w wizchip \<Rightarrow> 'w dhcp \<Rightarrow> 'w dhcp option" where
  "default_ip_assign E d = do {
     d \<leftarrow> put_net (setSIPR E (DHCP_allocated_ip d)) d;
     d \<leftarrow> put_net (setSUBR E (DHCP_allocated_sn d)) d;
     put_net (setGAR E (DHCP_allocated_gw d)) d
   }"

definition chip_reset :: "'w wizchip \<Rightarrow> 'w \<Rightarrow> 'w" where
  "chip_reset E w = snd (getSYSR E (CHIPLOCK E (setSYCR0 E SYCR0_RST (CHIPUNLOCK E w))))"

definition default_ip_update :: "'w wizchip \<Rightarrow> 'w dhcp \<Rightarrow> 'w dhcp option" where
  "default_ip_update E d = do {
     d \<leftarrow> put_net (\<lambda>w. Some (chip_reset E w)) d;
     d \<leftarrow> default_ip_assign E d;
     put_net (setSHAR E (DHCP_CHADDR d)) d
   }"

definition default_ip_conflict :: "'w wizchip \<Rightarrow> 'w dhcp \<Rightarrow> 'w dhcp option" where
  "default_ip_conflict E d = do {
     d \<leftarrow> put_net (\<lambda>w. Some (chip_reset E w)) d;
     put_net (setSHAR E (DHCP_CHADDR d)) d
   }"

text \<open>
  The registered handlers; they see the state of the client and change the network and the world only.
\<close>

record 'w dhcp_cb =
  dhcp_ip_assign :: "'w dhcp \<Rightarrow> 'w net option"
  dhcp_ip_update :: "'w dhcp \<Rightarrow> 'w net option"
  dhcp_ip_conflict :: "'w dhcp \<Rightarrow> 'w net option"

definition net_of :: "('w dhcp \<Rightarrow> 'w dhcp option) \<Rightarrow> 'w dhcp \<Rightarrow> 'w net option" where
  "net_of f d = map_option dhcp_net (f d)"

definition reg_dhcp_cbfunc ::
    "'w wizchip \<Rightarrow> ('w dhcp \<Rightarrow> 'w net option) option \<Rightarrow> ('w dhcp \<Rightarrow> 'w net option) option
     \<Rightarrow> ('w dhcp \<Rightarrow> 'w net option) option \<Rightarrow> 'w dhcp_cb" where
  "reg_dhcp_cbfunc E ip_assign ip_update ip_conflict =
     \<lparr>dhcp_ip_assign = (case ip_assign of None \<Rightarrow> net_of (default_ip_assign E) | Some f \<Rightarrow> f),
      dhcp_ip_update = (case ip_update of None \<Rightarrow> net_of (default_ip_update E) | Some f \<Rightarrow> f),
      dhcp_ip_conflict = (case ip_conflict of None \<Rightarrow> net_of (default_ip_conflict E) | Some f \<Rightarrow> f)\<rparr>"

definition call_handler :: "('w dhcp \<Rightarrow> 'w net option) \<Rightarrow> 'w dhcp \<Rightarrow> 'w dhcp option" where
  "call_handler f d = do { n \<leftarrow> f d; Some (d\<lparr>dhcp_net := n\<rparr>) }"

section \<open>Messages\<close>

definition NibbleToHex :: "u8 \<Rightarrow> u8" where
  "NibbleToHex nibble = (let n = nibble AND 0x0F in if n \<le> 9 then n + 0x30 else n + (0x41 - 0x0A))"

definition be_32 :: "u32 \<Rightarrow> u8 list" where
  "be_32 w = [ucast (drop_bit 24 (w AND 0xFF000000)), ucast (drop_bit 16 (w AND 0x00FF0000)),
     ucast (drop_bit 8 (w AND 0x0000FF00)), ucast (w AND 0x000000FF)]"

definition be_16 :: "u16 \<Rightarrow> u8 list" where
  "be_16 w = [ucast (drop_bit 8 (w AND 0xFF00)), ucast (w AND 0x00FF)]"

text \<open>The 240 bytes that every message starts with; \<^verbatim>\<open>xid\<close> and \<^verbatim>\<open>flags\<close> are stored high byte first.\<close>

definition msg_head :: "u32 \<Rightarrow> u8 list \<Rightarrow> u8 list" where
  "msg_head xid mac =
     [DHCP_BOOTREQUEST, DHCP_HTYPE10MB, DHCP_HLENETHERNET, DHCP_HOPS] @ be_32 xid @ [0, 0] @ be_16 DHCP_FLAGSBROADCAST @
     replicate 4 0 @ replicate 4 0 @ replicate 4 0 @ replicate 4 0 @
     take 6 mac @ replicate 10 0 @ replicate 64 0 @ replicate 128 0 @ be_32 MAGIC_COOKIE"

definition makeDHCPMSG :: "'w wizchip \<Rightarrow> 'w dhcp \<Rightarrow> 'w dhcp option" where
  "makeDHCPMSG E d = do {
     (_, d) \<leftarrow> on_net (try_get (getSHAR E (replicate 6 0))) d;
     if length (pDHCPMSG d) < 240 \<or> length (DHCP_CHADDR d) < 6 then None
     else Some (d\<lparr>pDHCPMSG := msg_head (DHCP_XID d) (DHCP_CHADDR d) @ drop 240 (pDHCPMSG d)\<rparr>)
   }"

text \<open>The options after the cookie, the rest of the message set to zero.\<close>

definition put_options :: "u8 list \<Rightarrow> 'w dhcp \<Rightarrow> 'w dhcp option" where
  "put_options opts d =
     (if length (pDHCPMSG d) < 548 \<or> 308 < length opts then None
      else Some (d\<lparr>pDHCPMSG := take 240 (pDHCPMSG d) @ opts @ replicate (308 - length opts) 0 @ drop 548 (pDHCPMSG d)\<rparr>))"

definition opt_type :: "u8 \<Rightarrow> u8 list" where "opt_type t = [dhcpMessageType, 0x01, t]"

definition opt_client :: "u8 list \<Rightarrow> u8 list" where
  "opt_client mac = [dhcpClientIdentifier, 0x07, 0x01] @ take 6 mac"

text \<open>The host name with the last three bytes of the MAC address; its length is filled in afterwards.\<close>

definition opt_host :: "u8 list \<Rightarrow> u8 list" where
  "opt_host mac = [hostName, word_of_nat (length HOST_NAME + 6)] @ HOST_NAME @
     [NibbleToHex (drop_bit 4 (mac ! 3)), NibbleToHex (mac ! 3), NibbleToHex (drop_bit 4 (mac ! 4)), NibbleToHex (mac ! 4),
      NibbleToHex (drop_bit 4 (mac ! 5)), NibbleToHex (mac ! 5)]"

definition opt_addr :: "u8 \<Rightarrow> u8 list \<Rightarrow> u8 list" where
  "opt_addr t ip = [t, 0x04] @ take 4 ip"

definition send_msg :: "'w wizchip \<Rightarrow> u8 list \<Rightarrow> 'w dhcp \<Rightarrow> 'w dhcp option" where
  "send_msg E ip d = do {
     (_, d) \<leftarrow> on_net (sendto_W6x00 E (DHCP_SOCKET d) (pDHCPMSG d) RIP_MSG_SIZE ip DHCP_SERVER_PORT 4) d;
     Some d
   }"

definition send_DHCP_DISCOVER :: "'w wizchip \<Rightarrow> 'w dhcp \<Rightarrow> 'w dhcp option" where
  "send_DHCP_DISCOVER E d = do {
     d \<leftarrow> makeDHCPMSG E d;
     let d = d\<lparr>DHCP_SIP := replicate 4 0, DHCP_REAL_SIP := replicate 4 0\<rparr>;
     d \<leftarrow> put_options (opt_type DHCP_DISCOVER @ opt_client (DHCP_CHADDR d) @ opt_host (DHCP_CHADDR d) @
       [dhcpParamRequest, 0x06, subnetMask, routersOnSubnet, dnsOption, domainName, dhcpT1value, dhcpT2value, endOption]) d;
     send_msg E [255, 255, 255, 255] d
   }"

text \<open>The flags and the address of a message to the server itself.\<close>

definition unicast_head :: "u8 list \<Rightarrow> u8 list \<Rightarrow> u8 list" where
  "unicast_head ip msg = take 10 msg @ be_16 DHCP_FLAGSUNICAST @ take 4 ip @ drop 16 msg"

definition send_DHCP_REQUEST :: "'w wizchip \<Rightarrow> 'w dhcp \<Rightarrow> 'w dhcp option" where
  "send_DHCP_REQUEST E d = do {
     d \<leftarrow> makeDHCPMSG E d;
     let (d, ip) =
       (if dhcp_state d = STATE_DHCP_LEASED \<or> dhcp_state d = STATE_DHCP_REREQUEST then
          (d\<lparr>pDHCPMSG := unicast_head (DHCP_allocated_ip d) (pDHCPMSG d)\<rparr>, DHCP_SIP d)
        else (d, [255, 255, 255, 255]));
     d \<leftarrow> put_options (opt_type DHCP_REQUEST @ opt_client (DHCP_CHADDR d) @
       (if ip ! 3 = 255 then opt_addr dhcpRequestedIPaddr (DHCP_allocated_ip d) @ opt_addr dhcpServerIdentifier (DHCP_SIP d) else []) @
       opt_host (DHCP_CHADDR d) @
       [dhcpParamRequest, 0x08, subnetMask, routersOnSubnet, dnsOption, domainName, dhcpT1value, dhcpT2value,
        performRouterDiscovery, staticRoute, endOption]) d;
     send_msg E ip d
   }"

definition send_DHCP_DECLINE :: "'w wizchip \<Rightarrow> 'w dhcp \<Rightarrow> 'w dhcp option" where
  "send_DHCP_DECLINE E d = do {
     d \<leftarrow> makeDHCPMSG E d;
     let d = d\<lparr>pDHCPMSG := take 10 (pDHCPMSG d) @ be_16 DHCP_FLAGSUNICAST @ drop 12 (pDHCPMSG d)\<rparr>;
     d \<leftarrow> put_options (opt_type DHCP_DECLINE @ opt_client (DHCP_CHADDR d) @
       opt_addr dhcpRequestedIPaddr (DHCP_allocated_ip d) @ opt_addr dhcpServerIdentifier (DHCP_SIP d) @ [endOption]) d;
     send_msg E [0xFF, 0xFF, 0xFF, 0xFF] d
   }"

section \<open>Replies\<close>

text \<open>What the options of a reply set.\<close>

record options =
  op_type :: u8
  op_sn :: "u8 list"
  op_gw :: "u8 list"
  op_dns :: "u8 list"
  op_lease :: u32
  op_sip :: "u8 list"
  op_real_sip :: "u8 list"

definition byte_of :: "u8 list \<Rightarrow> nat \<Rightarrow> u8 option" where
  "byte_of msg p = (if p < length msg then Some (msg ! p) else None)"

definition four :: "u8 list \<Rightarrow> nat \<Rightarrow> u8 list option" where
  "four msg p = (if p + 4 \<le> length msg then Some (take 4 (drop p msg)) else None)"

text \<open>One option at \<open>p\<close>: what it sets and where the next one starts.\<close>

definition one_option :: "u8 list \<Rightarrow> u8 list \<Rightarrow> nat \<Rightarrow> nat \<Rightarrow> options \<Rightarrow> (nat \<times> options) option" where
  "one_option msg svr_addr e p r = do {
     c \<leftarrow> byte_of msg p;
     if c = endOption then Some (e, r)
     else if c = padOption then Some (p + 1, r)
     else if c = dhcpMessageType then do { t \<leftarrow> byte_of msg (p + 2); Some (p + 3, r\<lparr>op_type := t\<rparr>) }
     else if c = subnetMask then do { a \<leftarrow> four msg (p + 2); Some (p + 6, r\<lparr>op_sn := a\<rparr>) }
     else if c = routersOnSubnet then do {
       n \<leftarrow> byte_of msg (p + 1);
       a \<leftarrow> four msg (p + 2);
       Some (p + 2 + unat n, r\<lparr>op_gw := a\<rparr>)
     }
     else if c = dnsOption then do {
       n \<leftarrow> byte_of msg (p + 1);
       a \<leftarrow> four msg (p + 2);
       Some (p + 2 + unat n, r\<lparr>op_dns := a\<rparr>)
     }
     else if c = dhcpIPaddrLeaseTime then do {
       a \<leftarrow> four msg (p + 2);
       Some (p + 6, r\<lparr>op_lease := foldl (\<lambda>l b. push_bit 8 l + ucast b) 0 a\<rparr>)
     }
     else if c = dhcpServerIdentifier then do {
       a \<leftarrow> four msg (p + 2);
       Some (p + 6, r\<lparr>op_sip := a, op_real_sip := take 4 svr_addr\<rparr>)
     }
     else do { n \<leftarrow> byte_of msg (p + 1); Some (p + 2 + unat n, r) }
   }"

lemma one_option_advances: "one_option msg a e p r = Some (q, r') \<Longrightarrow> p < e \<Longrightarrow> p < q"
  by (auto simp: one_option_def bind_eq_Some_conv split: if_splits)

function option_loop :: "u8 list \<Rightarrow> u8 list \<Rightarrow> nat \<Rightarrow> nat \<Rightarrow> options \<Rightarrow> options option" where
  "option_loop msg svr_addr e p r =
     (if p < e then
        case one_option msg svr_addr e p r of None \<Rightarrow> None
        | Some (q, r) \<Rightarrow> option_loop msg svr_addr e q r
      else Some r)"
  by pat_completeness auto
termination
  by (relation "measure (\<lambda>(msg, a, e, p, r). e - p)") (auto dest: one_option_advances)

declare option_loop.simps [simp del]

definition store_options :: "options \<Rightarrow> 'w dhcp \<Rightarrow> 'w dhcp" where
  "store_options r d = d\<lparr>DHCP_allocated_sn := op_sn r, DHCP_allocated_gw := op_gw r, DHCP_allocated_dns := op_dns r,
     dhcp_lease_time := op_lease r, DHCP_SIP := op_sip r, DHCP_REAL_SIP := op_real_sip r\<rparr>"

definition load_options :: "'w dhcp \<Rightarrow> options" where
  "load_options d = \<lparr>op_type = 0, op_sn = DHCP_allocated_sn d, op_gw = DHCP_allocated_gw d, op_dns = DHCP_allocated_dns d,
     op_lease = dhcp_lease_time d, op_sip = DHCP_SIP d, op_real_sip = DHCP_REAL_SIP d\<rparr>"

text \<open>A received message of \<open>len\<close> bytes: its type, 0 if it is not for this client.\<close>

definition read_reply :: "u16 \<Rightarrow> u8 list \<Rightarrow> u16 \<Rightarrow> 'w dhcp \<Rightarrow> (u8 \<times> 'w dhcp) option" where
  "read_reply len svr_addr svr_port d =
     (if svr_port \<noteq> DHCP_SERVER_PORT then Some (0, d)
      else if length (pDHCPMSG d) < 34 then None
      else if take 6 (drop 28 (pDHCPMSG d)) \<noteq> take 6 (DHCP_CHADDR d) then Some (0, d)
      else if take 4 (DHCP_SIP d) \<noteq> replicate 4 0 \<and> take 4 svr_addr \<noteq> take 4 (DHCP_SIP d) \<and>
              take 4 svr_addr \<noteq> take 4 (DHCP_REAL_SIP d) then Some (0, d)
      else do {
        r \<leftarrow> option_loop (pDHCPMSG d) svr_addr (unat len) 240 (load_options d);
        Some (op_type r, store_options r d)
      })"

definition parseDHCPMSG :: "'w wizchip \<Rightarrow> 'w dhcp \<Rightarrow> (u8 \<times> 'w dhcp) option" where
  "parseDHCPMSG E d = do {
     (len, d) \<leftarrow> on_net (try_get (getSn_RX_RSR E (DHCP_SOCKET d))) d;
     if 0 < len then do {
       (n, out, s) \<leftarrow> recvfrom_W6x00 E (DHCP_SOCKET d) len
         \<lparr>rx_buf = pDHCPMSG d, rx_addr = Some (replicate 6 0), rx_port = Some 0, rx_addrlen = 0\<rparr> (dhcp_net d);
       let d = d\<lparr>dhcp_net := s, pDHCPMSG := rx_buf out\<rparr>;
       svr_addr \<leftarrow> rx_addr out;
       svr_port \<leftarrow> rx_port out;
       read_reply (word_of_int n) svr_addr svr_port d
     } else Some (0, d)
   }"

section \<open>The client\<close>

definition reset_DHCP_timeout :: "'w dhcp \<Rightarrow> 'w dhcp" where
  "reset_DHCP_timeout d = d\<lparr>dhcp_tick_1s := 0, dhcp_tick_next := DHCP_WAIT_TIME, dhcp_retry_count := 0\<rparr>"

definition DHCP_time_handler :: "'w dhcp \<Rightarrow> 'w dhcp" where
  "DHCP_time_handler d = d\<lparr>dhcp_tick_1s := dhcp_tick_1s d + 1\<rparr>"

definition resend :: "'w wizchip \<Rightarrow> 'w dhcp \<Rightarrow> 'w dhcp option" where
  "resend E d =
     (if dhcp_state d = STATE_DHCP_DISCOVER then send_DHCP_DISCOVER E d
      else if dhcp_state d = STATE_DHCP_REQUEST \<or> dhcp_state d = STATE_DHCP_REREQUEST then send_DHCP_REQUEST E d
      else Some d)"

definition check_DHCP_timeout :: "'w wizchip \<Rightarrow> 'w dhcp \<Rightarrow> (u8 \<times> 'w dhcp) option" where
  "check_DHCP_timeout E d =
     (if dhcp_retry_count d < MAX_DHCP_RETRY then
        if dhcp_tick_next d < dhcp_tick_1s d then do {
          d \<leftarrow> resend E d;
          Some (DHCP_RUNNING, d\<lparr>dhcp_tick_1s := 0, dhcp_tick_next := DHCP_WAIT_TIME, dhcp_retry_count := dhcp_retry_count d + 1\<rparr>)
        } else Some (DHCP_RUNNING, d)
      else if dhcp_state d = STATE_DHCP_DISCOVER then Some (DHCP_FAILED, reset_DHCP_timeout (d\<lparr>dhcp_state := STATE_DHCP_INIT\<rparr>))
      else if dhcp_state d = STATE_DHCP_REQUEST \<or> dhcp_state d = STATE_DHCP_REREQUEST then do {
        d \<leftarrow> send_DHCP_DISCOVER E d;
        Some (DHCP_RUNNING, reset_DHCP_timeout (d\<lparr>dhcp_state := STATE_DHCP_DISCOVER\<rparr>))
      }
      else Some (DHCP_RUNNING, reset_DHCP_timeout d))"

partial_function (option) decline_wait :: "('w \<Rightarrow> nat \<times> 'w) \<Rightarrow> u32 \<Rightarrow> 'w dhcp \<Rightarrow> 'w dhcp option" where
  "decline_wait ticks start d = do {
     (k, d) \<leftarrow> on_net (\<lambda>n. Some (get_chip ticks n)) d;
     let d = (DHCP_time_handler ^^ k) d;
     if dhcp_tick_1s d - start < 2 then decline_wait ticks start d else Some d
   }"

definition check_DHCP_leasedIP :: "'w wizchip \<Rightarrow> ('w \<Rightarrow> nat \<times> 'w) \<Rightarrow> 'w dhcp \<Rightarrow> (bool \<times> 'w dhcp) option" where
  "check_DHCP_leasedIP E ticks d = do {
     (tmp, d) \<leftarrow> on_net (\<lambda>n. Some (get_chip (getRCR E) n)) d;
     d \<leftarrow> put_net (\<lambda>w. Some (setRCR E 0x03 w)) d;
     (ret, d) \<leftarrow> on_net (sendto_W6x00 E (DHCP_SOCKET d) (map byte_of_char ''CHECK_IP_CONFLICT'' @ [0]) 17 (DHCP_allocated_ip d) 5000 4) d;
     d \<leftarrow> put_net (\<lambda>w. Some (setRCR E tmp w)) d;
     if ret = SOCKERR_TIMEOUT then Some (True, d)
     else do {
       d \<leftarrow> send_DHCP_DECLINE E d;
       d \<leftarrow> decline_wait ticks (dhcp_tick_1s d) d;
       Some (False, d)
     }
   }"

definition DHCP_init :: "'w wizchip \<Rightarrow> u8 \<Rightarrow> u8 list \<Rightarrow> 'w dhcp \<Rightarrow> 'w dhcp option" where
  "DHCP_init E s buf d = do {
     (mac, d) \<leftarrow> on_net (try_get (getSHAR E (DHCP_CHADDR d))) d;
     let d = d\<lparr>DHCP_CHADDR := mac\<rparr>;
     d \<leftarrow> (if take 6 mac = replicate 6 0 then do {
             let d = d\<lparr>DHCP_CHADDR := [0x00, 0x08, 0xdc, 0x00, 0x00, 0x00]\<rparr>;
             put_net (setSHAR E (DHCP_CHADDR d)) d
           } else Some d);
     let c = DHCP_CHADDR d;
     let d = d\<lparr>DHCP_SOCKET := s, pDHCPMSG := buf,
           DHCP_XID := 0x12345678 + ucast (c ! 3) + ucast (c ! 4) + ucast (c ! 5) + ucast (c ! 3 XOR c ! 4 XOR c ! 5)\<rparr>;
     d \<leftarrow> put_net (setSIPR E [0, 0, 0, 0]) d;
     d \<leftarrow> put_net (setGAR E [0, 0, 0, 0]) d;
     Some ((reset_DHCP_timeout d)\<lparr>dhcp_state := STATE_DHCP_INIT\<rparr>)
   }"

definition DHCP_stop :: "'w wizchip \<Rightarrow> 'w dhcp \<Rightarrow> 'w dhcp option" where
  "DHCP_stop E d = do {
     (_, d) \<leftarrow> on_net (close E (DHCP_SOCKET d)) d;
     Some (d\<lparr>dhcp_state := STATE_DHCP_STOP\<rparr>)
   }"

text \<open>The cases of \<^verbatim>\<open>DHCP_run\<close>, with the type of the message that has come in.\<close>

definition run_init :: "'w wizchip \<Rightarrow> 'w dhcp \<Rightarrow> (u8 \<times> 'w dhcp) option" where
  "run_init E d = do {
     d \<leftarrow> send_DHCP_DISCOVER E (d\<lparr>DHCP_allocated_ip := [0, 0, 0, 0]\<rparr>);
     Some (DHCP_RUNNING, d\<lparr>dhcp_state := STATE_DHCP_DISCOVER\<rparr>)
   }"

definition run_discover :: "'w wizchip \<Rightarrow> u8 \<Rightarrow> 'w dhcp \<Rightarrow> (u8 \<times> 'w dhcp) option" where
  "run_discover E type d =
     (if type = DHCP_OFFER then do {
        ip \<leftarrow> four (pDHCPMSG d) 16;
        d \<leftarrow> send_DHCP_REQUEST E (d\<lparr>DHCP_allocated_ip := ip\<rparr>);
        Some (DHCP_RUNNING, d\<lparr>dhcp_state := STATE_DHCP_REQUEST\<rparr>)
      } else check_DHCP_timeout E d)"

definition run_request :: "'w wizchip \<Rightarrow> ('w \<Rightarrow> nat \<times> 'w) \<Rightarrow> 'w dhcp_cb \<Rightarrow> u8 \<Rightarrow> 'w dhcp \<Rightarrow> (u8 \<times> 'w dhcp) option" where
  "run_request E ticks cb type d =
     (if type = DHCP_ACK then do {
        (ok, d) \<leftarrow> check_DHCP_leasedIP E ticks d;
        if ok then do {
          d \<leftarrow> call_handler (dhcp_ip_assign cb) d;
          Some (DHCP_RUNNING, (reset_DHCP_timeout d)\<lparr>dhcp_state := STATE_DHCP_LEASED\<rparr>)
        } else do {
          d \<leftarrow> call_handler (dhcp_ip_conflict cb) (reset_DHCP_timeout d);
          Some (DHCP_RUNNING, d\<lparr>dhcp_state := STATE_DHCP_INIT\<rparr>)
        }
      }
      else if type = DHCP_NAK then Some (DHCP_RUNNING, (reset_DHCP_timeout d)\<lparr>dhcp_state := STATE_DHCP_DISCOVER\<rparr>)
      else check_DHCP_timeout E d)"

definition run_leased :: "'w wizchip \<Rightarrow> 'w dhcp \<Rightarrow> (u8 \<times> 'w dhcp) option" where
  "run_leased E d =
     (if dhcp_lease_time d \<noteq> INFINITE_LEASETIME \<and> dhcp_lease_time d div 2 < dhcp_tick_1s d then do {
        d \<leftarrow> send_DHCP_REQUEST E (d\<lparr>OLD_allocated_ip := DHCP_allocated_ip d, DHCP_XID := DHCP_XID d + 1\<rparr>);
        Some (DHCP_IP_LEASED, (reset_DHCP_timeout d)\<lparr>dhcp_state := STATE_DHCP_REREQUEST\<rparr>)
      } else Some (DHCP_IP_LEASED, d))"

definition run_rerequest :: "'w wizchip \<Rightarrow> 'w dhcp_cb \<Rightarrow> u8 \<Rightarrow> 'w dhcp \<Rightarrow> (u8 \<times> 'w dhcp) option" where
  "run_rerequest E cb type d =
     (if type = DHCP_ACK then do {
        let d = d\<lparr>dhcp_retry_count := 0\<rparr>;
        (ret, d) \<leftarrow> (if take 4 (OLD_allocated_ip d) \<noteq> take 4 (DHCP_allocated_ip d) then do {
            d \<leftarrow> call_handler (dhcp_ip_update cb) d; Some (DHCP_IP_CHANGED, d) }
          else Some (DHCP_IP_LEASED, d));
        Some (ret, (reset_DHCP_timeout d)\<lparr>dhcp_state := STATE_DHCP_LEASED\<rparr>)
      }
      else if type = DHCP_NAK then Some (DHCP_IP_LEASED, (reset_DHCP_timeout d)\<lparr>dhcp_state := STATE_DHCP_DISCOVER\<rparr>)
      else check_DHCP_timeout E d)"

definition DHCP_run :: "'w wizchip \<Rightarrow> ('w \<Rightarrow> nat \<times> 'w) \<Rightarrow> 'w dhcp_cb \<Rightarrow> 'w dhcp \<Rightarrow> (u8 \<times> 'w dhcp) option" where
  "DHCP_run E ticks cb d =
     (if dhcp_state d = STATE_DHCP_STOP then Some (DHCP_STOPPED, d)
      else do {
        (sr, d) \<leftarrow> on_net (\<lambda>n. Some (get_chip (getSn_SR E (DHCP_SOCKET d)) n)) d;
        d \<leftarrow> (if sr \<noteq> SOCK_UDP then do {
               (_, d) \<leftarrow> on_net (socket E (DHCP_SOCKET d) Sn_MR_UDP DHCP_CLIENT_PORT 0x00) d; Some d }
             else Some d);
        (type, d) \<leftarrow> parseDHCPMSG E d;
        if dhcp_state d = STATE_DHCP_INIT then run_init E d
        else if dhcp_state d = STATE_DHCP_DISCOVER then run_discover E type d
        else if dhcp_state d = STATE_DHCP_REQUEST then run_request E ticks cb type d
        else if dhcp_state d = STATE_DHCP_LEASED then run_leased E d
        else if dhcp_state d = STATE_DHCP_REREQUEST then run_rerequest E cb type d
        else Some (DHCP_RUNNING, d)
      })"

definition getIPfromDHCP :: "'w dhcp \<Rightarrow> u8 list \<Rightarrow> u8 list option" where "getIPfromDHCP d ip = copy_bytes 4 ip (DHCP_allocated_ip d)"
definition getGWfromDHCP :: "'w dhcp \<Rightarrow> u8 list \<Rightarrow> u8 list option" where "getGWfromDHCP d ip = copy_bytes 4 ip (DHCP_allocated_gw d)"
definition getSNfromDHCP :: "'w dhcp \<Rightarrow> u8 list \<Rightarrow> u8 list option" where "getSNfromDHCP d ip = copy_bytes 4 ip (DHCP_allocated_sn d)"
definition getDNSfromDHCP :: "'w dhcp \<Rightarrow> u8 list \<Rightarrow> u8 list option" where "getDNSfromDHCP d ip = copy_bytes 4 ip (DHCP_allocated_dns d)"
definition getDHCPLeasetime :: "'w dhcp \<Rightarrow> u32" where "getDHCPLeasetime d = dhcp_lease_time d"

section \<open>What the operations leave alone\<close>

text \<open>The state and the addresses that decide whether a renewed lease is a changed one.\<close>

definition ips :: "'w dhcp \<Rightarrow> u8 \<times> u8 list \<times> u8 list" where
  "ips d = (dhcp_state d, OLD_allocated_ip d, DHCP_allocated_ip d)"

lemma ips_updates [simp]:
  "ips (d\<lparr>dhcp_net := n\<rparr>) = ips d" "ips (d\<lparr>pDHCPMSG := m\<rparr>) = ips d" "ips (d\<lparr>DHCP_SIP := a\<rparr>) = ips d"
  "ips (d\<lparr>DHCP_REAL_SIP := a\<rparr>) = ips d" "ips (d\<lparr>dhcp_tick_1s := t\<rparr>) = ips d" "ips (d\<lparr>DHCP_XID := t\<rparr>) = ips d"
  "ips (d\<lparr>dhcp_tick_next := t\<rparr>) = ips d" "ips (d\<lparr>dhcp_retry_count := c\<rparr>) = ips d" "ips (store_options r d) = ips d"
  "ips (d\<lparr>dhcp_state := s\<rparr>) = (s, snd (ips d))"
  by (simp_all add: ips_def store_options_def)

named_theorems kept

lemma on_net_ips [kept]: "on_net f d = Some (v, d') \<Longrightarrow> ips d' = ips d"
  by (auto simp: on_net_def bind_eq_Some_conv)

lemma put_net_ips [kept]: "put_net f d = Some d' \<Longrightarrow> ips d' = ips d"
  by (auto simp: put_net_def bind_eq_Some_conv)

lemma call_handler_ips [kept]: "call_handler f d = Some d' \<Longrightarrow> ips d' = ips d"
  by (auto simp: call_handler_def bind_eq_Some_conv)

lemma send_msg_ips [kept]: "send_msg E ip d = Some d' \<Longrightarrow> ips d' = ips d"
  by (auto simp: send_msg_def bind_eq_Some_conv dest: on_net_ips)

lemma makeDHCPMSG_ips [kept]: "makeDHCPMSG E d = Some d' \<Longrightarrow> ips d' = ips d"
  by (auto simp: makeDHCPMSG_def bind_eq_Some_conv split: if_splits dest!: on_net_ips)

lemma put_options_ips [kept]: "put_options opts d = Some d' \<Longrightarrow> ips d' = ips d"
  by (auto simp: put_options_def split: if_splits)

lemma send_discover_ips [kept]: "send_DHCP_DISCOVER E d = Some d' \<Longrightarrow> ips d' = ips d"
  unfolding send_DHCP_DISCOVER_def Let_def bind_eq_Some_conv by (elim exE conjE) (simp add: kept)

lemma send_request_ips [kept]:
  assumes "send_DHCP_REQUEST E d = Some d'"
  shows "ips d' = ips d"
proof -
  obtain y where y: "makeDHCPMSG E d = Some y"
      and r: "(let (d, ip) = (if dhcp_state y = 3 \<or> dhcp_state y = 4
          then (y\<lparr>pDHCPMSG := unicast_head (DHCP_allocated_ip y) (pDHCPMSG y)\<rparr>, DHCP_SIP y) else (y, [255, 255, 255, 255]));
        x = opt_type 3 @ opt_client (DHCP_CHADDR d) @
          (if ip ! 3 = 255 then opt_addr 50 (DHCP_allocated_ip d) @ opt_addr 54 (DHCP_SIP d) else []) @
          opt_host (DHCP_CHADDR d) @ [55, 8, 1, 3, 6, 15, 58, 59, 31, 33, 255]
        in put_options x d \<bind> send_msg E ip) = Some d'"
    using assms unfolding send_DHCP_REQUEST_def bind_eq_Some_conv Let_def by auto
  show ?thesis
    using r by (cases "dhcp_state y = 3 \<or> dhcp_state y = 4")
      (auto simp: Let_def bind_eq_Some_conv makeDHCPMSG_ips [OF y] simp del: append.simps dest!: kept)
qed

lemma send_decline_ips [kept]: "send_DHCP_DECLINE E d = Some d' \<Longrightarrow> ips d' = ips d"
  unfolding send_DHCP_DECLINE_def Let_def bind_eq_Some_conv by (elim exE conjE) (simp add: kept)

lemma resend_ips [kept]: "resend E d = Some d' \<Longrightarrow> ips d' = ips d"
  by (auto simp: resend_def dest: kept split: if_splits)

lemma read_reply_ips [kept]: "read_reply n a p d = Some (t, d') \<Longrightarrow> ips d' = ips d"
  by (auto simp: read_reply_def bind_eq_Some_conv split: if_splits)

lemma parse_ips [kept]: "parseDHCPMSG E d = Some (t, d') \<Longrightarrow> ips d' = ips d"
  by (auto simp: parseDHCPMSG_def bind_eq_Some_conv Let_def split: if_splits dest!: kept)

lemma handler_ips [simp]: "ips ((DHCP_time_handler ^^ k) d) = ips d"
  by (induction k) (simp_all add: DHCP_time_handler_def)

lemma decline_wait_ips [kept]:
  assumes "decline_wait ticks start d = Some d'"
  shows "ips d' = ips d"
proof -
  have "\<forall>d0. d = d0 \<longrightarrow> ips d' = ips d0"
    using assms
  proof (induction rule: decline_wait.raw_induct [rotated, consumes 1])
    case (1 f ticks start d d')
    then show ?case
      by (auto simp: bind_eq_Some_conv Let_def split: if_splits dest!: on_net_ips)
  qed
  then show ?thesis by simp
qed

section \<open>The calls of the application\<close>

text \<open>
  One step of the program around the client: a call of its operations, the timer interrupt, or other
  code that uses the sockets and the chip.
\<close>

inductive dhcp_call :: "'w wizchip \<Rightarrow> ('w \<Rightarrow> nat \<times> 'w) \<Rightarrow> 'w dhcp_cb \<Rightarrow> 'w dhcp \<Rightarrow> 'w dhcp \<Rightarrow> bool"
  for E :: "'w wizchip" and ticks :: "'w \<Rightarrow> nat \<times> 'w" and cb :: "'w dhcp_cb" where
  call_init: "DHCP_init E s buf d = Some d' \<Longrightarrow> dhcp_call E ticks cb d d'"
| call_run: "DHCP_run E ticks cb d = Some (ret, d') \<Longrightarrow> dhcp_call E ticks cb d d'"
| call_stop: "DHCP_stop E d = Some d' \<Longrightarrow> dhcp_call E ticks cb d d'"
| call_tick: "dhcp_call E ticks cb d (DHCP_time_handler d)"
| call_other: "dhcp_call E ticks cb d (d\<lparr>dhcp_net := n\<rparr>)"

inductive dhcp_reachable :: "'w wizchip \<Rightarrow> ('w \<Rightarrow> nat \<times> 'w) \<Rightarrow> 'w dhcp_cb \<Rightarrow> 'w dhcp \<Rightarrow> bool"
  for E :: "'w wizchip" and ticks :: "'w \<Rightarrow> nat \<times> 'w" and cb :: "'w dhcp_cb" where
  reach_start: "dhcp_reachable E ticks cb (dhcp_start n)"
| reach_call: "dhcp_reachable E ticks cb d \<Longrightarrow> dhcp_call E ticks cb d d' \<Longrightarrow> dhcp_reachable E ticks cb d'"

text \<open>While a lease is being renewed, the address to renew is still the one that the client holds.\<close>

definition renewal_inv :: "u8 \<times> u8 list \<times> u8 list \<Rightarrow> bool" where
  "renewal_inv v = (case v of (st, old, new) \<Rightarrow> st = STATE_DHCP_REREQUEST \<longrightarrow> take 4 old = take 4 new)"

lemma renewal_inv_state: "st \<noteq> 4 \<Longrightarrow> renewal_inv (st, r)"
  by (simp add: renewal_inv_def split: prod.splits)

lemma reset_ips [simp]: "ips (reset_DHCP_timeout d) = ips d" "ips (DHCP_time_handler d) = ips d"
  by (simp_all add: reset_DHCP_timeout_def DHCP_time_handler_def)

lemma timeout_ips: "check_DHCP_timeout E d = Some (ret, d') \<Longrightarrow> renewal_inv (ips d) \<Longrightarrow> renewal_inv (ips d')"
  unfolding check_DHCP_timeout_def
  by (auto simp: bind_eq_Some_conv renewal_inv_state split: if_splits dest!: kept)

lemma timeout_ret: "check_DHCP_timeout E d = Some (ret, d') \<Longrightarrow> ret = DHCP_RUNNING \<or> ret = DHCP_FAILED"
  unfolding check_DHCP_timeout_def by (auto simp: bind_eq_Some_conv split: if_splits)

lemma init_ips: "DHCP_init E s buf d = Some d' \<Longrightarrow> renewal_inv (ips d')"
  unfolding DHCP_init_def Let_def by (auto simp: bind_eq_Some_conv renewal_inv_state split: if_splits)

lemma stop_ips: "DHCP_stop E d = Some d' \<Longrightarrow> renewal_inv (ips d')"
  unfolding DHCP_stop_def by (auto simp: bind_eq_Some_conv renewal_inv_state)

lemma cases_ips:
  "run_init E d = Some (ret, d') \<Longrightarrow> renewal_inv (ips d')"
  "run_discover E type d = Some (ret, d') \<Longrightarrow> renewal_inv (ips d) \<Longrightarrow> renewal_inv (ips d')"
  "run_request E ticks cb type d = Some (ret, d') \<Longrightarrow> renewal_inv (ips d) \<Longrightarrow> renewal_inv (ips d')"
  "run_leased E d = Some (ret, d') \<Longrightarrow> renewal_inv (ips d) \<Longrightarrow> renewal_inv (ips d')"
  "run_rerequest E cb type d = Some (ret, d') \<Longrightarrow> renewal_inv (ips d) \<Longrightarrow> renewal_inv (ips d')"
proof -
  show "run_init E d = Some (ret, d') \<Longrightarrow> renewal_inv (ips d')"
    by (auto simp: run_init_def bind_eq_Some_conv renewal_inv_state)
  show "run_discover E type d = Some (ret, d') \<Longrightarrow> renewal_inv (ips d) \<Longrightarrow> renewal_inv (ips d')"
    by (auto simp: run_discover_def bind_eq_Some_conv renewal_inv_state split: if_splits dest: timeout_ips)
  show "run_request E ticks cb type d = Some (ret, d') \<Longrightarrow> renewal_inv (ips d) \<Longrightarrow> renewal_inv (ips d')"
    by (auto simp: run_request_def bind_eq_Some_conv renewal_inv_state split: if_splits dest: timeout_ips)
  show "run_rerequest E cb type d = Some (ret, d') \<Longrightarrow> renewal_inv (ips d) \<Longrightarrow> renewal_inv (ips d')"
    by (auto simp: run_rerequest_def bind_eq_Some_conv renewal_inv_state Let_def split: if_splits dest: timeout_ips)
  show "run_leased E d = Some (ret, d') \<Longrightarrow> renewal_inv (ips d) \<Longrightarrow> renewal_inv (ips d')"
  proof (cases "dhcp_lease_time d \<noteq> 0xffffffff \<and> dhcp_lease_time d div 2 < dhcp_tick_1s d")
    case True
    assume "run_leased E d = Some (ret, d')"
    then obtain x where "send_DHCP_REQUEST E (d\<lparr>OLD_allocated_ip := DHCP_allocated_ip d, DHCP_XID := DHCP_XID d + 1\<rparr>) = Some x"
        and d': "d' = (reset_DHCP_timeout x)\<lparr>dhcp_state := 4\<rparr>"
      using True by (auto simp: run_leased_def bind_eq_Some_conv)
    then have "ips x = ips (d\<lparr>OLD_allocated_ip := DHCP_allocated_ip d, DHCP_XID := DHCP_XID d + 1\<rparr>)"
      by (intro kept)
    then show ?thesis by (simp add: d' renewal_inv_def ips_def reset_DHCP_timeout_def)
  qed (auto simp: run_leased_def)
qed

lemma run_cases:
  assumes "DHCP_run E ticks cb d = Some (ret, d')"
  obtains "ret = DHCP_STOPPED" "d' = d" | x where "ips x = ips d" "ret = DHCP_RUNNING" "d' = x"
  | type x where "ips x = ips d" "run_init E x = Some (ret, d') \<or> run_discover E type x = Some (ret, d') \<or>
      run_request E ticks cb type x = Some (ret, d') \<or> run_leased E x = Some (ret, d') \<or>
      dhcp_state x = STATE_DHCP_REREQUEST \<and> run_rerequest E cb type x = Some (ret, d')"
proof (cases "dhcp_state d = 6")
  case True
  then show ?thesis using assms that(1) by (simp add: DHCP_run_def)
next
  case False
  then obtain sr d1 d2 type x where "on_net (\<lambda>n. Some (get_chip (getSn_SR E (DHCP_SOCKET d)) n)) d = Some (sr, d1)"
      and s: "(if sr \<noteq> 0x22 then do {
               (_, d) \<leftarrow> on_net (socket E (DHCP_SOCKET d1) 2 68 0x00) d1; Some d }
             else Some d1) = Some d2"
      and p: "parseDHCPMSG E d2 = Some (type, x)"
      and r: "(if dhcp_state x = 0 then run_init E x
        else if dhcp_state x = 1 then run_discover E type x
        else if dhcp_state x = 2 then run_request E ticks cb type x
        else if dhcp_state x = 3 then run_leased E x
        else if dhcp_state x = 4 then run_rerequest E cb type x
        else Some (1, x)) = Some (ret, d')"
    using assms unfolding DHCP_run_def by (auto simp: bind_eq_Some_conv simp del: split_paired_Ex)
  then have "ips d1 = ips d" by (intro kept)
  moreover have "ips d2 = ips d1" using s by (auto simp: bind_eq_Some_conv split: if_splits dest: kept)
  moreover have "ips x = ips d2" using p by (rule kept)
  ultimately show ?thesis using r that(2,3) by (auto split: if_splits)
qed

lemma run_ips: "DHCP_run E ticks cb d = Some (ret, d') \<Longrightarrow> renewal_inv (ips d) \<Longrightarrow> renewal_inv (ips d')"
  by (elim run_cases) (auto dest: cases_ips)

lemma call_ips: "dhcp_call E ticks cb d d' \<Longrightarrow> renewal_inv (ips d) \<Longrightarrow> renewal_inv (ips d')"
  by (induction rule: dhcp_call.induct) (auto intro: init_ips stop_ips run_ips)

lemma reachable_ips: "dhcp_reachable E ticks cb d \<Longrightarrow> renewal_inv (ips d)"
proof (induction rule: dhcp_reachable.induct)
  case (reach_start n)
  then show ?case by (simp add: dhcp_start_def ips_def renewal_inv_def)
next
  case (reach_call d d')
  then show ?case by (blast intro: call_ips)
qed

lemma renewal_unchanged: "renewal_inv (ips x) \<Longrightarrow> dhcp_state x = 4 \<Longrightarrow> take 4 (OLD_allocated_ip x) = take 4 (DHCP_allocated_ip x)"
  by (simp add: renewal_inv_def ips_def)

lemma cases_ret:
  "run_init E d = Some (ret, d') \<Longrightarrow> ret \<noteq> DHCP_IP_CHANGED"
  "run_discover E type d = Some (ret, d') \<Longrightarrow> ret \<noteq> DHCP_IP_CHANGED"
  "run_request E ticks cb type d = Some (ret, d') \<Longrightarrow> ret \<noteq> DHCP_IP_CHANGED"
  "run_leased E d = Some (ret, d') \<Longrightarrow> ret \<noteq> DHCP_IP_CHANGED"
  "run_rerequest E cb type d = Some (ret, d') \<Longrightarrow> dhcp_state d = 4 \<Longrightarrow> renewal_inv (ips d) \<Longrightarrow> ret \<noteq> DHCP_IP_CHANGED"
  by (auto simp: run_init_def run_discover_def run_request_def run_leased_def run_rerequest_def bind_eq_Some_conv Let_def
      split: if_splits dest: timeout_ret renewal_unchanged)

lemma update_handler_unused:
  assumes "renewal_inv (ips d)"
  shows "DHCP_run E ticks (cb\<lparr>dhcp_ip_update := f\<rparr>) d = DHCP_run E ticks cb d"
proof -
  have "run_rerequest E (cb\<lparr>dhcp_ip_update := f\<rparr>) t x = run_rerequest E cb t x" if "dhcp_state x = 4" "ips x = ips d" for t x
    using renewal_unchanged [of x] that assms by (simp add: run_rerequest_def)
  moreover have "run_request E ticks (cb\<lparr>dhcp_ip_update := f\<rparr>) t x = run_request E ticks cb t x" for t x
    by (simp add: run_request_def cong: if_cong)
  ultimately show ?thesis
    unfolding DHCP_run_def
    by (auto intro!: Option.bind_cong [OF refl] simp: bind_eq_Some_conv split: if_splits dest!: kept)
qed

text \<open>
  C26. The client never notices that its address has changed: the address that the server grants in the ACK of a
  renewal is never stored, so in every state that the program can reach, \<^verbatim>\<open>DHCP_run\<close> does not return
  \<^verbatim>\<open>DHCP_IP_CHANGED\<close>, and which function is registered as \<^verbatim>\<open>dhcp_ip_update\<close> makes no difference.
\<close>

theorem dhcp_never_reports_change:
  assumes "dhcp_reachable E ticks cb d"
  shows "DHCP_run E ticks (cb\<lparr>dhcp_ip_update := f\<rparr>) d = DHCP_run E ticks cb d \<and>
    (\<forall>ret d'. DHCP_run E ticks cb d = Some (ret, d') \<longrightarrow> ret \<noteq> DHCP_IP_CHANGED)"
proof -
  have inv: "renewal_inv (ips d)" by (rule reachable_ips [OF assms])
  have "ret \<noteq> 3" if "DHCP_run E ticks cb d = Some (ret, d')" for ret d'
    using that
  proof (cases rule: run_cases)
    case (3 type x)
    then show ?thesis using inv by (auto dest: cases_ret)
  qed simp_all
  then show ?thesis using update_handler_unused [OF inv] by simp
qed

section \<open>A server that does not answer\<close>

text \<open>A client on socket \<open>sn\<close> with a buffer for its messages, on such a chip.\<close>

definition client_wf :: "u8 \<Rightarrow> chip_mem dhcp \<Rightarrow> bool" where
  "client_wf sn d \<longleftrightarrow> DHCP_SOCKET d = sn \<and> 548 \<le> length (pDHCPMSG d) \<and> 6 \<le> length (DHCP_CHADDR d) \<and>
     unanswered sn (world (dhcp_net d))"

lemma make_unanswered:
  assumes "client_wf sn d"
  shows "makeDHCPMSG (ram_chip react) d = Some (d\<lparr>pDHCPMSG := msg_head (DHCP_XID d) (DHCP_CHADDR d) @ drop 240 (pDHCPMSG d)\<rparr>)"
proof -
  have mac: "getSHAR (ram_chip react) (replicate 6 0) m = Some (mem_bytes m 0 0x4120 6, m)" for m
    by (simp add: ram_get_areas)
  show ?thesis
    using assms by (simp add: mac makeDHCPMSG_def on_net_def try_get_def client_wf_def)
qed

lemma option_lengths [simp]:
  "length (be_16 w) = 2" "length (be_32 v) = 4" "length (opt_type t) = 3" "length (opt_client mac) = 3 + min (length mac) 6"
  "length (opt_host mac) = 14" "length (opt_addr t ip) = 2 + min (length ip) 4"
  by (simp_all add: be_16_def be_32_def opt_type_def opt_client_def opt_host_def opt_addr_def HOST_NAME_def)

lemma msg_head_length [simp]: "6 \<le> length mac \<Longrightarrow> length (msg_head xid mac) = 240"
  by (simp add: msg_head_def)

lemma put_options_head:
  assumes "pDHCPMSG x = h @ drop 240 p" "length h = 240" "548 \<le> length p" "length opts \<le> 308"
  shows "put_options opts x = Some (x\<lparr>pDHCPMSG := h @ opts @ replicate (308 - length opts) 0 @ drop 548 p\<rparr>)"
  using assms by (simp add: put_options_def)

lemma put_options_length:
  assumes "length h = 240" "548 \<le> length p" "length opts \<le> 308"
  shows "length (h @ opts @ replicate (308 - length opts) 0 @ drop 548 p) = length p"
  using assms by simp

text \<open>A DISCOVER goes out, and changes the world, the message and the addresses of the server only.\<close>

lemma discover_unanswered:
  assumes "client_wf sn d" "sn < 8" "unanswered_contract react sn"
  shows "\<exists>m b. send_DHCP_DISCOVER (ram_chip react) d = Some (d\<lparr>dhcp_net := (dhcp_net d)\<lparr>world := m\<rparr>, pDHCPMSG := b,
      DHCP_SIP := replicate 4 0, DHCP_REAL_SIP := replicate 4 0\<rparr>) \<and> unanswered sn m \<and> length b = length (pDHCPMSG d)"
proof -
  let ?c = "DHCP_CHADDR d"
  let ?o = "opt_type 1 @ opt_client ?c @ opt_host ?c @ [55, 6, 1, 3, 6, 15, 58, 59, 255]"
  define b where "b = msg_head (DHCP_XID d) ?c @ ?o @ replicate (308 - length ?o) 0 @ drop 548 (pDHCPMSG d)"
  have d: "548 \<le> length (pDHCPMSG d)" "6 \<le> length ?c" "DHCP_SOCKET d = sn" "unanswered sn (world (dhcp_net d))"
    using assms(1) by (simp_all add: client_wf_def)
  have o: "length ?o = 35" using d(2) by (simp add: min_absorb2)
  have b: "length b = length (pDHCPMSG d)"
    unfolding b_def by (rule put_options_length) (use d(1,2) o in simp_all)
  obtain n m where "sendto_W6x00 (ram_chip react) sn b 548 [255, 255, 255, 255] 67 4 (dhcp_net d)
        = Some (n, (dhcp_net d)\<lparr>world := m\<rparr>)" "unanswered sn m"
    using sendto_unanswered [OF assms(2,3) d(4), of "[255, 255, 255, 255]" 67 548 b] b d(1) by auto
  moreover have "put_options ?o (d\<lparr>pDHCPMSG := msg_head (DHCP_XID d) ?c @ drop 240 (pDHCPMSG d), DHCP_SIP := replicate 4 0,
        DHCP_REAL_SIP := replicate 4 0\<rparr>) = Some (d\<lparr>pDHCPMSG := b, DHCP_SIP := replicate 4 0, DHCP_REAL_SIP := replicate 4 0\<rparr>)"
    by (subst put_options_head [where h = "msg_head (DHCP_XID d) ?c" and p = "pDHCPMSG d"])
       (use d(1,2) o in \<open>simp_all add: b_def del: length_append append_assoc\<close>)
  ultimately show ?thesis using b
    by (intro exI [of _ m] exI [of _ b])
       (simp add: send_DHCP_DISCOVER_def make_unanswered [OF assms(1)] Let_def send_msg_def on_net_def d(3))
qed

text \<open>The main loop of an application: \<open>k\<close> seconds pass, then it calls \<^verbatim>\<open>DHCP_run\<close>.\<close>

fun dhcp_polls :: "'w wizchip \<Rightarrow> ('w \<Rightarrow> nat \<times> 'w) \<Rightarrow> 'w dhcp_cb \<Rightarrow> nat list \<Rightarrow> 'w dhcp \<Rightarrow> (u8 list \<times> 'w dhcp) option" where
  "dhcp_polls E ticks cb [] d = Some ([], d)"
| "dhcp_polls E ticks cb (k # ks) d = do {
     (r, d) \<leftarrow> DHCP_run E ticks cb ((DHCP_time_handler ^^ k) d);
     (rs, d) \<leftarrow> dhcp_polls E ticks cb ks d;
     Some (r # rs, d)
   }"

lemma dhcp_handler_power: "(DHCP_time_handler ^^ k) d = d\<lparr>dhcp_tick_1s := dhcp_tick_1s d + word_of_nat k\<rparr>"
  by (induction k) (simp_all add: DHCP_time_handler_def ac_simps)

lemma run_unanswered:
  assumes "client_wf sn d" "sn < 8" "dhcp_state d \<in> {0, 1}"
  shows "DHCP_run (ram_chip react) ticks cb d =
    (if dhcp_state d = STATE_DHCP_INIT then run_init (ram_chip react) d else check_DHCP_timeout (ram_chip react) d)"
proof -
  have "on_net (\<lambda>n. Some (get_chip (getSn_SR (ram_chip react) (DHCP_SOCKET d)) n)) d = Some (0x22, d)"
    using assms(1) by (simp add: on_net_def get_chip_def ram_get [OF assms(2)] client_wf_def unanswered_def)
  moreover have "parseDHCPMSG (ram_chip react) d = Some (0, d)"
    using assms(1)
    by (simp add: parseDHCPMSG_def on_net_def try_get_def ram_sizes [OF assms(2)] client_wf_def unanswered_def)
  ultimately show ?thesis using assms(3) by (auto simp: DHCP_run_def run_discover_def)
qed

text \<open>The client before it gives up, and a bound on the polls until it does.\<close>

definition trying :: "u8 \<Rightarrow> chip_mem dhcp \<Rightarrow> bool" where
  "trying sn d \<longleftrightarrow> client_wf sn d \<and> dhcp_tick_next d = DHCP_WAIT_TIME \<and> dhcp_retry_count d \<le> MAX_DHCP_RETRY \<and>
     (dhcp_state d = STATE_DHCP_INIT \<and> dhcp_tick_1s d = 0 \<and> dhcp_retry_count d = 0 \<or>
      dhcp_state d = STATE_DHCP_DISCOVER \<and> dhcp_tick_1s d < 0x80000000)"

definition polls_left :: "'w dhcp \<Rightarrow> nat" where
  "polls_left d = (if dhcp_state d = STATE_DHCP_INIT then 36
     else (2 - unat (dhcp_retry_count d)) * 12 + (11 - min 11 (unat (dhcp_tick_1s d))))"

lemma small_retry:
  assumes "c \<le> (2 :: u8)"
  obtains "c = 0" | "c = 1" | "c = 2"
proof -
  have "unat c \<le> 2" using assms by (simp add: word_le_nat_alt)
  then have "unat c = 0 \<or> unat c = 1 \<or> unat c = 2" by presburger
  then show ?thesis using that by (simp add: word_unat_eq_iff) metis
qed

lemma trying_poll:
  assumes "trying sn d" "sn < 8" "unanswered_contract react sn" "1 \<le> k" "k < 0x80000000"
  shows "\<exists>r d'. DHCP_run (ram_chip react) ticks cb ((DHCP_time_handler ^^ k) d) = Some (r, d') \<and> trying sn d' \<and>
    (r = DHCP_FAILED \<or> polls_left d' < polls_left d)"
proof -
  define t where "t = dhcp_tick_1s d + word_of_nat k"
  define x where "x = d\<lparr>dhcp_tick_1s := t\<rparr>"
  have x: "(DHCP_time_handler ^^ k) d = x" by (simp add: x_def t_def dhcp_handler_power)
  have wf: "client_wf sn x" using assms(1) by (simp add: trying_def client_wf_def x_def)
  have st: "dhcp_state x \<in> {0, 1}" using assms(1) by (auto simp: trying_def x_def)
  note run = run_unanswered [OF wf assms(2) st]
  have k: "unat (word_of_nat k :: u32) = k" using assms(5) by (simp add: unat_of_nat)
  show ?thesis
  proof (cases "dhcp_state d = 0")
    case True
    let ?y = "x\<lparr>DHCP_allocated_ip := [0, 0, 0, 0]\<rparr>"
    have d: "dhcp_tick_1s d = 0" "dhcp_retry_count d = 0" "dhcp_tick_next d = 10" using assms(1) True by (auto simp: trying_def)
    have "client_wf sn ?y" using wf by (simp add: client_wf_def)
    then obtain m b where y: "send_DHCP_DISCOVER (ram_chip react) ?y = Some (?y\<lparr>dhcp_net := (dhcp_net ?y)\<lparr>world := m\<rparr>,
        pDHCPMSG := b, DHCP_SIP := replicate 4 0, DHCP_REAL_SIP := replicate 4 0\<rparr>)" "unanswered sn m" "length b = length (pDHCPMSG ?y)"
      using discover_unanswered [OF _ assms(2,3)] by blast
    have "t < 0x80000000" using k assms(5) d(1) by (simp add: t_def word_less_nat_alt)
    moreover define z where "z = ?y\<lparr>dhcp_net := (dhcp_net ?y)\<lparr>world := m\<rparr>, pDHCPMSG := b, DHCP_SIP := replicate 4 0,
        DHCP_REAL_SIP := replicate 4 0, dhcp_state := 1\<rparr>"
    ultimately have "trying sn z" "polls_left z < polls_left d"
      using wf y(2,3) True d by (simp_all add: trying_def client_wf_def polls_left_def x_def)
    moreover have "DHCP_run (ram_chip react) ticks cb x = Some (1, z)"
      using True y(1) unfolding run by (simp add: run_init_def x_def z_def)
    ultimately show ?thesis unfolding x by blast
  next
    case False
    then have d: "dhcp_state d = 1" "dhcp_tick_1s d < 0x80000000" "dhcp_tick_next d = 10" "dhcp_retry_count d \<le> 2"
      using assms(1) by (auto simp: trying_def)
    have t: "unat t = unat (dhcp_tick_1s d) + k"
      using d(2) assms(5) by (simp add: t_def unat_word_ariths unat_of_nat word_less_nat_alt)
    have retry: ?thesis if c: "dhcp_retry_count d < 2"
    proof (cases "10 < t")
      case True
      obtain m b where y: "send_DHCP_DISCOVER (ram_chip react) x = Some (x\<lparr>dhcp_net := (dhcp_net x)\<lparr>world := m\<rparr>,
          pDHCPMSG := b, DHCP_SIP := replicate 4 0, DHCP_REAL_SIP := replicate 4 0\<rparr>)" "unanswered sn m" "length b = length (pDHCPMSG x)"
        using discover_unanswered [OF wf assms(2,3)] by blast
      define z where "z = x\<lparr>dhcp_net := (dhcp_net x)\<lparr>world := m\<rparr>, pDHCPMSG := b, DHCP_SIP := replicate 4 0,
          DHCP_REAL_SIP := replicate 4 0, dhcp_tick_1s := 0, dhcp_tick_next := 10, dhcp_retry_count := dhcp_retry_count d + 1\<rparr>"
      have "trying sn z"
        using wf y(2,3) d c by (auto simp: trying_def client_wf_def x_def z_def elim: small_retry)
      moreover have "polls_left z < polls_left d"
        using d c by (auto simp: polls_left_def x_def z_def elim: small_retry)
      moreover have "DHCP_run (ram_chip react) ticks cb x = Some (1, z)"
        using True d c y(1) unfolding run by (simp add: check_DHCP_timeout_def resend_def x_def z_def)
      ultimately show ?thesis unfolding x by blast
    next
      case False
      then have "unat t \<le> 10" by (simp add: not_less word_le_nat_alt)
      then have "polls_left x < polls_left d" using d t assms(4) by (simp add: polls_left_def x_def)
      moreover have "t < 0x80000000" using False order.strict_trans1 [of t 10 "0x80000000"] by (simp add: not_less)
      then have "trying sn x"
        using wf d by (simp add: trying_def x_def client_wf_def)
      moreover have "DHCP_run (ram_chip react) ticks cb x = Some (1, x)"
        using False d c unfolding run by (simp add: check_DHCP_timeout_def x_def)
      ultimately show ?thesis unfolding x by blast
    qed
    from d(4) show ?thesis
    proof (cases rule: small_retry)
      case 3
      then have "DHCP_run (ram_chip react) ticks cb x = Some (0, reset_DHCP_timeout (x\<lparr>dhcp_state := 0\<rparr>))"
        using d(1) unfolding run by (simp add: check_DHCP_timeout_def x_def)
      moreover have "trying sn (reset_DHCP_timeout (x\<lparr>dhcp_state := 0\<rparr>))"
        using wf by (simp add: trying_def client_wf_def reset_DHCP_timeout_def)
      ultimately show ?thesis unfolding x by blast
    qed (rule retry; simp; fail)+
  qed
qed

lemma trying_polls:
  assumes "trying sn d" "sn < 8" "unanswered_contract react sn" "set ks \<subseteq> {1 ..< 0x80000000}"
  shows "\<exists>rs d'. dhcp_polls (ram_chip react) ticks cb ks d = Some (rs, d') \<and> (polls_left d < length ks \<longrightarrow> DHCP_FAILED \<in> set rs)"
  using assms(1,4)
proof (induction ks arbitrary: d)
  case (Cons k ks)
  then have "1 \<le> k" "k < 0x80000000" by auto
  then obtain r x where x: "DHCP_run (ram_chip react) ticks cb ((DHCP_time_handler ^^ k) d) = Some (r, x)" "trying sn x"
      "r = DHCP_FAILED \<or> polls_left x < polls_left d"
    using trying_poll [OF Cons.prems(1) assms(2,3)] by blast
  obtain rs d' where "dhcp_polls (ram_chip react) ticks cb ks x = Some (rs, d')" "polls_left x < length ks \<longrightarrow> 0 \<in> set rs"
    using Cons.IH [OF x(2)] Cons.prems(2) by auto
  then show ?case using x by (auto simp del: funpow.simps)
qed simp

text \<open>
  C23. A client that nobody answers gives up: with an open socket that has room for the messages and receives
  nothing, polling a freshly started client returns from every call of \<^verbatim>\<open>DHCP_run\<close>, and with at least a second
  between the polls one of the first 37 of them reports \<^verbatim>\<open>DHCP_FAILED\<close>, whatever the pauses are.
\<close>

theorem dhcp_gives_up:
  assumes "sn < 8" "unanswered_contract react sn" "unanswered sn (world (dhcp_net d))" "DHCP_SOCKET d = sn"
    "548 \<le> length (pDHCPMSG d)" "6 \<le> length (DHCP_CHADDR d)" "dhcp_state d = STATE_DHCP_INIT" "dhcp_tick_1s d = 0"
    "dhcp_tick_next d = DHCP_WAIT_TIME" "dhcp_retry_count d = 0" "set ks \<subseteq> {1 ..< 0x80000000}" "37 \<le> length ks"
  shows "\<exists>rs d'. dhcp_polls (ram_chip react) ticks cb ks d = Some (rs, d') \<and> DHCP_FAILED \<in> set rs"
proof -
  have "trying sn d" "polls_left d < length ks"
    using assms by (simp_all add: trying_def client_wf_def polls_left_def)
  then show ?thesis using trying_polls [OF _ assms(1,2,11)] by blast
qed

definition fresh_dhcp :: "chip_mem dhcp" where
  "fresh_dhcp = (dhcp_start quiet_net)\<lparr>pDHCPMSG := replicate 548 0\<rparr>"

lemma dhcp_gives_up_witness:
  "\<exists>rs d'. dhcp_polls (ram_chip (\<lambda>_ _ _ _. quiet_mem)) (\<lambda>m. (0, m)) (reg_dhcp_cbfunc (ram_chip (\<lambda>_ _ _ _. quiet_mem)) None None None)
     (replicate 37 11) fresh_dhcp = Some (rs, d') \<and> 0 \<in> set rs"
  by (rule dhcp_gives_up [where sn = 0])
     (simp_all add: quiet_unanswered fresh_dhcp_def dhcp_start_def quiet_net_def net_start_def)

text \<open>The client on a quiet chip, initialised and with its DISCOVER sent.\<close>

definition quiet_chip :: "chip_mem wizchip" where
  "quiet_chip = ram_chip (\<lambda>_ _ _ _. quiet_mem)"

lemma quiet_init: "\<exists>d. DHCP_init quiet_chip 0 (replicate 548 0) (dhcp_start quiet_net) = Some d \<and> client_wf 0 d \<and> dhcp_state d = 0"
proof -
  have "getSHAR quiet_chip (replicate 6 0) quiet_mem = Some (replicate 6 0, quiet_mem)"
    by (simp add: quiet_chip_def ram_get_areas mem_bytes_def quiet_mem_def numeral_eq_Suc)
  moreover have "setSHAR quiet_chip [0x00, 0x08, 0xdc, 0x00, 0x00, 0x00] quiet_mem = Some quiet_mem"
    "setSIPR quiet_chip [0, 0, 0, 0] quiet_mem = Some quiet_mem" "setGAR quiet_chip [0, 0, 0, 0] quiet_mem = Some quiet_mem"
    by (simp_all add: quiet_chip_def setSHAR_def setSIPR_def setGAR_def creg_addrs ram_bytes)
  ultimately show ?thesis
    by (simp add: DHCP_init_def on_net_def put_net_def try_get_def try_put_def dhcp_start_def quiet_net_def net_start_def Let_def
        client_wf_def reset_DHCP_timeout_def quiet_unanswered)
qed

lemma quiet_discover: "\<exists>d. dhcp_reachable quiet_chip ticks cb d \<and> client_wf 0 d \<and> dhcp_state d = 1"
proof -
  obtain d where d: "DHCP_init quiet_chip 0 (replicate 548 0) (dhcp_start quiet_net) = Some d" "client_wf 0 d" "dhcp_state d = 0"
    using quiet_init by blast
  have "client_wf 0 (d\<lparr>DHCP_allocated_ip := [0, 0, 0, 0]\<rparr>)" using d(2) by (simp add: client_wf_def)
  from discover_unanswered [OF this _ quiet_unanswered(2)] obtain m b where
      s: "send_DHCP_DISCOVER quiet_chip (d\<lparr>DHCP_allocated_ip := [0, 0, 0, 0]\<rparr>) = Some (d\<lparr>DHCP_allocated_ip := [0, 0, 0, 0],
        dhcp_net := (dhcp_net d)\<lparr>world := m\<rparr>, pDHCPMSG := b, DHCP_SIP := replicate 4 0, DHCP_REAL_SIP := replicate 4 0\<rparr>)"
        "unanswered 0 m" "length b = length (pDHCPMSG d)"
    unfolding quiet_chip_def by auto
  define x where "x = d\<lparr>DHCP_allocated_ip := [0, 0, 0, 0], dhcp_net := (dhcp_net d)\<lparr>world := m\<rparr>, pDHCPMSG := b,
      DHCP_SIP := replicate 4 0, DHCP_REAL_SIP := replicate 4 0, dhcp_state := 1\<rparr>"
  have "DHCP_run quiet_chip ticks cb d = Some (1, x)"
    using run_unanswered [OF d(2)] d(3) s(1) by (simp add: quiet_chip_def run_init_def x_def)
  then have "dhcp_reachable quiet_chip ticks cb x"
    by (intro reach_call [OF reach_call [OF reach_start [of _ _ _ quiet_net] call_init [OF d(1)]]] call_run)
  moreover have "client_wf 0 x" using d(2) s(2,3) by (simp add: client_wf_def x_def)
  ultimately show ?thesis by (intro exI [of _ x]) (simp add: x_def)
qed

definition quiet_cb :: "chip_mem dhcp_cb" where
  "quiet_cb = reg_dhcp_cbfunc quiet_chip None None None"

lemma dhcp_never_reports_change_witness:
  "\<exists>d. dhcp_reachable quiet_chip (\<lambda>m. (0, m)) quiet_cb d \<and> dhcp_state d = STATE_DHCP_DISCOVER \<and>
     DHCP_run quiet_chip (\<lambda>m. (0, m)) (quiet_cb\<lparr>dhcp_ip_update := \<lambda>d. None\<rparr>) d = DHCP_run quiet_chip (\<lambda>m. (0, m)) quiet_cb d"
proof -
  obtain d where "dhcp_reachable quiet_chip (\<lambda>m. (0, m)) quiet_cb d" "dhcp_state d = 1" using quiet_discover by blast
  then show ?thesis using dhcp_never_reports_change by blast
qed

section \<open>Options on the wire\<close>

text \<open>The options of a message, as RFC 2132 writes them.\<close>

datatype dhcp_opt = Pad | Opt u8 "u8 list"

fun opt_bytes :: "dhcp_opt \<Rightarrow> u8 list" where
  "opt_bytes Pad = [padOption]"
| "opt_bytes (Opt c bs) = c # word_of_nat (length bs) # bs"

text \<open>The lengths that the RFC prescribes for the options that the client reads.\<close>

fun opt_ok :: "dhcp_opt \<Rightarrow> bool" where
  "opt_ok Pad = True"
| "opt_ok (Opt c bs) \<longleftrightarrow> c \<noteq> padOption \<and> c \<noteq> endOption \<and> length bs < 256 \<and> (c = dhcpMessageType \<longrightarrow> length bs = 1) \<and>
     (c \<in> {subnetMask, dhcpIPaddrLeaseTime, dhcpServerIdentifier} \<longrightarrow> length bs = 4) \<and>
     (c \<in> {routersOnSubnet, dnsOption} \<longrightarrow> 4 \<le> length bs)"

definition lease_value :: "u8 list \<Rightarrow> u32" where
  "lease_value bs = ucast (bs ! 0) * 0x1000000 + ucast (bs ! 1) * 0x10000 + ucast (bs ! 2) * 0x100 + ucast (bs ! 3)"

text \<open>What an option tells the client, when it comes from the server at \<open>svr\<close>.\<close>

fun opt_sets :: "u8 list \<Rightarrow> dhcp_opt \<Rightarrow> options \<Rightarrow> options" where
  "opt_sets svr Pad r = r"
| "opt_sets svr (Opt c bs) r =
     (if c = dhcpMessageType then r\<lparr>op_type := bs ! 0\<rparr>
      else if c = subnetMask then r\<lparr>op_sn := bs\<rparr>
      else if c = routersOnSubnet then r\<lparr>op_gw := take 4 bs\<rparr>
      else if c = dnsOption then r\<lparr>op_dns := take 4 bs\<rparr>
      else if c = dhcpIPaddrLeaseTime then r\<lparr>op_lease := lease_value bs\<rparr>
      else if c = dhcpServerIdentifier then r\<lparr>op_sip := bs, op_real_sip := take 4 svr\<rparr>
      else r)"

lemma lease_word: "length bs = 4 \<Longrightarrow> foldl (\<lambda>l b. push_bit 8 l + ucast b) 0 bs = lease_value bs"
proof -
  assume "length bs = 4"
  then obtain a b c d where "bs = [a, b, c, d]" by (auto simp: length_Suc_conv eval_nat_numeral)
  then show ?thesis by (simp add: lease_value_def push_bit_eq_mult algebra_simps)
qed

lemma read_at:
  assumes "drop p msg = xs" "xs \<noteq> []"
  shows "byte_of msg p = Some (xs ! 0)" "1 < length xs \<Longrightarrow> byte_of msg (p + 1) = Some (xs ! 1)"
    "2 < length xs \<Longrightarrow> byte_of msg (p + 2) = Some (xs ! 2)"
    "6 \<le> length xs \<Longrightarrow> four msg (p + 2) = Some (take 4 (drop 2 xs))"
proof -
  have "length msg - p = length xs" by (simp flip: assms(1))
  moreover have "0 < length xs" using assms(2) by simp
  ultimately have l: "length msg = p + length xs" by linarith
  have n: "msg ! (p + i) = xs ! i" for i using assms(1) l by (metis le_add1 nth_drop)
  have "drop (p + 2) msg = drop 2 xs" by (simp flip: assms(1) add: add.commute)
  then show "byte_of msg p = Some (xs ! 0)" "1 < length xs \<Longrightarrow> byte_of msg (p + 1) = Some (xs ! 1)"
    "2 < length xs \<Longrightarrow> byte_of msg (p + 2) = Some (xs ! 2)"
    "6 \<le> length xs \<Longrightarrow> four msg (p + 2) = Some (take 4 (drop 2 xs))"
    using l n [of 0] n [of 1] n [of 2] assms(2) by (auto simp: byte_of_def four_def)
qed

lemma one_option_step:
  assumes "drop p msg = opt_bytes w @ rest" "opt_ok w"
  shows "one_option msg svr e p r = Some (p + length (opt_bytes w), opt_sets svr w r)"
proof (cases w)
  case Pad
  then show ?thesis using read_at(1) [OF assms(1)] by (simp add: one_option_def)
next
  case (Opt c bs)
  have d: "drop p msg = c # word_of_nat (length bs) # bs @ rest" using assms(1) Opt by simp
  have n: "unat (word_of_nat (length bs) :: u8) = length bs" using assms(2) Opt by (simp add: unat_of_nat)
  have b: "byte_of msg p = Some c" "byte_of msg (p + 1) = Some (word_of_nat (length bs))"
    using read_at(1,2) [OF d] by simp_all
  have t: "byte_of msg (p + 2) = Some (bs ! 0)" if "length bs = 1"
    using read_at(3) [OF d] that by (cases bs) simp_all
  have f: "four msg (p + 2) = Some (take 4 bs)" if "4 \<le> length bs"
    using read_at(4) [OF d] that by simp
  have ok: "c \<noteq> 0" "c \<noteq> 255" using assms(2) Opt by simp_all
  consider "c = 53" "length bs = 1" | "c = 1" "length bs = 4" | "c = 3" "4 \<le> length bs" | "c = 6" "4 \<le> length bs"
    | "c = 51" "length bs = 4" | "c = 54" "length bs = 4" | "c \<notin> {53, 1, 3, 6, 51, 54}"
    using assms(2) Opt by force
  then show ?thesis
  proof cases
    case 7
    then show ?thesis using b(2) n ok by (simp add: Opt one_option_def b(1))
  qed (use b(2) n t f in \<open>simp add: Opt one_option_def b(1) lease_word\<close>)+
qed

lemma option_loop_opts:
  assumes "\<forall>w \<in> set ws. opt_ok w" "drop p msg = concat (map opt_bytes ws) @ endOption # rest"
    "p + length (concat (map opt_bytes ws)) < e"
  shows "option_loop msg svr e p r = Some (fold (opt_sets svr) ws r)"
  using assms
proof (induction ws arbitrary: p r)
  case Nil
  then have "byte_of msg p = Some 255" using read_at(1) [of p msg] by simp
  then show ?case using Nil.prems(3)
    by (subst option_loop.simps) (simp add: one_option_def option_loop.simps [of msg svr e e])
next
  case (Cons w ws)
  have d: "drop p msg = opt_bytes w @ (concat (map opt_bytes ws) @ 255 # rest)" using Cons.prems(2) by simp
  have "drop (p + length (opt_bytes w)) msg = drop (length (opt_bytes w)) (drop p msg)" by (simp add: add.commute)
  also have "\<dots> = concat (map opt_bytes ws) @ 255 # rest" unfolding d by simp
  finally have "option_loop msg svr e (p + length (opt_bytes w)) (opt_sets svr w r) = Some (fold (opt_sets svr) ws (opt_sets svr w r))"
    using Cons.prems by (intro Cons.IH) simp_all
  moreover have "one_option msg svr e p r = Some (p + length (opt_bytes w), opt_sets svr w r)"
    using one_option_step [OF d] Cons.prems(1) by simp
  ultimately show ?case using Cons.prems(3) by (subst option_loop.simps) simp
qed

text \<open>
  C24. Reading the options of a reply does what the options say: for a well-formed message of the server that the
  client is talking to, whose options are any list of options with the lengths of RFC 2132 (padding anywhere,
  unknown options skipped), the client ends with the values of the last option of each kind, and the rest of the
  state is as it was.
\<close>

theorem dhcp_options_parsed:
  assumes "pDHCPMSG d = head @ concat (map opt_bytes ws) @ endOption # rest" "length head = 240"
    "\<forall>w \<in> set ws. opt_ok w" "240 + length (concat (map opt_bytes ws)) < unat len"
    "take 6 (drop 28 head) = take 6 (DHCP_CHADDR d)"
    "take 4 (DHCP_SIP d) = replicate 4 0 \<or> take 4 svr = take 4 (DHCP_SIP d) \<or> take 4 svr = take 4 (DHCP_REAL_SIP d)"
  shows "read_reply len svr DHCP_SERVER_PORT d =
    (let r = fold (opt_sets svr) ws (load_options d) in Some (op_type r, store_options r d))"
proof -
  have "option_loop (pDHCPMSG d) svr (unat len) 240 (load_options d) = Some (fold (opt_sets svr) ws (load_options d))"
    by (rule option_loop_opts [OF assms(3)]) (use assms(1,2,4) in simp_all)
  moreover have "take 6 (drop 28 (pDHCPMSG d)) = take 6 (DHCP_CHADDR d)" "\<not> length (pDHCPMSG d) < 34"
    using assms(1,2,5) by simp_all
  ultimately show ?thesis using assms(6) by (auto simp: read_reply_def Let_def)
qed

definition sample_offer :: "dhcp_opt list" where
  "sample_offer = [Opt 53 [2], Pad, Opt 1 [255, 255, 255, 0], Opt 12 [97, 98], Opt 51 [0, 0, 14, 16], Opt 54 [192, 168, 0, 1]]"

definition sample_dhcp :: "unit net dhcp" where
  "sample_dhcp = (dhcp_start (net_start (net_start ())))\<lparr>DHCP_CHADDR := [0, 8, 0xdc, 1, 2, 3],
     pDHCPMSG := (replicate 28 0 @ [0, 8, 0xdc, 1, 2, 3] @ replicate 206 0) @ concat (map opt_bytes sample_offer) @ [255]\<rparr>"

lemma dhcp_options_parsed_witness:
  "read_reply 300 [192, 168, 0, 1, 0, 0] 67 sample_dhcp = Some (2, sample_dhcp\<lparr>DHCP_allocated_sn := [255, 255, 255, 0],
     dhcp_lease_time := 3600, DHCP_SIP := [192, 168, 0, 1], DHCP_REAL_SIP := [192, 168, 0, 1]\<rparr>)"
proof -
  have "read_reply 300 [192, 168, 0, 1, 0, 0] 67 sample_dhcp =
      (let r = fold (opt_sets [192, 168, 0, 1, 0, 0]) sample_offer (load_options sample_dhcp)
       in Some (op_type r, store_options r sample_dhcp))"
    by (rule dhcp_options_parsed [where head = "replicate 28 0 @ [0, 8, 0xdc, 1, 2, 3] @ replicate 206 0" and rest = "[]"])
       (simp_all add: sample_dhcp_def sample_offer_def dhcp_start_def)
  then show ?thesis
    by (simp add: sample_offer_def load_options_def store_options_def lease_value_def sample_dhcp_def dhcp_start_def)
qed

text \<open>The options of a REQUEST.\<close>

definition request_opts :: "'w dhcp \<Rightarrow> bool \<Rightarrow> dhcp_opt list" where
  "request_opts d ids =
     [Opt 53 [DHCP_REQUEST], Opt 61 (1 # take 6 (DHCP_CHADDR d))] @
     (if ids then [Opt 50 (take 4 (DHCP_allocated_ip d)), Opt 54 (take 4 (DHCP_SIP d))] else []) @
     [Opt 12 (drop 2 (opt_host (DHCP_CHADDR d))), Opt 55 [1, 3, 6, 15, 58, 59, 31, 33]]"

lemma request_bytes:
  assumes "6 \<le> length (DHCP_CHADDR d)" "ids \<longrightarrow> 4 \<le> length (DHCP_allocated_ip d) \<and> 4 \<le> length (DHCP_SIP d)"
  shows "opt_type 3 @ opt_client (DHCP_CHADDR d) @
      (if ids then opt_addr 50 (DHCP_allocated_ip d) @ opt_addr 54 (DHCP_SIP d) else []) @ opt_host (DHCP_CHADDR d) @
      [55, 8, 1, 3, 6, 15, 58, 59, 31, 33, 255] = concat (map opt_bytes (request_opts d ids)) @ [255]"
    "\<forall>w \<in> set (request_opts d ids). opt_ok w"
    "fold (opt_sets svr) (request_opts d ids) r =
      (if ids then r\<lparr>op_type := 3, op_sip := take 4 (DHCP_SIP d), op_real_sip := take 4 svr\<rparr> else r\<lparr>op_type := 3\<rparr>)"
proof -
  show "opt_type 3 @ opt_client (DHCP_CHADDR d) @
      (if ids then opt_addr 50 (DHCP_allocated_ip d) @ opt_addr 54 (DHCP_SIP d) else []) @ opt_host (DHCP_CHADDR d) @
      [55, 8, 1, 3, 6, 15, 58, 59, 31, 33, 255] = concat (map opt_bytes (request_opts d ids)) @ [255]"
    using assms by (simp add: request_opts_def opt_type_def opt_client_def opt_addr_def opt_host_def HOST_NAME_def min_absorb2)
  show "\<forall>w \<in> set (request_opts d ids). opt_ok w"
    using assms by (auto simp: request_opts_def min_absorb2)
  show "fold (opt_sets svr) (request_opts d ids) r =
      (if ids then r\<lparr>op_type := 3, op_sip := take 4 (DHCP_SIP d), op_real_sip := take 4 svr\<rparr> else r\<lparr>op_type := 3\<rparr>)"
    by (simp add: request_opts_def)
qed

lemma unicast_head_append: "length h = 240 \<Longrightarrow> unicast_head ip (h @ t) = unicast_head ip h @ t"
  by (simp add: unicast_head_def)

definition request_head :: "'w dhcp \<Rightarrow> u8 list" where
  "request_head d = (let h = msg_head (DHCP_XID d) (DHCP_CHADDR d) in
     if dhcp_state d = STATE_DHCP_LEASED \<or> dhcp_state d = STATE_DHCP_REREQUEST then unicast_head (DHCP_allocated_ip d) h else h)"

lemma request_head_length [simp]:
  "6 \<le> length (DHCP_CHADDR d) \<Longrightarrow> 4 \<le> length (DHCP_allocated_ip d) \<Longrightarrow> length (request_head d) = 240"
  by (simp add: request_head_def unicast_head_def Let_def)

text \<open>A renewal, and whether the addresses are among the options.\<close>

definition renewing :: "'w dhcp \<Rightarrow> bool" where
  "renewing d \<longleftrightarrow> dhcp_state d = STATE_DHCP_LEASED \<or> dhcp_state d = STATE_DHCP_REREQUEST"

definition with_ids :: "'w dhcp \<Rightarrow> bool" where
  "with_ids d \<longleftrightarrow> (if renewing d then DHCP_SIP d ! 3 = 255 else True)"

lemma request_message:
  assumes "send_DHCP_REQUEST E d = Some d'" "4 \<le> length (DHCP_allocated_ip d)" "4 \<le> length (DHCP_SIP d)"
  shows "\<exists>rest. pDHCPMSG d' = request_head d @ concat (map opt_bytes (request_opts d (with_ids d))) @ endOption # rest"
    "6 \<le> length (DHCP_CHADDR d)"
proof -
  let ?o = "concat (map opt_bytes (request_opts d (with_ids d))) @ [255]"
  obtain y where y: "makeDHCPMSG E d = Some y"
      and r: "(let (d, ip) = (if dhcp_state y = 3 \<or> dhcp_state y = 4
          then (y\<lparr>pDHCPMSG := unicast_head (DHCP_allocated_ip y) (pDHCPMSG y)\<rparr>, DHCP_SIP y) else (y, [255, 255, 255, 255]));
        x = opt_type 3 @ opt_client (DHCP_CHADDR d) @
          (if ip ! 3 = 255 then opt_addr 50 (DHCP_allocated_ip d) @ opt_addr 54 (DHCP_SIP d) else []) @
          opt_host (DHCP_CHADDR d) @ [55, 8, 1, 3, 6, 15, 58, 59, 31, 33, 255]
        in put_options x d \<bind> send_msg E ip) = Some d'"
    using assms(1) unfolding send_DHCP_REQUEST_def bind_eq_Some_conv Let_def by auto
  from y obtain n where yd: "y = d\<lparr>dhcp_net := n, pDHCPMSG := msg_head (DHCP_XID d) (DHCP_CHADDR d) @ drop 240 (pDHCPMSG d)\<rparr>"
      and l: "6 \<le> length (DHCP_CHADDR d)" "240 \<le> length (pDHCPMSG d)"
    by (auto simp: makeDHCPMSG_def on_net_def bind_eq_Some_conv split: if_splits)
  show "6 \<le> length (DHCP_CHADDR d)" by (rule l(1))
  define z where "z = y\<lparr>pDHCPMSG := request_head d @ drop 240 (pDHCPMSG d)\<rparr>"
  define ip where "ip = (if renewing d then DHCP_SIP d else [255, 255, 255, 255])"
  have ids: "(ip ! 3 = 255) = with_ids d" by (simp add: ip_def with_ids_def)
  have e: "(if dhcp_state y = 3 \<or> dhcp_state y = 4
          then (y\<lparr>pDHCPMSG := unicast_head (DHCP_allocated_ip y) (pDHCPMSG y)\<rparr>, DHCP_SIP y) else (y, [255, 255, 255, 255])) = (z, ip)"
    using l(1) by (simp add: yd z_def ip_def renewing_def request_head_def Let_def unicast_head_append)
  have zf: "DHCP_CHADDR z = DHCP_CHADDR d" "DHCP_allocated_ip z = DHCP_allocated_ip d" "DHCP_SIP z = DHCP_SIP d"
    by (simp_all add: z_def yd)
  have addr: "with_ids d \<longrightarrow> 4 \<le> length (DHCP_allocated_ip d) \<and> 4 \<le> length (DHCP_SIP d)" using assms(2,3) by simp
  have "put_options ?o z \<bind> send_msg E ip = Some d'"
    using r unfolding Let_def e prod.case ids zf request_bytes(1) [OF l(1) addr] .
  then obtain x where x: "put_options ?o z = Some x" "pDHCPMSG d' = pDHCPMSG x"
    by (auto simp: bind_eq_Some_conv send_msg_def on_net_def)
  have "pDHCPMSG x = take 240 (pDHCPMSG z) @ ?o @ replicate (308 - length ?o) 0 @ drop 548 (pDHCPMSG z)"
    using x(1) by (auto simp: put_options_def split: if_splits)
  moreover have "take 240 (pDHCPMSG z) = request_head d" using l assms(2) by (simp add: z_def)
  ultimately show "\<exists>rest. pDHCPMSG d' = request_head d @ concat (map opt_bytes (request_opts d (with_ids d))) @ endOption # rest"
    by (simp add: x(2))
qed

lemma request_fields:
  assumes "send_DHCP_REQUEST E d = Some d'" "4 \<le> length (DHCP_allocated_ip d)" "4 \<le> length (DHCP_SIP d)"
  defines "b \<equiv> pDHCPMSG d'"
  shows "take 4 (drop 4 b) = be_32 (DHCP_XID d)" "take 6 (drop 28 b) = take 6 (DHCP_CHADDR d)"
    "take 4 (drop 236 b) = be_32 MAGIC_COOKIE" "take 4 (drop 12 b) = (if renewing d then take 4 (DHCP_allocated_ip d) else replicate 4 0)"
    "option_loop b svr 548 240 r = Some (if with_ids d
       then r\<lparr>op_type := DHCP_REQUEST, op_sip := take 4 (DHCP_SIP d), op_real_sip := take 4 svr\<rparr> else r\<lparr>op_type := DHCP_REQUEST\<rparr>)"
proof -
  obtain rest where b: "b = request_head d @ concat (map opt_bytes (request_opts d (with_ids d))) @ 255 # rest"
    using request_message(1) [OF assms(1-3)] by (auto simp: b_def)
  have l: "6 \<le> length (DHCP_CHADDR d)" by (rule request_message(2) [OF assms(1-3)])
  have addr: "with_ids d \<longrightarrow> 4 \<le> length (DHCP_allocated_ip d) \<and> 4 \<le> length (DHCP_SIP d)" using assms(2,3) by simp
  show "take 4 (drop 4 b) = be_32 (DHCP_XID d)" "take 6 (drop 28 b) = take 6 (DHCP_CHADDR d)"
    "take 4 (drop 236 b) = be_32 0x63825363" "take 4 (drop 12 b) = (if renewing d then take 4 (DHCP_allocated_ip d) else replicate 4 0)"
    using l assms(2)
    by (auto simp: b request_head_def renewing_def Let_def msg_head_def unicast_head_def be_32_def be_16_def min_absorb2)
  have "length (concat (map opt_bytes (request_opts d (with_ids d)))) < 308"
    using l assms(2,3) by (simp add: request_opts_def opt_host_def HOST_NAME_def min_absorb2)
  moreover have "drop 240 b = concat (map opt_bytes (request_opts d (with_ids d))) @ 255 # rest" using l assms(2) by (simp add: b)
  ultimately have "option_loop b svr 548 240 r = Some (fold (opt_sets svr) (request_opts d (with_ids d)) r)"
    by (intro option_loop_opts [OF request_bytes(2) [OF l addr]]) simp_all
  then show "option_loop b svr 548 240 r = Some (if with_ids d
       then r\<lparr>op_type := 3, op_sip := take 4 (DHCP_SIP d), op_real_sip := take 4 svr\<rparr> else r\<lparr>op_type := 3\<rparr>)"
    unfolding request_bytes(3) [OF l addr] .
qed

text \<open>
  C25. What the client requests is what it can read: the message that \<^verbatim>\<open>send_DHCP_REQUEST\<close> leaves in the buffer
  carries the transaction number, the hardware address and the magic cookie where BOOTP puts them, its client
  address is the leased one when the lease is renewed and zero otherwise, and the client's own option parser
  reads it as a REQUEST, with the server's identifier when the request is broadcast.
\<close>

theorem dhcp_request_roundtrip:
  assumes "send_DHCP_REQUEST E d = Some d'" "4 \<le> length (DHCP_allocated_ip d)" "4 \<le> length (DHCP_SIP d)"
  shows "let b = pDHCPMSG d' in
    take 4 (drop 4 b) = be_32 (DHCP_XID d) \<and> take 6 (drop 28 b) = take 6 (DHCP_CHADDR d) \<and>
    take 4 (drop 236 b) = be_32 MAGIC_COOKIE \<and>
    take 4 (drop 12 b) = (if renewing d then take 4 (DHCP_allocated_ip d) else replicate 4 0) \<and>
    (\<forall>svr r. option_loop b svr 548 240 r = Some (if with_ids d
       then r\<lparr>op_type := DHCP_REQUEST, op_sip := take 4 (DHCP_SIP d), op_real_sip := take 4 svr\<rparr> else r\<lparr>op_type := DHCP_REQUEST\<rparr>))"
  using request_fields [OF assms] by (simp add: Let_def)

text \<open>A request goes out on a quiet chip.\<close>

lemma quiet_request: "\<exists>d'. send_DHCP_REQUEST quiet_chip (fresh_dhcp\<lparr>DHCP_allocated_ip := [10, 0, 0, 7], DHCP_SIP := [10, 0, 0, 1]\<rparr>) = Some d'"
proof -
  let ?d = "fresh_dhcp\<lparr>DHCP_allocated_ip := [10, 0, 0, 7], DHCP_SIP := [10, 0, 0, 1]\<rparr>"
  let ?h = "msg_head 0 (replicate 6 0) :: u8 list"
  let ?y = "?d\<lparr>pDHCPMSG := ?h @ drop 240 (pDHCPMSG ?d)\<rparr>"
  let ?o = "opt_type 3 @ opt_client (DHCP_CHADDR ?y) @ (opt_addr 50 (DHCP_allocated_ip ?y) @ opt_addr 54 (DHCP_SIP ?y)) @
      opt_host (DHCP_CHADDR ?y) @ [55, 8, 1, 3, 6, 15, 58, 59, 31, 33, 255]"
  have wf: "client_wf 0 ?d"
    by (simp add: client_wf_def quiet_unanswered fresh_dhcp_def dhcp_start_def quiet_net_def net_start_def)
  have y: "makeDHCPMSG quiet_chip ?d = Some ?y"
    using make_unanswered [OF wf] by (simp add: quiet_chip_def fresh_dhcp_def dhcp_start_def)
  have f: "length ?h = 240" "548 \<le> length (pDHCPMSG ?d)" "length ?o \<le> 308" "dhcp_state ?y = 0" "DHCP_SOCKET ?y = 0"
    "unanswered 0 (world (dhcp_net ?y))"
    by (simp_all add: quiet_unanswered fresh_dhcp_def dhcp_start_def quiet_net_def net_start_def)
  define b where "b = ?h @ ?o @ replicate (308 - length ?o) 0 @ drop 548 (pDHCPMSG ?d)"
  have o: "put_options ?o ?y = Some (?y\<lparr>pDHCPMSG := b\<rparr>)"
    unfolding b_def by (rule put_options_head) (use f in simp_all)
  have "length b = length (pDHCPMSG ?d)" unfolding b_def by (rule put_options_length) (use f in simp_all)
  then obtain n m where "sendto_W6x00 quiet_chip 0 b 548 [255, 255, 255, 255] 67 4 (dhcp_net ?y) = Some (n, m)"
    using sendto_unanswered [OF _ quiet_unanswered(2) f(6), of "[255, 255, 255, 255]" 67 548 b] f(2) by (auto simp: quiet_chip_def)
  then have "send_msg quiet_chip [255, 255, 255, 255] (?y\<lparr>pDHCPMSG := b\<rparr>) = Some (?y\<lparr>pDHCPMSG := b, dhcp_net := m\<rparr>)"
    using f(5) by (simp add: send_msg_def on_net_def)
  then show ?thesis
    unfolding send_DHCP_REQUEST_def y bind.bind_lunit using f(4) o by (simp add: Let_def)
qed

lemma dhcp_request_roundtrip_witness:
  "\<exists>d'. send_DHCP_REQUEST quiet_chip (fresh_dhcp\<lparr>DHCP_allocated_ip := [10, 0, 0, 7], DHCP_SIP := [10, 0, 0, 1]\<rparr>) = Some d' \<and>
     option_loop (pDHCPMSG d') [10, 0, 0, 1] 548 240 (load_options fresh_dhcp) =
       Some (load_options fresh_dhcp\<lparr>op_type := 3, op_sip := [10, 0, 0, 1], op_real_sip := [10, 0, 0, 1]\<rparr>)"
proof -
  obtain d' where "send_DHCP_REQUEST quiet_chip (fresh_dhcp\<lparr>DHCP_allocated_ip := [10, 0, 0, 7], DHCP_SIP := [10, 0, 0, 1]\<rparr>) = Some d'"
    using quiet_request by blast
  moreover from dhcp_request_roundtrip [OF this] have
    "option_loop (pDHCPMSG d') [10, 0, 0, 1] 548 240 (load_options fresh_dhcp) =
       Some (load_options fresh_dhcp\<lparr>op_type := 3, op_sip := [10, 0, 0, 1], op_real_sip := [10, 0, 0, 1]\<rparr>)"
    by (simp add: Let_def with_ids_def renewing_def fresh_dhcp_def dhcp_start_def)
  ultimately show ?thesis by blast
qed

end
