(* ===== verification/Netutil.thy ===== *)
theory Netutil
  imports Clib
begin

text \<open>
  \<^verbatim>\<open>Internet/TFTP/netutil.c\<close>, with \<^verbatim>\<open>SYSTEM_LITTLE_ENDIAN\<close> as its header defines it: the byte order of
  words, and addresses as text. The text of an address is the array of 16 characters that the code
  returns.
\<close>

section \<open>Byte order\<close>

definition swaps :: "u16 \<Rightarrow> u16" where
  "swaps i = push_bit 8 (i AND 0xFF) OR (drop_bit 8 i AND 0xFF)"

definition swapl :: "u32 \<Rightarrow> u32" where
  "swapl l = push_bit 24 (l AND 0xFF) OR push_bit 16 (drop_bit 8 l AND 0xFF) OR push_bit 8 (drop_bit 16 l AND 0xFF) OR
     (drop_bit 24 l AND 0xFF)"

definition htons :: "u16 \<Rightarrow> u16" where "htons hostshort = swaps hostshort"
definition htonl :: "u32 \<Rightarrow> u32" where "htonl hostlong = swapl hostlong"
definition ntohs :: "u16 \<Rightarrow> u32" where "ntohs netshort = ucast (htons netshort)"
definition ntohl :: "u32 \<Rightarrow> u32" where "ntohl netlong = swapl netlong"

section \<open>Addresses as text\<close>

definition addr_parts :: "u32 \<Rightarrow> nat list" where
  "addr_parts addr = [unat (drop_bit 24 addr AND 0xFF), unat (drop_bit 16 addr AND 0xFF), unat (drop_bit 8 addr AND 0xFF),
     unat (addr AND 0xFF)]"

fun dotted_text :: "string list \<Rightarrow> string" where
  "dotted_text [] = []"
| "dotted_text [w] = w"
| "dotted_text (w # ws) = w @ CHR ''.'' # dotted_text ws"

definition pad3 :: "nat \<Rightarrow> string" where
  "pad3 n = replicate (3 - length (dec_text n)) CHR ''0'' @ dec_text n"

definition inet_ntoa :: "u32 \<Rightarrow> string option" where
  "inet_ntoa addr = strcpy_at (replicate 16 NUL) (dotted_text (map dec_text (addr_parts addr)))"

definition inet_ntoa_pad :: "u32 \<Rightarrow> string option" where
  "inet_ntoa_pad addr = strcpy_at (replicate 16 NUL) (dotted_text (map pad3 (addr_parts addr)))"

text \<open>\<^verbatim>\<open>strtol(s, NULL, 16)\<close> for a string: the value, saturated.\<close>

definition hex_value :: "char \<Rightarrow> nat option" where
  "hex_value c = (let n = of_char c :: nat in
     if 48 \<le> n \<and> n \<le> 57 then Some (n - 48) else if 65 \<le> n \<and> n \<le> 70 then Some (n - 55)
     else if 97 \<le> n \<and> n \<le> 102 then Some (n - 87) else None)"

definition strtol16 :: "char list \<Rightarrow> int" where
  "strtol16 s =
     (let t = dropWhile is_space s;
          neg = (t \<noteq> [] \<and> hd t = CHR ''-'');
          t = (if t \<noteq> [] \<and> (hd t = CHR ''-'' \<or> hd t = CHR ''+'') then tl t else t);
          t = (if take 2 t \<in> {''0x'', ''0X''} \<and> drop 2 t \<noteq> [] \<and> hex_value (hd (drop 2 t)) \<noteq> None then drop 2 t else t);
          ds = takeWhile (\<lambda>c. hex_value c \<noteq> None) t;
          n = foldl (\<lambda>v c. v * 16 + int (the (hex_value c))) 0 ds
      in max LONG_MIN (min LONG_MAX (if neg then - n else n)))"

text \<open>The loop of \<^verbatim>\<open>inet_addr\<close>, with \<open>k\<close> parts still to be read.\<close>

primrec inet_addr_loop :: "nat \<Rightarrow> string \<Rightarrow> nat \<Rightarrow> u32 \<Rightarrow> u32 option" where
  "inet_addr_loop 0 taddr pos inetaddr = Some inetaddr"
| "inet_addr_loop (Suc k) taddr pos inetaddr = do {
     (taddr, tok, pos) \<leftarrow> strtok taddr pos ''.'';
     i \<leftarrow> tok;
     w \<leftarrow> c_str (drop i taddr);
     let num = (if take 2 w = ''0x'' then strtol16 (drop 2 w) else fst (strtol w));
     inet_addr_loop k taddr pos (push_bit 8 inetaddr OR (word_of_int num AND 0xFF))
   }"

definition netutil_inet_addr :: "string \<Rightarrow> u32 option" where
  "netutil_inet_addr addr = do {
     s \<leftarrow> c_str addr;
     taddr \<leftarrow> strcpy_at (replicate 30 NUL) s;
     inet_addr_loop 4 taddr 0 0
   }"

section \<open>Byte order: lemmas\<close>

lemma low_byte: "w AND 0xFF = take_bit 8 w" for w :: "'a::len word"
  by (simp add: take_bit_eq_mask mask_eq_exp_minus_1)

lemma bit_swaps: "bit (swaps i) n \<longleftrightarrow> n < 16 \<and> bit i (if n < 8 then n + 8 else n - 8)"
  unfolding swaps_def low_byte 
  by (auto simp: bit_simps not_less dest: bit_imp_le_length simp del: push_bit_eq_mult) (simp_all add: add.commute)

lemma swaps_swaps [simp]: "swaps (swaps i) = i"
  by (rule bit_eqI) (auto simp: bit_swaps)

lemma bit_swapl: "bit (swapl l) n \<longleftrightarrow> n < 32 \<and> bit l (if n < 8 then n + 24 else if n < 16 then n + 8
    else if n < 24 then n - 8 else n - 24)"
  unfolding swapl_def low_byte
  by (auto simp: bit_simps not_less dest: bit_imp_le_length simp del: push_bit_eq_mult) (simp_all add: add.commute)

lemma swapl_swapl [simp]: "swapl (swapl l) = l"
  by (rule bit_eqI) (auto simp: bit_swapl)

section \<open>Addresses as text: lemmas\<close>

lemma strtok_last:
  assumes "w \<noteq> []" "set w \<inter> insert NUL (set ds) = {}"
  shows "strtok (pre @ w @ NUL # r) (length pre) ds = Some (pre @ w @ NUL # r, Some (length pre), length pre + length w)"
proof -
  obtain c v where w: "w = c # v" using assms(1) by (cases w) auto
  have "c_str (w @ NUL # r) = Some w"
    using assms(2) unfolding c_str_def by (subst takeWhile_append2) auto
  moreover have "takeWhile (\<lambda>c. c \<in> set ds) w = []" "dropWhile (\<lambda>c. c \<in> set ds) w = w"
    using assms(2) by (auto simp: w)
  moreover have e: "takeWhile (\<lambda>c. c \<notin> set ds) w = w"
    using assms(2) by (auto simp: takeWhile_eq_all_conv)
  ultimately show ?thesis using assms(1) by (simp add: strtok_def Let_def e)
qed

lemma c_str_word: "NUL \<notin> set w \<Longrightarrow> c_str (w @ NUL # r) = Some w"
  unfolding c_str_def by (subst takeWhile_append2) auto

lemma strtol_digits:
  assumes "ds \<noteq> []" "\<forall>c \<in> set ds. is_digit c" "int (dec_value ds) \<le> LONG_MAX"
  shows "fst (strtol ds) = int (dec_value ds)"
proof -
  obtain c cs where t: "ds = c # cs" using assms(1) by (cases ds) auto
  then have c: "is_digit c" using assms(2) by simp
  then have "c \<noteq> CHR ''-''" "c \<noteq> CHR ''+''" by (auto simp: is_digit_def)
  moreover have "dropWhile is_space ds = ds" using is_digit_not_space [OF c] by (simp add: t)
  moreover have "takeWhile is_digit ds = ds" using assms(2) by (simp add: takeWhile_eq_all_conv)
  ultimately show ?thesis using assms(1,3) by (simp add: strtol_def Let_def LONG_MIN_def t)
qed

lemma digits_plain: "\<forall>c \<in> set w. is_digit c \<Longrightarrow> set w \<inter> insert NUL (set ''.'') = {} \<and> take 2 w \<noteq> ''0x''"
  by (cases w; cases "tl w") (auto simp: is_digit_def)

lemma byte_of_nat: "n < 256 \<Longrightarrow> word_of_nat n AND 0xFF = (word_of_nat n :: u32)"
  by (simp add: low_byte word_unat_eq_iff unsigned_take_bit_eq unat_of_nat take_bit_eq_mod unat_mod)

definition addr_word :: "string \<Rightarrow> bool" where
  "addr_word w \<longleftrightarrow> w \<noteq> [] \<and> (\<forall>c \<in> set w. is_digit c) \<and> dec_value w < 256"

lemma addr_word_facts:
  assumes "addr_word w"
  shows "set w \<inter> insert NUL (set ''.'') = {}" "take 2 w \<noteq> ''0x''"
    "word_of_int (fst (strtol w)) AND 0xFF = (word_of_nat (dec_value w) :: u32)" "NUL \<notin> set w" "w \<noteq> []"
proof -
  have w: "w \<noteq> []" "\<forall>c \<in> set w. is_digit c" "dec_value w < 256" using assms by (simp_all add: addr_word_def)
  then show "set w \<inter> insert NUL (set ''.'') = {}" "take 2 w \<noteq> ''0x''" "NUL \<notin> set w" "w \<noteq> []"
    using digits_plain [OF w(2)] by simp_all
  have "int (dec_value w) \<le> LONG_MAX" using w(3) by (simp add: LONG_MAX_def)
  then show "word_of_int (fst (strtol w)) AND 0xFF = (word_of_nat (dec_value w) :: u32)"
    using strtol_digits [OF w(1,2)] byte_of_nat [OF w(3)] by simp
qed

lemma inet_addr_step:
  assumes "addr_word w" "NUL \<in> set t"
  shows "inet_addr_loop (Suc k) (pre @ w @ CHR ''.'' # t) (length pre) acc =
    inet_addr_loop k (pre @ w @ NUL # t) (length pre + length w + 1) (push_bit 8 acc OR word_of_nat (dec_value w))"
  using addr_word_facts [OF assms(1)] strtok_word [of "''.''" w "CHR ''.''" t pre] assms(2)
  by (simp add: c_str_word)

lemma inet_addr_words:
  assumes "\<forall>w \<in> set ws. addr_word w"
  shows "inet_addr_loop (length ws) (pre @ dotted_text ws @ NUL # r) (length pre) acc =
    Some (foldl (\<lambda>acc w. push_bit 8 acc OR word_of_nat (dec_value w)) acc ws)"
  using assms
proof (induction ws arbitrary: pre acc rule: dotted_text.induct)
  case (2 w)
  then show ?case
    using addr_word_facts [of w] strtok_last [of w "''.''" pre r] by (simp add: c_str_word)
next
  case (3 w v ws)
  have "inet_addr_loop (Suc (length (v # ws))) (pre @ w @ CHR ''.'' # (dotted_text (v # ws) @ NUL # r)) (length pre) acc =
      inet_addr_loop (length (v # ws)) (pre @ w @ NUL # (dotted_text (v # ws) @ NUL # r)) (length pre + length w + 1)
        (push_bit 8 acc OR word_of_nat (dec_value w))"
    by (rule inet_addr_step) (use "3.prems" in simp_all)
  also have "\<dots> = Some (foldl (\<lambda>acc w. push_bit 8 acc OR word_of_nat (dec_value w))
      (push_bit 8 acc OR word_of_nat (dec_value w)) (v # ws))"
    using "3.IH" [of "pre @ w @ [NUL]"] "3.prems" by (simp del: inet_addr_loop.simps)
  finally show ?case by (simp del: inet_addr_loop.simps)
qed simp

lemma dec_text_word: "n < 256 \<Longrightarrow> addr_word (dec_text n)"
  using dec_text_digits [of _ n] by (simp add: addr_word_def)

lemma dec_value_zeros: "dec_value (replicate k CHR ''0'' @ w) = dec_value w"
  by (induction k) (simp_all add: dec_value_def)

lemma pad3_word: "n < 256 \<Longrightarrow> addr_word (pad3 n)" "dec_value (pad3 n) = n"
  using dec_text_digits [of _ n] by (auto simp: addr_word_def pad3_def dec_value_zeros is_digit_def)

lemma dec_text_three: "n < 256 \<Longrightarrow> length (dec_text n) \<le> 3"
  by (rule dec_text_length) simp_all

lemma addr_parts_bytes: "n \<in> set (addr_parts addr) \<Longrightarrow> n < 256"
proof -
  have "unat (take_bit 8 x) = take_bit 8 (unat x)" for x :: u32 by (rule unsigned_take_bit_eq)
  then have "unat (x AND 0xFF) < 256" for x :: u32 by (simp only: low_byte) (simp add: take_bit_eq_mod)
  then show "n \<in> set (addr_parts addr) \<Longrightarrow> n < 256" by (auto simp: addr_parts_def)
qed

lemma addr_parts_value: "foldl (\<lambda>acc n. push_bit 8 acc OR word_of_nat n) 0 (addr_parts addr) = addr"
proof -
  have "push_bit 8 (push_bit 8 (push_bit 8 (drop_bit 24 addr AND 0xFF) OR (drop_bit 16 addr AND 0xFF)) OR (drop_bit 8 addr AND 0xFF))
      OR (addr AND 0xFF) = addr"
    unfolding low_byte
    by (rule bit_eqI) (auto simp: bit_simps not_less dest: bit_imp_le_length simp del: push_bit_eq_mult push_bit_push_bit)
  then show ?thesis by (simp add: addr_parts_def del: push_bit_eq_mult push_bit_push_bit)
qed

lemma inet_text:
  assumes "\<forall>n \<in> set (addr_parts addr). addr_word (f n) \<and> dec_value (f n) = n \<and> length (f n) \<le> 3"
  defines "s \<equiv> dotted_text (map f (addr_parts addr))"
  shows "\<exists>a. strcpy_at (replicate 16 NUL) s = Some a \<and> netutil_inet_addr a = Some addr"
proof -
  obtain p q r t where p: "addr_parts addr = [p, q, r, t]" by (simp add: addr_parts_def)
  have l: "length s < 16" using assms(1) by (simp add: s_def p)
  have n: "NUL \<notin> set s" using assms(1) addr_word_facts(4) by (auto simp: s_def p)
  have n4: "length (map f (addr_parts addr)) = 4" and n4': "length (addr_parts addr) = 4" by (simp_all add: p)
  have "inet_addr_loop 4 (s @ NUL # x) 0 0 = Some (foldl (\<lambda>acc w. push_bit 8 acc OR word_of_nat (dec_value w)) 0 (map f (addr_parts addr)))" for x
    using inet_addr_words [of "map f (addr_parts addr)" "[]" x 0] assms(1) n4
    unfolding n4 s_def by (auto simp del: inet_addr_loop.simps simp add: n4')
  also have "\<dots> = Some (foldl (\<lambda>acc n. push_bit 8 acc OR word_of_nat n) 0 (addr_parts addr))" 
    using assms(1) by (simp add: p)
  finally have "inet_addr_loop 4 (s @ NUL # x) 0 0 = Some addr" for x by (simp only: addr_parts_value)
  then show ?thesis using l by (simp add: netutil_inet_addr_def strcpy_at_def c_str_word [OF n])
qed

text \<open>
  C38. An address printed by \<^verbatim>\<open>inet_ntoa\<close> or, with three digits for each part, by \<^verbatim>\<open>inet_ntoa_pad\<close> fits the
  array of 16 characters, and \<^verbatim>\<open>inet_addr\<close> reads it back.
\<close>

theorem inet_addr_ntoa:
  "(\<exists>a. inet_ntoa addr = Some a \<and> netutil_inet_addr a = Some addr) \<and>
   (\<exists>a. inet_ntoa_pad addr = Some a \<and> netutil_inet_addr a = Some addr)"
  unfolding inet_ntoa_def inet_ntoa_pad_def
  using addr_parts_bytes [of _ addr] dec_text_three
  by (intro conjI inet_text ballI; simp add: dec_text_word pad3_word; simp add: pad3_def)

end
