(* ===== verification/Tftp.thy ===== *)
theory Tftp
  imports Chip_Model Netutil
begin

text \<open>
  The TFTP client of \<^verbatim>\<open>Internet/TFTP/tftp.c\<close> over the socket layer, without its debug output. Strings are
  the bytes before their NUL, words in a packet lie in memory low byte first. \<^verbatim>\<open>save_data\<close>, which a build
  with \<^verbatim>\<open>F_STORAGE\<close> calls, is not part of the repository: its calls are recorded. What the locals
  \<^verbatim>\<open>from_ip\<close> and \<^verbatim>\<open>from_port\<close> of \<^verbatim>\<open>TFTP_run\<close> hold before anything is received is a parameter. An access
  outside an array and a wait that never ends are \<open>None\<close>.
\<close>

section \<open>Constants\<close>

abbreviation (input) TFTP_RRQ :: u16 where "TFTP_RRQ \<equiv> 1"
abbreviation (input) TFTP_WRQ :: u16 where "TFTP_WRQ \<equiv> 2"
abbreviation (input) TFTP_DATA :: u16 where "TFTP_DATA \<equiv> 3"
abbreviation (input) TFTP_ACK :: u16 where "TFTP_ACK \<equiv> 4"
abbreviation (input) TFTP_ERROR :: u16 where "TFTP_ERROR \<equiv> 5"
abbreviation (input) TFTP_OACK :: u16 where "TFTP_OACK \<equiv> 6"
abbreviation (input) STATE_NONE :: u32 where "STATE_NONE \<equiv> 0"
abbreviation (input) STATE_RRQ :: u32 where "STATE_RRQ \<equiv> 1"
abbreviation (input) STATE_WRQ :: u32 where "STATE_WRQ \<equiv> 2"
abbreviation (input) STATE_DATA :: u32 where "STATE_DATA \<equiv> 3"
abbreviation (input) STATE_ACK :: u32 where "STATE_ACK \<equiv> 4"
abbreviation (input) STATE_OACK :: u32 where "STATE_OACK \<equiv> 5"
abbreviation (input) TFTP_PROGRESS :: u8 where "TFTP_PROGRESS \<equiv> 0"
abbreviation (input) TFTP_FAIL :: u8 where "TFTP_FAIL \<equiv> 1"
abbreviation (input) TFTP_SUCCESS :: u8 where "TFTP_SUCCESS \<equiv> 2"
abbreviation (input) TFTP_SERVER_PORT :: u16 where "TFTP_SERVER_PORT \<equiv> 69"
abbreviation (input) TFTP_BLK_SIZE :: u32 where "TFTP_BLK_SIZE \<equiv> 512"
abbreviation (input) MAX_MTU_SIZE :: u32 where "MAX_MTU_SIZE \<equiv> 1514"
abbreviation (input) FILE_NAME_SIZE :: nat where "FILE_NAME_SIZE \<equiv> 20"

definition TRANS_BINARY :: "u8 list" where "TRANS_BINARY = map byte_of_char ''octet''"

section \<open>Memory\<close>

definition half_bytes :: "u16 \<Rightarrow> u8 list" where "half_bytes v = [ucast v, ucast (drop_bit 8 v)]"

definition half_at :: "nat \<Rightarrow> u8 list \<Rightarrow> u16 option" where
  "half_at p msg = (if p + 1 < length msg then Some (push_bit 8 (ucast (msg ! (p + 1))) + ucast (msg ! p)) else None)"

definition put_half :: "nat \<Rightarrow> u16 \<Rightarrow> u8 list \<Rightarrow> u8 list" where
  "put_half p v msg = msg[p := ucast v, p + 1 := ucast (drop_bit 8 v)]"

definition word_mem :: "u32 \<Rightarrow> u8 list" where
  "word_mem w = [ucast w, ucast (drop_bit 8 w), ucast (drop_bit 16 w), ucast (drop_bit 24 w)]"

definition mem_word :: "u8 list \<Rightarrow> u32" where
  "mem_word bs = ucast (bs ! 0) OR push_bit 8 (ucast (bs ! 1)) OR push_bit 16 (ucast (bs ! 2)) OR push_bit 24 (ucast (bs ! 3))"

section \<open>State\<close>

record TFTP_OPTION =
  opt_code :: "u8 list"
  opt_value :: "u8 list"

definition default_tftp_opt :: TFTP_OPTION where
  "default_tftp_opt = \<lparr>opt_code = map byte_of_char ''timeout'', opt_value = map byte_of_char ''5''\<rparr>"

record 'w tftp =
  tftp_net :: "'w net"
  g_tftp_socket :: int
  g_filename :: "u8 list"
  g_server_ip :: u32
  g_server_port :: u16
  g_local_port :: u16
  g_tftp_state :: u32
  g_block_num :: u16
  g_timeout :: u32
  g_resend_flag :: u32
  tftp_time_cnt :: u32
  tftp_retry_cnt :: u32
  g_tftp_rcv_buf :: "u8 list option"
  g_progress_state :: u8
  tftp_saved :: "(u16 \<times> u8 list) list"

definition tftp_start :: "'w net \<Rightarrow> 'w tftp" where
  "tftp_start n = \<lparr>tftp_net = n, g_tftp_socket = - 1, g_filename = replicate FILE_NAME_SIZE 0, g_server_ip = 0,
     g_server_port = 0, g_local_port = 0, g_tftp_state = STATE_NONE, g_block_num = 0, g_timeout = 5, g_resend_flag = 0,
     tftp_time_cnt = 0, tftp_retry_cnt = 0, g_tftp_rcv_buf = None, g_progress_state = TFTP_PROGRESS, tftp_saved = []\<rparr>"

definition set_filename :: "u8 list \<Rightarrow> 'w tftp \<Rightarrow> 'w tftp option" where
  "set_filename file d =
     (if FILE_NAME_SIZE < length file then None else Some (d\<lparr>g_filename := file @ drop (length file) (g_filename d)\<rparr>))"

definition init_tftp :: "'w tftp \<Rightarrow> 'w tftp" where
  "init_tftp d = d\<lparr>g_filename := (g_filename d)[0 := 0], g_server_ip := 0, g_server_port := 0, g_local_port := 0,
     g_tftp_state := STATE_NONE, g_block_num := 0, g_resend_flag := 0, tftp_retry_cnt := 0, tftp_time_cnt := 0,
     g_progress_state := TFTP_PROGRESS\<rparr>"

definition tftp_cancel_timeout :: "'w tftp \<Rightarrow> 'w tftp" where
  "tftp_cancel_timeout d =
     (if g_resend_flag d \<noteq> 0 then d\<lparr>g_resend_flag := 0, tftp_retry_cnt := 0, tftp_time_cnt := 0\<rparr> else d)"

definition tftp_reg_timeout :: "'w tftp \<Rightarrow> 'w tftp" where
  "tftp_reg_timeout d =
     (if g_resend_flag d = 0 then d\<lparr>g_resend_flag := 1, tftp_retry_cnt := 0, tftp_time_cnt := 0\<rparr> else d)"

definition tftp_timeout_handler :: "'w tftp \<Rightarrow> 'w tftp" where
  "tftp_timeout_handler d = (if g_resend_flag d \<noteq> 0 then d\<lparr>tftp_time_cnt := tftp_time_cnt d + 1\<rparr> else d)"

text \<open>A call of \<^verbatim>\<open>save_data\<close> with the data of a packet of \<open>len\<close> bytes.\<close>

definition save_data :: "u8 list \<Rightarrow> u32 \<Rightarrow> u16 \<Rightarrow> 'w tftp \<Rightarrow> 'w tftp" where
  "save_data msg len block d = d\<lparr>tftp_saved := tftp_saved d @ [(block, take (unat (len - 4)) (drop 4 msg))]\<rparr>"

section \<open>The socket\<close>

partial_function (option) udp_wait :: "'w wizchip \<Rightarrow> u8 \<Rightarrow> u8 list \<Rightarrow> 'w net \<Rightarrow> 'w net option" where
  "udp_wait E sd arg s = do {
     (_, arg, s) \<leftarrow> getsockopt E sd SO_STATUS arg s;
     if arg = [SOCK_UDP] then Some s else udp_wait E sd arg s
   }"

definition open_tftp_socket :: "'w wizchip \<Rightarrow> u8 \<Rightarrow> 'w tftp \<Rightarrow> (int \<times> 'w tftp) option" where
  "open_tftp_socket E sock d = do {
     (r, s) \<leftarrow> socket E sock Sn_MR_UDP 51000 SF_IO_NONBLOCK (tftp_net d);
     if (word_of_int r :: u8) \<noteq> sock then Some (- 1, d\<lparr>tftp_net := s\<rparr>)
     else do { s \<leftarrow> udp_wait E sock [0] s; Some (uint sock, d\<lparr>tftp_net := s\<rparr>) }
   }"

definition send_udp_packet :: "'w wizchip \<Rightarrow> int \<Rightarrow> u8 list \<Rightarrow> u32 \<Rightarrow> u32 \<Rightarrow> u16 \<Rightarrow> 'w tftp \<Rightarrow> (int \<times> 'w tftp) option" where
  "send_udp_packet E sock packet len ip port d = do {
     (n, s) \<leftarrow> sendto_W6x00 E (word_of_int sock) packet (ucast len) (word_mem (htonl ip)) port 4 (tftp_net d);
     Some (if word_of_int n \<noteq> len then - 1 else n, d\<lparr>tftp_net := s\<rparr>)
   }"

definition recv_udp_packet ::
    "'w wizchip \<Rightarrow> int \<Rightarrow> u32 \<Rightarrow> u32 \<Rightarrow> u16 \<Rightarrow> 'w tftp \<Rightarrow> (int \<times> u32 \<times> u16 \<times> 'w tftp) option" where
  "recv_udp_packet E sock len ip port d = do {
     let sn = word_of_int sock;
     (ret, arg, s) \<leftarrow> getsockopt E sn SO_STATUS [0] (tftp_net d);
     let d = d\<lparr>tftp_net := s\<rparr>;
     if ret \<noteq> SOCK_OK then Some (- 1, ip, port, d)
     else if arg = [SOCK_UDP] then do {
       (ret, arg, s) \<leftarrow> getsockopt E sn SO_RECVBUF [0, 0] (tftp_net d);
       let d = d\<lparr>tftp_net := s\<rparr>;
       if ret \<noteq> SOCK_OK then Some (- 1, ip, port, d)
       else do {
         recv_len \<leftarrow> arg16 arg;
         if recv_len \<noteq> 0 then do {
           buf \<leftarrow> g_tftp_rcv_buf d;
           (n, out, s) \<leftarrow> recvfrom_W6x00 E sn (ucast len)
             \<lparr>rx_buf = buf, rx_addr = Some (word_mem ip), rx_port = Some port, rx_addrlen = 0\<rparr> (tftp_net d);
           a \<leftarrow> rx_addr out;
           p \<leftarrow> rx_port out;
           Some (uint (word_of_int n :: u16), ntohl (mem_word a), p, d\<lparr>tftp_net := s, g_tftp_rcv_buf := Some (rx_buf out)\<rparr>)
         } else Some (- 1, ip, port, d)
       }
     } else Some (- 1, ip, port, d)
   }"

section \<open>Sending\<close>

definition rrq_packet :: "u8 list \<Rightarrow> u8 list \<Rightarrow> TFTP_OPTION list \<Rightarrow> u8 list" where
  "rrq_packet filename mode opts = half_bytes (htons TFTP_RRQ) @ filename @ [0] @ mode @ [0] @
     concat (map (\<lambda>opt. opt_code opt @ [0] @ opt_value opt @ [0]) opts)"

definition send_tftp_rrq :: "'w wizchip \<Rightarrow> u8 list \<Rightarrow> u8 list \<Rightarrow> TFTP_OPTION list \<Rightarrow> 'w tftp \<Rightarrow> 'w tftp option" where
  "send_tftp_rrq E filename mode opts d =
     (let pkt = rrq_packet filename mode opts in
      if unat MAX_MTU_SIZE < length pkt then None
      else do {
        (_, d) \<leftarrow> send_udp_packet E (g_tftp_socket d) pkt (word_of_nat (length pkt)) (g_server_ip d) TFTP_SERVER_PORT d;
        d \<leftarrow> set_filename (filename @ [0]) (d\<lparr>g_tftp_state := STATE_RRQ\<rparr>);
        Some (tftp_reg_timeout d)
      })"

definition send_tftp_ack :: "'w wizchip \<Rightarrow> u16 \<Rightarrow> 'w tftp \<Rightarrow> 'w tftp option" where
  "send_tftp_ack E block d = do {
     (_, d) \<leftarrow> send_udp_packet E (g_tftp_socket d) (half_bytes (htons TFTP_ACK) @ half_bytes (htons block)) 4
       (g_server_ip d) (g_server_port d) d;
     Some (tftp_reg_timeout d)
   }"

section \<open>Receiving\<close>

text \<open>Two words at the start of a packet are turned to the order of the processor in place.\<close>

definition host_order :: "nat \<Rightarrow> u8 list \<Rightarrow> (u16 \<times> u8 list) option" where
  "host_order p msg = do { v \<leftarrow> half_at p msg; let v = ucast (ntohs v); Some (v, put_half p v msg) }"

definition next_block :: "u8 list \<Rightarrow> u32 \<Rightarrow> u16 \<Rightarrow> 'w tftp \<Rightarrow> 'w tftp" where
  "next_block msg len block d = tftp_cancel_timeout (save_data msg len block (d\<lparr>g_block_num := block\<rparr>))"

definition last_block :: "u32 \<Rightarrow> 'w tftp \<Rightarrow> 'w tftp" where
  "last_block len d = (if len - 4 < TFTP_BLK_SIZE then (init_tftp d)\<lparr>g_progress_state := TFTP_SUCCESS\<rparr> else d)"

definition recv_tftp_data :: "'w wizchip \<Rightarrow> u8 list \<Rightarrow> u32 \<Rightarrow> 'w tftp \<Rightarrow> (u8 list \<times> 'w tftp) option" where
  "recv_tftp_data E msg len d = do {
     (_, msg) \<leftarrow> host_order 0 msg;
     (block, msg) \<leftarrow> host_order 2 msg;
     if g_tftp_state d = STATE_RRQ \<or> g_tftp_state d = STATE_OACK then do {
       let d = (if block = 1 then next_block msg len block (d\<lparr>g_tftp_state := STATE_DATA\<rparr>) else d);
       d \<leftarrow> send_tftp_ack E block d;
       Some (msg, last_block len d)
     }
     else if g_tftp_state d = STATE_DATA then do {
       let d = (if uint block = uint (g_block_num d) + 1 then next_block msg len block d else d);
       d \<leftarrow> send_tftp_ack E block d;
       Some (msg, last_block len d)
     }
     else Some (msg, d)
   }"

definition recv_tftp_oack :: "'w wizchip \<Rightarrow> 'w tftp \<Rightarrow> 'w tftp option" where
  "recv_tftp_oack E d =
     (if g_tftp_state d = STATE_RRQ then send_tftp_ack E 0 (tftp_cancel_timeout (d\<lparr>g_tftp_state := STATE_OACK\<rparr>))
      else if g_tftp_state d = STATE_WRQ then Some (tftp_cancel_timeout (d\<lparr>g_tftp_state := STATE_ACK\<rparr>))
      else Some d)"

definition recv_tftp_error :: "u8 list \<Rightarrow> 'w tftp \<Rightarrow> (u8 list \<times> 'w tftp) option" where
  "recv_tftp_error msg d = do {
     (_, msg) \<leftarrow> host_order 0 msg;
     (_, msg) \<leftarrow> host_order 2 msg;
     Some (msg, (init_tftp d)\<lparr>g_progress_state := TFTP_FAIL\<rparr>)
   }"

text \<open>Requests and acknowledgements of a client are ignored, whatever the state is.\<close>

definition recv_tftp_packet :: "'w wizchip \<Rightarrow> u8 list \<Rightarrow> u32 \<Rightarrow> u32 \<Rightarrow> u16 \<Rightarrow> 'w tftp \<Rightarrow> (u8 list \<times> 'w tftp) option" where
  "recv_tftp_packet E packet len from_ip from_port d =
     (if from_ip \<noteq> g_server_ip d then Some (packet, d)
      else do {
        op \<leftarrow> half_at 0 packet;
        let opcode = (ucast (ntohs op) :: u16);
        let d = (if g_tftp_state d = STATE_WRQ \<or> g_tftp_state d = STATE_RRQ then d\<lparr>g_server_port := from_port\<rparr> else d);
        if opcode = TFTP_DATA then recv_tftp_data E packet len d
        else if opcode = TFTP_OACK then do { d \<leftarrow> recv_tftp_oack E d; Some (packet, d) }
        else if opcode = TFTP_ERROR then recv_tftp_error packet d
        else Some (packet, d)
      })"

section \<open>The client\<close>

definition TFTP_init :: "'w wizchip \<Rightarrow> u8 \<Rightarrow> u8 list \<Rightarrow> 'w tftp \<Rightarrow> 'w tftp option" where
  "TFTP_init E sock buf d = do {
     (sd, d) \<leftarrow> open_tftp_socket E sock (init_tftp d);
     Some (d\<lparr>g_tftp_socket := sd, g_tftp_rcv_buf := Some buf\<rparr>)
   }"

definition TFTP_exit :: "'w wizchip \<Rightarrow> 'w tftp \<Rightarrow> 'w tftp option" where
  "TFTP_exit E d = do {
     (_, s) \<leftarrow> close E (word_of_int (g_tftp_socket d)) (tftp_net d);
     Some ((init_tftp d)\<lparr>tftp_net := s, g_tftp_socket := - 1, g_tftp_rcv_buf := None\<rparr>)
   }"

text \<open>The end of a timeout: what was sent last is sent again, and the fifth time the transfer fails.\<close>

definition tftp_retry :: "'w wizchip \<Rightarrow> 'w tftp \<Rightarrow> 'w tftp option" where
  "tftp_retry E d = do {
     d \<leftarrow> (if g_tftp_state d = STATE_RRQ then
              if 0 \<in> set (g_filename d) then
                send_tftp_rrq E (takeWhile (\<lambda>c. c \<noteq> 0) (g_filename d)) TRANS_BINARY [default_tftp_opt] d
              else None
            else if g_tftp_state d = STATE_OACK \<or> g_tftp_state d = STATE_DATA then send_tftp_ack E (g_block_num d) d
            else Some d);
     let d = d\<lparr>tftp_time_cnt := 0, tftp_retry_cnt := tftp_retry_cnt d + 1\<rparr>;
     Some (if 5 \<le> tftp_retry_cnt d then (init_tftp d)\<lparr>g_progress_state := TFTP_FAIL\<rparr> else d)
   }"

definition TFTP_run :: "'w wizchip \<Rightarrow> u32 \<Rightarrow> u16 \<Rightarrow> 'w tftp \<Rightarrow> (u8 \<times> 'w tftp) option" where
  "TFTP_run E ip port d = do {
     d \<leftarrow> (if g_resend_flag d \<noteq> 0 \<and> g_timeout d \<le> tftp_time_cnt d then tftp_retry E d else Some d);
     (n, from_ip, from_port, d) \<leftarrow> recv_udp_packet E (g_tftp_socket d) MAX_MTU_SIZE ip port d;
     let len = (word_of_int n :: u16);
     d \<leftarrow> (case g_tftp_rcv_buf d of
             None \<Rightarrow> if from_ip \<noteq> g_server_ip d then Some d else None
           | Some buf \<Rightarrow> do {
               (buf, d) \<leftarrow> recv_tftp_packet E buf (ucast len) from_ip from_port d;
               Some (d\<lparr>g_tftp_rcv_buf := Some buf\<rparr>)
             });
     Some (g_progress_state d, d)
   }"

definition TFTP_read_request :: "'w wizchip \<Rightarrow> u32 \<Rightarrow> u8 list \<Rightarrow> 'w tftp \<Rightarrow> 'w tftp option" where
  "TFTP_read_request E server_ip filename d =
     send_tftp_rrq E filename TRANS_BINARY [default_tftp_opt] (d\<lparr>g_server_ip := server_ip, g_progress_state := TFTP_PROGRESS\<rparr>)"

section \<open>What is kept\<close>

text \<open>The blocks stored, the state and the number of the last block.\<close>

definition progress :: "'w tftp \<Rightarrow> (u16 \<times> u8 list) list \<times> u32 \<times> u16" where
  "progress d = (tftp_saved d, g_tftp_state d, g_block_num d)"

lemma progress_updates [simp]:
  "progress (d\<lparr>tftp_net := n\<rparr>) = progress d" "progress (d\<lparr>g_tftp_socket := i\<rparr>) = progress d"
  "progress (d\<lparr>g_filename := f\<rparr>) = progress d" "progress (d\<lparr>g_server_ip := a\<rparr>) = progress d"
  "progress (d\<lparr>g_server_port := p\<rparr>) = progress d" "progress (d\<lparr>g_tftp_rcv_buf := b\<rparr>) = progress d"
  "progress (d\<lparr>g_progress_state := v\<rparr>) = progress d" "progress (d\<lparr>tftp_time_cnt := t\<rparr>) = progress d"
  "progress (d\<lparr>tftp_retry_cnt := t\<rparr>) = progress d" "progress (tftp_cancel_timeout d) = progress d"
  "progress (tftp_reg_timeout d) = progress d" "progress (tftp_timeout_handler d) = progress d"
  "progress (init_tftp d) = (tftp_saved d, 0, 0)"
  by (simp_all add: progress_def tftp_cancel_timeout_def tftp_reg_timeout_def tftp_timeout_handler_def init_tftp_def)

named_theorems progress_kept

lemma send_udp_progress [progress_kept]: "send_udp_packet E s p l ip port d = Some (n, d') \<Longrightarrow> progress d' = progress d"
  by (auto simp: send_udp_packet_def bind_eq_Some_conv)

lemma recv_udp_progress [progress_kept]: "recv_udp_packet E s l ip port d = Some (n, a, p, d') \<Longrightarrow> progress d' = progress d"
  by (auto simp: recv_udp_packet_def bind_eq_Some_conv Let_def split: if_splits)

lemma send_ack_progress [progress_kept]: "send_tftp_ack E b d = Some d' \<Longrightarrow> progress d' = progress d"
  by (auto simp: send_tftp_ack_def bind_eq_Some_conv dest: progress_kept)

lemma send_rrq_progress [progress_kept]:
  "send_tftp_rrq E f m opts d = Some d' \<Longrightarrow> progress d' = (tftp_saved d, STATE_RRQ, g_block_num d)"
proof -
  assume "send_tftp_rrq E f m opts d = Some d'"
  then obtain n x where x: "send_udp_packet E (g_tftp_socket d) (rrq_packet f m opts) (word_of_nat (length (rrq_packet f m opts)))
      (g_server_ip d) 69 d = Some (n, x)" and d': "progress d' = progress (x\<lparr>g_tftp_state := 1\<rparr>)"
    by (auto simp: send_tftp_rrq_def Let_def bind_eq_Some_conv set_filename_def split: if_splits)
  have "progress x = progress d" by (rule send_udp_progress [OF x])
  then show ?thesis using d' by (simp add: progress_def)
qed

section \<open>Every block once\<close>

text \<open>
  What has been stored since a request: the blocks 1 to \<open>k\<close>, none while the first block is still awaited, and
  the number of the last one is the one that is kept.
\<close>

definition blocks_inv :: "(u16 \<times> u8 list) list \<Rightarrow> (u16 \<times> u8 list) list \<times> u32 \<times> u16 \<Rightarrow> bool" where
  "blocks_inv s0 v = (case v of (saved, st, n) \<Rightarrow>
     \<exists>bs k. saved = s0 @ bs \<and> map fst bs = map word_of_nat [1 ..< Suc k] \<and> k < 65536 \<and>
       (st = STATE_RRQ \<or> st = STATE_OACK \<longrightarrow> k = 0) \<and> (st = STATE_DATA \<longrightarrow> 0 < k \<and> n = word_of_nat k))"

lemma blocks_inv_state: "blocks_inv s0 (s, st, n) \<Longrightarrow> st' \<notin> {1, 3, 5} \<or> st = 1 \<and> st' = 5 \<Longrightarrow> blocks_inv s0 (s, st', n')"
  unfolding blocks_inv_def prod.case by fastforce

lemma reset_inv: "blocks_inv s0 (progress d) \<Longrightarrow> blocks_inv s0 (tftp_saved d, 0, 0)"
  unfolding progress_def by (erule blocks_inv_state) simp

lemma next_block_progress [simp]:
  "progress (next_block msg len b d) = (tftp_saved d @ [(b, take (unat (len - 4)) (drop 4 msg))], g_tftp_state d, b)"
  by (simp add: next_block_def save_data_def progress_def tftp_cancel_timeout_def)

lemma first_block_inv:
  assumes "blocks_inv s0 (progress d)" "g_tftp_state d = 1 \<or> g_tftp_state d = 5"
  shows "blocks_inv s0 (tftp_saved d @ [(1, x)], 3, 1)"
proof -
  have "tftp_saved d = s0" using assms by (auto simp: blocks_inv_def progress_def)
  then show ?thesis unfolding blocks_inv_def prod.case by (intro exI [of _ "[(1, x)]"] exI [of _ 1]) simp
qed

lemma uint_block: "n < 65536 \<Longrightarrow> uint (word_of_nat n :: u16) = int n"
  by (simp add: uint_nat unat_of_nat)

lemma next_block_inv:
  assumes "blocks_inv s0 (progress d)" "g_tftp_state d = 3" "uint b = uint (g_block_num d) + 1"
  shows "blocks_inv s0 (tftp_saved d @ [(b, x)], 3, b)"
proof -
  obtain bs k where bs: "tftp_saved d = s0 @ bs" "map fst bs = map word_of_nat [1 ..< Suc k]" "k < 65536"
      "g_block_num d = word_of_nat k"
    using assms(1,2) unfolding blocks_inv_def progress_def prod.case by blast
  then have u: "uint b = int (Suc k)" using assms(3) by (simp add: uint_block)
  then have b: "b = word_of_nat (Suc k)" by (metis of_int_of_nat_eq word_of_int_uint)
  have k: "Suc k < 65536" using u uint_lt2p [of b] by simp
  have "map fst (bs @ [(b, x)]) = map word_of_nat [1 ..< Suc (Suc k)]" by (simp only: map_append bs(2) b upt_Suc) simp
  with bs(1) k b show ?thesis
    unfolding blocks_inv_def prod.case by (intro exI [of _ "bs @ [(b, x)]"] exI [of _ "Suc k"] conjI impI) simp_all
qed

lemma last_block_inv: "blocks_inv s0 (progress d) \<Longrightarrow> blocks_inv s0 (progress (last_block len d))"
  by (simp add: last_block_def reset_inv)

lemma ack_last_inv:
  "send_tftp_ack E b x = Some y \<Longrightarrow> blocks_inv s0 (progress x) \<Longrightarrow> blocks_inv s0 (progress (last_block len y))"
  by (metis last_block_inv send_ack_progress)

lemma recv_data_inv:
  assumes "recv_tftp_data E msg len d = Some (msg', d')" "blocks_inv s0 (progress d)"
  shows "blocks_inv s0 (progress d')"
proof -
  obtain m1 block m2 where r: "(if g_tftp_state d = 1 \<or> g_tftp_state d = 5 then do {
       d \<leftarrow> send_tftp_ack E block (if block = 1 then next_block m2 len block (d\<lparr>g_tftp_state := 3\<rparr>) else d);
       Some (m2, last_block len d) }
     else if g_tftp_state d = 3 then do {
       d \<leftarrow> send_tftp_ack E block (if uint block = uint (g_block_num d) + 1 then next_block m2 len block d else d);
       Some (m2, last_block len d) }
     else Some (m2, d)) = Some (msg', d')"
    using assms(1) unfolding recv_tftp_data_def Let_def by (auto simp: bind_eq_Some_conv)
  have first: "blocks_inv s0 (progress (next_block m2 len 1 (d\<lparr>g_tftp_state := 3\<rparr>)))"
    if "g_tftp_state d = 1 \<or> g_tftp_state d = 5"
    using first_block_inv [OF assms(2) that] by simp
  have more: "blocks_inv s0 (progress (next_block m2 len block d))" if "g_tftp_state d = 3" "uint block = uint (g_block_num d) + 1"
    using next_block_inv [OF assms(2) that] that(1) by simp
  show ?thesis
    using r first more assms(2) by (auto simp: bind_eq_Some_conv split: if_splits elim: ack_last_inv)
qed

lemma recv_packet_inv:
  assumes "recv_tftp_packet E p len ip port d = Some (p', d')" "blocks_inv s0 (progress d)"
  shows "blocks_inv s0 (progress d')"
proof -
  have oack: "blocks_inv s0 (progress y)" if "recv_tftp_oack E x = Some y" "progress x = progress d" for x y
  proof -
    have "progress x = (tftp_saved x, g_tftp_state x, g_block_num x)" by (simp add: progress_def)
    then have i: "blocks_inv s0 (tftp_saved x, st, g_block_num x)" if "st \<notin> {1, 3, 5} \<or> g_tftp_state x = 1 \<and> st = 5" for st
      using assms(2) blocks_inv_state that \<open>progress x = progress d\<close> by metis
    show ?thesis
      using that i [of 5] i [of 4] assms(2)
      by (auto simp: recv_tftp_oack_def split: if_splits dest!: send_ack_progress)
         (simp_all add: progress_def tftp_cancel_timeout_def split: if_splits)
  qed
  have err: "blocks_inv s0 (progress y)" if "recv_tftp_error p x = Some (q, y)" "progress x = progress d" for x y q
    using that assms(2) reset_inv [of s0 x] by (auto simp: recv_tftp_error_def bind_eq_Some_conv)
  show ?thesis
    using assms
    by (auto simp: recv_tftp_packet_def bind_eq_Some_conv Let_def split: if_splits intro: recv_data_inv oack err)
qed

lemma blocks_inv_kept:
  "progress d' = progress d \<Longrightarrow> blocks_inv s0 (progress d) \<Longrightarrow> blocks_inv s0 (progress d')"
  "progress d' = (tftp_saved d, 1, g_block_num d) \<Longrightarrow> g_tftp_state d = 1 \<Longrightarrow> blocks_inv s0 (progress d) \<Longrightarrow> blocks_inv s0 (progress d')"
  "progress d' = (tftp_saved d, 0, 0) \<Longrightarrow> blocks_inv s0 (progress d) \<Longrightarrow> blocks_inv s0 (progress d')"
  by (simp_all add: reset_inv) (simp add: progress_def)

lemma retry_inv:
  assumes "tftp_retry E d = Some d'" "blocks_inv s0 (progress d)"
  shows "blocks_inv s0 (progress d')"
proof -
  obtain x where x: "(if g_tftp_state d = 1 then
              if 0 \<in> set (g_filename d) then
                send_tftp_rrq E (takeWhile (\<lambda>c. c \<noteq> 0) (g_filename d)) TRANS_BINARY [default_tftp_opt] d
              else None
            else if g_tftp_state d = 5 \<or> g_tftp_state d = 3 then send_tftp_ack E (g_block_num d) d
            else Some d) = Some x" and d': "progress d' = progress x \<or> progress d' = (tftp_saved x, 0, 0)"
    using assms(1) unfolding tftp_retry_def Let_def by (auto simp: bind_eq_Some_conv split: if_splits)
  have "blocks_inv s0 (progress x)"
    using x assms(2) blocks_inv_kept(1,2) send_rrq_progress send_ack_progress by (fastforce split: if_splits)
  then show ?thesis using d' blocks_inv_kept(3) by (metis blocks_inv_kept(1))
qed

lemma run_inv:
  assumes "TFTP_run E ip port d = Some (r, d')" "blocks_inv s0 (progress d)"
  shows "blocks_inv s0 (progress d')"
proof -
  obtain x n a q y where x: "(if g_resend_flag d \<noteq> 0 \<and> g_timeout d \<le> tftp_time_cnt d then tftp_retry E d else Some d) = Some x"
      and y: "recv_udp_packet E (g_tftp_socket x) MAX_MTU_SIZE ip port x = Some (n, a, q, y)"
      and z: "(case g_tftp_rcv_buf y of
             None \<Rightarrow> if a \<noteq> g_server_ip y then Some y else None
           | Some buf \<Rightarrow> do {
               (buf, d) \<leftarrow> recv_tftp_packet E buf (ucast (word_of_int n :: u16)) a q y;
               Some (d\<lparr>g_tftp_rcv_buf := Some buf\<rparr>)
             }) = Some d'"
    using assms(1) unfolding TFTP_run_def Let_def by (auto simp: bind_eq_Some_conv)
  have "blocks_inv s0 (progress x)" using x assms(2) retry_inv by (auto split: if_splits)
  then have "blocks_inv s0 (progress y)" using recv_udp_progress [OF y] by simp
  then show ?thesis using z by (auto simp: bind_eq_Some_conv split: option.splits if_splits intro: recv_packet_inv)
qed

lemma request_inv: "TFTP_read_request E ip f d = Some d' \<Longrightarrow> blocks_inv (tftp_saved d) (progress d')"
  unfolding TFTP_read_request_def by (drule send_rrq_progress) (simp add: blocks_inv_def)

lemma init_inv:
  assumes "TFTP_init E sock buf d = Some d'" "blocks_inv s0 (progress d)"
  shows "blocks_inv s0 (progress d')"
proof -
  have "progress d' = (tftp_saved d, 0, 0)"
    using assms(1) by (auto simp: TFTP_init_def open_tftp_socket_def bind_eq_Some_conv split: if_splits)
  then show ?thesis using assms(2) by (rule blocks_inv_kept(3))
qed

lemma exit_inv:
  assumes "TFTP_exit E d = Some d'" "blocks_inv s0 (progress d)"
  shows "blocks_inv s0 (progress d')"
proof -
  have "progress d' = (tftp_saved d, 0, 0)" using assms(1) by (auto simp: TFTP_exit_def bind_eq_Some_conv)
  then show ?thesis using assms(2) by (rule blocks_inv_kept(3))
qed

text \<open>
  What may happen after a request: all other calls of the program and packets of any content, in any order, with
  the timer and other users of the sockets between them.
\<close>

inductive tftp_steps :: "'w wizchip \<Rightarrow> 'w tftp \<Rightarrow> 'w tftp \<Rightarrow> bool" for E :: "'w wizchip" and d0 :: "'w tftp" where
  tftp_begin: "tftp_steps E d0 d0"
| tftp_init: "tftp_steps E d0 d \<Longrightarrow> TFTP_init E sock buf d = Some d' \<Longrightarrow> tftp_steps E d0 d'"
| tftp_exit: "tftp_steps E d0 d \<Longrightarrow> TFTP_exit E d = Some d' \<Longrightarrow> tftp_steps E d0 d'"
| tftp_run: "tftp_steps E d0 d \<Longrightarrow> TFTP_run E ip port d = Some (r, d') \<Longrightarrow> tftp_steps E d0 d'"
| tftp_packet: "tftp_steps E d0 d \<Longrightarrow> recv_tftp_packet E p len ip port d = Some (p', d') \<Longrightarrow> tftp_steps E d0 d'"
| tftp_tick: "tftp_steps E d0 d \<Longrightarrow> tftp_steps E d0 (tftp_timeout_handler d)"
| tftp_other: "tftp_steps E d0 d \<Longrightarrow> tftp_steps E d0 (d\<lparr>tftp_net := n\<rparr>)"

text \<open>
  C36. Whatever arrives after a request, and whatever the program calls before the next one, the blocks handed to
  the storage since the request are the blocks 1 to \<open>k\<close> in this order, each once, for some \<open>k\<close> below 65536: none as
  long as the first block is awaited, and while data is awaited at least one, with \<open>k\<close> as the number that the
  client keeps of the last block.
\<close>

theorem tftp_blocks_in_order:
  assumes "TFTP_read_request E ip f d = Some d0" "tftp_steps E d0 d'"
  shows "\<exists>bs k. tftp_saved d' = tftp_saved d @ bs \<and> map fst bs = map word_of_nat [1 ..< Suc k] \<and> k < 65536 \<and>
    (g_tftp_state d' = STATE_RRQ \<or> g_tftp_state d' = STATE_OACK \<longrightarrow> k = 0) \<and>
    (g_tftp_state d' = STATE_DATA \<longrightarrow> 0 < k \<and> g_block_num d' = word_of_nat k)"
proof -
  have "blocks_inv (tftp_saved d) (progress d')"
    using assms(2)
  proof (induction rule: tftp_steps.induct)
    case tftp_begin
    show ?case by (rule request_inv [OF assms(1)])
  qed (auto intro: init_inv exit_inv run_inv recv_packet_inv)
  then show ?thesis by (simp add: progress_def blocks_inv_def)
qed

section \<open>A whole file\<close>

text \<open>The packet of a block, and a client with a socket on a chip where sending succeeds.\<close>

definition data_packet :: "u16 \<Rightarrow> u8 list \<Rightarrow> u8 list" where
  "data_packet block data = half_bytes (htons TFTP_DATA) @ half_bytes (htons block) @ data"

definition tftp_ready :: "u8 \<Rightarrow> chip_mem tftp \<Rightarrow> bool" where
  "tftp_ready sn d \<longleftrightarrow> g_tftp_socket d = uint sn \<and> unanswered sn (world (tftp_net d))"

lemma send_udp_ready:
  assumes "tftp_ready sn d" "sn < 8" "unanswered_contract react sn" "port \<noteq> 0" "length p \<le> 548"
  shows "\<exists>n m. send_udp_packet (ram_chip react) (g_tftp_socket d) p (word_of_nat (length p)) ip port d =
    Some (n, d\<lparr>tftp_net := (tftp_net d)\<lparr>world := m\<rparr>\<rparr>) \<and> unanswered sn m"
proof -
  have l: "(ucast (word_of_nat (length p) :: u32) :: u16) = word_of_nat (length p)"
    by (simp add: unsigned_of_nat word_of_nat_eq_iff)
  have n: "unat (word_of_nat (length p) :: u16) = length p" using assms(5) by (simp add: unat_of_nat)
  then have n': "(word_of_nat (length p) :: u16) \<le> 548" using assms(5) by (simp add: word_le_nat_alt)
  have "\<exists>(n :: u16) m. sendto_W6x00 (ram_chip react) sn p (word_of_nat (length p)) (word_mem (htonl ip)) port 4 (tftp_net d) =
      Some (uint n, (tftp_net d)\<lparr>world := m\<rparr>) \<and> unanswered sn m"
    by (rule sendto_unanswered [OF assms(2,3) _ _ assms(4) n']) (use assms(1) n in \<open>simp_all add: tftp_ready_def word_mem_def\<close>)
  then obtain n m where "sendto_W6x00 (ram_chip react) sn p (word_of_nat (length p)) (word_mem (htonl ip)) port 4 (tftp_net d) =
      Some (uint (n :: u16), (tftp_net d)\<lparr>world := m\<rparr>)" "unanswered sn m" by blast
  then show ?thesis using assms(1) unfolding send_udp_packet_def tftp_ready_def by (auto simp: l)
qed

lemma timeout_fields [simp]:
  "tftp_net (tftp_cancel_timeout d) = tftp_net d" "tftp_net (tftp_reg_timeout d) = tftp_net d"
  "g_tftp_socket (tftp_cancel_timeout d) = g_tftp_socket d" "g_tftp_socket (tftp_reg_timeout d) = g_tftp_socket d"
  "g_server_ip (tftp_cancel_timeout d) = g_server_ip d" "g_server_ip (tftp_reg_timeout d) = g_server_ip d"
  "g_server_port (tftp_cancel_timeout d) = g_server_port d" "g_server_port (tftp_reg_timeout d) = g_server_port d"
  "g_tftp_state (tftp_cancel_timeout d) = g_tftp_state d" "g_tftp_state (tftp_reg_timeout d) = g_tftp_state d"
  "g_block_num (tftp_cancel_timeout d) = g_block_num d" "g_block_num (tftp_reg_timeout d) = g_block_num d"
  "tftp_saved (tftp_cancel_timeout d) = tftp_saved d" "tftp_saved (tftp_reg_timeout d) = tftp_saved d"
  by (simp_all add: tftp_cancel_timeout_def tftp_reg_timeout_def)

lemma ack_ready:
  assumes "tftp_ready sn d" "sn < 8" "unanswered_contract react sn" "g_server_port d \<noteq> 0"
  shows "\<exists>m. send_tftp_ack (ram_chip react) b d = Some (tftp_reg_timeout (d\<lparr>tftp_net := (tftp_net d)\<lparr>world := m\<rparr>\<rparr>)) \<and> unanswered sn m"
proof -
  let ?p = "half_bytes (htons TFTP_ACK) @ half_bytes (htons b)"
  have l: "length ?p = 4" by (simp add: half_bytes_def)
  have w: "word_of_nat 4 = (4 :: u32)" by simp
  have le: "length ?p \<le> 548" using l by linarith
  have "\<exists>n m. send_udp_packet (ram_chip react) (g_tftp_socket d) ?p 4 (g_server_ip d) (g_server_port d) d =
      Some (n, d\<lparr>tftp_net := (tftp_net d)\<lparr>world := m\<rparr>\<rparr>) \<and> unanswered sn m"
    using send_udp_ready [OF assms le, of "g_server_ip d"] by (simp only: l w)
  then obtain n m where "send_udp_packet (ram_chip react) (g_tftp_socket d) ?p 4 (g_server_ip d) (g_server_port d) d =
      Some (n, d\<lparr>tftp_net := (tftp_net d)\<lparr>world := m\<rparr>\<rparr>)" "unanswered sn m"
    by (elim exE conjE)
  then show ?thesis by (intro exI [of _ m]) (simp add: send_tftp_ack_def)
qed

lemma half_at_bytes [simp]:
  "half_at 0 (half_bytes v @ r) = Some v" "half_at 2 (half_bytes u @ half_bytes v @ r) = Some v"
  by (simp_all add: half_at_def half_bytes_def hi_lo)

lemma put_half_bytes [simp]:
  "put_half 0 w (half_bytes v @ r) = half_bytes w @ r"
  "put_half 2 w (half_bytes u @ half_bytes v @ r) = half_bytes u @ half_bytes w @ r"
proof -
  have n: "2 = Suc (Suc 0)" "3 = Suc (Suc (Suc 0))" by simp_all
  show "put_half 0 w (half_bytes v @ r) = half_bytes w @ r"
    "put_half 2 w (half_bytes u @ half_bytes v @ r) = half_bytes u @ half_bytes w @ r"
    by (simp_all add: put_half_def half_bytes_def n)
qed

lemma htons_htons [simp]: "ucast (ntohs (htons v)) = (v :: u16)"
  unfolding ntohs_def htons_def swaps_swaps by (rule bit_eqI) (auto simp: bit_unsigned_iff dest: bit_imp_le_length)

lemma recv_data_packet:
  "recv_tftp_data E (data_packet b x) len d = (let msg = half_bytes TFTP_DATA @ half_bytes b @ x in
     if g_tftp_state d = STATE_RRQ \<or> g_tftp_state d = STATE_OACK then do {
       let d = (if b = 1 then next_block msg len b (d\<lparr>g_tftp_state := STATE_DATA\<rparr>) else d);
       d \<leftarrow> send_tftp_ack E b d;
       Some (msg, last_block len d)
     }
     else if g_tftp_state d = STATE_DATA then do {
       let d = (if uint b = uint (g_block_num d) + 1 then next_block msg len b d else d);
       d \<leftarrow> send_tftp_ack E b d;
       Some (msg, last_block len d)
     }
     else Some (msg, d))"
proof -
  have "host_order 0 (data_packet b x) = Some (TFTP_DATA, half_bytes TFTP_DATA @ half_bytes (htons b) @ x)"
    by (simp add: host_order_def data_packet_def)
  moreover have "host_order 2 (half_bytes TFTP_DATA @ half_bytes (htons b) @ x) = Some (b, half_bytes TFTP_DATA @ half_bytes b @ x)"
    by (simp add: host_order_def)
  ultimately show ?thesis
    unfolding recv_tftp_data_def Let_def by (simp only: bind.bind_lunit prod.case)
qed

lemma data_len:
  assumes "length x \<le> 512"
  shows "unat (word_of_nat (length (data_packet b x)) - 4 :: u32) = length x"
    "(word_of_nat (length (data_packet b x)) - 4 < (512 :: u32)) = (length x < 512)"
proof -
  have "(word_of_nat (length (data_packet b x)) - 4 :: u32) = word_of_nat (length x)"
    by (simp add: data_packet_def half_bytes_def)
  moreover have "unat (word_of_nat (length x) :: u32) = length x" using assms by (simp add: unat_of_nat)
  ultimately show "unat (word_of_nat (length (data_packet b x)) - 4 :: u32) = length x"
    "(word_of_nat (length (data_packet b x)) - 4 < (512 :: u32)) = (length x < 512)"
    by (simp_all add: word_less_nat_alt)
qed

text \<open>A client that has received the first \<open>k\<close> blocks of a transfer.\<close>

definition receiving :: "u8 \<Rightarrow> nat \<Rightarrow> chip_mem tftp \<Rightarrow> bool" where
  "receiving sn k d \<longleftrightarrow> tftp_ready sn d \<and>
     (if k = 0 then g_tftp_state d = STATE_RRQ \<or> g_tftp_state d = STATE_OACK \<and> g_server_port d \<noteq> 0
      else g_tftp_state d = STATE_DATA \<and> g_server_port d \<noteq> 0 \<and> g_block_num d = word_of_nat k)"

definition deliver :: "'w wizchip \<Rightarrow> u16 \<Rightarrow> u16 \<times> u8 list \<Rightarrow> 'w tftp \<Rightarrow> 'w tftp option" where
  "deliver E port p d = do {
     let pkt = data_packet (fst p) (snd p);
     (_, d) \<leftarrow> recv_tftp_packet E pkt (word_of_nat (length pkt)) (g_server_ip d) port d;
     Some d
   }"

lemma deliver_eq:
  "deliver E port (b, x) d = do {
     (_, d) \<leftarrow> recv_tftp_data E (data_packet b x) (word_of_nat (length (data_packet b x)))
       (if g_tftp_state d = STATE_WRQ \<or> g_tftp_state d = STATE_RRQ then d\<lparr>g_server_port := port\<rparr> else d);
     Some d
   }"
proof -
  have "half_at 0 (data_packet b x) = Some (htons 3)" by (simp add: data_packet_def)
  then show ?thesis by (simp add: deliver_def recv_tftp_packet_def Let_def)
qed

lemma next_block_ready:
  assumes "length x \<le> 512"
  shows "next_block (half_bytes 3 @ half_bytes b @ x) (word_of_nat (length (data_packet b x))) b d =
    tftp_cancel_timeout (d\<lparr>g_block_num := b, tftp_saved := tftp_saved d @ [(b, x)]\<rparr>)"
  unfolding next_block_def save_data_def data_len(1) [OF assms] by (simp add: half_bytes_def)

lemma last_block_packet:
  assumes "length x \<le> 512"
  shows "last_block (word_of_nat (length (data_packet b x))) d =
    (if length x < 512 then (init_tftp d)\<lparr>g_progress_state := TFTP_SUCCESS\<rparr> else d)"
  unfolding last_block_def data_len(2) [OF assms] ..

lemma init_saved [simp]: "tftp_saved (init_tftp d) = tftp_saved d"
  by (simp add: init_tftp_def)

lemma deliver_next:
  assumes "receiving sn k d" "sn < 8" "unanswered_contract react sn" "port \<noteq> 0" "k < 65535" "length x \<le> 512"
  shows "\<exists>d'. deliver (ram_chip react) port (word_of_nat (Suc k), x) d = Some d' \<and>
    tftp_saved d' = tftp_saved d @ [(word_of_nat (Suc k), x)] \<and>
    (if length x < 512 then g_progress_state d' = TFTP_SUCCESS else receiving sn (Suc k) d')"
proof -
  define b :: u16 where "b = word_of_nat (Suc k)"
  define y where "y = (if g_tftp_state d = STATE_WRQ \<or> g_tftp_state d = STATE_RRQ then d\<lparr>g_server_port := port\<rparr> else d)"
  let ?n = "word_of_nat (length (data_packet b x)) :: u32" and ?m = "half_bytes 3 @ half_bytes b @ x"
  define z where "z = next_block ?m ?n b (y\<lparr>g_tftp_state := 3\<rparr>)"
  have b: "uint b = int k + 1" unfolding b_def by (subst uint_block) (use assms(5) in simp_all)
  have z: "z = tftp_cancel_timeout (y\<lparr>g_tftp_state := 3, g_block_num := b, tftp_saved := tftp_saved d @ [(b, x)]\<rparr>)"
    unfolding z_def next_block_ready [OF assms(6)] by (simp add: y_def)
  have r: "tftp_ready sn z" "g_server_port z \<noteq> 0" "tftp_saved z = tftp_saved d @ [(b, x)]" "g_tftp_state z = 3" "g_block_num z = b"
    using assms(1,4) unfolding z by (auto simp: receiving_def tftp_ready_def y_def split: if_splits)
  obtain m where m: "send_tftp_ack (ram_chip react) b z = Some (tftp_reg_timeout (z\<lparr>tftp_net := (tftp_net z)\<lparr>world := m\<rparr>\<rparr>))"
      "unanswered sn m" using ack_ready [OF r(1) assms(2,3) r(2)] by blast
  define e where "e = tftp_reg_timeout (z\<lparr>tftp_net := (tftp_net z)\<lparr>world := m\<rparr>\<rparr>)"
  have e: "receiving sn (Suc k) e" "tftp_saved e = tftp_saved d @ [(b, x)]"
    using r m(2) by (simp_all add: e_def receiving_def tftp_ready_def b_def)
  have "recv_tftp_data (ram_chip react) (data_packet b x) ?n y = do { d \<leftarrow> send_tftp_ack (ram_chip react) b z; Some (?m, last_block ?n d) }"
  proof (cases "k = 0")
    case True
    then have "b = 1" "g_tftp_state y = 1 \<or> g_tftp_state y = 5" using assms(1) by (auto simp: b_def receiving_def y_def)
    then show ?thesis unfolding recv_data_packet Let_def z_def by simp
  next
    case False
    then have st: "g_tftp_state y = 3" and n: "g_block_num y = word_of_nat k" using assms(1) by (auto simp: receiving_def y_def)
    have "uint (word_of_nat k :: u16) = int k" by (rule uint_block) (use assms(5) in simp)
    moreover have eq: "y\<lparr>g_tftp_state := 3\<rparr> = y" using st by (cases y) simp
    ultimately show ?thesis unfolding recv_data_packet Let_def z_def eq using st n b by simp
  qed
  then have "deliver (ram_chip react) port (b, x) d = Some (last_block ?n e)"
    unfolding deliver_eq y_def [symmetric] m e_def by simp
  then show ?thesis
    unfolding last_block_packet [OF assms(6)] b_def [symmetric] using e by auto
qed

text \<open>
  Any other block is acknowledged and dropped, but one that is not full ends the transfer with success all the
  same.
\<close>

lemma deliver_stray:
  assumes "receiving sn k d" "sn < 8" "unanswered_contract react sn" "0 < k" "k \<le> 65535" "uint b \<noteq> int k + 1" "length x \<le> 512"
  shows "\<exists>d'. deliver (ram_chip react) port (b, x) d = Some d' \<and> tftp_saved d' = tftp_saved d \<and>
    (if length x < 512 then g_progress_state d' = TFTP_SUCCESS \<and> g_tftp_state d' = STATE_NONE else receiving sn k d')"
proof -
  have d: "g_tftp_state d = 3" "g_block_num d = word_of_nat k" "g_server_port d \<noteq> 0" "tftp_ready sn d"
    using assms(1,4) by (simp_all add: receiving_def)
  have "uint (word_of_nat k :: u16) = int k" by (rule uint_block) (use assms(5) in simp)
  then have ne: "uint b \<noteq> uint (g_block_num d) + 1" using d(2) assms(6) by simp
  obtain m where m: "send_tftp_ack (ram_chip react) b d = Some (tftp_reg_timeout (d\<lparr>tftp_net := (tftp_net d)\<lparr>world := m\<rparr>\<rparr>))"
      "unanswered sn m" using ack_ready [OF d(4) assms(2,3) d(3)] by blast
  let ?e = "tftp_reg_timeout (d\<lparr>tftp_net := (tftp_net d)\<lparr>world := m\<rparr>\<rparr>)"
  have "deliver (ram_chip react) port (b, x) d = Some (last_block (word_of_nat (length (data_packet b x))) ?e)"
    using d ne m(1) by (simp add: deliver_eq recv_data_packet)
  moreover have "receiving sn k ?e" using d m(2) assms(4) by (simp add: receiving_def tftp_ready_def)
  ultimately show ?thesis unfolding last_block_packet [OF assms(7)] by (simp add: init_tftp_def)
qed

lemma deliver_again:
  assumes "receiving sn k d" "sn < 8" "unanswered_contract react sn" "0 < k" "k \<le> 65535" "1 \<le> j" "j \<le> k" "length x = 512"
  shows "\<exists>d'. deliver (ram_chip react) port (word_of_nat j, x) d = Some d' \<and> tftp_saved d' = tftp_saved d \<and> receiving sn k d'"
proof -
  have "uint (word_of_nat j :: u16) = int j" by (rule uint_block) (use assms in simp)
  then have "uint (word_of_nat j :: u16) \<noteq> int k + 1" "length x \<le> 512" using assms by simp_all
  from deliver_stray [OF assms(1-5) this] show ?thesis using assms(8) by (simp only: less_irrefl if_False)
qed

text \<open>
  The blocks of a file, and the packets of a server that repeats blocks it has sent before until the last one,
  which is not full, is through.
\<close>

function file_blocks :: "nat \<Rightarrow> u8 list \<Rightarrow> (u16 \<times> u8 list) list" where
  "file_blocks n file =
     (word_of_nat n, take 512 file) # (if length file < 512 then [] else file_blocks (Suc n) (drop 512 file))"
  by auto
termination by (relation "measure (\<lambda>(_, file). length file)") auto

declare file_blocks.simps [simp del]

lemma file_blocks_content: "concat (map snd (file_blocks n f)) = f"
proof (induction n f rule: file_blocks.induct)
  case (1 n f)
  then show ?case by (subst file_blocks.simps) simp
qed

inductive arrives :: "nat \<Rightarrow> (u16 \<times> u8 list) list \<Rightarrow> (u16 \<times> u8 list) list \<Rightarrow> bool" where
  arrives_all: "arrives k [] []"
| arrives_next: "arrives (Suc k) new ps \<Longrightarrow> arrives k (b # new) (b # ps)"
| arrives_again: "arrives k (b # new) ps \<Longrightarrow> 1 \<le> j \<Longrightarrow> j \<le> k \<Longrightarrow> length x = 512 \<Longrightarrow>
    arrives k (b # new) ((word_of_nat j, x) # ps)"

primrec deliver_all :: "'w wizchip \<Rightarrow> u16 \<Rightarrow> (u16 \<times> u8 list) list \<Rightarrow> 'w tftp \<Rightarrow> 'w tftp option" where
  "deliver_all E port [] d = Some d"
| "deliver_all E port (p # ps) d = do { d \<leftarrow> deliver E port p d; deliver_all E port ps d }"

inductive_cases arrives_blockE: "arrives k (b # new) ps"
inductive_cases arrives_noneE: "arrives k [] ps"

lemma deliver_blocks:
  assumes "arrives k bs ps" "bs = file_blocks (Suc k) f" "receiving sn k d" "k + length f div 512 < 65535"
    "sn < 8" "unanswered_contract react sn" "port \<noteq> 0"
  shows "\<exists>d'. deliver_all (ram_chip react) port ps d = Some d' \<and> g_progress_state d' = TFTP_SUCCESS \<and>
    tftp_saved d' = tftp_saved d @ bs"
  using assms(1-4)
proof (induction arbitrary: d f rule: arrives.induct)
  case (arrives_all k)
  then show ?case by (simp add: file_blocks.simps)
next
  case (arrives_next k new ps b)
  have b: "b = (word_of_nat (Suc k), take 512 f)"
    and new: "new = (if length f < 512 then [] else file_blocks (Suc (Suc k)) (drop 512 f))"
    using arrives_next.prems(1) by (simp_all add: file_blocks.simps [of "Suc k"])
  have "k < 65535" "length (take 512 f) \<le> 512" using arrives_next.prems(3) by simp_all
  from deliver_next [OF arrives_next.prems(2) assms(5-7) this] obtain e where
    e: "deliver (ram_chip react) port b d = Some e" "tftp_saved e = tftp_saved d @ [b]"
      "if length (take 512 f) < 512 then g_progress_state e = 2 else receiving sn (Suc k) e"
    unfolding b by blast
  show ?case
  proof (cases "length f < 512")
    case True
    then have "ps = []" using arrives_next.hyps new by (auto elim: arrives_noneE)
    then show ?thesis using True e new by simp
  next
    case False
    then have "Suc k + length (drop 512 f) div 512 < 65535" "receiving sn (Suc k) e" "new = file_blocks (Suc (Suc k)) (drop 512 f)"
      using arrives_next.prems(3) e(3) new by (simp_all add: div_less_dividend le_div_geq)
    from arrives_next.IH [OF this(3,2,1)] show ?thesis using e(1,2) by auto
  qed
next
  case (arrives_again k b new ps j x)
  have "0 < k" "k \<le> 65535" using arrives_again.hyps arrives_again.prems(3) by simp_all
  from deliver_again [OF arrives_again.prems(2) assms(5,6) this arrives_again.hyps(2-4)] obtain e where
    e: "deliver (ram_chip react) port (word_of_nat j, x) d = Some e" "tftp_saved e = tftp_saved d" "receiving sn k e"
    by blast
  from arrives_again.IH [OF arrives_again.prems(1) e(3) arrives_again.prems(3)] show ?case using e(1,2) by auto
qed

section \<open>Requests\<close>

text \<open>A client without a transfer, with a buffer and a socket on which it can send.\<close>

definition tftp_idle :: "u8 \<Rightarrow> chip_mem tftp \<Rightarrow> bool" where
  "tftp_idle sn d \<longleftrightarrow> tftp_ready sn d \<and> g_resend_flag d = 0 \<and> g_timeout d = 5 \<and> length (g_filename d) = FILE_NAME_SIZE \<and>
     g_tftp_rcv_buf d \<noteq> None"

lemma rrq_length: "length (rrq_packet f TRANS_BINARY [default_tftp_opt]) = length f + 19"
  by (simp add: rrq_packet_def half_bytes_def TRANS_BINARY_def default_tftp_opt_def)

text \<open>The request for a file put on the network \<open>n\<close> times.\<close>

primrec requests :: "'w wizchip \<Rightarrow> u8 \<Rightarrow> u8 list \<Rightarrow> u32 \<Rightarrow> nat \<Rightarrow> 'w net \<Rightarrow> 'w net option" where
  "requests E sn f server 0 s = Some s"
| "requests E sn f server (Suc n) s = do {
     let pkt = rrq_packet f TRANS_BINARY [default_tftp_opt];
     (_, s) \<leftarrow> sendto_W6x00 E sn pkt (word_of_nat (length pkt)) (word_mem (htonl server)) TFTP_SERVER_PORT 4 s;
     requests E sn f server n s
   }"

lemma requests_add: "requests E sn f server (a + b) s = do { s \<leftarrow> requests E sn f server a s; requests E sn f server b s }"
  by (induction a arbitrary: s) (auto simp: Let_def split: prod.splits intro!: Option.bind_cong)

lemma rrq_ready:
  assumes "tftp_ready sn d" "sn < 8" "unanswered_contract react sn" "length f < FILE_NAME_SIZE"
  shows "\<exists>m. send_tftp_rrq (ram_chip react) f TRANS_BINARY [default_tftp_opt] d = Some (tftp_reg_timeout
      (d\<lparr>tftp_net := (tftp_net d)\<lparr>world := m\<rparr>, g_tftp_state := STATE_RRQ, g_filename := f @ 0 # drop (Suc (length f)) (g_filename d)\<rparr>)) \<and>
    unanswered sn m \<and> requests (ram_chip react) sn f (g_server_ip d) 1 (tftp_net d) = Some ((tftp_net d)\<lparr>world := m\<rparr>)"
proof -
  let ?p = "rrq_packet f TRANS_BINARY [default_tftp_opt]"
  have l: "length ?p \<le> 548" "\<not> unat (1514 :: u32) < length ?p" using assms(4) by (simp_all add: rrq_length)
  obtain n m where s: "send_udp_packet (ram_chip react) (g_tftp_socket d) ?p (word_of_nat (length ?p)) (g_server_ip d) 69 d =
      Some (n, d\<lparr>tftp_net := (tftp_net d)\<lparr>world := m\<rparr>\<rparr>)" "unanswered sn m"
    using send_udp_ready [OF assms(1-3) _ l(1), of 69 "g_server_ip d"] by (auto simp del: of_nat_Suc)
  have "\<not> FILE_NAME_SIZE < length (f @ [0])" using assms(4) by simp
  then have "send_tftp_rrq (ram_chip react) f TRANS_BINARY [default_tftp_opt] d = Some (tftp_reg_timeout
      (d\<lparr>tftp_net := (tftp_net d)\<lparr>world := m\<rparr>, g_tftp_state := STATE_RRQ, g_filename := f @ 0 # drop (Suc (length f)) (g_filename d)\<rparr>))"
    using s(1) l(2) by (simp add: send_tftp_rrq_def set_filename_def Let_def)
  moreover have "requests (ram_chip react) sn f (g_server_ip d) 1 (tftp_net d) = Some ((tftp_net d)\<lparr>world := m\<rparr>)"
  proof -
    obtain k u where k: "sendto_W6x00 (ram_chip react) (word_of_int (g_tftp_socket d)) ?p
        (ucast (word_of_nat (length ?p) :: u32)) (word_mem (htonl (g_server_ip d))) 69 4 (tftp_net d) = Some (k, u)"
        "d\<lparr>tftp_net := u\<rparr> = d\<lparr>tftp_net := (tftp_net d)\<lparr>world := m\<rparr>\<rparr>"
      using s(1) unfolding send_udp_packet_def by (auto simp only: bind_eq_Some_conv prod.case option.inject prod.inject)
    have "tftp_net (d\<lparr>tftp_net := u\<rparr>) = tftp_net (d\<lparr>tftp_net := (tftp_net d)\<lparr>world := m\<rparr>\<rparr>)" by (simp only: k(2))
    then have "u = (tftp_net d)\<lparr>world := m\<rparr>" by simp
    moreover have "(ucast (word_of_nat (length ?p) :: u32) :: u16) = word_of_nat (length ?p)"
      by (simp add: unsigned_of_nat word_of_nat_eq_iff del: of_nat_Suc)
    ultimately show ?thesis using k(1) assms(1) by (simp add: tftp_ready_def Let_def)
  qed
  ultimately show ?thesis using s(2) by blast
qed

lemma request_receiving:
  assumes "tftp_idle sn d" "sn < 8" "unanswered_contract react sn" "length f < FILE_NAME_SIZE"
  shows "\<exists>d'. TFTP_read_request (ram_chip react) ip f d = Some d' \<and> receiving sn 0 d' \<and> g_tftp_state d' = STATE_RRQ \<and>
    g_server_ip d' = ip \<and> tftp_saved d' = tftp_saved d"
proof -
  have "tftp_ready sn (d\<lparr>g_server_ip := ip, g_progress_state := 0\<rparr>)" using assms(1) by (simp add: tftp_idle_def tftp_ready_def)
  from rrq_ready [OF this assms(2-4)] show ?thesis
    using assms(1) by (auto simp: TFTP_read_request_def receiving_def tftp_ready_def tftp_idle_def)
qed

text \<open>An acknowledgement of the options, which moves a client that has asked for a file to waiting for its first block.\<close>

lemma oack_receiving:
  assumes "receiving sn 0 d" "g_tftp_state d = STATE_RRQ" "sn < 8" "unanswered_contract react sn" "port \<noteq> 0"
  shows "\<exists>d'. recv_tftp_packet (ram_chip react) (half_bytes (htons TFTP_OACK) @ opts) len (g_server_ip d) port d =
      Some (half_bytes (htons TFTP_OACK) @ opts, d') \<and> receiving sn 0 d' \<and> tftp_saved d' = tftp_saved d"
proof -
  define y where "y = tftp_cancel_timeout (d\<lparr>g_server_port := port, g_tftp_state := STATE_OACK\<rparr>)"
  have y: "tftp_ready sn y" "g_server_port y \<noteq> 0" "tftp_saved y = tftp_saved d" "g_tftp_state y = 5"
    using assms(1,5) by (simp_all add: y_def receiving_def tftp_ready_def)
  from ack_ready [OF y(1) assms(3,4) y(2), of 0] obtain m where
    "send_tftp_ack (ram_chip react) 0 y = Some (tftp_reg_timeout (y\<lparr>tftp_net := (tftp_net y)\<lparr>world := m\<rparr>\<rparr>))" "unanswered sn m"
    by blast
  then show ?thesis
    using y assms(2) by (simp add: recv_tftp_packet_def recv_tftp_oack_def y_def [symmetric] receiving_def tftp_ready_def)
qed

text \<open>A transfer: the request, the acknowledgement of its options if the server sends one, and the blocks.\<close>

definition get_file ::
    "'w wizchip \<Rightarrow> u32 \<Rightarrow> u16 \<Rightarrow> u8 list \<Rightarrow> u8 list option \<Rightarrow> (u16 \<times> u8 list) list \<Rightarrow> 'w tftp \<Rightarrow> 'w tftp option" where
  "get_file E ip port name oack ps d = do {
     d \<leftarrow> TFTP_read_request E ip name d;
     d \<leftarrow> (case oack of
             None \<Rightarrow> Some d
           | Some opts \<Rightarrow> do {
               let pkt = half_bytes (htons TFTP_OACK) @ opts;
               (_, d) \<leftarrow> recv_tftp_packet E pkt (word_of_nat (length pkt)) ip port d;
               Some d
             });
     deliver_all E port ps d
   }"

text \<open>
  C35. A client on an open socket that can send gets the file it asks for: if the server answers, with or without an
  acknowledgement of the options first, and its blocks arrive in their order, each repeated as often as it likes,
  and there are at most 65535 of them, the transfer ends with success and exactly the blocks of the file have been
  stored, so that their concatenation is the file.
\<close>

theorem tftp_transfer:
  assumes "tftp_idle sn d" "sn < 8" "unanswered_contract react sn" "length name < FILE_NAME_SIZE" "port \<noteq> 0"
    "arrives 0 (file_blocks 1 content) ps" "length content < 65535 * 512"
  shows "\<exists>d' bs. get_file (ram_chip react) ip port name oack ps d = Some d' \<and> g_progress_state d' = TFTP_SUCCESS \<and>
    tftp_saved d' = tftp_saved d @ bs \<and> concat (map snd bs) = content"
proof -
  obtain x where x: "TFTP_read_request (ram_chip react) ip name d = Some x" "receiving sn 0 x" "g_tftp_state x = 1"
      "g_server_ip x = ip" "tftp_saved x = tftp_saved d"
    using request_receiving [OF assms(1-4)] by blast
  obtain y where y: "(case oack of None \<Rightarrow> Some x | Some opts \<Rightarrow> do {
               let pkt = half_bytes (htons TFTP_OACK) @ opts;
               (_, d) \<leftarrow> recv_tftp_packet (ram_chip react) pkt (word_of_nat (length pkt)) ip port x;
               Some d
             }) = Some y" "receiving sn 0 y" "tftp_saved y = tftp_saved d"
  proof (cases oack)
    case None
    with that [of x] x show ?thesis by simp
  next
    case (Some opts)
    obtain y where "recv_tftp_packet (ram_chip react) (half_bytes (htons TFTP_OACK) @ opts)
        (word_of_nat (length (half_bytes (htons TFTP_OACK) @ opts))) (g_server_ip x) port x =
        Some (half_bytes (htons TFTP_OACK) @ opts, y)" "receiving sn 0 y" "tftp_saved y = tftp_saved x"
      using oack_receiving [OF x(2,3) assms(2,3,5)] by blast
    with that [of y] Some x(4,5) show ?thesis by (simp add: Let_def)
  qed
  have l: "0 + length content div 512 < 65535" using assms(7) by (simp add: div_less_iff_less_mult)
  have "file_blocks 1 content = file_blocks (Suc 0) content" by simp
  from deliver_blocks [OF assms(6) this y(2) l assms(2,3,5)] obtain z where
    z: "deliver_all (ram_chip react) port ps y = Some z" "g_progress_state z = 2" "tftp_saved z = tftp_saved d @ file_blocks 1 content"
    using y(3) by auto
  have "get_file (ram_chip react) ip port name oack ps d = Some z"
    unfolding get_file_def x(1) bind.bind_lunit y(1) z(1) ..
  then show ?thesis using z file_blocks_content by blast
qed

text \<open>A client on the quiet chip, and a file of 513 bytes with its first block repeated.\<close>

definition quiet_tftp :: "chip_mem tftp" where
  "quiet_tftp = (tftp_start quiet_net)\<lparr>g_tftp_socket := 0, g_tftp_rcv_buf := Some (replicate 1514 0)\<rparr>"

lemma quiet_tftp_idle: "tftp_idle 0 quiet_tftp"
  by (simp add: tftp_idle_def tftp_ready_def quiet_tftp_def tftp_start_def quiet_net_def net_start_def quiet_unanswered)

lemma tftp_transfer_witness:
  "\<exists>d' bs. get_file (ram_chip (\<lambda>_ _ _ _. quiet_mem)) 0xC0A80001 1069 [102] (Some [])
     [(1, replicate 512 7), (1, replicate 512 7), (2, [9])] quiet_tftp = Some d' \<and> g_progress_state d' = TFTP_SUCCESS \<and>
     tftp_saved d' = tftp_saved quiet_tftp @ bs \<and> concat (map snd bs) = replicate 512 7 @ [9]"
proof (rule tftp_transfer [where sn = 0])
  have "file_blocks 1 (replicate 512 7 @ [9]) = [(1, replicate 512 7), (2, [9])]"
    by (simp add: file_blocks.simps)
  moreover have "arrives 0 [(1, replicate 512 7), (2, [9])] [(1, replicate 512 7), (1, replicate 512 7), (2, [9])]"
    using arrives_again [of 1 "(2, [9])" "[]" "[(2, [9])]" 1 "replicate 512 7"] by (intro arrives_next) (auto intro: arrives_next arrives_all)
  ultimately show "arrives 0 (file_blocks 1 (replicate 512 7 @ [9])) [(1, replicate 512 7), (1, replicate 512 7), (2, [9])]" by simp
qed (simp_all add: quiet_unanswered quiet_tftp_idle)

lemma tftp_blocks_in_order_witness:
  "\<exists>d0 d'. TFTP_read_request (ram_chip (\<lambda>_ _ _ _. quiet_mem)) 1 [102] (tftp_start quiet_net) = Some d0 \<and>
     tftp_steps (ram_chip (\<lambda>_ _ _ _. quiet_mem)) d0 d' \<and> g_tftp_state d' = STATE_DATA \<and> tftp_saved d' = [(1, replicate 512 9)] \<and>
     g_block_num d' = 1"
proof -
  let ?E = "ram_chip (\<lambda>_ _ _ _. quiet_mem)"
  have no: "send_udp_packet ?E (- 1) p l ip port d = Some (- 1, d)" if "l \<noteq> - 1" for p l ip port and d :: "chip_mem tftp"
    using that by (simp add: send_udp_packet_def sendto_W6x00_def sendto_IO_6_def)
  have ack: "send_tftp_ack ?E b d = Some (tftp_reg_timeout d)" if "g_tftp_socket d = - 1" for b and d :: "chip_mem tftp"
    using that by (simp add: send_tftp_ack_def no)
  have l: "length (rrq_packet [102] TRANS_BINARY [default_tftp_opt]) = 20" by (simp add: rrq_length)
  define d1 where "d1 = tftp_reg_timeout ((tftp_start quiet_net)\<lparr>g_server_ip := 1, g_progress_state := 0, g_tftp_state := 1,
      g_filename := [102, 0] @ drop 2 (replicate FILE_NAME_SIZE 0)\<rparr>)"
  have r1: "TFTP_read_request ?E 1 [102] (tftp_start quiet_net) = Some d1"
    by (simp add: TFTP_read_request_def send_tftp_rrq_def Let_def l no set_filename_def d1_def tftp_start_def)
  have d1: "g_tftp_socket d1 = - 1" "g_tftp_state d1 = 1" "tftp_saved d1 = []" "g_server_ip d1 = 1"
    by (simp_all add: d1_def tftp_start_def)
  let ?x = "replicate 512 9 :: u8 list" and ?p = "data_packet 1 (replicate 512 9)"
  have x: "length ?x \<le> 512" by simp
  define d2 where "d2 = tftp_reg_timeout (tftp_cancel_timeout (d1\<lparr>g_server_port := 1069, g_tftp_state := 3, g_block_num := 1,
      tftp_saved := [(1, ?x)]\<rparr>))"
  have "recv_tftp_data ?E ?p (word_of_nat (length ?p)) (d1\<lparr>g_server_port := 1069\<rparr>) = Some (half_bytes 3 @ half_bytes 1 @ ?x, d2)"
    using d1 unfolding recv_data_packet Let_def next_block_ready [OF x] last_block_packet [OF x]
    by (simp add: ack d2_def)
  moreover have "half_at 0 ?p = Some (htons 3)" by (simp add: data_packet_def)
  ultimately have "recv_tftp_packet ?E ?p (word_of_nat (length ?p)) 1 1069 d1 = Some (half_bytes 3 @ half_bytes 1 @ ?x, d2)"
    using d1 by (simp add: recv_tftp_packet_def)
  from tftp_packet [OF tftp_begin this] have r2: "tftp_steps ?E d1 d2" .
  have d2: "tftp_saved d2 = [(1, ?x)]" "g_tftp_state d2 = 3" by (simp_all add: d2_def)
  have "g_block_num d2 = 1"
    using tftp_blocks_in_order [OF r1 r2] d2 by (auto simp: tftp_start_def Cons_eq_append_conv)
  then show ?thesis using r1 r2 d2 by blast
qed

section \<open>No answer\<close>

text \<open>A client that waits for the answer to a request, \<open>w\<close> seconds after it.\<close>

definition waiting :: "u8 \<Rightarrow> u8 list \<Rightarrow> nat \<Rightarrow> chip_mem tftp \<Rightarrow> bool" where
  "waiting sn f w d \<longleftrightarrow> tftp_ready sn d \<and> g_tftp_state d = STATE_RRQ \<and> g_resend_flag d = 1 \<and> g_timeout d = 5 \<and>
     tftp_retry_cnt d = word_of_nat (w div 5) \<and> tftp_time_cnt d = word_of_nat (w mod 5) \<and> w < 25 \<and>
     length (g_filename d) = FILE_NAME_SIZE \<and> length f < FILE_NAME_SIZE \<and> 0 \<notin> set f \<and> (\<exists>rest. g_filename d = f @ 0 # rest) \<and>
     g_tftp_rcv_buf d \<noteq> None \<and> g_progress_state d = TFTP_PROGRESS"

text \<open>The main loop: \<open>TFTP_run\<close> after each number of ticks of the timer.\<close>

primrec tftp_polls :: "'w wizchip \<Rightarrow> u32 \<Rightarrow> u16 \<Rightarrow> nat list \<Rightarrow> 'w tftp \<Rightarrow> (u8 list \<times> 'w tftp) option" where
  "tftp_polls E ip port [] d = Some ([], d)"
| "tftp_polls E ip port (k # ks) d = do {
     (r, d) \<leftarrow> TFTP_run E ip port ((tftp_timeout_handler ^^ k) d);
     (rs, d) \<leftarrow> tftp_polls E ip port ks d;
     Some (r # rs, d)
   }"

lemma recv_udp_quiet:
  assumes "tftp_ready sn d" "sn < 8"
  shows "recv_udp_packet (ram_chip react) (g_tftp_socket d) len ip port d = Some (- 1, ip, port, d)"
  using assms
  by (simp add: recv_udp_packet_def getsockopt_def tftp_ready_def unanswered_def get_chip_def try_get_def ram_get ram_sizes
      ok8_def ok16_def put8_def put16_def arg16_def not_le)

lemma run_quiet:
  assumes "tftp_ready sn d" "sn < 8" "g_tftp_rcv_buf d \<noteq> None" "ip \<noteq> g_server_ip d" "\<not> g_timeout d \<le> tftp_time_cnt d"
  shows "TFTP_run (ram_chip react) ip port d = Some (g_progress_state d, d)"
  using assms recv_udp_quiet [OF assms(1,2)]
  by (auto simp: TFTP_run_def recv_tftp_packet_def)

lemma retry_quiet:
  assumes "waiting sn f w d" "sn < 8" "unanswered_contract react sn"
  shows "\<exists>m. unanswered sn m \<and> requests (ram_chip react) sn f (g_server_ip d) 1 (tftp_net d) = Some ((tftp_net d)\<lparr>world := m\<rparr>) \<and>
    tftp_retry (ram_chip react) (d\<lparr>tftp_time_cnt := t\<rparr>) =
    (let d = d\<lparr>tftp_net := (tftp_net d)\<lparr>world := m\<rparr>, tftp_time_cnt := 0, tftp_retry_cnt := tftp_retry_cnt d + 1\<rparr> in
     Some (if 5 \<le> tftp_retry_cnt d then (init_tftp d)\<lparr>g_progress_state := TFTP_FAIL\<rparr> else d))"
proof -
  obtain rest where rest: "g_filename d = f @ 0 # rest" using assms(1) by (auto simp: waiting_def)
  have f: "takeWhile (\<lambda>c. c \<noteq> 0) (g_filename d) = f" "0 \<in> set (g_filename d)" "length f < 20"
    "f @ 0 # drop (Suc (length f)) (g_filename d) = g_filename d" "g_tftp_state d = 1" "g_resend_flag d = 1"
    using assms(1) by (auto simp: waiting_def rest takeWhile_append)
  have "tftp_ready sn (d\<lparr>tftp_time_cnt := t\<rparr>)" using assms(1) by (simp add: waiting_def tftp_ready_def)
  then obtain m where
    "send_tftp_rrq (ram_chip react) f TRANS_BINARY [default_tftp_opt] (d\<lparr>tftp_time_cnt := t\<rparr>) =
      Some (d\<lparr>tftp_net := (tftp_net d)\<lparr>world := m\<rparr>, tftp_time_cnt := t\<rparr>)" "unanswered sn m"
    "requests (ram_chip react) sn f (g_server_ip d) 1 (tftp_net d) = Some ((tftp_net d)\<lparr>world := m\<rparr>)"
  proof -
    assume r: "tftp_ready sn (d\<lparr>tftp_time_cnt := t\<rparr>)"
    from rrq_ready [OF r assms(2,3) f(3)] obtain m where
      "send_tftp_rrq (ram_chip react) f TRANS_BINARY [default_tftp_opt] (d\<lparr>tftp_time_cnt := t\<rparr>) =
        Some (d\<lparr>tftp_time_cnt := t, tftp_net := (tftp_net d)\<lparr>world := m\<rparr>, g_tftp_state := 1\<rparr>)" "unanswered sn m"
      "requests (ram_chip react) sn f (g_server_ip d) 1 (tftp_net d) = Some ((tftp_net d)\<lparr>world := m\<rparr>)"
      using f(4,6) by (auto simp: tftp_reg_timeout_def)
    moreover have "d\<lparr>tftp_time_cnt := t, tftp_net := (tftp_net d)\<lparr>world := m\<rparr>, g_tftp_state := 1\<rparr> =
        d\<lparr>tftp_net := (tftp_net d)\<lparr>world := m\<rparr>, tftp_time_cnt := t\<rparr>" using f(5) by (cases d) simp
    ultimately show ?thesis using that by simp
  qed
  then show ?thesis using f(1,2,5) by (intro exI [of _ m]) (simp add: tftp_retry_def Let_def)
qed

lemma waiting_poll:
  assumes "waiting sn f w d" "sn < 8" "unanswered_contract react sn" "ip \<noteq> g_server_ip d" "ip \<noteq> 0"
  shows "TFTP_run (ram_chip react) ip port d = Some (TFTP_PROGRESS, d)"
    "\<exists>d'. TFTP_run (ram_chip react) ip port (tftp_timeout_handler d) = Some (if w < 24 then TFTP_PROGRESS else TFTP_FAIL, d') \<and>
       requests (ram_chip react) sn f (g_server_ip d) (if w mod 5 = 4 then 1 else 0) (tftp_net d) = Some (tftp_net d') \<and>
       (if w < 24 then waiting sn f (Suc w) d' \<and> g_server_ip d' = g_server_ip d else g_tftp_state d' = STATE_NONE)"
proof -
  have five: "(5 :: u32) \<le> word_of_nat n \<longleftrightarrow> 5 \<le> n" if "n < 100" for n
    using that by (simp add: word_le_nat_alt unat_of_nat)
  have "w mod 5 < 5" by simp
  then have "\<not> g_timeout d \<le> tftp_time_cnt d" using assms(1) five [of "w mod 5"] by (simp add: waiting_def)
  then show "TFTP_run (ram_chip react) ip port d = Some (TFTP_PROGRESS, d)"
    using assms run_quiet [of sn d] by (simp add: waiting_def)
  let ?t = "d\<lparr>tftp_time_cnt := tftp_time_cnt d + 1\<rparr>"
  have t: "tftp_timeout_handler d = ?t" "g_timeout d = 5" "tftp_time_cnt d + 1 = word_of_nat (Suc (w mod 5))"
    using assms(1) by (simp_all add: tftp_timeout_handler_def waiting_def add.commute)
  have r: "tftp_retry_cnt d + 1 = word_of_nat (Suc (w div 5))" "w < 25" using assms(1) by (simp_all add: waiting_def add.commute)
  show "\<exists>d'. TFTP_run (ram_chip react) ip port (tftp_timeout_handler d) = Some (if w < 24 then TFTP_PROGRESS else TFTP_FAIL, d') \<and>
       requests (ram_chip react) sn f (g_server_ip d) (if w mod 5 = 4 then 1 else 0) (tftp_net d) = Some (tftp_net d') \<and>
       (if w < 24 then waiting sn f (Suc w) d' \<and> g_server_ip d' = g_server_ip d else g_tftp_state d' = STATE_NONE)"
  proof (cases "w mod 5 = 4")
    case False
    then have m: "Suc w mod 5 = Suc (w mod 5)" "Suc w div 5 = w div 5" "Suc (w mod 5) < 5" "w \<noteq> 24" by presburger+
    have "w < 24" using m(4) r(2) by simp
    then have "waiting sn f (Suc w) ?t" using assms(1) t(3) m by (simp add: waiting_def tftp_ready_def)
    moreover have "\<not> (5 :: u32) \<le> word_of_nat (Suc (w mod 5))" using m(3) five [of "Suc (w mod 5)"] by (simp del: of_nat_Suc)
    then have "\<not> g_timeout ?t \<le> tftp_time_cnt ?t" using t(2,3) by (simp del: of_nat_Suc)
    ultimately show ?thesis
      using assms False run_quiet [of sn ?t ip react port] \<open>w < 24\<close> unfolding t(1) by (auto simp: waiting_def)
  next
    case True
    obtain m where m: "unanswered sn m" "requests (ram_chip react) sn f (g_server_ip d) 1 (tftp_net d) = Some ((tftp_net d)\<lparr>world := m\<rparr>)"
      "tftp_retry (ram_chip react) ?t =
      (let d = d\<lparr>tftp_net := (tftp_net d)\<lparr>world := m\<rparr>, tftp_time_cnt := 0, tftp_retry_cnt := tftp_retry_cnt d + 1\<rparr> in
       Some (if 5 \<le> tftp_retry_cnt d then (init_tftp d)\<lparr>g_progress_state := TFTP_FAIL\<rparr> else d))"
      using retry_quiet [OF assms(1-3)] by blast
    let ?y = "d\<lparr>tftp_net := (tftp_net d)\<lparr>world := m\<rparr>, tftp_time_cnt := 0, tftp_retry_cnt := tftp_retry_cnt d + 1\<rparr>"
    let ?z = "if w < 24 then ?y else (init_tftp ?y)\<lparr>g_progress_state := TFTP_FAIL\<rparr>"
    have "5 \<le> Suc (w div 5) \<longleftrightarrow> \<not> w < 24" using r(2) True by presburger
    moreover have "(5 :: u32) \<le> word_of_nat (Suc (w div 5)) \<longleftrightarrow> 5 \<le> Suc (w div 5)" by (rule five) (use r(2) in simp)
    ultimately have "5 \<le> tftp_retry_cnt d + 1 \<longleftrightarrow> \<not> w < 24" unfolding r(1) by (simp only:)
    then have z: "tftp_retry (ram_chip react) ?t = Some ?z" using m(3) by (simp add: Let_def)
    have y: "tftp_ready sn ?z" "g_tftp_rcv_buf ?z \<noteq> None" "ip \<noteq> g_server_ip ?z"
      using assms m(1) by (auto simp: waiting_def tftp_ready_def init_tftp_def)
    have "5 \<le> tftp_time_cnt d + 1" unfolding t(3) True by simp
    then have "TFTP_run (ram_chip react) ip port ?t = Some (g_progress_state ?z, ?z)"
      using recv_udp_quiet [OF y(1) assms(2)] y z assms(1) t(2) unfolding TFTP_run_def recv_tftp_packet_def
      by (auto simp: waiting_def)
    moreover have "waiting sn f (Suc w) ?z" if "w < 24"
    proof -
      have "Suc w mod 5 = 0" "Suc w div 5 = Suc (w div 5)" using True by presburger+
      then show ?thesis using that assms(1) m(1) r(1) by (simp add: waiting_def tftp_ready_def)
    qed
    moreover have "tftp_net ?z = (tftp_net d)\<lparr>world := m\<rparr>" by (simp add: init_tftp_def)
    ultimately show ?thesis using assms(1) m(2) True unfolding t(1) by (auto simp: waiting_def init_tftp_def)
  qed
qed

lemma waiting_polls:
  assumes "waiting sn f w d" "sn < 8" "unanswered_contract react sn" "ip \<noteq> g_server_ip d" "ip \<noteq> 0"
    "set ks \<subseteq> {0, 1}" "w + sum_list ks \<le> 24"
  shows "\<exists>d'. tftp_polls (ram_chip react) ip port ks d = Some (replicate (length ks) TFTP_PROGRESS, d') \<and>
    waiting sn f (w + sum_list ks) d' \<and> g_server_ip d' = g_server_ip d \<and>
    requests (ram_chip react) sn f (g_server_ip d) ((w + sum_list ks) div 5 - w div 5) (tftp_net d) = Some (tftp_net d')"
  using assms(1,4,6,7)
proof (induction ks arbitrary: w d)
  case (Cons k ks)
  note poll = waiting_poll [OF Cons.prems(1) assms(2,3) Cons.prems(2) assms(5)]
  show ?case
  proof (cases "k = 0")
    case True
    then show ?thesis using Cons.IH [OF Cons.prems(1,2)] Cons.prems(3,4) poll(1) by auto
  next
    case False
    then have k: "k = 1" "w < 24" "set ks \<subseteq> {0, 1}" "Suc w + sum_list ks \<le> 24" using Cons.prems(3,4) by auto
    obtain e where e: "TFTP_run (ram_chip react) ip port (tftp_timeout_handler d) = Some (0, e)" "waiting sn f (Suc w) e"
        "g_server_ip e = g_server_ip d"
        "requests (ram_chip react) sn f (g_server_ip d) (if w mod 5 = 4 then 1 else 0) (tftp_net d) = Some (tftp_net e)"
      using poll(2) [of port] k(2) by auto
    have ip: "ip \<noteq> g_server_ip e" using e(3) Cons.prems(2) by simp
    obtain d' where d': "tftp_polls (ram_chip react) ip port ks e = Some (replicate (length ks) TFTP_PROGRESS, d')"
        "waiting sn f (Suc w + sum_list ks) d'" "g_server_ip d' = g_server_ip e"
        "requests (ram_chip react) sn f (g_server_ip e) ((Suc w + sum_list ks) div 5 - Suc w div 5) (tftp_net e) = Some (tftp_net d')"
      using Cons.IH [OF e(2) ip k(3,4)] by blast
    have n: "(w + sum_list (k # ks)) div 5 - w div 5 =
        (if w mod 5 = 4 then 1 else 0) + ((Suc w + sum_list ks) div 5 - Suc w div 5)"
    proof -
      have "Suc w div 5 = w div 5 + (if w mod 5 = 4 then 1 else 0)" by presburger
      moreover have "Suc w div 5 \<le> (Suc w + sum_list ks) div 5" by (rule div_le_mono) simp
      ultimately show ?thesis by (simp add: k(1))
    qed
    have "requests (ram_chip react) sn f (g_server_ip d) ((w + sum_list (k # ks)) div 5 - w div 5) (tftp_net d) = Some (tftp_net d')"
      unfolding n requests_add e(4) bind.bind_lunit using d'(4) e(3) by simp
    moreover have "tftp_polls (ram_chip react) ip port (k # ks) d = Some (replicate (length (k # ks)) TFTP_PROGRESS, d')"
      using e(1) d'(1) by (simp add: k(1))
    ultimately show ?thesis using d'(2,3) e(3) k(1) by auto
  qed
qed simp

text \<open>
  C37. When nobody answers a request, the client sends it again every five seconds: after \<open>t\<close> of the first 24
  seconds, whatever the pattern in which the main loop polls it (at least once a second), every poll has reported
  progress, the client still waits, and what it has done on the network is to send this request \<open>1 + t div 5\<close>
  times. The poll at 25 seconds sends it for the sixth and last time, reports the failure and leaves the client
  without a transfer.
\<close>

theorem tftp_gives_up:
  assumes "tftp_idle sn d" "sn < 8" "unanswered_contract react sn" "length f < FILE_NAME_SIZE" "0 \<notin> set f"
    "from_ip \<noteq> server" "from_ip \<noteq> 0" "set ks \<subseteq> {0, 1}" "sum_list ks \<le> 24"
  shows "\<exists>d1 d2. TFTP_read_request (ram_chip react) server f d = Some d1 \<and>
    tftp_polls (ram_chip react) from_ip port ks d1 = Some (replicate (length ks) TFTP_PROGRESS, d2) \<and> g_tftp_state d2 = STATE_RRQ \<and>
    requests (ram_chip react) sn f server (1 + sum_list ks div 5) (tftp_net d) = Some (tftp_net d2) \<and>
    (sum_list ks = 24 \<longrightarrow> (\<exists>d3. TFTP_run (ram_chip react) from_ip port (tftp_timeout_handler d2) = Some (TFTP_FAIL, d3) \<and>
      g_tftp_state d3 = STATE_NONE \<and> requests (ram_chip react) sn f server 6 (tftp_net d) = Some (tftp_net d3)))"
proof -
  let ?E = "ram_chip react" and ?x = "d\<lparr>g_server_ip := server, g_progress_state := 0\<rparr>"
  have "tftp_ready sn ?x" using assms(1) by (simp add: tftp_idle_def tftp_ready_def)
  from rrq_ready [OF this assms(2-4)] obtain m where m: "TFTP_read_request ?E server f d = Some (tftp_reg_timeout
      (?x\<lparr>tftp_net := (tftp_net d)\<lparr>world := m\<rparr>, g_tftp_state := STATE_RRQ, g_filename := f @ 0 # drop (Suc (length f)) (g_filename d)\<rparr>))"
      "unanswered sn m" "requests ?E sn f server 1 (tftp_net d) = Some ((tftp_net d)\<lparr>world := m\<rparr>)"
    by (auto simp: TFTP_read_request_def)
  define d1 where "d1 = tftp_reg_timeout
      (?x\<lparr>tftp_net := (tftp_net d)\<lparr>world := m\<rparr>, g_tftp_state := STATE_RRQ, g_filename := f @ 0 # drop (Suc (length f)) (g_filename d)\<rparr>)"
  have w: "waiting sn f 0 d1" "g_server_ip d1 = server" "tftp_net d1 = (tftp_net d)\<lparr>world := m\<rparr>"
    using assms m(2) by (simp_all add: d1_def waiting_def tftp_idle_def tftp_ready_def tftp_reg_timeout_def)
  have ip: "from_ip \<noteq> g_server_ip d1" and s: "0 + sum_list ks \<le> 24" using assms(6,9) w(2) by simp_all
  obtain d2 where d2: "tftp_polls ?E from_ip port ks d1 = Some (replicate (length ks) TFTP_PROGRESS, d2)"
      "waiting sn f (sum_list ks) d2" "g_server_ip d2 = server"
      "requests ?E sn f server (sum_list ks div 5) (tftp_net d1) = Some (tftp_net d2)"
    using waiting_polls [OF w(1) assms(2,3) ip assms(7,8) s, of port] unfolding w(2) by auto
  have r: "requests ?E sn f server (1 + sum_list ks div 5) (tftp_net d) = Some (tftp_net d2)"
    unfolding requests_add m(3) bind.bind_lunit using d2(4) unfolding w(3) .
  have "\<exists>d3. TFTP_run ?E from_ip port (tftp_timeout_handler d2) = Some (TFTP_FAIL, d3) \<and> g_tftp_state d3 = STATE_NONE \<and>
      requests ?E sn f server 6 (tftp_net d) = Some (tftp_net d3)" if "sum_list ks = 24"
  proof -
    have "from_ip \<noteq> g_server_ip d2" using assms(6) d2(3) by simp
    from waiting_poll(2) [OF d2(2) assms(2,3) this assms(7), of port] that d2(3) obtain d3 where
      d3: "TFTP_run ?E from_ip port (tftp_timeout_handler d2) = Some (TFTP_FAIL, d3)" "g_tftp_state d3 = STATE_NONE"
        "requests ?E sn f server 1 (tftp_net d2) = Some (tftp_net d3)" by auto
    have "requests ?E sn f server 5 (tftp_net d) = Some (tftp_net d2)" using r that by simp
    then have "requests ?E sn f server (5 + 1) (tftp_net d) = Some (tftp_net d3)"
      unfolding requests_add using d3(3) by simp
    then show ?thesis using d3(1,2) by auto
  qed
  then show ?thesis using m(1) d2(1,2) r unfolding d1_def [symmetric] waiting_def by blast
qed

lemma tftp_gives_up_witness:
  "\<exists>d1 d2 d3. TFTP_read_request (ram_chip (\<lambda>_ _ _ _. quiet_mem)) 0xC0A80001 [102] quiet_tftp = Some d1 \<and>
    tftp_polls (ram_chip (\<lambda>_ _ _ _. quiet_mem)) 1 0 (replicate 24 1) d1 = Some (replicate 24 TFTP_PROGRESS, d2) \<and>
    TFTP_run (ram_chip (\<lambda>_ _ _ _. quiet_mem)) 1 0 (tftp_timeout_handler d2) = Some (TFTP_FAIL, d3) \<and>
    g_tftp_state d3 = STATE_NONE"
  using tftp_gives_up [OF quiet_tftp_idle _ quiet_unanswered(2), of "[102]" 1 "0xC0A80001" "replicate 24 1" 0]
  by (auto simp: sum_list_replicate)

end
