(* ===== verification/Http_Parser.thy ===== *)
theory Http_Parser
  imports Clib
begin

text \<open>
  \<^verbatim>\<open>Internet/httpServer/httpParser.c\<close>, the text side of the HTTP server: requests, parameters, percent
  escapes and response headers. A string is the array of characters that holds it, up to its NUL;
  a pointer into it is an offset. Reading or writing outside an array, and going on from a search
  that has failed, are \<open>None\<close>. The pointers passed in are not null.
\<close>

section \<open>Constants\<close>

abbreviation (input) METHOD_ERR :: u8 where "METHOD_ERR \<equiv> 0"
abbreviation (input) METHOD_GET :: u8 where "METHOD_GET \<equiv> 1"
abbreviation (input) METHOD_HEAD :: u8 where "METHOD_HEAD \<equiv> 2"
abbreviation (input) METHOD_POST :: u8 where "METHOD_POST \<equiv> 3"
abbreviation (input) PTYPE_ERR :: u8 where "PTYPE_ERR \<equiv> 0"
abbreviation (input) PTYPE_HTML :: u8 where "PTYPE_HTML \<equiv> 1"
abbreviation (input) PTYPE_GIF :: u8 where "PTYPE_GIF \<equiv> 2"
abbreviation (input) PTYPE_TEXT :: u8 where "PTYPE_TEXT \<equiv> 3"
abbreviation (input) PTYPE_JPEG :: u8 where "PTYPE_JPEG \<equiv> 4"
abbreviation (input) PTYPE_FLASH :: u8 where "PTYPE_FLASH \<equiv> 5"
abbreviation (input) PTYPE_CGI :: u8 where "PTYPE_CGI \<equiv> 8"
abbreviation (input) PTYPE_XML :: u8 where "PTYPE_XML \<equiv> 9"
abbreviation (input) PTYPE_CSS :: u8 where "PTYPE_CSS \<equiv> 10"
abbreviation (input) PTYPE_JS :: u8 where "PTYPE_JS \<equiv> 11"
abbreviation (input) PTYPE_JSON :: u8 where "PTYPE_JSON \<equiv> 12"
abbreviation (input) PTYPE_PNG :: u8 where "PTYPE_PNG \<equiv> 13"
abbreviation (input) PTYPE_ICO :: u8 where "PTYPE_ICO \<equiv> 14"
abbreviation (input) PTYPE_TTF :: u8 where "PTYPE_TTF \<equiv> 20"
abbreviation (input) PTYPE_OTF :: u8 where "PTYPE_OTF \<equiv> 21"
abbreviation (input) PTYPE_WOFF :: u8 where "PTYPE_WOFF \<equiv> 22"
abbreviation (input) PTYPE_EOT :: u8 where "PTYPE_EOT \<equiv> 23"
abbreviation (input) PTYPE_SVG :: u8 where "PTYPE_SVG \<equiv> 24"
abbreviation (input) MAX_URI_SIZE :: nat where "MAX_URI_SIZE \<equiv> 512"

abbreviation (input) CRLF :: string where "CRLF \<equiv> [CHR 0x0D, CHR 0x0A]"

definition RES_HTMLHEAD_OK :: string where
  "RES_HTMLHEAD_OK = ''HTTP/1.1 200 OK'' @ CRLF @ ''Content-Type: text/html'' @ CRLF @ ''Connection: keep-alive'' @ CRLF @ ''Content-Length: ''"
definition RES_GIFHEAD_OK :: string where
  "RES_GIFHEAD_OK = ''HTTP/1.1 200 OK'' @ CRLF @ ''Content-Type: image/gif'' @ CRLF @ ''Content-Length: ''"
definition RES_TEXTHEAD_OK :: string where
  "RES_TEXTHEAD_OK = ''HTTP/1.1 200 OK'' @ CRLF @ ''Content-Type: text/plain'' @ CRLF @ ''Content-Length: ''"
definition RES_JPEGHEAD_OK :: string where
  "RES_JPEGHEAD_OK = ''HTTP/1.1 200 OK'' @ CRLF @ ''Content-Type: image/jpeg'' @ CRLF @ ''Content-Length: ''"
definition RES_FLASHHEAD_OK :: string where
  "RES_FLASHHEAD_OK = ''HTTP/1.1 200 OK'' @ CRLF @ ''Content-Type: application/x-shockwave-flash'' @ CRLF @ ''Content-Length: ''"
definition RES_XMLHEAD_OK :: string where
  "RES_XMLHEAD_OK = ''HTTP/1.1 200 OK'' @ CRLF @ ''Content-Type: text/xml'' @ CRLF @ ''Connection: keep-alive'' @ CRLF @ ''Content-Length: ''"
definition RES_CSSHEAD_OK :: string where
  "RES_CSSHEAD_OK = ''HTTP/1.1 200 OK'' @ CRLF @ ''Content-Type: text/css'' @ CRLF @ ''Content-Length: ''"
definition RES_JSONHEAD_OK :: string where
  "RES_JSONHEAD_OK = ''HTTP/1.1 200 OK'' @ CRLF @ ''Content-Type: application/json'' @ CRLF @ ''Content-Length: ''"
definition RES_JSHEAD_OK :: string where
  "RES_JSHEAD_OK = ''HTTP/1.1 200 OK'' @ CRLF @ ''Content-Type: application/javascript'' @ CRLF @ ''Content-Length: ''"
definition RES_CGIHEAD_OK :: string where
  "RES_CGIHEAD_OK = ''HTTP/1.1 200 OK'' @ CRLF @ ''Content-Type: text/html'' @ CRLF @ ''Content-Length: ''"
definition RES_PNGHEAD_OK :: string where
  "RES_PNGHEAD_OK = ''HTTP/1.1 200 OK'' @ CRLF @ ''Content-Type: image/png'' @ CRLF @ ''Content-Length: ''"
definition RES_ICOHEAD_OK :: string where
  "RES_ICOHEAD_OK = ''HTTP/1.1 200 OK'' @ CRLF @ ''Content-Type: image/x-icon'' @ CRLF @ ''Content-Length: ''"
definition RES_TTFHEAD_OK :: string where
  "RES_TTFHEAD_OK = ''HTTP/1.1 200 OK'' @ CRLF @ ''Content-Type: application/x-font-truetype'' @ CRLF @ ''Content-Length: ''"
definition RES_OTFHEAD_OK :: string where
  "RES_OTFHEAD_OK = ''HTTP/1.1 200 OK'' @ CRLF @ ''Content-Type: application/x-font-opentype'' @ CRLF @ ''Content-Length: ''"
definition RES_WOFFHEAD_OK :: string where
  "RES_WOFFHEAD_OK = ''HTTP/1.1 200 OK'' @ CRLF @ ''Content-Type: application/font-woff'' @ CRLF @ ''Content-Length: ''"
definition RES_EOTHEAD_OK :: string where
  "RES_EOTHEAD_OK = ''HTTP/1.1 200 OK'' @ CRLF @ ''Content-Type: application/vnd.ms-fontobject'' @ CRLF @ ''Content-Length: ''"
definition RES_SVGHEAD_OK :: string where
  "RES_SVGHEAD_OK = ''HTTP/1.1 200 OK'' @ CRLF @ ''Content-Type: image/svg+xml'' @ CRLF @ ''Content-Length: ''"

record st_http_request =
  METHOD :: u8
  TYPE_ :: u8
  URI :: string

section \<open>Numbers and escapes\<close>

definition C2D :: "char \<Rightarrow> u8" where
  "C2D ch = (let c = byte_of_char ch in
     if 0x30 \<le> c \<and> c \<le> 0x39 then c - 0x30
     else if 0x61 \<le> c \<and> c \<le> 0x66 then 10 + c - 0x61
     else if 0x41 \<le> c \<and> c \<le> 0x46 then 10 + c - 0x41
     else c)"

text \<open>\<^verbatim>\<open>ATOI\<close> stops at a NUL or a space.\<close>

definition ATOI :: "string \<Rightarrow> u8 \<Rightarrow> u16 option" where
  "ATOI str base =
     (let ds = takeWhile (\<lambda>c. c \<noteq> NUL \<and> c \<noteq> CHR '' '') str in
      if length ds = length str then None
      else Some (ucast (fold (\<lambda>c num. num * ucast base + ucast (C2D c)) ds (0 :: u32))))"

text \<open>The loop of \<^verbatim>\<open>unescape_http_url\<close>: \<open>y\<close> reads and \<open>x\<close> writes, in the same array.\<close>

function unescape_loop :: "string \<Rightarrow> nat \<Rightarrow> nat \<Rightarrow> string option" where
  "unescape_loop url x y =
     (if length url \<le> y then None
      else if url ! y = NUL then Some (url[x := NUL])
      else if url ! y = CHR ''%'' then
        if length url \<le> y + 2 then None
        else unescape_loop
          (url[x := char_of_byte (C2D (url[x := CHR ''%''] ! (y + 1)) * 0x10 + C2D (url[x := CHR ''%''] ! (y + 2)))]) (x + 1) (y + 3)
      else unescape_loop (url[x := url ! y]) (x + 1) (y + 1))"
  by pat_completeness auto
termination by (relation "measure (\<lambda>(url, x, y). length url - y)") auto

declare unescape_loop.simps [simp del]

definition unescape_http_url :: "string \<Rightarrow> string option" where
  "unescape_http_url url = unescape_loop url 0 0"

definition replacetochar :: "string \<Rightarrow> char \<Rightarrow> char \<Rightarrow> string option" where
  "replacetochar str oldchar newchar =
     (case c_str str of None \<Rightarrow> None
      | Some s \<Rightarrow> Some (map (\<lambda>c. if c = oldchar then newchar else c) s @ drop (length s) str))"

section \<open>Responses\<close>

definition http_head :: "u8 \<Rightarrow> string option" where
  "http_head type =
     (if type = PTYPE_HTML then Some RES_HTMLHEAD_OK
      else if type = PTYPE_GIF then Some RES_GIFHEAD_OK
      else if type = PTYPE_TEXT then Some RES_TEXTHEAD_OK
      else if type = PTYPE_JPEG then Some RES_JPEGHEAD_OK
      else if type = PTYPE_FLASH then Some RES_FLASHHEAD_OK
      else if type = PTYPE_XML then Some RES_XMLHEAD_OK
      else if type = PTYPE_CSS then Some RES_CSSHEAD_OK
      else if type = PTYPE_JSON then Some RES_JSONHEAD_OK
      else if type = PTYPE_JS then Some RES_JSHEAD_OK
      else if type = PTYPE_CGI then Some RES_CGIHEAD_OK
      else if type = PTYPE_PNG then Some RES_PNGHEAD_OK
      else if type = PTYPE_ICO then Some RES_ICOHEAD_OK
      else if type = PTYPE_TTF then Some RES_TTFHEAD_OK
      else if type = PTYPE_OTF then Some RES_OTFHEAD_OK
      else if type = PTYPE_WOFF then Some RES_WOFFHEAD_OK
      else if type = PTYPE_EOT then Some RES_EOTHEAD_OK
      else if type = PTYPE_SVG then Some RES_SVGHEAD_OK
      else None)"

text \<open>\<^verbatim>\<open>sprintf(tmp, "%ld", len)\<close>: the word is printed as a signed number.\<close>

definition long_text :: "u32 \<Rightarrow> string" where
  "long_text len = (if sint len < 0 then CHR ''-'' # dec_text (nat (- sint len)) else dec_text (nat (sint len)))"

definition make_http_response_head :: "string \<Rightarrow> u8 \<Rightarrow> u32 \<Rightarrow> string option" where
  "make_http_response_head buf type len =
     (if 10 < length (long_text len) + 1 then None
      else do { head \<leftarrow> http_head type; strcpy_at buf (head @ long_text len @ CRLF @ CRLF) })"

text \<open>Whether \<^verbatim>\<open>strstr\<close> finds an extension in the name.\<close>

definition has :: "string \<Rightarrow> string \<Rightarrow> bool" where
  "has s p \<longleftrightarrow> strstr s p \<noteq> None"

definition find_http_uri_type :: "string \<Rightarrow> u8 option" where
  "find_http_uri_type buff = map_option (\<lambda>s.
     (if has s ''.htm'' \<or> has s ''.html'' then PTYPE_HTML
      else if has s ''.gif'' then PTYPE_GIF
      else if has s ''.text'' \<or> has s ''.txt'' then PTYPE_TEXT
      else if has s ''.jpeg'' \<or> has s ''.jpg'' then PTYPE_JPEG
      else if has s ''.swf'' then PTYPE_FLASH
      else if has s ''.cgi'' \<or> has s ''.CGI'' then PTYPE_CGI
      else if has s ''.json'' \<or> has s ''.JSON'' then PTYPE_JSON
      else if has s ''.js'' \<or> has s ''.JS'' then PTYPE_JS
      else if has s ''.CGI'' \<or> has s ''.cgi'' then PTYPE_CGI
      else if has s ''.xml'' \<or> has s ''.XML'' then PTYPE_XML
      else if has s ''.css'' \<or> has s ''.CSS'' then PTYPE_CSS
      else if has s ''.png'' \<or> has s ''.PNG'' then PTYPE_PNG
      else if has s ''.ico'' \<or> has s ''.ICO'' then PTYPE_ICO
      else if has s ''.ttf'' \<or> has s ''.TTF'' then PTYPE_TTF
      else if has s ''.otf'' \<or> has s ''.OTF'' then PTYPE_OTF
      else if has s ''.woff'' \<or> has s ''.WOFF'' then PTYPE_WOFF
      else if has s ''.eot'' \<or> has s ''.EOT'' then PTYPE_EOT
      else if has s ''.svg'' \<or> has s ''.SVG'' then PTYPE_SVG
      else PTYPE_ERR)) (c_str buff)"

section \<open>Requests\<close>

text \<open>The request and the array, in which \<^verbatim>\<open>strtok\<close> has put its NULs.\<close>

definition parse_http_request :: "st_http_request \<Rightarrow> string \<Rightarrow> (st_http_request \<times> string) option" where
  "parse_http_request request buf = do {
     (buf, tok, pos) \<leftarrow> strtok buf 0 '' '';
     case tok of None \<Rightarrow> Some (request\<lparr>METHOD := METHOD_ERR\<rparr>, buf)
     | Some i \<Rightarrow> do {
         word \<leftarrow> c_str (drop i buf);
         (method, buf, tok) \<leftarrow>
           (if word = ''GET'' \<or> word = ''get'' then do { (buf, tok, _) \<leftarrow> strtok buf pos '' ''; Some (METHOD_GET, buf, tok) }
            else if word = ''HEAD'' \<or> word = ''head'' then do { (buf, tok, _) \<leftarrow> strtok buf pos '' ''; Some (METHOD_HEAD, buf, tok) }
            else if word = ''POST'' \<or> word = ''post'' then do { (buf, tok, _) \<leftarrow> strtok buf pos []; Some (METHOD_POST, buf, tok) }
            else Some (METHOD_ERR, buf, Some i));
         case tok of None \<Rightarrow> Some (request\<lparr>METHOD := METHOD_ERR\<rparr>, buf)
         | Some j \<Rightarrow> do {
             uri \<leftarrow> c_str (drop j buf);
             uri \<leftarrow> strcpy_at (URI request) uri;
             Some (request\<lparr>METHOD := method, URI := uri\<rparr>, buf)
           }
       }
   }"

text \<open>The text between two strings, written to the start of \<open>sub\<close>; its length is kept in 16 bits.\<close>

definition mid :: "string \<Rightarrow> string \<Rightarrow> string \<Rightarrow> string \<Rightarrow> string option" where
  "mid src s1 s2 sub = do {
     s \<leftarrow> c_str src;
     t \<leftarrow> strstr s s1;
     let t = drop (length s1) t;
     u \<leftarrow> strstr t s2;
     strcpy_at sub (take ((length t - length u) mod 2 ^ 16) t)
   }"

text \<open>
  The value of a parameter in the body of a request: whether it was found, the array of the request
  (the body is ended with a NUL) and \<^verbatim>\<open>BUFPUB\<close>, an array of 256 bytes, with the value.
\<close>

definition get_http_param_value :: "string \<Rightarrow> string \<Rightarrow> string \<Rightarrow> (bool \<times> string \<times> string) option" where
  "get_http_param_value uri param_name bufpub = do {
     tmp_buf \<leftarrow> mid uri ''Content-Length: '' CRLF (replicate 10 NUL);
     content_len \<leftarrow> ATOI tmp_buf 10;
     s \<leftarrow> c_str uri;
     t \<leftarrow> strstr s (CRLF @ CRLF);
     let body = length s - length t + 4;
     if length uri \<le> body + unat content_len then None
     else do {
       let uri = uri[body + unat content_len := NUL];
       b \<leftarrow> c_str (drop body uri);
       case strstr b param_name of None \<Rightarrow> Some (False, uri, bufpub)
       | Some r \<Rightarrow> do {
           let name = body + (length b - length r) + length param_name + 1;
           v \<leftarrow> c_str (drop name uri);
           let len = length v - (case strstr v ''&'' of None \<Rightarrow> 0 | Some w \<Rightarrow> length w);
           let val = take (len mod 2 ^ 16) v;
           if val = [] then Some (True, uri, bufpub[0 := NUL])
           else do {
             ret \<leftarrow> strcpy_at bufpub val;
             ret \<leftarrow> unescape_http_url ret;
             ret \<leftarrow> replacetochar ret CHR ''+'' CHR '' '';
             Some (True, uri, ret)
           }
         }
     }
   }"

definition get_http_uri_name :: "string \<Rightarrow> string \<Rightarrow> string option" where
  "get_http_uri_name uri uri_buf = do {
     s \<leftarrow> c_str uri;
     buf \<leftarrow> strcpy_at uri_buf s;
     (buf, tok, _) \<leftarrow> strtok buf 0 '' ?'';
     i \<leftarrow> tok;
     w \<leftarrow> c_str (drop i buf);
     strcpy_at buf (if w \<noteq> ''/'' then drop 1 w else w)
   }"

text \<open>The loop of \<^verbatim>\<open>inet_addr\<close> on the copy of the address; \<open>k\<close> parts are still to be read.\<close>

primrec inet_loop :: "nat \<Rightarrow> string \<Rightarrow> nat \<Rightarrow> u8 list option" where
  "inet_loop 0 taddr pos = Some []"
| "inet_loop (Suc k) taddr pos = do {
     (taddr, tok, pos) \<leftarrow> strtok taddr pos ''.'';
     i \<leftarrow> tok;
     w \<leftarrow> c_str (drop i taddr);
     num \<leftarrow> (if take 2 w = ''0x'' then ATOI (drop (i + 2) taddr) 0x10 else ATOI (drop i taddr) 10);
     ip \<leftarrow> inet_loop k taddr pos;
     Some (ucast num # ip)
   }"

definition inet_addr :: "string \<Rightarrow> u8 list option" where
  "inet_addr addr = do {
     s \<leftarrow> c_str addr;
     taddr \<leftarrow> strcpy_at (replicate 30 NUL) s;
     inet_loop 4 taddr 0
   }"

section \<open>Percent encoding\<close>

text \<open>The reference encoder: \<open>esc\<close> says which characters the client writes as a percent sign and two digits.\<close>

definition hex_char :: "nat \<Rightarrow> char" where
  "hex_char n = char_of (if n < 10 then n + 48 else n + 55)"

definition pct :: "(char \<Rightarrow> bool) \<Rightarrow> char \<Rightarrow> string" where
  "pct esc c = (if esc c then [CHR ''%'', hex_char (of_char c div 16), hex_char (of_char c mod 16)] else [c])"

definition pct_encode :: "(char \<Rightarrow> bool) \<Rightarrow> string \<Rightarrow> string" where
  "pct_encode esc s = concat (map (pct esc) s)"

lemma pct_encode_simps [simp]:
  "pct_encode esc [] = []"
  "pct_encode esc (c # s) = pct esc c @ pct_encode esc s"
  by (simp_all add: pct_encode_def)

lemma C2D_digit: "C2D (char_of (n + 48)) = of_nat n" if "n < 10"
proof -
  have e: "byte_of_char (char_of (n + 48)) = of_nat n + 0x30" using that by (simp add: byte_of_char_def)
  have "unat (of_nat n + 0x30 :: u8) = n + 48" using that by (simp add: unat_word_ariths unat_of_nat)
  then have "0x30 \<le> (of_nat n + 0x30 :: u8)" "(of_nat n + 0x30 :: u8) \<le> 0x39"
    using that by (simp_all add: word_le_nat_alt)
  then show ?thesis by (simp only: C2D_def e Let_def simp_thms if_True) simp
qed

lemma C2D_letter: "C2D (char_of (n + 55)) = of_nat n" if "10 \<le> n" "n < 16"
proof -
  have e: "byte_of_char (char_of (n + 55)) = of_nat n + 0x37" using that by (simp add: byte_of_char_def)
  have u: "unat (of_nat n + 0x37 :: u8) = n + 55" using that by (simp add: unat_word_ariths unat_of_nat)
  have "\<not> (of_nat n + 0x37 :: u8) \<le> 0x39" "\<not> 0x61 \<le> (of_nat n + 0x37 :: u8)"
    "0x41 \<le> (of_nat n + 0x37 :: u8)" "(of_nat n + 0x37 :: u8) \<le> 0x46"
    using that by (simp_all only: word_le_nat_alt u) simp_all
  then show ?thesis by (simp only: C2D_def e Let_def simp_thms if_True if_False) simp
qed

lemma C2D_hex_char: "n < 16 \<Longrightarrow> C2D (hex_char n) = of_nat n"
  by (simp add: hex_char_def C2D_digit C2D_letter)

lemma C2D_pair:
  "char_of_byte (C2D (hex_char (of_char c div 16)) * 0x10 + C2D (hex_char (of_char c mod 16))) = c"
proof -
  have c: "of_char c < (256 :: nat)" by simp
  then have d: "of_char c div 16 < (16 :: nat)" by (simp add: less_mult_imp_div_less)
  have "(of_nat (of_char c div 16) * 0x10 + of_nat (of_char c mod 16) :: u8)
      = of_nat (of_char c div 16 * 16 + of_char c mod 16)"
    by (simp only: of_nat_add of_nat_mult of_nat_numeral)
  then show ?thesis
    using d c by (simp add: C2D_hex_char char_of_byte_def unat_of_nat del: of_nat_mult of_nat_add)
qed

lemma pct_step:
  assumes "x \<le> length pre" "c \<noteq> NUL" "c = CHR ''%'' \<Longrightarrow> esc c"
  shows "unescape_loop (pre @ pct esc c @ r) x (length pre)
       = unescape_loop ((pre @ pct esc c)[x := c] @ r) (x + 1) (length (pre @ pct esc c))"
proof (cases "esc c")
  case True
  have x: "x < length (pre @ pct esc c)" using assms(1) True by (simp add: pct_def)
  have n: "(pre @ pct esc c @ r)[x := CHR ''%''] ! (length pre + 1) = hex_char (of_char c div 16)"
    "(pre @ pct esc c @ r)[x := CHR ''%''] ! (length pre + 2) = hex_char (of_char c mod 16)"
    using assms(1) True by (simp_all add: pct_def nth_append)
  show ?thesis
    using True x list_update_append1 [OF x, of r c]
    by (subst unescape_loop.simps, unfold n C2D_pair) (simp add: pct_def nth_append numeral_3_eq_3)
next
  case False
  then have "c \<noteq> CHR ''%''" using assms(3) by blast
  from False have x: "x < length (pre @ pct esc c)" using assms(1) by (simp add: pct_def)
  show ?thesis
    using False \<open>c \<noteq> CHR ''%''\<close> assms(2) x list_update_append1 [OF x, of r c]
    by (subst unescape_loop.simps) (simp add: pct_def nth_append)
qed

lemma unescape_loop_encoded:
  assumes "NUL \<notin> set s" "CHR ''%'' \<in> set s \<Longrightarrow> esc CHR ''%''" "x \<le> length pre"
  shows "\<exists>t. unescape_loop (pre @ pct_encode esc s @ NUL # r) x (length pre) = Some (take x pre @ s @ NUL # t)
      \<and> length (take x pre @ s @ NUL # t) = length (pre @ pct_encode esc s @ NUL # r)"
  using assms
proof (induction s arbitrary: x pre)
  case Nil
  let ?u = "pre @ NUL # r"
  have "x < length ?u" using Nil by simp
  then have "?u[x := NUL] = take x ?u @ NUL # drop (Suc x) ?u" by (rule upd_conv_take_nth_drop)
  with Nil show ?case by (subst unescape_loop.simps) (simp add: nth_append)
next
  case (Cons c s)
  let ?pre = "(pre @ pct esc c)[x := c]"
  have l: "x < length (pre @ pct esc c)" using Cons.prems by (simp add: pct_def)
  have "unescape_loop (pre @ pct_encode esc (c # s) @ NUL # r) x (length pre)
      = unescape_loop (?pre @ pct_encode esc s @ NUL # r) (x + 1) (length ?pre)"
    using pct_step [of x pre c esc "pct_encode esc s @ NUL # r"] Cons.prems by auto
  moreover have "take (x + 1) ?pre = take x pre @ [c]"
    using l Cons.prems(3) by (simp add: take_Suc_conv_app_nth)
  moreover have "\<exists>t. unescape_loop (?pre @ pct_encode esc s @ NUL # r) (x + 1) (length ?pre)
      = Some (take (x + 1) ?pre @ s @ NUL # t)
      \<and> length (take (x + 1) ?pre @ s @ NUL # t) = length (?pre @ pct_encode esc s @ NUL # r)"
    using Cons.prems l by (intro Cons.IH) auto
  ultimately show ?case by auto
qed

lemma unescape_encoded:
  assumes "NUL \<notin> set s" "CHR ''%'' \<in> set s \<Longrightarrow> esc CHR ''%''"
  shows "\<exists>t. unescape_http_url (pct_encode esc s @ NUL # r) = Some (s @ NUL # t)"
  using unescape_loop_encoded [of s esc 0 "[]" r] assms by (auto simp: unescape_http_url_def)

text \<open>A percent sign before the last character takes the NUL for a digit and goes on behind it.\<close>

lemma unescape_runs_past_end:
  assumes "set s \<inter> {NUL, CHR ''%''} = {}" "c \<noteq> NUL"
  shows "unescape_http_url (s @ [CHR ''%'', c, NUL]) = None"
proof -
  have "unescape_loop (s @ [CHR ''%'', c, NUL]) (length p) (length p) = None"
    if "s = p @ q" for p q
    using that
  proof (induction q arbitrary: p)
    case Nil
    then show ?case by (simp add: unescape_loop.simps nth_append)
  next
    case (Cons x q)
    have "x \<notin> {NUL, CHR ''%''}" using Cons.prems assms(1) by auto
    then show ?case
      using Cons.IH [of "p @ [x]"] Cons.prems
      by (subst unescape_loop.simps) (simp add: nth_append list_update_append)
  qed
  from this [of "[]" s] show ?thesis by (simp add: unescape_http_url_def)
qed

section \<open>Searching\<close>

text \<open>The first place where \<open>p\<close> stands in \<open>w @ p\<close> is its end.\<close>

definition first_in :: "string \<Rightarrow> string \<Rightarrow> bool" where
  "first_in p w \<longleftrightarrow> strstr (w @ p) p = Some p"

lemma strstr_length: "strstr s p = Some t \<Longrightarrow> length t \<le> length s"
  by (induction s p rule: strstr.induct) (auto split: if_splits)

lemma strstr_here: "strstr (p @ r) p = Some (p @ r)"
  by (cases p; cases r) (simp_all add: strncmp_eq_def)

lemma strstr_first:
  assumes "first_in p w" shows "strstr (w @ p @ r) p = Some (p @ r)"
  using assms unfolding first_in_def
proof (induction w)
  case (Cons c w)
  have "take (length p) (c # w @ p @ r) = take (length p) (c # w @ p)"
    using take_append [of "length p" "c # w @ p" r] by simp
  with Cons show ?case by (auto simp: strncmp_eq_def split: if_splits dest: arg_cong [of _ _ length])
qed (simp add: strstr_here)

lemma first_in_fresh: "p \<noteq> [] \<Longrightarrow> hd p \<notin> set w \<Longrightarrow> first_in p w"
  unfolding first_in_def
proof (induction w)
  case (Cons c w)
  then show ?case by (cases p) (auto simp: strncmp_eq_def)
qed (use strstr_here [of p "[]"] in simp)

lemma strstr_none: "p \<noteq> [] \<Longrightarrow> hd p \<notin> set w \<Longrightarrow> strstr w p = None"
  by (induction w) (cases p; auto simp: strncmp_eq_def)+

lemma c_str_append: "NUL \<notin> set s \<Longrightarrow> c_str (s @ NUL # r) = Some s"
  unfolding c_str_def by (subst takeWhile_append2) auto

lemma ATOI_dec_text:
  assumes "n < 65536" shows "ATOI (dec_text n @ NUL # r) 10 = Some (of_nat n)"
proof -
  have "fold (\<lambda>c num. num * ucast (10 :: u8) + ucast (C2D c)) (map (\<lambda>d. char_of (d + 48)) ds) (of_nat a)
      = (of_nat (foldl (\<lambda>acc d. acc * 10 + d) a ds) :: u32)" if "\<And>d. d \<in> set ds \<Longrightarrow> d < (10 :: nat)" for a ds
    using that
  proof (induction ds arbitrary: a)
    case (Cons d ds)
    have "d < 10" using Cons.prems [of d] by simp
    then have "(ucast (C2D (char_of (d + 48))) :: u32) = of_nat d"
      by (simp add: C2D_digit unsigned_of_nat take_bit_nat_eq_self)
    with Cons.IH [of "a * 10 + d"] Cons.prems show ?case by simp
  qed simp
  from this [of "radix 10 n" 0] have
    "fold (\<lambda>c num. num * ucast (10 :: u8) + ucast (C2D c)) (dec_text n) 0 = (of_nat n :: u32)"
    using radix_digits [of 10 _ n] radix_value [of 10 n] by (simp add: dec_text_def)
  moreover have "\<forall>c \<in> set (dec_text n). c \<noteq> NUL \<and> c \<noteq> CHR '' ''"
    using dec_text_digits by (fastforce simp: is_digit_def)
  then have "takeWhile (\<lambda>c. c \<noteq> NUL \<and> c \<noteq> CHR '' '') (dec_text n @ NUL # r) = dec_text n"
    by (subst takeWhile_append2) auto
  ultimately show ?thesis using assms by (simp add: ATOI_def Let_def unsigned_of_nat take_bit_nat_eq_self)
qed

lemma strcpy_at_fits:
  "length s < length a \<Longrightarrow> \<exists>t. strcpy_at a s = Some (s @ NUL # t) \<and> length (s @ NUL # t) = length a"
  by (simp add: strcpy_at_def)

lemma c_str_prefix: "NUL \<notin> set s \<Longrightarrow> NUL \<in> set x \<Longrightarrow> c_str (s @ x) = Some (s @ takeWhile (\<lambda>c. c \<noteq> NUL) x)"
  unfolding c_str_def by (subst takeWhile_append2) auto

lemma mid_found:
  assumes "first_in s1 w" "first_in s2 v" "NUL \<notin> set (w @ s1 @ v @ s2)" "NUL \<in> set x"
    "length v < length sub" "length v < 2 ^ 16"
  shows "\<exists>t. mid (w @ s1 @ v @ s2 @ x) s1 s2 sub = Some (v @ NUL # t)"
proof -
  have "c_str (w @ s1 @ v @ s2 @ x) = Some (w @ s1 @ v @ s2 @ takeWhile (\<lambda>c. c \<noteq> NUL) x)"
    using c_str_prefix [OF assms(3,4)] by simp
  then show ?thesis
    using assms(5,6) strcpy_at_fits [of v sub]
    by (auto simp: mid_def strstr_first [OF assms(1)] strstr_first [OF assms(2)] Let_def)
qed

section \<open>Request lines\<close>

text \<open>
  A GET or HEAD request line is split into its method and its path: the request holds the method's
  code and the path as a string, and the two spaces of the line are overwritten with NULs.
\<close>

theorem http_request_parsed:
  assumes "(m, k) \<in> {(''GET'', METHOD_GET), (''get'', METHOD_GET), (''HEAD'', METHOD_HEAD), (''head'', METHOD_HEAD)}"
    and "u \<noteq> []" "set u \<inter> {NUL, CHR '' ''} = {}" "length u < length (URI request)" "NUL \<in> set r"
  shows "parse_http_request request (m @ CHR '' '' # u @ CHR '' '' # r)
       = Some (request\<lparr>METHOD := k, URI := u @ NUL # drop (length u + 1) (URI request)\<rparr>, m @ NUL # u @ NUL # r)"
proof -
  have m: "m \<noteq> []" "set m \<inter> {NUL, CHR '' ''} = {}" using assms(1) by auto
  have s1: "strtok (m @ CHR '' '' # u @ CHR '' '' # r) 0 '' '' = Some (m @ NUL # u @ CHR '' '' # r, Some 0, length m + 1)"
    using strtok_word [of "'' ''" m "CHR '' ''" "u @ CHR '' '' # r" "[]"] m assms(5) by simp
  have c: "c_str (m @ NUL # u @ CHR '' '' # r) = Some m" using m by (intro c_str_append) auto
  have s2: "strtok (m @ NUL # u @ CHR '' '' # r) (Suc (length m)) '' ''
      = Some (m @ NUL # u @ NUL # r, Some (Suc (length m)), length m + length u + 2)"
    using strtok_word [of "'' ''" u "CHR '' ''" r "m @ [NUL]"] assms(2,3,5) by simp
  have "c_str (drop (Suc (length m)) (m @ NUL # u @ NUL # r)) = Some u"
    using assms(3) c_str_append [of u r] by simp
  then show ?thesis
    using assms(1,4) s1 s2 c by (auto simp: parse_http_request_def strcpy_at_def)
qed

lemma http_request_parsed_witness:
  "parse_http_request \<lparr>METHOD = 0, TYPE_ = 0, URI = replicate 512 NUL\<rparr> (''GET /index.html HTTP/1.1'' @ [NUL])
   = Some (\<lparr>METHOD = METHOD_GET, TYPE_ = 0, URI = ''/index.html'' @ NUL # replicate 500 NUL\<rparr>,
       ''GET'' @ NUL # ''/index.html'' @ NUL # ''HTTP/1.1'' @ [NUL])"
  using http_request_parsed [of "''GET''" METHOD_GET "''/index.html''" "\<lparr>METHOD = 0, TYPE_ = 0, URI = replicate 512 NUL\<rparr>" "''HTTP/1.1'' @ [NUL]"]
  by simp

section \<open>Form values\<close>

lemma hex_char_amp: "n < 16 \<Longrightarrow> hex_char n \<noteq> CHR ''&'' \<and> hex_char n \<noteq> NUL"
proof -
  assume n: "n < 16"
  then have c: "of_char (hex_char n) = (if n < 10 then n + 48 else n + 55)" by (auto simp: hex_char_def)
  have "hex_char n \<noteq> CHR ''&''"
  proof
    assume "hex_char n = CHR ''&''"
    then have "of_char (hex_char n) = (38 :: nat)" by simp
    with c show False by (simp split: if_splits)
  qed
  moreover have "hex_char n \<noteq> NUL"
  proof
    assume "hex_char n = NUL"
    then have "of_char (hex_char n) = (0 :: nat)" by simp
    with c show False by (simp split: if_splits)
  qed
  ultimately show ?thesis by blast
qed

lemma pct_fresh:
  assumes "c = CHR ''&'' \<Longrightarrow> esc CHR ''&''" "c \<noteq> NUL"
  shows "CHR ''&'' \<notin> set (pct esc c)" "NUL \<notin> set (pct esc c)"
proof -
  have "of_char c div 16 < (16 :: nat)" by (simp add: less_mult_imp_div_less)
  then show "CHR ''&'' \<notin> set (pct esc c)" "NUL \<notin> set (pct esc c)"
    using assms hex_char_amp [of "of_char c div 16"] hex_char_amp [of "of_char c mod 16"]
    by (auto simp: pct_def)
qed

lemma pct_encode_fresh:
  assumes "CHR ''&'' \<in> set s \<Longrightarrow> esc CHR ''&''" "NUL \<notin> set s"
  shows "CHR ''&'' \<notin> set (pct_encode esc s)" "NUL \<notin> set (pct_encode esc s)"
  using assms by (induction s) (auto dest: pct_fresh [THEN notE, rotated -1])

lemma pct_encode_Nil [simp]: "pct_encode esc s = [] \<longleftrightarrow> s = []"
  by (cases s) (auto simp: pct_def)

text \<open>The header of a request up to the blank line is read: the announced length and the place of the body.\<close>

lemma http_head_read:
  assumes "first_in ''Content-Length: '' head" "first_in (CRLF @ CRLF) t"
    and "t = head @ ''Content-Length: '' @ dec_text n @ hs" "take 2 (hs @ CRLF) = CRLF"
    and "NUL \<notin> set t" "NUL \<in> set x" "n < 65536"
  shows "\<exists>a. mid (t @ CRLF @ CRLF @ x) ''Content-Length: '' CRLF (replicate 10 NUL) = Some (dec_text n @ NUL # a)"
    and "ATOI (dec_text n @ NUL # a) 10 = Some (of_nat n)"
    and "c_str (t @ CRLF @ CRLF @ x) = Some (t @ CRLF @ CRLF @ takeWhile (\<lambda>c. c \<noteq> NUL) x)"
    and "strstr (t @ CRLF @ CRLF @ takeWhile (\<lambda>c. c \<noteq> NUL) x) (CRLF @ CRLF)
       = Some (CRLF @ CRLF @ takeWhile (\<lambda>c. c \<noteq> NUL) x)"
proof -
  have "hs @ CRLF @ CRLF @ x = CRLF @ drop 2 (hs @ CRLF) @ CRLF @ x"
    using assms(4) append_take_drop_id [of 2 "hs @ CRLF"] by (metis append_assoc)
  then have t: "t @ CRLF @ CRLF @ x = head @ ''Content-Length: '' @ dec_text n @ CRLF @ drop 2 (hs @ CRLF) @ CRLF @ x"
    using assms(3) by simp
  have d: "length (dec_text n) \<le> 5" using assms(7) by (intro dec_text_length) simp_all
  have "hd CRLF \<notin> set (dec_text n)" using dec_text_digits by (fastforce simp: is_digit_def)
  then have "first_in CRLF (dec_text n)" by (intro first_in_fresh) simp_all
  from mid_found [OF assms(1) this, of "drop 2 (hs @ CRLF) @ CRLF @ x" "replicate 10 NUL"]
  show "\<exists>a. mid (t @ CRLF @ CRLF @ x) ''Content-Length: '' CRLF (replicate 10 NUL) = Some (dec_text n @ NUL # a)"
    using assms(3,5,6) d unfolding t by simp
  show "ATOI (dec_text n @ NUL # a) 10 = Some (of_nat n)" by (rule ATOI_dec_text [OF assms(7)])
  show "c_str (t @ CRLF @ CRLF @ x) = Some (t @ CRLF @ CRLF @ takeWhile (\<lambda>c. c \<noteq> NUL) x)"
    using c_str_prefix [of "t @ CRLF @ CRLF" x] assms(5,6) by simp
  show "strstr (t @ CRLF @ CRLF @ takeWhile (\<lambda>c. c \<noteq> NUL) x) (CRLF @ CRLF)
       = Some (CRLF @ CRLF @ takeWhile (\<lambda>c. c \<noteq> NUL) x)"
    using strstr_first [OF assms(2)] by simp
qed

text \<open>The value of a parameter is the encoded text up to the next ampersand.\<close>

lemma form_value_found:
  assumes "first_in name w" "NUL \<notin> set (w @ name @ ''='' @ e @ post)" "CHR ''&'' \<notin> set e" "length e < 2 ^ 16"
    and "post = [] \<or> (\<exists>p. post = CHR ''&'' # p)"
    and "b = w @ name @ ''='' @ e @ post"
  shows "strstr b name = Some (name @ ''='' @ e @ post)"
    and "c_str (drop (length q + (length b - length (name @ ''='' @ e @ post)) + length name + 1) (q @ b @ NUL # r)) = Some (e @ post)"
    and "take ((length (e @ post) - (case strstr (e @ post) ''&'' of None \<Rightarrow> 0 | Some v \<Rightarrow> length v)) mod 2 ^ 16) (e @ post) = e"
proof -
  show "strstr b name = Some (name @ ''='' @ e @ post)"
    using strstr_first [OF assms(1)] by (simp add: assms(6))
  have "drop (length q + (length b - length (name @ ''='' @ e @ post)) + length name + 1) (q @ b @ NUL # r)
      = (e @ post) @ NUL # r" by (simp add: assms(6))
  then show "c_str (drop (length q + (length b - length (name @ ''='' @ e @ post)) + length name + 1) (q @ b @ NUL # r)) = Some (e @ post)"
    using assms(2) c_str_append [of "e @ post" r] by simp
  have "(length (e @ post) - (case strstr (e @ post) ''&'' of None \<Rightarrow> 0 | Some v \<Rightarrow> length v)) = length e"
  proof (cases "post = []")
    case True
    then show ?thesis using strstr_none [of "''&''" e] assms(3) by simp
  next
    case False
    then obtain p where "post = ''&'' @ p" using assms(5) by auto
    then show ?thesis using strstr_first [OF first_in_fresh, of "''&''" e p] assms(3) by simp
  qed
  then show "take ((length (e @ post) - (case strstr (e @ post) ''&'' of None \<Rightarrow> 0 | Some v \<Rightarrow> length v)) mod 2 ^ 16) (e @ post) = e"
    using assms(4) by simp
qed

lemma form_value_decoded:
  assumes "NUL \<notin> set v" "CHR ''%'' \<in> set v \<Longrightarrow> esc CHR ''%''" "length (pct_encode esc v) < length bufpub"
  shows "\<exists>a. (if pct_encode esc v = [] then Some (True, u, bufpub[0 := NUL])
      else do {
        ret \<leftarrow> strcpy_at bufpub (pct_encode esc v);
        ret \<leftarrow> unescape_http_url ret;
        ret \<leftarrow> replacetochar ret CHR ''+'' CHR '' '';
        Some (True, u, ret)
      }) = Some (True, u, map (\<lambda>c. if c = CHR ''+'' then CHR '' '' else c) v @ NUL # a)"
proof (cases "v = []")
  case True
  then show ?thesis using assms(3) by (cases bufpub) simp_all
next
  case False
  obtain r where s: "strcpy_at bufpub (pct_encode esc v) = Some (pct_encode esc v @ NUL # r)"
    using strcpy_at_fits [OF assms(3)] by blast
  obtain t where t: "unescape_http_url (pct_encode esc v @ NUL # r) = Some (v @ NUL # t)"
    using unescape_encoded [of v esc r] assms(1,2) by blast
  have "replacetochar (v @ NUL # t) CHR ''+'' CHR '' ''
      = Some (map (\<lambda>c. if c = CHR ''+'' then CHR '' '' else c) v @ NUL # t)"
    by (simp add: replacetochar_def c_str_append [OF assms(1)])
  with False s t show ?thesis by simp
qed

text \<open>
  C39. In a request whose Content-Length announces its body, the parameter whose name comes first in
  the body is found, and its value is the percent-decoded text up to the next ampersand -- except that
  every plus sign is turned into a space, also one that the client has encoded as %2B, since the escapes
  are decoded before the plus signs are replaced. Only the NUL behind the body is written to the request.
\<close>

theorem http_form_value:
  assumes "t = head @ ''Content-Length: '' @ dec_text (length b) @ hs" "take 2 (hs @ CRLF) = CRLF"
    and "b = w @ name @ ''='' @ pct_encode esc v @ post" "post = [] \<or> (\<exists>p. post = CHR ''&'' # p)"
    and "first_in ''Content-Length: '' head" "first_in (CRLF @ CRLF) t" "first_in name w"
    and "NUL \<notin> set (t @ w @ name @ v @ post)" "NUL \<in> set r" "length b < 65536"
    and "CHR ''%'' \<in> set v \<Longrightarrow> esc CHR ''%''" "CHR ''&'' \<in> set v \<Longrightarrow> esc CHR ''&''"
    and "length (pct_encode esc v) < length bufpub"
  shows "\<exists>a. get_http_param_value (t @ CRLF @ CRLF @ b @ r) name bufpub
       = Some (True, t @ CRLF @ CRLF @ b @ NUL # tl r, map (\<lambda>c. if c = CHR ''+'' then CHR '' '' else c) v @ NUL # a)"
proof -
  let ?e = "pct_encode esc v" let ?q = "t @ CRLF @ CRLF"
  have nul: "NUL \<notin> set ?e" "CHR ''&'' \<notin> set ?e" using pct_encode_fresh [of v esc] assms(8,12) by auto
  have nt: "NUL \<notin> set t" and nb: "NUL \<notin> set b" using assms(3,8) nul by auto
  have nx: "NUL \<in> set (b @ r)" using assms(9) by simp
  note H = http_head_read [OF assms(5,6,1,2) nt nx assms(10)]
  obtain a where m: "mid (t @ CRLF @ CRLF @ b @ r) ''Content-Length: '' CRLF (replicate 10 NUL) = Some (dec_text (length b) @ NUL # a)"
    using H(1) by blast
  let ?y = "takeWhile (\<lambda>c. c \<noteq> NUL) (b @ r)"
  have l: "length (t @ CRLF @ CRLF @ ?y) - length (CRLF @ CRLF @ ?y) + 4 = length ?q" by simp
  have n: "unat (of_nat (length b) :: u16) = length b" using assms(10) by (simp add: unat_of_nat)
  obtain c r' where r: "r = c # r'" using assms(9) by (cases r) auto
  have cut: "(t @ CRLF @ CRLF @ b @ r)[length ?q + length b := NUL] = ?q @ b @ NUL # tl r"
    using list_update_append [of "?q @ b" r "length ?q + length b" NUL] by (simp add: r)
  have fits: "\<not> length (t @ CRLF @ CRLF @ b @ r) \<le> length ?q + length b" by (simp add: r)
  have body: "c_str (drop (length ?q) (?q @ b @ NUL # tl r)) = Some b"
    using c_str_append [OF nb] by simp
  note F = form_value_found [OF assms(7) _ nul(2) _ assms(4,3)]
  obtain z where z: "(if ?e = [] then Some (True, ?q @ b @ NUL # tl r, bufpub[0 := NUL])
      else do {
        ret \<leftarrow> strcpy_at bufpub ?e;
        ret \<leftarrow> unescape_http_url ret;
        ret \<leftarrow> replacetochar ret CHR ''+'' CHR '' '';
        Some (True, ?q @ b @ NUL # tl r, ret)
      }) = Some (True, ?q @ b @ NUL # tl r, map (\<lambda>c. if c = CHR ''+'' then CHR '' '' else c) v @ NUL # z)"
    using form_value_decoded [of v esc bufpub] assms(8,11,13) by fastforce
  have le: "length ?e < 2 ^ 16" using assms(3,10) by simp
  have ne: "NUL \<notin> set (w @ name @ ''='' @ ?e @ post)" using assms(8) nul by simp
  show ?thesis
    unfolding get_http_param_value_def m H(2-4) bind.bind_lunit Let_def l n if_not_P [OF fits] cut body
      F(1) [OF ne le] option.case F(2) [OF ne le] F(3) [OF ne le] z
    by simp
qed

lemma http_form_value_witness:
  "\<exists>a. get_http_param_value
      (''POST /set HTTP/1.1'' @ CRLF @ ''Content-Length: 15'' @ CRLF @ CRLF @ ''k=1%2B1%26&ip=7'' @ [NUL])
      ''k'' (replicate 256 NUL)
    = Some (True, ''POST /set HTTP/1.1'' @ CRLF @ ''Content-Length: 15'' @ CRLF @ CRLF @ ''k=1%2B1%26&ip=7'' @ [NUL],
        ''1 1&'' @ NUL # a)"
proof -
  let ?h = "''POST /set HTTP/1.1'' @ CRLF" and ?b = "''k=1%2B1%26&ip='' @ ''7''"
  let ?e = "\<lambda>c. c \<in> set ''%&+''"
  have d: "dec_text (length ?b) = ''15''" by code_simp
  have e: "pct_encode ?e ''1+1&'' = ''1%2B1%26''" by code_simp
  have f: "first_in ''Content-Length: '' ?h" "first_in (CRLF @ CRLF) (?h @ ''Content-Length: 15'')" "first_in ''k'' []"
    by (simp_all add: first_in_def strncmp_eq_def)
  show ?thesis
    using http_form_value [of "?h @ ''Content-Length: 15''" ?h ?b "[]" "[]" "''k''" ?e "''1+1&''" "''&ip=7''" "[NUL]" "replicate 256 NUL"] d e f
    by (simp add: pct_def hex_char_def)
qed

end
