(* ===== verification/Spec2Isabelle.thy ===== *)
theory Spec2Isabelle
  imports Apps Mqtt_Interface Sntp Dns Dhcp Tftp Http_Parser
begin

text \<open>
  Firmware for STM32F1 boards: a verification development.

  \<^bold>\<open>The program.\<close> The repository builds small firmware images (\<^verbatim>\<open>utc_clock\<close>, \<^verbatim>\<open>zex_flash_data\<close>,
  \<^verbatim>\<open>zex_rtos\<close>) from its own library \<^verbatim>\<open>sylib\<close> and from the hardware library \<^verbatim>\<open>libopencm3\<close>. \<^verbatim>\<open>sylib\<close> has a
  printf-style logger on a serial port (\<^verbatim>\<open>debug\<close>), a store in one flash page (\<^verbatim>\<open>flash\<close>), a driver for
  the ESP8266 WiFi module on USART2 (\<^verbatim>\<open>esp8266\<close>), and a vendor library for Ethernet chips
  (\<^verbatim>\<open>ioLibrary_Driver\<close>): the driver of the W6300 and its configuration, BSD-like sockets over it, and on
  top of the sockets an MQTT client, an SNTP client, a resolver, a DHCP client and a TFTP client. \<^verbatim>\<open>utc_clock\<close> sets the clock up, starts the logger and
  the module, and from then on lives in the module's receive interrupt, which reassembles lines and
  frames, reacts to them with AT commands, saves networks in flash and hands HTTP requests to the
  application's handler.

  \<^bold>\<open>The model.\<close> Hardware is not under \<^verbatim>\<open>src\<close>: it is the parameter \<open>env\<close>, the word that a register
  read returns as a function of the history of all accesses before it. A driver is a function on
  that history; one that polls returns an option, with \<open>None\<close> for a wait that never ends (the loops
  are partial functions, there is no fuel anywhere). What a peripheral promises (the reference
  manual's words on flash programming, oscillators, transmit flags) is a locale over \<open>env\<close>, and
  each is interpreted on the simulated board of \<open>Sim\<close>, which the witnesses use. \<open>None\<close> is also the
  value of every execution that C leaves undefined in the parts that handle buffers: an access
  outside an array, a string without its end, a signed overflow, an argument of the wrong kind.

  \<^bold>\<open>The theories.\<close>
  \<^item> \<open>Prelude\<close>: machine words, little-endian words and the lemmas shared by all.
  \<^item> \<open>Mmio\<close>: the accesses \<^verbatim>\<open>MMIO32\<close>, \<^verbatim>\<open>MMIO16\<close>, \<^verbatim>\<open>MMIO8\<close>, histories, polling loops.
  \<^item> \<open>Flash\<close>, \<open>Rcc\<close>, \<open>Gpio\<close>, \<open>Usart\<close>, \<open>Nvic\<close>: the drivers of \<^verbatim>\<open>libopencm3/lib/stm32/f1\<close>,
    \<^verbatim>\<open>lib/stm32/common\<close> and \<^verbatim>\<open>lib/cm3\<close> that the programs use, whole files; \<open>Sim\<close> is a board on which
    their promises hold. \<open>Clock\<close> gives a clock configuration its meaning in hertz: the tables of
    \<^verbatim>\<open>rcc.c\<close> are consistent, \<^verbatim>\<open>rcc_clock_setup_pll\<close> leaves every field at the table's value and never
    selects a clock that was not seen ready, and each of the older fixed set-up functions leaves the same
    clock registers, except for the USB prescaler or the divider of the PLL input where only one of the two
    writes it.
  \<^item> \<open>Eeprom\<close>: \<^verbatim>\<open>sylib/flash/eeprom.c\<close>; what is written is read back, nothing else changes.
  \<^item> \<open>Clib\<close>: \<^verbatim>\<open>strlen\<close>, \<^verbatim>\<open>strncpy\<close>, \<^verbatim>\<open>strtol\<close>, \<^verbatim>\<open>snprintf\<close> and the others as the sources use them.
  \<^item> \<open>Debug\<close>: \<^verbatim>\<open>sylib/debug/debug.c\<close>, refined to a reference semantics of format strings, with the
    round trips of its number formats.
  \<^item> \<open>Credentials\<close>: the saved networks of \<^verbatim>\<open>esp8266.h\<close>, their layout in flash and their update.
  \<^item> \<open>Esp8266\<close>: every function of \<^verbatim>\<open>esp8266.c\<close> on the record of its statics, and the interrupt
    \<^verbatim>\<open>usart2_isr\<close>. \<open>Esp_Commands\<close> shows what each command sends, \<open>Esp_Isr\<close> the invariant of the
    statics, \<open>Esp_Safety\<close> that from every reachable state every call and interrupt returns, with
    the reachable states an inductive predicate, and \<open>Esp_Frames\<close> what a stream of bytes does:
    each line and each frame is delivered exactly once.
  \<^item> \<open>Apps\<close>: the programs themselves.
  \<^item> \<open>Mqtt_Packet\<close>, \<open>Mqtt_Connect\<close>, \<open>Mqtt_Publish\<close>, \<open>Mqtt_Subscribe\<close>: the codec of
    \<^verbatim>\<open>Internet/MQTT/MQTTPacket/src\<close>, file by file. Serializers stay inside the buffer whose length they
    are given (where their check is right), and deserializing gives back what was serialized. The
    length of a packet is bounded by 268435455, the limit of its four-byte encoding, in the
    properties; strings by 65535, the limit of their two-byte length.
  \<^item> \<open>Mqtt_Client\<close>: the session of \<^verbatim>\<open>MQTTClient.c\<close> over the codec, with the network, the clock and the
    message handlers as parameters. \<open>Mqtt_Session\<close> refines topic matching to the definition of the
    MQTT standard, shows which handlers a message reaches, and proves the invariant of the client
    under every sequence of operations; \<open>Mqtt_Traffic\<close> has what is sent and received.
  \<^item> \<open>W6300\<close>: \<^verbatim>\<open>Ethernet/W6300/w6300.c\<close> and the register addresses and accessors of \<^verbatim>\<open>w6300.h\<close>, over
    the callbacks that \<^verbatim>\<open>wizchip_conf.h\<close> collects in \<^verbatim>\<open>_WIZCHIP\<close>; the callbacks and what they see of
    the chip are a parameter.
  \<^item> \<open>Socket\<close> and \<open>Socket_Data\<close>: every function of \<^verbatim>\<open>Ethernet/socket.c\<close>, in the configuration that the
    sources select (W6300, with IPv6). \<open>Socket_Spec\<close> shows, for every chip, that the driver's
    variables stay well-formed and that calls on one socket leave the others alone. \<open>Chip_Model\<close>
    builds callbacks for a chip with memory whose reaction to a write is a parameter; on such chips
    \<open>Socket_Rx\<close> shows what \<^verbatim>\<open>recvfrom\<close> delivers, what \<^verbatim>\<open>send\<close> queues and when a non-blocking one
    answers that it is busy, from the documented behaviour of the
    commands, stated as predicates on the reaction (\<open>rx_contract\<close>, \<open>tx_contract\<close>, \<open>close_contract\<close>).
  \<^item> \<open>Mqtt_Interface\<close>: the functions of \<^verbatim>\<open>mqtt_interface.c\<close> that put the MQTT client on a socket. They give
    the client its network (the locale \<open>stream_network\<close>), so that publishing and reading a packet are
    followed from the client down to the chip's buffers.
  \<^item> \<open>Sntp_Date\<close> and \<open>Sntp\<close>: \<^verbatim>\<open>Internet/SNTP/sntp.c\<close>; the conversion of seconds to dates is refined to the
    Gregorian calendar, and an answer in the socket sets the local time.
  \<^item> \<open>Dns\<close>: \<^verbatim>\<open>Internet/DNS/dns.c\<close>; the name in a query is read back, the address in a reply is found,
    and the wait for a reply ends, however many rounds it makes between two ticks of the timer.
  \<^item> \<open>Wizchip_Conf\<close>: \<^verbatim>\<open>Ethernet/wizchip_conf.c\<close> for the W6300: registration of callbacks, reset, buffer
    sizes, interrupts, the PHY, network settings, the services of the chip and the control functions.
    A reset keeps the network settings and their lock (of the other locks it can only close the chip's),
    settings are read back, and the sizes accepted are bounded and set for every socket.
  \<^item> \<open>Dhcp\<close>: \<^verbatim>\<open>Internet/DHCP/dhcp.c\<close>. The option parser is refined to lists of options and reads the
    client's own requests back; a client that nobody answers gives up; an invariant over all calls,
    ticks and uses of the chip shows that a changed address is never noticed.
  \<^item> \<open>Netutil\<close>: \<^verbatim>\<open>Internet/TFTP/netutil.c\<close>; byte orders are inverted, and the text of an address is read
    back as the address. \<open>Tftp\<close>: \<^verbatim>\<open>Internet/TFTP/tftp.c\<close>; whatever arrives after a request, the blocks
    stored are 1, 2, 3 and so on, each once; a file whose blocks arrive, with repetitions, is stored whole; and
    a request without an answer is sent six times, every five seconds, and given up after 25 seconds.
  \<^item> \<open>Http_Parser\<close>: \<^verbatim>\<open>Internet/httpServer/httpParser.c\<close>, on character arrays; a request line is split
    and a form value decoded, against a reference encoder.

  \<^bold>\<open>Where the code falls short.\<close> Some properties, and more lemmas, state faults as the code has them.
  In \<^verbatim>\<open>esp8266.c\<close> an OK stores the empty network, long commands are cut, a response announces more than
  is sent and a frame length wraps at 16 bits. In the MQTT client a partial write is continued with
  the wrong length, a failed read is reported as success, a packet that arrives in two parts is lost
  and the size of the read buffer is not looked at; in its codec some length checks are too weak. In
  the socket layer the blocking mode of a socket is taken from the wrong flag, and a send that reports
  busy may have queued its data. In \<^verbatim>\<open>wizchip_conf.c\<close> the network mode is read back wrongly, sums of buffer
  sizes wrap and a time-out of a service is reported as a router advertisement. The DHCP client ignores
  the address of a renewed lease. A TFTP client takes any packet that is not full for the last one. Dates from February
  2036 on wrap in \<^verbatim>\<open>sntp.c\<close>. The repeated query of
  \<^verbatim>\<open>dns.c\<close> is empty and the longest name it accepts overflows the array for the reply's names. The HTTP
  parser turns an encoded plus sign into a space and decodes past the end of a string.

  \<^bold>\<open>Limits.\<close> An interrupt is taken between calls of the main program, as in \<^verbatim>\<open>utc_clock\<close>, whose main
  loop is empty; a call interrupted half-way is not modelled, except for the second timers of \<^verbatim>\<open>dns.c\<close>
  and \<^verbatim>\<open>dhcp.c\<close>, whose ticks during each round of a wait are a parameter (\<open>ticks\<close>). The interrupt itself is not
  interrupted. A message handler of the MQTT client does not call back into the client. The C integers
  of the MQTT codec are unbounded (lengths stay far below the limit of \<^verbatim>\<open>int\<close>); everywhere else widths
  are kept. Local arrays that the code does not initialise start as zeros.
  Pointers are not null, unless a theory says otherwise. What the chip does on its own or in answer to
  a command is a parameter; the properties that need it name the documented behaviour as hypotheses,
  and their witnesses run on a concrete chip.

  \<^bold>\<open>Not modelled.\<close> The drivers of \<^verbatim>\<open>libopencm3\<close> for peripherals and parts the programs do not use;
  the reset code and vector table; the drivers of the chips other than the W6300, which the
  configuration leaves out, with the default functions of the bus and SPI interfaces, which are only
  named; the packet formatter of the MQTT codec, whose output goes to logs; SNMP, DHCP for IPv6,
  address autoconfiguration and the loop of the HTTP server, which no program of the repository uses; the
  demo applications of the vendor; build files and linker scripts.
\<close>

end
